(* ===== verification/Prelude.thy ===== *)
theory Prelude
  imports Main "HOL-Library.Char_ord" "HOL-Library.List_Lexorder"
begin

text \<open>
  What every component of the model shares: the exceptions the services throw, the
  programs that read and write the database (a state passed explicitly, with a thrown
  exception as a left injection), the database operations on one table, and the few
  functions of JavaScript's standard library on strings, numbers and dates that the
  source uses.

  A string of the source is a HOL \<open>string\<close>: one \<open>char\<close> stands for one UTF-16 code unit
  below 256. The few literals of the source outside that range (a dash, an ellipsis) occur
  in descriptions only, which no operation inspects; they are spelled as their UTF-8 bytes.
\<close>

named_theorems prog_defs \<open>the definitions of the program combinators and table operations\<close>

section \<open>Exceptions and programs\<close>

text \<open>
  The HTTP exceptions of NestJS that the services throw, with their message (and, for the
  structured ones, the reason codes of the body); \<open>InternalError\<close> is any other thrown error,
  such as the one Prisma raises when a row to update does not exist.
\<close>

datatype exn =
    NotFoundException string
  | BadRequestException string
  | ForbiddenException string "string list"
  | UnauthorizedException string
  | ServiceUnavailableException string
  | TooManyRequestsException string
  | ConflictException string
  | BadGatewayException string
  | InternalError string

text \<open>
  A program over a state: it returns a value or throws, and either way leaves a state.
  What was written before a throw stays written: outside a transaction the source does
  not roll back.
\<close>

type_synonym ('w, 'a) prog = "'w \<Rightarrow> (exn + 'a) \<times> 'w"

definition ret :: "'a \<Rightarrow> ('w, 'a) prog" where
  "ret a = (\<lambda>w. (Inr a, w))"

definition throw :: "exn \<Rightarrow> ('w, 'a) prog" where
  "throw e = (\<lambda>w. (Inl e, w))"

definition bind_p :: "('w, 'a) prog \<Rightarrow> ('a \<Rightarrow> ('w, 'b) prog) \<Rightarrow> ('w, 'b) prog" where
  "bind_p m f = (\<lambda>w. case m w of (Inl e, w1) \<Rightarrow> (Inl e, w1) | (Inr a, w1) \<Rightarrow> f a w1)"

definition catch_p :: "('w, 'a) prog \<Rightarrow> (exn \<Rightarrow> ('w, 'a) prog) \<Rightarrow> ('w, 'a) prog" where
  "catch_p m h = (\<lambda>w. case m w of (Inl e, w1) \<Rightarrow> h e w1 | (Inr a, w1) \<Rightarrow> (Inr a, w1))"

text \<open>\<open>if (!b) throw e\<close>, and a statement run only under a condition.\<close>

definition ensure :: "bool \<Rightarrow> exn \<Rightarrow> ('w, unit) prog" where
  "ensure b e = (if b then ret () else throw e)"

definition when_p :: "bool \<Rightarrow> ('w, unit) prog \<Rightarrow> ('w, unit) prog" where
  "when_p b m = (if b then m else ret ())"

definition require_some :: "'a option \<Rightarrow> exn \<Rightarrow> ('w, 'a) prog" where
  "require_some x e = (case x of None \<Rightarrow> throw e | Some a \<Rightarrow> ret a)"

definition seq_p :: "('w, 'a) prog \<Rightarrow> ('w, 'b) prog \<Rightarrow> ('w, 'b) prog" where
  "seq_p m n = bind_p m (\<lambda>_. n)"

definition void_p :: "('w, 'a) prog \<Rightarrow> ('w, unit) prog" where
  "void_p m = bind_p m (\<lambda>_. ret ())"

definition ask :: "('w \<Rightarrow> 'a) \<Rightarrow> ('w, 'a) prog" where
  "ask f = (\<lambda>w. (Inr (f w), w))"

definition modify_p :: "('w \<Rightarrow> 'w) \<Rightarrow> ('w, unit) prog" where
  "modify_p f = (\<lambda>w. (Inr (), f w))"

primrec map_p :: "('x \<Rightarrow> ('w, 'a) prog) \<Rightarrow> 'x list \<Rightarrow> ('w, 'a list) prog" where
  "map_p f [] = ret []"
| "map_p f (x # xs) = bind_p (f x) (\<lambda>a. bind_p (map_p f xs) (\<lambda>as. ret (a # as)))"

primrec for_p :: "('x \<Rightarrow> ('w, unit) prog) \<Rightarrow> 'x list \<Rightarrow> ('w, unit) prog" where
  "for_p f [] = ret ()"
| "for_p f (x # xs) = seq_p (f x) (for_p f xs)"

text \<open>A best-effort step: \<open>try { await m } catch { log }\<close>, the value being dropped.\<close>

definition attempt :: "('w, 'a) prog \<Rightarrow> ('w, unit) prog" where
  "attempt m = catch_p (void_p m) (\<lambda>_. ret ())"

lemmas prog_core_defs [prog_defs] =
  ret_def throw_def bind_p_def catch_p_def ensure_def when_p_def require_some_def
  seq_p_def void_p_def ask_def modify_p_def

lemma bind_p_ret [simp]: "bind_p (ret a) f = f a"
  by (simp add: prog_defs)

lemma bind_p_throw [simp]: "bind_p (throw e) f = throw e"
  by (simp add: prog_defs)

lemma bind_p_Inr:
  "bind_p m f w = (Inr b, w') \<longleftrightarrow> (\<exists>a w1. m w = (Inr a, w1) \<and> f a w1 = (Inr b, w'))"
  by (auto simp: bind_p_def split: prod.splits sum.splits)

lemma bind_p_Inl:
  "bind_p m f w = (Inl e, w') \<longleftrightarrow>
     m w = (Inl e, w') \<or> (\<exists>a w1. m w = (Inr a, w1) \<and> f a w1 = (Inl e, w'))"
  by (auto simp: bind_p_def split: prod.splits sum.splits)

text \<open>Inversion of a run that returned: each step returned.\<close>

lemma seq_p_Inr:
  "seq_p m n w = (Inr b, w') \<longleftrightarrow> (\<exists>a w1. m w = (Inr a, w1) \<and> n w1 = (Inr b, w'))"
  by (simp add: seq_p_def bind_p_Inr)

lemma ensure_Inr: "ensure b e w = (Inr u, w') \<longleftrightarrow> b \<and> w' = w"
  by (auto simp: ensure_def ret_def throw_def)

lemma ret_Inr: "ret a w = (Inr b, w') \<longleftrightarrow> b = a \<and> w' = w"
  by (auto simp: ret_def)

lemma throw_Inr: "throw e w = (Inr b, w') \<longleftrightarrow> False"
  by (simp add: throw_def)

lemma require_some_Inr: "require_some x e w = (Inr a, w') \<longleftrightarrow> x = Some a \<and> w' = w"
  by (auto simp: require_some_def ret_def throw_def split: option.splits)

lemma ask_Inr: "ask f w = (Inr a, w') \<longleftrightarrow> a = f w \<and> w' = w"
  by (auto simp: ask_def)

lemma void_p_Inr: "void_p m w = (Inr u, w') \<longleftrightarrow> (\<exists>a. m w = (Inr a, w'))"
  by (auto simp: void_p_def bind_p_Inr ret_Inr)

lemmas run_Inr = bind_p_Inr seq_p_Inr ensure_Inr ret_Inr throw_Inr require_some_Inr ask_Inr
  void_p_Inr

section \<open>Running a program\<close>

text \<open>
  \<open>runs m w Q\<close>: from \<open>w\<close> the program returns, with a value and a state that satisfy \<open>Q\<close>.
  \<open>raises m w Q\<close>: it throws, with an exception and a state that satisfy \<open>Q\<close>. A run always
  does exactly one of the two. The equations below compute both through the combinators, so
  the outcome of a service on given inputs is a matter of simplification.
\<close>

named_theorems run_simps \<open>equations for \<open>runs\<close> and \<open>raises\<close>\<close>

definition runs :: "('w, 'a) prog \<Rightarrow> 'w \<Rightarrow> ('a \<Rightarrow> 'w \<Rightarrow> bool) \<Rightarrow> bool" where
  "runs m w Q \<longleftrightarrow> (case m w of (Inr a, w') \<Rightarrow> Q a w' | (Inl e, w') \<Rightarrow> False)"

definition raises :: "('w, 'a) prog \<Rightarrow> 'w \<Rightarrow> (exn \<Rightarrow> 'w \<Rightarrow> bool) \<Rightarrow> bool" where
  "raises m w Q \<longleftrightarrow> (case m w of (Inl e, w') \<Rightarrow> Q e w' | (Inr a, w') \<Rightarrow> False)"

lemma runs_iff: "runs m w Q \<longleftrightarrow> (\<exists>a w'. m w = (Inr a, w') \<and> Q a w')"
  by (auto simp: runs_def split: prod.splits sum.splits)

lemma raises_iff: "raises m w Q \<longleftrightarrow> (\<exists>e w'. m w = (Inl e, w') \<and> Q e w')"
  by (auto simp: raises_def split: prod.splits sum.splits)

lemma runs_eq: "runs m w (\<lambda>a w'. a = b \<and> w' = v) \<longleftrightarrow> m w = (Inr b, v)"
  by (auto simp: runs_iff)

lemma raises_eq: "raises m w (\<lambda>e w'. e = x \<and> w' = v) \<longleftrightarrow> m w = (Inl x, v)"
  by (auto simp: raises_iff)

lemma runs_mono: "runs m w P \<Longrightarrow> (\<And>a w'. P a w' \<Longrightarrow> Q a w') \<Longrightarrow> runs m w Q"
  by (auto simp: runs_iff)

lemma raises_mono: "raises m w P \<Longrightarrow> (\<And>e w'. P e w' \<Longrightarrow> Q e w') \<Longrightarrow> raises m w Q"
  by (auto simp: raises_iff)

lemma runs_never [run_simps]: "runs m w (\<lambda>_ _. False) \<longleftrightarrow> False"
  by (simp add: runs_iff)

lemma raises_never [run_simps]: "raises m w (\<lambda>_ _. False) \<longleftrightarrow> False"
  by (simp add: raises_iff)

lemma not_runs_raises: "runs m w P \<Longrightarrow> raises m w Q \<Longrightarrow> False"
  by (auto simp: runs_iff raises_iff)

lemma runs_or_raises: "runs m w (\<lambda>_ _. True) \<or> raises m w (\<lambda>_ _. True)"
  by (auto simp: runs_def raises_def split: prod.splits sum.splits)

lemma runs_bind [run_simps]: "runs (bind_p m f) w Q \<longleftrightarrow> runs m w (\<lambda>a w'. runs (f a) w' Q)"
  by (auto simp: runs_def bind_p_def split: prod.splits sum.splits)

lemma runs_seq [run_simps]: "runs (seq_p m n) w Q \<longleftrightarrow> runs m w (\<lambda>a w'. runs n w' Q)"
  by (simp add: seq_p_def runs_bind)

lemma runs_void [run_simps]: "runs (void_p m) w Q \<longleftrightarrow> runs m w (\<lambda>a w'. Q () w')"
  by (simp add: void_p_def runs_bind) (simp add: runs_def ret_def)

lemma runs_basic [run_simps]:
  "runs (ret a) w Qa \<longleftrightarrow> Qa a w"
  "runs (throw e) w Qt \<longleftrightarrow> False"
  "runs (ask f) w Qf \<longleftrightarrow> Qf (f w) w"
  "runs (modify_p g) w Q \<longleftrightarrow> Q () (g w)"
  "runs (ensure b e) w Q \<longleftrightarrow> b \<and> Q () w"
  "runs (when_p b m') w Q \<longleftrightarrow> (if b then runs m' w Q else Q () w)"
  "runs (require_some x e) w R \<longleftrightarrow> (case x of None \<Rightarrow> False | Some c \<Rightarrow> R c w)"
  "runs (if b then m else n) w Qi \<longleftrightarrow> (if b then runs m w Qi else runs n w Qi)"
  by (auto simp: runs_def prog_defs split: option.splits)

lemma runs_catch:
  "runs (catch_p m h) w Q \<longleftrightarrow> runs m w Q \<or> raises m w (\<lambda>e w'. runs (h e) w' Q)"
  by (auto simp: runs_def raises_def catch_p_def split: prod.splits sum.splits)

lemma raises_bind [run_simps]:
  "raises (bind_p m f) w Q \<longleftrightarrow> raises m w Q \<or> runs m w (\<lambda>a w'. raises (f a) w' Q)"
  by (auto simp: runs_def raises_def bind_p_def split: prod.splits sum.splits)

lemma raises_seq [run_simps]:
  "raises (seq_p m n) w Q \<longleftrightarrow> raises m w Q \<or> runs m w (\<lambda>a w'. raises n w' Q)"
  by (simp add: seq_p_def raises_bind)

lemma raises_void [run_simps]: "raises (void_p m) w Q \<longleftrightarrow> raises m w Q"
  by (simp add: void_p_def raises_bind) (simp add: runs_def raises_def ret_def split: prod.splits sum.splits)

lemma raises_basic [run_simps]:
  "raises (ret a) w Q \<longleftrightarrow> False"
  "raises (throw e) w Q \<longleftrightarrow> Q e w"
  "raises (ask f) w Q \<longleftrightarrow> False"
  "raises (modify_p g) w Q \<longleftrightarrow> False"
  "raises (ensure b e) w Q \<longleftrightarrow> \<not> b \<and> Q e w"
  "raises (when_p b m') w Q \<longleftrightarrow> b \<and> raises m' w Q"
  "raises (require_some x e) w Q \<longleftrightarrow> x = None \<and> Q e w"
  "raises (if b then m else n) w Q \<longleftrightarrow> (if b then raises m w Q else raises n w Q)"
  by (auto simp: raises_def prog_defs split: option.splits)

lemma raises_catch:
  "raises (catch_p m h) w Q \<longleftrightarrow> raises m w (\<lambda>e w'. raises (h e) w' Q)"
  by (auto simp: raises_def catch_p_def split: prod.splits sum.splits)

text \<open>\<open>ends m w P\<close>: however it ends, the outcome and the final state satisfy \<open>P\<close>.\<close>

definition ends :: "('w, 'a) prog \<Rightarrow> 'w \<Rightarrow> (exn + 'a \<Rightarrow> 'w \<Rightarrow> bool) \<Rightarrow> bool" where
  "ends m w P \<longleftrightarrow> (case m w of (r, w') \<Rightarrow> P r w')"

lemma ends_iff:
  "ends m w P \<longleftrightarrow> runs m w (\<lambda>a w'. P (Inr a) w') \<or> raises m w (\<lambda>e w'. P (Inl e) w')"
  by (auto simp: ends_def runs_def raises_def split: prod.splits sum.splits)

lemma ends_runs: "runs m w Q \<Longrightarrow> (\<And>a w'. Q a w' \<Longrightarrow> P (Inr a) w') \<Longrightarrow> ends m w P"
  by (auto simp: ends_iff elim: runs_mono)

lemma ends_mono: "ends m w P \<Longrightarrow> (\<And>r w'. P r w' \<Longrightarrow> Q r w') \<Longrightarrow> ends m w Q"
  by (auto simp: ends_def)

lemma endsD: "ends m w P \<Longrightarrow> m w = (r, w') \<Longrightarrow> P r w'"
  by (simp add: ends_def)

lemma ends_bind:
  "ends (bind_p m f) w P \<longleftrightarrow>
     ends m w (\<lambda>r w'. case r of Inl e \<Rightarrow> P (Inl e) w' | Inr a \<Rightarrow> ends (f a) w' P)"
  by (auto simp: ends_def bind_p_def split: prod.splits sum.splits)

lemma ends_seq:
  "ends (seq_p m n) w P \<longleftrightarrow>
     ends m w (\<lambda>r w'. case r of Inl e \<Rightarrow> P (Inl e) w' | Inr a \<Rightarrow> ends n w' P)"
  by (simp add: seq_p_def ends_bind)

lemma ends_basic:
  "ends (ret a) w P \<longleftrightarrow> P (Inr a) w"
  "ends (throw e) w P \<longleftrightarrow> P (Inl e) w"
  "ends (void_p m) w Pu \<longleftrightarrow> ends m w (\<lambda>r w'. Pu (map_sum id (\<lambda>_. ()) r) w')"
  by (auto simp: ends_def prog_defs split: prod.splits sum.splits)

lemmas ends_simps = ends_bind ends_seq ends_basic

section \<open>What a program may do to the state\<close>

text \<open>
  \<open>moves R m\<close>: wherever it is run, and whether it returns or throws, the program leaves a
  state related by \<open>R\<close> to the one it started in. For a reflexive and transitive \<open>R\<close> this is
  closed under all the combinators, so a property of a whole service (a log is only
  extended, an invariant is kept, a table is untouched) follows from its single steps.
\<close>

definition moves :: "('w \<Rightarrow> 'w \<Rightarrow> bool) \<Rightarrow> ('w, 'a) prog \<Rightarrow> bool" where
  "moves R m \<longleftrightarrow> (\<forall>w. R w (snd (m w)))"

lemma movesD: "moves R m \<Longrightarrow> m w = (r, w') \<Longrightarrow> R w w'"
  by (auto simp: moves_def dest: spec [of _ w])

lemma runs_attempt: "moves R m \<Longrightarrow> (\<And>w'. R w w' \<Longrightarrow> Q () w') \<Longrightarrow> runs (attempt m) w Q"
  unfolding moves_def attempt_def runs_def catch_p_def void_p_def bind_p_def ret_def
  by (auto split: prod.splits sum.splits dest: spec [of _ w])

lemma attempt_raises [run_simps]: "raises (attempt m) w Q \<longleftrightarrow> False"
  by (simp add: attempt_def raises_catch raises_basic raises_never)

locale step_preorder =
  fixes R :: "'w \<Rightarrow> 'w \<Rightarrow> bool"
  assumes refl: "R w w"
    and trans: "R u v \<Longrightarrow> R v w \<Longrightarrow> R u w"
begin

lemma ret_moves: "moves R (ret a)"
  by (simp add: moves_def ret_def refl)

lemma throw_moves: "moves R (throw e)"
  by (simp add: moves_def throw_def refl)

lemma ask_moves: "moves R (ask f)"
  by (simp add: moves_def ask_def refl)

lemma bind_moves: "moves R m \<Longrightarrow> (\<And>a. moves R (f a)) \<Longrightarrow> moves R (bind_p m f)"
  unfolding moves_def bind_p_def
  by (auto split: prod.splits sum.splits intro: trans dest: spec)
     (metis snd_conv trans)+

lemma catch_moves: "moves R m \<Longrightarrow> (\<And>e. moves R (h e)) \<Longrightarrow> moves R (catch_p m h)"
  unfolding moves_def catch_p_def
  by (auto split: prod.splits sum.splits intro: trans dest: spec)
     (metis snd_conv trans)+

lemma seq_moves: "moves R m \<Longrightarrow> moves R n \<Longrightarrow> moves R (seq_p m n)"
  unfolding seq_p_def by (intro bind_moves)

lemma void_moves: "moves R m \<Longrightarrow> moves R (void_p m)"
  unfolding void_p_def by (intro bind_moves ret_moves)

lemma ensure_moves: "moves R (ensure b e)"
  by (simp add: ensure_def ret_moves throw_moves)

lemma when_moves: "(b \<Longrightarrow> moves R m) \<Longrightarrow> moves R (when_p b m)"
  by (simp add: when_p_def ret_moves)

lemma require_some_moves: "moves R (require_some x e)"
  by (simp add: require_some_def ret_moves throw_moves split: option.splits)

lemma map_moves: "(\<And>x. moves R (f x)) \<Longrightarrow> moves R (map_p f xs)"
  by (induction xs) (auto intro: bind_moves ret_moves)

lemma for_moves: "(\<And>x. moves R (f x)) \<Longrightarrow> moves R (for_p f xs)"
  by (induction xs) (auto intro: seq_moves ret_moves)

lemma if_moves: "(b \<Longrightarrow> moves R m) \<Longrightarrow> (\<not> b \<Longrightarrow> moves R n) \<Longrightarrow> moves R (if b then m else n)"
  by simp

lemma option_moves:
  "(x = None \<Longrightarrow> moves R m) \<Longrightarrow> (\<And>a. x = Some a \<Longrightarrow> moves R (f a)) \<Longrightarrow>
   moves R (case x of None \<Rightarrow> m | Some a \<Rightarrow> f a)"
  by (cases x) auto

lemma let_moves: "moves R (f a) \<Longrightarrow> moves R (Let a f)"
  by simp

lemma attempt_moves: "moves R m \<Longrightarrow> moves R (attempt m)"
  unfolding attempt_def by (intro catch_moves void_moves ret_moves)

lemmas moves_rules =
  attempt_moves ret_moves throw_moves ask_moves ensure_moves require_some_moves when_moves
  bind_moves catch_moves seq_moves void_moves map_moves for_moves if_moves option_moves
  let_moves

end

text \<open>A program whose exceptions are swallowed returns, wherever its steps lead.\<close>

lemma runs_caught:
  assumes "moves R m" "\<And>w'. R w w' \<Longrightarrow> Q () w'"
  shows "runs (catch_p (void_p m) (\<lambda>_. ret ())) w Q"
  using assms
  by (auto simp: moves_def runs_def catch_p_def void_p_def bind_p_def ret_def
      split: prod.splits sum.splits dest: spec [of _ w])

text \<open>
  Two such relations: a reading of the state stays the same, and an invariant is kept. The
  interpretations are for every reading and every invariant.
\<close>

interpretation same: step_preorder "\<lambda>w w'. f w' = f w" for f :: "'w \<Rightarrow> 'b"
  by unfold_locales auto

interpretation keep: step_preorder "\<lambda>w w'. I w \<longrightarrow> I w'" for I :: "'w \<Rightarrow> bool"
  by unfold_locales auto

section \<open>The operations on one table\<close>

text \<open>
  A table of the database is a list of rows in the order they were inserted. The operations
  are those of the Prisma client that the services call. \<open>get\<close> reads the table in a state
  and \<open>upd\<close> maps a function over it, as the field update of a record does.
\<close>

definition insert_row :: "(('r list \<Rightarrow> 'r list) \<Rightarrow> 'w \<Rightarrow> 'w) \<Rightarrow> 'r \<Rightarrow> ('w, 'r) prog" where
  "insert_row upd r = (\<lambda>w. (Inr r, upd (\<lambda>rs. rs @ [r]) w))"

definition find_row :: "('w \<Rightarrow> 'r list) \<Rightarrow> ('r \<Rightarrow> bool) \<Rightarrow> ('w, 'r option) prog" where
  "find_row get P = ask (\<lambda>w. find P (get w))"

definition find_rows :: "('w \<Rightarrow> 'r list) \<Rightarrow> ('r \<Rightarrow> bool) \<Rightarrow> ('w, 'r list) prog" where
  "find_rows get P = ask (\<lambda>w. filter P (get w))"

definition count_rows :: "('w \<Rightarrow> 'r list) \<Rightarrow> ('r \<Rightarrow> bool) \<Rightarrow> ('w, nat) prog" where
  "count_rows get P = ask (\<lambda>w. length (filter P (get w)))"

text \<open>\<open>update\<close> by a unique key: the updated row, or Prisma's P2025 when there is none.\<close>

definition update_row ::
    "('w \<Rightarrow> 'r list) \<Rightarrow> (('r list \<Rightarrow> 'r list) \<Rightarrow> 'w \<Rightarrow> 'w) \<Rightarrow> ('r \<Rightarrow> bool) \<Rightarrow> ('r \<Rightarrow> 'r) \<Rightarrow> ('w, 'r) prog"
  where
  "update_row get upd P f =
     (\<lambda>w. case find P (get w) of
            None \<Rightarrow> (Inl (InternalError ''P2025''), w)
          | Some r \<Rightarrow> (Inr (f r), upd (map (\<lambda>r. if P r then f r else r)) w))"

text \<open>\<open>updateMany\<close>: every matching row, and no error when there is none.\<close>

definition update_rows ::
    "(('r list \<Rightarrow> 'r list) \<Rightarrow> 'w \<Rightarrow> 'w) \<Rightarrow> ('r \<Rightarrow> bool) \<Rightarrow> ('r \<Rightarrow> 'r) \<Rightarrow> ('w, unit) prog" where
  "update_rows upd P f = modify_p (upd (map (\<lambda>r. if P r then f r else r)))"

definition delete_rows ::
    "(('r list \<Rightarrow> 'r list) \<Rightarrow> 'w \<Rightarrow> 'w) \<Rightarrow> ('r \<Rightarrow> bool) \<Rightarrow> ('w, unit) prog" where
  "delete_rows upd P = modify_p (upd (filter (\<lambda>r. \<not> P r)))"

lemmas table_defs [prog_defs] =
  insert_row_def find_row_def find_rows_def count_rows_def update_row_def update_rows_def
  delete_rows_def

lemma find_row_Inr: "find_row get P w = (Inr x, w') \<longleftrightarrow> x = find P (get w) \<and> w' = w"
  by (auto simp: prog_defs)

lemma find_rows_Inr: "find_rows get P w = (Inr x, w') \<longleftrightarrow> x = filter P (get w) \<and> w' = w"
  by (auto simp: prog_defs)

lemma count_rows_Inr:
  "count_rows get P w = (Inr n, w') \<longleftrightarrow> n = length (filter P (get w)) \<and> w' = w"
  by (auto simp: prog_defs)

lemma insert_row_Inr:
  "insert_row upd r w = (Inr x, w') \<longleftrightarrow> x = r \<and> w' = upd (\<lambda>rs. rs @ [r]) w"
  by (auto simp: prog_defs)

lemma update_row_Inr:
  "update_row get upd P f w = (Inr x, w') \<longleftrightarrow>
     (\<exists>r. find P (get w) = Some r \<and> x = f r \<and>
          w' = upd (map (\<lambda>r. if P r then f r else r)) w)"
  by (auto simp: prog_defs split: option.splits)

lemmas table_Inr = find_row_Inr find_rows_Inr count_rows_Inr insert_row_Inr update_row_Inr

lemma runs_table [run_simps]:
  "runs (find_row get P) w Q \<longleftrightarrow> Q (find P (get w)) w"
  "runs (find_rows get P) w Qs \<longleftrightarrow> Qs (filter P (get w)) w"
  "runs (count_rows get P) w Qn \<longleftrightarrow> Qn (length (filter P (get w))) w"
  "runs (insert_row upd r) w Qi \<longleftrightarrow> Qi r (upd (\<lambda>rs. rs @ [r]) w)"
  "runs (update_row get upd P f) w Qr \<longleftrightarrow>
     (case find P (get w) of None \<Rightarrow> False
      | Some r \<Rightarrow> Qr (f r) (upd (map (\<lambda>r. if P r then f r else r)) w))"
  "runs (update_rows upd P f) w Qu \<longleftrightarrow> Qu () (upd (map (\<lambda>r. if P r then f r else r)) w)"
  "runs (delete_rows upd P) w Qu \<longleftrightarrow> Qu () (upd (filter (\<lambda>r. \<not> P r)) w)"
  by (auto simp: runs_def table_defs prog_core_defs split: option.splits)

lemma raises_table [run_simps]:
  "raises (find_row get P) w Q \<longleftrightarrow> False"
  "raises (find_rows get P) w Q \<longleftrightarrow> False"
  "raises (count_rows get P) w Q \<longleftrightarrow> False"
  "raises (insert_row upd r) w Q \<longleftrightarrow> False"
  "raises (update_row get upd P f) w Q \<longleftrightarrow>
     find P (get w) = None \<and> Q (InternalError ''P2025'') w"
  "raises (update_rows upd P f) w Q \<longleftrightarrow> False"
  "raises (delete_rows upd P) w Q \<longleftrightarrow> False"
  by (auto simp: raises_def table_defs prog_core_defs split: option.splits)

context step_preorder begin

lemma find_row_moves: "moves R (find_row get P)"
  by (simp add: find_row_def ask_moves)

lemma find_rows_moves: "moves R (find_rows get P)"
  by (simp add: find_rows_def ask_moves)

lemma count_rows_moves: "moves R (count_rows get P)"
  by (simp add: count_rows_def ask_moves)

text \<open>Writes, when every update of the table is a step of the relation.\<close>

lemma insert_row_moves: "(\<And>g w. R w (upd g w)) \<Longrightarrow> moves R (insert_row upd r)"
  by (simp add: insert_row_def moves_def)

lemma update_row_moves: "(\<And>g w. R w (upd g w)) \<Longrightarrow> moves R (update_row get upd P f)"
  by (simp add: update_row_def moves_def refl split: option.splits)

lemma update_rows_moves: "(\<And>g w. R w (upd g w)) \<Longrightarrow> moves R (update_rows upd P f)"
  by (simp add: update_rows_def modify_p_def moves_def)

lemma delete_rows_moves: "(\<And>g w. R w (upd g w)) \<Longrightarrow> moves R (delete_rows upd P)"
  by (simp add: delete_rows_def modify_p_def moves_def)

lemmas table_moves =
  find_row_moves find_rows_moves count_rows_moves insert_row_moves update_row_moves
  update_rows_moves delete_rows_moves

end

lemma find_SomeD: "find P xs = Some x \<Longrightarrow> x \<in> set xs \<and> P x"
  by (metis find_Some_iff nth_mem)

lemma find_mapped:
  assumes "find P xs = Some x" "\<And>r. P (f r) \<longleftrightarrow> P r"
  shows "find P (map (\<lambda>r. if P r then f r else r) xs) = Some (f x)"
proof -
  have *: "P (if P r then f r else r) \<longleftrightarrow> P r" for r
    by (simp add: assms(2))
  show ?thesis
    using assms(1) by (induction xs) (simp_all add: * split: if_splits)
qed

text \<open>The same when the update is by another key that the row found also has.\<close>

lemma find_mapped_by:
  assumes "find P xs = Some x" "Q x" "\<And>r. P (f r) \<longleftrightarrow> P r"
  shows "find P (map (\<lambda>r. if Q r then f r else r) xs) = Some (f x)"
proof -
  have *: "P (if Q r then f r else r) \<longleftrightarrow> P r" for r
    by (simp add: assms(3))
  show ?thesis
    using assms(1,2) by (induction xs) (simp_all add: * split: if_splits)
qed

text \<open>A row found by its key and more is the one row of that key.\<close>

lemma find_unique:
  assumes "distinct (map key xs)" "find (\<lambda>r. key r = k \<and> P r) xs = Some x"
  shows "find (\<lambda>r. key r = k) xs = Some x"
  using assms
proof (induction xs)
  case (Cons y ys)
  have "x \<in> set ys \<and> key x = k" if "find (\<lambda>r. key r = k \<and> P r) ys = Some x"
    using find_SomeD [OF that] by simp
  with Cons show ?case by (auto split: if_splits intro: rev_image_eqI)
qed simp

lemma same_key: "distinct (map key xs) \<Longrightarrow> x \<in> set xs \<Longrightarrow> y \<in> set xs \<Longrightarrow> key x = key y \<Longrightarrow> x = y"
  by (auto simp: distinct_map dest: inj_onD)

lemma find_snoc: "find P xs = Some x \<Longrightarrow> find P (xs @ [r]) = Some x"
  by (induction xs) (auto split: if_splits)

lemma find_append_eq:
  "find P (xs @ ys) = (case find P xs of Some x \<Rightarrow> Some x | None \<Rightarrow> find P ys)"
  by (induction xs) auto

lemma find_ex: "(\<exists>y. find P xs = Some y) \<longleftrightarrow> (\<exists>x\<in>set xs. P x)"
  by (metis find_None_iff not_Some_eq)

text \<open>The contract of a table: reading after an update sees the updated rows.\<close>

locale table =
  fixes get :: "'w \<Rightarrow> 'r list"
    and upd :: "('r list \<Rightarrow> 'r list) \<Rightarrow> 'w \<Rightarrow> 'w"
  assumes get_upd: "get (upd f w) = f (get w)"
begin

lemma insert_get: "get (snd (insert_row upd r w)) = get w @ [r]"
  by (simp add: insert_row_def get_upd)

lemma insert_keeps_found:
  "find P (get w) = Some x \<Longrightarrow> find P (get (snd (insert_row upd r w))) = Some x"
  by (simp add: insert_row_def get_upd find_snoc)

lemma update_get:
  "find P (get w) = Some x \<Longrightarrow>
   get (snd (update_row get upd P f w)) = map (\<lambda>r. if P r then f r else r) (get w)"
  by (simp add: update_row_def get_upd)

lemma update_then_find:
  assumes "find P (get w) = Some x" "\<And>r. P (f r) \<longleftrightarrow> P r"
  shows "find P (get (snd (update_row get upd P f w))) = Some (f x)"
  using assms by (simp add: update_get find_mapped)

lemma update_length: "length (get (snd (update_row get upd P f w))) = length (get w)"
  by (simp add: update_row_def get_upd split: option.splits)

lemma update_missing:
  "find P (get w) = None \<Longrightarrow> update_row get upd P f w = (Inl (InternalError ''P2025''), w)"
  by (simp add: update_row_def)

lemma update_others:
  "\<not> P r \<Longrightarrow> r \<in> set (get w) \<Longrightarrow> r \<in> set (get (snd (update_row get upd P f w)))"
  by (force simp: update_row_def get_upd split: option.splits)

end

section \<open>Ordering and paging\<close>

definition order_asc :: "('r \<Rightarrow> 'k::linorder) \<Rightarrow> 'r list \<Rightarrow> 'r list" where
  "order_asc key rs = sort_key key rs"

definition order_desc :: "('r \<Rightarrow> int) \<Rightarrow> 'r list \<Rightarrow> 'r list" where
  "order_desc key rs = sort_key (\<lambda>r. - key r) rs"

lemma set_order_asc [simp]: "set (order_asc key rs) = set rs"
  by (simp add: order_asc_def)

lemma set_order_desc [simp]: "set (order_desc key rs) = set rs"
  by (simp add: order_desc_def)

lemma length_order_desc [simp]: "length (order_desc key rs) = length rs"
  by (simp add: order_desc_def)

lemma length_order_asc [simp]: "length (order_asc key rs) = length rs"
  by (simp add: order_asc_def)

definition first_of :: "'r list \<Rightarrow> 'r option" where
  "first_of rs = (case rs of [] \<Rightarrow> None | r # _ \<Rightarrow> Some r)"

lemma first_of_SomeD: "first_of rs = Some r \<Longrightarrow> r \<in> set rs"
  by (auto simp: first_of_def split: list.splits)

lemma first_of_desc_max:
  assumes "first_of (order_desc key rs) = Some r" "q \<in> set rs"
  shows "key q \<le> key r"
proof -
  from assms(1) obtain tail where t: "order_desc key rs = r # tail"
    by (auto simp: first_of_def split: list.splits)
  have "sorted (map (\<lambda>r. - key r) (r # tail))"
    using t by (metis order_desc_def sorted_sort_key)
  moreover have "q \<in> set (r # tail)" using assms(2) t set_order_desc by metis
  ultimately show ?thesis by auto
qed

lemma first_of_asc_min:
  fixes key :: "'r \<Rightarrow> int"
  assumes "first_of (order_asc key rs) = Some r" "q \<in> set rs"
  shows "key r \<le> key q"
proof -
  from assms(1) obtain tail where t: "order_asc key rs = r # tail"
    by (auto simp: first_of_def split: list.splits)
  have "sorted (map key (r # tail))"
    using t by (metis order_asc_def sorted_sort_key)
  moreover have "q \<in> set (r # tail)" using assms(2) t set_order_asc by metis
  ultimately show ?thesis by auto
qed

lemma first_of_None [simp]: "first_of rs = None \<longleftrightarrow> rs = []"
  by (auto simp: first_of_def split: list.splits)

lemma order_desc_Nil [simp]: "order_desc key rs = [] \<longleftrightarrow> rs = []"
  by (metis length_0_conv length_order_desc)

lemma order_asc_Nil [simp]: "order_asc key rs = [] \<longleftrightarrow> rs = []"
  by (metis length_0_conv length_order_asc)

lemma empty_orders [simp]: "first_of [] = None" "order_asc key [] = []" "order_desc key' [] = []"
  by (simp_all add: first_of_def order_asc_def order_desc_def)

text \<open>\<open>Math.min(Math.max(limit, lo), hi)\<close>, the page size of the list endpoints.\<close>

definition clamp :: "int \<Rightarrow> int \<Rightarrow> int \<Rightarrow> nat" where
  "clamp lo hi limit = nat (min (max limit lo) hi)"

lemma clamp_bounds: "0 \<le> lo \<Longrightarrow> lo \<le> hi \<Longrightarrow> nat lo \<le> clamp lo hi n \<and> clamp lo hi n \<le> nat hi"
  by (auto simp: clamp_def)

section \<open>Strings\<close>

definition digit_char :: "nat \<Rightarrow> char" where
  "digit_char d = char_of (48 + d)"

fun show_nat :: "nat \<Rightarrow> string" where
  "show_nat n = (if n < 10 then [digit_char n] else show_nat (n div 10) @ [digit_char (n mod 10)])"

declare show_nat.simps [simp del]

definition show_int :: "int \<Rightarrow> string" where
  "show_int i = (if i < 0 then ''-'' @ show_nat (nat (- i)) else show_nat (nat i))"

definition code :: "char \<Rightarrow> nat" where
  "code c = of_char c"

definition is_digit :: "char \<Rightarrow> bool" where
  "is_digit c \<longleftrightarrow> 48 \<le> code c \<and> code c \<le> 57"

text \<open>White space of \<open>trim\<close> and of \<open>\s\<close>, below code 256.\<close>

definition is_space :: "char \<Rightarrow> bool" where
  "is_space c \<longleftrightarrow> (9 \<le> code c \<and> code c \<le> 13) \<or> code c = 32 \<or> code c = 160"

definition lower_char :: "char \<Rightarrow> char" where
  "lower_char c =
     (if 65 \<le> code c \<and> code c \<le> 90 \<or> 192 \<le> code c \<and> code c \<le> 222 \<and> code c \<noteq> 215
      then char_of (code c + 32) else c)"

definition upper_char :: "char \<Rightarrow> char" where
  "upper_char c =
     (if 97 \<le> code c \<and> code c \<le> 122 \<or> 224 \<le> code c \<and> code c \<le> 254 \<and> code c \<noteq> 247
      then char_of (code c - 32) else c)"

definition to_lower :: "string \<Rightarrow> string" where
  "to_lower s = map lower_char s"

definition trim :: "string \<Rightarrow> string" where
  "trim s = rev (dropWhile is_space (rev (dropWhile is_space s)))"

text \<open>To evaluate functions on given texts.\<close>

lemmas text_eval = to_lower_def lower_char_def trim_def is_space_def is_digit_def code_def upper_char_def
  char_of_def bit_Suc_0_iff

text \<open>\<open>s.replace(c, d)\<close> with string arguments: the first occurrence only.\<close>

fun replace_first :: "char \<Rightarrow> char \<Rightarrow> string \<Rightarrow> string" where
  "replace_first c d [] = []"
| "replace_first c d (x # xs) = (if x = c then d # xs else x # replace_first c d xs)"

definition starts_with :: "string \<Rightarrow> string \<Rightarrow> bool" where
  "starts_with p s \<longleftrightarrow> take (length p) s = p"

definition ends_with :: "string \<Rightarrow> string \<Rightarrow> bool" where
  "ends_with p s \<longleftrightarrow> starts_with (rev p) (rev s)"

fun join_with :: "string \<Rightarrow> string list \<Rightarrow> string" where
  "join_with sep [] = []"
| "join_with sep [s] = s"
| "join_with sep (s # t # ts) = s @ sep @ join_with sep (t # ts)"

text \<open>\<open>a ?? b\<close>: the default for a missing value.\<close>

definition or_default :: "'a option \<Rightarrow> 'a \<Rightarrow> 'a" where
  "or_default x d = (case x of None \<Rightarrow> d | Some a \<Rightarrow> a)"

definition or_else :: "'a option \<Rightarrow> 'a option \<Rightarrow> 'a option" where
  "or_else x y = (case x of None \<Rightarrow> y | Some a \<Rightarrow> Some a)"

lemma or_default_simps [simp]: "or_default None d = d" "or_default (Some a) d = a"
  by (simp_all add: or_default_def)

lemma or_else_simps [simp]: "or_else None y = y" "or_else (Some a) y = Some a"
  by (simp_all add: or_else_def)

definition em_dash :: string where
  "em_dash = [char_of (226::nat), char_of (128::nat), char_of (148::nat)]"

definition ellipsis :: string where
  "ellipsis = [char_of (226::nat), char_of (128::nat), char_of (166::nat)]"

section \<open>Dates\<close>

text \<open>
  A \<open>Date\<close> is its milliseconds since 1970-01-01T00:00:00Z. \<open>toISOString\<close> prints the
  proleptic Gregorian date; the day count is turned into a date by the usual algorithm on
  400-year eras that start on the first of March.
\<close>

definition civil_of_days :: "int \<Rightarrow> int \<times> int \<times> int" where
  "civil_of_days days =
     (let z = days + 719468;
          era = z div 146097;
          doe = z mod 146097;
          yoe = (doe - doe div 1460 + doe div 36524 - doe div 146096) div 365;
          doy = doe - (365 * yoe + yoe div 4 - yoe div 100);
          mp = (5 * doy + 2) div 153;
          d = doy - (153 * mp + 2) div 5 + 1;
          m = (if mp < 10 then mp + 3 else mp - 9);
          y = yoe + era * 400 + (if m \<le> 2 then 1 else 0)
      in (y, m, d))"

definition pad_left :: "nat \<Rightarrow> string \<Rightarrow> string" where
  "pad_left n s = replicate (n - length s) (CHR ''0'') @ s"

definition iso_year :: "int \<Rightarrow> string" where
  "iso_year y =
     (if 0 \<le> y \<and> y \<le> 9999 then pad_left 4 (show_int y)
      else (if y < 0 then ''-'' else ''+'') @ pad_left 6 (show_int \<bar>y\<bar>))"

definition to_iso_string :: "int \<Rightarrow> string" where
  "to_iso_string ms =
     (let days = ms div 86400000; t = ms mod 86400000; (y, m, d) = civil_of_days days in
      iso_year y @ ''-'' @ pad_left 2 (show_int m) @ ''-'' @ pad_left 2 (show_int d) @ ''T'' @
      pad_left 2 (show_int (t div 3600000)) @ '':'' @
      pad_left 2 (show_int (t mod 3600000 div 60000)) @ '':'' @
      pad_left 2 (show_int (t mod 60000 div 1000)) @ ''.'' @
      pad_left 3 (show_int (t mod 1000)) @ ''Z'')"

end
