(* ===== verification/Database.thy ===== *)
theory Database
  imports Json
begin

text \<open>
  The state the services share: the rows of the database (prisma/schema.prisma), one record
  per model with the columns the services read or write, and the tables as one record that
  is built up in layers, so that a service is typed over the layer it needs and runs in
  every larger one (the further layers are in the theories of their components). Everything outside the repository that the services call (the clock,
  the uuids of the database, random bytes, SHA-256, the providers of e-mail, SMS and push,
  blob storage) is a field of the runtime record, a parameter of the operations.
\<close>

section \<open>Enumerations\<close>

datatype risk_level = LOW | MEDIUM | HIGH | CRITICAL

text \<open>The levels are ordered by severity.\<close>

definition level_rank :: "risk_level \<Rightarrow> nat" where
  "level_rank l = (case l of LOW \<Rightarrow> 0 | MEDIUM \<Rightarrow> 1 | HIGH \<Rightarrow> 2 | CRITICAL \<Rightarrow> 3)"

lemma level_rank_simps [simp]:
  "level_rank LOW = 0" "level_rank MEDIUM = 1" "level_rank HIGH = 2" "level_rank CRITICAL = 3"
  by (simp_all add: level_rank_def)

lemma level_rank_inj: "level_rank a = level_rank b \<Longrightarrow> a = b"
  by (cases a; cases b) simp_all

instantiation risk_level :: linorder
begin

definition less_eq_risk_level :: "risk_level \<Rightarrow> risk_level \<Rightarrow> bool" where
  "a \<le> b \<longleftrightarrow> level_rank a \<le> level_rank b"

definition less_risk_level :: "risk_level \<Rightarrow> risk_level \<Rightarrow> bool" where
  "a < b \<longleftrightarrow> level_rank a < level_rank b"

instance
  by standard (auto simp: less_eq_risk_level_def less_risk_level_def dest: level_rank_inj)

end

lemma level_le_simps [simp]:
  "LOW \<le> l" "l \<le> CRITICAL" "MEDIUM \<le> HIGH" "MEDIUM \<le> MEDIUM" "\<not> HIGH \<le> MEDIUM"
  "\<not> HIGH \<le> LOW" "\<not> MEDIUM \<le> LOW" "\<not> CRITICAL \<le> HIGH" "\<not> CRITICAL \<le> MEDIUM"
  "\<not> CRITICAL \<le> LOW"
  by (cases l; simp add: less_eq_risk_level_def)+

datatype membership_role =
    INDIVIDUAL | FAMILY_GUARDIAN | PROTECTED_USER | BANK_ADMIN | BANK_ANALYST | PLATFORM_ADMIN
  | PLATFORM_MODERATOR | ROLE_INVESTIGATOR | AGENCY_ANALYST | ENTERPRISE_ADMIN | SUPER_ADMIN
  | REVIEWER | COMPLIANCE_OFFICER | SUPPORT

datatype pause_status = PAUSE_ACTIVE | PAUSE_RESOLVED | PAUSE_CONTINUED_ANYWAY | PAUSE_EXPIRED

datatype trigger_type =
    MEDIUM_RISK | TR_CONTINUE_ANYWAY | GIFT_CARD_REVEAL | CRYPTO_TRANSFER_RISK | WALLET_SWITCH
  | SUSPICIOUS_CLAIM | SCAMHOLD_ACTIVE | TR_URGENCY | TR_SECRECY | ROMANCE_PRESSURE
  | FAKE_AUTHORITY_PRESSURE | ELDER_MODE_FINANCIAL

datatype trigger_module =
    M_GUARDIAN_PAUSE | M_SCAMHOLD | M_GIFTCARDGUARD | M_WALLETGUARD | M_CLAIMVERIFY | M_SCAMMIRROR

datatype review_status = RV_PENDING | RV_DECIDED | RV_EXPIRED | RV_CANCELLED

datatype review_decision =
    APPROVE_AFTER_VERIFICATION | REJECT_HIGH_RISK | NEED_MORE_INFORMATION
  | CALL_USER_IMMEDIATELY | ESCALATE_TO_BANK_OR_AGENCY

datatype channel = CH_EMAIL | CH_SMS | CH_PUSH | CH_IN_APP | CH_WEBSOCKET

datatype delivery_status = ND_PENDING | ND_SENT | ND_FAILED | ND_SKIPPED

datatype hold_status =
    SH_PENDING | SH_RELEASE_AFTER_VERIFICATION | SH_BLOCK | SH_SEND_TO_TRUSTED_CONTACT
  | SH_SAVE_ONLY | SH_CONTINUE_ANYWAY

datatype transaction_type =
    TX_CRYPTO | TX_GIFT_CARD | TX_WIRE_TRANSFER | TX_BANK_TRANSFER | TX_PAYMENT_APP
  | TX_ONLINE_PAYMENT

datatype recipient_risk = RR_UNKNOWN | RR_NEW | RR_KNOWN_RISKY | RR_SUSPICIOUS_WALLET

datatype impersonation =
    IM_NONE | IM_GOVERNMENT | IM_BANK | IM_TECH_SUPPORT | IM_LAW_ENFORCEMENT | IM_EMPLOYER
  | IM_ROMANCE | IM_UTILITY | IM_CHARITY | IM_OTHER

datatype giftcard_decision =
    GC_PENDING | GC_AVOIDED | GC_CONTINUED_ANYWAY | GC_ESCALATED_TO_TRUSTED_CONTACT

datatype wallet_network =
    NW_ETH | NW_BTC | NW_TRX | NW_SOL | NW_BSC | NW_MATIC | NW_ARBITRUM | NW_OPTIMISM | NW_OTHER

datatype wallet_reputation =
    WR_UNKNOWN | WR_NEW | WR_KNOWN_RISKY | WR_SUSPICIOUS_WALLET | WR_CONFIRMED_SCAM

datatype wallet_decision =
    WD_PENDING | WD_VALIDATED | WD_BLOCKED | WD_ESCALATED_TO_TRUSTED_CONTACT
  | WD_CONTINUED_ANYWAY

datatype claim_type =
    CT_ROMANCE | CT_INVESTMENT | CT_CHARITY | CT_HOSPITAL | CT_MEDICAL_EMERGENCY
  | CT_OIL_PROJECT | CT_GOLD_PROJECT | CT_ROAD_CONSTRUCTION | CT_BUSINESS_PARTNERSHIP
  | CT_INHERITANCE | CT_LEGAL_CLAIM | CT_GOVERNMENT | CT_IMMIGRATION | CT_JOB
  | CT_WORK_FROM_HOME | CT_OTHER

datatype claim_decision =
    CD_PENDING | CD_TRUSTED | CD_REJECTED | CD_ESCALATED_TO_TRUSTED_CONTACT
  | CD_CONTINUED_ANYWAY

datatype mirror_persona =
    MP_TECH_SUPPORT | MP_BANK_IMPERSONATION | MP_ROMANCE | MP_GOVERNMENT | MP_INVESTMENT
  | MP_INHERITANCE | MP_EMPLOYER | MP_OTHER

datatype mirror_status = MS_ACTIVE | MS_ENDED_LEARNED | MS_ENDED_ABANDONED | MS_ABORTED_REAL_CREDS

datatype scam_tactic =
    T_URGENCY | T_SECRECY | T_AUTHORITY | T_ISOLATION | T_REWARD | T_THREAT
  | T_EMOTIONAL_PRESSURE

datatype indicator_type =
    IT_PHONE | IT_EMAIL | IT_DOMAIN | IT_URL | IT_CRYPTO_WALLET | IT_SCAM_PHRASE
  | IT_FAKE_COMPANY | IT_SOCIAL_PROFILE | IT_OTHER

datatype node_type =
    NT_INDICATOR | NT_CAMPAIGN | NT_ACTOR | NT_PROFILE | NT_FACE_SIGNAL | NT_VOICE_SIGNAL
  | NT_SCRIPT_PATTERN | NT_PAYMENT_REQUEST | NT_GIFT_CARD_REQUEST | NT_IP_RANGE

datatype edge_type =
    CO_OCCURRENCE_CLUSTER | SIMILAR_TEXT | SHARED_CATEGORY | CAMPAIGN_MEMBERSHIP
  | SIMILAR_PROFILE_PHOTO | SIMILAR_SCRIPT | SAME_PAYMENT_REQUEST | HANDLE_CONFUSABILITY
  | VOICE_PATTERN_MATCH | FACE_PATTERN_MATCH | SHARED_VICTIM_STORY

datatype risk_module =
    RM_RISK_FUSION | RM_FREEZEGUARD | RM_A1SCAMSHIELD | RM_GUARDIAN_PAUSE | RM_SCAMHOLD
  | RM_GIFTCARDGUARD | RM_WALLETGUARD | RM_CLAIMVERIFY | RM_MANUAL

datatype tenant_type =
    TT_PUBLIC | TT_PERSONAL | TT_FAMILY | TT_BANK | TT_PLATFORM | TT_INVESTIGATOR | TT_AGENCY
  | TT_ENTERPRISE | TT_INTERNAL

datatype key_scope =
    REPORT_SUBMIT | READ_TENANT_INTEL | EVIDENCE_EXPORT | WEBHOOK_MANAGE | AGENCY_FEED

datatype key_status = KEY_ACTIVE | KEY_REVOKED | KEY_EXPIRED

datatype key_plan = PLAN_FREE | PLAN_PRO | PLAN_ENTERPRISE

subsection \<open>Their texts\<close>

text \<open>The texts of the enumerations that occur in messages, descriptions and metadata.\<close>

fun level_text :: "risk_level \<Rightarrow> string" where
  "level_text LOW = ''LOW''"
| "level_text MEDIUM = ''MEDIUM''"
| "level_text HIGH = ''HIGH''"
| "level_text CRITICAL = ''CRITICAL''"

fun pause_status_text :: "pause_status \<Rightarrow> string" where
  "pause_status_text PAUSE_ACTIVE = ''ACTIVE''"
| "pause_status_text PAUSE_RESOLVED = ''RESOLVED''"
| "pause_status_text PAUSE_CONTINUED_ANYWAY = ''CONTINUED_ANYWAY''"
| "pause_status_text PAUSE_EXPIRED = ''EXPIRED''"

fun trigger_text :: "trigger_type \<Rightarrow> string" where
  "trigger_text MEDIUM_RISK = ''MEDIUM_RISK''"
| "trigger_text TR_CONTINUE_ANYWAY = ''CONTINUE_ANYWAY''"
| "trigger_text GIFT_CARD_REVEAL = ''GIFT_CARD_REVEAL''"
| "trigger_text CRYPTO_TRANSFER_RISK = ''CRYPTO_TRANSFER_RISK''"
| "trigger_text WALLET_SWITCH = ''WALLET_SWITCH''"
| "trigger_text SUSPICIOUS_CLAIM = ''SUSPICIOUS_CLAIM''"
| "trigger_text SCAMHOLD_ACTIVE = ''SCAMHOLD_ACTIVE''"
| "trigger_text TR_URGENCY = ''URGENCY''"
| "trigger_text TR_SECRECY = ''SECRECY''"
| "trigger_text ROMANCE_PRESSURE = ''ROMANCE_PRESSURE''"
| "trigger_text FAKE_AUTHORITY_PRESSURE = ''FAKE_AUTHORITY_PRESSURE''"
| "trigger_text ELDER_MODE_FINANCIAL = ''ELDER_MODE_FINANCIAL''"

fun module_text :: "trigger_module \<Rightarrow> string" where
  "module_text M_GUARDIAN_PAUSE = ''GUARDIAN_PAUSE''"
| "module_text M_SCAMHOLD = ''SCAMHOLD''"
| "module_text M_GIFTCARDGUARD = ''GIFTCARDGUARD''"
| "module_text M_WALLETGUARD = ''WALLETGUARD''"
| "module_text M_CLAIMVERIFY = ''CLAIMVERIFY''"
| "module_text M_SCAMMIRROR = ''SCAMMIRROR''"

fun review_status_text :: "review_status \<Rightarrow> string" where
  "review_status_text RV_PENDING = ''PENDING''"
| "review_status_text RV_DECIDED = ''DECIDED''"
| "review_status_text RV_EXPIRED = ''EXPIRED''"
| "review_status_text RV_CANCELLED = ''CANCELLED''"

fun review_decision_text :: "review_decision \<Rightarrow> string" where
  "review_decision_text APPROVE_AFTER_VERIFICATION = ''APPROVE_AFTER_VERIFICATION''"
| "review_decision_text REJECT_HIGH_RISK = ''REJECT_HIGH_RISK''"
| "review_decision_text NEED_MORE_INFORMATION = ''NEED_MORE_INFORMATION''"
| "review_decision_text CALL_USER_IMMEDIATELY = ''CALL_USER_IMMEDIATELY''"
| "review_decision_text ESCALATE_TO_BANK_OR_AGENCY = ''ESCALATE_TO_BANK_OR_AGENCY''"

fun hold_status_text :: "hold_status \<Rightarrow> string" where
  "hold_status_text SH_PENDING = ''PENDING''"
| "hold_status_text SH_RELEASE_AFTER_VERIFICATION = ''RELEASE_AFTER_VERIFICATION''"
| "hold_status_text SH_BLOCK = ''BLOCK''"
| "hold_status_text SH_SEND_TO_TRUSTED_CONTACT = ''SEND_TO_TRUSTED_CONTACT''"
| "hold_status_text SH_SAVE_ONLY = ''SAVE_ONLY''"
| "hold_status_text SH_CONTINUE_ANYWAY = ''CONTINUE_ANYWAY''"

fun transaction_text :: "transaction_type \<Rightarrow> string" where
  "transaction_text TX_CRYPTO = ''CRYPTO''"
| "transaction_text TX_GIFT_CARD = ''GIFT_CARD''"
| "transaction_text TX_WIRE_TRANSFER = ''WIRE_TRANSFER''"
| "transaction_text TX_BANK_TRANSFER = ''BANK_TRANSFER''"
| "transaction_text TX_PAYMENT_APP = ''PAYMENT_APP''"
| "transaction_text TX_ONLINE_PAYMENT = ''ONLINE_PAYMENT''"

fun impersonation_text :: "impersonation \<Rightarrow> string" where
  "impersonation_text IM_NONE = ''NONE''"
| "impersonation_text IM_GOVERNMENT = ''GOVERNMENT''"
| "impersonation_text IM_BANK = ''BANK''"
| "impersonation_text IM_TECH_SUPPORT = ''TECH_SUPPORT''"
| "impersonation_text IM_LAW_ENFORCEMENT = ''LAW_ENFORCEMENT''"
| "impersonation_text IM_EMPLOYER = ''EMPLOYER''"
| "impersonation_text IM_ROMANCE = ''ROMANCE''"
| "impersonation_text IM_UTILITY = ''UTILITY''"
| "impersonation_text IM_CHARITY = ''CHARITY''"
| "impersonation_text IM_OTHER = ''OTHER''"

fun giftcard_decision_text :: "giftcard_decision \<Rightarrow> string" where
  "giftcard_decision_text GC_PENDING = ''PENDING''"
| "giftcard_decision_text GC_AVOIDED = ''AVOIDED''"
| "giftcard_decision_text GC_CONTINUED_ANYWAY = ''CONTINUED_ANYWAY''"
| "giftcard_decision_text GC_ESCALATED_TO_TRUSTED_CONTACT = ''ESCALATED_TO_TRUSTED_CONTACT''"

fun network_text :: "wallet_network \<Rightarrow> string" where
  "network_text NW_ETH = ''ETH''"
| "network_text NW_BTC = ''BTC''"
| "network_text NW_TRX = ''TRX''"
| "network_text NW_SOL = ''SOL''"
| "network_text NW_BSC = ''BSC''"
| "network_text NW_MATIC = ''MATIC''"
| "network_text NW_ARBITRUM = ''ARBITRUM''"
| "network_text NW_OPTIMISM = ''OPTIMISM''"
| "network_text NW_OTHER = ''OTHER''"

fun wallet_decision_text :: "wallet_decision \<Rightarrow> string" where
  "wallet_decision_text WD_PENDING = ''PENDING''"
| "wallet_decision_text WD_VALIDATED = ''VALIDATED''"
| "wallet_decision_text WD_BLOCKED = ''BLOCKED''"
| "wallet_decision_text WD_ESCALATED_TO_TRUSTED_CONTACT = ''ESCALATED_TO_TRUSTED_CONTACT''"
| "wallet_decision_text WD_CONTINUED_ANYWAY = ''CONTINUED_ANYWAY''"

fun claim_type_text :: "claim_type \<Rightarrow> string" where
  "claim_type_text CT_ROMANCE = ''ROMANCE''"
| "claim_type_text CT_INVESTMENT = ''INVESTMENT''"
| "claim_type_text CT_CHARITY = ''CHARITY''"
| "claim_type_text CT_HOSPITAL = ''HOSPITAL''"
| "claim_type_text CT_MEDICAL_EMERGENCY = ''MEDICAL_EMERGENCY''"
| "claim_type_text CT_OIL_PROJECT = ''OIL_PROJECT''"
| "claim_type_text CT_GOLD_PROJECT = ''GOLD_PROJECT''"
| "claim_type_text CT_ROAD_CONSTRUCTION = ''ROAD_CONSTRUCTION''"
| "claim_type_text CT_BUSINESS_PARTNERSHIP = ''BUSINESS_PARTNERSHIP''"
| "claim_type_text CT_INHERITANCE = ''INHERITANCE''"
| "claim_type_text CT_LEGAL_CLAIM = ''LEGAL_CLAIM''"
| "claim_type_text CT_GOVERNMENT = ''GOVERNMENT''"
| "claim_type_text CT_IMMIGRATION = ''IMMIGRATION''"
| "claim_type_text CT_JOB = ''JOB''"
| "claim_type_text CT_WORK_FROM_HOME = ''WORK_FROM_HOME''"
| "claim_type_text CT_OTHER = ''OTHER''"

fun claim_decision_text :: "claim_decision \<Rightarrow> string" where
  "claim_decision_text CD_PENDING = ''PENDING''"
| "claim_decision_text CD_TRUSTED = ''TRUSTED''"
| "claim_decision_text CD_REJECTED = ''REJECTED''"
| "claim_decision_text CD_ESCALATED_TO_TRUSTED_CONTACT = ''ESCALATED_TO_TRUSTED_CONTACT''"
| "claim_decision_text CD_CONTINUED_ANYWAY = ''CONTINUED_ANYWAY''"

fun persona_text :: "mirror_persona \<Rightarrow> string" where
  "persona_text MP_TECH_SUPPORT = ''TECH_SUPPORT''"
| "persona_text MP_BANK_IMPERSONATION = ''BANK_IMPERSONATION''"
| "persona_text MP_ROMANCE = ''ROMANCE''"
| "persona_text MP_GOVERNMENT = ''GOVERNMENT''"
| "persona_text MP_INVESTMENT = ''INVESTMENT''"
| "persona_text MP_INHERITANCE = ''INHERITANCE''"
| "persona_text MP_EMPLOYER = ''EMPLOYER''"
| "persona_text MP_OTHER = ''OTHER''"

fun mirror_status_text :: "mirror_status \<Rightarrow> string" where
  "mirror_status_text MS_ACTIVE = ''ACTIVE''"
| "mirror_status_text MS_ENDED_LEARNED = ''ENDED_LEARNED''"
| "mirror_status_text MS_ENDED_ABANDONED = ''ENDED_ABANDONED''"
| "mirror_status_text MS_ABORTED_REAL_CREDS = ''ABORTED_REAL_CREDS''"

fun tactic_text :: "scam_tactic \<Rightarrow> string" where
  "tactic_text T_URGENCY = ''URGENCY''"
| "tactic_text T_SECRECY = ''SECRECY''"
| "tactic_text T_AUTHORITY = ''AUTHORITY''"
| "tactic_text T_ISOLATION = ''ISOLATION''"
| "tactic_text T_REWARD = ''REWARD''"
| "tactic_text T_THREAT = ''THREAT''"
| "tactic_text T_EMOTIONAL_PRESSURE = ''EMOTIONAL_PRESSURE''"

fun tenant_type_text :: "tenant_type \<Rightarrow> string" where
  "tenant_type_text TT_PUBLIC = ''PUBLIC''"
| "tenant_type_text TT_PERSONAL = ''PERSONAL''"
| "tenant_type_text TT_FAMILY = ''FAMILY''"
| "tenant_type_text TT_BANK = ''BANK''"
| "tenant_type_text TT_PLATFORM = ''PLATFORM''"
| "tenant_type_text TT_INVESTIGATOR = ''INVESTIGATOR''"
| "tenant_type_text TT_AGENCY = ''AGENCY''"
| "tenant_type_text TT_ENTERPRISE = ''ENTERPRISE''"
| "tenant_type_text TT_INTERNAL = ''INTERNAL''"

fun scope_text :: "key_scope \<Rightarrow> string" where
  "scope_text REPORT_SUBMIT = ''REPORT_SUBMIT''"
| "scope_text READ_TENANT_INTEL = ''READ_TENANT_INTEL''"
| "scope_text EVIDENCE_EXPORT = ''EVIDENCE_EXPORT''"
| "scope_text WEBHOOK_MANAGE = ''WEBHOOK_MANAGE''"
| "scope_text AGENCY_FEED = ''AGENCY_FEED''"

fun key_plan_text :: "key_plan \<Rightarrow> string" where
  "key_plan_text PLAN_FREE = ''FREE''"
| "key_plan_text PLAN_PRO = ''PRO''"
| "key_plan_text PLAN_ENTERPRISE = ''ENTERPRISE''"

section \<open>What is outside the repository\<close>

text \<open>
  The third parties the services call. A draw (a clock reading, a uuid, random bytes, a
  provider's answer) takes the number of draws before it, so that two draws may differ and
  the model stays a function. \<open>rt_provider\<close> is the call of the e-mail, SMS or push provider:
  the error it raised, or the message id it returned.
\<close>

record runtime =
  rt_clock :: "nat \<Rightarrow> int"
  rt_uuid :: "nat \<Rightarrow> string"
  rt_random :: "nat \<Rightarrow> string"
  rt_sha256 :: "string \<Rightarrow> string"
  rt_redis :: bool
  rt_add_job :: "string option \<Rightarrow> nat \<Rightarrow> string + string option"
  rt_configured :: "channel \<Rightarrow> bool"
  rt_provider :: "channel \<Rightarrow> string \<Rightarrow> string \<Rightarrow> string \<Rightarrow> nat \<Rightarrow> string + string option"
  rt_container :: bool
  rt_shared_key :: bool
  rt_blob_url :: "string \<Rightarrow> string"
  rt_blob_sas :: "string \<Rightarrow> int \<Rightarrow> string"
  rt_put_blob :: "string \<Rightarrow> string \<Rightarrow> nat \<Rightarrow> string option"

text \<open>The principal of a request (common/auth/auth.types.ts).\<close>

record auth_user =
  au_userId :: string
  au_email :: string
  au_tenantId :: string
  au_role :: membership_role

section \<open>The first layer of the state\<close>

text \<open>
  The evidence log, the audit log, the jobs handed to the queues and the messages emitted on
  the websocket gateway, with the count of the draws made so far.
\<close>

record evidence_event =
  ev_id :: string
  ev_tenantId :: "string option"
  ev_sequence :: nat
  ev_actorId :: "string option"
  ev_actorType :: "string option"
  ev_entityType :: string
  ev_entityId :: string
  ev_eventType :: string
  ev_eventDescription :: string
  ev_metadata :: js
  ev_ipAddress :: "string option"
  ev_deviceId :: "string option"
  ev_previousHash :: "string option"
  ev_eventHash :: string
  ev_occurredAt :: int

record audit_log =
  al_actorId :: "string option"
  al_actorType :: "string option"
  al_action :: string
  al_targetType :: "string option"
  al_targetId :: "string option"
  al_metadata :: js

record queue_job =
  qj_queue :: string
  qj_payload :: js
  qj_jobId :: "string option"

datatype ws_event =
    WsPauseCountdown string string string int
  | WsRiskAlert string string string "string option"

record core_db =
  db_tick :: nat
  evidence_events :: "evidence_event list"
  audit_logs :: "audit_log list"
  jobs :: "queue_job list"
  ws_events :: "ws_event list"

section \<open>Draws\<close>

definition draw :: "(nat \<Rightarrow> 'x) \<Rightarrow> ('a core_db_scheme, 'x) prog" where
  "draw f = (\<lambda>w. (Inr (f (db_tick w)), w\<lparr>db_tick := db_tick w + 1\<rparr>))"

definition now :: "runtime \<Rightarrow> ('a core_db_scheme, int) prog" where
  "now rt = draw (rt_clock rt)"

definition new_id :: "runtime \<Rightarrow> ('a core_db_scheme, string) prog" where
  "new_id rt = draw (rt_uuid rt)"

definition random_token :: "runtime \<Rightarrow> ('a core_db_scheme, string) prog" where
  "random_token rt = draw (rt_random rt)"

definition emit :: "ws_event \<Rightarrow> ('a core_db_scheme, unit) prog" where
  "emit e = modify_p (ws_events_update (\<lambda>es. es @ [e]))"

lemmas draw_defs [prog_defs] = now_def new_id_def random_token_def draw_def emit_def

lemma draw_Inr: "draw f w = (Inr x, w') \<longleftrightarrow> x = f (db_tick w) \<and> w' = w\<lparr>db_tick := db_tick w + 1\<rparr>"
  by (auto simp: draw_def)

lemma now_Inr: "now rt w = (Inr x, w') \<longleftrightarrow> x = rt_clock rt (db_tick w) \<and> w' = w\<lparr>db_tick := db_tick w + 1\<rparr>"
  by (simp add: now_def draw_Inr)

lemma new_id_Inr: "new_id rt w = (Inr x, w') \<longleftrightarrow> x = rt_uuid rt (db_tick w) \<and> w' = w\<lparr>db_tick := db_tick w + 1\<rparr>"
  by (simp add: new_id_def draw_Inr)

lemma random_token_Inr:
  "random_token rt w = (Inr x, w') \<longleftrightarrow> x = rt_random rt (db_tick w) \<and> w' = w\<lparr>db_tick := db_tick w + 1\<rparr>"
  by (simp add: random_token_def draw_Inr)

lemma emit_Inr: "emit e w = (Inr u, w') \<longleftrightarrow> w' = ws_events_update (\<lambda>es. es @ [e]) w"
  by (auto simp: prog_defs)

lemma runs_draw [run_simps]:
  "runs (draw f) w Q \<longleftrightarrow> Q (f (db_tick w)) (w\<lparr>db_tick := db_tick w + 1\<rparr>)"
  "runs (now rt) w Qn \<longleftrightarrow> Qn (rt_clock rt (db_tick w)) (w\<lparr>db_tick := db_tick w + 1\<rparr>)"
  "runs (new_id rt) w Qs \<longleftrightarrow> Qs (rt_uuid rt (db_tick w)) (w\<lparr>db_tick := db_tick w + 1\<rparr>)"
  "runs (random_token rt) w Qr \<longleftrightarrow> Qr (rt_random rt (db_tick w)) (w\<lparr>db_tick := db_tick w + 1\<rparr>)"
  "runs (emit e) w Qu \<longleftrightarrow> Qu () (ws_events_update (\<lambda>es. es @ [e]) w)"
  by (simp_all add: runs_def draw_defs modify_p_def)

lemma raises_draw [run_simps]:
  "raises (draw f) w Q \<longleftrightarrow> False" "raises (now rt) w Q \<longleftrightarrow> False"
  "raises (new_id rt) w Q \<longleftrightarrow> False" "raises (random_token rt) w Q \<longleftrightarrow> False"
  "raises (emit e) w Q \<longleftrightarrow> False"
  by (simp_all add: raises_def draw_defs modify_p_def)

lemmas draw_Inr_rules = draw_Inr now_Inr new_id_Inr random_token_Inr emit_Inr

text \<open>The tables of this layer meet the contract of a table.\<close>

interpretation evidence_tab: table evidence_events evidence_events_update
  by unfold_locales simp

interpretation audit_tab: table audit_logs audit_logs_update
  by unfold_locales simp

interpretation jobs_tab: table jobs jobs_update
  by unfold_locales simp

section \<open>A concrete instance\<close>

text \<open>
  A runtime and an empty state on which the witnesses of the properties are evaluated: the
  clock ticks once a second, uuids and tokens are numbered, the hash is the identity (which
  no two texts share) and every provider accepts.
\<close>

definition demo_rt :: runtime where
  "demo_rt =
     \<lparr>rt_clock = (\<lambda>n. 1700000000000 + 1000 * int n),
      rt_uuid = (\<lambda>n. ''id-'' @ show_nat n),
      rt_random = (\<lambda>n. ''token-'' @ show_nat n),
      rt_sha256 = (\<lambda>s. s),
      rt_redis = True,
      rt_add_job = (\<lambda>jid n. Inr (case jid of None \<Rightarrow> Some (show_nat n) | Some j \<Rightarrow> Some j)),
      rt_configured = (\<lambda>c. True),
      rt_provider = (\<lambda>c r s b n. Inr (Some (''msg-'' @ show_nat n))),
      rt_container = True,
      rt_shared_key = True,
      rt_blob_url = (\<lambda>b. ''https://blob/'' @ b),
      rt_blob_sas = (\<lambda>b n. ''sig=1''),
      rt_put_blob = (\<lambda>b d n. None)\<rparr>"

definition empty_core :: core_db where
  "empty_core = \<lparr>db_tick = 0, evidence_events = [], audit_logs = [], jobs = [], ws_events = []\<rparr>"

definition demo_user :: auth_user where
  "demo_user = \<lparr>au_userId = ''u1'', au_email = ''u1@example.org'', au_tenantId = ''t1'',
                au_role = INDIVIDUAL\<rparr>"

end
