(* ===== verification/JsonRead.thy ===== *)
theory JsonRead
  imports Json "HOL-Library.Multiset"
begin

text \<open>
  \<open>stableStringify\<close> can be read back: the text of a plain value determines the value up to
  the order of object keys, also in front of further text that does not start with a digit.
  Numbers are read by their digits, strings by undoing one escape at a time, arrays and
  objects by their separators.
\<close>

section \<open>Reading stableStringify back\<close>

subsection \<open>Numbers\<close>

lemma code_char_of [simp]: "n < 256 \<Longrightarrow> code (char_of n) = n"
  by (simp add: code_def)

lemma is_digit_digit_char: "d < 10 \<Longrightarrow> is_digit (digit_char d)"
  by (simp add: is_digit_def digit_char_def)

lemma show_nat_digits: "\<forall>c\<in>set (show_nat n). is_digit c"
proof (induction n rule: show_nat.induct)
  case (1 n)
  show ?case
    by (cases "n < 10") (use 1 in \<open>auto simp: show_nat.simps [of n] is_digit_digit_char\<close>)
qed

lemma show_nat_nonempty [simp]: "show_nat n \<noteq> []"
  by (subst show_nat.simps) simp

definition digits_value :: "string \<Rightarrow> nat" where
  "digits_value s = foldl (\<lambda>a c. 10 * a + (code c - 48)) 0 s"

lemma digits_value_show_nat: "digits_value (show_nat n) = n"
proof (induction n rule: show_nat.induct)
  case (1 n)
  show ?case
  proof (cases "n < 10")
    case True
    then show ?thesis by (simp add: show_nat.simps [of n] digits_value_def digit_char_def)
  next
    case False
    then have "digits_value (show_nat n) = 10 * digits_value (show_nat (n div 10)) + n mod 10"
      by (simp add: show_nat.simps [of n] digits_value_def digit_char_def)
    with 1 False show ?thesis by simp
  qed
qed

definition no_digit_next :: "string \<Rightarrow> bool" where
  "no_digit_next r \<longleftrightarrow> (case r of [] \<Rightarrow> True | c # _ \<Rightarrow> \<not> is_digit c)"

lemma no_digit_next_simps [simp]:
  "no_digit_next []" "no_digit_next (c # r) \<longleftrightarrow> \<not> is_digit c"
  by (simp_all add: no_digit_next_def)

lemma takeWhile_digits:
  "no_digit_next r \<Longrightarrow> takeWhile is_digit (show_nat n @ r) = show_nat n"
  using show_nat_digits [of n]
  by (cases r) (auto simp: takeWhile_append2 takeWhile_eq_all_conv)

lemma show_nat_read:
  assumes "show_nat n @ r = show_nat m @ r'" "no_digit_next r" "no_digit_next r'"
  shows "n = m \<and> r = r'"
proof -
  have "show_nat n = show_nat m"
    using assms takeWhile_digits by metis
  then show ?thesis
    using assms(1) digits_value_show_nat by (metis same_append_eq)
qed

lemma show_nat_hd_digit: "is_digit (hd (show_nat n))"
  using show_nat_digits [of n] show_nat_nonempty [of n] by (meson hd_in_set)

lemma minus_not_digit [simp]: "\<not> is_digit (CHR ''-'')"
  by (simp add: is_digit_def code_def)

lemma show_nat_not_minus: "show_nat n @ r \<noteq> CHR ''-'' # s"
proof
  assume "show_nat n @ r = CHR ''-'' # s"
  then have "hd (show_nat n) = CHR ''-''"
    using show_nat_nonempty [of n] by (cases "show_nat n") auto
  then show False using show_nat_hd_digit [of n] by simp
qed

lemma show_int_read:
  assumes "show_int i @ r = show_int j @ r'" "no_digit_next r" "no_digit_next r'"
  shows "i = j \<and> r = r'"
proof (cases "i < 0"; cases "j < 0")
  assume "i < 0" "j < 0"
  with assms show ?thesis
    using show_nat_read [of "nat (- i)" r "nat (- j)" r'] by (auto simp: show_int_def)
next
  assume "\<not> i < 0" "\<not> j < 0"
  with assms show ?thesis
    using show_nat_read [of "nat i" r "nat j" r'] by (auto simp: show_int_def)
next
  assume "i < 0" "\<not> j < 0"
  with assms(1) show ?thesis
    using show_nat_not_minus [of "nat j" r'] by (auto simp: show_int_def) (metis)
next
  assume "\<not> i < 0" "j < 0"
  with assms(1) show ?thesis
    using show_nat_not_minus [of "nat i" r] by (auto simp: show_int_def)
qed

subsection \<open>Strings\<close>

definition hex_value :: "char \<Rightarrow> nat" where
  "hex_value c = (if code c < 97 then code c - 48 else code c - 87)"

lemma hex_value_digit: "d < 16 \<Longrightarrow> hex_value (hex_digit d) = d"
  by (simp add: hex_value_def hex_digit_def)

text \<open>Undoing one escape: the character and the rest of the text.\<close>

definition unescape :: "string \<Rightarrow> char \<times> string" where
  "unescape s =
     (if hd s \<noteq> CHR 0x5C then (hd s, tl s)
      else let c = s ! 1; rest = drop 2 s in
        if c = CHR ''b'' then (char_of (8::nat), rest)
        else if c = CHR ''t'' then (char_of (9::nat), rest)
        else if c = CHR ''n'' then (char_of (10::nat), rest)
        else if c = CHR ''f'' then (char_of (12::nat), rest)
        else if c = CHR ''r'' then (char_of (13::nat), rest)
        else if c = CHR ''u''
          then (char_of (16 * hex_value (s ! 4) + hex_value (s ! 5)), drop 6 s)
        else (c, rest))"

lemma char_of_code [simp]: "char_of (code c) = c"
  by (simp add: code_def)

lemma code_less: "code c < 256"
  by (simp add: code_def)

lemma code_eqD: "code c = n \<Longrightarrow> c = char_of n"
  by (metis char_of_code)

lemma unescape_escape: "unescape (json_escape c @ r) = (c, r)"
proof -
  consider (quote) "c = CHR 0x22" | (slash) "c = CHR 0x5C" | (b) "code c = 8" | (t) "code c = 9"
    | (n) "code c = 10" | (f) "code c = 12" | (r) "code c = 13"
    | (u) "code c < 32" "code c \<notin> {8, 9, 10, 12, 13}"
    | (lit) "\<not> code c < 32" "c \<noteq> CHR 0x22" "c \<noteq> CHR 0x5C"
    by blast
  then show ?thesis
  proof cases
    case u
    then have ne: "c \<noteq> CHR 0x22" "c \<noteq> CHR 0x5C" by (auto simp: code_def)
    have "code c div 16 < 16" "code c mod 16 < 16" using u by auto
    with u ne show ?thesis
      by (simp add: json_escape_def unescape_def hex_value_digit)
  qed (auto simp: json_escape_def unescape_def dest: code_eqD)
qed

lemma escape_not_quote: "json_escape c @ r \<noteq> CHR 0x22 # s"
  by (simp add: json_escape_def)

lemma escape_read: "json_escape c @ r = json_escape d @ s \<Longrightarrow> c = d \<and> r = s"
  by (metis prod.inject unescape_escape)

lemma quoted_read:
  "concat (map json_escape s) @ CHR 0x22 # r = concat (map json_escape t) @ CHR 0x22 # r' \<Longrightarrow>
   s = t \<and> r = r'"
proof (induction s arbitrary: t)
  case Nil
  then show ?case
  proof (cases t)
    case (Cons d ds)
    with Nil show ?thesis
      using escape_not_quote [of d "concat (map json_escape ds) @ CHR 0x22 # r'" r] by simp
  qed simp
next
  case (Cons c cs)
  show ?case
  proof (cases t)
    case Nil
    with Cons.prems show ?thesis
      using escape_not_quote [of c "concat (map json_escape cs) @ CHR 0x22 # r" r'] by simp
  next
    case (Cons d ds)
    with Cons.prems have
      "c = d \<and> concat (map json_escape cs) @ CHR 0x22 # r = concat (map json_escape ds) @ CHR 0x22 # r'"
      by (intro escape_read) simp
    with Cons Cons.IH [of ds] show ?thesis by simp
  qed
qed

lemma json_quote_read: "json_quote s @ r = json_quote t @ r' \<Longrightarrow> s = t \<and> r = r'"
  by (rule quoted_read) (simp add: json_quote_def)


subsection \<open>Lists and objects\<close>

lemma join_with_Cons:
  "join_with sep (x # xs) = x @ (if xs = [] then [] else sep @ join_with sep xs)"
  by (cases xs) auto

lemma join_read:
  assumes enc: "\<And>x y r r'. x \<in> set xs \<Longrightarrow> y \<in> set ys \<Longrightarrow> enc x @ r = enc y @ r' \<Longrightarrow>
      no_digit_next r \<Longrightarrow> no_digit_next r' \<Longrightarrow> f x = f y \<and> r = r'"
    and nonclose: "\<And>x r s. x \<in> set xs \<union> set ys \<Longrightarrow> enc x @ r \<noteq> c # s"
    and c: "\<not> is_digit c" "c \<noteq> CHR '',''"
    and eq: "join_with '','' (map enc xs) @ c # r = join_with '','' (map enc ys) @ c # r'"
  shows "map f xs = map f ys \<and> r = r'"
  using enc nonclose eq
proof (induction xs arbitrary: ys)
  case Nil
  then show ?case
  proof (cases ys)
    case (Cons y ys')
    with Nil.prems(2) [of y "(if ys' = [] then [] else '','' @ join_with '','' (map enc ys')) @ c # r'" r]
      Nil.prems(3) show ?thesis by (auto simp: join_with_Cons)
  qed simp
next
  case (Cons x xs')
  show ?case
  proof (cases ys)
    case Nil
    with Cons.prems(2) [of x "(if xs' = [] then [] else '','' @ join_with '','' (map enc xs')) @ c # r" r']
      Cons.prems(3) show ?thesis by (auto simp: join_with_Cons)
  next
    case ys: (Cons y ys')
    have comma: "\<not> is_digit (CHR '','')" by (simp add: is_digit_def code_def)
    define tl1 where "tl1 = (if xs' = [] then [] else '','' @ join_with '','' (map enc xs')) @ c # r"
    define tl2 where "tl2 = (if ys' = [] then [] else '','' @ join_with '','' (map enc ys')) @ c # r'"
    have nd: "no_digit_next tl1" "no_digit_next tl2"
      using c comma by (auto simp: tl1_def tl2_def)
    have "enc x @ tl1 = enc y @ tl2"
      using Cons.prems(3) ys by (simp add: join_with_Cons tl1_def tl2_def split: if_splits)
    then have xy: "f x = f y" "tl1 = tl2"
      using Cons.prems(1) [of x y] nd ys by auto
    have "map f xs' = map f ys' \<and> r = r'"
    proof (cases "xs' = []"; cases "ys' = []")
      assume "xs' \<noteq> []" "ys' \<noteq> []"
      with xy(2) have "join_with '','' (map enc xs') @ c # r = join_with '','' (map enc ys') @ c # r'"
        by (simp add: tl1_def tl2_def)
      then show ?thesis using Cons.IH [of ys'] Cons.prems(1,2) ys by auto
    qed (use xy(2) c in \<open>auto simp: tl1_def tl2_def\<close>)
    with xy ys show ?thesis by simp
  qed
qed

lemma insort_key_map_prod:
  "insort_key fst (map_prod id h kv) (map (map_prod id h) kvs) =
     map (map_prod id h) (insort_key fst kv kvs)"
  by (induction kvs) auto

lemma sort_key_map_prod:
  "sort_key fst (map (map_prod id h) kvs) = map (map_prod id h) (sort_key fst kvs)"
  by (induction kvs) (simp, simp only: list.map sort_key_simps insort_key_map_prod)

subsection \<open>Values\<close>

lemma show_int_head: "show_int i @ r = c # s \<Longrightarrow> is_digit c \<or> c = CHR ''-''"
proof (cases "i < 0")
  case False
  assume "show_int i @ r = c # s"
  with False have "c = hd (show_nat (nat i))"
    using show_nat_nonempty [of "nat i"] by (cases "show_nat (nat i)") (auto simp: show_int_def)
  then show ?thesis using show_nat_hd_digit by simp
qed (auto simp: show_int_def)

lemma special_not_digit [simp]:
  "\<not> is_digit (CHR ''n'')" "\<not> is_digit (CHR ''t'')" "\<not> is_digit (CHR ''f'')"
  "\<not> is_digit (CHR 0x22)" "\<not> is_digit (CHR ''['')" "\<not> is_digit (CHR ''{'')"
  "\<not> is_digit (CHR '']'')" "\<not> is_digit (CHR ''}'')" "\<not> is_digit (CHR '','')"
  by (simp_all add: is_digit_def code_def)

text \<open>The first character of a value's text tells what kind of value it is.\<close>

lemma stable_head_not_close:
  "stable_stringify v @ r \<noteq> CHR '']'' # s"
  by (cases v)
     (auto simp: json_quote_def braces_def brackets_def dest: show_int_head)

lemma member_head_not_close:
  "member_text kv @ r \<noteq> CHR ''}'' # s"
  by (auto simp: member_text_def json_quote_def)

lemma show_int_not:
  "show_int i @ r = c # s \<Longrightarrow> \<not> is_digit c \<Longrightarrow> c \<noteq> CHR ''-'' \<Longrightarrow> False"
  using show_int_head by blast

lemma show_int_not':
  "c # s = show_int i @ r \<Longrightarrow> \<not> is_digit c \<Longrightarrow> c \<noteq> CHR ''-'' \<Longrightarrow> False"
  using show_int_head by metis

lemma stable_read:
  "plain v \<Longrightarrow> plain v' \<Longrightarrow> stable_stringify v @ r = stable_stringify v' @ r' \<Longrightarrow>
   no_digit_next r \<Longrightarrow> no_digit_next r' \<Longrightarrow> norm_js v = norm_js v' \<and> r = r'"
proof (induction v arbitrary: v' r r')
  case (JNum n)
  then show ?case
    by (cases v')
       (auto simp: json_quote_def braces_def brackets_def dest: show_int_read show_int_not
        split: if_splits)
next
  case (JStr s)
  then show ?case
    by (cases v')
       (auto simp: json_quote_def braces_def brackets_def dest: quoted_read show_int_not'
        split: if_splits)
next
  case (JArr vs)
  show ?case
  proof (cases v')
    case v': (JArr vs')
    from JArr.prems(3) v' have
      "join_with '','' (map stable_stringify vs) @ CHR '']'' # r =
       join_with '','' (map stable_stringify vs') @ CHR '']'' # r'"
      by (simp add: brackets_def)
    then have "map norm_js vs = map norm_js vs' \<and> r = r'"
      by (rule join_read [rotated -1])
         (use JArr.IH JArr.prems(1,2) v' stable_head_not_close in \<open>auto\<close>)
    with v' show ?thesis by simp
  qed (use JArr.prems in \<open>auto simp: json_quote_def braces_def brackets_def dest: show_int_not'
        split: if_splits\<close>)
next
  case (JObj kvs)
  show ?case
  proof (cases v')
    case v': (JObj kvs')
    let ?enc = "\<lambda>kv. member_text (map_prod id stable_stringify kv)"
    let ?xs = "sort_key fst kvs" and ?ys = "sort_key fst kvs'"
    from JObj.prems(3) v' have
      "join_with '','' (map ?enc ?xs) @ CHR ''}'' # r =
       join_with '','' (map ?enc ?ys) @ CHR ''}'' # r'"
      by (simp add: braces_def sort_key_map_prod comp_def)
    then have "map (map_prod id norm_js) ?xs = map (map_prod id norm_js) ?ys \<and> r = r'"
    proof (rule join_read [rotated -1])
      fix x y q q'
      assume x: "x \<in> set ?xs" and y: "y \<in> set ?ys" and eq: "?enc x @ q = ?enc y @ q'"
        and nd: "no_digit_next q" "no_digit_next q'"
      have "json_quote (fst x) @ (CHR '':'' # stable_stringify (snd x) @ q) =
          json_quote (fst y) @ (CHR '':'' # stable_stringify (snd y) @ q')"
        using eq by (simp add: member_text_def)
      then have k: "fst x = fst y" and v: "stable_stringify (snd x) @ q = stable_stringify (snd y) @ q'"
        by (auto dest: json_quote_read)
      have "snd x \<in> Basic_BNFs.snds x" by (cases x) simp
      with JObj.IH [of x "snd x" "snd y" q q'] x y v nd JObj.prems(1,2) v'
      have "norm_js (snd x) = norm_js (snd y) \<and> q = q'" by simp
      with k show "map_prod id norm_js x = map_prod id norm_js y \<and> q = q'"
        by (cases x; cases y) simp
    qed (use member_head_not_close in auto)
    with v' show ?thesis by (simp add: sort_key_map_prod)
  qed (use JObj.prems in \<open>auto simp: json_quote_def braces_def brackets_def dest: show_int_not'
        split: if_splits\<close>)
qed (case_tac v';
     auto simp: json_quote_def braces_def brackets_def dest: show_int_not' split: if_splits)+

lemma stable_inj:
  "plain v \<Longrightarrow> plain v' \<Longrightarrow> stable_stringify v = stable_stringify v' \<Longrightarrow> norm_js v = norm_js v'"
  using stable_read [of v v' "[]" "[]"] by simp

text \<open>Conversely, values that agree up to the order of keys have the same text.\<close>

lemma sort_key_idem: "sort_key f (sort_key f xs) = sort_key f xs"
  by (simp add: sorted_sort_id sort_key_const sorted_map_same sort_key_stable
      properties_for_sort_key)

lemma stable_norm: "stable_stringify (norm_js v) = stable_stringify v"
proof (induction v)
  case (JArr vs)
  then show ?case by (simp add: comp_def cong: map_cong)
next
  case (JObj kvs)
  have "map_prod id (\<lambda>v. stable_stringify (norm_js v)) kv = map_prod id stable_stringify kv"
    if "kv \<in> set kvs" for kv
  proof -
    have "snd kv \<in> Basic_BNFs.snds kv" by (cases kv) simp
    with JObj.IH [OF that] show ?thesis by (cases kv) simp
  qed
  then have "map (map_prod id stable_stringify) (map (map_prod id norm_js) kvs) =
      map (map_prod id stable_stringify) kvs"
    by (auto simp: map_prod_def split: prod.splits)
  then have "sort_key fst (map (map_prod id stable_stringify)
        (sort_key fst (map (map_prod id norm_js) kvs))) =
      sort_key fst (map (map_prod id stable_stringify) kvs)"
    by (metis sort_key_idem sort_key_map_prod)
  then show ?case by simp
qed auto

lemma stable_eq_iff:
  "plain v \<Longrightarrow> plain v' \<Longrightarrow>
   stable_stringify v = stable_stringify v' \<longleftrightarrow> norm_js v = norm_js v'"
  using stable_inj stable_norm by metis

subsection \<open>The properties of an object\<close>

lemma map_of_map_prod: "map_of (map (map_prod id h) kvs) k = map_option h (map_of kvs k)"
  by (induction kvs) auto

lemma map_of_sort: "distinct (map fst kvs) \<Longrightarrow> map_of (sort_key fst kvs) k = map_of kvs k"
proof -
  assume d: "distinct (map fst kvs)"
  have "mset (map fst (sort_key fst kvs)) = mset (map fst kvs)" by simp
  then have "distinct (map fst (sort_key fst kvs))"
    using d mset_eq_imp_distinct_iff by metis
  with d show ?thesis
    by (intro fun_cong [OF map_of_eqI]) (auto simp: set_map)
qed

text \<open>Two objects with the same text agree on every property.\<close>

lemma stable_obj_member:
  assumes "plain (JObj a)" "plain (JObj b)"
    and "stable_stringify (JObj a) = stable_stringify (JObj b)"
  shows "map_option norm_js (map_of a k) = map_option norm_js (map_of b k)"
proof -
  have "sort_key fst (map (map_prod id norm_js) a) = sort_key fst (map (map_prod id norm_js) b)"
    using stable_inj [OF assms] by simp
  then have "map_of (map (map_prod id norm_js) (sort_key fst a)) k =
      map_of (map (map_prod id norm_js) (sort_key fst b)) k"
    by (simp only: sort_key_map_prod)
  with assms(1,2) show ?thesis by (simp only: map_of_map_prod) (simp add: map_of_sort)
qed

lemma norm_opt_str [simp]: "norm_js (opt_str x) = opt_str x"
  by (simp add: opt_str_def split: option.splits)

lemma opt_str_inj [simp]: "opt_str x = opt_str y \<longleftrightarrow> x = y"
  by (auto simp: opt_str_def split: option.splits)

section \<open>What a JSON column drops\<close>

text \<open>
  A property that is \<open>undefined\<close> prints as null in \<open>stableStringify\<close> and is left out by
  JSON. So a dateless value with such a property, anywhere inside, has another text before it is
  stored than after: the two have a different number of members.
\<close>

primrec with_nulls :: "js \<Rightarrow> js" where
  "with_nulls JUndef = JNull"
| "with_nulls JNull = JNull"
| "with_nulls (JBool b) = JBool b"
| "with_nulls (JNum n) = JNum n"
| "with_nulls (JStr s) = JStr s"
| "with_nulls (JDate d) = JDate d"
| "with_nulls (JArr vs) = JArr (map with_nulls vs)"
| "with_nulls (JObj kvs) = JObj (map (map_prod id with_nulls) kvs)"

primrec dateless :: "js \<Rightarrow> bool" where
  "dateless JUndef = True"
| "dateless JNull = True"
| "dateless (JBool b) = True"
| "dateless (JNum n) = True"
| "dateless (JStr s) = True"
| "dateless (JDate d) = False"
| "dateless (JArr vs) = list_all id (map dateless vs)"
| "dateless (JObj kvs) = (distinct (map fst kvs) \<and> list_all snd (map (map_prod id dateless) kvs))"

primrec drops_members :: "js \<Rightarrow> bool" where
  "drops_members JUndef = False"
| "drops_members JNull = False"
| "drops_members (JBool b) = False"
| "drops_members (JNum n) = False"
| "drops_members (JStr s) = False"
| "drops_members (JDate d) = False"
| "drops_members (JArr vs) = list_ex id (map drops_members vs)"
| "drops_members (JObj kvs) =
     (list_ex snd (map (map_prod id drops_members) kvs) \<or> \<not> list_all defined kvs)"

primrec member_count :: "js \<Rightarrow> nat" where
  "member_count JUndef = 0"
| "member_count JNull = 0"
| "member_count (JBool b) = 0"
| "member_count (JNum n) = 0"
| "member_count (JStr s) = 0"
| "member_count (JDate d) = 0"
| "member_count (JArr vs) = sum_list (map member_count vs)"
| "member_count (JObj kvs) = sum_list (map (Suc \<circ> snd) (map (map_prod id member_count) kvs))"

lemma snd_snds: "snd kv \<in> Basic_BNFs.snds kv"
  by (cases kv) simp

lemma map_values_cong: "(\<And>kv. kv \<in> set kvs \<Longrightarrow> f (snd kv) = g (snd kv)) \<Longrightarrow>
    map (map_prod id f) kvs = map (map_prod id g) kvs"
  by (rule map_cong) (auto simp: prod.map_id0 map_prod_def split: prod.splits)

lemma stable_with_nulls: "stable_stringify (with_nulls v) = stable_stringify v"
proof (induction v)
  case (JArr vs)
  then show ?case by (simp add: comp_def cong: map_cong)
next
  case (JObj kvs)
  have "map (map_prod id stable_stringify) (map (map_prod id with_nulls) kvs) =
      map (map_prod id stable_stringify) kvs"
    using map_values_cong [of kvs "\<lambda>v. stable_stringify (with_nulls v)" stable_stringify]
      JObj.IH [OF _ snd_snds] by (simp add: map_prod_def split_def)
  then show ?case by (simp del: map_map)
qed auto

lemma plain_with_nulls: "dateless v \<Longrightarrow> plain (with_nulls v)"
proof (induction v)
  case (JObj kvs)
  then show ?case using snd_snds by (fastforce simp: list_all_iff)
qed (auto simp: list_all_iff)

lemma kept_members: "map snd (filter (\<lambda>p. defined (fst p)) (zip kvs (map h kvs))) = map h (filter defined kvs)"
  by (induction kvs) auto

lemma plain_stored: "dateless v \<Longrightarrow> plain (stored_json v)"
proof (induction v)
  case (JObj kvs)
  then have "distinct (map fst (filter defined kvs))" by (simp add: distinct_map_filter)
  with JObj show ?case using snd_snds by (fastforce simp: list_all_iff kept_members)
qed (auto simp: list_all_iff)

lemma member_count_norm: "member_count (norm_js v) = member_count v"
proof (induction v)
  case (JArr vs)
  then show ?case by (simp add: comp_def cong: map_cong)
next
  case (JObj kvs)
  have "sum_list (map f (sort_key k xs)) = sum_list (map f xs)" for f :: "string \<times> js \<Rightarrow> nat" and k :: "_ \<Rightarrow> string" and xs
    by (metis mset_map mset_sort sum_mset_sum_list)
  with JObj.IH [OF _ snd_snds] show ?case by (simp add: comp_def cong: map_cong)
qed auto

lemma member_count_with_nulls: "member_count (with_nulls v) = member_count v"
proof (induction v)
  case (JArr vs)
  then show ?case by (simp add: comp_def cong: map_cong)
next
  case (JObj kvs)
  with JObj.IH [OF _ snd_snds] show ?case by (simp add: comp_def cong: map_cong)
qed auto

lemma sum_filter_le: "(\<And>x. x \<in> set xs \<Longrightarrow> f x \<le> g x) \<Longrightarrow> sum_list (map f (filter P xs)) \<le> sum_list (map (g :: _ \<Rightarrow> nat) xs)"
  by (induction xs) (auto intro: add_mono le_SucI trans_le_add2)

lemma sum_filter_less:
  assumes "\<And>x. x \<in> set xs \<Longrightarrow> f x \<le> g x" "x \<in> set xs" "f x < g x \<or> \<not> P x \<and> 0 < g x"
  shows "sum_list (map f (filter P xs)) < sum_list (map (g :: _ \<Rightarrow> nat) xs)"
proof -
  obtain as bs where xs: "xs = as @ x # bs" using assms(2) by (auto simp: in_set_conv_decomp)
  have "sum_list (map f (filter P as)) \<le> sum_list (map g as)" "sum_list (map f (filter P bs)) \<le> sum_list (map g bs)"
    using assms(1) by (auto intro!: sum_filter_le simp: xs)
  with assms(3) assms(1) [OF assms(2)] show ?thesis by (auto simp: xs)
qed

lemma member_count_stored_le: "member_count (stored_json v) \<le> member_count v"
proof (induction v)
  case (JArr vs)
  then show ?case by (simp add: comp_def sum_list_mono)
next
  case (JObj kvs)
  with JObj.IH [OF _ snd_snds] show ?case by (simp add: kept_members comp_def sum_filter_le)
qed auto

lemma member_count_stored_less: "drops_members v \<Longrightarrow> member_count (stored_json v) < member_count v"
proof (induction v)
  case (JArr vs)
  then obtain x where "x \<in> set vs" "member_count (stored_json x) < member_count x" by (auto simp: list_ex_iff)
  with sum_filter_less [of vs "\<lambda>v. member_count (stored_json v)" member_count x "\<lambda>_. True"]
  show ?case by (simp add: member_count_stored_le comp_def)
next
  case (JObj kvs)
  then obtain kv where "kv \<in> set kvs" "member_count (stored_json (snd kv)) < member_count (snd kv) \<or> \<not> defined kv"
    using snd_snds by (fastforce simp: list_ex_iff list_all_iff)
  with sum_filter_less [of kvs "\<lambda>kv. Suc (member_count (stored_json (snd kv)))" "\<lambda>kv. Suc (member_count (snd kv))" kv defined]
  show ?case by (auto simp: member_count_stored_le kept_members comp_def)
qed auto

lemma dropped_text:
  assumes "drops_members v"
  shows "norm_js (stored_json v) \<noteq> norm_js (with_nulls v)"
  using member_count_stored_less [OF assms] member_count_norm member_count_with_nulls by (metis less_irrefl)

end
