(* ===== verification/EvidenceVault.thy ===== *)
theory EvidenceVault
  imports Database JsonRead "HOL-Library.Sublist"
begin

text \<open>
  The Evidence Vault (modules/evidence-vault/evidence.hash.ts and evidence.service.ts): an
  append-only log of events, chained per tenant by SHA-256. The hash is a parameter of the
  model; what the chain promises is stated with the collision it would take to break it.
  The other services write to the log through \<open>append_evidence\<close> only.
\<close>

section \<open>The hash of one event\<close>

record hashable_event =
  he_sequence :: nat
  he_tenantId :: "string option"
  he_actorId :: "string option"
  he_actorType :: "string option"
  he_entityType :: string
  he_entityId :: string
  he_eventType :: string
  he_eventDescription :: string
  he_metadata :: js
  he_ipAddress :: "string option"
  he_deviceId :: "string option"
  he_occurredAt :: int
  he_previousHash :: "string option"

definition or_null :: "js \<Rightarrow> js" where
  "or_null v = (if v = JUndef then JNull else v)"

definition canonical_members :: "hashable_event \<Rightarrow> (string \<times> js) list" where
  "canonical_members e =
     [(''sequence'', JNum (int (he_sequence e))),
      (''tenantId'', opt_str (he_tenantId e)),
      (''actorId'', opt_str (he_actorId e)),
      (''actorType'', opt_str (he_actorType e)),
      (''entityType'', JStr (he_entityType e)),
      (''entityId'', JStr (he_entityId e)),
      (''eventType'', JStr (he_eventType e)),
      (''eventDescription'', JStr (he_eventDescription e)),
      (''metadata'', or_null (he_metadata e)),
      (''ipAddress'', opt_str (he_ipAddress e)),
      (''deviceId'', opt_str (he_deviceId e)),
      (''occurredAt'', JStr (to_iso_string (he_occurredAt e))),
      (''previousHash'', opt_str (he_previousHash e))]"

definition canonical_event :: "hashable_event \<Rightarrow> js" where
  "canonical_event e = JObj (canonical_members e)"

definition computeEventHash :: "runtime \<Rightarrow> hashable_event \<Rightarrow> string" where
  "computeEventHash rt e = rt_sha256 rt (stable_stringify (canonical_event e))"

section \<open>Appending\<close>

record append_input =
  in_tenantId :: "string option"
  in_actorId :: "string option"
  in_actorType :: "string option"
  in_entityType :: string
  in_entityId :: string
  in_eventType :: string
  in_eventDescription :: string
  in_metadata :: js
  in_ipAddress :: "string option"
  in_deviceId :: "string option"

text \<open>The input of a service that acts for a logged-in user, as most of them build it.\<close>

definition user_event ::
    "string option \<Rightarrow> string \<Rightarrow> string \<Rightarrow> string \<Rightarrow> string \<Rightarrow> string \<Rightarrow> js \<Rightarrow> append_input" where
  "user_event tenant actor etype eid evtype descr meta =
     \<lparr>in_tenantId = tenant, in_actorId = Some actor, in_actorType = Some ''USER'',
      in_entityType = etype, in_entityId = eid, in_eventType = evtype,
      in_eventDescription = descr, in_metadata = meta, in_ipAddress = None, in_deviceId = None\<rparr>"

definition tenant_events :: "string option \<Rightarrow> ('a core_db_scheme) \<Rightarrow> evidence_event list" where
  "tenant_events t w = filter (\<lambda>e. ev_tenantId e = t) (evidence_events w)"

definition last_event :: "string option \<Rightarrow> ('a core_db_scheme) \<Rightarrow> evidence_event option" where
  "last_event t w = first_of (order_desc (\<lambda>e. int (ev_sequence e)) (tenant_events t w))"

text \<open>
  The transaction of \<open>append\<close> holds a lock per tenant, so the read of the last event and the
  insert are one step. The hash is over the metadata handed in; the row holds what the JSON
  column makes of it.
\<close>

definition append_evidence ::
    "runtime \<Rightarrow> append_input \<Rightarrow> ('a core_db_scheme, evidence_event) prog" where
  "append_evidence rt input =
     bind_p (now rt) (\<lambda>occurredAt.
     bind_p (ask (last_event (in_tenantId input))) (\<lambda>last.
     bind_p (new_id rt) (\<lambda>uid.
       let metadata = or_null (in_metadata input);
           previousHash = map_option ev_eventHash last;
           sequence = (case last of None \<Rightarrow> 0 | Some l \<Rightarrow> ev_sequence l) + 1;
           eventHash = computeEventHash rt
             \<lparr>he_sequence = sequence, he_tenantId = in_tenantId input,
              he_actorId = in_actorId input, he_actorType = in_actorType input,
              he_entityType = in_entityType input, he_entityId = in_entityId input,
              he_eventType = in_eventType input,
              he_eventDescription = in_eventDescription input, he_metadata = metadata,
              he_ipAddress = in_ipAddress input, he_deviceId = in_deviceId input,
              he_occurredAt = occurredAt, he_previousHash = previousHash\<rparr>
       in insert_row evidence_events_update
            \<lparr>ev_id = uid, ev_tenantId = in_tenantId input, ev_sequence = sequence,
             ev_actorId = in_actorId input, ev_actorType = in_actorType input,
             ev_entityType = in_entityType input, ev_entityId = in_entityId input,
             ev_eventType = in_eventType input,
             ev_eventDescription = in_eventDescription input,
             ev_metadata = stored_json metadata, ev_ipAddress = in_ipAddress input,
             ev_deviceId = in_deviceId input, ev_previousHash = previousHash,
             ev_eventHash = eventHash, ev_occurredAt = occurredAt\<rparr>)))"

section \<open>Reading\<close>

text \<open>\<open>take\<close> of a Prisma query: a negative number takes from the end.\<close>

definition take_rows :: "int \<Rightarrow> 'r list \<Rightarrow> 'r list" where
  "take_rows n rs = (if 0 \<le> n then take (nat n) rs else drop (length rs - nat (- n)) rs)"

definition truthy :: "string option \<Rightarrow> bool" where
  "truthy x = (case x of None \<Rightarrow> False | Some s \<Rightarrow> s \<noteq> [])"

definition getTimeline ::
    "string option \<Rightarrow> string option \<Rightarrow> string option \<Rightarrow> int option \<Rightarrow>
     ('a core_db_scheme, evidence_event list) prog" where
  "getTimeline tenantId entityType entityId limit =
     bind_p (find_rows evidence_events
       (\<lambda>e. ev_tenantId e = tenantId \<and>
            (truthy entityType \<longrightarrow> entityType = Some (ev_entityType e)) \<and>
            (truthy entityId \<longrightarrow> entityId = Some (ev_entityId e)))) (\<lambda>rows.
     ret (take_rows (min (or_default limit 200) 500) (order_asc ev_sequence rows)))"

record chain_verification =
  cv_intact :: bool
  cv_totalEvents :: nat
  cv_brokenAtSequence :: "nat option"
  cv_reason :: "string option"

definition hashable_of :: "evidence_event \<Rightarrow> hashable_event" where
  "hashable_of e =
     \<lparr>he_sequence = ev_sequence e, he_tenantId = ev_tenantId e, he_actorId = ev_actorId e,
      he_actorType = ev_actorType e, he_entityType = ev_entityType e,
      he_entityId = ev_entityId e, he_eventType = ev_eventType e,
      he_eventDescription = ev_eventDescription e, he_metadata = ev_metadata e,
      he_ipAddress = ev_ipAddress e, he_deviceId = ev_deviceId e,
      he_occurredAt = ev_occurredAt e, he_previousHash = ev_previousHash e\<rparr>"

fun verify_from ::
    "runtime \<Rightarrow> nat \<Rightarrow> string option \<Rightarrow> evidence_event list \<Rightarrow> chain_verification" where
  "verify_from rt cnt prev [] =
     \<lparr>cv_intact = True, cv_totalEvents = cnt, cv_brokenAtSequence = None, cv_reason = None\<rparr>"
| "verify_from rt cnt prev (e # es) =
     (if ev_previousHash e \<noteq> prev then
        \<lparr>cv_intact = False, cv_totalEvents = cnt, cv_brokenAtSequence = Some (ev_sequence e),
         cv_reason = Some (''Chain link broken '' @ em_dash @
           '' previousHash does not match the prior event.'')\<rparr>
      else if computeEventHash rt (hashable_of e) \<noteq> ev_eventHash e then
        \<lparr>cv_intact = False, cv_totalEvents = cnt, cv_brokenAtSequence = Some (ev_sequence e),
         cv_reason = Some ''Event content has been altered since it was recorded.''\<rparr>
      else verify_from rt cnt (Some (ev_eventHash e)) es)"

definition verifyChain ::
    "runtime \<Rightarrow> string option \<Rightarrow> ('a core_db_scheme, chain_verification) prog" where
  "verifyChain rt tenantId =
     bind_p (find_rows evidence_events (\<lambda>e. ev_tenantId e = tenantId)) (\<lambda>rows.
     let events = order_asc ev_sequence rows in
     ret (verify_from rt (length events) None events))"

section \<open>The log is only extended\<close>

definition log_extends :: "('a core_db_scheme) \<Rightarrow> ('a core_db_scheme) \<Rightarrow> bool" where
  "log_extends w w' \<longleftrightarrow> prefix (evidence_events w) (evidence_events w')"

interpretation log: step_preorder log_extends
  by unfold_locales (auto simp: log_extends_def)

lemma append_run:
  "append_evidence rt input w = (Inr e, w') \<Longrightarrow>
     evidence_events w' = evidence_events w @ [e] \<and> db_tick w' = db_tick w + 2 \<and>
     ev_tenantId e = in_tenantId input \<and> ev_id e = rt_uuid rt (db_tick w + 1) \<and>
     ev_entityType e = in_entityType input \<and> ev_entityId e = in_entityId input \<and>
     ev_eventType e = in_eventType input \<and> ev_actorId e = in_actorId input \<and>
     audit_logs w' = audit_logs w \<and> jobs w' = jobs w \<and> ws_events w' = ws_events w \<and>
     core_db.more w' = core_db.more w"
  by (auto simp: append_evidence_def Let_def run_Inr draw_Inr_rules table_Inr)

lemma append_returns: "\<exists>e w'. append_evidence rt input w = (Inr e, w')"
  by (simp add: append_evidence_def Let_def prog_defs)

text \<open>What an append adds to the state: one event of the given input, and two draws.\<close>

definition appended ::
    "runtime \<Rightarrow> append_input \<Rightarrow> 'a core_db_scheme \<Rightarrow> evidence_event \<Rightarrow> 'a core_db_scheme \<Rightarrow> bool" where
  "appended rt input w e w' \<longleftrightarrow> append_evidence rt input w = (Inr e, w')"

lemma runs_append:
  "(\<And>e w'. appended rt input w e w' \<Longrightarrow> Q e w') \<Longrightarrow> runs (append_evidence rt input) w Q"
  using append_returns [of rt input w] by (auto simp: runs_iff appended_def)

lemma runs_append_iff:
  "runs (append_evidence rt input) w Q \<longleftrightarrow> (\<exists>e w'. appended rt input w e w' \<and> Q e w')"
  by (simp add: runs_iff appended_def)

lemma raises_append [run_simps]: "raises (append_evidence rt input) w Q \<longleftrightarrow> False"
  using append_returns [of rt input w] by (auto simp: raises_iff)

text \<open>
  The state after an append: the state before, with one event more and two draws; reading
  any other table gives what it gave before.
\<close>

lemma appended_state:
  assumes "appended rt input w e w'"
  shows "w' = evidence_events_update (\<lambda>es. es @ [e]) (w\<lparr>db_tick := db_tick w + 2\<rparr>)"
  using assms
  by (auto simp: appended_def append_evidence_def Let_def run_Inr draw_Inr_rules table_Inr)

lemma appended_event:
  assumes "appended rt input w e w'"
  shows "ev_tenantId e = in_tenantId input" "ev_id e = rt_uuid rt (db_tick w + 1)"
    "ev_entityType e = in_entityType input" "ev_entityId e = in_entityId input"
    "ev_eventType e = in_eventType input" "ev_actorId e = in_actorId input"
  using append_run [of rt input w e w'] assms by (simp_all add: appended_def)

lemma appendedD:
  assumes "appended rt input w e w'"
  shows "w' = evidence_events_update (\<lambda>es. es @ [e]) (w\<lparr>db_tick := db_tick w + 2\<rparr>) \<and>
    ev_tenantId e = in_tenantId input \<and> ev_id e = rt_uuid rt (db_tick w + 1) \<and>
    ev_entityType e = in_entityType input \<and> ev_entityId e = in_entityId input \<and>
    ev_eventType e = in_eventType input \<and> ev_actorId e = in_actorId input"
  using appended_state [OF assms] appended_event [OF assms] by auto

text \<open>The same as an equation: the event is a function of the input and the state.\<close>

definition stamped :: "runtime \<Rightarrow> append_input \<Rightarrow> 'a core_db_scheme \<Rightarrow> evidence_event" where
  "stamped rt input w = (case append_evidence rt input w of
     (Inr e, _) \<Rightarrow> e | (Inl _, _) \<Rightarrow> undefined)"

lemma runs_stamped:
  "runs (append_evidence rt input) w Q \<longleftrightarrow>
     Q (stamped rt input w)
       (evidence_events_update (\<lambda>es. es @ [stamped rt input w]) (w\<lparr>db_tick := db_tick w + 2\<rparr>))"
proof -
  obtain e w' where a: "append_evidence rt input w = (Inr e, w')"
    using append_returns [of rt input w] by auto
  then have "w' = evidence_events_update (\<lambda>es. es @ [e]) (w\<lparr>db_tick := db_tick w + 2\<rparr>)"
    by (intro appended_state) (simp add: appended_def)
  with a show ?thesis by (simp add: runs_def stamped_def)
qed

lemma stamped_fields [simp]:
  "ev_tenantId (stamped rt input w) = in_tenantId input"
  "ev_id (stamped rt input w) = rt_uuid rt (db_tick w + 1)"
  "ev_entityType (stamped rt input w) = in_entityType input"
  "ev_entityId (stamped rt input w) = in_entityId input"
  "ev_eventType (stamped rt input w) = in_eventType input"
  "ev_actorId (stamped rt input w) = in_actorId input"
proof -
  obtain e w' where a: "appended rt input w e w'" and e: "stamped rt input w = e"
    using append_returns [of rt input w] by (auto simp: appended_def stamped_def)
  from appendedD [OF a] show
    "ev_tenantId (stamped rt input w) = in_tenantId input"
    "ev_id (stamped rt input w) = rt_uuid rt (db_tick w + 1)"
    "ev_entityType (stamped rt input w) = in_entityType input"
    "ev_entityId (stamped rt input w) = in_entityId input"
    "ev_eventType (stamped rt input w) = in_eventType input"
    "ev_actorId (stamped rt input w) = in_actorId input"
    unfolding e by simp_all
qed

lemma append_extends: "moves log_extends (append_evidence rt input)"
  unfolding moves_def log_extends_def
  using append_returns append_run by (metis prefixI snd_conv)

section \<open>The invariant of the log\<close>

text \<open>
  Every tenant's events are numbered from one, each carries the hash of the one before and
  the hash of its own content.
\<close>

definition numbered :: "evidence_event list \<Rightarrow> bool" where
  "numbered es \<longleftrightarrow> (\<forall>i<length es. ev_sequence (es ! i) = i + 1)"

lemma numbered_snoc: "numbered (es @ [e]) \<longleftrightarrow> numbered es \<and> ev_sequence e = length es + 1"
  by (auto simp: numbered_def nth_append less_Suc_eq)

lemma numbered_last: "numbered es \<Longrightarrow> es \<noteq> [] \<Longrightarrow> ev_sequence (last es) = length es"
  by (simp add: numbered_def last_conv_nth)

lemma numbered_sorted: "numbered es \<Longrightarrow> sorted (map ev_sequence es)"
  by (simp add: numbered_def sorted_iff_nth_mono)

definition chain_ok :: "runtime \<Rightarrow> string option \<Rightarrow> ('a core_db_scheme) \<Rightarrow> bool" where
  "chain_ok rt t w \<longleftrightarrow>
     numbered (tenant_events t w) \<and>
     cv_intact (verify_from rt 0 None (tenant_events t w))"

definition log_ok :: "runtime \<Rightarrow> ('a core_db_scheme) \<Rightarrow> bool" where
  "log_ok rt w \<longleftrightarrow> (\<forall>t. chain_ok rt t w)"

lemma verify_count:
  "cv_intact (verify_from rt n p es) = cv_intact (verify_from rt m p es)"
  by (induction es arbitrary: p) auto

lemma verify_total: "cv_totalEvents (verify_from rt n p es) = n"
  by (induction es arbitrary: p) auto

lemma verify_snoc:
  "cv_intact (verify_from rt n p (es @ [e])) \<longleftrightarrow>
     cv_intact (verify_from rt n p es) \<and>
     ev_previousHash e = (if es = [] then p else Some (ev_eventHash (last es))) \<and>
     computeEventHash rt (hashable_of e) = ev_eventHash e"
  by (induction es arbitrary: p) auto

lemma last_event_eq:
  assumes "numbered (tenant_events t w)"
  shows "last_event t w =
    (if tenant_events t w = [] then None else Some (last (tenant_events t w)))"
proof (cases "tenant_events t w = []")
  case True
  then show ?thesis by (simp add: last_event_def first_of_def order_desc_def)
next
  case False
  let ?es = "tenant_events t w"
  from False obtain r where r: "last_event t w = Some r"
    unfolding last_event_def by (metis first_of_None not_Some_eq order_desc_Nil)
  then have "r \<in> set ?es"
    unfolding last_event_def by (metis first_of_SomeD set_order_desc)
  then obtain i where i: "i < length ?es" "r = ?es ! i" by (metis in_set_conv_nth)
  have "int (ev_sequence (last ?es)) \<le> int (ev_sequence r)"
    using r False unfolding last_event_def by (intro first_of_desc_max) auto
  then have "length ?es \<le> i + 1"
    using False i assms by (simp add: numbered_last) (simp add: numbered_def)
  with i(1) have "i = length ?es - 1" by simp
  with i False have "r = last ?es" by (simp add: last_conv_nth)
  with r False show ?thesis by simp
qed

text \<open>Metadata that survive the JSON column keep their hash.\<close>

definition storable :: "js \<Rightarrow> bool" where
  "storable v \<longleftrightarrow> plain (or_null v)"

lemma storable_JUndef [simp]: "storable JUndef"
  by (simp add: storable_def or_null_def)

lemma storable_JObj [simp]:
  "storable (JObj kvs) \<longleftrightarrow> distinct (map fst kvs) \<and> (\<forall>kv\<in>set kvs. plain (snd kv))"
  by (simp add: storable_def or_null_def)

lemma stored_storable: "storable v \<Longrightarrow> stored_json (or_null v) = or_null v"
  by (simp add: storable_def stored_plain)

lemma or_null_idem [simp]: "or_null (or_null v) = or_null v"
  by (simp add: or_null_def)

lemma append_other_tenant:
  assumes "append_evidence rt input w = (Inr e, w')" "t \<noteq> in_tenantId input"
  shows "tenant_events t w' = tenant_events t w"
  using append_run [OF assms(1)] assms(2) by (simp add: tenant_events_def)

lemma append_own_tenant:
  assumes "append_evidence rt input w = (Inr e, w')"
  shows "tenant_events (in_tenantId input) w' = tenant_events (in_tenantId input) w @ [e]"
  using append_run [OF assms] by (simp add: tenant_events_def)

text \<open>The text of an event as it is stored.\<close>

definition canonical_text :: "evidence_event \<Rightarrow> string" where
  "canonical_text e = stable_stringify (canonical_event (hashable_of e))"

text \<open>The text an append hashed: the event's, with the metadata as they were handed in.\<close>

definition hashed_text :: "append_input \<Rightarrow> evidence_event \<Rightarrow> string" where
  "hashed_text input e = stable_stringify
     (canonical_event ((hashable_of e)\<lparr>he_metadata := in_metadata input\<rparr>))"

lemma append_content:
  assumes "append_evidence rt input w = (Inr e, w')"
  shows "ev_previousHash e = map_option ev_eventHash (last_event (in_tenantId input) w)"
    and "ev_sequence e = (case last_event (in_tenantId input) w of None \<Rightarrow> 0 | Some l \<Rightarrow> ev_sequence l) + 1"
    and "ev_eventHash e = rt_sha256 rt (hashed_text input e)"
    and "ev_metadata e = stored_json (or_null (in_metadata input))"
  using assms
  by (auto simp: append_evidence_def Let_def run_Inr draw_Inr_rules table_Inr hashable_of_def hashed_text_def
      tenant_events_def last_event_def computeEventHash_def canonical_event_def canonical_members_def)

lemma append_numbered:
  assumes "append_evidence rt input w = (Inr e, w')" "chain_ok rt (in_tenantId input) w"
  shows "ev_sequence e = length (tenant_events (in_tenantId input) w) + 1"
proof -
  let ?t = "in_tenantId input"
  have "last_event ?t w = (if tenant_events ?t w = [] then None else Some (last (tenant_events ?t w)))"
    using assms(2) by (intro last_event_eq) (simp add: chain_ok_def)
  moreover have "tenant_events ?t w \<noteq> [] \<Longrightarrow> ev_sequence (last (tenant_events ?t w)) = length (tenant_events ?t w)"
    using assms(2) by (simp add: chain_ok_def numbered_last)
  ultimately show ?thesis using append_content(2) [OF assms(1)] by auto
qed

lemma storable_text:
  assumes "append_evidence rt input w = (Inr e, w')" "storable (in_metadata input)"
  shows "canonical_text e = hashed_text input e"
  using append_content(4) [OF assms(1)] stored_storable [OF assms(2)]
  by (simp add: canonical_text_def hashed_text_def canonical_event_def canonical_members_def hashable_of_def)

lemma append_chain_ok:
  assumes "append_evidence rt input w = (Inr e, w')" "storable (in_metadata input)"
    "log_ok rt w"
  shows "log_ok rt w'"
  unfolding log_ok_def
proof
  fix t
  show "chain_ok rt t w'"
  proof (cases "t = in_tenantId input")
    case False
    then show ?thesis
      using assms(3) append_other_tenant [OF assms(1)] by (simp add: log_ok_def chain_ok_def)
  next
    case True
    let ?t = "in_tenantId input"
    have ok: "chain_ok rt ?t w" using assms(3) by (simp add: log_ok_def)
    have last: "last_event ?t w =
        (if tenant_events ?t w = [] then None else Some (last (tenant_events ?t w)))"
      using ok by (intro last_event_eq) (simp add: chain_ok_def)
    have "computeEventHash rt (hashable_of e) = ev_eventHash e"
      using append_content(3) [OF assms(1)] storable_text [OF assms(1,2)]
      by (simp add: computeEventHash_def canonical_text_def)
    then have "chain_ok rt ?t w'"
      using ok append_content(1) [OF assms(1)] append_numbered [OF assms(1) ok] last
      by (simp add: chain_ok_def append_own_tenant [OF assms(1)] verify_snoc numbered_snoc)
    then show ?thesis by (simp add: True)
  qed
qed

lemma append_keeps_log: "storable (in_metadata input) \<Longrightarrow>
    moves (\<lambda>w w'. log_ok rt w \<longrightarrow> log_ok rt w') (append_evidence rt input)"
  unfolding moves_def using append_returns append_chain_ok by (metis snd_conv)

subsection \<open>Programs that respect the log\<close>

text \<open>
  The relation every service's run is shown to stay in: the log is only extended, and its
  chains stay intact. A step that leaves the log alone is in it.
\<close>

definition log_safe :: "runtime \<Rightarrow> ('a core_db_scheme) \<Rightarrow> ('a core_db_scheme) \<Rightarrow> bool" where
  "log_safe rt w w' \<longleftrightarrow> log_extends w w' \<and> (log_ok rt w \<longrightarrow> log_ok rt w')"

interpretation safe: step_preorder "log_safe rt" for rt :: runtime
  by unfold_locales (auto simp: log_safe_def intro: log.refl log.trans)

lemma log_untouched:
  fixes w w' :: "'a core_db_scheme"
  assumes "evidence_events w' = evidence_events w"
  shows "log_safe rt w w'"
  using assms by (simp add: log_safe_def log_extends_def log_ok_def chain_ok_def tenant_events_def)

lemma append_safe:
  assumes "storable (in_metadata input)"
  shows "moves (log_safe rt) (append_evidence rt input)"
  unfolding moves_def log_safe_def
  by (blast intro: append_extends [unfolded moves_def, rule_format]
      append_keeps_log [OF assms, unfolded moves_def, rule_format])

lemma draw_safe: "moves (log_safe rt) (draw f)"
  by (simp add: moves_def draw_def log_untouched)

lemma emit_safe: "moves (log_safe rt) (emit e)"
  by (simp add: moves_def emit_def modify_p_def log_untouched)

lemma now_safe: "moves (log_safe rt) (now rt')"
  by (simp add: now_def draw_safe)

lemma new_id_safe: "moves (log_safe rt) (new_id rt')"
  by (simp add: new_id_def draw_safe)

lemma random_token_safe: "moves (log_safe rt) (random_token rt')"
  by (simp add: random_token_def draw_safe)

lemmas safe_rules = safe.moves_rules safe.table_moves draw_safe emit_safe now_safe new_id_safe
  random_token_safe

text \<open>The input built for a user is storable when its metadata are.\<close>

lemma user_event_simps [simp]:
  "in_metadata (user_event t a ety eid evt d m) = m"
  "in_tenantId (user_event t a ety eid evt d m) = t"
  "in_actorId (user_event t a ety eid evt d m) = Some a"
  "in_entityType (user_event t a ety eid evt d m) = ety"
  "in_entityId (user_event t a ety eid evt d m) = eid"
  "in_eventType (user_event t a ety eid evt d m) = evt"
  by (simp_all add: user_event_def)

section \<open>What a verification of the chain establishes\<close>

text \<open>The three answers of \<open>verifyChain\<close>.\<close>

definition intact_result :: "nat \<Rightarrow> chain_verification" where
  "intact_result n = \<lparr>cv_intact = True, cv_totalEvents = n, cv_brokenAtSequence = None,
                      cv_reason = None\<rparr>"

definition altered_result :: "nat \<Rightarrow> nat \<Rightarrow> chain_verification" where
  "altered_result n s = \<lparr>cv_intact = False, cv_totalEvents = n, cv_brokenAtSequence = Some s,
     cv_reason = Some ''Event content has been altered since it was recorded.''\<rparr>"

definition unlinked_result :: "nat \<Rightarrow> nat \<Rightarrow> chain_verification" where
  "unlinked_result n s = \<lparr>cv_intact = False, cv_totalEvents = n, cv_brokenAtSequence = Some s,
     cv_reason = Some (''Chain link broken '' @ em_dash @ '' previousHash does not match the prior event.'')\<rparr>"

lemma ordered_events:
  assumes "chain_ok rt t w"
  shows "order_asc ev_sequence (tenant_events t w) = tenant_events t w"
  using assms
  by (simp add: chain_ok_def order_asc_def sort_key_id_if_sorted numbered_sorted)

lemma verifyChain_run:
  "verifyChain rt t w =
     (Inr (verify_from rt (length (tenant_events t w)) None
             (order_asc ev_sequence (tenant_events t w))), w)"
  by (simp add: verifyChain_def prog_defs Let_def tenant_events_def)

lemma chain_ok_verified:
  assumes "chain_ok rt t w"
  shows "verifyChain rt t w =
    (Inr \<lparr>cv_intact = True, cv_totalEvents = length (tenant_events t w),
          cv_brokenAtSequence = None, cv_reason = None\<rparr>, w)"
proof -
  have *: "cv_intact (verify_from rt n p es) \<Longrightarrow> verify_from rt n p es =
      \<lparr>cv_intact = True, cv_totalEvents = n, cv_brokenAtSequence = None, cv_reason = None\<rparr>"
    for n p es
    by (induction es arbitrary: p) (auto split: if_splits)
  have "cv_intact (verify_from rt (length (tenant_events t w)) None (tenant_events t w))"
    using assms verify_count [of rt "length (tenant_events t w)" None "tenant_events t w" 0]
    by (simp add: chain_ok_def)
  from * [OF this] show ?thesis
    by (simp add: verifyChain_run ordered_events [OF assms])
qed

text \<open>
  The content of an event that its hash covers: every column but the row's id and the hash
  itself; the metadata count up to the order of their keys.
\<close>

definition same_content :: "evidence_event \<Rightarrow> evidence_event \<Rightarrow> bool" where
  "same_content e e' \<longleftrightarrow>
     ev_sequence e = ev_sequence e' \<and> ev_tenantId e = ev_tenantId e' \<and>
     ev_actorId e = ev_actorId e' \<and> ev_actorType e = ev_actorType e' \<and>
     ev_entityType e = ev_entityType e' \<and> ev_entityId e = ev_entityId e' \<and>
     ev_eventType e = ev_eventType e' \<and> ev_eventDescription e = ev_eventDescription e' \<and>
     norm_js (ev_metadata e) = norm_js (ev_metadata e') \<and>
     ev_ipAddress e = ev_ipAddress e' \<and> ev_deviceId e = ev_deviceId e' \<and>
     to_iso_string (ev_occurredAt e) = to_iso_string (ev_occurredAt e') \<and>
     ev_previousHash e = ev_previousHash e'"

text \<open>Two events whose texts differ and have the same hash.\<close>

definition collision :: "runtime \<Rightarrow> evidence_event list \<Rightarrow> evidence_event list \<Rightarrow> bool" where
  "collision rt es es' \<longleftrightarrow>
     (\<exists>e\<in>set es. \<exists>e'\<in>set es'. canonical_text e \<noteq> canonical_text e' \<and>
        rt_sha256 rt (canonical_text e) = rt_sha256 rt (canonical_text e'))"

lemma canonical_keys:
  "map fst (canonical_members e) =
     [''sequence'', ''tenantId'', ''actorId'', ''actorType'', ''entityType'', ''entityId'',
      ''eventType'', ''eventDescription'', ''metadata'', ''ipAddress'', ''deviceId'',
      ''occurredAt'', ''previousHash'']"
  by (simp add: canonical_members_def)

lemma plain_canonical: "plain (he_metadata e) \<Longrightarrow> plain (JObj (canonical_members e))"
  unfolding plain_JObj canonical_keys by (auto simp: canonical_members_def or_null_def)

lemma canonical_lookup:
  "map_of (canonical_members e) ''sequence'' = Some (JNum (int (he_sequence e)))"
  "map_of (canonical_members e) ''tenantId'' = Some (opt_str (he_tenantId e))"
  "map_of (canonical_members e) ''actorId'' = Some (opt_str (he_actorId e))"
  "map_of (canonical_members e) ''actorType'' = Some (opt_str (he_actorType e))"
  "map_of (canonical_members e) ''entityType'' = Some (JStr (he_entityType e))"
  "map_of (canonical_members e) ''entityId'' = Some (JStr (he_entityId e))"
  "map_of (canonical_members e) ''eventType'' = Some (JStr (he_eventType e))"
  "map_of (canonical_members e) ''eventDescription'' = Some (JStr (he_eventDescription e))"
  "map_of (canonical_members e) ''metadata'' = Some (or_null (he_metadata e))"
  "map_of (canonical_members e) ''ipAddress'' = Some (opt_str (he_ipAddress e))"
  "map_of (canonical_members e) ''deviceId'' = Some (opt_str (he_deviceId e))"
  "map_of (canonical_members e) ''occurredAt'' = Some (JStr (to_iso_string (he_occurredAt e)))"
  "map_of (canonical_members e) ''previousHash'' = Some (opt_str (he_previousHash e))"
  by (simp_all add: canonical_members_def)

lemma same_text_content:
  assumes "plain (ev_metadata e)" "plain (ev_metadata e')"
    "canonical_text e = canonical_text e'"
  shows "same_content e e'"
proof -
  let ?a = "canonical_members (hashable_of e)" and ?b = "canonical_members (hashable_of e')"
  have m: "or_null (ev_metadata e) = ev_metadata e" "or_null (ev_metadata e') = ev_metadata e'"
    using assms(1,2) by (auto simp: or_null_def)
  have "map_option norm_js (map_of ?a k) = map_option norm_js (map_of ?b k)" for k
    using assms
    by (intro stable_obj_member plain_canonical)
       (simp_all add: canonical_text_def canonical_event_def hashable_of_def)
  note k = this
  note members = k [of "''sequence''"] k [of "''tenantId''"] k [of "''actorId''"]
    k [of "''actorType''"] k [of "''entityType''"] k [of "''entityId''"] k [of "''eventType''"]
    k [of "''eventDescription''"] k [of "''metadata''"] k [of "''ipAddress''"]
    k [of "''deviceId''"] k [of "''occurredAt''"] k [of "''previousHash''"]
  from members [unfolded canonical_lookup] show ?thesis
    by (simp add: same_content_def hashable_of_def m)
qed

text \<open>
  The hash of the last event commits to the whole chain: two chains that verify and end in
  the same hash have the same length and the same content, or exhibit a collision.
\<close>

lemma chain_commits:
  assumes "cv_intact (verify_from rt n None es)" "cv_intact (verify_from rt n' None es')"
    "es \<noteq> []" "es' \<noteq> []" "ev_eventHash (last es) = ev_eventHash (last es')"
    "\<forall>e\<in>set es \<union> set es'. plain (ev_metadata e)" "\<not> collision rt es es'"
  shows "list_all2 same_content es es'"
  using assms
proof (induction es arbitrary: es' rule: rev_induct)
  case (snoc e es)
  from snoc.prems(4) obtain e' fs where es': "es' = fs @ [e']" by (metis rev_exhaust)
  have h: "computeEventHash rt (hashable_of e) = ev_eventHash e"
    "computeEventHash rt (hashable_of e') = ev_eventHash e'"
    using snoc.prems(1,2) by (auto simp: es' verify_snoc)
  have "rt_sha256 rt (canonical_text e) = rt_sha256 rt (canonical_text e')"
    using h snoc.prems(5) by (simp add: es' computeEventHash_def canonical_text_def)
  then have "canonical_text e = canonical_text e'"
    using snoc.prems(7) by (auto simp: collision_def es')
  then have c: "same_content e e'"
    using snoc.prems(6) by (auto simp: es' intro: same_text_content)
  have p: "(if es = [] then None else Some (ev_eventHash (last es))) =
      (if fs = [] then None else Some (ev_eventHash (last fs)))"
    using c snoc.prems(1,2) by (simp add: es' verify_snoc same_content_def)
  show ?case
  proof (cases "es = []")
    case True
    with p c show ?thesis by (simp add: es' split: if_splits)
  next
    case False
    with p have "fs \<noteq> []" "ev_eventHash (last es) = ev_eventHash (last fs)"
      by (auto split: if_splits)
    with False snoc.prems have "list_all2 same_content es fs"
      by (intro snoc.IH) (auto simp: es' verify_snoc collision_def)
    with c show ?thesis by (simp add: es' list_all2_appendI)
  qed
qed simp

text \<open>
  One event altered in place, in any of its fields but its link: found at once when its hash was
  left alone, at the next event when it was computed anew, and not at all when it is the last.
\<close>

lemma verify_altered:
  assumes "cv_intact (verify_from rt n p (pre @ e # post))" "ev_previousHash e' = ev_previousHash e"
  shows "verify_from rt n p (pre @ e' # post) =
    (if rt_sha256 rt (canonical_text e') \<noteq> ev_eventHash e' then altered_result n (ev_sequence e')
     else if post \<noteq> [] \<and> ev_eventHash e' \<noteq> ev_eventHash e then unlinked_result n (ev_sequence (hd post))
     else intact_result n)"
  using assms
proof (induction pre arbitrary: p)
  case Nil
  have intact: "cv_intact (verify_from rt n q es) \<Longrightarrow> verify_from rt n q es = intact_result n" for q es
    by (induction es arbitrary: q) (auto simp: intact_result_def split: if_splits)
  from Nil show ?case
    by (cases post) (auto simp: computeEventHash_def canonical_text_def altered_result_def unlinked_result_def
        intact_result_def [of n, symmetric] intact split: if_splits)
next
  case (Cons a pre)
  then show ?case using Cons.IH [of "Some (ev_eventHash a)"] by (auto split: if_splits)
qed

text \<open>
  What an append adds to the chain, whatever the metadata.
\<close>

lemma verify_snoc_altered:
  assumes "cv_intact (verify_from rt n p es)" "ev_previousHash e = (if es = [] then p else Some (ev_eventHash (last es)))"
    "computeEventHash rt (hashable_of e) \<noteq> ev_eventHash e"
  shows "verify_from rt n p (es @ [e]) = altered_result n (ev_sequence e)"
  using assms
proof (induction es arbitrary: p)
  case (Cons a es)
  then show ?case
    using Cons.IH [of "Some (ev_eventHash a)"] by (auto split: if_splits)
qed (simp add: altered_result_def)

lemma append_verified:
  assumes "append_evidence rt input w = (Inr e, w')" "chain_ok rt (in_tenantId input) w"
  shows "verifyChain rt (in_tenantId input) w' =
    (Inr (if rt_sha256 rt (canonical_text e) = rt_sha256 rt (hashed_text input e)
          then intact_result (ev_sequence e) else altered_result (ev_sequence e) (ev_sequence e)), w')"
proof -
  let ?t = "in_tenantId input" and ?es = "tenant_events (in_tenantId input) w"
  have len: "ev_sequence e = Suc (length ?es)" using append_numbered [OF assms] by simp
  have num: "numbered (?es @ [e])"
    using assms(2) len by (simp add: chain_ok_def numbered_snoc)
  have last: "last_event ?t w = (if ?es = [] then None else Some (last ?es))"
    using assms(2) by (intro last_event_eq) (simp add: chain_ok_def)
  have prev: "ev_previousHash e = (if ?es = [] then None else Some (ev_eventHash (last ?es)))"
    using append_content(1) [OF assms(1)] last by simp
  have ok: "cv_intact (verify_from rt (ev_sequence e) None ?es)"
    using assms(2) verify_count [of rt "ev_sequence e" None ?es 0] by (simp add: chain_ok_def)
  have own: "tenant_events ?t w' = ?es @ [e]" by (rule append_own_tenant [OF assms(1)])
  have hash: "computeEventHash rt (hashable_of e) = rt_sha256 rt (canonical_text e)"
    by (simp add: computeEventHash_def canonical_text_def)
  show ?thesis
  proof (cases "rt_sha256 rt (canonical_text e) = rt_sha256 rt (hashed_text input e)")
    case True
    then have "chain_ok rt ?t w'"
      using assms(2) num prev hash append_content(3) [OF assms(1)]
      by (simp add: chain_ok_def own verify_snoc)
    then show ?thesis using True len by (simp add: chain_ok_verified own intact_result_def)
  next
    case False
    have "verifyChain rt ?t w' = (Inr (verify_from rt (ev_sequence e) None (?es @ [e])), w')"
      using numbered_sorted [OF num] len by (simp add: verifyChain_run own order_asc_def sort_key_id_if_sorted)
    with False verify_snoc_altered [OF ok prev] hash append_content(3) [OF assms(1)] show ?thesis by simp
  qed
qed

text \<open>
  When a member of the metadata is undefined, the two texts differ: one has it, as null, and the
  other has not.
\<close>

lemma dropped_member_text:
  assumes "append_evidence rt input w = (Inr e, w')" "dateless (in_metadata input)" "drops_members (in_metadata input)"
  shows "canonical_text e \<noteq> hashed_text input e"
proof
  let ?m = "in_metadata input"
  assume same: "canonical_text e = hashed_text input e"
  have m: "or_null ?m = ?m" using assms(3) by (auto simp: or_null_def)
  let ?a = "canonical_members (hashable_of e)"
  let ?b = "canonical_members ((hashable_of e)\<lparr>he_metadata := with_nulls ?m\<rparr>)"
  have n: "with_nulls ?m \<noteq> JUndef" by (cases ?m) auto
  have "hashed_text input e = stable_stringify (JObj ?b)"
    using n m by (simp add: hashed_text_def canonical_event_def canonical_members_def or_null_def stable_with_nulls)
  with same have eq: "stable_stringify (JObj ?a) = stable_stringify (JObj ?b)"
    by (simp add: canonical_text_def canonical_event_def)
  have p: "plain (stored_json ?m)" "plain (with_nulls ?m)"
    using assms(2) by (simp_all add: plain_stored plain_with_nulls)
  then have "plain (JObj ?a)" "plain (JObj ?b)"
    using append_content(4) [OF assms(1)] m
    by (simp_all only: plain_canonical hashable_of_def hashable_event.simps hashable_event.update_convs)
  from stable_obj_member [OF this eq, of "''metadata''"]
  have "norm_js (stored_json ?m) = norm_js (with_nulls ?m)"
    using append_content(4) [OF assms(1)] m n p
    by (auto simp: canonical_lookup hashable_of_def or_null_def split: if_splits)
  with dropped_text [OF assms(3)] show False ..
qed

section \<open>Properties\<close>

lemma log_ok_empty: "log_ok rt empty_core"
  by (simp add: log_ok_def chain_ok_def tenant_events_def empty_core_def numbered_def)

text \<open>
  C2. \<open>append\<close> always returns, and always adds one event of its tenant, linked to the tenant's
  last and hashed over the metadata it was given. On a log whose chains verify, the event is
  numbered next and every other tenant's chain still verifies. The tenant's own chain verifies
  exactly when the text that was hashed and the text of the row as it was stored have the same
  hash; otherwise \<open>verifyChain\<close> reports this very event as altered. The two texts are equal for
  metadata that survive the JSON column, and they differ for metadata with an undefined member,
  which the hash counts as null and the column drops.
\<close>

theorem append_extends_chain:
  "\<exists>e w'. append_evidence rt input w = (Inr e, w') \<and>
     evidence_events w' = evidence_events w @ [e] \<and>
     ev_tenantId e = in_tenantId input \<and>
     ev_previousHash e = map_option ev_eventHash (last_event (in_tenantId input) w) \<and>
     ev_eventHash e = rt_sha256 rt (hashed_text input e) \<and>
     (log_ok rt w \<longrightarrow>
        ev_sequence e = length (tenant_events (in_tenantId input) w) + 1 \<and>
        (\<forall>t. verifyChain rt t w' =
          (Inr (if t = in_tenantId input \<and>
                   rt_sha256 rt (canonical_text e) \<noteq> rt_sha256 rt (hashed_text input e)
                then altered_result (ev_sequence e) (ev_sequence e)
                else intact_result (length (tenant_events t w'))), w')) \<and>
        (storable (in_metadata input) \<longrightarrow> log_ok rt w')) \<and>
     (storable (in_metadata input) \<longrightarrow> canonical_text e = hashed_text input e) \<and>
     (dateless (in_metadata input) \<and> drops_members (in_metadata input) \<longrightarrow>
        canonical_text e \<noteq> hashed_text input e)"
proof -
  let ?t = "in_tenantId input"
  obtain e w' where run: "append_evidence rt input w = (Inr e, w')"
    using append_returns by blast
  have own: "tenant_events ?t w' = tenant_events ?t w @ [e]" by (rule append_own_tenant [OF run])
  have verified: "verifyChain rt t w' =
      (Inr (if t = ?t \<and> rt_sha256 rt (canonical_text e) \<noteq> rt_sha256 rt (hashed_text input e)
            then altered_result (ev_sequence e) (ev_sequence e)
            else intact_result (length (tenant_events t w'))), w')" if ok: "log_ok rt w" for t
  proof (cases "t = ?t")
    case True
    then show ?thesis
      using append_verified [OF run] append_numbered [OF run] ok own by (simp add: log_ok_def)
  next
    case False
    then have "chain_ok rt t w'"
      using ok append_other_tenant [OF run False] by (simp add: log_ok_def chain_ok_def)
    with False show ?thesis by (simp add: chain_ok_verified intact_result_def)
  qed
  show ?thesis
    using run append_run [OF run] append_content(1,3) [OF run] append_numbered [OF run] verified
      append_chain_ok [OF run] storable_text [OF run] dropped_member_text [OF run]
    by (intro exI [of _ e] exI [of _ w']) (simp add: log_ok_def)
qed

definition demo_append :: append_input where
  "demo_append = user_event (Some ''t1'') ''u1'' ''SESSION'' ''s1'' ''SESSION_STARTED''
     ''Session started'' (JObj [(''device'', JStr ''phone''), (''n'', JNum 1)])"

lemma demo_append_simps [simp]:
  "in_tenantId demo_append = Some ''t1''" "storable (in_metadata demo_append)"
  by (simp_all add: demo_append_def user_event_def)

text \<open>The witness appends twice: plain metadata, then metadata with an undefined member.\<close>

definition demo_lossy :: append_input where
  "demo_lossy = user_event (Some ''t1'') ''u1'' ''SESSION'' ''s1'' ''SESSION_STARTED''
     ''Session started'' (JObj [(''device'', JUndef), (''n'', JNum 1)])"

lemma demo_lossy_simps [simp]:
  "in_tenantId demo_lossy = Some ''t1''" "dateless (in_metadata demo_lossy)" "drops_members (in_metadata demo_lossy)"
  by (simp_all add: demo_lossy_def user_event_def defined_def)

theorem append_extends_chain_witness:
  "(\<exists>e w'. append_evidence demo_rt demo_append empty_core = (Inr e, w') \<and>
     evidence_events w' = [e] \<and> ev_sequence e = 1 \<and> log_ok demo_rt w') \<and>
   (\<exists>e w'. append_evidence demo_rt demo_lossy empty_core = (Inr e, w') \<and>
     verifyChain demo_rt (Some ''t1'') w' = (Inr (altered_result 1 1), w'))"
proof
  show "\<exists>e w'. append_evidence demo_rt demo_append empty_core = (Inr e, w') \<and>
     evidence_events w' = [e] \<and> ev_sequence e = 1 \<and> log_ok demo_rt w'"
    using append_extends_chain [of demo_rt demo_append empty_core] log_ok_empty
    by (auto simp: empty_core_def tenant_events_def)
  have id: "rt_sha256 demo_rt s = s" for s by (simp add: demo_rt_def)
  show "\<exists>e w'. append_evidence demo_rt demo_lossy empty_core = (Inr e, w') \<and>
     verifyChain demo_rt (Some ''t1'') w' = (Inr (altered_result 1 1), w')"
    using append_extends_chain [of demo_rt demo_lossy empty_core] log_ok_empty
    by (auto simp: empty_core_def tenant_events_def id)
qed

text \<open>
  C3. The hash of a chain's last event commits to the whole chain. Two logs (say, the log
  and a copy exported earlier) whose chain of a tenant verifies, over JSON metadata, and ends
  in the same hash hold the same events, field by field; otherwise SHA-256 has a collision
  between the texts of two of these very events.
\<close>

theorem head_hash_commits:
  assumes "cv_intact (verify_from rt n None (order_asc ev_sequence (tenant_events t w)))"
    "cv_intact (verify_from rt n' None (order_asc ev_sequence (tenant_events t w')))"
    "tenant_events t w \<noteq> []" "tenant_events t w' \<noteq> []"
    "ev_eventHash (last (order_asc ev_sequence (tenant_events t w))) =
     ev_eventHash (last (order_asc ev_sequence (tenant_events t w')))"
    "\<forall>e\<in>set (evidence_events w) \<union> set (evidence_events w'). plain (ev_metadata e)"
  shows "list_all2 same_content
      (order_asc ev_sequence (tenant_events t w)) (order_asc ev_sequence (tenant_events t w')) \<or>
    collision rt (tenant_events t w) (tenant_events t w')"
proof -
  have "\<forall>e\<in>set (tenant_events t w) \<union> set (tenant_events t w'). plain (ev_metadata e)"
    using assms(6) by (auto simp: tenant_events_def)
  then show ?thesis
    using assms(1-5) chain_commits [of rt n "order_asc ev_sequence (tenant_events t w)" n'
        "order_asc ev_sequence (tenant_events t w')"]
    by (auto simp: collision_def)
qed

definition demo_log :: core_db where
  "demo_log = snd (append_evidence demo_rt demo_append empty_core)"

lemma demo_log_events: "\<exists>e. evidence_events demo_log = [e] \<and> ev_tenantId e = Some ''t1'' \<and>
    ev_metadata e = JObj [(''device'', JStr ''phone''), (''n'', JNum 1)]"
  by (simp add: demo_log_def demo_append_def user_event_def append_evidence_def prog_defs Let_def
      empty_core_def or_null_def defined_def)

lemma demo_log_ok: "log_ok demo_rt demo_log"
proof -
  obtain e w' where "append_evidence demo_rt demo_append empty_core = (Inr e, w')"
    using append_returns by blast
  moreover from this have "log_ok demo_rt w'"
    using append_chain_ok log_ok_empty demo_append_simps(2) by blast
  ultimately show ?thesis by (simp add: demo_log_def)
qed

theorem head_hash_commits_witness:
  "list_all2 same_content
     (order_asc ev_sequence (tenant_events (Some ''t1'') demo_log))
     (order_asc ev_sequence (tenant_events (Some ''t1'') demo_log)) \<or>
   collision demo_rt (tenant_events (Some ''t1'') demo_log)
     (tenant_events (Some ''t1'') demo_log)"
proof (rule head_hash_commits [of demo_rt 0 "Some ''t1''" demo_log 0 demo_log])
  have c: "chain_ok demo_rt (Some ''t1'') demo_log" using demo_log_ok by (simp add: log_ok_def)
  then show "cv_intact (verify_from demo_rt 0 None
      (order_asc ev_sequence (tenant_events (Some ''t1'') demo_log)))"
    by (simp add: ordered_events) (simp add: chain_ok_def)
  then show "cv_intact (verify_from demo_rt 0 None
      (order_asc ev_sequence (tenant_events (Some ''t1'') demo_log)))" .
  obtain e where "evidence_events demo_log = [e]" "ev_tenantId e = Some ''t1''"
    "ev_metadata e = JObj [(''device'', JStr ''phone''), (''n'', JNum 1)]"
    using demo_log_events by blast
  then show "tenant_events (Some ''t1'') demo_log \<noteq> []"
    "tenant_events (Some ''t1'') demo_log \<noteq> []"
    "\<forall>e\<in>set (evidence_events demo_log) \<union> set (evidence_events demo_log). plain (ev_metadata e)"
    by (simp_all add: tenant_events_def)
qed simp

text \<open>
  C4. What \<open>verifyChain\<close> says of a chain one event of which was altered in place, its sequence
  number and link left alone and every other field free. When the event's hash does not fit its
  new content (the hash was left alone and the texts do not collide, say), exactly this event is
  named. When the hash was computed anew, the event after it is named as unlinked; the last event
  of a chain has none, and its alteration goes unnoticed.
\<close>

theorem edit_is_located:
  assumes "chain_ok rt t w" "tenant_events t w = pre @ e # post"
    "tenant_events t w' = pre @ e' # post"
    "ev_sequence e' = ev_sequence e" "ev_previousHash e' = ev_previousHash e"
  shows "verifyChain rt t w' =
    (Inr (if rt_sha256 rt (canonical_text e') \<noteq> ev_eventHash e'
          then altered_result (length (pre @ e # post)) (length pre + 1)
          else if post \<noteq> [] \<and> ev_eventHash e' \<noteq> ev_eventHash e
          then unlinked_result (length (pre @ e # post)) (length pre + 2)
          else intact_result (length (pre @ e # post))), w')"
proof -
  have num: "numbered (pre @ e # post)"
    using assms(1,2) by (simp add: chain_ok_def)
  have nth: "i < length (pre @ e # post) \<Longrightarrow> ev_sequence ((pre @ e # post) ! i) = i + 1" for i
    using num unfolding numbered_def by blast
  have seq: "ev_sequence e = length pre + 1" using nth [of "length pre"] by simp
  have next_seq: "post \<noteq> [] \<Longrightarrow> ev_sequence (hd post) = length pre + 2"
    using nth [of "length pre + 1"] by (cases post) (simp_all add: nth_append)
  have "map ev_sequence (pre @ e' # post) = map ev_sequence (pre @ e # post)"
    using assms(4) by simp
  then have ord: "order_asc ev_sequence (pre @ e' # post) = pre @ e' # post"
    using numbered_sorted [OF num] by (metis order_asc_def sort_key_id_if_sorted)
  have "cv_intact (verify_from rt (length (pre @ e # post)) None (pre @ e # post))"
    using assms(1,2) verify_count [of rt _ None "pre @ e # post" 0] by (simp add: chain_ok_def)
  from verify_altered [OF this assms(5)] show ?thesis
    using seq next_seq by (simp add: verifyChain_run assms(3,4) ord)
qed

definition demo_forged :: core_db where
  "demo_forged = evidence_events_update
     (map (\<lambda>e. e\<lparr>ev_eventDescription := ''Nothing happened''\<rparr>)) demo_log"

definition demo_rehashed :: core_db where
  "demo_rehashed = evidence_events_update
     (map (\<lambda>e. e\<lparr>ev_eventHash := rt_sha256 demo_rt (canonical_text e)\<rparr>)) demo_forged"

theorem edit_is_located_witness:
  "verifyChain demo_rt (Some ''t1'') demo_forged = (Inr (altered_result 1 1), demo_forged) \<and>
   verifyChain demo_rt (Some ''t1'') demo_rehashed = (Inr (intact_result 1), demo_rehashed)"
proof -
  obtain e where e: "evidence_events demo_log = [e]" "ev_tenantId e = Some ''t1''"
    "ev_metadata e = JObj [(''device'', JStr ''phone''), (''n'', JNum 1)]"
    using demo_log_events by blast
  let ?e = "e\<lparr>ev_eventDescription := ''Nothing happened''\<rparr>"
  let ?h = "?e\<lparr>ev_eventHash := rt_sha256 demo_rt (canonical_text ?e)\<rparr>"
  have "ev_eventDescription e = ''Session started''"
    using e(1) by (simp add: demo_log_def demo_append_def user_event_def append_evidence_def
        prog_defs Let_def empty_core_def) auto
  then have "\<not> same_content ?e e" by (simp add: same_content_def)
  then have "canonical_text ?e \<noteq> canonical_text e"
    using same_text_content [of ?e e] e(3) by auto
  moreover have ok: "chain_ok demo_rt (Some ''t1'') demo_log" using demo_log_ok by (simp add: log_ok_def)
  ultimately have differ: "rt_sha256 demo_rt (canonical_text ?e) \<noteq> ev_eventHash ?e"
    using e by (simp add: demo_rt_def chain_ok_def tenant_events_def computeEventHash_def canonical_text_def
        split: if_splits)
  have rehashed: "canonical_text ?h = canonical_text ?e"
    by (simp add: canonical_text_def hashable_of_def)
  have es: "tenant_events (Some ''t1'') demo_log = [] @ e # []"
    "tenant_events (Some ''t1'') demo_forged = [] @ ?e # []"
    "tenant_events (Some ''t1'') demo_rehashed = [] @ ?h # []"
    using e by (simp_all add: tenant_events_def demo_forged_def demo_rehashed_def)
  show ?thesis
    using edit_is_located [OF ok es(1,2)] edit_is_located [OF ok es(1,3)] differ rehashed by simp
qed

text \<open>
  Tenants do not see or disturb each other's log: an append for one tenant leaves the
  timeline and the verification of every other tenant as they were, and a timeline (with the
  filters off or on) holds only the tenant's own matching events, in chain order and, for a
  non-negative limit, at most 500 of them.
\<close>

lemma log_tenant_isolation:
  assumes "append_evidence rt input w = (Inr e, w')" "t \<noteq> in_tenantId input" "0 \<le> lim"
  shows "fst (getTimeline t ety eid (Some lim) w') = fst (getTimeline t ety eid (Some lim) w) \<and>
    fst (verifyChain rt t w') = fst (verifyChain rt t w) \<and>
    (\<exists>rows. getTimeline t ety eid (Some lim) w' = (Inr rows, w') \<and>
       (\<forall>r\<in>set rows. ev_tenantId r = t \<and> (truthy ety \<longrightarrow> ety = Some (ev_entityType r)) \<and>
          (truthy eid \<longrightarrow> eid = Some (ev_entityId r))) \<and>
       sorted (map ev_sequence rows) \<and> length rows \<le> 500)"
proof -
  let ?P = "\<lambda>e. ev_tenantId e = t \<and> (truthy ety \<longrightarrow> ety = Some (ev_entityType e)) \<and>
      (truthy eid \<longrightarrow> eid = Some (ev_entityId e))"
  let ?rows = "\<lambda>v. take_rows (min lim 500) (order_asc ev_sequence (filter ?P (evidence_events v)))"
  have run: "getTimeline t ety eid (Some lim) v = (Inr (?rows v), v)" for v :: "'a core_db_scheme"
    by (simp add: getTimeline_def prog_defs)
  have ev: "evidence_events w' = evidence_events w @ [e]" "ev_tenantId e = in_tenantId input"
    using append_run [OF assms(1)] by auto
  have same: "?rows w' = ?rows w" using ev assms(2) by simp
  have sub: "set (?rows w') \<subseteq> set (filter ?P (evidence_events w'))"
    by (auto simp: take_rows_def dest: in_set_takeD in_set_dropD)
  have srt: "sorted (map ev_sequence (?rows w'))"
    unfolding take_rows_def order_asc_def using sorted_sort_key [of ev_sequence]
    by (simp add: assms(3) take_map [symmetric] sorted_wrt_take)
  have len: "length (?rows w') \<le> 500" using assms(3) by (simp add: take_rows_def)
  have tl: "fst (getTimeline t ety eid (Some lim) w') = fst (getTimeline t ety eid (Some lim) w)"
    by (simp only: run same fst_conv)
  have "fst (verifyChain rt t w') = fst (verifyChain rt t w)"
    using append_other_tenant [OF assms(1,2)] by (simp add: verifyChain_run)
  with tl run [of w'] sub srt len show ?thesis by (intro conjI exI [of _ "?rows w'"]) auto
qed

lemma log_tenant_isolation_witness:
  "fst (getTimeline (Some ''t2'') None None (Some 10) demo_log) =
     fst (getTimeline (Some ''t2'') None None (Some 10) empty_core)"
proof -
  obtain e where "append_evidence demo_rt demo_append empty_core = (Inr e, demo_log)"
    unfolding demo_log_def using append_returns by (metis snd_conv)
  from log_tenant_isolation [OF this, of "Some ''t2''" 10 None None] show ?thesis by simp
qed

end
