(* ===== verification/EvidenceFiles.thy ===== *)
theory EvidenceFiles
  imports EvidenceVault
begin

text \<open>
  The files of the Evidence Vault (modules/evidence-vault/evidence-file.service.ts) with the
  blob store they are kept in (common/blob/blob.service.ts) and the queue an export is handed
  to (common/queue/queue.service.ts). Every access goes through \<open>requireEvent\<close>, and every
  access but the public-safe view leaves an event in the log.
\<close>

section \<open>State\<close>

record evidence_file =
  ef_id :: string
  ef_evidenceEventId :: string
  ef_tenantId :: "string option"
  ef_filename :: string
  ef_mimeType :: string
  ef_sizeBytes :: nat
  ef_sha256 :: string
  ef_blobUri :: string
  ef_uploadedAt :: int
  ef_retentionUntil :: "int option"
  ef_legalHold :: bool
  ef_uploadedByUserId :: "string option"
  ef_metadata :: js

record export_bundle =
  xb_id :: string
  xb_tenantId :: string
  xb_filters :: js
  xb_recordCount :: nat
  xb_checksum :: string
  xb_bundle :: js
  xb_status :: string
  xb_expiresAt :: "int option"

record files_db = core_db +
  evidence_files :: "evidence_file list"
  export_bundles :: "export_bundle list"

interpretation files_tab: table evidence_files evidence_files_update
  by unfold_locales simp

interpretation bundles_tab: table export_bundles export_bundles_update
  by unfold_locales simp

section \<open>The queue and the blob store\<close>

text \<open>
  \<open>QueueService.enqueue\<close>: without Redis the payload is dropped and the result is null; with
  it the job is added, which BullMQ may refuse.
\<close>

definition enqueue ::
    "runtime \<Rightarrow> string \<Rightarrow> js \<Rightarrow> string option \<Rightarrow> ('a core_db_scheme, string option) prog" where
  "enqueue rt name payload jobId =
     (if \<not> rt_redis rt then ret None
      else bind_p (draw (rt_add_job rt jobId)) (\<lambda>r.
        case r of
          Inl err \<Rightarrow> throw (InternalError err)
        | Inr added \<Rightarrow>
            seq_p (insert_row jobs_update \<lparr>qj_queue = name, qj_payload = payload, qj_jobId = jobId\<rparr>)
                  (ret added)))"

definition blobName :: "string \<Rightarrow> string \<Rightarrow> string \<Rightarrow> string" where
  "blobName tenantId evidenceEventId filename =
     ''tenant-'' @ tenantId @ ''/'' @ evidenceEventId @ ''/'' @ filename"

definition blob_upload ::
    "runtime \<Rightarrow> string \<Rightarrow> string \<Rightarrow> string \<Rightarrow> string \<Rightarrow>
     ('a core_db_scheme, (string \<times> string) option) prog" where
  "blob_upload rt tenantId evidenceEventId filename content =
     (if \<not> rt_container rt then ret None
      else let sha256 = rt_sha256 rt content;
               blob = blobName tenantId evidenceEventId filename
           in bind_p (draw (rt_put_blob rt blob content)) (\<lambda>failed.
              case failed of
                Some err \<Rightarrow> throw (InternalError err)
              | None \<Rightarrow> ret (Some (rt_blob_url rt blob, sha256))))"

definition generateReadUrl ::
    "runtime \<Rightarrow> string \<Rightarrow> string \<Rightarrow> string \<Rightarrow> int \<Rightarrow> ('a core_db_scheme, string option) prog" where
  "generateReadUrl rt tenantId evidenceEventId filename expiresInSeconds =
     (if \<not> rt_container rt \<or> \<not> rt_shared_key rt then ret None
      else let blob = blobName tenantId evidenceEventId filename
           in bind_p (now rt) (\<lambda>t.
              ret (Some (rt_blob_url rt blob @ ''?'' @
                         rt_blob_sas rt blob (t + expiresInSeconds * 1000)))))"

section \<open>Access to an event\<close>

definition find_event :: "string \<Rightarrow> ('a core_db_scheme, evidence_event option) prog" where
  "find_event eid = find_row evidence_events (\<lambda>e. ev_id e = eid)"

definition requireEvent :: "auth_user \<Rightarrow> string \<Rightarrow> ('a core_db_scheme, evidence_event) prog" where
  "requireEvent user eid =
     bind_p (find_event eid) (\<lambda>found.
     bind_p (require_some found (NotFoundException ''Evidence event not found'')) (\<lambda>event.
     seq_p (ensure (\<not> (truthy (ev_tenantId event) \<and>
                        ev_tenantId event \<noteq> Some (au_tenantId user)))
              (ForbiddenException ''Forbidden'' []))
           (ret event)))"

definition event_files :: "string \<Rightarrow> ('a files_db_scheme, evidence_file list) prog" where
  "event_files eid =
     bind_p (find_rows evidence_files (\<lambda>f. ef_evidenceEventId f = eid)) (\<lambda>rows.
     ret (order_asc ef_uploadedAt rows))"

section \<open>Export bundles\<close>

definition bundle_manifest ::
    "evidence_event \<Rightarrow> evidence_file list \<Rightarrow> int \<Rightarrow> string \<Rightarrow> js" where
  "bundle_manifest event files generatedAt requestedBy = JObj
     [(''kind'', JStr ''VIGISCAM_EVIDENCE_BUNDLE''),
      (''event'', JObj
         [(''id'', JStr (ev_id event)), (''eventType'', JStr (ev_eventType event)),
          (''occurredAt'', JDate (ev_occurredAt event)),
          (''eventHash'', JStr (ev_eventHash event))]),
      (''files'', JArr (map (\<lambda>f. JObj
         [(''id'', JStr (ef_id f)), (''filename'', JStr (ef_filename f)),
          (''mimeType'', JStr (ef_mimeType f)),
          (''sizeBytes'', JStr (show_nat (ef_sizeBytes f))),
          (''sha256'', JStr (ef_sha256 f)), (''uploadedAt'', JDate (ef_uploadedAt f))]) files)),
      (''generatedAt'', JStr (to_iso_string generatedAt)),
      (''requestedByUserId'', JStr requestedBy)]"

definition processBundle ::
    "runtime \<Rightarrow> string \<Rightarrow> string \<Rightarrow> string \<Rightarrow> ('a files_db_scheme, export_bundle) prog" where
  "processBundle rt evidenceEventId tenantId requestedBy =
     bind_p (find_event evidenceEventId) (\<lambda>found.
     bind_p (require_some found (NotFoundException ''Evidence event not found'')) (\<lambda>event.
     bind_p (event_files (ev_id event)) (\<lambda>files.
     bind_p (now rt) (\<lambda>generatedAt.
     let manifest = bundle_manifest event files generatedAt requestedBy;
         checksum = rt_sha256 rt (json_stringify manifest)
     in
     bind_p (now rt) (\<lambda>t.
     bind_p (new_id rt) (\<lambda>uid.
     bind_p (insert_row export_bundles_update
       \<lparr>xb_id = uid, xb_tenantId = tenantId,
        xb_filters = JObj [(''evidenceEventId'', JStr (ev_id event))],
        xb_recordCount = length files, xb_checksum = checksum,
        xb_bundle = stored_json manifest, xb_status = ''READY'',
        xb_expiresAt = Some (t + 7 * 24 * 60 * 60 * 1000)\<rparr>) (\<lambda>bundle.
     seq_p (append_evidence rt
       (user_event (ev_tenantId event) requestedBy ''EVIDENCE_EXPORT_BUNDLE'' (xb_id bundle)
          ''EVIDENCE_BUNDLE_PERSISTED''
          (''Evidence bundle persisted ('' @ show_nat (length files) @ '' file(s), checksum '' @
             take 12 checksum @ ellipsis @ '')'')
          (JObj [(''evidenceEventId'', JStr (ev_id event)),
                 (''recordCount'', JNum (int (length files))),
                 (''checksum'', JStr checksum)])))
     (ret bundle))))))))"

text \<open>
  A job on the queue is processed later by the worker, which calls \<open>processBundle\<close> with the
  payload; without one the request builds the bundle itself.
\<close>

definition requestExportBundle ::
    "runtime \<Rightarrow> auth_user \<Rightarrow> string \<Rightarrow> ('a files_db_scheme, bool \<times> export_bundle option) prog" where
  "requestExportBundle rt user evidenceEventId =
     bind_p (requireEvent user evidenceEventId) (\<lambda>event.
     let tenantId = or_default (ev_tenantId event) (au_tenantId user) in
     bind_p (enqueue rt ''evidence-export''
       (JObj [(''evidenceEventId'', JStr (ev_id event)), (''tenantId'', JStr tenantId),
              (''requestedByUserId'', JStr (au_userId user))]) None) (\<lambda>jobId.
     if \<not> truthy jobId then
       bind_p (processBundle rt (ev_id event) tenantId (au_userId user)) (\<lambda>bundle.
       ret (False, Some bundle))
     else ret (True, None)))"

definition getBundle :: "auth_user \<Rightarrow> string \<Rightarrow> ('a files_db_scheme, export_bundle) prog" where
  "getBundle user bundleId =
     bind_p (find_row export_bundles (\<lambda>b. xb_id b = bundleId)) (\<lambda>found.
     case found of
       None \<Rightarrow> throw (NotFoundException ''Export bundle not found'')
     | Some b \<Rightarrow>
         if xb_tenantId b \<noteq> au_tenantId user
         then throw (NotFoundException ''Export bundle not found'') else ret b)"

section \<open>Uploading, sharing and exporting\<close>

record upload_file =
  uf_originalname :: string
  uf_mimetype :: string
  uf_buffer :: string
  uf_size :: nat

record upload_opts =
  uo_retentionUntil :: "int option"
  uo_legalHold :: "bool option"
  uo_metadata :: js

definition file_event ::
    "auth_user \<Rightarrow> string option \<Rightarrow> string \<Rightarrow> string \<Rightarrow> string \<Rightarrow> js \<Rightarrow> append_input" where
  "file_event user tenant eid evtype descr meta =
     user_event tenant (au_userId user) ''EVIDENCE_FILE'' eid evtype descr meta"

definition upload_evidence ::
    "runtime \<Rightarrow> auth_user \<Rightarrow> string \<Rightarrow> upload_file \<Rightarrow> upload_opts \<Rightarrow>
     ('a files_db_scheme, evidence_file) prog" where
  "upload_evidence rt user evidenceEventId file opts =
     bind_p (requireEvent user evidenceEventId) (\<lambda>event.
     let sha256 = rt_sha256 rt (uf_buffer file);
         legalHold = or_default (uo_legalHold opts) False
     in
     bind_p (blob_upload rt (or_default (ev_tenantId event) ''system'') (ev_id event)
               (uf_originalname file) (uf_buffer file)) (\<lambda>result.
     let blobUri = (case result of
           None \<Rightarrow> ''blob://stub/'' @ ev_id event @ ''/'' @ uf_originalname file
         | Some (uri, _) \<Rightarrow> uri)
     in
     bind_p (new_id rt) (\<lambda>uid.
     bind_p (now rt) (\<lambda>uploadedAt.
     bind_p (insert_row evidence_files_update
       \<lparr>ef_id = uid, ef_evidenceEventId = ev_id event, ef_tenantId = ev_tenantId event,
        ef_filename = uf_originalname file, ef_mimeType = uf_mimetype file,
        ef_sizeBytes = uf_size file, ef_sha256 = sha256, ef_blobUri = blobUri,
        ef_uploadedAt = uploadedAt, ef_retentionUntil = uo_retentionUntil opts,
        ef_legalHold = legalHold, ef_uploadedByUserId = Some (au_userId user),
        ef_metadata = stored_json (uo_metadata opts)\<rparr>) (\<lambda>row.
     seq_p (append_evidence rt
       (file_event user (ev_tenantId event) (ef_id row) ''EVIDENCE_FILE_UPLOADED''
          (''File '' @ [CHR 0x22] @ uf_originalname file @ [CHR 0x22] @
             '' uploaded to evidence event '' @ ev_id event)
          (JObj [(''evidenceEventId'', JStr (ev_id event)),
                 (''sizeBytes'', JNum (int (uf_size file))),
                 (''mimeType'', JStr (uf_mimetype file)), (''sha256'', JStr sha256),
                 (''legalHold'', JBool legalHold)])))
     (ret row))))))"

record share_link =
  sl_fileId :: string
  sl_filename :: string
  sl_url :: "string option"

definition generateShareLinks ::
    "runtime \<Rightarrow> auth_user \<Rightarrow> string \<Rightarrow> string option \<Rightarrow> int option \<Rightarrow>
     ('a files_db_scheme, share_link list) prog" where
  "generateShareLinks rt user evidenceEventId fileId expires =
     bind_p (requireEvent user evidenceEventId) (\<lambda>event.
     bind_p (find_rows evidence_files
       (\<lambda>f. ef_evidenceEventId f = ev_id event \<and> (truthy fileId \<longrightarrow> fileId = Some (ef_id f))))
       (\<lambda>files.
     seq_p (ensure (\<not> (truthy fileId \<and> files = []))
              (NotFoundException ''Evidence file not found''))
     (let expiresInSeconds = or_default expires (15 * 60) in
     bind_p (map_p (\<lambda>f.
       bind_p (generateReadUrl rt (or_default (ev_tenantId event) ''system'') (ev_id event)
                 (ef_filename f) expiresInSeconds) (\<lambda>url.
       ret \<lparr>sl_fileId = ef_id f, sl_filename = ef_filename f, sl_url = url\<rparr>)) files) (\<lambda>links.
     seq_p (append_evidence rt
       (file_event user (ev_tenantId event) (ev_id event) ''EVIDENCE_FILE_SHARED''
          (''Generated signed URLs for '' @ show_nat (length links) @ '' file(s)'')
          (JObj [(''fileIds'', JArr (map (\<lambda>l. JStr (sl_fileId l)) links)),
                 (''expiresInSeconds'', JNum expiresInSeconds)])))
     (ret links)))))"

record exported_file =
  xf_file :: evidence_file
  xf_url :: "string option"

text \<open>
  The manifest of \<open>exportBundle\<close>: the event's id, type and time, and per file the columns
  id, filename, mimeType, sizeBytes, sha256, legalHold, retentionUntil and uploadedAt (read
  off the row) with the signed URL.
\<close>

definition exportBundle ::
    "runtime \<Rightarrow> auth_user \<Rightarrow> string \<Rightarrow> int \<Rightarrow>
     ('a files_db_scheme, (string \<times> string \<times> int) \<times> exported_file list) prog" where
  "exportBundle rt user evidenceEventId expiresInSeconds =
     bind_p (requireEvent user evidenceEventId) (\<lambda>event.
     bind_p (event_files (ev_id event)) (\<lambda>files.
     bind_p (map_p (\<lambda>f.
       bind_p (generateReadUrl rt (or_default (ev_tenantId event) ''system'') (ev_id event)
                 (ef_filename f) expiresInSeconds) (\<lambda>url.
       ret \<lparr>xf_file = f, xf_url = url\<rparr>)) files) (\<lambda>results.
     seq_p (append_evidence rt
       (file_event user (ev_tenantId event) (ev_id event) ''EVIDENCE_BUNDLE_EXPORTED''
          (''Bundle exported ('' @ show_nat (length files) @ '' file(s))'')
          (JObj [(''fileCount'', JNum (int (length files))),
                 (''expiresInSeconds'', JNum expiresInSeconds)])))
     (ret ((ev_id event, ev_eventType event, ev_occurredAt event), results)))))"

record public_file =
  pf_id :: string
  pf_filename :: string
  pf_mimeType :: string
  pf_sizeBytes :: string
  pf_uploadedAt :: int

definition publicSafeView ::
    "auth_user \<Rightarrow> string \<Rightarrow>
     ('a files_db_scheme, (string \<times> string \<times> int) \<times> public_file list) prog" where
  "publicSafeView user evidenceEventId =
     bind_p (requireEvent user evidenceEventId) (\<lambda>event.
     bind_p (event_files (ev_id event)) (\<lambda>files.
     ret ((ev_id event, ev_eventType event, ev_occurredAt event),
          map (\<lambda>f. \<lparr>pf_id = ef_id f, pf_filename = ef_filename f, pf_mimeType = ef_mimeType f,
                     pf_sizeBytes = show_nat (ef_sizeBytes f),
                     pf_uploadedAt = ef_uploadedAt f\<rparr>) files)))"

definition setLegalHold ::
    "runtime \<Rightarrow> auth_user \<Rightarrow> string \<Rightarrow> bool \<Rightarrow> ('a files_db_scheme, evidence_file) prog" where
  "setLegalHold rt user fileId legalHold =
     bind_p (find_row evidence_files (\<lambda>f. ef_id f = fileId)) (\<lambda>found.
     bind_p (require_some found (NotFoundException ''Evidence file not found'')) (\<lambda>file.
     seq_p (ensure (\<not> (truthy (ef_tenantId file) \<and> ef_tenantId file \<noteq> Some (au_tenantId user)))
              (ForbiddenException ''Forbidden'' []))
     (seq_p (ensure (ef_legalHold file \<noteq> legalHold)
              (BadRequestException (''Legal hold is already '' @
                 (if legalHold then ''set'' else ''cleared''))))
     (bind_p (update_row evidence_files evidence_files_update (\<lambda>f. ef_id f = fileId)
               (\<lambda>f. f\<lparr>ef_legalHold := legalHold\<rparr>)) (\<lambda>updated.
     seq_p (append_evidence rt
       (file_event user (ef_tenantId file) fileId
          (if legalHold then ''EVIDENCE_FILE_LEGAL_HOLD_SET''
           else ''EVIDENCE_FILE_LEGAL_HOLD_LIFTED'')
          (if legalHold then ''Legal hold placed on file '' @ ef_filename file
           else ''Legal hold lifted on file '' @ ef_filename file)
          (JObj [(''fileId'', JStr fileId), (''legalHold'', JBool legalHold)])))
     (ret updated))))))"

section \<open>The operations respect the log\<close>

lemma file_event_simps [simp]:
  "in_metadata (file_event user t eid evt d m) = m"
  "in_tenantId (file_event user t eid evt d m) = t"
  by (simp_all add: file_event_def)

lemma enqueue_safe: "moves (log_safe rt) (enqueue rt' name payload jobId)"
  unfolding enqueue_def
  by (auto simp: log_untouched split: sum.splits intro!: safe_rules)

lemma blob_upload_safe: "moves (log_safe rt) (blob_upload rt' t eid fn buf)"
  unfolding blob_upload_def
  by (auto simp: Let_def split: option.splits intro!: safe_rules)

lemma generateReadUrl_safe: "moves (log_safe rt) (generateReadUrl rt' t eid fn n)"
  unfolding generateReadUrl_def by (auto simp: Let_def intro!: safe_rules)

lemma requireEvent_safe: "moves (log_safe rt) (requireEvent user eid)"
  unfolding requireEvent_def find_event_def by (auto intro!: safe_rules)

lemmas file_safe_rules = safe_rules append_safe enqueue_safe blob_upload_safe
  generateReadUrl_safe requireEvent_safe

lemma processBundle_safe: "moves (log_safe rt) (processBundle rt eid t requester)"
  unfolding processBundle_def find_event_def event_files_def Let_def
  by (auto simp: log_untouched intro!: file_safe_rules)

lemma requestExportBundle_safe: "moves (log_safe rt) (requestExportBundle rt user eid)"
  unfolding requestExportBundle_def Let_def
  by (auto intro!: file_safe_rules processBundle_safe)

lemma upload_safe: "moves (log_safe rt) (upload_evidence rt user eid file opts)"
  unfolding upload_evidence_def Let_def
  by (auto simp: log_untouched intro!: file_safe_rules)

lemma share_safe: "moves (log_safe rt) (generateShareLinks rt user eid fid n)"
  unfolding generateShareLinks_def Let_def
  by (auto intro!: file_safe_rules)

lemma exportBundle_safe: "moves (log_safe rt) (exportBundle rt user eid n)"
  unfolding exportBundle_def event_files_def
  by (auto intro!: file_safe_rules)

lemma setLegalHold_safe: "moves (log_safe rt) (setLegalHold rt user fid b)"
  unfolding setLegalHold_def
  by (auto simp: log_untouched intro!: file_safe_rules)

section \<open>Properties\<close>

definition foreign_event :: "('a core_db_scheme) \<Rightarrow> auth_user \<Rightarrow> string \<Rightarrow> bool" where
  "foreign_event w user eid \<longleftrightarrow>
     (case find (\<lambda>e. ev_id e = eid) (evidence_events w) of
        None \<Rightarrow> False
      | Some e \<Rightarrow> truthy (ev_tenantId e) \<and> ev_tenantId e \<noteq> Some (au_tenantId user))"

lemma requireEvent_foreign:
  "foreign_event w user eid \<Longrightarrow>
     requireEvent user eid w = (Inl (ForbiddenException ''Forbidden'' []), w)"
  by (auto simp: foreign_event_def requireEvent_def find_event_def prog_defs split: option.splits)

lemma bind_p_Inl_run: "m w = (Inl e, w') \<Longrightarrow> bind_p m f w = (Inl e, w')"
  by (simp add: bind_p_def)

text \<open>
  The files of an event that belongs to another tenant are out of reach: uploading to it,
  sharing, exporting or viewing its files and requesting a bundle of it are all refused with
  403, and nothing is read out, written or logged.
\<close>

lemma foreign_event_refused:
  assumes "foreign_event w user eid"
  shows "upload_evidence rt user eid file opts w = (Inl (ForbiddenException ''Forbidden'' []), w) \<and>
    generateShareLinks rt user eid fid n w = (Inl (ForbiddenException ''Forbidden'' []), w) \<and>
    exportBundle rt user eid m w = (Inl (ForbiddenException ''Forbidden'' []), w) \<and>
    publicSafeView user eid w = (Inl (ForbiddenException ''Forbidden'' []), w) \<and>
    requestExportBundle rt user eid w = (Inl (ForbiddenException ''Forbidden'' []), w)"
  using requireEvent_foreign [OF assms]
  by (simp_all add: upload_evidence_def generateShareLinks_def exportBundle_def
      publicSafeView_def requestExportBundle_def bind_p_Inl_run)

definition demo_file :: upload_file where
  "demo_file = \<lparr>uf_originalname = ''photo.jpg'', uf_mimetype = ''image/jpeg'',
                uf_buffer = ''abc'', uf_size = 3\<rparr>"

definition demo_opts :: upload_opts where
  "demo_opts = \<lparr>uo_retentionUntil = None, uo_legalHold = None, uo_metadata = JUndef\<rparr>"

definition demo_event :: "string option \<Rightarrow> evidence_event" where
  "demo_event t = \<lparr>ev_id = ''e1'', ev_tenantId = t, ev_sequence = 1, ev_actorId = None,
     ev_actorType = None, ev_entityType = ''SESSION'', ev_entityId = ''s1'',
     ev_eventType = ''SESSION_STARTED'', ev_eventDescription = ''Session started'',
     ev_metadata = JNull, ev_ipAddress = None, ev_deviceId = None, ev_previousHash = None,
     ev_eventHash = ''h'', ev_occurredAt = 0\<rparr>"

definition demo_files :: "string option \<Rightarrow> evidence_file list \<Rightarrow> files_db" where
  "demo_files t fs = \<lparr>db_tick = 5, evidence_events = [demo_event t], audit_logs = [], jobs = [],
     ws_events = [], evidence_files = fs, export_bundles = []\<rparr>"

lemma foreign_event_refused_witness:
  "upload_evidence demo_rt demo_user ''e1'' demo_file demo_opts (demo_files (Some ''t2'') []) =
     (Inl (ForbiddenException ''Forbidden'' []), demo_files (Some ''t2'') [])"
  using foreign_event_refused [of "demo_files (Some ''t2'') []" demo_user "''e1''"]
  by (simp add: foreign_event_def demo_files_def demo_event_def demo_user_def truthy_def)

text \<open>What one upload does, when the event is the caller's and the store takes the bytes.\<close>

definition own_event :: "('a core_db_scheme) \<Rightarrow> auth_user \<Rightarrow> string \<Rightarrow> evidence_event \<Rightarrow> bool" where
  "own_event w user eid e \<longleftrightarrow>
     find (\<lambda>e. ev_id e = eid) (evidence_events w) = Some e \<and>
     \<not> (truthy (ev_tenantId e) \<and> ev_tenantId e \<noteq> Some (au_tenantId user))"

lemma requireEvent_own: "own_event w user eid e \<Longrightarrow> requireEvent user eid w = (Inr e, w)"
  by (auto simp: own_event_def requireEvent_def find_event_def prog_defs)

lemma upload_run:
  assumes "own_event w user eid e" "rt_container rt" "\<forall>b d n. rt_put_blob rt b d n = None"
  shows "runs (upload_evidence rt user eid file opts) w (\<lambda>row w'.
     evidence_files w' = evidence_files w @ [row] \<and> own_event w' user eid e \<and>
     ef_evidenceEventId row = ev_id e \<and> ef_tenantId row = ev_tenantId e \<and>
     ef_sha256 row = rt_sha256 rt (uf_buffer file) \<and>
     ef_blobUri row = rt_blob_url rt
       (blobName (or_default (ev_tenantId e) ''system'') (ev_id e) (uf_originalname file)) \<and>
     (\<exists>custody. evidence_events w' = evidence_events w @ [custody] \<and>
        ev_tenantId custody = ev_tenantId e \<and> ev_entityId custody = ef_id row \<and>
        ev_eventType custody = ''EVIDENCE_FILE_UPLOADED'' \<and>
        ev_actorId custody = Some (au_userId user)))"
proof -
  have own: "runs (requireEvent user eid) w Q \<longleftrightarrow> Q e w" for Q
    using requireEvent_own [OF assms(1)] by (simp add: runs_def)
  have mine: "truthy (ev_tenantId e) \<Longrightarrow> ev_tenantId e = Some (au_tenantId user)"
    using assms(1) by (auto simp: own_event_def)
  have found: "find (\<lambda>e. ev_id e = eid) (evidence_events w @ [c]) = Some e" for c
    using assms(1) by (simp add: own_event_def find_snoc)
  show ?thesis
    by (simp add: upload_evidence_def Let_def own blob_upload_def assms(2,3) run_simps)
       (auto intro!: runs_append
         simp: run_simps found mine file_event_def own_event_def
         dest!: appendedD)
qed

text \<open>
  An upload to an event of the caller's tenant stores a row with the SHA-256 of the bytes
  and logs its custody event in the event's tenant; but the blob is named by the event and
  the file name alone, so a second upload under the same name is given the same blob, whose
  first content it replaces, while the first row keeps the hash of bytes that are gone.
\<close>

lemma same_name_same_blob:
  assumes "own_event w user eid e" "rt_container rt" "\<forall>b d n. rt_put_blob rt b d n = None"
    "uf_originalname file2 = uf_originalname file1"
    "rt_sha256 rt (uf_buffer file2) \<noteq> rt_sha256 rt (uf_buffer file1)"
  shows "runs (upload_evidence rt user eid file1 opts1) w (\<lambda>row1 w1.
     runs (upload_evidence rt user eid file2 opts2) w1 (\<lambda>row2 w2.
       evidence_files w2 = evidence_files w @ [row1, row2] \<and>
       ef_blobUri row2 = ef_blobUri row1 \<and> ef_sha256 row2 \<noteq> ef_sha256 row1 \<and>
       ef_sha256 row1 = rt_sha256 rt (uf_buffer file1) \<and>
       (\<exists>c1 c2. evidence_events w2 = evidence_events w @ [c1, c2] \<and>
          ev_tenantId c1 = ev_tenantId e \<and> ev_entityId c1 = ef_id row1 \<and>
          ev_tenantId c2 = ev_tenantId e \<and> ev_entityId c2 = ef_id row2)))"
proof (rule runs_mono [OF upload_run [OF assms(1-3), of file1 opts1]], elim conjE exE)
  fix row1 and w1 :: "'a files_db_scheme" and c1
  assume own: "own_event w1 user eid e"
    and 1: "evidence_files w1 = evidence_files w @ [row1]"
      "ef_sha256 row1 = rt_sha256 rt (uf_buffer file1)"
      "ef_blobUri row1 = rt_blob_url rt
        (blobName (or_default (ev_tenantId e) ''system'') (ev_id e) (uf_originalname file1))"
      "evidence_events w1 = evidence_events w @ [c1]"
      "ev_tenantId c1 = ev_tenantId e" "ev_entityId c1 = ef_id row1"
  show "runs (upload_evidence rt user eid file2 opts2) w1 (\<lambda>row2 w2.
       evidence_files w2 = evidence_files w @ [row1, row2] \<and>
       ef_blobUri row2 = ef_blobUri row1 \<and> ef_sha256 row2 \<noteq> ef_sha256 row1 \<and>
       ef_sha256 row1 = rt_sha256 rt (uf_buffer file1) \<and>
       (\<exists>c1 c2. evidence_events w2 = evidence_events w @ [c1, c2] \<and>
          ev_tenantId c1 = ev_tenantId e \<and> ev_entityId c1 = ef_id row1 \<and>
          ev_tenantId c2 = ev_tenantId e \<and> ev_entityId c2 = ef_id row2))"
    by (rule runs_mono [OF upload_run [OF own assms(2,3), of file2 opts2]])
       (use 1 assms(4,5) in auto)
qed

definition demo_file2 :: upload_file where
  "demo_file2 = demo_file\<lparr>uf_buffer := ''xyz''\<rparr>"

lemma same_name_same_blob_witness:
  "runs (upload_evidence demo_rt demo_user ''e1'' demo_file demo_opts) (demo_files (Some ''t1'') [])
     (\<lambda>row1 w1. runs (upload_evidence demo_rt demo_user ''e1'' demo_file2 demo_opts) w1
        (\<lambda>row2 w2. ef_blobUri row2 = ef_blobUri row1 \<and> ef_sha256 row2 \<noteq> ef_sha256 row1))"
proof -
  have own: "own_event (demo_files (Some ''t1'') []) demo_user ''e1'' (demo_event (Some ''t1''))"
    by (simp add: own_event_def demo_files_def demo_event_def demo_user_def)
  show ?thesis
    by (rule runs_mono [OF same_name_same_blob [OF own, of demo_rt demo_file2 demo_file
            demo_opts demo_opts]])
       (auto simp: demo_rt_def demo_file2_def demo_file_def elim!: runs_mono)
qed

text \<open>
  A persisted bundle freezes exactly the files of its event, in order of upload, under
  the SHA-256 of the manifest text; it expires seven days after a later clock reading, its
  tenant is the one of the request, its creation is logged in the event's tenant, and only
  users of the bundle's tenant are given it.
\<close>

lemma bundle_freezes_files:
  assumes "find (\<lambda>e. ev_id e = eid) (evidence_events w) = Some e"
    "find (\<lambda>b. xb_id b = rt_uuid rt (db_tick w + 2)) (export_bundles w) = None"
  shows "let files = order_asc ef_uploadedAt
          (filter (\<lambda>f. ef_evidenceEventId f = ev_id e) (evidence_files w));
        manifest = bundle_manifest e files (rt_clock rt (db_tick w)) requester
    in runs (processBundle rt eid tenant requester) w (\<lambda>b w'.
     xb_checksum b = rt_sha256 rt (json_stringify manifest) \<and>
     xb_bundle b = stored_json manifest \<and> xb_recordCount b = length files \<and>
     xb_expiresAt b = Some (rt_clock rt (db_tick w + 1) + 604800000) \<and>
     xb_tenantId b = tenant \<and> export_bundles w' = export_bundles w @ [b] \<and>
     evidence_files w' = evidence_files w \<and>
     (\<exists>c. evidence_events w' = evidence_events w @ [c] \<and> ev_tenantId c = ev_tenantId e \<and>
        ev_entityId c = xb_id b) \<and>
     (\<forall>user. getBundle user (xb_id b) w' =
        (if au_tenantId user = tenant then Inr b
         else Inl (NotFoundException ''Export bundle not found''), w')))"
proof -
  have fresh: "find (\<lambda>b. xb_id b = rt_uuid rt (Suc (Suc (db_tick w)))) (export_bundles w @ [b]) =
      (if xb_id b = rt_uuid rt (Suc (Suc (db_tick w))) then Some b else None)" for b
    using assms(2) by (simp add: find_append_eq)
  show ?thesis
    using assms(1) unfolding Let_def
    by (simp add: processBundle_def find_event_def event_files_def Let_def run_simps)
       (auto intro!: runs_append simp: run_simps getBundle_def prog_defs fresh dest!: appendedD)
qed

definition demo_row :: evidence_file where
  "demo_row = \<lparr>ef_id = ''f1'', ef_evidenceEventId = ''e1'', ef_tenantId = Some ''t1'',
     ef_filename = ''photo.jpg'', ef_mimeType = ''image/jpeg'', ef_sizeBytes = 3,
     ef_sha256 = ''abc'', ef_blobUri = ''blob'', ef_uploadedAt = 7, ef_retentionUntil = None,
     ef_legalHold = False, ef_uploadedByUserId = Some ''u1'', ef_metadata = JNull\<rparr>"

lemma bundle_freezes_files_witness:
  "runs (processBundle demo_rt ''e1'' ''t1'' ''u1'') (demo_files (Some ''t1'') [demo_row])
     (\<lambda>b w'. xb_recordCount b = 1 \<and> xb_tenantId b = ''t1'' \<and> export_bundles w' = [b])"
proof -
  have 1: "find (\<lambda>e. ev_id e = ''e1'') (evidence_events (demo_files (Some ''t1'') [demo_row])) =
      Some (demo_event (Some ''t1''))"
    by (simp add: demo_files_def demo_event_def)
  have 2: "find (\<lambda>b. xb_id b = rt_uuid demo_rt (db_tick (demo_files (Some ''t1'') [demo_row]) + 2))
      (export_bundles (demo_files (Some ''t1'') [demo_row])) = None"
    by (simp add: demo_files_def)
  show ?thesis
    by (rule runs_mono [OF bundle_freezes_files [OF 1 2, of "''u1''" "''t1''", unfolded Let_def]])
       (simp add: demo_files_def demo_event_def demo_row_def)
qed

text \<open>
  \<open>setLegalHold\<close> on a file of the caller's tenant changes the hold of that file and no
  other column and no other file, logs the change under the file's id, and rejects a request
  that would not change anything; a file of another tenant is refused. Nothing but the
  successful case writes.
\<close>

lemma setLegalHold_exact:
  assumes "find (\<lambda>f. ef_id f = fid) (evidence_files w) = Some f"
  shows "(if truthy (ef_tenantId f) \<and> ef_tenantId f \<noteq> Some (au_tenantId user) then
      raises (setLegalHold rt user fid hold) w
        (\<lambda>x w'. x = ForbiddenException ''Forbidden'' [] \<and> w' = w)
    else if ef_legalHold f = hold then
      raises (setLegalHold rt user fid hold) w (\<lambda>x w'. (\<exists>m. x = BadRequestException m) \<and> w' = w)
    else
      runs (setLegalHold rt user fid hold) w (\<lambda>f' w'.
        f' = f\<lparr>ef_legalHold := hold\<rparr> \<and>
        evidence_files w' = map (\<lambda>g. if ef_id g = fid then g\<lparr>ef_legalHold := hold\<rparr> else g)
          (evidence_files w) \<and>
        (\<exists>c. evidence_events w' = evidence_events w @ [c] \<and> ev_tenantId c = ef_tenantId f \<and>
           ev_entityId c = fid \<and>
           ev_eventType c = (if hold then ''EVIDENCE_FILE_LEGAL_HOLD_SET''
                             else ''EVIDENCE_FILE_LEGAL_HOLD_LIFTED'')) \<and>
        export_bundles w' = export_bundles w))"
proof -
  let ?foreign = "truthy (ef_tenantId f) \<and> ef_tenantId f \<noteq> Some (au_tenantId user)"
  have tenant: ?thesis if "?foreign"
    unfolding if_P [OF that] using that
    by (simp add: setLegalHold_def run_simps assms del: if_split)
  have same: ?thesis if "\<not> ?foreign" "ef_legalHold f = hold"
    unfolding if_not_P [OF that(1)] if_P [OF that(2)] using that
    by (simp add: setLegalHold_def run_simps assms del: if_split)
  have change: ?thesis if "\<not> ?foreign" "ef_legalHold f \<noteq> hold"
    unfolding if_not_P [OF that(1)] if_not_P [OF that(2)] using that
    by (simp add: setLegalHold_def run_simps assms del: if_split)
       (auto intro!: runs_append simp: run_simps file_event_def dest!: appendedD)
  from tenant same change show ?thesis by blast
qed

lemma setLegalHold_exact_witness:
  "runs (setLegalHold demo_rt demo_user ''f1'' True) (demo_files (Some ''t1'') [demo_row])
     (\<lambda>f' w'. evidence_files w' = [demo_row\<lparr>ef_legalHold := True\<rparr>])"
proof -
  have 1: "find (\<lambda>f. ef_id f = ''f1'') (evidence_files (demo_files (Some ''t1'') [demo_row])) =
      Some demo_row"
    by (simp add: demo_files_def demo_row_def)
  have t: "ef_tenantId demo_row = Some (au_tenantId demo_user)" "\<not> ef_legalHold demo_row"
    by (simp_all add: demo_row_def demo_user_def)
  show ?thesis
    using setLegalHold_exact [OF 1, of demo_user demo_rt True]
    by (simp add: t) (auto simp: demo_files_def demo_row_def elim: runs_mono)
qed

end
