(* ===== verification/Notifications.thy ===== *)
theory Notifications
  imports EvidenceFiles
begin

text \<open>
  Outbound notifications (modules/notifications/notification.service.ts and its adapters): a
  delivery row is opened before the send, the channel's adapter is called, the outcome is
  recorded on the row, and a failure is handed to the retry queue.
\<close>

section \<open>State\<close>

record delivery =
  nd_id :: string
  nd_tenantId :: "string option"
  nd_userId :: "string option"
  nd_channel :: channel
  nd_recipient :: string
  nd_templateKey :: string
  nd_status :: delivery_status
  nd_attempts :: nat
  nd_lastError :: "string option"
  nd_payloadDigest :: string
  nd_providerMessageId :: "string option"
  nd_sentAt :: "int option"
  nd_readAt :: "int option"
  nd_relatedRiskEventId :: "string option"
  nd_relatedEvidenceId :: "string option"

record alert =
  at_id :: string
  at_tenantId :: string
  at_userId :: string
  at_type :: string
  at_severity :: string
  at_title :: string
  at_message :: string
  at_readAt :: "int option"

record notify_db = files_db +
  deliveries :: "delivery list"
  alerts :: "alert list"

interpretation deliveries_tab: table deliveries deliveries_update
  by unfold_locales simp

interpretation alerts_tab: table alerts alerts_update
  by unfold_locales simp

section \<open>The adapters\<close>

record send_args =
  na_recipient :: string
  na_subject :: string
  na_body :: string
  na_metadata :: js

record adapter_result =
  ar_ok :: bool
  ar_providerMessageId :: "string option"
  ar_error :: "string option"
  ar_skipped :: bool

text \<open>\<open>metadata?.key as string\<close>: the string under a key, if there is one.\<close>

definition meta_str :: "js \<Rightarrow> string \<Rightarrow> string option" where
  "meta_str m k =
     (case m of
        JObj kvs \<Rightarrow> (case map_of kvs k of Some (JStr s) \<Rightarrow> Some s | _ \<Rightarrow> None)
      | _ \<Rightarrow> None)"

text \<open>
  E-mail, SMS and push: without credentials the send is logged only and counts as skipped;
  otherwise the provider is called, and an exception becomes the error of the result.
\<close>

definition provider_send ::
    "runtime \<Rightarrow> channel \<Rightarrow> send_args \<Rightarrow> ('a core_db_scheme, adapter_result) prog" where
  "provider_send rt ch args =
     (if \<not> rt_configured rt ch then
        ret \<lparr>ar_ok = True, ar_providerMessageId = None, ar_error = None, ar_skipped = True\<rparr>
      else bind_p (draw (rt_provider rt ch (na_recipient args) (na_subject args) (na_body args)))
        (\<lambda>r. ret (case r of
            Inl err \<Rightarrow> \<lparr>ar_ok = False, ar_providerMessageId = None, ar_error = Some err,
                        ar_skipped = False\<rparr>
          | Inr mid \<Rightarrow> \<lparr>ar_ok = True, ar_providerMessageId = mid, ar_error = None,
                        ar_skipped = False\<rparr>)))"

definition in_app_send ::
    "runtime \<Rightarrow> send_args \<Rightarrow> ('a notify_db_scheme, adapter_result) prog" where
  "in_app_send rt args =
     (let tenantId = meta_str (na_metadata args) ''tenantId'' in
      if \<not> truthy tenantId then
        ret \<lparr>ar_ok = False, ar_providerMessageId = None,
             ar_error = Some ''in-app alert requires metadata.tenantId'', ar_skipped = False\<rparr>
      else bind_p (new_id rt) (\<lambda>uid.
        bind_p (insert_row alerts_update
          \<lparr>at_id = uid, at_tenantId = the tenantId, at_userId = na_recipient args,
           at_type = or_default (meta_str (na_metadata args) ''alertType'') ''GENERIC'',
           at_severity = or_default (meta_str (na_metadata args) ''severity'') ''INFO'',
           at_title = na_subject args, at_message = na_body args, at_readAt = None\<rparr>) (\<lambda>a.
        ret \<lparr>ar_ok = True, ar_providerMessageId = Some (at_id a), ar_error = None,
             ar_skipped = False\<rparr>)))"

definition websocket_send :: "send_args \<Rightarrow> ('a core_db_scheme, adapter_result) prog" where
  "websocket_send args =
     (let tenantId = meta_str (na_metadata args) ''tenantId'' in
      if \<not> truthy tenantId then
        ret \<lparr>ar_ok = False, ar_providerMessageId = None,
             ar_error = Some ''websocket emit requires metadata.tenantId'', ar_skipped = False\<rparr>
      else seq_p (emit (WsRiskAlert (the tenantId)
            (or_default (meta_str (na_metadata args) ''riskLevel'') ''MEDIUM'')
            (na_body args) (meta_str (na_metadata args) ''evidenceEventId'')))
        (ret \<lparr>ar_ok = True, ar_providerMessageId = None, ar_error = None, ar_skipped = False\<rparr>))"

definition adapter_send ::
    "runtime \<Rightarrow> channel \<Rightarrow> send_args \<Rightarrow> ('a notify_db_scheme, adapter_result) prog" where
  "adapter_send rt ch args =
     (case ch of
        CH_IN_APP \<Rightarrow> in_app_send rt args
      | CH_WEBSOCKET \<Rightarrow> websocket_send args
      | _ \<Rightarrow> provider_send rt ch args)"

section \<open>The service\<close>

record send_input =
  si_channel :: channel
  si_tenantId :: "string option"
  si_userId :: "string option"
  si_templateKey :: string
  si_args :: send_args
  si_relatedRiskEventId :: "string option"
  si_relatedEvidenceId :: "string option"

fun toQueueChannel :: "channel \<Rightarrow> string" where
  "toQueueChannel CH_EMAIL = ''email''"
| "toQueueChannel CH_SMS = ''sms''"
| "toQueueChannel CH_PUSH = ''push''"
| "toQueueChannel CH_IN_APP = ''in-app''"
| "toQueueChannel CH_WEBSOCKET = ''websocket''"

text \<open>\<open>KEBAB_TO_CHANNEL\<close>: an unknown name has no channel.\<close>

definition KEBAB_TO_CHANNEL :: "string \<Rightarrow> channel option" where
  "KEBAB_TO_CHANNEL = map_of
     [(''email'', CH_EMAIL), (''sms'', CH_SMS), (''push'', CH_PUSH), (''in-app'', CH_IN_APP),
      (''websocket'', CH_WEBSOCKET)]"

definition outcome_status :: "adapter_result \<Rightarrow> delivery_status" where
  "outcome_status res =
     (if ar_ok res then if ar_skipped res then ND_SKIPPED else ND_SENT else ND_FAILED)"

definition attempted :: "adapter_result \<Rightarrow> int \<Rightarrow> delivery \<Rightarrow> delivery" where
  "attempted res t d =
     d\<lparr>nd_status := outcome_status res,
       nd_attempts := nd_attempts d + 1,
       nd_lastError := ar_error res,
       nd_providerMessageId := ar_providerMessageId res,
       nd_sentAt := (if ar_ok res \<and> \<not> ar_skipped res then Some t else nd_sentAt d)\<rparr>"

definition attemptDelivery ::
    "runtime \<Rightarrow> string \<Rightarrow> channel \<Rightarrow> send_args \<Rightarrow> ('a notify_db_scheme, adapter_result) prog" where
  "attemptDelivery rt deliveryId ch args =
     bind_p (adapter_send rt ch args) (\<lambda>res.
     bind_p (now rt) (\<lambda>t.
     seq_p (update_row deliveries deliveries_update (\<lambda>d. nd_id d = deliveryId)
       (attempted res t))
     (ret res)))"

definition new_delivery :: "runtime \<Rightarrow> send_input \<Rightarrow> string \<Rightarrow> delivery" where
  "new_delivery rt input uid =
     \<lparr>nd_id = uid, nd_tenantId = si_tenantId input, nd_userId = si_userId input,
      nd_channel = si_channel input, nd_recipient = na_recipient (si_args input),
      nd_templateKey = si_templateKey input, nd_status = ND_PENDING, nd_attempts = 0,
      nd_lastError = None,
      nd_payloadDigest = rt_sha256 rt (si_templateKey input @ ''|'' @
        na_recipient (si_args input) @ ''|'' @ na_body (si_args input)),
      nd_providerMessageId = None, nd_sentAt = None, nd_readAt = None,
      nd_relatedRiskEventId = si_relatedRiskEventId input,
      nd_relatedEvidenceId = si_relatedEvidenceId input\<rparr>"

definition retry_payload :: "send_input \<Rightarrow> string \<Rightarrow> js" where
  "retry_payload input deliveryId = JObj
     [(''deliveryId'', JStr deliveryId), (''tenantId'', opt_str (si_tenantId input)),
      (''channel'', JStr (toQueueChannel (si_channel input))),
      (''recipient'', JStr (na_recipient (si_args input))),
      (''templateKey'', JStr (si_templateKey input)),
      (''subject'', JStr (na_subject (si_args input))),
      (''body'', JStr (na_body (si_args input))),
      (''variables'', na_metadata (si_args input))]"

definition send_notification ::
    "runtime \<Rightarrow> send_input \<Rightarrow> ('a notify_db_scheme, string) prog" where
  "send_notification rt input =
     bind_p (new_id rt) (\<lambda>uid.
     seq_p (insert_row deliveries_update (new_delivery rt input uid))
     (bind_p (attemptDelivery rt uid (si_channel input) (si_args input)) (\<lambda>res.
     seq_p (if \<not> ar_ok res \<and> \<not> ar_skipped res then
         void_p (enqueue rt ''notification-delivery'' (retry_payload input uid)
           (Some (''retry:'' @ uid)))
       else ret ())
     (ret uid))))"

text \<open>
  The worker's entry point: it throws on failure, so that the queue retries. A payload with
  an unknown channel finds no adapter, and the call on it raises a type error.
\<close>

definition retryFromQueue ::
    "runtime \<Rightarrow> string \<Rightarrow> string \<Rightarrow> send_args \<Rightarrow> ('a notify_db_scheme, unit) prog" where
  "retryFromQueue rt deliveryId ch args =
     (case KEBAB_TO_CHANNEL ch of
        None \<Rightarrow> throw (InternalError ''TypeError'')
      | Some channel \<Rightarrow>
          bind_p (attemptDelivery rt deliveryId channel args) (\<lambda>res.
          ensure (ar_ok res \<or> ar_skipped res)
            (InternalError (''delivery '' @ deliveryId @ '' still failing: '' @
               or_default (ar_error res) ''unknown''))))"

definition markRead :: "runtime \<Rightarrow> string \<Rightarrow> string \<Rightarrow> ('a notify_db_scheme, unit) prog" where
  "markRead rt deliveryId userId =
     bind_p (now rt) (\<lambda>t.
     update_rows deliveries_update (\<lambda>d. nd_id d = deliveryId \<and> nd_userId d = Some userId)
       (\<lambda>d. d\<lparr>nd_readAt := Some t\<rparr>))"

section \<open>The log is untouched\<close>

lemma adapter_send_safe: "moves (log_safe rt) (adapter_send rt' ch args)"
  unfolding adapter_send_def in_app_send_def websocket_send_def provider_send_def Let_def
  by (auto simp: log_untouched intro!: safe_rules split: channel.splits)

lemma attemptDelivery_safe: "moves (log_safe rt) (attemptDelivery rt' did ch args)"
  unfolding attemptDelivery_def
  by (auto simp: log_untouched intro!: safe_rules adapter_send_safe)

lemma send_notification_safe: "moves (log_safe rt) (send_notification rt' input)"
  unfolding send_notification_def Let_def
  by (auto simp: log_untouched intro!: safe_rules attemptDelivery_safe enqueue_safe)

lemma retryFromQueue_safe: "moves (log_safe rt) (retryFromQueue rt' did ch args)"
  unfolding retryFromQueue_def
  by (auto intro!: safe_rules attemptDelivery_safe split: option.splits)

lemma markRead_safe: "moves (log_safe rt) (markRead rt' did u)"
  unfolding markRead_def by (auto simp: log_untouched intro!: safe_rules)

text \<open>A reading of the state that a send never changes.\<close>

locale unsent =
  fixes f :: "'a notify_db_scheme \<Rightarrow> 'b"
  assumes ignores_sending:
    "f (db_tick_update gt w) = f w" "f (jobs_update gj w) = f w" "f (ws_events_update gw w) = f w"
    "f (deliveries_update gd w) = f w" "f (alerts_update ga w) = f w"
begin

lemma draws_same:
  "moves (\<lambda>w w'. f w' = f w) (draw d)" "moves (\<lambda>w w'. f w' = f w) (now rt)"
  "moves (\<lambda>w w'. f w' = f w) (new_id rt)" "moves (\<lambda>w w'. f w' = f w) (emit e)"
  by (simp_all add: moves_def draw_defs modify_p_def ignores_sending)

lemma enqueue_same: "moves (\<lambda>w w'. f w' = f w) (enqueue rt q d j)"
  unfolding enqueue_def
  by (auto simp: ignores_sending split: sum.split intro!: same.moves_rules same.table_moves draws_same)

lemma send_same: "moves (\<lambda>w w'. f w' = f w) (send_notification rt i)"
  unfolding send_notification_def attemptDelivery_def adapter_send_def in_app_send_def
    websocket_send_def provider_send_def Let_def
  by (auto simp: ignores_sending split: channel.split
      intro!: same.moves_rules same.table_moves draws_same enqueue_same)

end

section \<open>What a send leaves behind\<close>

lemma adapter_runs:
  "runs (adapter_send rt ch args) w (\<lambda>res w'.
     (ar_ok res \<longleftrightarrow> ar_error res = None) \<and> (ar_skipped res \<longrightarrow> ar_ok res) \<and>
     deliveries w' = deliveries w \<and> jobs w' = jobs w \<and> db_tick w \<le> db_tick w' \<and>
     evidence_events w' = evidence_events w)"
  by (cases ch)
     (simp_all add: adapter_send_def in_app_send_def websocket_send_def provider_send_def Let_def
        run_simps split: sum.split)

lemma attempt_runs:
  assumes "find (\<lambda>d. nd_id d = did) (deliveries w) = Some d"
  shows "runs (attemptDelivery rt did ch args) w (\<lambda>res w'.
     (ar_ok res \<longleftrightarrow> ar_error res = None) \<and> (ar_skipped res \<longrightarrow> ar_ok res) \<and>
     jobs w' = jobs w \<and>
     (\<exists>t. deliveries w' =
        map (\<lambda>d. if nd_id d = did then attempted res t d else d) (deliveries w)))"
  unfolding attemptDelivery_def runs_bind
  by (rule runs_mono [OF adapter_runs]) (use assms in \<open>auto simp: run_simps\<close>)

text \<open>
  The states of a delivery row: pending before the first attempt, and afterwards as the last
  attempt left it.
\<close>

definition delivery_ok :: "delivery \<Rightarrow> bool" where
  "delivery_ok d \<longleftrightarrow>
     (nd_status d = ND_PENDING \<longleftrightarrow> nd_attempts d = 0) \<and>
     (nd_status d = ND_FAILED \<longleftrightarrow> nd_lastError d \<noteq> None) \<and>
     (nd_status d = ND_SENT \<longrightarrow> nd_sentAt d \<noteq> None)"

lemma enqueue_ends:
  "ends (enqueue rt n p j) w (\<lambda>r w'. deliveries w' = deliveries w \<and>
     (case r of
        Inr x \<Rightarrow> jobs w' = (if rt_redis rt
          then jobs w @ [\<lparr>qj_queue = n, qj_payload = p, qj_jobId = j\<rparr>] else jobs w)
      | Inl e \<Rightarrow> rt_redis rt \<and> jobs w' = jobs w))"
  by (auto simp: enqueue_def ends_def prog_defs split: sum.splits)

text \<open>
  A send opens one row and makes one attempt on it, and the row says how it went: sent
  with a time, skipped, or failed with the error. A retry job is queued exactly for a failed
  send (when there is a queue), and the call returns the row's id unless the queue refuses
  the job.
\<close>

lemma send_records_outcome:
  assumes "\<forall>d\<in>set (deliveries w). nd_id d \<noteq> rt_uuid rt (db_tick w)"
  shows "ends (send_notification rt input) w (\<lambda>r w'.
     \<exists>d. deliveries w' = deliveries w @ [d] \<and> nd_id d = rt_uuid rt (db_tick w) \<and>
       nd_recipient d = na_recipient (si_args input) \<and> nd_channel d = si_channel input \<and>
       nd_attempts d = 1 \<and> delivery_ok d \<and>
       (case r of
          Inr i \<Rightarrow> i = nd_id d \<and>
            jobs w' = (if nd_status d = ND_FAILED \<and> rt_redis rt
              then jobs w @ [\<lparr>qj_queue = ''notification-delivery'',
                     qj_payload = retry_payload input i, qj_jobId = Some (''retry:'' @ i)\<rparr>]
              else jobs w)
        | Inl x \<Rightarrow> nd_status d = ND_FAILED \<and> rt_redis rt \<and> jobs w' = jobs w))"
proof -
  let ?id = "rt_uuid rt (db_tick w)" and ?row = "new_delivery rt input (rt_uuid rt (db_tick w))"
  let ?v = "deliveries_update (\<lambda>ds. ds @ [?row]) (w\<lparr>db_tick := db_tick w + 1\<rparr>)"
  have row: "nd_id ?row = ?id" by (simp add: new_delivery_def)
  have "find (\<lambda>d. nd_id d = ?id) (deliveries w) = None"
    using assms by (simp add: find_None_iff)
  then have "find (\<lambda>d. nd_id d = ?id) (deliveries ?v) = Some ?row"
    by (simp add: find_append_eq row)
  from attempt_runs [OF this, of rt "si_channel input" "si_args input"]
  obtain res v' t where att: "attemptDelivery rt ?id (si_channel input) (si_args input) ?v = (Inr res, v')"
    and res: "ar_ok res \<longleftrightarrow> ar_error res = None" "ar_skipped res \<longrightarrow> ar_ok res"
    and v': "jobs v' = jobs w" "deliveries v' =
        map (\<lambda>d. if nd_id d = ?id then attempted res t d else d) (deliveries ?v)"
    unfolding runs_iff by (elim exE conjE) (rule that; simp)
  let ?d = "attempted res t ?row"
  have ds: "deliveries v' = deliveries w @ [?d]"
    using assms by (simp add: v'(2) map_idI row)
  have ok: "delivery_ok ?d" "(nd_status ?d = ND_FAILED) = (\<not> ar_ok res \<and> \<not> ar_skipped res)"
    "nd_attempts ?d = 1" "nd_id ?d = ?id" "nd_recipient ?d = na_recipient (si_args input)"
    "nd_channel ?d = si_channel input"
    using res by (auto simp: delivery_ok_def outcome_status_def attempted_def new_delivery_def)
  have run: "send_notification rt input w = seq_p (if \<not> ar_ok res \<and> \<not> ar_skipped res then
         void_p (enqueue rt ''notification-delivery'' (retry_payload input ?id)
           (Some (''retry:'' @ ?id)))
       else ret ()) (ret ?id) v'"
    using att by (simp add: send_notification_def prog_core_defs draw_defs insert_row_def)
  show ?thesis
  proof (cases "\<not> ar_ok res \<and> \<not> ar_skipped res")
    case False
    with ok show ?thesis
      unfolding ends_def run unfolding ends_def [symmetric] if_not_P [OF False] ends_simps
      by (simp add: ends_simps ds v'(1))
  next
    case True
    show ?thesis
      unfolding ends_def run unfolding ends_def [symmetric] if_P [OF True] ends_simps
    proof (rule ends_mono [OF enqueue_ends], goal_cases)
      case (1 r u)
      with ok True show ?case by (cases r) (simp_all add: ds v'(1))
    qed
  qed
qed

definition demo_notify :: notify_db where
  "demo_notify = \<lparr>db_tick = 0, evidence_events = [], audit_logs = [], jobs = [], ws_events = [],
     evidence_files = [], export_bundles = [], deliveries = [], alerts = []\<rparr>"

definition demo_alert :: send_input where
  "demo_alert = \<lparr>si_channel = CH_IN_APP, si_tenantId = None, si_userId = None,
     si_templateKey = ''k'', si_args = \<lparr>na_recipient = ''u1'', na_subject = ''s'', na_body = ''b'',
     na_metadata = JUndef\<rparr>, si_relatedRiskEventId = None, si_relatedEvidenceId = None\<rparr>"

lemma send_records_outcome_witness:
  "\<exists>d. deliveries (snd (send_notification demo_rt demo_alert demo_notify)) = [d] \<and>
     nd_attempts d = 1 \<and> delivery_ok d"
proof -
  have "\<forall>d\<in>set (deliveries demo_notify). nd_id d \<noteq> rt_uuid demo_rt (db_tick demo_notify)"
    by (simp add: demo_notify_def)
  from send_records_outcome [OF this, of demo_alert] show ?thesis
    by (auto simp: ends_def demo_notify_def split: prod.splits)
qed

end
