(* ===== verification/RiskScoring.thy ===== *)
theory RiskScoring
  imports Database
begin

text \<open>
  The deterministic risk scorers: the unified signal scorer (risk-fusion/risk.scoring.ts), one
  per protection module (scamhold, giftcardguard, walletguard, claimverify) and the two of the
  partner portals (bank-portal/teller-assist.scorer.ts, platform-portal/grooming.scorer.ts).
  Points are added up and capped at 100; the properties are the bounds, the agreement of the
  level with the score and of the score with its breakdown, monotonicity in the evidence, and
  the hard stops.
\<close>

section \<open>Levels and sums\<close>

definition levelForScore :: "int \<Rightarrow> risk_level" where
  "levelForScore score =
     (if 86 \<le> score then CRITICAL else if 61 \<le> score then HIGH
      else if 31 \<le> score then MEDIUM else LOW)"

text \<open>The same thresholds, as every protection module spells them out.\<close>

definition scoreToLevel :: "int \<Rightarrow> risk_level" where
  "scoreToLevel score =
     (if 86 \<le> score then CRITICAL else if 61 \<le> score then HIGH
      else if 31 \<le> score then MEDIUM else LOW)"

definition recommendedActionForLevel :: "risk_level \<Rightarrow> string" where
  "recommendedActionForLevel l =
     (case l of CRITICAL \<Rightarrow> ''TRIGGER_INTERVENTION'' | HIGH \<Rightarrow> ''REQUIRE_VERIFICATION''
      | MEDIUM \<Rightarrow> ''WARN_USER'' | LOW \<Rightarrow> ''MONITOR'')"

definition clamp_score :: "int \<Rightarrow> int" where
  "clamp_score raw = min 100 (max 0 raw)"

definition points_if :: "bool \<Rightarrow> int \<Rightarrow> int" where
  "points_if b n = (if b then n else 0)"

type_synonym breakdown = "(string \<times> int) list"

record scoring =
  sc_score :: int
  sc_level :: risk_level
  sc_breakdown :: breakdown

text \<open>\<open>Object.values(breakdown).reduce((a, b) => a + b, 0)\<close>, clamped, with its level.\<close>

definition score_breakdown :: "breakdown \<Rightarrow> scoring" where
  "score_breakdown b =
     (let score = clamp_score (sum_list (map snd b)) in
      \<lparr>sc_score = score, sc_level = scoreToLevel score, sc_breakdown = b\<rparr>)"

definition breakdown_js :: "breakdown \<Rightarrow> js" where
  "breakdown_js b = JObj (map (map_prod id JNum) b)"

section \<open>The unified signal scorer\<close>

definition SIGNAL_WEIGHTS :: "(string \<times> int) list" where
  "SIGNAL_WEIGHTS =
     [(''REMOTE_ACCESS'', 25), (''GIFT_CARD_REQUEST'', 25), (''CRYPTO_TRANSFER'', 20),
      (''WALLET_SWITCH'', 20), (''FAKE_AUTHORITY'', 20), (''THREAT_LANGUAGE'', 20),
      (''URGENCY'', 15), (''SECRECY'', 15), (''ROMANCE_PRESSURE'', 15),
      (''PAYMENT_PRESSURE'', 15), (''ISOLATION'', 15), (''ELDER_TARGETED'', 10),
      (''DEVICE_COMPROMISE'', 25), (''REMOTE_INPUT'', 20), (''CLIPBOARD_HIJACK'', 20),
      (''SCREEN_SHARE'', 15), (''SUSPICIOUS_BROWSER'', 10)]"

text \<open>
  The weights are looked up with \<open>SIGNAL_WEIGHTS[signal]\<close> on an object literal, which also
  answers for the properties every object inherits. Adding one of those functions to the sum
  makes a text of it, so the clamped result is \<open>NaN\<close>: the value \<open>None\<close> below.
\<close>

definition inherited_properties :: "string list" where
  "inherited_properties =
     [''constructor'', ''__defineGetter__'', ''__defineSetter__'', ''hasOwnProperty'',
      ''__lookupGetter__'', ''__lookupSetter__'', ''isPrototypeOf'', ''propertyIsEnumerable'',
      ''toString'', ''valueOf'', ''__proto__'', ''toLocaleString'']"

definition signal_weight :: "string \<Rightarrow> int option" where
  "signal_weight signal =
     (case map_of SIGNAL_WEIGHTS signal of
        Some n \<Rightarrow> Some n
      | None \<Rightarrow> if signal \<in> set inherited_properties then None else Some 5)"

fun sum_signals :: "int option \<Rightarrow> string list \<Rightarrow> int option" where
  "sum_signals acc [] = acc"
| "sum_signals acc (s # ss) =
     sum_signals (case (acc, signal_weight s) of (Some a, Some n) \<Rightarrow> Some (a + n) | _ \<Rightarrow> None) ss"

definition scoreSignals :: "string list \<Rightarrow> int option" where
  "scoreSignals signals = map_option clamp_score (sum_signals (Some 0) signals)"

text \<open>\<open>levelForScore(NaN)\<close>: every comparison is false.\<close>

definition levelForSignals :: "string list \<Rightarrow> risk_level" where
  "levelForSignals signals =
     (case scoreSignals signals of None \<Rightarrow> LOW | Some n \<Rightarrow> levelForScore n)"

section \<open>ScamHold\<close>

fun TRANSACTION_TYPE_SCORE :: "transaction_type \<Rightarrow> int" where
  "TRANSACTION_TYPE_SCORE TX_CRYPTO = 25"
| "TRANSACTION_TYPE_SCORE TX_GIFT_CARD = 30"
| "TRANSACTION_TYPE_SCORE TX_WIRE_TRANSFER = 15"
| "TRANSACTION_TYPE_SCORE TX_BANK_TRANSFER = 10"
| "TRANSACTION_TYPE_SCORE TX_PAYMENT_APP = 10"
| "TRANSACTION_TYPE_SCORE TX_ONLINE_PAYMENT = 5"

fun RECIPIENT_RISK_SCORE :: "recipient_risk \<Rightarrow> int" where
  "RECIPIENT_RISK_SCORE RR_UNKNOWN = 5"
| "RECIPIENT_RISK_SCORE RR_NEW = 10"
| "RECIPIENT_RISK_SCORE RR_KNOWN_RISKY = 30"
| "RECIPIENT_RISK_SCORE RR_SUSPICIOUS_WALLET = 40"

text \<open>The bands are on \<open>Number(amountMinor) / 100\<close>.\<close>

definition amountScore :: "int \<Rightarrow> int" where
  "amountScore amountMinor =
     (if amountMinor < 100 * 100 then 0
      else if amountMinor < 1000 * 100 then 5
      else if amountMinor < 5000 * 100 then 15
      else if amountMinor < 10000 * 100 then 25
      else 35)"

record scamhold_input =
  hi_transactionType :: transaction_type
  hi_amountMinor :: int
  hi_recipientRisk :: "recipient_risk option"
  hi_urgency :: bool
  hi_secrecy :: bool
  hi_activeCommunication :: bool
  hi_priorWarnings :: int

definition prior_points :: "int \<Rightarrow> int" where
  "prior_points n = min (n * 5) 20"

definition scoreScamHold :: "scamhold_input \<Rightarrow> scoring" where
  "scoreScamHold i = score_breakdown
     [(''transactionType'', TRANSACTION_TYPE_SCORE (hi_transactionType i)),
      (''amount'', amountScore (hi_amountMinor i)),
      (''recipientRisk'', RECIPIENT_RISK_SCORE (or_default (hi_recipientRisk i) RR_UNKNOWN)),
      (''urgency'', points_if (hi_urgency i) 15),
      (''secrecy'', points_if (hi_secrecy i) 15),
      (''activeCommunication'', points_if (hi_activeCommunication i) 10),
      (''priorWarnings'', prior_points (hi_priorWarnings i))]"

section \<open>GiftCardGuard\<close>

fun IMPERSONATION_SCORE :: "impersonation \<Rightarrow> int" where
  "IMPERSONATION_SCORE IM_NONE = 0"
| "IMPERSONATION_SCORE IM_GOVERNMENT = 35"
| "IMPERSONATION_SCORE IM_BANK = 35"
| "IMPERSONATION_SCORE IM_TECH_SUPPORT = 35"
| "IMPERSONATION_SCORE IM_LAW_ENFORCEMENT = 35"
| "IMPERSONATION_SCORE IM_EMPLOYER = 30"
| "IMPERSONATION_SCORE IM_ROMANCE = 30"
| "IMPERSONATION_SCORE IM_UTILITY = 25"
| "IMPERSONATION_SCORE IM_CHARITY = 20"
| "IMPERSONATION_SCORE IM_OTHER = 15"

record giftcard_input =
  gi_codeReveal :: bool
  gi_photoOfCode :: bool
  gi_impersonation :: "impersonation option"
  gi_urgency :: bool
  gi_secrecy :: bool
  gi_elderMode :: bool
  gi_priorWarnings :: int

definition scoreGiftCardGuard :: "giftcard_input \<Rightarrow> scoring" where
  "scoreGiftCardGuard i = score_breakdown
     [(''baseline'', 25),
      (''codeReveal'', points_if (gi_codeReveal i) 25),
      (''photoOfCode'', points_if (gi_photoOfCode i) 25),
      (''impersonation'', IMPERSONATION_SCORE (or_default (gi_impersonation i) IM_NONE)),
      (''urgency'', points_if (gi_urgency i) 15),
      (''secrecy'', points_if (gi_secrecy i) 15),
      (''elderMode'', points_if (gi_elderMode i) 20),
      (''priorWarnings'', prior_points (gi_priorWarnings i))]"

section \<open>WalletGuard\<close>

fun REPUTATION_SCORE :: "wallet_reputation \<Rightarrow> int" where
  "REPUTATION_SCORE WR_UNKNOWN = 0"
| "REPUTATION_SCORE WR_NEW = 5"
| "REPUTATION_SCORE WR_KNOWN_RISKY = 35"
| "REPUTATION_SCORE WR_SUSPICIOUS_WALLET = 50"
| "REPUTATION_SCORE WR_CONFIRMED_SCAM = 80"

record wallet_input =
  wi_reputation :: "wallet_reputation option"
  wi_clipboardSwap :: bool
  wi_walletSwitched :: bool
  wi_graphMatch :: "int option"
  wi_urgency :: bool
  wi_secrecy :: bool
  wi_priorWarnings :: int

text \<open>\<open>Math.min(30, Math.floor(score / 3))\<close> when there is a score.\<close>

definition third_capped :: "int option \<Rightarrow> int" where
  "third_capped x = (case x of None \<Rightarrow> 0 | Some n \<Rightarrow> min 30 (n div 3))"

definition scoreWalletGuard :: "wallet_input \<Rightarrow> scoring" where
  "scoreWalletGuard i = score_breakdown
     [(''reputation'', REPUTATION_SCORE (or_default (wi_reputation i) WR_UNKNOWN)),
      (''clipboardSwap'', points_if (wi_clipboardSwap i) 30),
      (''walletSwitched'', points_if (wi_walletSwitched i) 20),
      (''graphMatch'', third_capped (wi_graphMatch i)),
      (''urgency'', points_if (wi_urgency i) 15),
      (''secrecy'', points_if (wi_secrecy i) 15),
      (''priorWarnings'', prior_points (wi_priorWarnings i))]"

section \<open>ClaimVerify\<close>

fun CLAIM_TYPE_BASELINE :: "claim_type \<Rightarrow> int" where
  "CLAIM_TYPE_BASELINE CT_ROMANCE = 20"
| "CLAIM_TYPE_BASELINE CT_INVESTMENT = 15"
| "CLAIM_TYPE_BASELINE CT_INHERITANCE = 20"
| "CLAIM_TYPE_BASELINE CT_OIL_PROJECT = 25"
| "CLAIM_TYPE_BASELINE CT_GOLD_PROJECT = 25"
| "CLAIM_TYPE_BASELINE CT_ROAD_CONSTRUCTION = 20"
| "CLAIM_TYPE_BASELINE CT_BUSINESS_PARTNERSHIP = 15"
| "CLAIM_TYPE_BASELINE CT_LEGAL_CLAIM = 15"
| "CLAIM_TYPE_BASELINE CT_IMMIGRATION = 15"
| "CLAIM_TYPE_BASELINE CT_WORK_FROM_HOME = 15"
| "CLAIM_TYPE_BASELINE CT_JOB = 10"
| "CLAIM_TYPE_BASELINE CT_GOVERNMENT = 10"
| "CLAIM_TYPE_BASELINE CT_HOSPITAL = 10"
| "CLAIM_TYPE_BASELINE CT_MEDICAL_EMERGENCY = 10"
| "CLAIM_TYPE_BASELINE CT_CHARITY = 10"
| "CLAIM_TYPE_BASELINE CT_OTHER = 5"

definition domainAgeScore :: "int option \<Rightarrow> int" where
  "domainAgeScore days =
     (case days of None \<Rightarrow> 0
      | Some d \<Rightarrow> if d < 30 then 20 else if d < 90 then 10 else 0)"

record claim_input =
  ci_claimType :: claim_type
  ci_domainAgeDays :: "int option"
  ci_locationMismatch :: bool
  ci_imageReuse :: bool
  ci_scamPhrase :: "int option"
  ci_paymentPressure :: bool
  ci_secrecy :: bool
  ci_urgency :: bool
  ci_priorWarnings :: int

definition scoreClaimVerify :: "claim_input \<Rightarrow> scoring" where
  "scoreClaimVerify i = score_breakdown
     [(''claimTypeBaseline'', CLAIM_TYPE_BASELINE (ci_claimType i)),
      (''domainAge'', domainAgeScore (ci_domainAgeDays i)),
      (''locationMismatch'', points_if (ci_locationMismatch i) 15),
      (''imageReuse'', points_if (ci_imageReuse i) 25),
      (''scamPhraseNlp'', third_capped (ci_scamPhrase i)),
      (''paymentPressure'', points_if (ci_paymentPressure i) 15),
      (''secrecy'', points_if (ci_secrecy i) 15),
      (''urgency'', points_if (ci_urgency i) 15),
      (''priorWarnings'', prior_points (ci_priorWarnings i))]"

section \<open>Teller assist\<close>

datatype teller_channel =
    TCH_INTERNAL_TRANSFER | TCH_ACH | TCH_WIRE_DOMESTIC | TCH_WIRE_INTERNATIONAL
  | TCH_CRYPTO_PURCHASE | TCH_GIFT_CARD_PURCHASE | TCH_CASH_WITHDRAWAL | TCH_CHECK

fun teller_channel_text :: "teller_channel \<Rightarrow> string" where
  "teller_channel_text TCH_INTERNAL_TRANSFER = ''INTERNAL_TRANSFER''"
| "teller_channel_text TCH_ACH = ''ACH''"
| "teller_channel_text TCH_WIRE_DOMESTIC = ''WIRE_DOMESTIC''"
| "teller_channel_text TCH_WIRE_INTERNATIONAL = ''WIRE_INTERNATIONAL''"
| "teller_channel_text TCH_CRYPTO_PURCHASE = ''CRYPTO_PURCHASE''"
| "teller_channel_text TCH_GIFT_CARD_PURCHASE = ''GIFT_CARD_PURCHASE''"
| "teller_channel_text TCH_CASH_WITHDRAWAL = ''CASH_WITHDRAWAL''"
| "teller_channel_text TCH_CHECK = ''CHECK''"

datatype teller_recipient =
    TRT_EXISTING_PAYEE | TRT_NEW_PAYEE | TRT_FOREIGN_PAYEE | TRT_BUSINESS_NEW
  | TRT_CRYPTO_EXCHANGE | TRT_PEER_TO_PEER_APP | TRT_UNKNOWN

fun teller_recipient_text :: "teller_recipient \<Rightarrow> string" where
  "teller_recipient_text TRT_EXISTING_PAYEE = ''EXISTING_PAYEE''"
| "teller_recipient_text TRT_NEW_PAYEE = ''NEW_PAYEE''"
| "teller_recipient_text TRT_FOREIGN_PAYEE = ''FOREIGN_PAYEE''"
| "teller_recipient_text TRT_BUSINESS_NEW = ''BUSINESS_NEW''"
| "teller_recipient_text TRT_CRYPTO_EXCHANGE = ''CRYPTO_EXCHANGE''"
| "teller_recipient_text TRT_PEER_TO_PEER_APP = ''PEER_TO_PEER_APP''"
| "teller_recipient_text TRT_UNKNOWN = ''UNKNOWN''"

datatype teller_reason =
    TRS_NONE_GIVEN | TRS_PERSONAL_PAYMENT | TRS_INVESTMENT_OPPORTUNITY
  | TRS_GOVERNMENT_FEE_OR_FINE | TRS_TECH_SUPPORT_FEE | TRS_FAMILY_EMERGENCY
  | TRS_ROMANTIC_PARTNER | TRS_LOTTERY_OR_PRIZE_FEE | TRS_BUSINESS_INVOICE | TRS_CHARITY
  | TRS_OTHER

fun teller_reason_text :: "teller_reason \<Rightarrow> string" where
  "teller_reason_text TRS_NONE_GIVEN = ''NONE_GIVEN''"
| "teller_reason_text TRS_PERSONAL_PAYMENT = ''PERSONAL_PAYMENT''"
| "teller_reason_text TRS_INVESTMENT_OPPORTUNITY = ''INVESTMENT_OPPORTUNITY''"
| "teller_reason_text TRS_GOVERNMENT_FEE_OR_FINE = ''GOVERNMENT_FEE_OR_FINE''"
| "teller_reason_text TRS_TECH_SUPPORT_FEE = ''TECH_SUPPORT_FEE''"
| "teller_reason_text TRS_FAMILY_EMERGENCY = ''FAMILY_EMERGENCY''"
| "teller_reason_text TRS_ROMANTIC_PARTNER = ''ROMANTIC_PARTNER''"
| "teller_reason_text TRS_LOTTERY_OR_PRIZE_FEE = ''LOTTERY_OR_PRIZE_FEE''"
| "teller_reason_text TRS_BUSINESS_INVOICE = ''BUSINESS_INVOICE''"
| "teller_reason_text TRS_CHARITY = ''CHARITY''"
| "teller_reason_text TRS_OTHER = ''OTHER''"

datatype teller_behavior =
    TBS_DISTRESSED | TBS_CONFUSED | TBS_ON_PHONE_DURING_TRANSACTION
  | TBS_RECEIVING_INSTRUCTIONS_FROM_CALLER | TBS_COACHED_RESPONSES
  | TBS_REFUSED_TO_EXPLAIN | TBS_FIRST_TIME_LARGE_TRANSFER | TBS_ELDERLY_AND_PRESSURED
  | TBS_SECRECY_REQUESTED | TBS_URGENCY_PRESSURE

fun teller_behavior_text :: "teller_behavior \<Rightarrow> string" where
  "teller_behavior_text TBS_DISTRESSED = ''DISTRESSED''"
| "teller_behavior_text TBS_CONFUSED = ''CONFUSED''"
| "teller_behavior_text TBS_ON_PHONE_DURING_TRANSACTION = ''ON_PHONE_DURING_TRANSACTION''"
| "teller_behavior_text TBS_RECEIVING_INSTRUCTIONS_FROM_CALLER = ''RECEIVING_INSTRUCTIONS_FROM_CALLER''"
| "teller_behavior_text TBS_COACHED_RESPONSES = ''COACHED_RESPONSES''"
| "teller_behavior_text TBS_REFUSED_TO_EXPLAIN = ''REFUSED_TO_EXPLAIN''"
| "teller_behavior_text TBS_FIRST_TIME_LARGE_TRANSFER = ''FIRST_TIME_LARGE_TRANSFER''"
| "teller_behavior_text TBS_ELDERLY_AND_PRESSURED = ''ELDERLY_AND_PRESSURED''"
| "teller_behavior_text TBS_SECRECY_REQUESTED = ''SECRECY_REQUESTED''"
| "teller_behavior_text TBS_URGENCY_PRESSURE = ''URGENCY_PRESSURE''"

datatype teller_action =
    PROCEED | VERIFY_VERBALLY | CALL_FAMILY_OR_TRUSTED_CONTACT | DELAY_AND_ESCALATE_TO_ANALYST
  | REFUSE_AND_ESCALATE_TO_FRAUD

fun CHANNEL_POINTS :: "teller_channel \<Rightarrow> int" where
  "CHANNEL_POINTS TCH_INTERNAL_TRANSFER = 0"
| "CHANNEL_POINTS TCH_ACH = 5"
| "CHANNEL_POINTS TCH_WIRE_DOMESTIC = 10"
| "CHANNEL_POINTS TCH_WIRE_INTERNATIONAL = 20"
| "CHANNEL_POINTS TCH_CRYPTO_PURCHASE = 30"
| "CHANNEL_POINTS TCH_GIFT_CARD_PURCHASE = 30"
| "CHANNEL_POINTS TCH_CASH_WITHDRAWAL = 10"
| "CHANNEL_POINTS TCH_CHECK = 5"

fun RECIPIENT_POINTS :: "teller_recipient \<Rightarrow> int" where
  "RECIPIENT_POINTS TRT_EXISTING_PAYEE = 0"
| "RECIPIENT_POINTS TRT_NEW_PAYEE = 10"
| "RECIPIENT_POINTS TRT_FOREIGN_PAYEE = 20"
| "RECIPIENT_POINTS TRT_BUSINESS_NEW = 15"
| "RECIPIENT_POINTS TRT_CRYPTO_EXCHANGE = 25"
| "RECIPIENT_POINTS TRT_PEER_TO_PEER_APP = 15"
| "RECIPIENT_POINTS TRT_UNKNOWN = 10"

fun REASON_POINTS :: "teller_reason \<Rightarrow> int" where
  "REASON_POINTS TRS_NONE_GIVEN = 10"
| "REASON_POINTS TRS_PERSONAL_PAYMENT = 0"
| "REASON_POINTS TRS_INVESTMENT_OPPORTUNITY = 25"
| "REASON_POINTS TRS_GOVERNMENT_FEE_OR_FINE = 35"
| "REASON_POINTS TRS_TECH_SUPPORT_FEE = 35"
| "REASON_POINTS TRS_FAMILY_EMERGENCY = 20"
| "REASON_POINTS TRS_ROMANTIC_PARTNER = 25"
| "REASON_POINTS TRS_LOTTERY_OR_PRIZE_FEE = 40"
| "REASON_POINTS TRS_BUSINESS_INVOICE = 5"
| "REASON_POINTS TRS_CHARITY = 10"
| "REASON_POINTS TRS_OTHER = 5"

fun BEHAVIOR_POINTS :: "teller_behavior \<Rightarrow> int" where
  "BEHAVIOR_POINTS TBS_DISTRESSED = 10"
| "BEHAVIOR_POINTS TBS_CONFUSED = 10"
| "BEHAVIOR_POINTS TBS_ON_PHONE_DURING_TRANSACTION = 15"
| "BEHAVIOR_POINTS TBS_RECEIVING_INSTRUCTIONS_FROM_CALLER = 35"
| "BEHAVIOR_POINTS TBS_COACHED_RESPONSES = 25"
| "BEHAVIOR_POINTS TBS_REFUSED_TO_EXPLAIN = 20"
| "BEHAVIOR_POINTS TBS_FIRST_TIME_LARGE_TRANSFER = 15"
| "BEHAVIOR_POINTS TBS_ELDERLY_AND_PRESSURED = 25"
| "BEHAVIOR_POINTS TBS_SECRECY_REQUESTED = 20"
| "BEHAVIOR_POINTS TBS_URGENCY_PRESSURE = 15"

definition amountBandPoints :: "int \<Rightarrow> int" where
  "amountBandPoints cents =
     (if 5000000 \<le> cents then 25 else if 1000000 \<le> cents then 15
      else if 500000 \<le> cents then 10 else if 100000 \<le> cents then 5 else 0)"

record teller_input =
  ti_channel :: teller_channel
  ti_amountMinor :: int
  ti_recipient :: teller_recipient
  ti_reason :: "teller_reason option"
  ti_behavior :: "teller_behavior list"
  ti_elderMode :: bool

record contribution =
  co_key :: string
  co_points :: int
  co_reason :: string

text \<open>A contribution is listed only when it carries points.\<close>

definition contribute :: "string \<Rightarrow> int \<Rightarrow> string \<Rightarrow> contribution list" where
  "contribute key pts reason =
     (if 0 < pts then [\<lparr>co_key = key, co_points = pts, co_reason = reason\<rparr>] else [])"

definition contributed :: "contribution list \<Rightarrow> int" where
  "contributed cs = sum_list (map co_points cs)"

definition quoted :: "string \<Rightarrow> string" where
  "quoted s = [CHR 0x22] @ s @ [CHR 0x22]"

definition behavior_contributions :: "teller_behavior list \<Rightarrow> contribution list" where
  "behavior_contributions sigs = concat (map (\<lambda>s.
     contribute (''behavior:'' @ teller_behavior_text s) (BEHAVIOR_POINTS s)
       (''Behavior signal observed: '' @ teller_behavior_text s)) sigs)"

definition teller_breakdown :: "teller_input \<Rightarrow> contribution list" where
  "teller_breakdown i =
     (let reason = or_default (ti_reason i) TRS_NONE_GIVEN in
      contribute ''channel'' (CHANNEL_POINTS (ti_channel i))
        (''Channel '' @ quoted (teller_channel_text (ti_channel i)) @ '' carries baseline risk'') @
      contribute ''recipient'' (RECIPIENT_POINTS (ti_recipient i))
        (''Recipient classification '' @ quoted (teller_recipient_text (ti_recipient i))) @
      contribute ''customer_stated_reason'' (REASON_POINTS reason)
        (''Customer stated reason '' @ quoted (teller_reason_text reason) @ '' '' @ em_dash @
         '' known scammer-favoured framing'') @
      contribute ''amount_band'' (amountBandPoints (ti_amountMinor i))
        (''Amount band '' @ em_dash @ '' larger transfers correlate with higher scam losses'') @
      behavior_contributions (ti_behavior i) @
      (if ti_elderMode i then
         [\<lparr>co_key = ''elder_mode'', co_points = 15,
           co_reason = ''Customer is registered in Elder Mode '' @ em_dash @
             '' extra protective weighting''\<rparr>]
       else []))"

record teller_scoring =
  ts_riskScore :: int
  ts_riskLevel :: risk_level
  ts_action :: teller_action
  ts_breakdown :: "contribution list"

definition teller_hard_stop :: "teller_input \<Rightarrow> bool" where
  "teller_hard_stop i \<longleftrightarrow>
     (let reason = or_default (ti_reason i) TRS_NONE_GIVEN in
      TBS_RECEIVING_INSTRUCTIONS_FROM_CALLER \<in> set (ti_behavior i) \<or>
      reason = TRS_LOTTERY_OR_PRIZE_FEE \<or> reason = TRS_TECH_SUPPORT_FEE)"

definition scoreTellerAssist :: "teller_input \<Rightarrow> teller_scoring" where
  "scoreTellerAssist i =
     (let breakdown = teller_breakdown i;
          riskScore = min 100 (contributed breakdown);
          behaviorTotal = contributed (behavior_contributions (ti_behavior i));
          riskLevel = (if teller_hard_stop i then CRITICAL
                       else if 80 \<le> riskScore then CRITICAL
                       else if 60 \<le> riskScore then HIGH
                       else if 30 \<le> riskScore then MEDIUM else LOW);
          action = (case riskLevel of
              CRITICAL \<Rightarrow> REFUSE_AND_ESCALATE_TO_FRAUD
            | HIGH \<Rightarrow> DELAY_AND_ESCALATE_TO_ANALYST
            | MEDIUM \<Rightarrow> if ti_elderMode i \<or> 25 \<le> behaviorTotal
                then CALL_FAMILY_OR_TRUSTED_CONTACT else VERIFY_VERBALLY
            | LOW \<Rightarrow> PROCEED)
      in \<lparr>ts_riskScore = riskScore, ts_riskLevel = riskLevel, ts_action = action,
          ts_breakdown = breakdown\<rparr>)"

section \<open>Grooming check\<close>

datatype age_gap =
    GA_UNKNOWN | GA_AGES_BOTH_VERIFIED_ADULT | GA_AGE_GAP_SMALL | GA_AGE_GAP_MODERATE
  | GA_AGE_GAP_LARGE | GA_ADULT_TO_SUSPECTED_MINOR

fun age_gap_text :: "age_gap \<Rightarrow> string" where
  "age_gap_text GA_UNKNOWN = ''UNKNOWN''"
| "age_gap_text GA_AGES_BOTH_VERIFIED_ADULT = ''AGES_BOTH_VERIFIED_ADULT''"
| "age_gap_text GA_AGE_GAP_SMALL = ''AGE_GAP_SMALL''"
| "age_gap_text GA_AGE_GAP_MODERATE = ''AGE_GAP_MODERATE''"
| "age_gap_text GA_AGE_GAP_LARGE = ''AGE_GAP_LARGE''"
| "age_gap_text GA_ADULT_TO_SUSPECTED_MINOR = ''ADULT_TO_SUSPECTED_MINOR''"

datatype grooming_action =
    NO_ACTION | MONITOR | SOFT_INTERVENE | HARD_INTERVENE | SUSPEND_USER
  | ESCALATE_TO_TRUST_AND_SAFETY | ESCALATE_TO_LAW_ENFORCEMENT

fun AGE_GAP_POINTS :: "age_gap \<Rightarrow> int" where
  "AGE_GAP_POINTS GA_UNKNOWN = 5"
| "AGE_GAP_POINTS GA_AGES_BOTH_VERIFIED_ADULT = 0"
| "AGE_GAP_POINTS GA_AGE_GAP_SMALL = 0"
| "AGE_GAP_POINTS GA_AGE_GAP_MODERATE = 10"
| "AGE_GAP_POINTS GA_AGE_GAP_LARGE = 20"
| "AGE_GAP_POINTS GA_ADULT_TO_SUSPECTED_MINOR = 40"

record grooming_input =
  gm_ageGap :: age_gap
  gm_durationDays :: "int option"
  gm_loveBombing :: bool
  gm_isolation :: bool
  gm_paymentRequest :: bool
  gm_photoSolicitation :: bool
  gm_moveToPrivate :: bool
  gm_piiEscalation :: bool
  gm_minorSuspected :: bool

definition relationshipDurationPoints :: "int option \<Rightarrow> int" where
  "relationshipDurationPoints days =
     (case days of None \<Rightarrow> 0
      | Some d \<Rightarrow> if d < 0 then 0 else if d \<le> 3 then 15 else if d \<le> 14 then 10
                  else if d \<le> 60 then 5 else 0)"

definition contribute_if :: "bool \<Rightarrow> string \<Rightarrow> int \<Rightarrow> string \<Rightarrow> contribution list" where
  "contribute_if b key pts reason =
     (if b then [\<lparr>co_key = key, co_points = pts, co_reason = reason\<rparr>] else [])"

definition grooming_breakdown :: "grooming_input \<Rightarrow> contribution list" where
  "grooming_breakdown i =
     contribute ''age_gap'' (AGE_GAP_POINTS (gm_ageGap i))
       (''Age-gap signal '' @ quoted (age_gap_text (gm_ageGap i))) @
     contribute ''relationship_duration'' (relationshipDurationPoints (gm_durationDays i))
       (''Short relationship duration ('' @ show_int (or_default (gm_durationDays i) 0) @
        '' day(s)) '' @ em_dash @ '' compressed-timeline pattern'') @
     contribute_if (gm_loveBombing i) ''loveBombingDetected'' 15
       ''Love-bombing language pattern detected'' @
     contribute_if (gm_isolation i) ''isolationLanguageDetected'' 20
       (quoted ''Keep this between us'' @ '' / isolation language detected'') @
     contribute_if (gm_paymentRequest i) ''paymentRequestDetected'' 25
       ''Payment request inside an intimate context'' @
     contribute_if (gm_photoSolicitation i) ''photoSolicitationDetected'' 25
       ''Explicit-photo solicitation pattern detected'' @
     contribute_if (gm_moveToPrivate i) ''moveToPrivateChannelDetected'' 15
       ''Push to move conversation off-platform'' @
     contribute_if (gm_piiEscalation i) ''piiEscalationDetected'' 15
       ''Requests for school / address / full name'' @
     contribute_if (gm_minorSuspected i) ''minor_suspected'' 35
       ''Upstream classifier flagged the subject as a suspected minor''"

record grooming_scoring =
  gs_riskScore :: int
  gs_riskLevel :: risk_level
  gs_action :: grooming_action
  gs_breakdown :: "contribution list"

definition minor_with_escalation :: "grooming_input \<Rightarrow> bool" where
  "minor_with_escalation i \<longleftrightarrow> gm_minorSuspected i \<and>
     (gm_paymentRequest i \<or> gm_photoSolicitation i \<or> gm_moveToPrivate i \<or> gm_piiEscalation i)"

definition scoreGroomingCheck :: "grooming_input \<Rightarrow> grooming_scoring" where
  "scoreGroomingCheck i =
     (let breakdown = grooming_breakdown i;
          riskScore = min 100 (contributed breakdown);
          (riskLevel, action) =
            (if minor_with_escalation i then (CRITICAL, ESCALATE_TO_LAW_ENFORCEMENT)
             else if gm_ageGap i = GA_ADULT_TO_SUSPECTED_MINOR
               then (CRITICAL, ESCALATE_TO_TRUST_AND_SAFETY)
             else if 80 \<le> riskScore then (CRITICAL, SUSPEND_USER)
             else if 60 \<le> riskScore then (HIGH, HARD_INTERVENE)
             else if 30 \<le> riskScore then (MEDIUM, SOFT_INTERVENE)
             else if 10 \<le> riskScore then (LOW, MONITOR)
             else (LOW, NO_ACTION))
      in \<lparr>gs_riskScore = riskScore, gs_riskLevel = riskLevel, gs_action = action,
          gs_breakdown = breakdown\<rparr>)"

section \<open>Bounds, order and levels\<close>

lemma clamp_score_bounds: "0 \<le> clamp_score n" "clamp_score n \<le> 100"
  by (simp_all add: clamp_score_def)

lemma clamp_score_mono: "m \<le> n \<Longrightarrow> clamp_score m \<le> clamp_score n"
  by (simp add: clamp_score_def)

lemma scoreToLevel_eq: "scoreToLevel = levelForScore"
  by (simp add: fun_eq_iff scoreToLevel_def levelForScore_def)

lemma levelForScore_mono: "m \<le> n \<Longrightarrow> levelForScore m \<le> levelForScore n"
  by (simp add: levelForScore_def)

lemma score_breakdown_simps [simp]:
  "sc_score (score_breakdown b) = clamp_score (sum_list (map snd b))"
  "sc_level (score_breakdown b) = levelForScore (clamp_score (sum_list (map snd b)))"
  "sc_breakdown (score_breakdown b) = b"
  by (simp_all add: score_breakdown_def scoreToLevel_eq Let_def)

lemma points_if_mono: "(b \<longrightarrow> b') \<Longrightarrow> 0 \<le> n \<Longrightarrow> points_if b n \<le> points_if b' n"
  by (simp add: points_if_def)

lemma prior_points_mono: "m \<le> n \<Longrightarrow> prior_points m \<le> prior_points n"
  by (simp add: prior_points_def)

lemma amountScore_mono: "m \<le> n \<Longrightarrow> amountScore m \<le> amountScore n"
  by (simp add: amountScore_def)

lemma scored_mono:
  "sum_list (map snd b) \<le> sum_list (map snd b') \<Longrightarrow>
     sc_score (score_breakdown b) \<le> sc_score (score_breakdown b') \<and>
     sc_level (score_breakdown b) \<le> sc_level (score_breakdown b')"
  by (simp add: clamp_score_mono levelForScore_mono)

text \<open>
  The severity of what a recipient, a wallet and an impersonator are said to be, by rank. The
  schema declares the first two in this order; an absent value counts as the lowest. A claimed
  authority outranks an employer or a lover, a utility, a charity and an unspecified part.
\<close>

fun recipient_rank :: "recipient_risk \<Rightarrow> nat" where
  "recipient_rank RR_UNKNOWN = 0"
| "recipient_rank RR_NEW = 1"
| "recipient_rank RR_KNOWN_RISKY = 2"
| "recipient_rank RR_SUSPICIOUS_WALLET = 3"

fun reputation_rank :: "wallet_reputation \<Rightarrow> nat" where
  "reputation_rank WR_UNKNOWN = 0"
| "reputation_rank WR_NEW = 1"
| "reputation_rank WR_KNOWN_RISKY = 2"
| "reputation_rank WR_SUSPICIOUS_WALLET = 3"
| "reputation_rank WR_CONFIRMED_SCAM = 4"

fun impersonation_rank :: "impersonation \<Rightarrow> nat" where
  "impersonation_rank IM_NONE = 0"
| "impersonation_rank IM_OTHER = 1"
| "impersonation_rank IM_CHARITY = 2"
| "impersonation_rank IM_UTILITY = 3"
| "impersonation_rank IM_ROMANCE = 4"
| "impersonation_rank IM_EMPLOYER = 4"
| "impersonation_rank IM_GOVERNMENT = 5"
| "impersonation_rank IM_BANK = 5"
| "impersonation_rank IM_TECH_SUPPORT = 5"
| "impersonation_rank IM_LAW_ENFORCEMENT = 5"

text \<open>An optional score may appear, or grow; an age in days may become known, or shrink.\<close>

definition score_le :: "int option \<Rightarrow> int option \<Rightarrow> bool" where
  "score_le x y = (case (x, y) of (None, None) \<Rightarrow> True | (None, Some n) \<Rightarrow> 0 \<le> n
     | (Some m, Some n) \<Rightarrow> m \<le> n | (Some m, None) \<Rightarrow> False)"

definition age_le :: "int option \<Rightarrow> int option \<Rightarrow> bool" where
  "age_le x y = (case (x, y) of (None, _) \<Rightarrow> True | (Some m, Some n) \<Rightarrow> n \<le> m | (Some m, None) \<Rightarrow> False)"

text \<open>
  One input is at most as alarming as another: a transaction or claim of the same type, with
  every warning sign of the first also in the second, no lower severity and no smaller number.
\<close>

definition scamhold_le :: "scamhold_input \<Rightarrow> scamhold_input \<Rightarrow> bool" where
  "scamhold_le i j \<longleftrightarrow>
     hi_transactionType i = hi_transactionType j \<and>
     recipient_rank (or_default (hi_recipientRisk i) RR_UNKNOWN) \<le>
       recipient_rank (or_default (hi_recipientRisk j) RR_UNKNOWN) \<and>
     hi_amountMinor i \<le> hi_amountMinor j \<and> (hi_urgency i \<longrightarrow> hi_urgency j) \<and>
     (hi_secrecy i \<longrightarrow> hi_secrecy j) \<and> (hi_activeCommunication i \<longrightarrow> hi_activeCommunication j) \<and>
     hi_priorWarnings i \<le> hi_priorWarnings j"

definition giftcard_le :: "giftcard_input \<Rightarrow> giftcard_input \<Rightarrow> bool" where
  "giftcard_le i j \<longleftrightarrow>
     impersonation_rank (or_default (gi_impersonation i) IM_NONE) \<le>
       impersonation_rank (or_default (gi_impersonation j) IM_NONE) \<and>
     (gi_codeReveal i \<longrightarrow> gi_codeReveal j) \<and>
     (gi_photoOfCode i \<longrightarrow> gi_photoOfCode j) \<and> (gi_urgency i \<longrightarrow> gi_urgency j) \<and>
     (gi_secrecy i \<longrightarrow> gi_secrecy j) \<and> (gi_elderMode i \<longrightarrow> gi_elderMode j) \<and>
     gi_priorWarnings i \<le> gi_priorWarnings j"

definition wallet_le :: "wallet_input \<Rightarrow> wallet_input \<Rightarrow> bool" where
  "wallet_le i j \<longleftrightarrow>
     reputation_rank (or_default (wi_reputation i) WR_UNKNOWN) \<le>
       reputation_rank (or_default (wi_reputation j) WR_UNKNOWN) \<and>
     (wi_clipboardSwap i \<longrightarrow> wi_clipboardSwap j) \<and>
     (wi_walletSwitched i \<longrightarrow> wi_walletSwitched j) \<and> (wi_urgency i \<longrightarrow> wi_urgency j) \<and>
     (wi_secrecy i \<longrightarrow> wi_secrecy j) \<and> wi_priorWarnings i \<le> wi_priorWarnings j \<and>
     score_le (wi_graphMatch i) (wi_graphMatch j)"

definition claim_le :: "claim_input \<Rightarrow> claim_input \<Rightarrow> bool" where
  "claim_le i j \<longleftrightarrow>
     ci_claimType i = ci_claimType j \<and> age_le (ci_domainAgeDays i) (ci_domainAgeDays j) \<and>
     (ci_locationMismatch i \<longrightarrow> ci_locationMismatch j) \<and>
     (ci_imageReuse i \<longrightarrow> ci_imageReuse j) \<and>
     (ci_paymentPressure i \<longrightarrow> ci_paymentPressure j) \<and> (ci_secrecy i \<longrightarrow> ci_secrecy j) \<and>
     (ci_urgency i \<longrightarrow> ci_urgency j) \<and> ci_priorWarnings i \<le> ci_priorWarnings j \<and>
     score_le (ci_scamPhrase i) (ci_scamPhrase j)"

lemma third_capped_mono: "score_le x y \<Longrightarrow> third_capped x \<le> third_capped y"
  by (cases x; cases y) (simp_all add: score_le_def third_capped_def zdiv_mono1 min.coboundedI2 min_le_iff_disj)

lemma recipient_mono: "recipient_rank r \<le> recipient_rank q \<Longrightarrow> RECIPIENT_RISK_SCORE r \<le> RECIPIENT_RISK_SCORE q"
  by (cases r; cases q) simp_all

lemma reputation_mono: "reputation_rank r \<le> reputation_rank q \<Longrightarrow> REPUTATION_SCORE r \<le> REPUTATION_SCORE q"
  by (cases r; cases q) simp_all

lemma impersonation_mono:
  "impersonation_rank r \<le> impersonation_rank q \<Longrightarrow> IMPERSONATION_SCORE r \<le> IMPERSONATION_SCORE q"
  by (cases r; cases q) simp_all

lemma domainAge_mono: "age_le x y \<Longrightarrow> domainAgeScore x \<le> domainAgeScore y"
  by (cases x; cases y) (simp_all add: age_le_def domainAgeScore_def)

lemmas score_monos = points_if_mono prior_points_mono amountScore_mono third_capped_mono
  recipient_mono reputation_mono impersonation_mono domainAge_mono

lemma scamhold_mono:
  "scamhold_le i j \<Longrightarrow> sc_score (scoreScamHold i) \<le> sc_score (scoreScamHold j) \<and>
     sc_level (scoreScamHold i) \<le> sc_level (scoreScamHold j)"
  unfolding scoreScamHold_def scamhold_le_def
  by (intro scored_mono) (auto intro!: add_mono score_monos)

lemma giftcard_mono:
  "giftcard_le i j \<Longrightarrow> sc_score (scoreGiftCardGuard i) \<le> sc_score (scoreGiftCardGuard j) \<and>
     sc_level (scoreGiftCardGuard i) \<le> sc_level (scoreGiftCardGuard j)"
  unfolding scoreGiftCardGuard_def giftcard_le_def
  by (intro scored_mono) (auto intro!: add_mono score_monos)

lemma wallet_mono:
  "wallet_le i j \<Longrightarrow> sc_score (scoreWalletGuard i) \<le> sc_score (scoreWalletGuard j) \<and>
     sc_level (scoreWalletGuard i) \<le> sc_level (scoreWalletGuard j)"
  unfolding scoreWalletGuard_def wallet_le_def
  by (intro scored_mono) (auto intro!: add_mono score_monos)

lemma claim_mono:
  "claim_le i j \<Longrightarrow> sc_score (scoreClaimVerify i) \<le> sc_score (scoreClaimVerify j) \<and>
     sc_level (scoreClaimVerify i) \<le> sc_level (scoreClaimVerify j)"
  unfolding scoreClaimVerify_def claim_le_def
  by (intro scored_mono) (auto intro!: add_mono score_monos)

lemma inherited_unweighted:
  assumes "s \<in> set inherited_properties"
  shows "map_of SIGNAL_WEIGHTS s = None"
proof -
  have "list_all (\<lambda>s. map_of SIGNAL_WEIGHTS s = None) inherited_properties"
    by code_simp
  with assms show ?thesis by (simp add: list_all_iff)
qed

lemma sum_signals_None: "sum_signals None ss = None"
  by (induction ss) simp_all

lemma sum_signals_eq:
  "sum_signals (Some a) ss =
     (if \<exists>s\<in>set ss. s \<in> set inherited_properties then None
      else Some (a + sum_list (map (\<lambda>s. the (signal_weight s)) ss)))"
proof (induction ss arbitrary: a)
  case (Cons s ss)
  show ?case
  proof (cases "s \<in> set inherited_properties")
    case True
    then show ?thesis
      using inherited_unweighted [OF True] by (simp add: signal_weight_def sum_signals_None)
  next
    case False
    then obtain n where "signal_weight s = Some n"
      by (cases "map_of SIGNAL_WEIGHTS s") (simp_all add: signal_weight_def)
    with False Cons show ?thesis by simp
  qed
qed simp

lemma channel_nonneg [simp]: "0 \<le> CHANNEL_POINTS c" by (cases c) simp_all

lemma recipient_nonneg [simp]: "0 \<le> RECIPIENT_POINTS c" by (cases c) simp_all

lemma reason_nonneg [simp]: "0 \<le> REASON_POINTS c" by (cases c) simp_all

lemma behavior_points_nonneg [simp]: "0 \<le> BEHAVIOR_POINTS c" by (cases c) simp_all

lemma age_gap_nonneg [simp]: "0 \<le> AGE_GAP_POINTS c" by (cases c) simp_all

lemma contributed_simps [simp]:
  "contributed [] = 0" "contributed (a # as) = co_points a + contributed as"
  "contributed (as @ bs) = contributed as + contributed bs"
  by (simp_all add: contributed_def)

lemma contribute_total [simp]: "0 \<le> n \<Longrightarrow> contributed (contribute k n r) = n"
  by (simp add: contribute_def)

lemma contribute_if_total [simp]: "contributed (contribute_if b k n r) = (if b then n else 0)"
  by (simp add: contribute_if_def)

lemma behavior_total:
  "contributed (behavior_contributions bs) = sum_list (map BEHAVIOR_POINTS bs)"
  by (induction bs) (simp_all add: behavior_contributions_def)

lemma behavior_nonneg [simp]: "0 \<le> sum_list (map BEHAVIOR_POINTS bs)"
  by (induction bs) simp_all

lemma duration_nonneg [simp]: "0 \<le> relationshipDurationPoints d"
  by (simp add: relationshipDurationPoints_def split: option.split)

lemma amountBand_nonneg [simp]: "0 \<le> amountBandPoints n"
  by (simp add: amountBandPoints_def)

section \<open>Properties\<close>

text \<open>
  C37. More warning signs never lower a risk: for each of the four protection modules, an input
  for the same type of transaction or claim with every sign of the first, no lower severity of the
  recipient, the wallet or the impersonator, no smaller number and no older domain, optional
  scores present or absent, gets at least its score and at least its level. Scores stay within 0
  and 100 and the level is the one of the published thresholds.
\<close>

theorem scorers_monotone:
  "(scamhold_le h1 h2 \<longrightarrow> sc_score (scoreScamHold h1) \<le> sc_score (scoreScamHold h2) \<and>
      sc_level (scoreScamHold h1) \<le> sc_level (scoreScamHold h2)) \<and>
   (giftcard_le g1 g2 \<longrightarrow> sc_score (scoreGiftCardGuard g1) \<le> sc_score (scoreGiftCardGuard g2) \<and>
      sc_level (scoreGiftCardGuard g1) \<le> sc_level (scoreGiftCardGuard g2)) \<and>
   (wallet_le w1 w2 \<longrightarrow> sc_score (scoreWalletGuard w1) \<le> sc_score (scoreWalletGuard w2) \<and>
      sc_level (scoreWalletGuard w1) \<le> sc_level (scoreWalletGuard w2)) \<and>
   (claim_le c1 c2 \<longrightarrow> sc_score (scoreClaimVerify c1) \<le> sc_score (scoreClaimVerify c2) \<and>
      sc_level (scoreClaimVerify c1) \<le> sc_level (scoreClaimVerify c2)) \<and>
   (\<forall>s\<in>{scoreScamHold h1, scoreGiftCardGuard g1, scoreWalletGuard w1, scoreClaimVerify c1}.
      0 \<le> sc_score s \<and> sc_score s \<le> 100 \<and> sc_level s = levelForScore (sc_score s))"
  using scamhold_mono giftcard_mono wallet_mono claim_mono clamp_score_bounds
  by (simp add: scoreScamHold_def scoreGiftCardGuard_def scoreWalletGuard_def
      scoreClaimVerify_def)

definition calm_hold :: scamhold_input where
  "calm_hold = \<lparr>hi_transactionType = TX_CRYPTO, hi_amountMinor = 50000, hi_recipientRisk = None,
     hi_urgency = False, hi_secrecy = False, hi_activeCommunication = False, hi_priorWarnings = 0\<rparr>"

definition calm_card :: giftcard_input where
  "calm_card = \<lparr>gi_codeReveal = False, gi_photoOfCode = False, gi_impersonation = None,
     gi_urgency = False, gi_secrecy = False, gi_elderMode = False, gi_priorWarnings = 0\<rparr>"

definition calm_wallet :: wallet_input where
  "calm_wallet = \<lparr>wi_reputation = Some WR_SUSPICIOUS_WALLET, wi_clipboardSwap = False,
     wi_walletSwitched = False, wi_graphMatch = None, wi_urgency = False, wi_secrecy = False,
     wi_priorWarnings = 0\<rparr>"

definition calm_claim :: claim_input where
  "calm_claim = \<lparr>ci_claimType = CT_JOB, ci_domainAgeDays = None, ci_locationMismatch = False,
     ci_imageReuse = False, ci_scamPhrase = None, ci_paymentPressure = False, ci_secrecy = False,
     ci_urgency = False, ci_priorWarnings = 0\<rparr>"

theorem scorers_monotone_witness:
  "sc_score (scoreScamHold calm_hold) \<le>
     sc_score (scoreScamHold (calm_hold\<lparr>hi_recipientRisk := Some RR_KNOWN_RISKY, hi_urgency := True\<rparr>)) \<and>
   sc_score (scoreGiftCardGuard calm_card) \<le>
     sc_score (scoreGiftCardGuard (calm_card\<lparr>gi_impersonation := Some IM_ROMANCE\<rparr>)) \<and>
   sc_level (scoreWalletGuard calm_wallet) \<le>
     sc_level (scoreWalletGuard (calm_wallet\<lparr>wi_reputation := Some WR_CONFIRMED_SCAM, wi_graphMatch := Some 90\<rparr>)) \<and>
   sc_level (scoreClaimVerify calm_claim) \<le>
     sc_level (scoreClaimVerify (calm_claim\<lparr>ci_domainAgeDays := Some 3, ci_scamPhrase := Some 60\<rparr>))"
proof -
  have "scamhold_le calm_hold (calm_hold\<lparr>hi_recipientRisk := Some RR_KNOWN_RISKY, hi_urgency := True\<rparr>)"
    "giftcard_le calm_card (calm_card\<lparr>gi_impersonation := Some IM_ROMANCE\<rparr>)"
    "wallet_le calm_wallet (calm_wallet\<lparr>wi_reputation := Some WR_CONFIRMED_SCAM, wi_graphMatch := Some 90\<rparr>)"
    "claim_le calm_claim (calm_claim\<lparr>ci_domainAgeDays := Some 3, ci_scamPhrase := Some 60\<rparr>)"
    by (simp_all add: scamhold_le_def giftcard_le_def wallet_le_def claim_le_def score_le_def age_le_def
        or_default_def calm_hold_def calm_card_def calm_wallet_def calm_claim_def)
  then show ?thesis
    using scorers_monotone [of calm_hold "calm_hold\<lparr>hi_recipientRisk := Some RR_KNOWN_RISKY, hi_urgency := True\<rparr>"
        calm_card "calm_card\<lparr>gi_impersonation := Some IM_ROMANCE\<rparr>"
        calm_wallet "calm_wallet\<lparr>wi_reputation := Some WR_CONFIRMED_SCAM, wi_graphMatch := Some 90\<rparr>"
        calm_claim "calm_claim\<lparr>ci_domainAgeDays := Some 3, ci_scamPhrase := Some 60\<rparr>"]
    by blast
qed

text \<open>
  The child-safety hard stop cannot be tuned away: a grooming check is escalated to law
  enforcement exactly when a minor is suspected together with a payment request, photo
  solicitation, a move to a private channel or an escalation for personal data, whatever the
  score, and then it is critical; contact of an adult with a suspected minor is always
  critical. Everything else follows the score, which is the capped sum of the listed
  contributions.
\<close>

lemma grooming_hard_stop:
  "let r = scoreGroomingCheck i in
     (gs_action r = ESCALATE_TO_LAW_ENFORCEMENT \<longleftrightarrow> minor_with_escalation i) \<and>
     (minor_with_escalation i \<or> gm_ageGap i = GA_ADULT_TO_SUSPECTED_MINOR \<longrightarrow>
        gs_riskLevel r = CRITICAL) \<and>
     (gs_riskLevel r = CRITICAL \<longleftrightarrow>
        gs_action r \<in> {ESCALATE_TO_LAW_ENFORCEMENT, ESCALATE_TO_TRUST_AND_SAFETY, SUSPEND_USER}) \<and>
     gs_riskScore r = min 100 (contributed (gs_breakdown r)) \<and> 0 \<le> gs_riskScore r"
proof -
  have "0 \<le> contributed (grooming_breakdown i)"
    by (simp add: grooming_breakdown_def)
  then show ?thesis
    unfolding scoreGroomingCheck_def Let_def by auto
qed

lemma grooming_hard_stop_witness:
  "gs_riskLevel (scoreGroomingCheck \<lparr>gm_ageGap = GA_UNKNOWN, gm_durationDays = None,
     gm_loveBombing = False, gm_isolation = False, gm_paymentRequest = False,
     gm_photoSolicitation = False, gm_moveToPrivate = False, gm_piiEscalation = True,
     gm_minorSuspected = True\<rparr>) = CRITICAL"
  using grooming_hard_stop [of "\<lparr>gm_ageGap = GA_UNKNOWN, gm_durationDays = None,
     gm_loveBombing = False, gm_isolation = False, gm_paymentRequest = False,
     gm_photoSolicitation = False, gm_moveToPrivate = False, gm_piiEscalation = True,
     gm_minorSuspected = True\<rparr>"]
  by (simp add: Let_def minor_with_escalation_def)

text \<open>
  At the teller's counter, a customer taking instructions from a caller, or paying a
  prize or tech-support fee, is always refused and escalated, whatever the points; a
  transaction proceeds only without such a sign and below 30 points; an Elder Mode customer
  at medium risk always gets a call to family. The score is the sum of the points of every
  sign, capped at 100.
\<close>

lemma teller_hard_stop_refuses:
  "let r = scoreTellerAssist i in
     (teller_hard_stop i \<longrightarrow> ts_riskLevel r = CRITICAL) \<and>
     (ts_riskLevel r = CRITICAL \<longleftrightarrow> ts_action r = REFUSE_AND_ESCALATE_TO_FRAUD) \<and>
     (ts_action r = PROCEED \<longleftrightarrow> \<not> teller_hard_stop i \<and> ts_riskScore r < 30) \<and>
     (ti_elderMode i \<and> ts_riskLevel r = MEDIUM \<longrightarrow>
        ts_action r = CALL_FAMILY_OR_TRUSTED_CONTACT) \<and>
     ts_riskScore r = min 100
       (CHANNEL_POINTS (ti_channel i) + RECIPIENT_POINTS (ti_recipient i) +
        REASON_POINTS (or_default (ti_reason i) TRS_NONE_GIVEN) +
        amountBandPoints (ti_amountMinor i) + sum_list (map BEHAVIOR_POINTS (ti_behavior i)) +
        (if ti_elderMode i then 15 else 0))"
proof -
  have total: "contributed (teller_breakdown i) =
      CHANNEL_POINTS (ti_channel i) + RECIPIENT_POINTS (ti_recipient i) +
      REASON_POINTS (or_default (ti_reason i) TRS_NONE_GIVEN) +
      amountBandPoints (ti_amountMinor i) + sum_list (map BEHAVIOR_POINTS (ti_behavior i)) +
      (if ti_elderMode i then 15 else 0)"
    by (simp add: teller_breakdown_def Let_def behavior_total)
  show ?thesis
    unfolding scoreTellerAssist_def Let_def total [symmetric] by auto
qed

definition demo_teller :: teller_input where
  "demo_teller = \<lparr>ti_channel = TCH_CHECK, ti_amountMinor = 100, ti_recipient = TRT_EXISTING_PAYEE,
     ti_reason = Some TRS_TECH_SUPPORT_FEE, ti_behavior = [], ti_elderMode = False\<rparr>"

lemma teller_hard_stop_refuses_witness:
  "ts_action (scoreTellerAssist demo_teller) = REFUSE_AND_ESCALATE_TO_FRAUD"
proof -
  have "teller_hard_stop demo_teller"
    by (simp add: Let_def teller_hard_stop_def demo_teller_def)
  then show ?thesis
    using teller_hard_stop_refuses [of demo_teller] unfolding Let_def by blast
qed

text \<open>
  The unified score is the capped sum of the signals' weights, five for an unknown one,
  unless a signal bears the name of a property every JavaScript object inherits (such as
  \<open>constructor\<close>): then, whatever the other signals are, the score is not a number and the
  level is \<open>LOW\<close>.
\<close>

lemma signals_scored:
  "(if \<exists>s\<in>set signals. s \<in> set inherited_properties then
      scoreSignals signals = None \<and> levelForSignals signals = LOW
    else
      scoreSignals signals =
        Some (clamp_score (sum_list (map (\<lambda>s. the (signal_weight s)) signals))) \<and>
      levelForSignals signals =
        levelForScore (clamp_score (sum_list (map (\<lambda>s. the (signal_weight s)) signals))))"
  by (simp add: scoreSignals_def levelForSignals_def sum_signals_eq)

end
