(* ===== verification/TrustedReview.thy ===== *)
theory TrustedReview
  imports Notifications
begin

text \<open>
  The trusted-contact review workflow (modules/trusted-contact-review): a protected user's
  held event is put to a contact, who decides with the one-time token mailed to them; an
  approval lets the event be released.
\<close>

section \<open>State\<close>

record app_user =
  us_id :: string
  us_email :: string
  us_fullName :: string
  us_elderModeEnabled :: bool

record trusted_contact =
  tc_id :: string
  tc_userId :: string
  tc_fullName :: string
  tc_relationship :: "string option"
  tc_email :: "string option"
  tc_phone :: "string option"
  tc_active :: bool
  tc_canReceiveAlerts :: bool
  tc_canApprove :: bool
  tc_createdAt :: int

record review =
  rv_id :: string
  rv_userId :: string
  rv_tenantId :: "string option"
  rv_contactId :: string
  rv_triggerModule :: trigger_module
  rv_triggerEventId :: string
  rv_triggerSummary :: string
  rv_status :: review_status
  rv_requestedAt :: int
  rv_decidedAt :: "int option"
  rv_decision :: "review_decision option"
  rv_decisionNotes :: "string option"
  rv_token :: "string option"
  rv_evidenceEventId :: "string option"
  rv_metadata :: js

record review_db = notify_db +
  users :: "app_user list"
  contacts :: "trusted_contact list"
  reviews :: "review list"

interpretation users_tab: table users users_update
  by unfold_locales simp

interpretation contacts_tab: table contacts contacts_update
  by unfold_locales simp

interpretation reviews_tab: table reviews reviews_update
  by unfold_locales simp

section \<open>Requesting a review\<close>

record request_input =
  rq_user :: auth_user
  rq_module :: trigger_module
  rq_eventId :: string
  rq_summary :: string
  rq_contactId :: "string option"
  rq_metadata :: js

definition resolveContact ::
    "request_input \<Rightarrow> ('a review_db_scheme, trusted_contact option) prog" where
  "resolveContact input =
     (if truthy (rq_contactId input) then
        find_row contacts (\<lambda>c. rq_contactId input = Some (tc_id c) \<and>
          tc_userId c = au_userId (rq_user input) \<and> tc_active c)
      else
        bind_p (find_rows contacts (\<lambda>c. tc_userId c = au_userId (rq_user input) \<and>
                  tc_active c \<and> tc_canApprove c)) (\<lambda>approvers.
        case first_of (order_asc tc_createdAt approvers) of
          Some approver \<Rightarrow> ret (Some approver)
        | None \<Rightarrow>
            bind_p (find_rows contacts (\<lambda>c. tc_userId c = au_userId (rq_user input) \<and>
                      tc_active c \<and> tc_canReceiveAlerts c)) (\<lambda>alertable.
            ret (first_of (order_asc tc_createdAt alertable)))))"

definition newline :: string where
  "newline = [CHR 0x0A]"

definition review_link :: "string \<Rightarrow> string \<Rightarrow> string" where
  "review_link reviewId token =
     ''https://vigiscam.com/review/'' @ reviewId @ ''?token='' @ token"

definition review_message ::
    "channel \<Rightarrow> string \<Rightarrow> string \<Rightarrow> review \<Rightarrow> send_input" where
  "review_message ch recipient body review =
     \<lparr>si_channel = ch, si_tenantId = rv_tenantId review, si_userId = None,
      si_templateKey = ''trusted-contact.review-request'',
      si_args = \<lparr>na_recipient = recipient, na_subject = ''A trusted contact decision is needed'',
        na_body = body,
        na_metadata = JObj [(''reviewId'', JStr (rv_id review)),
          (''triggerModule'', JStr (module_text (rv_triggerModule review)))]\<rparr>,
      si_relatedRiskEventId = None, si_relatedEvidenceId = None\<rparr>"

definition fanOutNotifications ::
    "runtime \<Rightarrow> trusted_contact \<Rightarrow> review \<Rightarrow> string \<Rightarrow> string \<Rightarrow> ('a review_db_scheme, unit) prog" where
  "fanOutNotifications rt contact review summary token =
     (let link = review_link (rv_id review) token;
          body = tc_fullName contact @ '', the person who lists you as a trusted '' @
            ''contact in VIGISCAM has hit a risky situation:'' @ newline @ newline @
            ''  '' @ summary @ newline @ newline @ ''Decide here: '' @ link
      in
      seq_p (when_p (truthy (tc_email contact))
        (catch_p (void_p (send_notification rt
           (review_message CH_EMAIL (the (tc_email contact)) body review))) (\<lambda>_. ret ())))
      (when_p (truthy (tc_phone contact))
        (catch_p (void_p (send_notification rt
           (review_message CH_SMS (the (tc_phone contact))
              (''VIGISCAM: '' @ summary @ '' Decide: '' @ link) review))) (\<lambda>_. ret ()))))"

definition new_review :: "request_input \<Rightarrow> string \<Rightarrow> string \<Rightarrow> string \<Rightarrow> int \<Rightarrow> review" where
  "new_review input contactId token uid requestedAt =
     \<lparr>rv_id = uid, rv_userId = au_userId (rq_user input),
      rv_tenantId = Some (au_tenantId (rq_user input)), rv_contactId = contactId,
      rv_triggerModule = rq_module input, rv_triggerEventId = rq_eventId input,
      rv_triggerSummary = rq_summary input, rv_status = RV_PENDING,
      rv_requestedAt = requestedAt, rv_decidedAt = None, rv_decision = None,
      rv_decisionNotes = None, rv_token = Some token, rv_evidenceEventId = None,
      rv_metadata = stored_json (rq_metadata input)\<rparr>"

definition requestReview ::
    "runtime \<Rightarrow> request_input \<Rightarrow> ('a review_db_scheme, review option) prog" where
  "requestReview rt input =
     bind_p (resolveContact input) (\<lambda>found.
     case found of
       None \<Rightarrow> ret None
     | Some contact \<Rightarrow>
         bind_p (random_token rt) (\<lambda>token.
         bind_p (new_id rt) (\<lambda>uid.
         bind_p (now rt) (\<lambda>t.
         bind_p (insert_row reviews_update (new_review input (tc_id contact) token uid t))
           (\<lambda>created.
         bind_p (append_evidence rt
           (user_event (Some (au_tenantId (rq_user input))) (au_userId (rq_user input))
              ''TRUSTED_CONTACT_REVIEW'' (rv_id created) ''TRUSTED_CONTACT_REVIEW_REQUESTED''
              (''Review requested from '' @ tc_fullName contact @ '' ('' @
                 to_lower (module_text (rq_module input)) @ '')'')
              (JObj [(''triggerModule'', JStr (module_text (rq_module input))),
                     (''triggerEventId'', JStr (rq_eventId input)),
                     (''contactRelationship'', opt_str (tc_relationship contact))]))) (\<lambda>evidence.
         bind_p (update_row reviews reviews_update (\<lambda>r. rv_id r = rv_id created)
                   (\<lambda>r. r\<lparr>rv_evidenceEventId := Some (ev_id evidence)\<rparr>)) (\<lambda>linked.
         seq_p (fanOutNotifications rt contact linked (rq_summary input) token)
         (ret (Some linked)))))))))"

section \<open>Deciding\<close>

record decide_args =
  dc_decision :: review_decision
  dc_notes :: "string option"
  dc_token :: "string option"
  dc_caller :: "auth_user option"

definition caller_owns :: "decide_args \<Rightarrow> review \<Rightarrow> bool" where
  "caller_owns args rv \<longleftrightarrow>
     (case dc_caller args of None \<Rightarrow> False
      | Some u \<Rightarrow> au_userId u = rv_userId rv \<or> au_role u = SUPER_ADMIN)"

definition token_matches :: "decide_args \<Rightarrow> review \<Rightarrow> bool" where
  "token_matches args rv \<longleftrightarrow> truthy (rv_token rv) \<and> dc_token args = rv_token rv"

definition record_decision :: "decide_args \<Rightarrow> int \<Rightarrow> review \<Rightarrow> review" where
  "record_decision args t r =
     r\<lparr>rv_status := RV_DECIDED, rv_decision := Some (dc_decision args),
       rv_decisionNotes := dc_notes args, rv_decidedAt := Some t, rv_token := None\<rparr>"

definition decide_review ::
    "runtime \<Rightarrow> string \<Rightarrow> decide_args \<Rightarrow> ('a review_db_scheme, review) prog" where
  "decide_review rt reviewId args =
     bind_p (find_row reviews (\<lambda>r. rv_id r = reviewId)) (\<lambda>found.
     bind_p (require_some found (NotFoundException ''Trusted-contact review not found''))
       (\<lambda>existing.
     seq_p (ensure (rv_status existing = RV_PENDING)
       (BadRequestException (''Review already in terminal state ('' @
          review_status_text (rv_status existing) @ '')'')))
     (seq_p (ensure (caller_owns args existing \<or> token_matches args existing)
       (BadRequestException (''Decision requires either the protected user / admin to be '' @
          ''logged in, or the one-time decidedByContactToken'')))
     (bind_p (now rt) (\<lambda>t.
      bind_p (update_row reviews reviews_update (\<lambda>r. rv_id r = rv_id existing)
                (record_decision args t)) (\<lambda>updated.
      seq_p (append_evidence rt
        \<lparr>in_tenantId = rv_tenantId existing, in_actorId = map_option au_userId (dc_caller args),
         in_actorType = Some (if dc_caller args = None then ''EXTERNAL_TRUSTED_CONTACT''
                              else ''USER''),
         in_entityType = ''TRUSTED_CONTACT_REVIEW'', in_entityId = rv_id existing,
         in_eventType = ''TRUSTED_CONTACT_REVIEW_'' @ review_decision_text (dc_decision args),
         in_eventDescription = ''Trusted contact recorded decision: '' @
           review_decision_text (dc_decision args),
         in_metadata = JObj [(''decision'', JStr (review_decision_text (dc_decision args))),
                             (''notes'', opt_str (dc_notes args))],
         in_ipAddress = None, in_deviceId = None\<rparr>)
      (ret updated)))))))"

section \<open>Reading\<close>

definition findByTrigger ::
    "trigger_module \<Rightarrow> string \<Rightarrow> ('a review_db_scheme, review option) prog" where
  "findByTrigger m eid =
     bind_p (find_rows reviews (\<lambda>r. rv_triggerModule r = m \<and> rv_triggerEventId r = eid)) (\<lambda>rs.
     ret (first_of (order_desc rv_requestedAt rs)))"

definition latestReview ::
    "trigger_module \<Rightarrow> string \<Rightarrow> ('a review_db_scheme, review option) prog" where
  "latestReview m eid =
     bind_p (find_rows reviews (\<lambda>r. rv_triggerModule r = m \<and> rv_triggerEventId r = eid)) (\<lambda>rs.
     ret (first_of (order_desc rv_requestedAt rs)))"

definition list_reviews :: "auth_user \<Rightarrow> int \<Rightarrow> ('a review_db_scheme, review list) prog" where
  "list_reviews user limit =
     bind_p (find_rows reviews (\<lambda>r. rv_userId r = au_userId user)) (\<lambda>rs.
     ret (take (clamp 1 200 limit) (order_desc rv_requestedAt rs)))"

definition approved_for :: "trigger_module \<Rightarrow> string \<Rightarrow> review \<Rightarrow> bool" where
  "approved_for m eid r \<longleftrightarrow>
     rv_triggerModule r = m \<and> rv_triggerEventId r = eid \<and> rv_status r = RV_DECIDED \<and>
     rv_decision r = Some APPROVE_AFTER_VERIFICATION"

definition hasApprovedReview ::
    "trigger_module \<Rightarrow> string \<Rightarrow> ('a review_db_scheme, bool) prog" where
  "hasApprovedReview m eid =
     bind_p (find_row reviews (approved_for m eid)) (\<lambda>found. ret (found \<noteq> None))"

section \<open>The routes\<close>

text \<open>
  The principal the authentication guard leaves on a request: a public route is let through
  without looking at the token, so it has none; any other route needs a verified one (None:
  401).
\<close>

definition request_principal :: "bool \<Rightarrow> auth_user option \<Rightarrow> auth_user option option" where
  "request_principal is_public verified =
     (if is_public then Some None
      else case verified of None \<Rightarrow> None | Some u \<Rightarrow> Some (Some u))"

text \<open>\<open>POST trusted-contacts/review-request\<close> returns what \<open>requestReview\<close> returns.\<close>

definition http_request_review ::
    "runtime \<Rightarrow> request_input \<Rightarrow> ('a review_db_scheme, review option) prog" where
  "http_request_review rt input = requestReview rt input"

text \<open>
  \<open>POST trusted-contacts/review/:id/decision\<close> is a public route; \<open>verified\<close> is the
  principal of the token sent along, if any.
\<close>

definition http_decide_review ::
    "runtime \<Rightarrow> auth_user option \<Rightarrow> string \<Rightarrow> review_decision \<Rightarrow> string option \<Rightarrow> string option \<Rightarrow>
     ('a review_db_scheme, review) prog" where
  "http_decide_review rt verified reviewId decision notes token =
     (case request_principal True verified of
        None \<Rightarrow> throw (UnauthorizedException ''Unauthorized'')
      | Some user \<Rightarrow> decide_review rt reviewId
          \<lparr>dc_decision = decision, dc_notes = notes, dc_token = token, dc_caller = user\<rparr>)"

section \<open>The log is respected\<close>

lemma resolveContact_safe: "moves (log_safe rt) (resolveContact input)"
  unfolding resolveContact_def by (auto intro!: safe_rules split: option.splits)

lemma fanOut_safe: "moves (log_safe rt) (fanOutNotifications rt' c r s t)"
  unfolding fanOutNotifications_def Let_def by (auto intro!: safe_rules send_notification_safe)

lemma requestReview_safe: "moves (log_safe rt) (requestReview rt input)"
  unfolding requestReview_def
  by (auto simp: log_untouched intro!: safe_rules append_safe resolveContact_safe fanOut_safe
      split: option.splits)

lemma decide_review_safe: "moves (log_safe rt) (decide_review rt rid args)"
  unfolding decide_review_def by (auto simp: log_untouched intro!: safe_rules append_safe)

section \<open>Properties\<close>

text \<open>
  C8. A decision is recorded only on a pending review, and only for the protected user, a
  super admin, or a presenter of the review's one-time token; it closes the review and burns
  the token, and every later decision on it is rejected without effect, whoever makes it. A
  rejected decision writes nothing.
\<close>

theorem decision_needs_authority:
  "ends (decide_review rt rid args) w (\<lambda>r w'.
     case r of
       Inl x \<Rightarrow> w' = w
     | Inr rv' \<Rightarrow> \<exists>rv. find (\<lambda>r. rv_id r = rid) (reviews w) = Some rv \<and>
         rv_status rv = RV_PENDING \<and> (caller_owns args rv \<or> token_matches args rv) \<and>
         rv_status rv' = RV_DECIDED \<and> rv_decision rv' = Some (dc_decision args) \<and>
         rv_token rv' = None \<and> find (\<lambda>r. rv_id r = rid) (reviews w') = Some rv' \<and>
         (\<forall>args2. raises (decide_review rt rid args2) w'
            (\<lambda>x w2. (\<exists>m. x = BadRequestException m) \<and> w2 = w')))"
proof (cases "find (\<lambda>r. rv_id r = rid) (reviews w)")
  case None
  then show ?thesis by (simp add: ends_iff decide_review_def run_simps)
next
  case (Some rv)
  have id: "rv_id rv = rid" using find_SomeD [OF Some] by simp
  have keep: "rv_id (record_decision args t r) = rv_id r" for t r
    by (simp add: record_decision_def)
  have found: "find (\<lambda>r. rv_id r = rid)
      (map (\<lambda>r. if rv_id r = rid then record_decision args t r else r) (reviews w)) =
      Some (record_decision args t rv)" for t
    using find_mapped [OF Some, of "record_decision args t"] by (simp add: keep)
  show ?thesis
  proof (cases "rv_status rv = RV_PENDING \<and> (caller_owns args rv \<or> token_matches args rv)")
    case False
    then show ?thesis by (auto simp: ends_iff decide_review_def run_simps Some)
  next
    case True
    then show ?thesis
      unfolding ends_iff
      by (intro disjI1)
         (auto simp: decide_review_def run_simps Some id found record_decision_def
           intro!: runs_append dest!: appendedD)
  qed
qed

text \<open>\<open>requestReview\<close> with a contact at hand opens a pending review and returns its row.\<close>

interpretation reviews_unsent: unsent reviews
  by unfold_locales simp_all

lemma fanOut_reviews:
  "runs (fanOutNotifications rt c rv s t) w (\<lambda>_ w'. reviews w' = reviews w)"
  unfolding fanOutNotifications_def Let_def
  by (auto simp: run_simps intro!: runs_caught [OF reviews_unsent.send_same])

lemma requestReview_opens:
  assumes "\<And>Q. runs (resolveContact input) w Q \<longleftrightarrow> Q (Some c) w"
    "\<forall>r\<in>set (reviews w). rv_id r \<noteq> rt_uuid rt (db_tick w + 1)"
  shows "runs (requestReview rt input) w (\<lambda>res w'. \<exists>rv. res = Some rv \<and>
     reviews w' = reviews w @ [rv] \<and> rv_id rv = rt_uuid rt (db_tick w + 1) \<and>
     rv_status rv = RV_PENDING \<and> rv_token rv = Some (rt_random rt (db_tick w)) \<and>
     rv_userId rv = au_userId (rq_user input) \<and> rv_contactId rv = tc_id c \<and>
     rv_triggerModule rv = rq_module input \<and> rv_triggerEventId rv = rq_eventId input)"
proof -
  have none: "find (\<lambda>r. rv_id r = rt_uuid rt (Suc (db_tick w))) (reviews w) = None"
    using assms(2) by (simp add: find_None_iff)
  have others: "map (\<lambda>r. if rv_id r = rt_uuid rt (Suc (db_tick w)) then f r else r) (reviews w) =
      reviews w" for f
    using assms(2) by (simp add: map_idI)
  show ?thesis
    by (simp add: requestReview_def run_simps assms(1))
       (auto intro!: runs_append runs_mono [OF fanOut_reviews]
         simp: run_simps none others new_review_def find_append_eq dest!: appendedD)
qed

lemma resolve_runs: "runs (resolveContact input) w Q \<longleftrightarrow>
    (\<exists>r. fst (resolveContact input w) = Inr r \<and> Q r w)"
  by (auto simp: resolveContact_def runs_def prog_defs split: option.splits)

lemma resolve_state: "snd (resolveContact input w) = w"
  by (simp add: resolveContact_def prog_defs split: option.splits)

text \<open>
  The contact a review goes to is an active contact of the protected user. When none is
  named, it is the earliest that may approve high-risk actions, and only without any such
  contact the earliest that may receive alerts; without either no review is opened.
\<close>

lemma review_contact_choice:
  "runs (resolveContact input) w (\<lambda>res w'. w' = w \<and>
     (let mine = filter (\<lambda>c. tc_userId c = au_userId (rq_user input) \<and> tc_active c) (contacts w);
          approvers = filter tc_canApprove mine
      in case res of
           None \<Rightarrow> if truthy (rq_contactId input)
             then \<forall>c\<in>set mine. rq_contactId input \<noteq> Some (tc_id c)
             else \<forall>c\<in>set mine. \<not> tc_canApprove c \<and> \<not> tc_canReceiveAlerts c
         | Some c \<Rightarrow> c \<in> set mine \<and>
             (if truthy (rq_contactId input) then rq_contactId input = Some (tc_id c)
              else if approvers \<noteq> []
                then tc_canApprove c \<and> (\<forall>d\<in>set approvers. tc_createdAt c \<le> tc_createdAt d)
              else tc_canReceiveAlerts c \<and>
                (\<forall>d\<in>set mine. tc_canReceiveAlerts d \<longrightarrow> tc_createdAt c \<le> tc_createdAt d))))"
proof -
  let ?u = "au_userId (rq_user input)"
  let ?A = "filter (\<lambda>c. tc_userId c = ?u \<and> tc_active c \<and> tc_canApprove c) (contacts w)"
  let ?B = "filter (\<lambda>c. tc_userId c = ?u \<and> tc_active c \<and> tc_canReceiveAlerts c) (contacts w)"
  have min: "c \<in> set xs \<and> (\<forall>d\<in>set xs. tc_createdAt c \<le> tc_createdAt d)"
    if "first_of (order_asc tc_createdAt xs) = Some c" for xs c
    using that by (auto dest: first_of_asc_min first_of_SomeD)
  show ?thesis
  proof (cases "truthy (rq_contactId input)")
    case True
    let ?P = "\<lambda>c. rq_contactId input = Some (tc_id c) \<and> tc_userId c = ?u \<and> tc_active c"
    show ?thesis
    proof (cases "find ?P (contacts w)")
      case None
      then have "\<forall>c\<in>set (contacts w). \<not> ?P c" by (auto simp: find_None_iff)
      with None True show ?thesis
        by (simp add: resolveContact_def run_simps Let_def) blast
    next
      case (Some c)
      with find_SomeD [OF Some] True show ?thesis
        by (simp add: resolveContact_def run_simps Let_def)
    qed
  next
    case False
    show ?thesis
    proof (cases "first_of (order_asc tc_createdAt ?A)")
      case (Some c)
      with False min [OF Some] show ?thesis
        by (auto simp: resolveContact_def run_simps Let_def filter_empty_conv)
    next
      case None
      then have A: "?A = []" by simp
      show ?thesis
      proof (cases "first_of (order_asc tc_createdAt ?B)")
        case None
        then have "?B = []" by simp
        with False A show ?thesis
          by (simp add: resolveContact_def run_simps Let_def) (auto simp: filter_empty_conv)
      next
        case (Some c)
        with False A min [OF Some] show ?thesis
          by (auto simp: resolveContact_def run_simps Let_def filter_empty_conv)
      qed
    qed
  qed
qed

text \<open>
  C21. The one-time token protects nothing from the user who asked: the row that
  \<open>review-request\<close> returns carries it, and the decision route, which is public, accepts it.
  A user whose held event needs a contact's approval can thus approve it without the contact,
  and \<open>hasApprovedReview\<close> then holds for the event.
\<close>

theorem requester_can_approve:
  assumes "resolveContact input w = (Inr (Some c), w)"
    "\<forall>r\<in>set (reviews w). rv_id r \<noteq> rt_uuid rt (db_tick w + 1)"
    "rt_random rt (db_tick w) \<noteq> []"
  shows "runs (http_request_review rt input) w (\<lambda>res w1. \<exists>rv token.
     res = Some rv \<and> rv_token rv = Some token \<and>
     runs (http_decide_review rt None (rv_id rv) APPROVE_AFTER_VERIFICATION None (Some token)) w1
       (\<lambda>rv2 w2. runs (hasApprovedReview (rq_module input) (rq_eventId input)) w2
          (\<lambda>approved _. approved)))"
  unfolding http_request_review_def
proof (rule runs_mono [OF requestReview_opens [OF _ assms(2), of input c]], goal_cases)
  case (1 Q)
  then show ?case using assms(1) by (simp add: runs_def)
next
  case (2 res w1)
  then obtain rv where rv: "res = Some rv" "reviews w1 = reviews w @ [rv]"
    "rv_id rv = rt_uuid rt (db_tick w + 1)" "rv_status rv = RV_PENDING"
    "rv_token rv = Some (rt_random rt (db_tick w))" "rv_triggerModule rv = rq_module input"
    "rv_triggerEventId rv = rq_eventId input" by auto
  let ?id = "rt_uuid rt (Suc (db_tick w))"
  have none: "find (\<lambda>r. rv_id r = ?id) (reviews w) = None"
    using assms(2) by (simp add: find_None_iff)
  have others: "map (\<lambda>r. if rv_id r = ?id then f r else r) (reviews w) = reviews w" for f
    using assms(2) by (simp add: map_idI)
  let ?token = "rt_random rt (db_tick w)"
  let ?args = "\<lparr>dc_decision = APPROVE_AFTER_VERIFICATION, dc_notes = None,
      dc_token = Some ?token, dc_caller = None\<rparr>"
  have approved: "find (approved_for (rq_module input) (rq_eventId input))
      (reviews w @ [record_decision ?args t rv]) \<noteq> None" for t
  proof -
    have "approved_for (rq_module input) (rq_eventId input) (record_decision ?args t rv)"
      using rv by (simp add: approved_for_def record_decision_def)
    then show ?thesis by (simp add: find_append_eq split: option.split)
  qed
  have tok: "token_matches ?args rv" using rv assms(3) by (simp add: token_matches_def truthy_def)
  show ?case
    using rv approved
    by (auto simp: http_decide_review_def request_principal_def decide_review_def run_simps
        find_append_eq none others tok hasApprovedReview_def intro!: runs_append
        dest!: appendedD)
qed

definition demo_contact :: trusted_contact where
  "demo_contact = \<lparr>tc_id = ''c1'', tc_userId = ''u1'', tc_fullName = ''Ann'',
     tc_relationship = None, tc_email = Some ''ann@example.org'', tc_phone = None,
     tc_active = True, tc_canReceiveAlerts = True, tc_canApprove = True, tc_createdAt = 0\<rparr>"

definition demo_reviews :: "review list \<Rightarrow> review_db" where
  "demo_reviews rs = \<lparr>db_tick = 0, evidence_events = [], audit_logs = [], jobs = [],
     ws_events = [], evidence_files = [], export_bundles = [], deliveries = [], alerts = [],
     users = [], contacts = [demo_contact], reviews = rs\<rparr>"

definition demo_request :: request_input where
  "demo_request = \<lparr>rq_user = demo_user, rq_module = M_SCAMHOLD, rq_eventId = ''h1'',
     rq_summary = ''A payment is on hold'', rq_contactId = None, rq_metadata = JUndef\<rparr>"

definition demo_review :: review where
  "demo_review = new_review demo_request ''c1'' ''secret'' ''r1'' 0"

lemma demo_resolves:
  "resolveContact demo_request (demo_reviews rs) = (Inr (Some demo_contact), demo_reviews rs)"
  by (simp add: resolveContact_def prog_defs demo_reviews_def demo_request_def demo_user_def
      demo_contact_def first_of_def order_asc_def truthy_def)

theorem decision_needs_authority_witness:
  "ends (decide_review demo_rt ''r1'' \<lparr>dc_decision = REJECT_HIGH_RISK, dc_notes = None,
       dc_token = Some ''guess'', dc_caller = None\<rparr>) (demo_reviews [demo_review])
     (\<lambda>r w'. (\<exists>x. r = Inl x) \<and> w' = demo_reviews [demo_review])"
  by (rule ends_mono [OF decision_needs_authority])
     (auto simp: demo_reviews_def demo_review_def new_review_def caller_owns_def
       token_matches_def split: sum.splits)

lemma review_contact_choice_witness:
  "runs (resolveContact demo_request) (demo_reviews []) (\<lambda>res w'. w' = demo_reviews [])"
  by (rule runs_mono [OF review_contact_choice]) simp

theorem requester_can_approve_witness:
  "runs (http_request_review demo_rt demo_request) (demo_reviews []) (\<lambda>res w1. \<exists>rv token.
     res = Some rv \<and> rv_token rv = Some token \<and>
     runs (http_decide_review demo_rt None (rv_id rv) APPROVE_AFTER_VERIFICATION None (Some token))
       w1 (\<lambda>rv2 w2. runs (hasApprovedReview M_SCAMHOLD ''h1'') w2 (\<lambda>approved _. approved)))"
proof -
  have "\<forall>r\<in>set (reviews (demo_reviews [])). rv_id r \<noteq> rt_uuid demo_rt (db_tick (demo_reviews []) + 1)"
    "rt_random demo_rt (db_tick (demo_reviews [])) \<noteq> []"
    by (simp_all add: demo_reviews_def demo_rt_def)
  from requester_can_approve [OF demo_resolves this] show ?thesis
    by (simp add: demo_request_def)
qed

end
