(* ===== verification/Protection.thy ===== *)
theory Protection
  imports TrustedReview RiskScoring
begin

text \<open>
  The protection settings, the pure policy engine and the enforcement gate every protection
  module calls before a held action goes through (modules/protection-settings), with the
  unified feed of risk events (modules/risk-events).
\<close>

section \<open>State\<close>

record protection_settings =
  ps_userId :: string
  ps_scamHoldEnabled :: bool
  ps_guardianPauseEnabled :: bool
  ps_giftCardGuardEnabled :: bool
  ps_walletGuardEnabled :: bool
  ps_claimVerifyEnabled :: bool
  ps_scamMirrorEnabled :: bool
  ps_identityGraphEnabled :: bool
  ps_evidenceAutoSaveEnabled :: bool
  ps_trustedContactRequired :: bool
  ps_elderModeStrictLock :: bool
  ps_allowContinueAnyway :: bool
  ps_highRiskAmountThresholdMinor :: int
  ps_guardianPauseDurationSeconds :: int

record user_profile =
  up_userId :: string
  up_ageGroup :: "string option"
  up_preferredLanguage :: string
  up_country :: "string option"
  up_timezone :: "string option"
  up_protectionLevel :: string
  up_defaultTrustedContactId :: "string option"
  up_voiceWarningEnabled :: bool
  up_largeTextWarningEnabled :: bool
  up_accessibilityModeEnabled :: bool

datatype risk_event_status = RE_OPEN | RE_INTERVENING | RE_RESOLVED | RE_DISMISSED

record risk_event =
  re_id :: string
  re_tenantId :: string
  re_userId :: string
  re_sessionId :: "string option"
  re_moduleSource :: risk_module
  re_eventType :: string
  re_riskScore :: int
  re_riskLevel :: risk_level
  re_triggerReason :: string
  re_recommendedAction :: string
  re_detectedSignals :: "string list"
  re_eventStatus :: risk_event_status
  re_metadata :: js

record guard_db = review_db +
  settings :: "protection_settings list"
  profiles :: "user_profile list"
  risk_events :: "risk_event list"

interpretation settings_tab: table settings settings_update
  by unfold_locales simp

interpretation profiles_tab: table profiles profiles_update
  by unfold_locales simp

interpretation risk_events_tab: table risk_events risk_events_update
  by unfold_locales simp

section \<open>Settings and profile\<close>

text \<open>The defaults of the columns.\<close>

definition default_settings :: "string \<Rightarrow> protection_settings" where
  "default_settings userId =
     \<lparr>ps_userId = userId, ps_scamHoldEnabled = True, ps_guardianPauseEnabled = True,
      ps_giftCardGuardEnabled = True, ps_walletGuardEnabled = True,
      ps_claimVerifyEnabled = True, ps_scamMirrorEnabled = True,
      ps_identityGraphEnabled = True, ps_evidenceAutoSaveEnabled = True,
      ps_trustedContactRequired = False, ps_elderModeStrictLock = False,
      ps_allowContinueAnyway = True, ps_highRiskAmountThresholdMinor = 100000,
      ps_guardianPauseDurationSeconds = 30\<rparr>"

definition default_profile :: "string \<Rightarrow> user_profile" where
  "default_profile userId =
     \<lparr>up_userId = userId, up_ageGroup = None, up_preferredLanguage = ''en'',
      up_country = None, up_timezone = None, up_protectionLevel = ''STANDARD'',
      up_defaultTrustedContactId = None, up_voiceWarningEnabled = False,
      up_largeTextWarningEnabled = False, up_accessibilityModeEnabled = False\<rparr>"

definition getSettings :: "auth_user \<Rightarrow> ('a guard_db_scheme, protection_settings) prog" where
  "getSettings user =
     bind_p (find_row settings (\<lambda>s. ps_userId s = au_userId user)) (\<lambda>existing.
     case existing of
       Some s \<Rightarrow> ret s
     | None \<Rightarrow> insert_row settings_update (default_settings (au_userId user)))"

text \<open>A partial update: a field that is not given is left alone.\<close>

record settings_dto =
  sd_scamHoldEnabled :: "bool option"
  sd_guardianPauseEnabled :: "bool option"
  sd_giftCardGuardEnabled :: "bool option"
  sd_walletGuardEnabled :: "bool option"
  sd_claimVerifyEnabled :: "bool option"
  sd_scamMirrorEnabled :: "bool option"
  sd_identityGraphEnabled :: "bool option"
  sd_evidenceAutoSaveEnabled :: "bool option"
  sd_trustedContactRequired :: "bool option"
  sd_elderModeStrictLock :: "bool option"
  sd_allowContinueAnyway :: "bool option"
  sd_highRiskAmountThresholdMinor :: "int option"
  sd_guardianPauseDurationSeconds :: "int option"

definition apply_settings :: "settings_dto \<Rightarrow> protection_settings \<Rightarrow> protection_settings" where
  "apply_settings d s =
     s\<lparr>ps_scamHoldEnabled := or_default (sd_scamHoldEnabled d) (ps_scamHoldEnabled s),
       ps_guardianPauseEnabled := or_default (sd_guardianPauseEnabled d) (ps_guardianPauseEnabled s),
       ps_giftCardGuardEnabled := or_default (sd_giftCardGuardEnabled d) (ps_giftCardGuardEnabled s),
       ps_walletGuardEnabled := or_default (sd_walletGuardEnabled d) (ps_walletGuardEnabled s),
       ps_claimVerifyEnabled := or_default (sd_claimVerifyEnabled d) (ps_claimVerifyEnabled s),
       ps_scamMirrorEnabled := or_default (sd_scamMirrorEnabled d) (ps_scamMirrorEnabled s),
       ps_identityGraphEnabled := or_default (sd_identityGraphEnabled d) (ps_identityGraphEnabled s),
       ps_evidenceAutoSaveEnabled :=
         or_default (sd_evidenceAutoSaveEnabled d) (ps_evidenceAutoSaveEnabled s),
       ps_trustedContactRequired :=
         or_default (sd_trustedContactRequired d) (ps_trustedContactRequired s),
       ps_elderModeStrictLock := or_default (sd_elderModeStrictLock d) (ps_elderModeStrictLock s),
       ps_allowContinueAnyway := or_default (sd_allowContinueAnyway d) (ps_allowContinueAnyway s),
       ps_highRiskAmountThresholdMinor :=
         or_default (sd_highRiskAmountThresholdMinor d) (ps_highRiskAmountThresholdMinor s),
       ps_guardianPauseDurationSeconds :=
         or_default (sd_guardianPauseDurationSeconds d) (ps_guardianPauseDurationSeconds s)\<rparr>"

definition updateSettings ::
    "auth_user \<Rightarrow> settings_dto \<Rightarrow> ('a guard_db_scheme, protection_settings) prog" where
  "updateSettings user dto =
     bind_p (find_row settings (\<lambda>s. ps_userId s = au_userId user)) (\<lambda>existing.
     case existing of
       None \<Rightarrow> insert_row settings_update (apply_settings dto (default_settings (au_userId user)))
     | Some s \<Rightarrow> update_row settings settings_update (\<lambda>s. ps_userId s = au_userId user)
                  (apply_settings dto))"

definition getProfile :: "auth_user \<Rightarrow> ('a guard_db_scheme, user_profile) prog" where
  "getProfile user =
     bind_p (find_row profiles (\<lambda>p. up_userId p = au_userId user)) (\<lambda>existing.
     case existing of
       Some p \<Rightarrow> ret p
     | None \<Rightarrow> insert_row profiles_update (default_profile (au_userId user)))"

record profile_dto =
  pp_ageGroup :: "string option"
  pp_preferredLanguage :: "string option"
  pp_country :: "string option"
  pp_timezone :: "string option"
  pp_protectionLevel :: "string option"
  pp_defaultTrustedContactId :: "string option"
  pp_voiceWarningEnabled :: "bool option"
  pp_largeTextWarningEnabled :: "bool option"
  pp_accessibilityModeEnabled :: "bool option"

definition apply_profile :: "profile_dto \<Rightarrow> user_profile \<Rightarrow> user_profile" where
  "apply_profile d p =
     p\<lparr>up_ageGroup := or_else (pp_ageGroup d) (up_ageGroup p),
       up_preferredLanguage := or_default (pp_preferredLanguage d) (up_preferredLanguage p),
       up_country := or_else (pp_country d) (up_country p),
       up_timezone := or_else (pp_timezone d) (up_timezone p),
       up_protectionLevel := or_default (pp_protectionLevel d) (up_protectionLevel p),
       up_defaultTrustedContactId :=
         or_else (pp_defaultTrustedContactId d) (up_defaultTrustedContactId p),
       up_voiceWarningEnabled := or_default (pp_voiceWarningEnabled d) (up_voiceWarningEnabled p),
       up_largeTextWarningEnabled :=
         or_default (pp_largeTextWarningEnabled d) (up_largeTextWarningEnabled p),
       up_accessibilityModeEnabled :=
         or_default (pp_accessibilityModeEnabled d) (up_accessibilityModeEnabled p)\<rparr>"

definition updateProfile ::
    "auth_user \<Rightarrow> profile_dto \<Rightarrow> ('a guard_db_scheme, user_profile) prog" where
  "updateProfile user dto =
     bind_p (find_row profiles (\<lambda>p. up_userId p = au_userId user)) (\<lambda>existing.
     case existing of
       None \<Rightarrow> insert_row profiles_update (apply_profile dto (default_profile (au_userId user)))
     | Some p \<Rightarrow> update_row profiles profiles_update (\<lambda>p. up_userId p = au_userId user)
                  (apply_profile dto))"

section \<open>The policy engine\<close>

record policy_decision =
  pd_continueAnywayAllowed :: bool
  pd_reviewRequired :: bool
  pd_pauseSeconds :: int
  pd_reasons :: "string list"

record policy_input =
  pi_riskLevel :: risk_level
  pi_amountMinor :: "int option"
  pi_elderMode :: bool

definition over_threshold :: "protection_settings \<Rightarrow> policy_input \<Rightarrow> bool" where
  "over_threshold s i \<longleftrightarrow>
     (case pi_amountMinor i of None \<Rightarrow> False
      | Some a \<Rightarrow> ps_highRiskAmountThresholdMinor s \<le> a)"

definition evaluate_policy :: "protection_settings \<Rightarrow> policy_input \<Rightarrow> policy_decision" where
  "evaluate_policy s i =
     (let critical = (pi_riskLevel i = CRITICAL);
          highOrCritical = (pi_riskLevel i \<in> {HIGH, CRITICAL});
          overThreshold = over_threshold s i;
          elderStrict = (ps_elderModeStrictLock s \<or> pi_elderMode i);
          byContact = (ps_trustedContactRequired s \<and> critical);
          byElder = (ps_elderModeStrictLock s \<and> (critical \<or> highOrCritical \<and> overThreshold));
          required = (byContact \<or> byElder);
          disabled = (\<not> ps_allowContinueAnyway s \<and> highOrCritical);
          locked = (elderStrict \<and> critical)
      in \<lparr>pd_continueAnywayAllowed = (\<not> disabled \<and> \<not> locked \<and> \<not> required),
          pd_reviewRequired = required,
          pd_pauseSeconds = ps_guardianPauseDurationSeconds s,
          pd_reasons =
            (if byContact then [''POLICY_TRUSTED_CONTACT_REQUIRED_ON_CRITICAL''] else []) @
            (if byElder then [''ELDER_STRICT_LOCK_REQUIRES_REVIEW''] else []) @
            (if disabled then [''CONTINUE_ANYWAY_DISABLED_BY_SETTINGS''] else []) @
            (if locked then [''ELDER_STRICT_LOCK_BLOCKS_CONTINUE''] else [])\<rparr>)"

section \<open>The enforcement gate\<close>

datatype decision_kind = CONTINUE | RELEASE | OTHER

fun kind_text :: "decision_kind \<Rightarrow> string" where
  "kind_text CONTINUE = ''CONTINUE''"
| "kind_text RELEASE = ''RELEASE''"
| "kind_text OTHER = ''OTHER''"

record enforce_params =
  en_module :: trigger_module
  en_eventId :: string
  en_riskLevel :: risk_level
  en_amountMinor :: "int option"
  en_kind :: decision_kind

definition evaluate_user ::
    "auth_user \<Rightarrow> risk_level \<Rightarrow> int option \<Rightarrow> ('a guard_db_scheme, policy_decision) prog" where
  "evaluate_user user level amount =
     bind_p (getSettings user) (\<lambda>s.
     bind_p (find_row users (\<lambda>u. us_id u = au_userId user)) (\<lambda>u.
     ret (evaluate_policy s \<lparr>pi_riskLevel = level, pi_amountMinor = amount,
       pi_elderMode = (case u of None \<Rightarrow> False | Some r \<Rightarrow> us_elderModeEnabled r)\<rparr>)))"

text \<open>
  Both records of a blocked override are best effort: a failure to write one is logged and
  swallowed.
\<close>

definition logOverrideBlocked ::
    "runtime \<Rightarrow> auth_user \<Rightarrow> enforce_params \<Rightarrow> policy_decision \<Rightarrow> string \<Rightarrow>
     ('a guard_db_scheme, unit) prog" where
  "logOverrideBlocked rt user p d reason_code =
     seq_p (catch_p (void_p (insert_row audit_logs_update
       \<lparr>al_actorId = Some (au_userId user), al_actorType = Some ''USER'',
        al_action = ''PROTECTION_'' @ reason_code,
        al_targetType = Some (module_text (en_module p)), al_targetId = Some (en_eventId p),
        al_metadata = JObj [(''riskLevel'', JStr (level_text (en_riskLevel p))),
          (''reasons'', JArr (map JStr (pd_reasons d))),
          (''decisionKind'', JStr (kind_text (en_kind p)))]\<rparr>)) (\<lambda>_. ret ()))
     (catch_p (void_p (append_evidence rt
       (user_event (Some (au_tenantId user)) (au_userId user) (module_text (en_module p))
          (en_eventId p) (''PROTECTION_'' @ reason_code)
          (''Blocked '' @ kind_text (en_kind p) @ '' on '' @ level_text (en_riskLevel p) @ '' '' @
             module_text (en_module p) @ '' action ('' @
             (let reasons = join_with '', '' (pd_reasons d) in
              if reasons = [] then ''policy'' else reasons) @ '')'')
          (JObj [(''reasons'', JArr (map JStr (pd_reasons d))),
                 (''riskLevel'', JStr (level_text (en_riskLevel p)))])))) (\<lambda>_. ret ()))"

definition continue_blocked :: "policy_decision \<Rightarrow> exn" where
  "continue_blocked d = ForbiddenException
     (''This action cannot be continued under your protection settings. '' @
      ''A trusted contact must approve it first.'') (pd_reasons d)"

definition release_blocked :: "policy_decision \<Rightarrow> exn" where
  "release_blocked d = ForbiddenException
     ''A trusted contact must approve this action before it can be released.''
     (pd_reasons d @ [''AWAITING_TRUSTED_CONTACT_APPROVAL''])"

definition enforceDecision ::
    "runtime \<Rightarrow> auth_user \<Rightarrow> enforce_params \<Rightarrow> ('a guard_db_scheme, policy_decision) prog" where
  "enforceDecision rt user p =
     bind_p (evaluate_user user (en_riskLevel p) (en_amountMinor p)) (\<lambda>d.
     if en_kind p = CONTINUE \<and> \<not> pd_continueAnywayAllowed d then
       seq_p (logOverrideBlocked rt user p d ''CONTINUE_ANYWAY_BLOCKED'')
             (throw (continue_blocked d))
     else if en_kind p = RELEASE \<and> pd_reviewRequired d then
       bind_p (hasApprovedReview (en_module p) (en_eventId p)) (\<lambda>approved.
       if \<not> approved then
         seq_p (logOverrideBlocked rt user p d ''RELEASE_BLOCKED_NO_APPROVAL'')
               (throw (release_blocked d))
       else ret d)
     else ret d)"

section \<open>The feed of risk events\<close>

record risk_input =
  ri_moduleSource :: risk_module
  ri_sessionId :: "string option"
  ri_eventType :: string
  ri_riskScore :: int
  ri_riskLevel :: risk_level
  ri_triggerReason :: string
  ri_recommendedAction :: string
  ri_detectedSignals :: "string list"
  ri_metadata :: js

definition record_risk ::
    "runtime \<Rightarrow> auth_user \<Rightarrow> risk_input \<Rightarrow> ('a guard_db_scheme, risk_event) prog" where
  "record_risk rt user i =
     bind_p (new_id rt) (\<lambda>uid.
     insert_row risk_events_update
       \<lparr>re_id = uid, re_tenantId = au_tenantId user, re_userId = au_userId user,
        re_sessionId = ri_sessionId i, re_moduleSource = ri_moduleSource i,
        re_eventType = ri_eventType i, re_riskScore = ri_riskScore i,
        re_riskLevel = ri_riskLevel i, re_triggerReason = ri_triggerReason i,
        re_recommendedAction = ri_recommendedAction i,
        re_detectedSignals = ri_detectedSignals i, re_eventStatus = RE_OPEN,
        re_metadata = stored_json (ri_metadata i)\<rparr>)"

section \<open>The log is respected\<close>

lemma getSettings_safe: "moves (log_safe rt) (getSettings user)"
  unfolding getSettings_def by (auto simp: log_untouched intro!: safe_rules split: option.splits)

lemma updateSettings_safe: "moves (log_safe rt) (updateSettings user dto)"
  unfolding updateSettings_def
  by (auto simp: log_untouched intro!: safe_rules split: option.splits)

lemma getProfile_safe: "moves (log_safe rt) (getProfile user)"
  unfolding getProfile_def by (auto simp: log_untouched intro!: safe_rules split: option.splits)

lemma updateProfile_safe: "moves (log_safe rt) (updateProfile user dto)"
  unfolding updateProfile_def
  by (auto simp: log_untouched intro!: safe_rules split: option.splits)

lemma evaluate_user_safe: "moves (log_safe rt) (evaluate_user user l a)"
  unfolding evaluate_user_def by (auto intro!: safe_rules getSettings_safe)

lemma enforceDecision_safe: "moves (log_safe rt) (enforceDecision rt user p)"
  unfolding enforceDecision_def logOverrideBlocked_def hasApprovedReview_def
  by (auto simp: log_untouched intro!: safe_rules append_safe evaluate_user_safe)

lemma record_risk_safe: "moves (log_safe rt) (record_risk rt' user i)"
  unfolding record_risk_def by (auto simp: log_untouched intro!: safe_rules)

section \<open>Properties\<close>

text \<open>The settings and the decision that apply to a user in a state.\<close>

definition settings_of :: "('a guard_db_scheme) \<Rightarrow> auth_user \<Rightarrow> protection_settings" where
  "settings_of w user = or_default (find (\<lambda>s. ps_userId s = au_userId user) (settings w))
     (default_settings (au_userId user))"

definition policy_of :: "('a guard_db_scheme) \<Rightarrow> auth_user \<Rightarrow> risk_level \<Rightarrow> int option \<Rightarrow> policy_decision"
  where
  "policy_of w user level amount = evaluate_policy (settings_of w user)
     \<lparr>pi_riskLevel = level, pi_amountMinor = amount,
      pi_elderMode = (case find (\<lambda>u. us_id u = au_userId user) (users w) of
        None \<Rightarrow> False | Some r \<Rightarrow> us_elderModeEnabled r)\<rparr>"

definition has_approval :: "('a review_db_scheme) \<Rightarrow> trigger_module \<Rightarrow> string \<Rightarrow> bool" where
  "has_approval w m eid \<longleftrightarrow> (\<exists>r\<in>set (reviews w). approved_for m eid r)"

text \<open>The state after the settings were read: the defaults are stored on the first reading.\<close>

definition seeded :: "auth_user \<Rightarrow> ('a guard_db_scheme) \<Rightarrow> ('a guard_db_scheme)" where
  "seeded user w =
     (if find (\<lambda>s. ps_userId s = au_userId user) (settings w) = None
      then settings_update (\<lambda>ss. ss @ [default_settings (au_userId user)]) w else w)"

lemma seeded_untouched [simp]:
  "evidence_events (seeded user w) = evidence_events w" "audit_logs (seeded user w) = audit_logs w"
  "reviews (seeded user w) = reviews w" "db_tick (seeded user w) = db_tick w"
  "ws_events (seeded user w) = ws_events w" "contacts (seeded user w) = contacts w"
  "users (seeded user w) = users w"
  by (simp_all add: seeded_def)

lemma evaluate_user_runs:
  "runs (evaluate_user user level amount) w Q \<longleftrightarrow>
     Q (policy_of w user level amount) (seeded user w)"
  by (simp add: evaluate_user_def getSettings_def run_simps policy_of_def settings_of_def
      seeded_def split: option.split)

lemma hasApprovedReview_runs:
  "runs (hasApprovedReview m eid) w Q \<longleftrightarrow> Q (has_approval w m eid) w"
  by (simp add: hasApprovedReview_def run_simps has_approval_def find_ex)

text \<open>What the gate leaves when it blocks: one entry in each of the two logs, both for the event.\<close>

definition override_logged ::
    "('a guard_db_scheme) \<Rightarrow> ('a guard_db_scheme) \<Rightarrow> auth_user \<Rightarrow> enforce_params \<Rightarrow> string \<Rightarrow> bool"
  where
  "override_logged w w' user p reason_code \<longleftrightarrow>
     (\<exists>a. audit_logs w' = audit_logs w @ [a] \<and> al_action a = ''PROTECTION_'' @ reason_code \<and>
        al_actorId a = Some (au_userId user) \<and> al_targetId a = Some (en_eventId p)) \<and>
     (\<exists>e. evidence_events w' = evidence_events w @ [e] \<and>
        ev_eventType e = ''PROTECTION_'' @ reason_code \<and> ev_entityId e = en_eventId p \<and>
        ev_tenantId e = Some (au_tenantId user))"

lemma log_runs:
  "runs (logOverrideBlocked rt user p d c) w (\<lambda>_ w'.
     override_logged w w' user p c \<and> reviews w' = reviews w \<and> settings w' = settings w)"
  by (auto simp: logOverrideBlocked_def Let_def run_simps runs_catch override_logged_def
      intro!: runs_append dest!: appendedD)

definition gate_blocks :: "('a guard_db_scheme) \<Rightarrow> auth_user \<Rightarrow> enforce_params \<Rightarrow> bool" where
  "gate_blocks w user p \<longleftrightarrow>
     (let d = policy_of w user (en_riskLevel p) (en_amountMinor p) in
      en_kind p = CONTINUE \<and> \<not> pd_continueAnywayAllowed d \<or>
      en_kind p = RELEASE \<and> pd_reviewRequired d \<and>
        \<not> has_approval w (en_module p) (en_eventId p))"

lemma seeded_seen [simp]:
  "has_approval (seeded user' w) m e = has_approval w m e"
  "override_logged (seeded user' w) v user p c = override_logged w v user p c"
  by (simp_all add: has_approval_def override_logged_def)

lemma enforce_blocked:
  assumes "gate_blocks w user p"
  shows "raises (enforceDecision rt user p) w (\<lambda>x w'.
     let d = policy_of w user (en_riskLevel p) (en_amountMinor p) in
     (if en_kind p = CONTINUE
      then x = continue_blocked d \<and> override_logged w w' user p ''CONTINUE_ANYWAY_BLOCKED''
      else x = release_blocked d \<and> override_logged w w' user p ''RELEASE_BLOCKED_NO_APPROVAL'') \<and>
     reviews w' = reviews w)"
  using assms
  by (auto simp: enforceDecision_def gate_blocks_def Let_def run_simps evaluate_user_runs
      hasApprovedReview_runs intro!: runs_mono [OF log_runs] split: if_splits)

lemma enforce_runs [run_simps]:
  "runs (enforceDecision rt user p) w Q \<longleftrightarrow>
     \<not> gate_blocks w user p \<and> Q (policy_of w user (en_riskLevel p) (en_amountMinor p)) (seeded user w)"
  (is "?l \<longleftrightarrow> ?r")
proof (cases "gate_blocks w user p")
  case True
  have "\<not> runs (enforceDecision rt user p) w Q"
    by (rule notI) (rule not_runs_raises [OF _ enforce_blocked [OF True]])
  then show ?thesis using True by simp
next
  case False
  then show ?thesis
    by (auto simp: enforceDecision_def gate_blocks_def Let_def run_simps evaluate_user_runs
        hasApprovedReview_runs)
qed

lemma enforce_passes:
  assumes "\<not> gate_blocks w user p"
  shows "runs (enforceDecision rt user p) w (\<lambda>d w'.
     d = policy_of w user (en_riskLevel p) (en_amountMinor p) \<and> w' = seeded user w)"
  using assms by (simp add: run_simps)

lemma gate_passes_iff:
  "runs (enforceDecision rt user p) w (\<lambda>_ _. True) \<longleftrightarrow> \<not> gate_blocks w user p"
proof
  assume r: "runs (enforceDecision rt user p) w (\<lambda>_ _. True)"
  show "\<not> gate_blocks w user p"
    by (rule notI) (rule not_runs_raises [OF r enforce_blocked])
next
  assume "\<not> gate_blocks w user p"
  from enforce_passes [OF this] show "runs (enforceDecision rt user p) w (\<lambda>_ _. True)"
    by (rule runs_mono) simp
qed

text \<open>
  C7. The gate lets a decision through exactly when the policy computed from the user's
  stored settings (the defaults when there are none) allows it: a continue must be allowed,
  and a release that needs a review must have an approved one for this very module and event.
  A refusal is a 403 with the policy's reasons and leaves exactly one audit entry and one
  evidence event for the held event, and no change to any review; letting through logs nothing.
\<close>

theorem gate_enforces_policy:
  "ends (enforceDecision rt user p) w (\<lambda>r w'.
     let d = policy_of w user (en_riskLevel p) (en_amountMinor p) in
     case r of
       Inr d' \<Rightarrow> d' = d \<and> (en_kind p = CONTINUE \<longrightarrow> pd_continueAnywayAllowed d) \<and>
         (en_kind p = RELEASE \<and> pd_reviewRequired d \<longrightarrow>
            has_approval w (en_module p) (en_eventId p)) \<and>
         evidence_events w' = evidence_events w \<and> audit_logs w' = audit_logs w
     | Inl x \<Rightarrow>
         (en_kind p = CONTINUE \<and> \<not> pd_continueAnywayAllowed d \<and> x = continue_blocked d \<and>
            override_logged w w' user p ''CONTINUE_ANYWAY_BLOCKED'' \<or>
          en_kind p = RELEASE \<and> pd_reviewRequired d \<and>
            \<not> has_approval w (en_module p) (en_eventId p) \<and> x = release_blocked d \<and>
            override_logged w w' user p ''RELEASE_BLOCKED_NO_APPROVAL'') \<and>
         reviews w' = reviews w)"
proof (cases "gate_blocks w user p")
  case True
  show ?thesis
    unfolding ends_iff
  proof (rule disjI2, rule raises_mono [OF enforce_blocked [OF True]], goal_cases)
    case (1 x w')
    with True show ?case
      by (cases "en_kind p") (simp_all add: gate_blocks_def Let_def)
  qed
next
  case False
  show ?thesis
    unfolding ends_iff
  proof (rule disjI1, rule runs_mono [OF enforce_passes [OF False]], goal_cases)
    case (1 d w')
    with False show ?case
      by (cases "en_kind p") (simp_all add: gate_blocks_def Let_def)
  qed
qed

definition demo_guard :: "protection_settings list \<Rightarrow> review list \<Rightarrow> guard_db" where
  "demo_guard ss rs = \<lparr>db_tick = 0, evidence_events = [], audit_logs = [], jobs = [],
     ws_events = [], evidence_files = [], export_bundles = [], deliveries = [], alerts = [],
     users = [], contacts = [demo_contact], reviews = rs, settings = ss, profiles = [],
     risk_events = []\<rparr>"

definition strict_settings :: protection_settings where
  "strict_settings = (default_settings ''u1'')\<lparr>ps_elderModeStrictLock := True\<rparr>"

definition demo_enforce :: "decision_kind \<Rightarrow> enforce_params" where
  "demo_enforce k = \<lparr>en_module = M_SCAMHOLD, en_eventId = ''h1'', en_riskLevel = CRITICAL,
     en_amountMinor = None, en_kind = k\<rparr>"

lemma strict_policy:
  "policy_of (demo_guard [strict_settings] rs) demo_user CRITICAL a =
     \<lparr>pd_continueAnywayAllowed = False, pd_reviewRequired = True, pd_pauseSeconds = 30,
      pd_reasons = [''ELDER_STRICT_LOCK_REQUIRES_REVIEW'', ''ELDER_STRICT_LOCK_BLOCKS_CONTINUE'']\<rparr>"
  by (simp add: policy_of_def settings_of_def demo_guard_def strict_settings_def demo_user_def
      default_settings_def evaluate_policy_def Let_def)

theorem gate_enforces_policy_witness:
  "ends (enforceDecision demo_rt demo_user (demo_enforce RELEASE)) (demo_guard [strict_settings] [])
     (\<lambda>r w'. \<exists>x. r = Inl x)"
  by (rule ends_mono [OF gate_enforces_policy])
     (auto simp: demo_enforce_def strict_policy has_approval_def Let_def
       split: sum.splits, simp add: demo_guard_def)

text \<open>
  The policy is monotone in the risk and blocks nothing below high risk: raising the level
  never turns a forbidden continue into an allowed one nor drops the need for a review, a
  review is needed only where a continue is forbidden, and every refusal of a continue names a
  reason. With the elder strict lock a critical action can neither be continued nor released
  without a review, whatever the other settings.
\<close>

lemma policy_never_relaxes:
  assumes "l \<le> l'"
  shows "let d = evaluate_policy s \<lparr>pi_riskLevel = l, pi_amountMinor = a, pi_elderMode = e\<rparr>;
             d' = evaluate_policy s \<lparr>pi_riskLevel = l', pi_amountMinor = a, pi_elderMode = e\<rparr>
    in (pd_continueAnywayAllowed d' \<longrightarrow> pd_continueAnywayAllowed d) \<and>
       (pd_reviewRequired d \<longrightarrow> pd_reviewRequired d') \<and>
       (l \<le> MEDIUM \<longrightarrow> pd_continueAnywayAllowed d \<and> \<not> pd_reviewRequired d) \<and>
       (pd_reviewRequired d \<longrightarrow> \<not> pd_continueAnywayAllowed d) \<and>
       (\<not> pd_continueAnywayAllowed d \<longleftrightarrow> pd_reasons d \<noteq> []) \<and>
       (ps_elderModeStrictLock s \<and> l = CRITICAL \<longrightarrow>
          pd_reviewRequired d \<and> \<not> pd_continueAnywayAllowed d)"
  using assms
  by (cases l; cases l')
     (simp_all add: evaluate_policy_def Let_def over_threshold_def)

lemma policy_never_relaxes_witness:
  "\<not> pd_continueAnywayAllowed (evaluate_policy strict_settings
     \<lparr>pi_riskLevel = CRITICAL, pi_amountMinor = None, pi_elderMode = False\<rparr>)"
proof -
  have "ps_elderModeStrictLock strict_settings" by (simp add: strict_settings_def)
  then show ?thesis
    using policy_never_relaxes [of CRITICAL CRITICAL strict_settings None False]
    unfolding Let_def by blast
qed

text \<open>
  No approval unlocks a continue: when the policy forbids it, the gate refuses whatever
  reviews there are, although its message says a trusted contact must approve first. An
  approved review unlocks a release only.
\<close>

lemma approval_never_unlocks_continue:
  assumes "\<not> pd_continueAnywayAllowed (policy_of w user (en_riskLevel p) (en_amountMinor p))"
    "en_kind p = CONTINUE"
  shows "raises (enforceDecision rt user p) (w\<lparr>reviews := rs\<rparr>) (\<lambda>x _.
      x = continue_blocked (policy_of w user (en_riskLevel p) (en_amountMinor p)))"
proof -
  have same: "policy_of (w\<lparr>reviews := rs\<rparr>) user l a = policy_of w user l a" for l a
    by (simp add: policy_of_def settings_of_def)
  have "gate_blocks (w\<lparr>reviews := rs\<rparr>) user p"
    using assms by (simp add: gate_blocks_def same Let_def)
  from enforce_blocked [OF this] show ?thesis
    by (rule raises_mono) (simp add: assms(2) same Let_def)
qed

definition approved_review :: review where
  "approved_review = record_decision \<lparr>dc_decision = APPROVE_AFTER_VERIFICATION, dc_notes = None,
     dc_token = None, dc_caller = None\<rparr> 0 demo_review"

lemma approval_never_unlocks_continue_witness:
  "has_approval ((demo_guard [strict_settings] [])\<lparr>reviews := [approved_review]\<rparr>) M_SCAMHOLD ''h1'' \<and>
   raises (enforceDecision demo_rt demo_user (demo_enforce CONTINUE))
     ((demo_guard [strict_settings] [])\<lparr>reviews := [approved_review]\<rparr>) (\<lambda>x _. \<exists>m rs. x = ForbiddenException m rs)"
proof
  show "has_approval ((demo_guard [strict_settings] [])\<lparr>reviews := [approved_review]\<rparr>) M_SCAMHOLD ''h1''"
    by (simp add: has_approval_def approved_for_def approved_review_def record_decision_def
        demo_review_def new_review_def demo_request_def)
  have "\<not> pd_continueAnywayAllowed (policy_of (demo_guard [strict_settings] []) demo_user
      (en_riskLevel (demo_enforce CONTINUE)) (en_amountMinor (demo_enforce CONTINUE)))"
    by (simp add: demo_enforce_def strict_policy)
  from approval_never_unlocks_continue [OF this]
  show "raises (enforceDecision demo_rt demo_user (demo_enforce CONTINUE))
     ((demo_guard [strict_settings] [])\<lparr>reviews := [approved_review]\<rparr>)
     (\<lambda>x _. \<exists>m rs. x = ForbiddenException m rs)"
    by (rule raises_mono) (simp_all add: demo_enforce_def continue_blocked_def)
qed

end
