(* ===== verification/GuardianPause.thy ===== *)
theory GuardianPause
  imports Protection
begin

text \<open>
  Guardian Pause (modules/guardian-pause): a countdown opened before a risky action, by the
  user or by another protection module, and completed once, with the enforcement gate in
  front of continuing anyway.
\<close>

section \<open>State\<close>

record pause_event =
  pe_id :: string
  pe_userId :: string
  pe_tenantId :: "string option"
  pe_riskLevel :: risk_level
  pe_triggerType :: trigger_type
  pe_triggerSummary :: string
  pe_evidenceEventId :: "string option"
  pe_status :: pause_status
  pe_startedAt :: int
  pe_expiresAt :: int
  pe_resolvedAt :: "int option"
  pe_resolutionNotes :: "string option"
  pe_continueAnywayCount :: nat
  pe_metadata :: js

record pause_db = guard_db +
  pauses :: "pause_event list"

interpretation pauses_tab: table pauses pauses_update
  by unfold_locales simp

section \<open>Starting\<close>

record start_pause_dto =
  sp_riskLevel :: risk_level
  sp_triggerType :: trigger_type
  sp_triggerSummary :: string
  sp_durationSeconds :: "int option"
  sp_metadata :: js

definition new_pause :: "auth_user \<Rightarrow> start_pause_dto \<Rightarrow> string \<Rightarrow> int \<Rightarrow> int \<Rightarrow> nat \<Rightarrow> pause_event" where
  "new_pause user dto uid startedAt expiresAt prior =
     \<lparr>pe_id = uid, pe_userId = au_userId user, pe_tenantId = Some (au_tenantId user),
      pe_riskLevel = sp_riskLevel dto, pe_triggerType = sp_triggerType dto,
      pe_triggerSummary = sp_triggerSummary dto, pe_evidenceEventId = None,
      pe_status = PAUSE_ACTIVE, pe_startedAt = startedAt, pe_expiresAt = expiresAt,
      pe_resolvedAt = None, pe_resolutionNotes = None, pe_continueAnywayCount = prior,
      pe_metadata = stored_json (sp_metadata dto)\<rparr>"

definition start_pause ::
    "runtime \<Rightarrow> auth_user \<Rightarrow> start_pause_dto \<Rightarrow> ('a pause_db_scheme, pause_event) prog" where
  "start_pause rt user dto =
     (let durationSeconds = or_default (sp_durationSeconds dto) 30 in
      bind_p (now rt) (\<lambda>t.
      let expiresAt = t + durationSeconds * 1000;
          sevenDaysAgo = t - 7 * 24 * 60 * 60 * 1000
      in
      bind_p (count_rows pauses (\<lambda>p. pe_userId p = au_userId user \<and>
                pe_status p = PAUSE_CONTINUED_ANYWAY \<and> sevenDaysAgo \<le> pe_startedAt p)) (\<lambda>prior.
      bind_p (new_id rt) (\<lambda>uid.
      bind_p (insert_row pauses_update (new_pause user dto uid t expiresAt prior)) (\<lambda>created.
      bind_p (append_evidence rt
        (user_event (Some (au_tenantId user)) (au_userId user) ''GUARDIAN_PAUSE'' (pe_id created)
           ''GUARDIAN_PAUSE_STARTED''
           (''Pause started (trigger='' @ trigger_text (sp_triggerType dto) @ '', risk='' @
              level_text (sp_riskLevel dto) @ '')'')
           (JObj [(''riskLevel'', JStr (level_text (sp_riskLevel dto))),
                  (''triggerType'', JStr (trigger_text (sp_triggerType dto))),
                  (''durationSeconds'', JNum durationSeconds),
                  (''priorContinueCount'', JNum (int prior))]))) (\<lambda>evidence.
      bind_p (update_row pauses pauses_update (\<lambda>p. pe_id p = pe_id created)
                (\<lambda>p. p\<lparr>pe_evidenceEventId := Some (ev_id evidence)\<rparr>)) (\<lambda>linked.
      seq_p (emit (WsPauseCountdown (au_userId user) (pe_id linked) ''STARTED'' durationSeconds))
      (ret linked))))))))"

section \<open>Completing\<close>

datatype pause_resolution = RES_RESOLVED | RES_CONTINUED_ANYWAY | RES_EXPIRED

fun resolution_text :: "pause_resolution \<Rightarrow> string" where
  "resolution_text RES_RESOLVED = ''RESOLVED''"
| "resolution_text RES_CONTINUED_ANYWAY = ''CONTINUED_ANYWAY''"
| "resolution_text RES_EXPIRED = ''EXPIRED''"

fun next_status :: "pause_resolution \<Rightarrow> pause_status" where
  "next_status RES_RESOLVED = PAUSE_RESOLVED"
| "next_status RES_CONTINUED_ANYWAY = PAUSE_CONTINUED_ANYWAY"
| "next_status RES_EXPIRED = PAUSE_EXPIRED"

definition pause_params :: "pause_event \<Rightarrow> enforce_params" where
  "pause_params existing =
     \<lparr>en_module = M_GUARDIAN_PAUSE, en_eventId = pe_id existing,
      en_riskLevel = pe_riskLevel existing, en_amountMinor = None, en_kind = CONTINUE\<rparr>"

definition resolve_pause ::
    "pause_resolution \<Rightarrow> string option \<Rightarrow> int \<Rightarrow> nat \<Rightarrow> pause_event \<Rightarrow> pause_event" where
  "resolve_pause resolution notes t cnt p =
     p\<lparr>pe_status := next_status resolution, pe_resolvedAt := Some t,
       pe_resolutionNotes := notes, pe_continueAnywayCount := cnt\<rparr>"

definition complete_pause ::
    "runtime \<Rightarrow> auth_user \<Rightarrow> string \<Rightarrow> pause_resolution \<Rightarrow> string option \<Rightarrow>
     ('a pause_db_scheme, pause_event) prog" where
  "complete_pause rt user pauseEventId resolution notes =
     bind_p (find_row pauses (\<lambda>p. pe_id p = pauseEventId \<and> pe_userId p = au_userId user)) (\<lambda>found.
     bind_p (require_some found (NotFoundException ''Pause event not found'')) (\<lambda>existing.
     seq_p (ensure (pe_status existing = PAUSE_ACTIVE)
       (BadRequestException (''Pause already in terminal state ('' @
          pause_status_text (pe_status existing) @ '')'')))
     (seq_p (when_p (resolution = RES_CONTINUED_ANYWAY)
       (void_p (enforceDecision rt user (pause_params existing))))
     (let continuedCount = (if resolution = RES_CONTINUED_ANYWAY
            then pe_continueAnywayCount existing + 1 else pe_continueAnywayCount existing)
      in
      bind_p (now rt) (\<lambda>t.
      bind_p (update_row pauses pauses_update (\<lambda>p. pe_id p = pe_id existing)
                (resolve_pause resolution notes t continuedCount)) (\<lambda>updated.
      seq_p (append_evidence rt
        (user_event (Some (au_tenantId user)) (au_userId user) ''GUARDIAN_PAUSE'' (pe_id existing)
           (''GUARDIAN_PAUSE_'' @ pause_status_text (next_status resolution))
           (if resolution = RES_CONTINUED_ANYWAY
            then ''User continued through pause (count='' @ show_nat continuedCount @ '')''
            else ''Pause '' @ to_lower (pause_status_text (next_status resolution)))
           (JObj [(''resolution'', JStr (resolution_text resolution)),
                  (''continueAnywayCount'', JNum (int continuedCount)),
                  (''notes'', opt_str notes)])))
      (seq_p (emit (WsPauseCountdown (au_userId user) (pe_id existing)
                (if next_status resolution = PAUSE_EXPIRED then ''EXPIRED'' else ''RESOLVED'') 0))
      (ret updated))))))))"

definition pause_history :: "auth_user \<Rightarrow> int \<Rightarrow> ('a pause_db_scheme, pause_event list) prog" where
  "pause_history user limit =
     bind_p (find_rows pauses (\<lambda>p. pe_userId p = au_userId user)) (\<lambda>rows.
     ret (take (clamp 1 200 limit) (order_desc pe_startedAt rows)))"

section \<open>The log is respected\<close>

lemma start_pause_safe: "moves (log_safe rt) (start_pause rt user dto)"
  unfolding start_pause_def Let_def by (auto simp: log_untouched intro!: safe_rules append_safe)

lemma complete_pause_safe: "moves (log_safe rt) (complete_pause rt user pid res notes)"
  unfolding complete_pause_def Let_def
  by (auto simp: log_untouched intro!: safe_rules append_safe enforceDecision_safe)

section \<open>What starting a pause does to the other tables\<close>

lemma start_pause_runs:
  assumes "\<forall>p\<in>set (pauses w). pe_id p \<noteq> rt_uuid rt (db_tick w + 1)"
  shows "runs (start_pause rt user dto) w (\<lambda>p w'.
     \<exists>ev. p = (new_pause user dto (rt_uuid rt (db_tick w + 1)) (rt_clock rt (db_tick w))
         (rt_clock rt (db_tick w) + or_default (sp_durationSeconds dto) 30 * 1000)
         (length (filter (\<lambda>p. pe_userId p = au_userId user \<and>
            pe_status p = PAUSE_CONTINUED_ANYWAY \<and>
            rt_clock rt (db_tick w) - 604800000 \<le> pe_startedAt p) (pauses w))))
         \<lparr>pe_evidenceEventId := Some (ev_id ev)\<rparr> \<and>
       pauses w' = pauses w @ [p] \<and> evidence_events w' = evidence_events w @ [ev] \<and>
       ev_tenantId ev = Some (au_tenantId user) \<and> ev_entityId ev = pe_id p \<and>
       ws_events w' = ws_events w @ [WsPauseCountdown (au_userId user) (pe_id p) ''STARTED''
         (or_default (sp_durationSeconds dto) 30)])"
proof -
  have none: "find (\<lambda>p. pe_id p = rt_uuid rt (Suc (db_tick w))) (pauses w) = None"
    using assms by (simp add: find_None_iff)
  have others: "map (\<lambda>p. if pe_id p = rt_uuid rt (Suc (db_tick w)) then f p else p) (pauses w) =
      pauses w" for f
    using assms by (simp add: map_idI)
  show ?thesis
    by (simp add: start_pause_def Let_def run_simps)
       (auto intro!: runs_append simp: run_simps find_append_eq none others new_pause_def
         dest!: appendedD)
qed

section \<open>Properties\<close>

lemma enforce_pauses: "moves (\<lambda>w w'. pauses w' = pauses w) (enforceDecision rt user p)"
  unfolding enforceDecision_def evaluate_user_def getSettings_def logOverrideBlocked_def
    hasApprovedReview_def append_evidence_def Let_def
  by (intro same.moves_rules same.table_moves)
     (auto simp: moves_def draw_defs insert_row_def split: option.split)

lemma seeded_pauses [simp]: "pauses (seeded user w) = pauses w"
  by (simp add: seeded_def)

lemma complete_closed:
  assumes "find (\<lambda>p. pe_id p = pid \<and> pe_userId p = au_userId user) (pauses w) = Some p"
    "pe_status p \<noteq> PAUSE_ACTIVE"
  shows "raises (complete_pause rt user pid res notes) w
    (\<lambda>x w2. (\<exists>m. x = BadRequestException m) \<and> w2 = w)"
  using assms by (simp add: complete_pause_def run_simps)

lemma resolved_closed [simp]:
  "pe_status (resolve_pause res notes t c p) = next_status res"
  "pe_continueAnywayCount (resolve_pause res notes t c p) = c"
  "pe_id (resolve_pause res notes t c p) = pe_id p"
  "pe_userId (resolve_pause res notes t c p) = pe_userId p"
  by (simp_all add: resolve_pause_def)

lemma next_status_terminal [simp]: "next_status res \<noteq> PAUSE_ACTIVE"
  by (cases res) simp_all

lemma complete_blocked:
  assumes "find (\<lambda>p. pe_id p = pid \<and> pe_userId p = au_userId user) (pauses w) = Some p"
    "pe_status p = PAUSE_ACTIVE" "gate_blocks w user (pause_params p)"
  shows "raises (complete_pause rt user pid RES_CONTINUED_ANYWAY notes) w (\<lambda>x w'.
    pauses w' = pauses w)"
proof -
  have "raises (enforceDecision rt user (pause_params p)) w (\<lambda>x w'. pauses w' = pauses w)"
    using enforce_blocked [OF assms(3)] movesD [OF enforce_pauses]
    by (fastforce simp: raises_iff)
  then show ?thesis using assms(1,2) by (simp add: complete_pause_def run_simps)
qed

lemma complete_passes:
  assumes "find (\<lambda>p. pe_id p = pid \<and> pe_userId p = au_userId user) (pauses w) = Some p"
    "pe_status p = PAUSE_ACTIVE" "distinct (map pe_id (pauses w))"
    "res = RES_CONTINUED_ANYWAY \<Longrightarrow> \<not> gate_blocks w user (pause_params p)"
  shows "runs (complete_pause rt user pid res notes) w (\<lambda>p' w'. \<exists>t.
    p' = resolve_pause res notes t (pe_continueAnywayCount p +
           (if res = RES_CONTINUED_ANYWAY then 1 else 0)) p \<and>
    find (\<lambda>p. pe_id p = pid \<and> pe_userId p = au_userId user) (pauses w') = Some p')"
proof -
  have id: "pe_id p = pid" "pe_userId p = au_userId user"
    using find_SomeD [OF assms(1)] by simp_all
  have key: "find (\<lambda>r. pe_id r = pid) (pauses w) = Some p"
    by (rule find_unique [OF assms(3,1)])
  have kept: "find (\<lambda>p. pe_id p = pid \<and> pe_userId p = au_userId user)
      (map (\<lambda>r. if pe_id r = pid then resolve_pause res notes t c r else r) (pauses w)) =
      Some (resolve_pause res notes t c p)" for t c
    by (rule find_mapped_by [OF assms(1)]) (simp_all add: id)
  show ?thesis
    using assms(4)
    by (auto simp: complete_pause_def Let_def run_simps runs_stamped assms(1,2) key id kept)
qed

text \<open>
  A pause is completed at most once, by its owner, and continuing through it needs the
  policy's permission: a completion that returns found the caller's own active pause, for a
  continue the policy allowed it, the stored row is the returned one, with the status of the
  resolution and the continue count grown exactly on a continue; afterwards every further
  completion of the pause by its owner is rejected without effect. A completion that fails
  changes no pause.
\<close>

lemma pause_completed_once:
  assumes "distinct (map pe_id (pauses w))"
  shows "ends (complete_pause rt user pid res notes) w (\<lambda>r w'.
     case r of
       Inl x \<Rightarrow> pauses w' = pauses w
     | Inr p' \<Rightarrow> \<exists>p. find (\<lambda>p. pe_id p = pid \<and> pe_userId p = au_userId user) (pauses w) = Some p \<and>
         find (\<lambda>p. pe_id p = pid \<and> pe_userId p = au_userId user) (pauses w') = Some p' \<and>
         pe_status p = PAUSE_ACTIVE \<and>
         (res = RES_CONTINUED_ANYWAY \<longrightarrow>
            pd_continueAnywayAllowed (policy_of w user (pe_riskLevel p) None)) \<and>
         pe_status p' = next_status res \<and>
         pe_continueAnywayCount p' =
           pe_continueAnywayCount p + (if res = RES_CONTINUED_ANYWAY then 1 else 0) \<and>
         (\<forall>res2 notes2. raises (complete_pause rt user pid res2 notes2) w'
            (\<lambda>x w2. (\<exists>m. x = BadRequestException m) \<and> w2 = w')))"
proof (cases "find (\<lambda>p. pe_id p = pid \<and> pe_userId p = au_userId user) (pauses w)")
  case None
  then show ?thesis by (simp add: ends_iff complete_pause_def run_simps)
next
  case (Some p)
  consider (closed) "pe_status p \<noteq> PAUSE_ACTIVE"
    | (blocked) "pe_status p = PAUSE_ACTIVE" "res = RES_CONTINUED_ANYWAY"
        "gate_blocks w user (pause_params p)"
    | (passes) "pe_status p = PAUSE_ACTIVE"
        "res = RES_CONTINUED_ANYWAY \<longrightarrow> \<not> gate_blocks w user (pause_params p)"
    by blast
  then show ?thesis
  proof cases
    case closed
    show ?thesis
      unfolding ends_iff
      by (rule disjI2, rule raises_mono [OF complete_closed [OF Some closed]]) simp
  next
    case blocked
    show ?thesis
      unfolding ends_iff
      by (rule disjI2, simp add: blocked(2)) (rule complete_blocked [OF Some blocked(1,3)])
  next
    case passes
    have allowed: "res = RES_CONTINUED_ANYWAY \<longrightarrow>
        pd_continueAnywayAllowed (policy_of w user (pe_riskLevel p) None)"
      using passes(2) by (simp add: gate_blocks_def pause_params_def Let_def)
    show ?thesis
      unfolding ends_iff
    proof (rule disjI1, rule runs_mono [OF complete_passes [OF Some passes(1) assms]], goal_cases)
      case 1
      then show ?case using passes(2) by simp
    next
      case (2 p' w')
      then have "raises (complete_pause rt user pid res2 notes2) w'
          (\<lambda>x w2. (\<exists>m. x = BadRequestException m) \<and> w2 = w')" for res2 notes2
        by (intro complete_closed) auto
      with 2 show ?case using Some passes(1) allowed by auto
    qed
  qed
qed

definition demo_pauses :: "risk_level \<Rightarrow> protection_settings list \<Rightarrow> pause_db" where
  "demo_pauses l ss = \<lparr>db_tick = 0, evidence_events = [], audit_logs = [], jobs = [],
     ws_events = [], evidence_files = [], export_bundles = [], deliveries = [], alerts = [],
     users = [], contacts = [demo_contact], reviews = [], settings = ss, profiles = [],
     risk_events = [], pauses = [(new_pause demo_user
       \<lparr>sp_riskLevel = l, sp_triggerType = TR_URGENCY, sp_triggerSummary = ''call'',
        sp_durationSeconds = None, sp_metadata = JUndef\<rparr> ''p1'' 0 30000 2)]\<rparr>"

lemma pause_completed_once_witness:
  "ends (complete_pause demo_rt demo_user ''p1'' RES_CONTINUED_ANYWAY None)
     (demo_pauses CRITICAL [strict_settings])
     (\<lambda>r w'. \<exists>x. r = Inl x \<and> pauses w' = pauses (demo_pauses CRITICAL [strict_settings]))"
proof -
  have d: "distinct (map pe_id (pauses (demo_pauses CRITICAL [strict_settings])))"
    by (simp add: demo_pauses_def)
  have "\<not> pd_continueAnywayAllowed (policy_of (demo_pauses CRITICAL [strict_settings]) demo_user CRITICAL None)"
    by (simp add: policy_of_def settings_of_def demo_pauses_def strict_settings_def demo_user_def
        default_settings_def evaluate_policy_def Let_def)
  moreover have "pe_riskLevel p = CRITICAL" if "find P (pauses (demo_pauses CRITICAL [strict_settings])) = Some p" for P p
    using find_SomeD [OF that] by (simp add: demo_pauses_def new_pause_def)
  ultimately show ?thesis
    by (intro ends_mono [OF pause_completed_once [OF d]]) (fastforce split: sum.splits)
qed

end
