(* ===== verification/HeldAction.thy ===== *)
theory HeldAction
  imports GuardianPause
begin

text \<open>
  What the four modules that hold an action back (ScamHold, GiftCardGuard, WalletGuard and
  ClaimVerify) have in common: the tables their collaborators leave alone, and the contract of
  a decision on a held action. The decision of each module is written out in its own theory;
  here it is a parameter with the steps it takes as the law.
\<close>

section \<open>What the collaborators leave alone\<close>

text \<open>
  A reading of the state that none of the shared services changes: it ignores the clock, the
  logs, the notifications, the reviews, the settings and the risk events.
\<close>

locale untouched =
  fixes f :: "'a guard_db_scheme \<Rightarrow> 'b"
  assumes ignores:
    "f (db_tick_update gt w) = f w" "f (evidence_events_update ge w) = f w"
    "f (audit_logs_update ga w) = f w" "f (jobs_update gj w) = f w"
    "f (ws_events_update gw w) = f w" "f (deliveries_update gd w) = f w"
    "f (alerts_update gl w) = f w" "f (reviews_update gr w) = f w"
    "f (settings_update gs w) = f w" "f (risk_events_update gk w) = f w"
begin

lemma seeded_same: "f (seeded user w) = f w"
  by (simp add: seeded_def ignores)

lemma append_same: "moves (\<lambda>w w'. f w' = f w) (append_evidence rt input)"
  unfolding append_evidence_def Let_def
  by (intro same.moves_rules same.table_moves)
     (simp_all add: moves_def draw_defs insert_row_def ignores split: option.split)

lemma send_same: "moves (\<lambda>w w'. f w' = f w) (send_notification rt i)"
  by (rule unsent.send_same) (unfold_locales, simp_all add: ignores)

lemma fan_out_same: "moves (\<lambda>w w'. f w' = f w) (fanOutNotifications rt c rv s t)"
  unfolding fanOutNotifications_def Let_def by (intro same.moves_rules send_same)

lemma draw_same:
  "moves (\<lambda>w w'. f w' = f w) (now rt)" "moves (\<lambda>w w'. f w' = f w) (new_id rt)"
  "moves (\<lambda>w w'. f w' = f w) (random_token rt)" "moves (\<lambda>w w'. f w' = f w) (emit e)"
  by (simp_all add: moves_def draw_defs modify_p_def ignores)

lemma resolve_same: "moves (\<lambda>w w'. f w' = f w) (resolveContact input)"
  by (simp add: moves_def resolve_state)

lemma request_same: "moves (\<lambda>w w'. f w' = f w) (requestReview rt input)"
  unfolding requestReview_def
  by (intro same.moves_rules same.table_moves append_same fan_out_same draw_same resolve_same)
     (simp_all add: ignores)

lemma enforce_same: "moves (\<lambda>w w'. f w' = f w) (enforceDecision rt user p)"
  unfolding enforceDecision_def evaluate_user_def getSettings_def logOverrideBlocked_def
    hasApprovedReview_def
  by (intro same.moves_rules same.table_moves append_same) (simp_all add: ignores)

lemma record_risk_same: "moves (\<lambda>w w'. f w' = f w) (record_risk rt user i)"
  unfolding record_risk_def
  by (intro same.moves_rules same.table_moves draw_same) (simp_all add: ignores)

end

lemma runs_and_moves:
  "runs m w P \<Longrightarrow> moves R m \<Longrightarrow> runs m w (\<lambda>a w'. P a w' \<and> R w w')"
  by (auto simp: runs_iff moves_def dest: spec [of _ w])

text \<open>A request for a review always returns; it is None exactly when nobody can be asked.\<close>

lemma requestReview_returns: "runs (requestReview rt input) w (\<lambda>_ _. True)"
proof -
  obtain r where r: "resolveContact input w = (Inr r, w)"
    using resolve_state [of input w]
    by (cases "resolveContact input w")
       (auto simp: resolveContact_def prog_defs split: if_splits option.splits)
  then have res: "runs (resolveContact input) w Q \<longleftrightarrow> Q r w" for Q
    by (simp add: runs_def)
  have nid: "rv_id (new_review input c t uid at') = uid" for c t uid at'
    by (simp add: new_review_def)
  have fan: "runs (fanOutNotifications rt c rv s t) v (\<lambda>_ _. True)" for c rv s t v
    using fanOut_reviews by (rule runs_mono) simp
  show ?thesis
    by (auto simp: requestReview_def run_simps runs_stamped res fan nid find_append_eq
        split: option.splits)
qed

context untouched begin

lemma request_then:
  assumes "\<And>res w'. f w' = f w \<Longrightarrow> Q res w'"
  shows "runs (requestReview rt input) w Q"
  by (rule runs_mono [OF runs_and_moves [OF requestReview_returns request_same]])
     (simp add: assms)

end

text \<open>Linking a row to its review keeps what a view of the rows does not show.\<close>

lemma link_keeps_view:
  assumes "\<And>g w. get (upd g w) = g (get w)" "\<And>v q. view (link v q) = view q"
    "find (\<lambda>q. rid q = k) (get w) \<noteq> None"
  shows "runs (case res of None \<Rightarrow> ret ()
      | Some rv \<Rightarrow> void_p (update_row get upd (\<lambda>q. rid q = k) (link rv))) w
    (\<lambda>_ w'. map view (get w') = map view (get w))"
  using assms by (auto simp: run_simps split: option.split)

text \<open>
  No identifier drawn from a state on is among \<open>ids\<close>: a fresh row is then the only one its key
  finds.
\<close>

definition fresh_ids :: "runtime \<Rightarrow> ('a core_db_scheme) \<Rightarrow> string set \<Rightarrow> bool" where
  "fresh_ids rt w ids \<longleftrightarrow> (\<forall>n\<ge>db_tick w. rt_uuid rt n \<notin> ids)"

lemma fresh_pauses:
  "fresh_ids rt w (pe_id ` set (pauses w)) \<Longrightarrow> db_tick w \<le> db_tick v \<Longrightarrow> pauses v = pauses w \<Longrightarrow>
   fresh_ids rt v (pe_id ` set (pauses v))"
  by (auto simp: fresh_ids_def)

lemma fresh_rows:
  assumes "fresh_ids rt w (key ` set rs)" "db_tick w \<le> n"
  shows "find (\<lambda>r. key r = rt_uuid rt n) rs = None"
    "map (\<lambda>r. if key r = rt_uuid rt n then f r else r) rs = rs"
proof -
  have "rt_uuid rt n \<notin> key ` set rs" using assms by (simp add: fresh_ids_def)
  then have *: "r \<in> set rs \<Longrightarrow> key r \<noteq> rt_uuid rt n" for r
    by (metis imageI)
  show "find (\<lambda>r. key r = rt_uuid rt n) rs = None" by (simp add: find_None_iff *)
  show "map (\<lambda>r. if key r = rt_uuid rt n then f r else r) rs = rs" by (rule map_idI) (simp add: *)
qed

section \<open>Opening a pause\<close>

text \<open>The tables of the later layers, which opening a pause leaves alone too.\<close>

locale unpaused = untouched f for f :: "'a pause_db_scheme \<Rightarrow> 'b" +
  assumes ignores_pauses: "f (pauses_update g w) = f w"
begin

lemma start_same: "moves (\<lambda>w w'. f w' = f w) (start_pause rt user dto)"
  unfolding start_pause_def Let_def
  by (intro same.moves_rules same.table_moves append_same draw_same) (simp_all add: ignores_pauses)

end

definition pause_opened ::
    "auth_user \<Rightarrow> start_pause_dto \<Rightarrow> ('a pause_db_scheme) \<Rightarrow> pause_event \<Rightarrow> ('a pause_db_scheme) \<Rightarrow> bool"
  where
  "pause_opened user dto w p w' \<longleftrightarrow>
     pauses w' = pauses w @ [p] \<and> pe_userId p = au_userId user \<and> pe_status p = PAUSE_ACTIVE \<and>
     pe_riskLevel p = sp_riskLevel dto \<and>
     pe_expiresAt p = pe_startedAt p + or_default (sp_durationSeconds dto) 30 * 1000 \<and>
     (\<exists>e. evidence_events w' = evidence_events w @ [e]) \<and> risk_events w' = risk_events w"

lemma start_pause_risk: "moves (\<lambda>w w'. risk_events w' = risk_events w) (start_pause rt user dto)"
  unfolding start_pause_def append_evidence_def Let_def
  by (intro same.moves_rules same.table_moves)
     (simp_all add: moves_def draw_defs modify_p_def insert_row_def split: option.split)

lemma start_pause_opens:
  assumes "fresh_ids rt w (pe_id ` set (pauses w))"
  shows "runs (start_pause rt user dto) w (pause_opened user dto w)"
proof -
  have "rt_uuid rt (db_tick w + 1) \<notin> pe_id ` set (pauses w)"
    using assms by (simp add: fresh_ids_def)
  then have "\<forall>p\<in>set (pauses w). pe_id p \<noteq> rt_uuid rt (db_tick w + 1)" by (metis imageI)
  from runs_and_moves [OF start_pause_runs [OF this] start_pause_risk] show ?thesis
    by (rule runs_mono) (auto simp: pause_opened_def new_pause_def)
qed

context unpaused begin

lemma pause_then:
  assumes "fresh_ids rt w (pe_id ` set (pauses w))"
    "\<And>p w'. pause_opened user dto w p w' \<Longrightarrow> f w' = f w \<Longrightarrow> Q p w'"
  shows "runs (start_pause rt user dto) w Q"
  by (rule runs_mono [OF runs_and_moves [OF start_pause_opens [OF assms(1)] start_same]])
     (simp add: assms(2))

end

section \<open>The contract of a decision\<close>

text \<open>
  \<open>decide\<close> looks a row up by its id and owner, refuses a row that is not pending, asks the
  gate, settles the row and runs its follow-up (the evidence event and, for an escalation, the
  review). The laws: settling keeps the key and closes the row, and the follow-up returns and
  changes neither key nor status of any row.
\<close>

locale held_action =
  fixes get :: "'a guard_db_scheme \<Rightarrow> 'r list"
    and upd :: "('r list \<Rightarrow> 'r list) \<Rightarrow> 'a guard_db_scheme \<Rightarrow> 'a guard_db_scheme"
    and rid :: "'r \<Rightarrow> string"
    and owner :: "'r \<Rightarrow> string"
    and pending :: "'r \<Rightarrow> bool"
    and params :: "'d \<Rightarrow> 'r \<Rightarrow> enforce_params"
    and settle :: "'d \<Rightarrow> string option \<Rightarrow> int \<Rightarrow> 'r \<Rightarrow> 'r"
    and follow :: "runtime \<Rightarrow> auth_user \<Rightarrow> 'd \<Rightarrow> string option \<Rightarrow> 'r \<Rightarrow> ('a guard_db_scheme, unit) prog"
    and missing :: string
    and already :: "'r \<Rightarrow> string"
    and decide :: "runtime \<Rightarrow> auth_user \<Rightarrow> string \<Rightarrow> 'd \<Rightarrow> string option \<Rightarrow> ('a guard_db_scheme, 'r) prog"
  assumes get_upd: "get (upd g w) = g (get w)"
    and get_tick: "get (db_tick_update gt w) = get w"
    and get_seeded: "get (seeded user w) = get w"
    and get_gate: "moves (\<lambda>w w'. get w' = get w) (enforceDecision rt user p)"
    and settled: "rid (settle d n t r) = rid r" "owner (settle d n t r) = owner r"
      "\<not> pending (settle d n t r)"
    and followed: "find (\<lambda>q. rid q = rid r) (get w) \<noteq> None \<Longrightarrow>
      runs (follow rt user d n r) w (\<lambda>_ w'.
        map (\<lambda>q. (rid q, owner q, pending q)) (get w') =
        map (\<lambda>q. (rid q, owner q, pending q)) (get w))"
    and decide_eq: "decide rt user i d n =
      bind_p (find_row get (\<lambda>r. rid r = i \<and> owner r = au_userId user)) (\<lambda>found.
      bind_p (require_some found (NotFoundException missing)) (\<lambda>existing.
      seq_p (ensure (pending existing) (BadRequestException (already existing)))
      (seq_p (enforceDecision rt user (params d existing))
      (bind_p (now rt) (\<lambda>t.
       bind_p (update_row get upd (\<lambda>r. rid r = rid existing) (settle d n t)) (\<lambda>updated.
       seq_p (follow rt user d n existing) (ret updated)))))))"
begin

abbreviation mine :: "string \<Rightarrow> auth_user \<Rightarrow> 'r \<Rightarrow> bool" where
  "mine i user r \<equiv> rid r = i \<and> owner r = au_userId user"

abbreviation view :: "'r \<Rightarrow> string \<times> string \<times> bool" where
  "view r \<equiv> (rid r, owner r, pending r)"

lemma find_viewed:
  "map view ys = map view xs \<Longrightarrow> find (mine i user) xs = Some x \<Longrightarrow>
   \<exists>y. find (mine i user) ys = Some y \<and> pending y = pending x"
proof (induction xs arbitrary: ys)
  case (Cons a xs)
  then obtain b bs where "ys = b # bs" by (cases ys) auto
  with Cons show ?case by (auto split: if_splits)
qed simp

lemma decide_missing:
  assumes "find (mine i user) (get w) = None"
  shows "raises (decide rt user i d n) w (\<lambda>x w'. x = NotFoundException missing \<and> w' = w)"
  using assms by (simp add: decide_eq run_simps)

lemma decide_closed:
  assumes "find (mine i user) (get w) = Some r" "\<not> pending r"
  shows "raises (decide rt user i d n) w (\<lambda>x w'. x = BadRequestException (already r) \<and> w' = w)"
  using assms by (simp add: decide_eq run_simps)

lemma decide_gated:
  assumes "find (mine i user) (get w) = Some r" "pending r" "gate_blocks w user (params d r)"
  shows "raises (decide rt user i d n) w (\<lambda>x w'. (\<exists>m rs. x = ForbiddenException m rs) \<and>
    get w' = get w)"
proof -
  have "raises (enforceDecision rt user (params d r)) w (\<lambda>x w'.
      (\<exists>m rs. x = ForbiddenException m rs) \<and> get w' = get w)"
    using enforce_blocked [OF assms(3)] movesD [OF get_gate]
    by (fastforce simp: raises_iff Let_def continue_blocked_def release_blocked_def split: if_splits)
  then show ?thesis using assms(1,2) by (simp add: decide_eq run_simps)
qed

lemma decide_settles:
  assumes "find (mine i user) (get w) = Some r" "pending r" "distinct (map rid (get w))"
    "\<not> gate_blocks w user (params d r)"
  shows "runs (decide rt user i d n) w (\<lambda>r' w'. (\<exists>t. r' = settle d n t r) \<and>
    (\<exists>q. find (mine i user) (get w') = Some q \<and> \<not> pending q))"
proof -
  have id: "rid r = i" "owner r = au_userId user" using find_SomeD [OF assms(1)] by simp_all
  have key: "find (\<lambda>q. rid q = i) (get w) = Some r"
    by (rule find_unique [OF assms(3,1)])
  let ?rows = "\<lambda>t. map (\<lambda>q. if rid q = i then settle d n t q else q) (get w)"
  have there: "find (\<lambda>q. rid q = i) (?rows t) \<noteq> None" for t
    using find_mapped [OF key, of "settle d n t"] by (simp add: settled)
  have closed: "find (mine i user) (?rows t) = Some (settle d n t r)" for t
    by (rule find_mapped_by [OF assms(1)]) (simp_all add: id settled)
  have rest: "runs (follow rt user d n r) v (\<lambda>_ w'. \<exists>q. find (mine i user) (get w') = Some q \<and> \<not> pending q)"
    if "get v = ?rows t" for v t
  proof (rule runs_mono [OF followed])
    show "find (\<lambda>q. rid q = rid r) (get v) \<noteq> None" using there by (simp add: that id)
    fix u w' assume "map view (get w') = map view (get v)"
    then have "map view (get w') = map view (?rows t)" by (simp add: that)
    from find_viewed [OF this closed]
    show "\<exists>q. find (mine i user) (get w') = Some q \<and> \<not> pending q"
      by (simp add: settled)
  qed
  show ?thesis
    using assms(4)
    by (auto simp: decide_eq run_simps assms(1,2) key id get_seeded get_tick get_upd
        intro!: runs_mono [OF rest])
qed

text \<open>
  The contract: a decision that returns was on the caller's own pending row and passed the
  gate, settles that row once and for all; one that fails leaves every row as it was.
\<close>

lemma decided_once:
  assumes "distinct (map rid (get w))"
  shows "ends (decide rt user i d n) w (\<lambda>r w'.
    case r of
      Inl x \<Rightarrow> get w' = get w
    | Inr r' \<Rightarrow> \<exists>r t. find (mine i user) (get w) = Some r \<and> pending r \<and>
        \<not> gate_blocks w user (params d r) \<and> r' = settle d n t r \<and>
        (\<forall>d2 n2. raises (decide rt user i d2 n2) w'
           (\<lambda>x w2. (\<exists>m. x = BadRequestException m) \<and> w2 = w')))"
proof (cases "find (mine i user) (get w)")
  case None
  show ?thesis
    unfolding ends_iff
    by (rule disjI2, rule raises_mono [OF decide_missing [OF None]]) simp
next
  case (Some r)
  show ?thesis
  proof (cases "pending r")
    case False
    show ?thesis
      unfolding ends_iff
      by (rule disjI2, rule raises_mono [OF decide_closed [OF Some False]]) simp
  next
    case True
    show ?thesis
    proof (cases "gate_blocks w user (params d r)")
      case blocked: True
      show ?thesis
        unfolding ends_iff
        by (rule disjI2, rule raises_mono [OF decide_gated [OF Some True blocked]]) simp
    next
      case False
      show ?thesis
        unfolding ends_iff
      proof (rule disjI1, rule runs_mono [OF decide_settles [OF Some True assms False]], goal_cases)
        case (1 r' w')
        then obtain t q where "r' = settle d n t r" "find (mine i user) (get w') = Some q"
          "\<not> pending q" by blast
        moreover from this(2,3) have "raises (decide rt user i d2 n2) w'
            (\<lambda>x w2. (\<exists>m. x = BadRequestException m) \<and> w2 = w')" for d2 n2
          by (rule raises_mono [OF decide_closed]) simp
        ultimately show ?case using Some True False by auto
      qed
    qed
  qed
qed

text \<open>What a decision that returned leaves: the caller's row, closed.\<close>

lemma decide_leaves_closed:
  assumes "distinct (map rid (get w))" "decide rt user i d n w = (Inr r', w')"
  shows "\<exists>q. find (mine i user) (get w') = Some q \<and> \<not> pending q"
proof -
  have run: "runs (decide rt user i d n) w (\<lambda>r u. r = r' \<and> u = w')"
    using assms(2) by (simp add: runs_eq)
  obtain r where r: "find (mine i user) (get w) = Some r"
    using not_runs_raises [OF run decide_missing] by (cases "find (mine i user) (get w)") auto
  moreover have "pending r"
    using not_runs_raises [OF run decide_closed [OF r]] by auto
  moreover have "\<not> gate_blocks w user (params d r)"
    using not_runs_raises [OF run decide_gated [OF r \<open>pending r\<close>]] by auto
  ultimately show ?thesis
    using decide_settles [OF _ _ assms(1), of i user r d rt n] assms(2) by (auto simp: runs_iff)
qed

end

end
