(* ===== verification/ScamHold.thy ===== *)
theory ScamHold
  imports HeldAction
begin

text \<open>
  ScamHold (modules/scamhold): a risky payment is scored, held as a pending row, put behind a
  Guardian Pause when critical, and decided once by its owner through the enforcement gate.
\<close>

section \<open>State\<close>

record hold_event =
  sh_id :: string
  sh_userId :: string
  sh_tenantId :: "string option"
  sh_transactionType :: transaction_type
  sh_amountMinor :: int
  sh_currency :: string
  sh_recipient :: string
  sh_recipientRisk :: recipient_risk
  sh_urgencyDetected :: bool
  sh_secrecyDetected :: bool
  sh_activeCommunication :: bool
  sh_priorWarningsCount :: nat
  sh_riskScore :: int
  sh_riskLevel :: risk_level
  sh_riskBreakdown :: breakdown
  sh_status :: hold_status
  sh_decidedAt :: "int option"
  sh_decisionNotes :: "string option"
  sh_guardianPauseEventId :: "string option"
  sh_evidenceEventId :: "string option"
  sh_trustedContactReviewId :: "string option"
  sh_metadata :: js
  sh_createdAt :: int

record hold_db = pause_db +
  holds :: "hold_event list"

interpretation holds_tab: table holds holds_update
  by unfold_locales simp

interpretation holds_frame: unpaused holds
  by unfold_locales simp_all

section \<open>Checking a payment\<close>

record check_hold_dto =
  ch_transactionType :: transaction_type
  ch_amountMinor :: int
  ch_currency :: string
  ch_recipient :: string
  ch_recipientRisk :: "recipient_risk option"
  ch_urgencyDetected :: "bool option"
  ch_secrecyDetected :: "bool option"
  ch_activeCommunication :: "bool option"
  ch_metadata :: js

definition score_hold :: "check_hold_dto \<Rightarrow> nat \<Rightarrow> scoring" where
  "score_hold dto priorWarnings = scoreScamHold
     \<lparr>hi_transactionType = ch_transactionType dto, hi_amountMinor = ch_amountMinor dto,
      hi_recipientRisk = Some (or_default (ch_recipientRisk dto) RR_UNKNOWN),
      hi_urgency = or_default (ch_urgencyDetected dto) False,
      hi_secrecy = or_default (ch_secrecyDetected dto) False,
      hi_activeCommunication = or_default (ch_activeCommunication dto) False,
      hi_priorWarnings = int priorWarnings\<rparr>"

definition new_hold ::
    "auth_user \<Rightarrow> check_hold_dto \<Rightarrow> nat \<Rightarrow> scoring \<Rightarrow> string \<Rightarrow> int \<Rightarrow> hold_event" where
  "new_hold user dto priorWarnings scoring uid createdAt =
     \<lparr>sh_id = uid, sh_userId = au_userId user, sh_tenantId = Some (au_tenantId user),
      sh_transactionType = ch_transactionType dto, sh_amountMinor = ch_amountMinor dto,
      sh_currency = ch_currency dto, sh_recipient = ch_recipient dto,
      sh_recipientRisk = or_default (ch_recipientRisk dto) RR_UNKNOWN,
      sh_urgencyDetected = or_default (ch_urgencyDetected dto) False,
      sh_secrecyDetected = or_default (ch_secrecyDetected dto) False,
      sh_activeCommunication = or_default (ch_activeCommunication dto) False,
      sh_priorWarningsCount = priorWarnings, sh_riskScore = sc_score scoring,
      sh_riskLevel = sc_level scoring, sh_riskBreakdown = sc_breakdown scoring,
      sh_status = SH_PENDING, sh_decidedAt = None, sh_decisionNotes = None,
      sh_guardianPauseEventId = None, sh_evidenceEventId = None,
      sh_trustedContactReviewId = None, sh_metadata = stored_json (ch_metadata dto),
      sh_createdAt = createdAt\<rparr>"

definition hold_opened :: "auth_user \<Rightarrow> check_hold_dto \<Rightarrow> scoring \<Rightarrow> string \<Rightarrow> append_input" where
  "hold_opened user dto scoring uid =
     user_event (Some (au_tenantId user)) (au_userId user) ''SCAMHOLD'' uid ''SCAMHOLD_OPENED''
       (''ScamHold opened: '' @ transaction_text (ch_transactionType dto) @ '' '' @
          level_text (sc_level scoring) @ '' (score '' @ show_int (sc_score scoring) @ '')'')
       (JObj [(''riskScore'', JNum (sc_score scoring)),
              (''riskLevel'', JStr (level_text (sc_level scoring))),
              (''breakdown'', breakdown_js (sc_breakdown scoring)),
              (''transactionType'', JStr (transaction_text (ch_transactionType dto)))])"

definition spaced :: "string \<Rightarrow> string" where
  "spaced s = replace_first (CHR ''_'') (CHR '' '') s"

definition hold_pause :: "check_hold_dto \<Rightarrow> string \<Rightarrow> start_pause_dto" where
  "hold_pause dto uid =
     \<lparr>sp_riskLevel = CRITICAL, sp_triggerType = SCAMHOLD_ACTIVE,
      sp_triggerSummary = spaced (transaction_text (ch_transactionType dto)) @
        '' flagged as CRITICAL risk'',
      sp_durationSeconds = Some 120, sp_metadata = JObj [(''scamholdEventId'', JStr uid)]\<rparr>"

definition hold_action :: "risk_level \<Rightarrow> string" where
  "hold_action l =
     (if l = CRITICAL then ''DO_NOT_SEND''
      else if l = HIGH then ''VERIFY_BEFORE_PROCEEDING''
      else ''PROCEED_WITH_CAUTION'')"

definition hold_risk :: "check_hold_dto \<Rightarrow> scoring \<Rightarrow> string \<Rightarrow> string \<Rightarrow> risk_input" where
  "hold_risk dto scoring uid evidenceId =
     \<lparr>ri_moduleSource = RM_SCAMHOLD, ri_sessionId = None, ri_eventType = ''SCAMHOLD_CHECK'',
      ri_riskScore = sc_score scoring, ri_riskLevel = sc_level scoring,
      ri_triggerReason = spaced (transaction_text (ch_transactionType dto)) @ '' flagged as '' @
        level_text (sc_level scoring) @ '' risk'',
      ri_recommendedAction = hold_action (sc_level scoring),
      ri_detectedSignals =
        (if ch_urgencyDetected dto = Some True then [''urgency_detected''] else []) @
        (if ch_secrecyDetected dto = Some True then [''secrecy_detected''] else []) @
        (if ch_activeCommunication dto = Some True then [''active_communication''] else []),
      ri_metadata = JObj [(''scamHoldEventId'', JStr uid), (''evidenceEventId'', JStr evidenceId)]\<rparr>"

definition check_scamhold ::
    "runtime \<Rightarrow> auth_user \<Rightarrow> check_hold_dto \<Rightarrow> ('a hold_db_scheme, hold_event) prog" where
  "check_scamhold rt user dto =
     bind_p (now rt) (\<lambda>t.
     let thirtyDaysAgo = t - 30 * 24 * 60 * 60 * 1000 in
     bind_p (count_rows holds (\<lambda>h. sh_userId h = au_userId user \<and>
               sh_status h = SH_CONTINUE_ANYWAY \<and> thirtyDaysAgo \<le> sh_createdAt h))
       (\<lambda>priorWarnings.
     let scoring = score_hold dto priorWarnings in
     bind_p (new_id rt) (\<lambda>uid.
     bind_p (now rt) (\<lambda>createdAt.
     bind_p (insert_row holds_update (new_hold user dto priorWarnings scoring uid createdAt))
       (\<lambda>created.
     bind_p (append_evidence rt (hold_opened user dto scoring (sh_id created))) (\<lambda>evidence.
     bind_p (if sc_level scoring = CRITICAL
             then bind_p (start_pause rt user (hold_pause dto (sh_id created)))
                    (\<lambda>pause. ret (Some (pe_id pause)))
             else ret None) (\<lambda>guardianPauseId.
     seq_p (record_risk rt user (hold_risk dto scoring (sh_id created) (ev_id evidence)))
     (update_row holds holds_update (\<lambda>h. sh_id h = sh_id created)
       (\<lambda>h. h\<lparr>sh_evidenceEventId := Some (ev_id evidence),
              sh_guardianPauseEventId := guardianPauseId\<rparr>)))))))))"

section \<open>Deciding\<close>

datatype hold_decision =
    HD_RELEASE_AFTER_VERIFICATION | HD_BLOCK | HD_SEND_TO_TRUSTED_CONTACT | HD_SAVE_ONLY
  | HD_CONTINUE_ANYWAY

fun hold_next :: "hold_decision \<Rightarrow> hold_status" where
  "hold_next HD_RELEASE_AFTER_VERIFICATION = SH_RELEASE_AFTER_VERIFICATION"
| "hold_next HD_BLOCK = SH_BLOCK"
| "hold_next HD_SEND_TO_TRUSTED_CONTACT = SH_SEND_TO_TRUSTED_CONTACT"
| "hold_next HD_SAVE_ONLY = SH_SAVE_ONLY"
| "hold_next HD_CONTINUE_ANYWAY = SH_CONTINUE_ANYWAY"

definition hold_kind :: "hold_decision \<Rightarrow> decision_kind" where
  "hold_kind d =
     (if d = HD_CONTINUE_ANYWAY then CONTINUE
      else if d = HD_RELEASE_AFTER_VERIFICATION then RELEASE else OTHER)"

definition hold_params :: "hold_decision \<Rightarrow> hold_event \<Rightarrow> enforce_params" where
  "hold_params d h =
     \<lparr>en_module = M_SCAMHOLD, en_eventId = sh_id h, en_riskLevel = sh_riskLevel h,
      en_amountMinor = Some (sh_amountMinor h), en_kind = hold_kind d\<rparr>"

definition settle_hold :: "hold_decision \<Rightarrow> string option \<Rightarrow> int \<Rightarrow> hold_event \<Rightarrow> hold_event" where
  "settle_hold d notes t h =
     h\<lparr>sh_status := hold_next d, sh_decidedAt := Some t, sh_decisionNotes := notes\<rparr>"

definition hold_decided ::
    "auth_user \<Rightarrow> hold_decision \<Rightarrow> string option \<Rightarrow> hold_event \<Rightarrow> append_input" where
  "hold_decided user d notes h =
     user_event (Some (au_tenantId user)) (au_userId user) ''SCAMHOLD'' (sh_id h)
       (''SCAMHOLD_'' @ hold_status_text (hold_next d))
       (if d = HD_CONTINUE_ANYWAY then ''User pushed past ScamHold warning''
        else ''ScamHold decision: '' @ hold_status_text (hold_next d))
       (JObj [(''decision'', JStr (hold_status_text (hold_next d))), (''notes'', opt_str notes)])"

definition hold_review :: "auth_user \<Rightarrow> hold_event \<Rightarrow> request_input" where
  "hold_review user h =
     \<lparr>rq_user = user, rq_module = M_SCAMHOLD, rq_eventId = sh_id h,
      rq_summary = spaced (transaction_text (sh_transactionType h)) @ '' for '' @
        sh_recipient h @ '' flagged as '' @ level_text (sh_riskLevel h) @ '' risk'',
      rq_contactId = None, rq_metadata = JObj [(''scamHoldEventId'', JStr (sh_id h))]\<rparr>"

text \<open>The evidence event of a decision and, for an escalation, the review it opens.\<close>

definition hold_follow ::
    "runtime \<Rightarrow> auth_user \<Rightarrow> hold_decision \<Rightarrow> string option \<Rightarrow> hold_event \<Rightarrow>
     ('a hold_db_scheme, unit) prog" where
  "hold_follow rt user d notes existing =
     seq_p (append_evidence rt (hold_decided user d notes existing))
     (when_p (d = HD_SEND_TO_TRUSTED_CONTACT)
       (bind_p (requestReview rt (hold_review user existing)) (\<lambda>review.
        case review of
          None \<Rightarrow> ret ()
        | Some rv \<Rightarrow> void_p (update_row holds holds_update (\<lambda>h. sh_id h = sh_id existing)
            (\<lambda>h. h\<lparr>sh_trustedContactReviewId := Some (rv_id rv)\<rparr>)))))"

definition decide_scamhold ::
    "runtime \<Rightarrow> auth_user \<Rightarrow> string \<Rightarrow> hold_decision \<Rightarrow> string option \<Rightarrow>
     ('a hold_db_scheme, hold_event) prog" where
  "decide_scamhold rt user scamHoldEventId d notes =
     bind_p (find_row holds (\<lambda>h. sh_id h = scamHoldEventId \<and> sh_userId h = au_userId user))
       (\<lambda>found.
     bind_p (require_some found (NotFoundException ''ScamHold event not found'')) (\<lambda>existing.
     seq_p (ensure (sh_status existing = SH_PENDING)
       (BadRequestException (''ScamHold already decided ('' @
          hold_status_text (sh_status existing) @ '')'')))
     (seq_p (enforceDecision rt user (hold_params d existing))
     (bind_p (now rt) (\<lambda>t.
      bind_p (update_row holds holds_update (\<lambda>h. sh_id h = sh_id existing)
                (settle_hold d notes t)) (\<lambda>updated.
      seq_p (hold_follow rt user d notes existing) (ret updated)))))))"

definition hold_history :: "auth_user \<Rightarrow> int \<Rightarrow> ('a hold_db_scheme, hold_event list) prog" where
  "hold_history user limit =
     bind_p (find_rows holds (\<lambda>h. sh_userId h = au_userId user)) (\<lambda>rows.
     ret (take (clamp 1 200 limit) (order_desc sh_createdAt rows)))"

section \<open>The log is respected\<close>

lemma score_storable [simp]: "plain (breakdown_js b) \<longleftrightarrow> distinct (map fst b)"
  by (auto simp: breakdown_js_def comp_def)

lemma hold_score_names [simp]: "distinct (map fst (sc_breakdown (score_hold dto n)))"
  by (simp add: score_hold_def scoreScamHold_def score_breakdown_def Let_def)

lemma check_scamhold_safe: "moves (log_safe rt) (check_scamhold rt user dto)"
  unfolding check_scamhold_def Let_def
  by (auto simp: log_untouched hold_opened_def
      intro!: safe_rules append_safe start_pause_safe record_risk_safe)

lemma decide_scamhold_safe: "moves (log_safe rt) (decide_scamhold rt user sid d notes)"
  unfolding decide_scamhold_def hold_follow_def
  by (auto simp: log_untouched hold_decided_def
      intro!: safe_rules append_safe enforceDecision_safe requestReview_safe split: option.splits)

section \<open>Properties\<close>

interpretation scamhold: held_action holds holds_update sh_id sh_userId
  "\<lambda>h. sh_status h = SH_PENDING" hold_params settle_hold hold_follow
  "''ScamHold event not found''"
  "\<lambda>h. ''ScamHold already decided ('' @ hold_status_text (sh_status h) @ '')''" decide_scamhold
proof unfold_locales
  fix d n t and h :: hold_event
  show "sh_id (settle_hold d n t h) = sh_id h" "sh_userId (settle_hold d n t h) = sh_userId h"
    "sh_status (settle_hold d n t h) \<noteq> SH_PENDING"
    by (cases d; simp add: settle_hold_def)+
next
  fix h :: hold_event and w :: "'a hold_db_scheme" and rt user d n
  assume "find (\<lambda>q. sh_id q = sh_id h) (holds w) \<noteq> None"
  then show "runs (hold_follow rt user d n h) w (\<lambda>_ w'.
      map (\<lambda>q. (sh_id q, sh_userId q, sh_status q = SH_PENDING)) (holds w') =
      map (\<lambda>q. (sh_id q, sh_userId q, sh_status q = SH_PENDING)) (holds w))"
    by (auto simp: hold_follow_def run_simps runs_stamped
        intro!: holds_frame.request_then runs_mono [OF link_keeps_view
          [where view = "\<lambda>q. (sh_id q, sh_userId q, sh_status q = SH_PENDING)"]])
qed (simp_all add: holds_frame.seeded_same holds_frame.enforce_same decide_scamhold_def)

lemma hold_fields [simp]:
  "sh_id (new_hold user dto n sc uid t) = uid" "sh_status (new_hold user dto n sc uid t) = SH_PENDING"
  "sh_userId (new_hold user dto n sc uid t) = au_userId user"
  "sh_riskScore (new_hold user dto n sc uid t) = sc_score sc"
  "sh_riskLevel (new_hold user dto n sc uid t) = sc_level sc"
  "sh_guardianPauseEventId (new_hold user dto n sc uid t) = None"
  by (simp_all add: new_hold_def)

lemma hold_payloads [simp]:
  "in_entityId (hold_opened user dto sc uid) = uid"
  "in_eventType (hold_opened user dto sc uid) = ''SCAMHOLD_OPENED''"
  "ri_riskScore (hold_risk dto sc uid e) = sc_score sc"
  "ri_riskLevel (hold_risk dto sc uid e) = sc_level sc"
  "sp_durationSeconds (hold_pause dto uid) = Some 120"
  by (simp_all add: hold_opened_def hold_risk_def hold_pause_def)

text \<open>
  Checking a payment opens one pending row for the caller with the score and level of the
  scorer, on the caller's own overrides of the last thirty days, and links it to the evidence
  event of its opening. A critical payment, and only that, also opens an active pause of 120
  seconds for the caller, linked to the row; and one risk event repeats score and level.
\<close>

lemma check_holds_payment:
  assumes holds: "fresh_ids rt w (sh_id ` set (holds w))"
    and pauses: "fresh_ids rt w (pe_id ` set (pauses w))"
  shows "runs (check_scamhold rt user dto) w (\<lambda>h w'.
    let prior = length (filter (\<lambda>h. sh_userId h = au_userId user \<and>
          sh_status h = SH_CONTINUE_ANYWAY \<and>
          rt_clock rt (db_tick w) - 2592000000 \<le> sh_createdAt h) (holds w));
        scoring = score_hold dto prior
    in holds w' = holds w @ [h] \<and> sh_userId h = au_userId user \<and> sh_status h = SH_PENDING \<and>
       sh_riskScore h = sc_score scoring \<and> sh_riskLevel h = sc_level scoring \<and>
       (\<exists>e es. evidence_events w' = evidence_events w @ e # es \<and>
          sh_evidenceEventId h = Some (ev_id e) \<and> ev_entityId e = sh_id h \<and>
          ev_eventType e = ''SCAMHOLD_OPENED'') \<and>
       (if sh_riskLevel h = CRITICAL
        then \<exists>p. pauses w' = pauses w @ [p] \<and> sh_guardianPauseEventId h = Some (pe_id p) \<and>
          pe_userId p = au_userId user \<and> pe_status p = PAUSE_ACTIVE \<and>
          pe_expiresAt p = pe_startedAt p + 120000
        else pauses w' = pauses w \<and> sh_guardianPauseEventId h = None) \<and>
       (\<exists>r. risk_events w' = risk_events w @ [r] \<and> re_userId r = au_userId user \<and>
          re_riskScore r = sh_riskScore h \<and> re_riskLevel r = sh_riskLevel h))"
proof -
  define n where "n = length (filter (\<lambda>h. sh_userId h = au_userId user \<and>
      sh_status h = SH_CONTINUE_ANYWAY \<and>
      rt_clock rt (db_tick w) - 2592000000 \<le> sh_createdAt h) (holds w))"
  note eqs = check_scamhold_def Let_def run_simps runs_stamped n_def [symmetric]
    record_risk_def find_append_eq fresh_rows [OF holds]
  show ?thesis
  proof (cases "sc_level (score_hold dto n) = CRITICAL")
    case True
    then show ?thesis
      by (simp add: eqs)
         (rule holds_frame.pause_then, rule fresh_pauses [OF pauses], simp_all,
          auto simp: eqs pause_opened_def)
  next
    case False
    then show ?thesis by (simp add: eqs)
  qed
qed

definition demo_holds :: "protection_settings list \<Rightarrow> review list \<Rightarrow> hold_event list \<Rightarrow> hold_db" where
  "demo_holds ss rs hs = \<lparr>db_tick = 0, evidence_events = [], audit_logs = [], jobs = [],
     ws_events = [], evidence_files = [], export_bundles = [], deliveries = [], alerts = [],
     users = [], contacts = [demo_contact], reviews = rs, settings = ss, profiles = [],
     risk_events = [], pauses = [], holds = hs\<rparr>"

definition demo_check :: check_hold_dto where
  "demo_check = \<lparr>ch_transactionType = TX_CRYPTO, ch_amountMinor = 900000, ch_currency = ''USD'',
     ch_recipient = ''bc1q'', ch_recipientRisk = Some RR_KNOWN_RISKY,
     ch_urgencyDetected = Some True, ch_secrecyDetected = Some True,
     ch_activeCommunication = None, ch_metadata = JUndef\<rparr>"

definition demo_hold :: hold_event where
  "demo_hold = new_hold demo_user demo_check 0 (score_hold demo_check 0) ''h1'' 0"

lemma demo_critical: "sc_level (score_hold demo_check n) = CRITICAL"
  by (simp add: score_hold_def demo_check_def scoreScamHold_def score_breakdown_def Let_def
      amountScore_def points_if_def prior_points_def clamp_score_def scoreToLevel_def)

lemma check_holds_payment_witness:
  "runs (check_scamhold demo_rt demo_user demo_check) (demo_holds [] [] [])
     (\<lambda>h w'. holds w' = [h] \<and> (\<exists>p. pauses w' = [p] \<and> sh_guardianPauseEventId h = Some (pe_id p)))"
proof -
  have "fresh_ids demo_rt (demo_holds [] [] []) (sh_id ` set (holds (demo_holds [] [] [])))"
    "fresh_ids demo_rt (demo_holds [] [] []) (pe_id ` set (pauses (demo_holds [] [] [])))"
    by (simp_all add: fresh_ids_def demo_holds_def)
  from check_holds_payment [OF this, of demo_user demo_check] show ?thesis
    by (rule runs_mono) (auto simp: Let_def demo_critical demo_holds_def)
qed

text \<open>
  A hold is decided at most once, by its owner, through the gate: a decision that returns
  found the caller's own pending hold, a continue was allowed by the policy for its level and
  amount, a release that the policy wants reviewed had an approved review for this very hold,
  and from then on every decision of the owner on it is rejected without effect. A decision
  that fails changes no hold.
\<close>

lemma hold_decided_once:
  assumes "distinct (map sh_id (holds w))"
  shows "ends (decide_scamhold rt user sid d notes) w (\<lambda>r w'.
    case r of
      Inl x \<Rightarrow> holds w' = holds w
    | Inr h' \<Rightarrow> \<exists>h. find (\<lambda>h. sh_id h = sid \<and> sh_userId h = au_userId user) (holds w) = Some h \<and>
        sh_status h = SH_PENDING \<and> sh_status h' = hold_next d \<and>
        (let p = policy_of w user (sh_riskLevel h) (Some (sh_amountMinor h)) in
         (d = HD_CONTINUE_ANYWAY \<longrightarrow> pd_continueAnywayAllowed p) \<and>
         (d = HD_RELEASE_AFTER_VERIFICATION \<and> pd_reviewRequired p \<longrightarrow>
            has_approval w M_SCAMHOLD sid)) \<and>
        (\<forall>d2 n2. raises (decide_scamhold rt user sid d2 n2) w'
           (\<lambda>x w2. (\<exists>m. x = BadRequestException m) \<and> w2 = w')))"
proof (rule ends_mono [OF scamhold.decided_once [OF assms]], goal_cases)
  case (1 r w')
  then show ?case
    by (cases r)
       (auto simp: settle_hold_def gate_blocks_def hold_params_def hold_kind_def Let_def
         dest: find_SomeD)
qed

lemma hold_decided_once_witness:
  "ends (decide_scamhold demo_rt demo_user ''h1'' HD_CONTINUE_ANYWAY None)
     (demo_holds [strict_settings] [] [demo_hold])
     (\<lambda>r w'. \<exists>x. r = Inl x \<and> holds w' = [demo_hold])"
proof -
  have d: "distinct (map sh_id (holds (demo_holds [strict_settings] [] [demo_hold])))"
    by (simp add: demo_holds_def)
  have "\<not> pd_continueAnywayAllowed (policy_of (demo_holds [strict_settings] [] [demo_hold]) demo_user CRITICAL a)" for a
    by (simp add: policy_of_def settings_of_def demo_holds_def strict_settings_def demo_user_def
        default_settings_def evaluate_policy_def Let_def)
  moreover have "sh_riskLevel h = CRITICAL"
    if "find P (holds (demo_holds [strict_settings] [] [demo_hold])) = Some h" for P h
    using find_SomeD [OF that] by (simp add: demo_holds_def demo_hold_def demo_critical)
  moreover have "holds (demo_holds [strict_settings] [] [demo_hold]) = [demo_hold]"
    by (simp add: demo_holds_def)
  ultimately show ?thesis
    by (intro ends_mono [OF hold_decided_once [OF d]]) (fastforce simp: Let_def split: sum.splits)
qed

text \<open>
  C31. Sending a hold to the trusted contact ends it: whatever the contact then decides (any
  reviews at all, an approval for this hold included), the owner's later release of the hold
  is rejected as already decided, so the approval the escalation asked for is never used.
\<close>

theorem escalated_never_released:
  assumes "distinct (map sh_id (holds w))"
    "decide_scamhold rt user sid HD_SEND_TO_TRUSTED_CONTACT notes w = (Inr h, w')"
  shows "raises (decide_scamhold rt2 user sid HD_RELEASE_AFTER_VERIFICATION n2) (w'\<lparr>reviews := rs\<rparr>)
    (\<lambda>x w2. (\<exists>m. x = BadRequestException m) \<and> w2 = w'\<lparr>reviews := rs\<rparr>)"
proof -
  obtain q where "find (\<lambda>h. sh_id h = sid \<and> sh_userId h = au_userId user) (holds w') = Some q"
    "sh_status q \<noteq> SH_PENDING"
    using scamhold.decide_leaves_closed [OF assms] by auto
  then show ?thesis
    by (intro raises_mono [OF scamhold.decide_closed [of sid user "w'\<lparr>reviews := rs\<rparr>" q]]) simp_all
qed

lemma demo_escalates:
  "\<exists>h w'. decide_scamhold demo_rt demo_user ''h1'' HD_SEND_TO_TRUSTED_CONTACT None
     (demo_holds [strict_settings] [] [demo_hold]) = (Inr h, w')"
proof -
  let ?w = "demo_holds [strict_settings] [] [demo_hold]"
  have f: "find (\<lambda>h. sh_id h = ''h1'' \<and> sh_userId h = au_userId demo_user) (holds ?w) = Some demo_hold"
    by (simp add: demo_holds_def demo_hold_def)
  have "distinct (map sh_id (holds ?w))" by (simp add: demo_holds_def)
  moreover have "\<not> gate_blocks ?w demo_user (hold_params HD_SEND_TO_TRUSTED_CONTACT demo_hold)"
    by (simp add: gate_blocks_def hold_params_def hold_kind_def Let_def)
  moreover have "sh_status demo_hold = SH_PENDING" by (simp add: demo_hold_def)
  ultimately show ?thesis
    using scamhold.decide_settles [OF f, of HD_SEND_TO_TRUSTED_CONTACT demo_rt None]
    by (auto simp: runs_iff)
qed

theorem escalated_never_released_witness:
  "\<exists>w'. has_approval (w' :: hold_db) M_SCAMHOLD ''h1'' \<and>
     raises (decide_scamhold demo_rt demo_user ''h1'' HD_RELEASE_AFTER_VERIFICATION None) w'
       (\<lambda>x w2. \<exists>m. x = BadRequestException m)"
proof -
  obtain h w' where run: "decide_scamhold demo_rt demo_user ''h1'' HD_SEND_TO_TRUSTED_CONTACT None
     (demo_holds [strict_settings] [] [demo_hold]) = (Inr h, w')"
    using demo_escalates by blast
  have "distinct (map sh_id (holds (demo_holds [strict_settings] [] [demo_hold])))"
    by (simp add: demo_holds_def)
  from escalated_never_released [OF this run]
  have "raises (decide_scamhold demo_rt demo_user ''h1'' HD_RELEASE_AFTER_VERIFICATION None)
      (w'\<lparr>reviews := [approved_review]\<rparr>) (\<lambda>x w2. \<exists>m. x = BadRequestException m)"
    by (rule raises_mono) simp
  moreover have "has_approval (w'\<lparr>reviews := [approved_review]\<rparr>) M_SCAMHOLD ''h1''"
    by (simp add: has_approval_def approved_for_def approved_review_def record_decision_def
        demo_review_def new_review_def demo_request_def)
  ultimately show ?thesis by blast
qed

end
