(* ===== verification/GiftCardGuard.thy ===== *)
theory GiftCardGuard
  imports ScamHold
begin

text \<open>
  GiftCardGuard (modules/giftcardguard): a request for a gift card is scored and kept as a
  pending warning, behind a Guardian Pause from high risk on, and resolved once by its owner.
\<close>

section \<open>State\<close>

record card_warning =
  gw_id :: string
  gw_userId :: string
  gw_tenantId :: "string option"
  gw_cardBrand :: "string option"
  gw_denominationMinor :: "int option"
  gw_currency :: string
  gw_codeRevealRequested :: bool
  gw_photoOfCodeRequested :: bool
  gw_impersonationType :: impersonation
  gw_urgencyDetected :: bool
  gw_secrecyDetected :: bool
  gw_elderModeActive :: bool
  gw_priorWarningsCount :: nat
  gw_riskScore :: int
  gw_riskLevel :: risk_level
  gw_riskBreakdown :: breakdown
  gw_decision :: giftcard_decision
  gw_decidedAt :: "int option"
  gw_decisionNotes :: "string option"
  gw_guardianPauseEventId :: "string option"
  gw_evidenceEventId :: "string option"
  gw_trustedContactReviewId :: "string option"
  gw_metadata :: js
  gw_createdAt :: int

record giftcard_db = hold_db +
  warnings :: "card_warning list"

interpretation warnings_tab: table warnings warnings_update
  by unfold_locales simp

interpretation warnings_frame: unpaused warnings
  by unfold_locales simp_all

section \<open>Scanning a request\<close>

record scan_card_dto =
  sg_cardBrand :: "string option"
  sg_denominationMinor :: "int option"
  sg_currency :: "string option"
  sg_codeRevealRequested :: "bool option"
  sg_photoOfCodeRequested :: "bool option"
  sg_impersonationType :: "impersonation option"
  sg_urgencyDetected :: "bool option"
  sg_secrecyDetected :: "bool option"
  sg_elderModeActive :: "bool option"
  sg_metadata :: js

definition score_card :: "scan_card_dto \<Rightarrow> nat \<Rightarrow> scoring" where
  "score_card dto priorWarnings = scoreGiftCardGuard
     \<lparr>gi_codeReveal = or_default (sg_codeRevealRequested dto) False,
      gi_photoOfCode = or_default (sg_photoOfCodeRequested dto) False,
      gi_impersonation = sg_impersonationType dto,
      gi_urgency = or_default (sg_urgencyDetected dto) False,
      gi_secrecy = or_default (sg_secrecyDetected dto) False,
      gi_elderMode = or_default (sg_elderModeActive dto) False,
      gi_priorWarnings = int priorWarnings\<rparr>"

definition new_warning ::
    "auth_user \<Rightarrow> scan_card_dto \<Rightarrow> nat \<Rightarrow> scoring \<Rightarrow> string \<Rightarrow> int \<Rightarrow> card_warning" where
  "new_warning user dto priorWarnings scoring uid createdAt =
     \<lparr>gw_id = uid, gw_userId = au_userId user, gw_tenantId = Some (au_tenantId user),
      gw_cardBrand = sg_cardBrand dto, gw_denominationMinor = sg_denominationMinor dto,
      gw_currency = or_default (sg_currency dto) ''USD'',
      gw_codeRevealRequested = or_default (sg_codeRevealRequested dto) False,
      gw_photoOfCodeRequested = or_default (sg_photoOfCodeRequested dto) False,
      gw_impersonationType = or_default (sg_impersonationType dto) IM_NONE,
      gw_urgencyDetected = or_default (sg_urgencyDetected dto) False,
      gw_secrecyDetected = or_default (sg_secrecyDetected dto) False,
      gw_elderModeActive = or_default (sg_elderModeActive dto) False,
      gw_priorWarningsCount = priorWarnings, gw_riskScore = sc_score scoring,
      gw_riskLevel = sc_level scoring, gw_riskBreakdown = sc_breakdown scoring,
      gw_decision = GC_PENDING, gw_decidedAt = None, gw_decisionNotes = None,
      gw_guardianPauseEventId = None, gw_evidenceEventId = None,
      gw_trustedContactReviewId = None, gw_metadata = stored_json (sg_metadata dto),
      gw_createdAt = createdAt\<rparr>"

definition card_opened :: "auth_user \<Rightarrow> scan_card_dto \<Rightarrow> scoring \<Rightarrow> string \<Rightarrow> append_input" where
  "card_opened user dto scoring uid =
     user_event (Some (au_tenantId user)) (au_userId user) ''GIFTCARD_WARNING'' uid
       ''GIFTCARD_WARNING_OPENED''
       (''GiftCardGuard scan: '' @ level_text (sc_level scoring) @ '' (score '' @
          show_int (sc_score scoring) @ '')'')
       (JObj [(''riskScore'', JNum (sc_score scoring)),
              (''riskLevel'', JStr (level_text (sc_level scoring))),
              (''breakdown'', breakdown_js (sc_breakdown scoring)),
              (''cardBrand'', opt_str (sg_cardBrand dto))])"

definition card_pause :: "scan_card_dto \<Rightarrow> risk_level \<Rightarrow> string \<Rightarrow> start_pause_dto" where
  "card_pause dto l uid =
     \<lparr>sp_riskLevel = (if l = CRITICAL then CRITICAL else HIGH), sp_triggerType = GIFT_CARD_REVEAL,
      sp_triggerSummary = (case sg_impersonationType dto of
          None \<Rightarrow> ''Gift card request flagged as high-risk''
        | Some im \<Rightarrow> if im = IM_NONE then ''Gift card request flagged as high-risk''
            else ''Gift card requested by someone claiming '' @
              spaced (to_lower (impersonation_text im))),
      sp_durationSeconds = Some 90, sp_metadata = JObj [(''giftCardWarningId'', JStr uid)]\<rparr>"

definition proceed_action :: "risk_level \<Rightarrow> string" where
  "proceed_action l =
     (if l = CRITICAL then ''DO_NOT_PROCEED''
      else if l = HIGH then ''VERIFY_BEFORE_PROCEEDING''
      else ''PROCEED_WITH_CAUTION'')"

definition card_risk :: "scoring \<Rightarrow> string \<Rightarrow> string \<Rightarrow> risk_input" where
  "card_risk scoring uid evidenceId =
     \<lparr>ri_moduleSource = RM_GIFTCARDGUARD, ri_sessionId = None,
      ri_eventType = ''GIFTCARDGUARD_SCAN'', ri_riskScore = sc_score scoring,
      ri_riskLevel = sc_level scoring,
      ri_triggerReason = ''Gift card request flagged as '' @ level_text (sc_level scoring) @ '' risk'',
      ri_recommendedAction = proceed_action (sc_level scoring), ri_detectedSignals = [],
      ri_metadata = JObj [(''giftCardWarningId'', JStr uid), (''evidenceEventId'', JStr evidenceId)]\<rparr>"

definition scan_giftcard ::
    "runtime \<Rightarrow> auth_user \<Rightarrow> scan_card_dto \<Rightarrow> ('a giftcard_db_scheme, card_warning) prog" where
  "scan_giftcard rt user dto =
     bind_p (now rt) (\<lambda>t.
     let thirtyDaysAgo = t - 30 * 24 * 60 * 60 * 1000 in
     bind_p (count_rows warnings (\<lambda>g. gw_userId g = au_userId user \<and>
               gw_decision g = GC_CONTINUED_ANYWAY \<and> thirtyDaysAgo \<le> gw_createdAt g))
       (\<lambda>priorWarnings.
     let scoring = score_card dto priorWarnings in
     bind_p (new_id rt) (\<lambda>uid.
     bind_p (now rt) (\<lambda>createdAt.
     bind_p (insert_row warnings_update (new_warning user dto priorWarnings scoring uid createdAt))
       (\<lambda>created.
     bind_p (append_evidence rt (card_opened user dto scoring (gw_id created))) (\<lambda>evidence.
     bind_p (if sc_level scoring = HIGH \<or> sc_level scoring = CRITICAL
             then bind_p (start_pause rt user (card_pause dto (sc_level scoring) (gw_id created)))
                    (\<lambda>pause. ret (Some (pe_id pause)))
             else ret None) (\<lambda>guardianPauseId.
     seq_p (record_risk rt user (card_risk scoring (gw_id created) (ev_id evidence)))
     (update_row warnings warnings_update (\<lambda>g. gw_id g = gw_id created)
       (\<lambda>g. g\<lparr>gw_evidenceEventId := Some (ev_id evidence),
              gw_guardianPauseEventId := guardianPauseId\<rparr>)))))))))"

section \<open>Deciding\<close>

datatype card_decision = CW_AVOIDED | CW_CONTINUED_ANYWAY | CW_ESCALATED_TO_TRUSTED_CONTACT

fun card_next :: "card_decision \<Rightarrow> giftcard_decision" where
  "card_next CW_AVOIDED = GC_AVOIDED"
| "card_next CW_CONTINUED_ANYWAY = GC_CONTINUED_ANYWAY"
| "card_next CW_ESCALATED_TO_TRUSTED_CONTACT = GC_ESCALATED_TO_TRUSTED_CONTACT"

definition card_params :: "card_decision \<Rightarrow> card_warning \<Rightarrow> enforce_params" where
  "card_params d g =
     \<lparr>en_module = M_GIFTCARDGUARD, en_eventId = gw_id g, en_riskLevel = gw_riskLevel g,
      en_amountMinor = gw_denominationMinor g,
      en_kind = (if d = CW_CONTINUED_ANYWAY then CONTINUE else OTHER)\<rparr>"

definition settle_card :: "card_decision \<Rightarrow> string option \<Rightarrow> int \<Rightarrow> card_warning \<Rightarrow> card_warning" where
  "settle_card d notes t g =
     g\<lparr>gw_decision := card_next d, gw_decidedAt := Some t, gw_decisionNotes := notes\<rparr>"

definition card_decided ::
    "auth_user \<Rightarrow> card_decision \<Rightarrow> string option \<Rightarrow> card_warning \<Rightarrow> append_input" where
  "card_decided user d notes g =
     user_event (Some (au_tenantId user)) (au_userId user) ''GIFTCARD_WARNING'' (gw_id g)
       (''GIFTCARD_WARNING_'' @ giftcard_decision_text (card_next d))
       (if d = CW_CONTINUED_ANYWAY then ''User continued past gift-card warning''
        else ''Gift-card warning resolved: '' @ giftcard_decision_text (card_next d))
       (JObj [(''decision'', JStr (giftcard_decision_text (card_next d))),
              (''notes'', opt_str notes)])"

definition card_review :: "auth_user \<Rightarrow> card_warning \<Rightarrow> request_input" where
  "card_review user g =
     \<lparr>rq_user = user, rq_module = M_GIFTCARDGUARD, rq_eventId = gw_id g,
      rq_summary = (if gw_impersonationType g \<noteq> IM_NONE
        then ''Someone claiming '' @ spaced (to_lower (impersonation_text (gw_impersonationType g))) @
          '' is asking for a gift card''
        else ''Gift card request flagged as '' @ level_text (gw_riskLevel g) @ '' risk''),
      rq_contactId = None, rq_metadata = JObj [(''giftCardWarningId'', JStr (gw_id g))]\<rparr>"

definition card_follow ::
    "runtime \<Rightarrow> auth_user \<Rightarrow> card_decision \<Rightarrow> string option \<Rightarrow> card_warning \<Rightarrow>
     ('a giftcard_db_scheme, unit) prog" where
  "card_follow rt user d notes existing =
     seq_p (append_evidence rt (card_decided user d notes existing))
     (when_p (d = CW_ESCALATED_TO_TRUSTED_CONTACT)
       (bind_p (requestReview rt (card_review user existing)) (\<lambda>review.
        case review of
          None \<Rightarrow> ret ()
        | Some rv \<Rightarrow> void_p (update_row warnings warnings_update (\<lambda>g. gw_id g = gw_id existing)
            (\<lambda>g. g\<lparr>gw_trustedContactReviewId := Some (rv_id rv)\<rparr>)))))"

definition decide_giftcard ::
    "runtime \<Rightarrow> auth_user \<Rightarrow> string \<Rightarrow> card_decision \<Rightarrow> string option \<Rightarrow>
     ('a giftcard_db_scheme, card_warning) prog" where
  "decide_giftcard rt user warningId d notes =
     bind_p (find_row warnings (\<lambda>g. gw_id g = warningId \<and> gw_userId g = au_userId user)) (\<lambda>found.
     bind_p (require_some found (NotFoundException ''Gift card warning not found'')) (\<lambda>existing.
     seq_p (ensure (gw_decision existing = GC_PENDING)
       (BadRequestException (''Warning already decided ('' @
          giftcard_decision_text (gw_decision existing) @ '')'')))
     (seq_p (enforceDecision rt user (card_params d existing))
     (bind_p (now rt) (\<lambda>t.
      bind_p (update_row warnings warnings_update (\<lambda>g. gw_id g = gw_id existing)
                (settle_card d notes t)) (\<lambda>updated.
      seq_p (card_follow rt user d notes existing) (ret updated)))))))"

definition card_history :: "auth_user \<Rightarrow> int \<Rightarrow> ('a giftcard_db_scheme, card_warning list) prog" where
  "card_history user limit =
     bind_p (find_rows warnings (\<lambda>g. gw_userId g = au_userId user)) (\<lambda>rows.
     ret (take (clamp 1 200 limit) (order_desc gw_createdAt rows)))"

section \<open>The log is respected\<close>

lemma card_score_names [simp]: "distinct (map fst (sc_breakdown (score_card dto n)))"
  by (simp add: score_card_def scoreGiftCardGuard_def score_breakdown_def Let_def)

lemma scan_giftcard_safe: "moves (log_safe rt) (scan_giftcard rt user dto)"
  unfolding scan_giftcard_def Let_def
  by (auto simp: log_untouched card_opened_def
      intro!: safe_rules append_safe start_pause_safe record_risk_safe)

lemma decide_giftcard_safe: "moves (log_safe rt) (decide_giftcard rt user gid d notes)"
  unfolding decide_giftcard_def card_follow_def
  by (auto simp: log_untouched card_decided_def
      intro!: safe_rules append_safe enforceDecision_safe requestReview_safe split: option.splits)

section \<open>Properties\<close>

interpretation giftcard: held_action warnings warnings_update gw_id gw_userId
  "\<lambda>g. gw_decision g = GC_PENDING" card_params settle_card card_follow
  "''Gift card warning not found''"
  "\<lambda>g. ''Warning already decided ('' @ giftcard_decision_text (gw_decision g) @ '')''" decide_giftcard
proof unfold_locales
  fix d n t and g :: card_warning
  show "gw_id (settle_card d n t g) = gw_id g" "gw_userId (settle_card d n t g) = gw_userId g"
    "gw_decision (settle_card d n t g) \<noteq> GC_PENDING"
    by (cases d; simp add: settle_card_def)+
next
  fix g :: card_warning and w :: "'a giftcard_db_scheme" and rt user d n
  assume "find (\<lambda>q. gw_id q = gw_id g) (warnings w) \<noteq> None"
  then show "runs (card_follow rt user d n g) w (\<lambda>_ w'.
      map (\<lambda>q. (gw_id q, gw_userId q, gw_decision q = GC_PENDING)) (warnings w') =
      map (\<lambda>q. (gw_id q, gw_userId q, gw_decision q = GC_PENDING)) (warnings w))"
    by (auto simp: card_follow_def run_simps runs_stamped
        intro!: warnings_frame.request_then runs_mono [OF link_keeps_view
          [where view = "\<lambda>q. (gw_id q, gw_userId q, gw_decision q = GC_PENDING)"]])
qed (simp_all add: warnings_frame.seeded_same warnings_frame.enforce_same decide_giftcard_def)

lemma card_fields [simp]:
  "gw_id (new_warning user dto n sc uid t) = uid"
  "gw_decision (new_warning user dto n sc uid t) = GC_PENDING"
  "gw_userId (new_warning user dto n sc uid t) = au_userId user"
  "gw_riskScore (new_warning user dto n sc uid t) = sc_score sc"
  "gw_riskLevel (new_warning user dto n sc uid t) = sc_level sc"
  "gw_guardianPauseEventId (new_warning user dto n sc uid t) = None"
  by (simp_all add: new_warning_def)

lemma card_payloads [simp]:
  "in_entityId (card_opened user dto sc uid) = uid"
  "in_eventType (card_opened user dto sc uid) = ''GIFTCARD_WARNING_OPENED''"
  "ri_riskScore (card_risk sc uid e) = sc_score sc"
  "ri_riskLevel (card_risk sc uid e) = sc_level sc"
  "sp_durationSeconds (card_pause dto l uid) = Some 90"
  "sp_riskLevel (card_pause dto l uid) = (if l = CRITICAL then CRITICAL else HIGH)"
  by (simp_all add: card_opened_def card_risk_def card_pause_def)

text \<open>
  Scanning a request opens one pending warning for the caller with the score and level of
  the scorer, linked to the evidence event of its opening. From high risk on, and only then,
  an active pause of 90 seconds at the warning's own level is opened for the caller and linked;
  one risk event repeats score and level.
\<close>

lemma scan_warns:
  assumes warnings: "fresh_ids rt w (gw_id ` set (warnings w))"
    and pauses: "fresh_ids rt w (pe_id ` set (pauses w))"
  shows "runs (scan_giftcard rt user dto) w (\<lambda>g w'.
    let prior = length (filter (\<lambda>g. gw_userId g = au_userId user \<and>
          gw_decision g = GC_CONTINUED_ANYWAY \<and>
          rt_clock rt (db_tick w) - 2592000000 \<le> gw_createdAt g) (warnings w));
        scoring = score_card dto prior
    in warnings w' = warnings w @ [g] \<and> gw_userId g = au_userId user \<and>
       gw_decision g = GC_PENDING \<and>
       gw_riskScore g = sc_score scoring \<and> gw_riskLevel g = sc_level scoring \<and>
       (\<exists>e es. evidence_events w' = evidence_events w @ e # es \<and>
          gw_evidenceEventId g = Some (ev_id e) \<and> ev_entityId e = gw_id g \<and>
          ev_eventType e = ''GIFTCARD_WARNING_OPENED'') \<and>
       (if HIGH \<le> gw_riskLevel g
        then \<exists>p. pauses w' = pauses w @ [p] \<and> gw_guardianPauseEventId g = Some (pe_id p) \<and>
          pe_userId p = au_userId user \<and> pe_status p = PAUSE_ACTIVE \<and>
          pe_riskLevel p = gw_riskLevel g \<and> pe_expiresAt p = pe_startedAt p + 90000
        else pauses w' = pauses w \<and> gw_guardianPauseEventId g = None) \<and>
       (\<exists>r. risk_events w' = risk_events w @ [r] \<and> re_userId r = au_userId user \<and>
          re_riskScore r = gw_riskScore g \<and> re_riskLevel r = gw_riskLevel g))"
proof -
  define n where "n = length (filter (\<lambda>g. gw_userId g = au_userId user \<and>
      gw_decision g = GC_CONTINUED_ANYWAY \<and>
      rt_clock rt (db_tick w) - 2592000000 \<le> gw_createdAt g) (warnings w))"
  note eqs = scan_giftcard_def Let_def run_simps runs_stamped n_def [symmetric]
    record_risk_def find_append_eq fresh_rows [OF warnings]
  have high: "HIGH \<le> l \<longleftrightarrow> l = HIGH \<or> l = CRITICAL" for l
    by (cases l) simp_all
  show ?thesis
  proof (cases "HIGH \<le> sc_level (score_card dto n)")
    case True
    then show ?thesis
      by (simp add: eqs high)
         (rule warnings_frame.pause_then, rule fresh_pauses [OF pauses], simp_all,
          auto simp: eqs pause_opened_def high)
  next
    case False
    then show ?thesis by (simp add: eqs high)
  qed
qed

text \<open>
  A gift-card warning is resolved at most once, by its owner; continuing past it was
  allowed by the policy for its level and denomination, and afterwards every decision of the
  owner on it is rejected without effect. A decision that fails changes no warning.
\<close>

lemma warning_decided_once:
  assumes "distinct (map gw_id (warnings w))"
  shows "ends (decide_giftcard rt user gid d notes) w (\<lambda>r w'.
    case r of
      Inl x \<Rightarrow> warnings w' = warnings w
    | Inr g' \<Rightarrow> \<exists>g. find (\<lambda>g. gw_id g = gid \<and> gw_userId g = au_userId user) (warnings w) = Some g \<and>
        gw_decision g = GC_PENDING \<and> gw_decision g' = card_next d \<and>
        (d = CW_CONTINUED_ANYWAY \<longrightarrow> pd_continueAnywayAllowed
           (policy_of w user (gw_riskLevel g) (gw_denominationMinor g))) \<and>
        (\<forall>d2 n2. raises (decide_giftcard rt user gid d2 n2) w'
           (\<lambda>x w2. (\<exists>m. x = BadRequestException m) \<and> w2 = w')))"
proof (rule ends_mono [OF giftcard.decided_once [OF assms]], goal_cases)
  case (1 r w')
  then show ?case
    by (cases r)
       (auto simp: settle_card_def gate_blocks_def card_params_def Let_def dest: find_SomeD)
qed

definition demo_cards :: "protection_settings list \<Rightarrow> card_warning list \<Rightarrow> giftcard_db" where
  "demo_cards ss gs = \<lparr>db_tick = 0, evidence_events = [], audit_logs = [], jobs = [],
     ws_events = [], evidence_files = [], export_bundles = [], deliveries = [], alerts = [],
     users = [], contacts = [demo_contact], reviews = [], settings = ss, profiles = [],
     risk_events = [], pauses = [], holds = [], warnings = gs\<rparr>"

definition demo_scan :: scan_card_dto where
  "demo_scan = \<lparr>sg_cardBrand = Some ''Steam'', sg_denominationMinor = Some 20000,
     sg_currency = None, sg_codeRevealRequested = Some True, sg_photoOfCodeRequested = None,
     sg_impersonationType = Some IM_GOVERNMENT, sg_urgencyDetected = Some True,
     sg_secrecyDetected = None, sg_elderModeActive = None, sg_metadata = JUndef\<rparr>"

definition demo_warning :: card_warning where
  "demo_warning = new_warning demo_user demo_scan 0 (score_card demo_scan 0) ''g1'' 0"

lemma demo_scan_critical: "sc_level (score_card demo_scan n) = CRITICAL"
  by (simp add: score_card_def demo_scan_def scoreGiftCardGuard_def score_breakdown_def Let_def
      points_if_def prior_points_def clamp_score_def scoreToLevel_def)

lemma scan_warns_witness:
  "runs (scan_giftcard demo_rt demo_user demo_scan) (demo_cards [] [])
     (\<lambda>g w'. warnings w' = [g] \<and> (\<exists>p. pauses w' = [p] \<and> gw_guardianPauseEventId g = Some (pe_id p)))"
proof -
  have "fresh_ids demo_rt (demo_cards [] []) (gw_id ` set (warnings (demo_cards [] [])))"
    "fresh_ids demo_rt (demo_cards [] []) (pe_id ` set (pauses (demo_cards [] [])))"
    by (simp_all add: fresh_ids_def demo_cards_def)
  from scan_warns [OF this, of demo_user demo_scan] show ?thesis
    by (rule runs_mono) (auto simp: Let_def demo_scan_critical demo_cards_def)
qed

lemma warning_decided_once_witness:
  "ends (decide_giftcard demo_rt demo_user ''g1'' CW_CONTINUED_ANYWAY None)
     (demo_cards [strict_settings] [demo_warning])
     (\<lambda>r w'. \<exists>x. r = Inl x \<and> warnings w' = [demo_warning])"
proof -
  have d: "distinct (map gw_id (warnings (demo_cards [strict_settings] [demo_warning])))"
    by (simp add: demo_cards_def)
  have "\<not> pd_continueAnywayAllowed (policy_of (demo_cards [strict_settings] [demo_warning]) demo_user CRITICAL a)" for a
    by (simp add: policy_of_def settings_of_def demo_cards_def strict_settings_def demo_user_def
        default_settings_def evaluate_policy_def Let_def)
  moreover have "gw_riskLevel g = CRITICAL"
    if "find P (warnings (demo_cards [strict_settings] [demo_warning])) = Some g" for P g
    using find_SomeD [OF that] by (simp add: demo_cards_def demo_warning_def demo_scan_critical)
  moreover have "warnings (demo_cards [strict_settings] [demo_warning]) = [demo_warning]"
    by (simp add: demo_cards_def)
  ultimately show ?thesis
    by (intro ends_mono [OF warning_decided_once [OF d]]) (fastforce simp: Let_def split: sum.splits)
qed

end
