(* ===== verification/Indicators.thy ===== *)
theory Indicators
  imports Database
begin

text \<open>
  Pure functions on scam indicators: their normal forms (scam-signals/normalization.ts), the
  masks under which the identity graph shows them (identity-graph/masker.ts) and the formats
  of wallet addresses (walletguard/address-validators.ts). The regular expressions of the
  source are written out as predicates.
\<close>

section \<open>Characters and pieces of strings\<close>

definition in_range :: "nat \<Rightarrow> nat \<Rightarrow> char \<Rightarrow> bool" where
  "in_range lo hi c \<longleftrightarrow> lo \<le> code c \<and> code c \<le> hi"

text \<open>The classes \<open>[a-z]\<close>, \<open>[A-Z]\<close>, \<open>[a-z0-9]\<close>, \<open>[a-fA-F0-9]\<close> and the base58 alphabet.\<close>

definition is_az :: "char \<Rightarrow> bool" where
  "is_az c \<longleftrightarrow> in_range 97 122 c"

definition is_AZ :: "char \<Rightarrow> bool" where
  "is_AZ c \<longleftrightarrow> in_range 65 90 c"

definition is_az09 :: "char \<Rightarrow> bool" where
  "is_az09 c \<longleftrightarrow> is_az c \<or> is_digit c"

definition is_hex :: "char \<Rightarrow> bool" where
  "is_hex c \<longleftrightarrow> in_range 97 102 c \<or> in_range 65 70 c \<or> is_digit c"

definition is_base58 :: "char \<Rightarrow> bool" where
  "is_base58 c \<longleftrightarrow> (is_az c \<or> is_AZ c \<or> is_digit c) \<and>
     c \<noteq> CHR ''0'' \<and> c \<noteq> CHR ''O'' \<and> c \<noteq> CHR ''I'' \<and> c \<noteq> CHR ''l''"

definition before :: "char \<Rightarrow> string \<Rightarrow> string" where
  "before c s = takeWhile (\<lambda>x. x \<noteq> c) s"

definition after :: "char \<Rightarrow> string \<Rightarrow> string" where
  "after c s = drop 1 (dropWhile (\<lambda>x. x \<noteq> c) s)"

text \<open>\<open>s.slice(-n)\<close>.\<close>

definition last_n :: "nat \<Rightarrow> string \<Rightarrow> string" where
  "last_n n s = drop (length s - n) s"

definition strip_end :: "(char \<Rightarrow> bool) \<Rightarrow> string \<Rightarrow> string" where
  "strip_end P s = rev (dropWhile P (rev s))"

section \<open>Normal forms\<close>

definition normalizePhone :: "string \<Rightarrow> string" where
  "normalizePhone raw =
     (let trimmed = trim raw;
          hasPlus = starts_with ''+'' trimmed;
          digits = filter is_digit trimmed
      in if hasPlus then ''+'' @ digits
         else if length digits = 10 then ''+1'' @ digits
         else ''+'' @ digits)"

definition scheme_char :: "char \<Rightarrow> bool" where
  "scheme_char c \<longleftrightarrow> is_az09 c \<or> c = CHR ''+'' \<or> c = CHR ''.'' \<or> c = CHR ''-''"

text \<open>\<open>/^[a-z][a-z0-9+.-]*:\/\//\<close>: no colon among the scheme's characters, so one try.\<close>

definition strip_scheme :: "string \<Rightarrow> string" where
  "strip_scheme v =
     (case v of
        [] \<Rightarrow> v
      | c # cs \<Rightarrow>
          if is_az c \<and> starts_with ''://'' (dropWhile scheme_char cs)
          then drop 3 (dropWhile scheme_char cs) else v)"

definition after_last :: "char \<Rightarrow> string \<Rightarrow> string" where
  "after_last c s = rev (takeWhile (\<lambda>x. x \<noteq> c) (rev s))"

definition strip_www :: "string \<Rightarrow> string" where
  "strip_www v = (if starts_with ''www.'' v then drop 4 v else v)"

definition strip_dot :: "string \<Rightarrow> string" where
  "strip_dot v = (if ends_with ''.'' v then butlast v else v)"

definition normalizeDomain :: "string \<Rightarrow> string" where
  "normalizeDomain raw =
     (let v1 = to_lower (trim raw);
          v2 = strip_scheme v1;
          v3 = before (CHR ''#'') (before (CHR ''?'') (before (CHR ''/'') v2));
          v4 = after_last (CHR ''@'') v3;
          v5 = before (CHR '':'') v4;
          v6 = strip_www v5
      in strip_dot v6)"

definition normalizeUrl :: "string \<Rightarrow> string" where
  "normalizeUrl raw = strip_end (\<lambda>c. c = CHR ''/'') (to_lower (trim raw))"

definition normalizeEmail :: "string \<Rightarrow> string" where
  "normalizeEmail raw = to_lower (trim raw)"

definition normalizeWallet :: "string \<Rightarrow> string" where
  "normalizeWallet raw =
     (let v = trim raw in
      if starts_with ''0x'' v \<or> starts_with ''0X'' v then to_lower v else v)"

text \<open>\<open>replace(/\s+/g, ' ')\<close>: every run of white space becomes one space.\<close>

fun collapse_spaces :: "string \<Rightarrow> string" where
  "collapse_spaces [] = []"
| "collapse_spaces (c # cs) =
     (if is_space c
      then (case cs of
              d # _ \<Rightarrow> if is_space d then collapse_spaces cs else CHR '' '' # collapse_spaces cs
            | [] \<Rightarrow> [CHR '' ''])
      else c # collapse_spaces cs)"

definition normalizePhrase :: "string \<Rightarrow> string" where
  "normalizePhrase raw = collapse_spaces (to_lower (trim raw))"

lemmas normal_eval = normalizeDomain_def strip_dot_def strip_www_def before_def after_last_def
  strip_scheme_def strip_end_def ends_with_def starts_with_def Let_def text_eval

fun normalizeIndicator :: "indicator_type \<Rightarrow> string \<Rightarrow> string" where
  "normalizeIndicator IT_PHONE v = normalizePhone v"
| "normalizeIndicator IT_DOMAIN v = normalizeDomain v"
| "normalizeIndicator IT_URL v = normalizeUrl v"
| "normalizeIndicator IT_EMAIL v = normalizeEmail v"
| "normalizeIndicator IT_CRYPTO_WALLET v = normalizeWallet v"
| "normalizeIndicator IT_SCAM_PHRASE v = normalizePhrase v"
| "normalizeIndicator IT_FAKE_COMPANY v = to_lower (trim v)"
| "normalizeIndicator IT_SOCIAL_PROFILE v = to_lower (trim v)"
| "normalizeIndicator IT_OTHER v = to_lower (trim v)"

section \<open>Masks\<close>

text \<open>\<open>/^[^@]+@[^@]+\.[^@]+$/\<close>\<close>

definition email_shape :: "string \<Rightarrow> bool" where
  "email_shape v \<longleftrightarrow>
     CHR ''@'' \<in> set v \<and> before (CHR ''@'') v \<noteq> [] \<and> CHR ''@'' \<notin> set (after (CHR ''@'') v) \<and>
     CHR ''.'' \<in> set (butlast (drop 1 (after (CHR ''@'') v)))"

text \<open>\<open>/^\+?\d{7,15}$/\<close>\<close>

definition phone_digits :: "string \<Rightarrow> string" where
  "phone_digits v = (if starts_with ''+'' v then drop 1 v else v)"

definition phone_shape :: "string \<Rightarrow> bool" where
  "phone_shape v \<longleftrightarrow>
     7 \<le> length (phone_digits v) \<and> length (phone_digits v) \<le> 15 \<and>
     list_all is_digit (phone_digits v)"

definition wallet_shape :: "string \<Rightarrow> bool" where
  "wallet_shape v \<longleftrightarrow>
     starts_with ''0x'' v \<and> 42 \<le> length v \<and> list_all is_hex (drop 2 v) \<or>
     (starts_with ''1'' v \<or> starts_with ''3'' v) \<and> 26 \<le> length v \<and>
       list_all (\<lambda>c. is_base58 c \<or> c = CHR ''0'') (drop 1 v) \<or>
     starts_with ''bc1'' v \<and> 4 \<le> length v \<and> list_all is_az09 (drop 3 v) \<or>
     starts_with ''T'' v \<and> 2 \<le> length v \<and> list_all is_base58 (drop 1 v) \<or>
     32 \<le> length v \<and> length v \<le> 44 \<and> list_all is_base58 v"

definition email_mask :: "string \<Rightarrow> string" where
  "email_mask v =
     (let name = before (CHR ''@'') v; host = after (CHR ''@'') v in
      take 1 name @ replicate (max 2 (length name - 1)) (CHR ''*'') @ ''@'' @ host)"

definition phone_mask :: "string \<Rightarrow> string" where
  "phone_mask v =
     (let digits = filter is_digit v;
          tail = last_n 4 digits;
          head = (if starts_with ''+'' v then take 3 v else [])
      in head @ (if head \<noteq> [] then ''-'' else []) @ ''***-***-'' @ tail)"

definition wallet_mask :: "string \<Rightarrow> string" where
  "wallet_mask v = (if length v \<le> 14 then v else take 6 v @ ''...'' @ last_n 6 v)"

definition indicator_mask :: "string \<Rightarrow> node_type \<Rightarrow> string option" where
  "indicator_mask v t =
     (if t \<noteq> NT_INDICATOR then None
      else if email_shape v then Some (email_mask v)
      else if phone_shape v then Some (phone_mask v)
      else if wallet_shape v then Some (wallet_mask v)
      else None)"

definition SENSITIVE_TYPES :: "node_type set" where
  "SENSITIVE_TYPES = {NT_PROFILE, NT_FACE_SIGNAL, NT_VOICE_SIGNAL}"

definition profile_mask :: "string \<Rightarrow> string" where
  "profile_mask raw =
     (let stripped = (if starts_with ''@'' raw then drop 1 raw else raw) in
      if length stripped \<le> 3 then ''@'' @ take 1 stripped @ ''***''
      else ''@'' @ take 1 stripped @ replicate (length stripped - 3) (CHR ''*'') @ last_n 2 stripped)"

text \<open>\<open>mask\<close>; an empty string is as good as no value in the two tests.\<close>

definition mask_node ::
    "node_type \<Rightarrow> string option \<Rightarrow> string option \<Rightarrow> string \<Rightarrow> string" where
  "mask_node t normalized stored label =
     (case stored of
        Some (c # cs) \<Rightarrow> c # cs
      | _ \<Rightarrow>
         (case normalized of
            Some (c # cs) \<Rightarrow>
              (if t \<in> SENSITIVE_TYPES then
                 (if t = NT_PROFILE then profile_mask (c # cs)
                  else take 8 (c # cs) @ ellipsis)
               else or_default (indicator_mask (c # cs) t) label)
          | _ \<Rightarrow> label))"

section \<open>Wallet addresses\<close>

definition evm_address :: "string \<Rightarrow> bool" where
  "evm_address a \<longleftrightarrow> starts_with ''0x'' a \<and> length a = 42 \<and> list_all is_hex (drop 2 a)"

definition btc_address :: "string \<Rightarrow> bool" where
  "btc_address a \<longleftrightarrow>
     (starts_with ''1'' a \<or> starts_with ''3'' a) \<and> 26 \<le> length a \<and> length a \<le> 35 \<and>
       list_all is_base58 (drop 1 a) \<or>
     starts_with ''bc1'' a \<and> 26 \<le> length a \<and> length a \<le> 90 \<and> list_all is_az09 (drop 3 a)"

fun VALIDATORS :: "wallet_network \<Rightarrow> string \<Rightarrow> bool" where
  "VALIDATORS NW_ETH a = evm_address a"
| "VALIDATORS NW_BSC a = evm_address a"
| "VALIDATORS NW_MATIC a = evm_address a"
| "VALIDATORS NW_ARBITRUM a = evm_address a"
| "VALIDATORS NW_OPTIMISM a = evm_address a"
| "VALIDATORS NW_BTC a = btc_address a"
| "VALIDATORS NW_TRX a = (starts_with ''T'' a \<and> length a = 34 \<and> list_all is_base58 (drop 1 a))"
| "VALIDATORS NW_SOL a = (32 \<le> length a \<and> length a \<le> 44 \<and> list_all is_base58 a)"
| "VALIDATORS NW_OTHER a = (8 \<le> length a \<and> length a \<le> 128 \<and> list_all (\<lambda>c. \<not> is_space c) a)"

definition isAddressValid :: "wallet_network \<Rightarrow> string \<Rightarrow> bool" where
  "isAddressValid network address = VALIDATORS network (trim address)"

section \<open>Lemmas on trimming and lower case\<close>

lemma trim_head: "trim s = c # cs \<Longrightarrow> \<not> is_space c"
proof -
  assume t: "trim s = c # cs"
  have "dropWhile is_space (rev (dropWhile is_space s)) = rev cs @ [c]"
    using t by (simp add: trim_def rev_swap)
  then obtain pre where "rev (dropWhile is_space s) = pre @ rev cs @ [c]"
    by (metis takeWhile_dropWhile_id)
  then have "dropWhile is_space s = c # cs @ rev pre" by (simp add: rev_swap)
  then show ?thesis by (metis hd_dropWhile list.distinct(1) list.sel(1))
qed

lemma trim_last: "trim s \<noteq> [] \<Longrightarrow> \<not> is_space (last (trim s))"
  unfolding trim_def by (metis hd_dropWhile last_rev rev_is_Nil_conv)

lemma trim_id: "s = [] \<or> \<not> is_space (hd s) \<and> \<not> is_space (last s) \<Longrightarrow> trim s = s"
  by (cases "s = []") (simp_all add: trim_def hd_rev dropWhile_eq_self_iff [THEN iffD2])

lemma trim_trim [simp]: "trim (trim s) = trim s"
  by (rule trim_id) (metis hd_Cons_tl trim_head trim_last)

lemma lower_code [simp]: "code (lower_char c) = (if 65 \<le> code c \<and> code c \<le> 90 \<or>
    192 \<le> code c \<and> code c \<le> 222 \<and> code c \<noteq> 215 then code c + 32 else code c)"
  by (simp add: lower_char_def code_def)

lemma lower_lower [simp]: "lower_char (lower_char c) = lower_char c"
proof -
  have "code (lower_char (lower_char c)) = code (lower_char c)" by simp
  then show ?thesis by (simp add: code_def)
qed

lemma lower_space [simp]: "is_space (lower_char c) \<longleftrightarrow> is_space c"
  by (simp add: is_space_def)

lemma to_lower_lower [simp]: "to_lower (to_lower s) = to_lower s"
  by (simp add: to_lower_def)

lemma trim_lower: "trim (to_lower (trim s)) = to_lower (trim s)"
proof (rule trim_id, cases "trim s")
  case (Cons c cs)
  then have "trim s \<noteq> []" "\<not> is_space (last (c # cs))" using trim_last [of s] by simp_all
  with Cons trim_head [OF Cons]
  show "to_lower (trim s) = [] \<or>
      \<not> is_space (hd (to_lower (trim s))) \<and> \<not> is_space (last (to_lower (trim s)))"
    by (simp add: to_lower_def last_map split: if_splits)
qed (simp add: to_lower_def)

section \<open>Lemmas on collapsing\<close>

lemma lower_simps [simp]: "to_lower [] = []" "to_lower (c # cs) = lower_char c # to_lower cs"
  by (simp_all add: to_lower_def)

lemma space_facts [simp]: "is_space (CHR '' '')" "lower_char (CHR '' '') = CHR '' ''"
  by (simp_all add: is_space_def lower_char_def code_def)

lemma collapse_word [simp]: "\<not> is_space c \<Longrightarrow> collapse_spaces (c # cs) = c # collapse_spaces cs"
  by simp

lemma collapse_gap [simp]:
  "is_space c \<Longrightarrow> is_space d \<Longrightarrow> collapse_spaces (c # d # cs) = collapse_spaces (d # cs)"
  "is_space c \<Longrightarrow> \<not> is_space d \<Longrightarrow> collapse_spaces (c # d # cs) = CHR '' '' # d # collapse_spaces cs"
  "is_space c \<Longrightarrow> collapse_spaces [c] = [CHR '' '']"
  by simp_all

declare collapse_spaces.simps(2) [simp del]

lemma collapse_lower: "collapse_spaces (to_lower s) = to_lower (collapse_spaces s)"
proof (induction s rule: collapse_spaces.induct)
  case (2 c cs)
  show ?case
  proof (cases "is_space c")
    case True
    then show ?thesis using 2 by (cases cs; cases "is_space (hd cs)") simp_all
  next
    case False
    then show ?thesis using 2 by simp
  qed
qed simp

lemma collapse_idem: "collapse_spaces (collapse_spaces s) = collapse_spaces s"
proof (induction s rule: collapse_spaces.induct)
  case (2 c cs)
  show ?case
  proof (cases "is_space c")
    case True
    then show ?thesis using 2 by (cases cs; cases "is_space (hd cs)") simp_all
  next
    case False
    then show ?thesis using 2 by simp
  qed
qed simp

lemma collapse_ends:
  assumes "s \<noteq> []" "\<not> is_space (last s)"
  shows "collapse_spaces s \<noteq> [] \<and> last (collapse_spaces s) = last s"
  using assms
proof (induction s rule: collapse_spaces.induct)
  case (2 c cs)
  show ?case
  proof (cases "is_space c")
    case True
    then show ?thesis using 2 by (cases cs; cases "is_space (hd cs)") auto
  next
    case False
    then show ?thesis using 2 by (cases cs) auto
  qed
qed simp

lemma collapse_trimmed:
  assumes "s = [] \<or> \<not> is_space (hd s) \<and> \<not> is_space (last s)"
  shows "trim (collapse_spaces s) = collapse_spaces s"
proof (rule trim_id, cases s)
  case (Cons c cs)
  with assms collapse_ends [of s]
  show "collapse_spaces s = [] \<or>
      \<not> is_space (hd (collapse_spaces s)) \<and> \<not> is_space (last (collapse_spaces s))"
    by auto
qed simp

lemma lower_trimmed:
  "to_lower (trim s) = [] \<or> \<not> is_space (hd (to_lower (trim s))) \<and> \<not> is_space (last (to_lower (trim s)))"
  by (cases "trim s") (use trim_last [of s] in \<open>auto simp: to_lower_def last_map dest: trim_head\<close>)

section \<open>Properties\<close>

lemma phone_stable: "normalizePhone (normalizePhone v) = normalizePhone v \<and>
    (\<exists>ds. normalizePhone v = ''+'' @ ds \<and> list_all is_digit ds)"
proof -
  let ?d = "filter is_digit (trim v)"
  have "list_all is_digit ?d" "list_all is_digit (CHR ''1'' # ?d)"
    by (simp_all add: list_all_iff is_digit_def code_def)
  moreover have "normalizePhone v = CHR ''+'' # ?d \<or> normalizePhone v = CHR ''+'' # CHR ''1'' # ?d"
    by (simp add: normalizePhone_def Let_def)
  ultimately obtain ds where ds: "normalizePhone v = CHR ''+'' # ds" "list_all is_digit ds"
    by blast
  have "\<not> is_space d" if "is_digit d" for d
    using that by (auto simp: is_digit_def is_space_def)
  moreover have "\<not> is_space (CHR ''+'')" by (simp add: is_space_def code_def)
  ultimately have "trim (CHR ''+'' # ds) = CHR ''+'' # ds"
    using ds(2) by (intro trim_id) (auto simp: list_all_iff)
  moreover have "filter is_digit ds = ds" using ds(2) by (simp add: list_all_iff)
  ultimately have "normalizePhone (CHR ''+'' # ds) = CHR ''+'' # ds"
    by (simp add: normalizePhone_def starts_with_def is_digit_def code_def)
  with ds show ?thesis by simp
qed

lemma wallet_stable: "normalizeWallet (normalizeWallet v) = normalizeWallet v"
proof -
  have "lower_char (CHR ''X'') = CHR ''x''" "lower_char (CHR ''x'') = CHR ''x''"
    "lower_char (CHR ''0'') = CHR ''0''"
    by (simp_all add: text_eval)
  then have "starts_with ''0x'' (to_lower u)" if "starts_with ''0x'' u \<or> starts_with ''0X'' u" for u
    using that by (cases u; cases "tl u") (auto simp: starts_with_def)
  then show ?thesis by (simp add: normalizeWallet_def Let_def trim_lower)
qed

lemma phrase_stable: "normalizePhrase (normalizePhrase v) = normalizePhrase v"
  using collapse_trimmed [OF lower_trimmed]
  by (simp add: normalizePhrase_def collapse_lower [symmetric] collapse_idem)

text \<open>
  Normal forms are stable: normalising a phone number, an e-mail address, a wallet, a
  phrase or an untyped value twice is normalising it once, so a value that was stored in its
  normal form is found again under it. A phone number becomes a plus sign and digits only.
\<close>

lemma normal_forms_stable:
  assumes "t \<noteq> IT_DOMAIN" "t \<noteq> IT_URL"
  shows "normalizeIndicator t (normalizeIndicator t v) = normalizeIndicator t v \<and>
    (t = IT_PHONE \<longrightarrow> (\<exists>ds. normalizeIndicator t v = ''+'' @ ds \<and> list_all is_digit ds))"
  using assms phone_stable wallet_stable phrase_stable
  by (cases t) (simp_all add: normalizeEmail_def trim_lower)

lemma normal_forms_stable_witness:
  "normalizeIndicator IT_PHONE (normalizeIndicator IT_PHONE ''(415) 555-0100'') =
   normalizeIndicator IT_PHONE ''(415) 555-0100''"
  using normal_forms_stable [of IT_PHONE] by simp

lemma phone_chars: "phone_shape v \<Longrightarrow> c \<in> set v \<Longrightarrow> is_digit c \<or> c = CHR ''+''"
  by (cases v) (auto simp: phone_shape_def phone_digits_def starts_with_def list_all_iff split: if_splits)

lemma phone_not_email: "phone_shape v \<Longrightarrow> \<not> email_shape v"
  by (auto simp: email_shape_def is_digit_def code_def dest: phone_chars)

lemma phone_mask_visible:
  assumes "phone_shape v"
  shows "phone_mask v = (if starts_with ''+'' v then take 3 v @ ''-'' else []) @ ''***-***-'' @ last_n 4 v"
proof -
  have plus: "\<not> is_digit (CHR ''+'')" by (simp add: is_digit_def code_def)
  have all: "filter is_digit (phone_digits v) = phone_digits v" and len: "7 \<le> length (phone_digits v)"
    using assms by (auto simp: phone_shape_def list_all_iff)
  show ?thesis
  proof (cases "starts_with ''+'' v")
    case True
    then obtain ds where v: "v = CHR ''+'' # ds"
      by (cases v) (auto simp: starts_with_def)
    with len have "7 \<le> length ds" by (simp add: phone_digits_def starts_with_def)
    then have "length (CHR ''+'' # ds) - 4 = Suc (length ds - 4)" by simp
    with all v plus show ?thesis
      by (simp add: phone_mask_def Let_def phone_digits_def starts_with_def last_n_def)
  next
    case False
    with all show ?thesis by (simp add: phone_mask_def Let_def phone_digits_def)
  qed
qed

text \<open>
  A mask hides what it is there to hide: two indicators with the same visible parts have
  the same mask, whatever the rest of their values and their labels are. Of a phone number
  only the first three characters and the last four digits are visible, of an e-mail address
  the first character, the length of the name and the host, and of a face or voice
  fingerprint the first eight characters.
\<close>

lemma masks_hide:
  assumes "v \<noteq> []" "v' \<noteq> []"
  shows "(phone_shape v \<and> phone_shape v' \<and> take 3 v = take 3 v' \<and> last_n 4 v = last_n 4 v' \<longrightarrow>
      mask_node NT_INDICATOR (Some v) None l = mask_node NT_INDICATOR (Some v') None l') \<and>
    (email_shape v \<and> email_shape v' \<and> take 1 v = take 1 v' \<and>
      length (before (CHR ''@'') v) = length (before (CHR ''@'') v') \<and>
      after (CHR ''@'') v = after (CHR ''@'') v' \<longrightarrow>
      mask_node NT_INDICATOR (Some v) None l = mask_node NT_INDICATOR (Some v') None l') \<and>
    (t \<in> {NT_FACE_SIGNAL, NT_VOICE_SIGNAL} \<and> take 8 v = take 8 v' \<longrightarrow>
      mask_node t (Some v) None l = mask_node t (Some v') None l')"
proof (intro conjI impI)
  let ?at = "CHR ''@''"
  have node: "mask_node NT_INDICATOR (Some u) None l = or_default (indicator_mask u NT_INDICATOR) l"
    if "u \<noteq> []" for u l
    using that by (cases u) (simp_all add: mask_node_def SENSITIVE_TYPES_def)
  {
    assume *: "phone_shape v \<and> phone_shape v' \<and> take 3 v = take 3 v' \<and> last_n 4 v = last_n 4 v'"
    then have "starts_with ''+'' v \<longleftrightarrow> starts_with ''+'' v'"
      using assms by (cases v; cases v') (auto simp: starts_with_def)
    with * phone_mask_visible [of v] phone_mask_visible [of v']
    have "phone_mask v = phone_mask v'" by simp
    with * show "mask_node NT_INDICATOR (Some v) None l = mask_node NT_INDICATOR (Some v') None l'"
      by (simp add: node assms indicator_mask_def phone_not_email)
  next
    assume *: "email_shape v \<and> email_shape v' \<and> take 1 v = take 1 v' \<and>
      length (before ?at v) = length (before ?at v') \<and> after ?at v = after ?at v'"
    have "take 1 (before ?at u) = take 1 u" if "email_shape u" for u
      using that by (cases u) (auto simp: email_shape_def before_def)
    with * have "email_mask v = email_mask v'" by (simp add: email_mask_def Let_def)
    with * show "mask_node NT_INDICATOR (Some v) None l = mask_node NT_INDICATOR (Some v') None l'"
      by (simp add: node assms indicator_mask_def)
  next
    assume "t \<in> {NT_FACE_SIGNAL, NT_VOICE_SIGNAL} \<and> take 8 v = take 8 v'"
    with assms show "mask_node t (Some v) None l = mask_node t (Some v') None l'"
      by (cases v; cases v') (auto simp: mask_node_def SENSITIVE_TYPES_def)
  }
qed

lemma masks_hide_witness:
  "mask_node NT_INDICATOR (Some ''+14155550100'') None ''+14155550100'' =
   mask_node NT_INDICATOR (Some ''+14929390100'') None ''anything''"
proof -
  have "phone_shape ''+14155550100'' \<and> phone_shape ''+14929390100''"
    by code_simp
  moreover have "last_n 4 ''+14155550100'' = last_n 4 ''+14929390100''"
    by (simp add: last_n_def)
  ultimately show ?thesis
    using masks_hide [of "''+14155550100''" "''+14929390100''" "''+14155550100''" "''anything''"]
    by simp
qed

end
