(* ===== verification/FraudGraph.thy ===== *)
theory FraudGraph
  imports GiftCardGuard Indicators Complex_Main
begin

text \<open>
  The fraud graph (modules/fraud-graph): one node per scam indicator, weighted undirected edges
  stored once per canonical pair, and campaigns with their members. The scam signals are
  projected onto it. A weight is a floating point number of the source; it is only stored,
  copied and compared, so a rational stands for it.
\<close>

section \<open>State\<close>

datatype source_type =
    USER_REPORT | PARTNER_REPORT | BANK_REPORT | INVESTIGATOR | GOVERNMENT_ADVISORY
  | PUBLIC_WEB | INTERNAL

datatype signal_status =
    UNVERIFIED_REPORT | SUSPICIOUS_SIGNAL | PATTERN_MATCH | UNDER_REVIEW | HIGH_RISK_INDICATOR
  | VERIFIED_SCAM_INTELLIGENCE | PUBLIC_SAFE_ALERT | ARCHIVED | REJECTED

record scam_signal =
  ss_id :: string
  ss_tenantId :: "string option"
  ss_submittedByUserId :: "string option"
  ss_sourceType :: source_type
  ss_sourceName :: "string option"
  ss_category :: "string option"
  ss_indicatorType :: indicator_type
  ss_indicatorValue :: string
  ss_normalizedIndicator :: string
  ss_description :: "string option"
  ss_rawText :: "string option"
  ss_reportCount :: int
  ss_confidenceScore :: int
  ss_sourceReliabilityScore :: int
  ss_evidenceStrengthScore :: int
  ss_recencyScore :: int
  ss_status :: signal_status
  ss_geography :: "string option"
  ss_firstSeen :: int
  ss_lastSeen :: int
  ss_clusterId :: "string option"
  ss_publicSafeCandidate :: bool
  ss_createdAt :: int

record similarity =
  sy_id :: string
  sy_signalAId :: string
  sy_signalBId :: string
  sy_score :: rat
  sy_modelVersion :: string
  sy_createdAt :: int

record graph_node =
  gn_id :: string
  gn_nodeType :: node_type
  gn_indicatorType :: "indicator_type option"
  gn_normalizedIndicator :: "string option"
  gn_label :: string
  gn_displayMask :: "string option"
  gn_category :: "string option"
  gn_signalCount :: int
  gn_riskScore :: int
  gn_firstSeen :: int
  gn_lastSeen :: int
  gn_updatedAt :: int

record graph_edge =
  ge_id :: string
  ge_source :: string
  ge_target :: string
  ge_edgeType :: edge_type
  ge_weight :: rat
  ge_evidenceCount :: int
  ge_firstSeen :: int
  ge_lastSeen :: int

record graph_db = giftcard_db +
  signals :: "scam_signal list"
  similarities :: "similarity list"
  graph_nodes :: "graph_node list"
  graph_edges :: "graph_edge list"

interpretation signals_tab: table signals signals_update
  by unfold_locales simp

interpretation similarities_tab: table similarities similarities_update
  by unfold_locales simp

interpretation nodes_tab: table graph_nodes graph_nodes_update
  by unfold_locales simp

interpretation edges_tab: table graph_edges graph_edges_update
  by unfold_locales simp

section \<open>Nodes\<close>

text \<open>The unique key of an indicator node.\<close>

definition node_for :: "indicator_type \<Rightarrow> string \<Rightarrow> graph_node \<Rightarrow> bool" where
  "node_for t v n \<longleftrightarrow> gn_indicatorType n = Some t \<and> gn_normalizedIndicator n = Some v"

record node_input =
  no_indicatorType :: indicator_type
  no_indicatorValue :: string
  no_category :: "string option"
  no_riskScore :: "int option"
  no_source :: string

definition bump_node :: "int \<Rightarrow> string option \<Rightarrow> string option \<Rightarrow> int \<Rightarrow> graph_node \<Rightarrow> graph_node" where
  "bump_node score category display t n =
     n\<lparr>gn_signalCount := gn_signalCount n + 1, gn_riskScore := max (gn_riskScore n) score,
       gn_category := or_else (gn_category n) category,
       gn_displayMask := or_else (gn_displayMask n) display,
       gn_lastSeen := t, gn_updatedAt := t\<rparr>"

definition indicator_node ::
    "indicator_type \<Rightarrow> string \<Rightarrow> string \<Rightarrow> string option \<Rightarrow> string option \<Rightarrow> int \<Rightarrow> string \<Rightarrow> int \<Rightarrow> graph_node"
  where
  "indicator_node ty normalized label category display score uid t =
     \<lparr>gn_id = uid, gn_nodeType = NT_INDICATOR, gn_indicatorType = Some ty,
      gn_normalizedIndicator = Some normalized, gn_label = label, gn_displayMask = display,
      gn_category = category, gn_signalCount = 1, gn_riskScore = score,
      gn_firstSeen = t, gn_lastSeen = t, gn_updatedAt = t\<rparr>"

text \<open>
  Find or create: the common shape of \<open>recordNode\<close> and \<open>ensureNodeForSignal\<close>.
\<close>

definition recordNode :: "runtime \<Rightarrow> node_input \<Rightarrow> ('a graph_db_scheme, graph_node) prog" where
  "recordNode rt i =
     (let normalized = normalizeIndicator (no_indicatorType i) (no_indicatorValue i);
          displayMask = mask_node NT_INDICATOR (Some normalized) None (no_indicatorValue i)
      in
      bind_p (find_row graph_nodes (node_for (no_indicatorType i) normalized)) (\<lambda>found.
      case found of
        Some existing \<Rightarrow>
          bind_p (now rt) (\<lambda>t.
          update_row graph_nodes graph_nodes_update (\<lambda>n. gn_id n = gn_id existing)
            (bump_node (or_default (no_riskScore i) 0) (no_category i) (Some displayMask) t))
      | None \<Rightarrow>
          bind_p (new_id rt) (\<lambda>uid.
          bind_p (now rt) (\<lambda>t.
          insert_row graph_nodes_update
            (indicator_node (no_indicatorType i) normalized (no_indicatorValue i)
               (no_category i) (Some displayMask) (or_default (no_riskScore i) 0) uid t)))))"

definition ensureNodeForSignal ::
    "runtime \<Rightarrow> scam_signal \<Rightarrow> ('a graph_db_scheme, graph_node) prog" where
  "ensureNodeForSignal rt s =
     bind_p (find_row graph_nodes (node_for (ss_indicatorType s) (ss_normalizedIndicator s)))
       (\<lambda>found.
     case found of
       Some existing \<Rightarrow>
         bind_p (now rt) (\<lambda>t.
         update_row graph_nodes graph_nodes_update (\<lambda>n. gn_id n = gn_id existing)
           (bump_node (ss_confidenceScore s) (ss_category s) None t))
     | None \<Rightarrow>
         bind_p (new_id rt) (\<lambda>uid.
         bind_p (now rt) (\<lambda>t.
         insert_row graph_nodes_update
           (indicator_node (ss_indicatorType s) (ss_normalizedIndicator s)
              (ss_indicatorValue s) (ss_category s) None (ss_confidenceScore s) uid t))))"

section \<open>Edges\<close>

definition canonical_pair :: "string \<Rightarrow> string \<Rightarrow> string \<times> string" where
  "canonical_pair a b = (if a < b then (a, b) else (b, a))"

definition edge_between :: "string \<times> string \<Rightarrow> edge_type \<Rightarrow> graph_edge \<Rightarrow> bool" where
  "edge_between p ty e \<longleftrightarrow> (ge_source e, ge_target e) = p \<and> ge_edgeType e = ty"

text \<open>The upsert of Prisma on the unique triple of an edge.\<close>

definition upsert_edge_row ::
    "runtime \<Rightarrow> string \<times> string \<Rightarrow> edge_type \<Rightarrow> rat \<Rightarrow> ('a graph_db_scheme, graph_edge) prog" where
  "upsert_edge_row rt p ty weight =
     bind_p (find_row graph_edges (edge_between p ty)) (\<lambda>found.
     case found of
       Some e \<Rightarrow>
         bind_p (now rt) (\<lambda>t.
         update_row graph_edges graph_edges_update (edge_between p ty)
           (\<lambda>e. e\<lparr>ge_weight := weight, ge_evidenceCount := ge_evidenceCount e + 1,
                  ge_lastSeen := t\<rparr>))
     | None \<Rightarrow>
         bind_p (new_id rt) (\<lambda>uid.
         bind_p (now rt) (\<lambda>t.
         insert_row graph_edges_update
           \<lparr>ge_id = uid, ge_source = fst p, ge_target = snd p, ge_edgeType = ty,
            ge_weight = weight, ge_evidenceCount = 1, ge_firstSeen = t, ge_lastSeen = t\<rparr>)))"

definition upsertEdge ::
    "runtime \<Rightarrow> string \<Rightarrow> string \<Rightarrow> edge_type \<Rightarrow> rat \<Rightarrow> ('a graph_db_scheme, bool) prog" where
  "upsertEdge rt nodeA nodeB ty weight =
     (if nodeA = nodeB then ret False
      else catch_p
        (seq_p (upsert_edge_row rt (canonical_pair nodeA nodeB) ty weight) (ret True))
        (\<lambda>_. ret False))"

definition CLUSTER_PEER_SCAN_CAP :: nat where
  "CLUSTER_PEER_SCAN_CAP = 200"

definition SIMILARITY_PEER_SCAN_CAP :: nat where
  "SIMILARITY_PEER_SCAN_CAP = 50"

text \<open>One turn of the two loops: True when an edge was written.\<close>

definition link_peer ::
    "runtime \<Rightarrow> graph_node \<Rightarrow> edge_type \<Rightarrow> rat \<Rightarrow> scam_signal \<Rightarrow> ('a graph_db_scheme, bool) prog" where
  "link_peer rt node ty weight peer =
     bind_p (find_row graph_nodes
       (node_for (ss_indicatorType peer) (ss_normalizedIndicator peer))) (\<lambda>found.
     case found of
       None \<Rightarrow> ret False
     | Some peerNode \<Rightarrow> upsertEdge rt (gn_id node) (gn_id peerNode) ty weight)"

definition written :: "bool list \<Rightarrow> nat" where
  "written bs = length (filter id bs)"

definition linkClusterPeers ::
    "runtime \<Rightarrow> graph_node \<Rightarrow> scam_signal \<Rightarrow> ('a graph_db_scheme, nat) prog" where
  "linkClusterPeers rt node s =
     (if \<not> truthy (ss_clusterId s) then ret 0
      else
        bind_p (find_rows signals (\<lambda>q. ss_clusterId q = ss_clusterId s \<and> ss_id q \<noteq> ss_id s))
          (\<lambda>rows.
        bind_p (map_p (link_peer rt node CO_OCCURRENCE_CLUSTER 1) (take CLUSTER_PEER_SCAN_CAP rows))
          (\<lambda>ws. ret (written ws))))"

definition link_similar ::
    "runtime \<Rightarrow> graph_node \<Rightarrow> scam_signal \<Rightarrow> similarity \<Rightarrow> ('a graph_db_scheme, bool) prog" where
  "link_similar rt node s sim =
     (let otherId = (if sy_signalAId sim = ss_id s then sy_signalBId sim else sy_signalAId sim) in
      bind_p (find_row signals (\<lambda>q. ss_id q = otherId)) (\<lambda>found.
      case found of
        None \<Rightarrow> ret False
      | Some other \<Rightarrow> link_peer rt node SIMILAR_TEXT (sy_score sim) other))"

definition order_desc_rat :: "('r \<Rightarrow> rat) \<Rightarrow> 'r list \<Rightarrow> 'r list" where
  "order_desc_rat key rs = sort_key (\<lambda>r. - key r) rs"

definition linkSimilarityPeers ::
    "runtime \<Rightarrow> graph_node \<Rightarrow> scam_signal \<Rightarrow> ('a graph_db_scheme, nat) prog" where
  "linkSimilarityPeers rt node s =
     bind_p (find_rows similarities (\<lambda>y. sy_signalAId y = ss_id s \<or> sy_signalBId y = ss_id s))
       (\<lambda>rows.
     bind_p (map_p (link_similar rt node s)
               (take SIMILARITY_PEER_SCAN_CAP (order_desc_rat sy_score rows)))
       (\<lambda>ws. ret (written ws)))"

definition processSignal ::
    "runtime \<Rightarrow> scam_signal \<Rightarrow> ('a graph_db_scheme, graph_node \<times> nat \<times> nat) prog" where
  "processSignal rt s =
     bind_p (ensureNodeForSignal rt s) (\<lambda>node.
     bind_p (linkClusterPeers rt node s) (\<lambda>clusterEdges.
     bind_p (linkSimilarityPeers rt node s) (\<lambda>similarityEdges.
     ret (node, clusterEdges, similarityEdges))))"

section \<open>Queries\<close>

definition indicator_names :: "(string \<times> indicator_type) list" where
  "indicator_names =
     [(''PHONE'', IT_PHONE), (''EMAIL'', IT_EMAIL), (''DOMAIN'', IT_DOMAIN), (''URL'', IT_URL),
      (''CRYPTO_WALLET'', IT_CRYPTO_WALLET), (''SCAM_PHRASE'', IT_SCAM_PHRASE),
      (''FAKE_COMPANY'', IT_FAKE_COMPANY), (''SOCIAL_PROFILE'', IT_SOCIAL_PROFILE),
      (''OTHER'', IT_OTHER)]"

text \<open>A filter that is not the name of an indicator type is ignored.\<close>

definition listNodes ::
    "string option \<Rightarrow> string option \<Rightarrow> int option \<Rightarrow> ('a graph_db_scheme, graph_node list) prog" where
  "listNodes indicatorType category limit =
     (let ty = (case indicatorType of None \<Rightarrow> None | Some t \<Rightarrow> map_of indicator_names t);
          cat = (if truthy category then map_option (map upper_char) category else None)
      in
      bind_p (find_rows graph_nodes (\<lambda>n. (ty \<noteq> None \<longrightarrow> gn_indicatorType n = ty) \<and>
                (cat \<noteq> None \<longrightarrow> gn_category n = cat))) (\<lambda>rows.
      ret (take (clamp 1 500 (or_default limit 100))
        (order_desc gn_riskScore (order_desc gn_signalCount rows)))))"

definition getNode :: "string \<Rightarrow> ('a graph_db_scheme, graph_node) prog" where
  "getNode i =
     bind_p (find_row graph_nodes (\<lambda>n. gn_id n = i)) (\<lambda>found.
     require_some found (NotFoundException ''Fraud graph node not found''))"

definition other_end :: "string \<Rightarrow> graph_edge \<Rightarrow> string" where
  "other_end i e = (if ge_source e = i then ge_target e else ge_source e)"

definition touches :: "string \<Rightarrow> graph_edge \<Rightarrow> bool" where
  "touches i e \<longleftrightarrow> ge_source e = i \<or> ge_target e = i"

record neighbor =
  nb_edgeType :: edge_type
  nb_weight :: rat
  nb_evidenceCount :: int
  nb_firstSeen :: int
  nb_lastSeen :: int
  nb_id :: string
  nb_indicatorType :: "indicator_type option"
  nb_normalizedIndicator :: "string option"
  nb_label :: string
  nb_category :: "string option"
  nb_signalCount :: int
  nb_riskScore :: int

definition as_neighbor :: "graph_edge \<Rightarrow> graph_node \<Rightarrow> neighbor" where
  "as_neighbor e n =
     \<lparr>nb_edgeType = ge_edgeType e, nb_weight = ge_weight e, nb_evidenceCount = ge_evidenceCount e,
      nb_firstSeen = ge_firstSeen e, nb_lastSeen = ge_lastSeen e, nb_id = gn_id n,
      nb_indicatorType = gn_indicatorType n, nb_normalizedIndicator = gn_normalizedIndicator n,
      nb_label = gn_label n, nb_category = gn_category n, nb_signalCount = gn_signalCount n,
      nb_riskScore = gn_riskScore n\<rparr>"

text \<open>An edge whose other node is gone is dropped from the answer.\<close>

definition getNeighbors :: "string \<Rightarrow> int \<Rightarrow> ('a graph_db_scheme, neighbor list) prog" where
  "getNeighbors i limit =
     bind_p (getNode i) (\<lambda>_.
     bind_p (find_rows graph_edges (touches i)) (\<lambda>rows.
     let edges = take (clamp 1 200 limit)
           (order_desc_rat ge_weight (order_desc ge_evidenceCount rows))
     in if edges = [] then ret []
     else
       bind_p (find_rows graph_nodes (\<lambda>n. gn_id n \<in> set (map (other_end i) edges))) (\<lambda>others.
       ret (List.map_filter (\<lambda>e. map_option (as_neighbor e)
              (find (\<lambda>n. gn_id n = other_end i e) others)) edges))))"

section \<open>Campaigns\<close>

definition campaign_node :: "string \<Rightarrow> string option \<Rightarrow> string \<Rightarrow> int \<Rightarrow> graph_node" where
  "campaign_node label category uid t =
     \<lparr>gn_id = uid, gn_nodeType = NT_CAMPAIGN, gn_indicatorType = None,
      gn_normalizedIndicator = None, gn_label = label, gn_displayMask = None,
      gn_category = category, gn_signalCount = 0, gn_riskScore = 0, gn_firstSeen = t,
      gn_lastSeen = t, gn_updatedAt = t\<rparr>"

definition createCampaign ::
    "runtime \<Rightarrow> string \<Rightarrow> string option \<Rightarrow> ('a graph_db_scheme, graph_node) prog" where
  "createCampaign rt label category =
     bind_p (new_id rt) (\<lambda>uid.
     bind_p (now rt) (\<lambda>t.
     insert_row graph_nodes_update (campaign_node label category uid t)))"

definition listCampaigns :: "int \<Rightarrow> ('a graph_db_scheme, graph_node list) prog" where
  "listCampaigns limit =
     bind_p (find_rows graph_nodes (\<lambda>n. gn_nodeType n = NT_CAMPAIGN)) (\<lambda>rows.
     ret (take (clamp 1 500 limit) (order_desc gn_updatedAt rows)))"

definition find_campaign :: "string \<Rightarrow> ('a graph_db_scheme, graph_node) prog" where
  "find_campaign i =
     bind_p (find_row graph_nodes (\<lambda>n. gn_id n = i)) (\<lambda>found.
     case found of
       None \<Rightarrow> throw (NotFoundException ''Campaign not found'')
     | Some c \<Rightarrow> if gn_nodeType c \<noteq> NT_CAMPAIGN
         then throw (NotFoundException ''Campaign not found'') else ret c)"

definition getCampaignWithMembers ::
    "string \<Rightarrow> ('a graph_db_scheme, graph_node \<times> graph_node list) prog" where
  "getCampaignWithMembers i =
     bind_p (find_campaign i) (\<lambda>campaign.
     bind_p (find_rows graph_edges (\<lambda>e. ge_edgeType e = CAMPAIGN_MEMBERSHIP \<and> touches i e))
       (\<lambda>rows.
     let memberIds = map (other_end i) (order_desc_rat ge_weight rows) in
     bind_p (if memberIds \<noteq> [] then find_rows graph_nodes (\<lambda>n. gn_id n \<in> set memberIds)
             else ret []) (\<lambda>members.
     ret (campaign, members))))"

definition addCampaignMember ::
    "runtime \<Rightarrow> string \<Rightarrow> string \<Rightarrow> ('a graph_db_scheme, graph_node) prog" where
  "addCampaignMember rt campaignId nodeId =
     seq_p (ensure (campaignId \<noteq> nodeId)
       (BadRequestException ''A campaign cannot reference itself''))
     (seq_p (find_campaign campaignId)
     (bind_p (find_row graph_nodes (\<lambda>n. gn_id n = nodeId)) (\<lambda>found.
      bind_p (require_some found (NotFoundException ''Indicator node not found'')) (\<lambda>indicator.
      seq_p (ensure (gn_nodeType indicator = NT_INDICATOR)
        (BadRequestException ''Campaign members must be INDICATOR nodes''))
      (seq_p (upsertEdge rt campaignId nodeId CAMPAIGN_MEMBERSHIP 1)
      (ret indicator))))))"

text \<open>Removing a membership that is not there raises P2025, which is swallowed.\<close>

definition removeCampaignMember :: "string \<Rightarrow> string \<Rightarrow> ('a graph_db_scheme, unit) prog" where
  "removeCampaignMember campaignId nodeId =
     delete_rows graph_edges_update
       (edge_between (canonical_pair campaignId nodeId) CAMPAIGN_MEMBERSHIP)"

section \<open>The identity graph\<close>

text \<open>What the read surface shows of a node (modules/identity-graph): never the raw value.\<close>

record masked_node =
  mk_id :: string
  mk_nodeType :: node_type
  mk_display :: string
  mk_category :: "string option"
  mk_riskScore :: int
  mk_signalCount :: int
  mk_firstSeen :: int
  mk_lastSeen :: int

definition toMaskedSearchResult :: "graph_node \<Rightarrow> masked_node" where
  "toMaskedSearchResult n =
     \<lparr>mk_id = gn_id n, mk_nodeType = gn_nodeType n,
      mk_display = mask_node (gn_nodeType n) (gn_normalizedIndicator n) (gn_displayMask n) (gn_label n),
      mk_category = gn_category n, mk_riskScore = gn_riskScore n,
      mk_signalCount = gn_signalCount n, mk_firstSeen = gn_firstSeen n,
      mk_lastSeen = gn_lastSeen n\<rparr>"

record campaign_summary =
  cm_id :: string
  cm_label :: string
  cm_category :: "string option"
  cm_riskScore :: int
  cm_signalCount :: int
  cm_firstSeen :: int
  cm_lastSeen :: int

record edge_summary =
  es_id :: string
  es_edgeType :: edge_type
  es_weight :: rat
  es_evidenceCount :: int
  es_sourceNodeId :: string
  es_targetNodeId :: string

record cluster_snapshot =
  cs_campaign :: campaign_summary
  cs_members :: "masked_node list"
  cs_edges :: "edge_summary list"

definition buildSnapshot :: "graph_node \<Rightarrow> graph_node list \<Rightarrow> graph_edge list \<Rightarrow> cluster_snapshot" where
  "buildSnapshot campaign members edges =
     \<lparr>cs_campaign = \<lparr>cm_id = gn_id campaign, cm_label = gn_label campaign,
        cm_category = gn_category campaign, cm_riskScore = gn_riskScore campaign,
        cm_signalCount = gn_signalCount campaign, cm_firstSeen = gn_firstSeen campaign,
        cm_lastSeen = gn_lastSeen campaign\<rparr>,
      cs_members = map toMaskedSearchResult members,
      cs_edges = map (\<lambda>e. \<lparr>es_id = ge_id e, es_edgeType = ge_edgeType e,
        es_weight = ge_weight e, es_evidenceCount = ge_evidenceCount e,
        es_sourceNodeId = ge_source e, es_targetNodeId = ge_target e\<rparr>) edges\<rparr>"

definition campaign_export ::
    "auth_user \<Rightarrow> graph_node \<Rightarrow> nat \<Rightarrow> nat \<Rightarrow> string option \<Rightarrow> append_input" where
  "campaign_export user campaign members edges notes =
     \<lparr>in_tenantId = Some (au_tenantId user), in_actorId = Some (au_userId user),
      in_actorType = Some ''REVIEWER'', in_entityType = ''FRAUD_GRAPH_CAMPAIGN'',
      in_entityId = gn_id campaign, in_eventType = ''IDENTITY_COLLISION_REPORT'',
      in_eventDescription = ''Identity Collision Graph export for campaign '' @ [CHR 0x22] @
        gn_label campaign @ [CHR 0x22] @ '' ('' @ show_nat members @ '' members, '' @
        show_nat edges @ '' edges)'',
      in_metadata = JObj [(''campaignLabel'', JStr (gn_label campaign)),
        (''memberCount'', JNum (int members)), (''edgeCount'', JNum (int edges)),
        (''notes'', opt_str notes)],
      in_ipAddress = None, in_deviceId = None\<rparr>"

definition exportCluster ::
    "runtime \<Rightarrow> auth_user \<Rightarrow> string \<Rightarrow> string option \<Rightarrow>
     ('a graph_db_scheme, cluster_snapshot \<times> string) prog" where
  "exportCluster rt user campaignNodeId notes =
     bind_p (find_row graph_nodes (\<lambda>n. gn_id n = campaignNodeId)) (\<lambda>found.
     bind_p (require_some found (NotFoundException ''Campaign node not found'')) (\<lambda>campaign.
     seq_p (ensure (gn_nodeType campaign = NT_CAMPAIGN)
       (NotFoundException ''Export expects a CAMPAIGN node id''))
     (bind_p (find_rows graph_edges (touches campaignNodeId)) (\<lambda>edges.
      let memberIds = (set (map ge_source edges) \<union> set (map ge_target edges)) - {campaignNodeId} in
      bind_p (find_rows graph_nodes (\<lambda>n. gn_id n \<in> memberIds)) (\<lambda>members.
      bind_p (append_evidence rt
        (campaign_export user campaign (length members) (length edges) notes)) (\<lambda>ev.
      ret (buildSnapshot campaign members edges, ev_id ev)))))))"

section \<open>The graph stays well formed\<close>

text \<open>
  At most one node per indicator, every edge in canonical order (so no loops), at most one
  edge per pair and type.
\<close>

definition node_key :: "graph_node \<Rightarrow> indicator_type option \<times> string option" where
  "node_key n = (gn_indicatorType n, gn_normalizedIndicator n)"

definition edge_key :: "graph_edge \<Rightarrow> string \<times> string \<times> edge_type" where
  "edge_key e = (ge_source e, ge_target e, ge_edgeType e)"

definition graph_ok :: "('a graph_db_scheme) \<Rightarrow> bool" where
  "graph_ok w \<longleftrightarrow>
     distinct (map node_key (filter (\<lambda>n. gn_indicatorType n \<noteq> None) (graph_nodes w))) \<and>
     (\<forall>e\<in>set (graph_edges w). ge_source e < ge_target e) \<and>
     distinct (map edge_key (graph_edges w))"

text \<open>A step that keeps the keys of the nodes and the edges keeps the graph well formed.\<close>

definition graph_view ::
    "('a graph_db_scheme) \<Rightarrow> (indicator_type option \<times> string option) list \<times> (string \<times> string \<times> edge_type) list"
  where
  "graph_view w = (map node_key (graph_nodes w), map edge_key (graph_edges w))"

lemma graph_ok_view: "graph_ok w \<longleftrightarrow>
    (case graph_view w of (ns, es) \<Rightarrow>
       distinct (filter (\<lambda>k. fst k \<noteq> None) ns) \<and> (\<forall>(a, b, t)\<in>set es. a < b) \<and> distinct es)"
proof -
  have "map node_key (filter (\<lambda>n. gn_indicatorType n \<noteq> None) ns) =
      filter (\<lambda>k. fst k \<noteq> None) (map node_key ns)" for ns
    by (induction ns) (auto simp: node_key_def)
  then show ?thesis by (auto simp: graph_ok_def graph_view_def edge_key_def)
qed

definition keeps_graph :: "('a graph_db_scheme) \<Rightarrow> ('a graph_db_scheme) \<Rightarrow> bool" where
  "keeps_graph w w' \<longleftrightarrow> (graph_ok w \<longrightarrow> graph_ok w')"

interpretation wf_graph: step_preorder keeps_graph
  by unfold_locales (auto simp: keeps_graph_def)

lemma same_view: "graph_view w' = graph_view w \<Longrightarrow> keeps_graph w w'"
  by (simp add: keeps_graph_def graph_ok_view)

lemma view_ignores [simp]:
  "graph_view (db_tick_update gt w) = graph_view w"
  "graph_view (evidence_events_update ge w) = graph_view w"
  by (simp_all add: graph_view_def)

lemma draw_keeps_graph:
  "moves keeps_graph (now rt)" "moves keeps_graph (new_id rt)"
  by (auto simp: moves_def draw_defs intro!: same_view)

lemma append_keeps_graph: "moves keeps_graph (append_evidence rt input)"
  unfolding append_evidence_def Let_def
  by (intro wf_graph.moves_rules wf_graph.table_moves)
     (auto simp: moves_def draw_defs insert_row_def intro!: same_view split: option.split)

lemma bump_node_key [simp]: "node_key (bump_node s c d t n) = node_key n"
  by (simp add: bump_node_def node_key_def)

lemma bump_fields [simp]:
  "gn_id (bump_node s c d t n) = gn_id n"
  "gn_signalCount (bump_node s c d t n) = gn_signalCount n + 1"
  "gn_riskScore (bump_node s c d t n) = max (gn_riskScore n) s"
  by (simp_all add: bump_node_def)

lemma new_indicator_keeps:
  assumes "find (node_for ty v) (graph_nodes w) = None" "graph_ok w"
  shows "graph_ok (graph_nodes_update (\<lambda>ns. ns @ [indicator_node ty v l c d s uid t]) w)"
proof -
  have "(Some ty, Some v) \<notin> set (map node_key (graph_nodes w))"
    using assms(1) by (auto simp: find_None_iff node_for_def node_key_def)
  with assms(2) show ?thesis
    by (auto simp: graph_ok_view graph_view_def node_key_def indicator_node_def)
qed

lemma update_node_keeps:
  "moves keeps_graph (update_row graph_nodes graph_nodes_update P (bump_node s c d t))"
  by (auto simp: moves_def update_row_def graph_view_def comp_def intro!: same_view
      split: option.split)

text \<open>Find or create: the creation may rely on the row not being there.\<close>

lemma upsert_keeps:
  assumes "\<And>x. moves keeps_graph (u x)" "\<And>w. find P (get w) = None \<Longrightarrow> keeps_graph w (snd (c w))"
  shows "moves keeps_graph (bind_p (find_row get P) (\<lambda>found.
    case found of Some x \<Rightarrow> u x | None \<Rightarrow> c))"
  using assms by (auto simp: moves_def bind_p_def find_row_def ask_def split: option.split)

lemma insert_node_keeps:
  assumes "find (node_for ty v) (graph_nodes w) = None"
  shows "keeps_graph w (snd (bind_p (new_id rt) (\<lambda>uid. bind_p (now rt) (\<lambda>t.
    insert_row graph_nodes_update (indicator_node ty v l c d s uid t))) w))"
  using new_indicator_keeps [of ty v "db_tick_update (\<lambda>_. db_tick w + 2) w"] assms
  by (simp add: bind_p_def insert_row_def draw_defs keeps_graph_def graph_ok_def)

lemma recordNode_keeps: "moves keeps_graph (recordNode rt i)"
  unfolding recordNode_def Let_def
  by (rule upsert_keeps)
     (intro wf_graph.bind_moves draw_keeps_graph update_node_keeps, rule insert_node_keeps)

lemma ensureNode_keeps: "moves keeps_graph (ensureNodeForSignal rt s)"
  unfolding ensureNodeForSignal_def
  by (rule upsert_keeps)
     (intro wf_graph.bind_moves draw_keeps_graph update_node_keeps, rule insert_node_keeps)

lemma canonical_less: "a \<noteq> b \<Longrightarrow> canonical_pair a b = (x, y) \<Longrightarrow> x < y"
  by (auto simp: canonical_pair_def split: if_splits)

lemma upsert_edge_keeps:
  assumes "fst p < snd p"
  shows "moves keeps_graph (upsert_edge_row rt p ty weight)"
  unfolding upsert_edge_row_def
proof (rule upsert_keeps, goal_cases)
  case 1
  show ?case
    by (intro wf_graph.bind_moves draw_keeps_graph)
       (auto simp: moves_def update_row_def graph_view_def edge_key_def comp_def intro!: same_view
         split: option.split)
next
  case (2 w)
  then have "(fst p, snd p, ty) \<notin> set (map edge_key (graph_edges w))"
    by (cases p) (auto simp: find_None_iff edge_between_def edge_key_def)
  with assms show ?case
    by (auto simp: bind_p_def insert_row_def draw_defs keeps_graph_def graph_ok_view graph_view_def
        edge_key_def)
qed

lemma upsertEdge_keeps: "moves keeps_graph (upsertEdge rt a b ty weight)"
  unfolding upsertEdge_def
  by (cases "canonical_pair a b")
     (auto intro!: wf_graph.moves_rules upsert_edge_keeps dest: canonical_less)

lemma link_peer_keeps: "moves keeps_graph (link_peer rt n ty weight q)"
  unfolding link_peer_def
  by (intro wf_graph.moves_rules wf_graph.table_moves upsertEdge_keeps)

lemma processSignal_keeps: "moves keeps_graph (processSignal rt s)"
  unfolding processSignal_def linkClusterPeers_def linkSimilarityPeers_def link_similar_def Let_def
  by (intro wf_graph.moves_rules wf_graph.table_moves ensureNode_keeps link_peer_keeps)

lemma createCampaign_keeps: "moves keeps_graph (createCampaign rt label category)"
  by (auto simp: moves_def createCampaign_def bind_p_def insert_row_def draw_defs keeps_graph_def
      graph_ok_def campaign_node_def)

lemma addCampaignMember_keeps: "moves keeps_graph (addCampaignMember rt c n)"
  unfolding addCampaignMember_def find_campaign_def
  by (intro wf_graph.moves_rules wf_graph.table_moves upsertEdge_keeps)

lemma removeCampaignMember_keeps: "moves keeps_graph (removeCampaignMember c n)"
  by (auto simp: moves_def removeCampaignMember_def delete_rows_def modify_p_def keeps_graph_def
      graph_ok_def distinct_map filter_set intro: inj_on_subset)

text \<open>A row found in a table with unique keys is the row of its key.\<close>

lemma find_by_key:
  "distinct (map key xs) \<Longrightarrow> find P xs = Some x \<Longrightarrow> find (\<lambda>r. key r = key x) xs = Some x"
proof (induction xs)
  case (Cons y ys)
  then show ?case by (auto split: if_splits dest!: find_SomeD)
qed simp

section \<open>The log is respected\<close>

lemma recordNode_safe: "moves (log_safe rt') (recordNode rt i)"
  unfolding recordNode_def Let_def by (auto simp: log_untouched intro!: safe_rules split: option.splits)

lemma upsertEdge_safe: "moves (log_safe rt') (upsertEdge rt a b ty weight)"
  unfolding upsertEdge_def upsert_edge_row_def
  by (auto simp: log_untouched intro!: safe_rules split: option.splits)

lemma link_peer_safe: "moves (log_safe rt') (link_peer rt n ty weight q)"
  unfolding link_peer_def by (auto intro!: safe_rules upsertEdge_safe split: option.splits)

lemma processSignal_safe: "moves (log_safe rt') (processSignal rt s)"
  unfolding processSignal_def ensureNodeForSignal_def linkClusterPeers_def
    linkSimilarityPeers_def link_similar_def Let_def
  by (auto simp: log_untouched intro!: safe_rules link_peer_safe split: option.splits)

lemma createCampaign_safe: "moves (log_safe rt') (createCampaign rt label category)"
  unfolding createCampaign_def by (auto simp: log_untouched intro!: safe_rules)

lemma addCampaignMember_safe: "moves (log_safe rt') (addCampaignMember rt c n)"
  unfolding addCampaignMember_def find_campaign_def
  by (auto intro!: safe_rules upsertEdge_safe split: option.splits)

lemma removeCampaignMember_safe: "moves (log_safe rt') (removeCampaignMember c n)"
  unfolding removeCampaignMember_def by (auto simp: log_untouched intro!: safe_rules)

lemma exportCluster_safe: "moves (log_safe rt) (exportCluster rt user c notes)"
  unfolding exportCluster_def Let_def
  by (auto simp: campaign_export_def intro!: safe_rules append_safe)

section \<open>Properties\<close>

text \<open>
  The states of the graph the service can reach: from an empty graph by its writing operations,
  in any order and with any outcome, other tables changing freely in between.
\<close>

inductive graph_reach :: "runtime \<Rightarrow> ('a graph_db_scheme) \<Rightarrow> bool" for rt where
  start: "graph_nodes w = [] \<Longrightarrow> graph_edges w = [] \<Longrightarrow> graph_reach rt w"
| record_node: "graph_reach rt w \<Longrightarrow> recordNode rt i w = (r, w') \<Longrightarrow> graph_reach rt w'"
| process_signal: "graph_reach rt w \<Longrightarrow> processSignal rt s w = (r, w') \<Longrightarrow> graph_reach rt w'"
| create_campaign: "graph_reach rt w \<Longrightarrow> createCampaign rt l c w = (r, w') \<Longrightarrow> graph_reach rt w'"
| add_member: "graph_reach rt w \<Longrightarrow> addCampaignMember rt c n w = (r, w') \<Longrightarrow> graph_reach rt w'"
| remove_member: "graph_reach rt w \<Longrightarrow> removeCampaignMember c n w = (r, w') \<Longrightarrow> graph_reach rt w'"
| elsewhere: "graph_reach rt w \<Longrightarrow> graph_nodes w' = graph_nodes w \<Longrightarrow>
    graph_edges w' = graph_edges w \<Longrightarrow> graph_reach rt w'"

text \<open>
  C39. In every reachable state there is at most one node per indicator type and normal form,
  no edge is a loop, every edge is stored in canonical order and there is at most one edge per
  pair of nodes and edge type.
\<close>

theorem reachable_graph_well_formed:
  assumes "graph_reach rt w"
  shows "distinct (map node_key (filter (\<lambda>n. gn_indicatorType n \<noteq> None) (graph_nodes w))) \<and>
    (\<forall>e\<in>set (graph_edges w). ge_source e < ge_target e) \<and> distinct (map edge_key (graph_edges w))"
proof -
  from assms have "graph_ok w"
  proof induction
    case (elsewhere w w')
    then show ?case by (simp add: graph_ok_def)
  qed (auto simp: keeps_graph_def graph_ok_def [of w for w :: "'a graph_db_scheme"]
      dest: movesD [OF recordNode_keeps] movesD [OF processSignal_keeps]
        movesD [OF createCampaign_keeps] movesD [OF addCampaignMember_keeps]
        movesD [OF removeCampaignMember_keeps])
  then show ?thesis by (simp add: graph_ok_def)
qed

definition demo_graph :: "graph_node list \<Rightarrow> graph_edge list \<Rightarrow> graph_db" where
  "demo_graph ns es = \<lparr>db_tick = 0, evidence_events = [], audit_logs = [], jobs = [],
     ws_events = [], evidence_files = [], export_bundles = [], deliveries = [], alerts = [],
     users = [], contacts = [], reviews = [], settings = [], profiles = [],
     risk_events = [], pauses = [], holds = [], warnings = [], signals = [],
     similarities = [], graph_nodes = ns, graph_edges = es\<rparr>"

definition demo_input :: "string \<Rightarrow> node_input" where
  "demo_input v = \<lparr>no_indicatorType = IT_EMAIL, no_indicatorValue = v, no_category = None,
     no_riskScore = Some 40, no_source = ''TEST''\<rparr>"

lemma demo_graph_fields [simp]:
  "graph_nodes (demo_graph ns es) = ns" "graph_edges (demo_graph ns es) = es"
  "db_tick (demo_graph ns es) = 0"
  by (simp_all add: demo_graph_def)

theorem reachable_graph_well_formed_witness:
  "\<exists>w. recordNode demo_rt (demo_input ''a@b.c'') (demo_graph [] []) = (Inr (hd (graph_nodes w)), w) \<and>
     length (graph_nodes w) = 1 \<and> distinct (map edge_key (graph_edges w))"
proof -
  let ?m = "recordNode demo_rt (demo_input ''a@b.c'')"
  obtain r w where run: "?m (demo_graph [] []) = (r, w)" by (cases "?m (demo_graph [] [])")
  have "graph_reach demo_rt w"
    by (rule graph_reach.record_node [OF graph_reach.start run]) simp_all
  from reachable_graph_well_formed [OF this] run show ?thesis
    by (auto simp: recordNode_def bind_p_def find_row_def ask_def insert_row_def draw_defs Let_def)
qed

text \<open>
  Recording an indicator finds or creates its node: afterwards the node of its type and
  normal form is the one returned, seen once more than before (once when new) and with the
  larger of the old and the reported risk; a new node is created only when there was none, and
  no other node changes.
\<close>

lemma recordNode_upserts:
  fixes i :: node_input
  defines "key \<equiv> node_for (no_indicatorType i)
    (normalizeIndicator (no_indicatorType i) (no_indicatorValue i))"
    and "score \<equiv> or_default (no_riskScore i) 0"
  assumes "distinct (map gn_id (graph_nodes w))"
  shows "runs (recordNode rt i) w (\<lambda>n w'. find key (graph_nodes w') = Some n \<and>
    (case find key (graph_nodes w) of
       None \<Rightarrow> gn_signalCount n = 1 \<and> gn_riskScore n = score \<and>
         graph_nodes w' = graph_nodes w @ [n]
     | Some old \<Rightarrow> gn_id n = gn_id old \<and> gn_signalCount n = gn_signalCount old + 1 \<and>
         gn_riskScore n = max (gn_riskScore old) score \<and>
         graph_nodes w' = map (\<lambda>q. if gn_id q = gn_id old then n else q) (graph_nodes w)))"
proof (cases "find key (graph_nodes w)")
  case None
  then show ?thesis
    by (simp add: recordNode_def Let_def run_simps key_def score_def find_append_eq
        indicator_node_def node_for_def)
next
  case (Some old)
  have id: "find (\<lambda>n. gn_id n = gn_id old) (graph_nodes w) = Some old"
    by (rule find_by_key [OF assms(3) Some])
  let ?new = "bump_node score (no_category i) (Some (mask_node NT_INDICATOR (Some
    (normalizeIndicator (no_indicatorType i) (no_indicatorValue i))) None (no_indicatorValue i)))"
  have keeps: "key (bump_node s c d t n) = key n" for s c d t n
    by (simp add: key_def node_for_def bump_node_def)
  have rows: "map (\<lambda>q. if gn_id q = gn_id old then ?new t q else q) (graph_nodes w) =
      map (\<lambda>q. if gn_id q = gn_id old then ?new t old else q) (graph_nodes w)" for t
    using same_key [OF assms(3)] find_SomeD [OF Some] by auto
  show ?thesis
    using find_mapped_by [OF Some, of "\<lambda>n. gn_id n = gn_id old"] rows
    by (simp add: recordNode_def Let_def run_simps Some id flip: key_def score_def)
       (simp add: keeps)
qed

lemma recordNode_upserts_witness:
  "runs (bind_p (recordNode demo_rt (demo_input ''A@b.c'')) (\<lambda>_.
     recordNode demo_rt (demo_input '' a@B.c''))) (demo_graph [] [])
     (\<lambda>n w. gn_signalCount n = 2 \<and> graph_nodes w = [n])"
proof -
  have same: "normalizeEmail ''A@b.c'' = ''a@b.c''" "normalizeEmail '' a@B.c'' = ''a@b.c''"
    by (simp_all add: normalizeEmail_def text_eval)
  have one: "find P [x] = Some (y :: 'z) \<longleftrightarrow> x = y \<and> P x" for P x y by simp
  show ?thesis
    unfolding runs_bind
  proof (rule runs_mono [OF recordNode_upserts], simp, goal_cases)
    case (1 n w)
    then have w: "graph_nodes w = [n]" "node_for IT_EMAIL ''a@b.c'' n" "gn_signalCount n = 1"
      by (auto simp: demo_input_def same split: if_splits)
    show ?case
      by (rule runs_mono [OF recordNode_upserts]) (auto simp: w demo_input_def same)
  qed
qed

lemma order_desc_rat_set [simp]: "set (order_desc_rat key rs) = set rs"
  by (simp add: order_desc_rat_def)

lemma order_desc_rat_Nil [simp]: "order_desc_rat key rs = [] \<longleftrightarrow> rs = []"
  by (metis order_desc_rat_set set_empty)

lemma edge_between_iff [simp]:
  "edge_between p ty \<lparr>ge_id = i, ge_source = fst p, ge_target = snd p, ge_edgeType = ty,
     ge_weight = x, ge_evidenceCount = c, ge_firstSeen = t, ge_lastSeen = t'\<rparr>"
  "edge_between p ty (e\<lparr>ge_weight := x, ge_evidenceCount := c, ge_lastSeen := t\<rparr>) \<longleftrightarrow>
   edge_between p ty e"
  by (simp_all add: edge_between_def)

lemma mapped_ex:
  assumes "find P xs = Some x" "P (f x)"
  shows "\<exists>y\<in>set (map (\<lambda>r. if P r then f r else r) xs). P y"
  using find_SomeD [OF assms(1)] assms(2) by (auto intro!: bexI [of _ "f x"])

lemma upsertEdge_there:
  "a \<noteq> b \<Longrightarrow> runs (upsertEdge rt a b ty weight) w (\<lambda>ok w'. ok \<and> graph_nodes w' = graph_nodes w \<and>
     (\<exists>e\<in>set (graph_edges w'). edge_between (canonical_pair a b) ty e))"
  by (cases "find (edge_between (canonical_pair a b) ty) (graph_edges w)")
     (auto simp: upsertEdge_def upsert_edge_row_def runs_catch run_simps edge_between_iff
       simp del: set_map intro!: mapped_ex dest: find_SomeD)

text \<open>The members of a campaign are the nodes at the other ends of its membership edges.\<close>

lemma getCampaign_runs:
  assumes "find (\<lambda>x. gn_id x = c) (graph_nodes w) = Some camp" "gn_nodeType camp = NT_CAMPAIGN"
  shows "runs (getCampaignWithMembers c) w (\<lambda>(camp', ms) w'. w' = w \<and> camp' = camp \<and>
    set ms = {m \<in> set (graph_nodes w). \<exists>e\<in>set (graph_edges w).
      ge_edgeType e = CAMPAIGN_MEMBERSHIP \<and> touches c e \<and> other_end c e = gn_id m})"
  by (auto simp: getCampaignWithMembers_def find_campaign_def run_simps assms Let_def filter_empty_conv
      intro: rev_image_eqI)

lemma canonical_touches:
  "a \<noteq> b \<Longrightarrow> edge_between (canonical_pair a b) ty e \<Longrightarrow> touches a e \<and> other_end a e = b \<and> ge_edgeType e = ty"
  by (auto simp: edge_between_def canonical_pair_def touches_def other_end_def split: if_splits)

lemma touches_canonical:
  "touches a e \<Longrightarrow> other_end a e = b \<Longrightarrow> ge_source e < ge_target e \<Longrightarrow>
   edge_between (canonical_pair a b) (ge_edgeType e) e"
  by (auto simp: edge_between_def canonical_pair_def touches_def other_end_def split: if_splits)

text \<open>
  Adding an indicator to a campaign makes it one of the members the campaign lists, and
  removing it takes it away again, whatever edges the graph had.
\<close>

lemma membership_roundtrip:
  assumes "graph_ok w" "distinct (map gn_id (graph_nodes w))"
    "find (\<lambda>x. gn_id x = c) (graph_nodes w) = Some camp" "gn_nodeType camp = NT_CAMPAIGN"
    "find (\<lambda>x. gn_id x = n) (graph_nodes w) = Some ind" "gn_nodeType ind = NT_INDICATOR"
  shows "runs (addCampaignMember rt c n) w (\<lambda>_ w1.
      runs (getCampaignWithMembers c) w1 (\<lambda>(_, ms) _. ind \<in> set ms) \<and>
      runs (seq_p (removeCampaignMember c n) (getCampaignWithMembers c)) w1
        (\<lambda>(_, ms) _. \<forall>m\<in>set ms. gn_id m \<noteq> n))"
proof -
  have "c \<noteq> n" using assms(3-6) by auto
  have ind: "ind \<in> set (graph_nodes w)" "gn_id ind = n" using find_SomeD [OF assms(5)] by auto
  have added: "runs (addCampaignMember rt c n) w (\<lambda>_ w1. graph_nodes w1 = graph_nodes w \<and>
      (\<exists>e\<in>set (graph_edges w1). edge_between (canonical_pair c n) CAMPAIGN_MEMBERSHIP e))"
    using assms(3-6) \<open>c \<noteq> n\<close>
    by (auto simp: addCampaignMember_def find_campaign_def run_simps
        intro: runs_mono [OF upsertEdge_there])
  show ?thesis
  proof (rule runs_mono [OF runs_and_moves [OF added addCampaignMember_keeps]], goal_cases)
    case (1 u w1)
    then have w1: "graph_ok w1" "graph_nodes w1 = graph_nodes w"
      and e: "\<exists>e\<in>set (graph_edges w1). edge_between (canonical_pair c n) CAMPAIGN_MEMBERSHIP e"
      using assms(1) by (auto simp: keeps_graph_def)
    have found: "find (\<lambda>x. gn_id x = c) (graph_nodes w1) = Some camp" by (simp add: w1 assms(3))
    let ?w2 = "graph_edges_update (filter (\<lambda>e. \<not> edge_between (canonical_pair c n) CAMPAIGN_MEMBERSHIP e)) w1"
    have found2: "find (\<lambda>x. gn_id x = c) (graph_nodes ?w2) = Some camp" by (simp add: found)
    have "runs (getCampaignWithMembers c) w1 (\<lambda>(_, ms) _. ind \<in> set ms)"
      using e ind canonical_touches [OF \<open>c \<noteq> n\<close>]
      by (intro runs_mono [OF getCampaign_runs [OF found assms(4)]]) (auto simp: w1)
    moreover have "runs (getCampaignWithMembers c) ?w2 (\<lambda>(_, ms) _. \<forall>m\<in>set ms. gn_id m \<noteq> n)"
      using w1(1) touches_canonical
      by (intro runs_mono [OF getCampaign_runs [OF found2 assms(4)]])
         (fastforce simp: graph_ok_def)
    ultimately show ?case by (simp add: removeCampaignMember_def run_simps)
  qed
qed

lemma membership_roundtrip_witness:
  "runs (addCampaignMember demo_rt ''c'' ''n'')
     (demo_graph [campaign_node ''C'' None ''c'' 0,
        indicator_node IT_EMAIL ''a@b.c'' ''a@b.c'' None None 40 ''n'' 0] [])
     (\<lambda>_ w1. runs (seq_p (removeCampaignMember ''c'' ''n'') (getCampaignWithMembers ''c'')) w1
        (\<lambda>(_, ms) _. \<forall>m\<in>set ms. gn_id m \<noteq> ''n''))"
  by (rule runs_mono [OF membership_roundtrip])
     (auto simp: graph_ok_def campaign_node_def indicator_node_def)

end
