(* ===== verification/WalletGuard.thy ===== *)
theory WalletGuard
  imports FraudGraph
begin

text \<open>
  WalletGuard (modules/walletguard): a crypto address is validated and scored before money
  moves, kept as a pending row, put behind a Guardian Pause from high risk on, projected onto
  the fraud graph, and decided once by its owner through the enforcement gate.
\<close>

section \<open>State\<close>

record wallet_check =
  wc_id :: string
  wc_userId :: string
  wc_tenantId :: "string option"
  wc_network :: wallet_network
  wc_address :: string
  wc_addressValid :: bool
  wc_reputation :: wallet_reputation
  wc_clipboardSwapDetected :: bool
  wc_walletSwitched :: bool
  wc_graphMatchScore :: "int option"
  wc_urgencyDetected :: bool
  wc_secrecyDetected :: bool
  wc_priorWarningsCount :: nat
  wc_riskScore :: int
  wc_riskLevel :: risk_level
  wc_riskBreakdown :: breakdown
  wc_decision :: wallet_decision
  wc_decidedAt :: "int option"
  wc_decisionNotes :: "string option"
  wc_guardianPauseEventId :: "string option"
  wc_evidenceEventId :: "string option"
  wc_trustedContactReviewId :: "string option"
  wc_metadata :: js
  wc_createdAt :: int

record wallet_db = graph_db +
  wallets :: "wallet_check list"

interpretation wallets_tab: table wallets wallets_update
  by unfold_locales simp

interpretation wallets_frame: unpaused wallets
  by unfold_locales simp_all

section \<open>Checking an address\<close>

record check_wallet_dto =
  cw_network :: wallet_network
  cw_address :: string
  cw_reputation :: "wallet_reputation option"
  cw_clipboardSwapDetected :: "bool option"
  cw_walletSwitched :: "bool option"
  cw_graphMatchScore :: "int option"
  cw_urgencyDetected :: "bool option"
  cw_secrecyDetected :: "bool option"
  cw_metadata :: js

text \<open>A malformed address is not scored: it gets the maximum.\<close>

definition score_wallet :: "check_wallet_dto \<Rightarrow> nat \<Rightarrow> scoring" where
  "score_wallet dto priorWarnings =
     (if isAddressValid (cw_network dto) (cw_address dto)
      then scoreWalletGuard
        \<lparr>wi_reputation = Some (or_default (cw_reputation dto) WR_UNKNOWN),
         wi_clipboardSwap = or_default (cw_clipboardSwapDetected dto) False,
         wi_walletSwitched = or_default (cw_walletSwitched dto) False,
         wi_graphMatch = cw_graphMatchScore dto,
         wi_urgency = or_default (cw_urgencyDetected dto) False,
         wi_secrecy = or_default (cw_secrecyDetected dto) False,
         wi_priorWarnings = int priorWarnings\<rparr>
      else \<lparr>sc_score = 100, sc_level = CRITICAL, sc_breakdown = [(''addressInvalid'', 100)]\<rparr>)"

definition new_wallet ::
    "auth_user \<Rightarrow> check_wallet_dto \<Rightarrow> nat \<Rightarrow> scoring \<Rightarrow> string \<Rightarrow> int \<Rightarrow> wallet_check" where
  "new_wallet user dto priorWarnings scoring uid createdAt =
     \<lparr>wc_id = uid, wc_userId = au_userId user, wc_tenantId = Some (au_tenantId user),
      wc_network = cw_network dto, wc_address = trim (cw_address dto),
      wc_addressValid = isAddressValid (cw_network dto) (cw_address dto),
      wc_reputation = or_default (cw_reputation dto) WR_UNKNOWN,
      wc_clipboardSwapDetected = or_default (cw_clipboardSwapDetected dto) False,
      wc_walletSwitched = or_default (cw_walletSwitched dto) False,
      wc_graphMatchScore = cw_graphMatchScore dto,
      wc_urgencyDetected = or_default (cw_urgencyDetected dto) False,
      wc_secrecyDetected = or_default (cw_secrecyDetected dto) False,
      wc_priorWarningsCount = priorWarnings, wc_riskScore = sc_score scoring,
      wc_riskLevel = sc_level scoring, wc_riskBreakdown = sc_breakdown scoring,
      wc_decision = WD_PENDING, wc_decidedAt = None, wc_decisionNotes = None,
      wc_guardianPauseEventId = None, wc_evidenceEventId = None,
      wc_trustedContactReviewId = None, wc_metadata = stored_json (cw_metadata dto),
      wc_createdAt = createdAt\<rparr>"

definition bool_text :: "bool \<Rightarrow> string" where
  "bool_text b = (if b then ''true'' else ''false'')"

definition wallet_opened ::
    "auth_user \<Rightarrow> check_wallet_dto \<Rightarrow> bool \<Rightarrow> scoring \<Rightarrow> string \<Rightarrow> append_input" where
  "wallet_opened user dto addressValid scoring uid =
     user_event (Some (au_tenantId user)) (au_userId user) ''WALLET_CHECK'' uid
       ''WALLET_CHECK_OPENED''
       (''WalletGuard '' @ network_text (cw_network dto) @ '': '' @ level_text (sc_level scoring) @
          '' (score '' @ show_int (sc_score scoring) @ '', addressValid='' @
          bool_text addressValid @ '')'')
       (JObj [(''riskScore'', JNum (sc_score scoring)),
              (''riskLevel'', JStr (level_text (sc_level scoring))),
              (''breakdown'', breakdown_js (sc_breakdown scoring)),
              (''network'', JStr (network_text (cw_network dto))),
              (''addressValid'', JBool addressValid)])"

definition wallet_pause :: "check_wallet_dto \<Rightarrow> bool \<Rightarrow> risk_level \<Rightarrow> string \<Rightarrow> start_pause_dto" where
  "wallet_pause dto addressValid l uid =
     \<lparr>sp_riskLevel = l,
      sp_triggerType = (if cw_walletSwitched dto = Some True then WALLET_SWITCH
        else CRYPTO_TRANSFER_RISK),
      sp_triggerSummary =
        (if \<not> addressValid
         then ''Wallet address fails '' @ network_text (cw_network dto) @ '' format check''
         else if cw_clipboardSwapDetected dto = Some True
         then ''Clipboard wallet was swapped between copy and paste''
         else network_text (cw_network dto) @ '' wallet flagged as '' @ level_text l @ '' risk''),
      sp_durationSeconds = Some 90, sp_metadata = JObj [(''walletCheckId'', JStr uid)]\<rparr>"

definition wallet_risk :: "scoring \<Rightarrow> string \<Rightarrow> string \<Rightarrow> risk_input" where
  "wallet_risk scoring uid evidenceId =
     \<lparr>ri_moduleSource = RM_WALLETGUARD, ri_sessionId = None,
      ri_eventType = ''WALLETGUARD_CHECK'', ri_riskScore = sc_score scoring,
      ri_riskLevel = sc_level scoring,
      ri_triggerReason = ''Wallet transfer flagged as '' @ level_text (sc_level scoring) @ '' risk'',
      ri_recommendedAction = proceed_action (sc_level scoring), ri_detectedSignals = [],
      ri_metadata = JObj [(''walletCheckId'', JStr uid), (''evidenceEventId'', JStr evidenceId)]\<rparr>"

definition wallet_finding :: "check_wallet_dto \<Rightarrow> scoring \<Rightarrow> node_input" where
  "wallet_finding dto scoring =
     \<lparr>no_indicatorType = IT_CRYPTO_WALLET, no_indicatorValue = cw_address dto,
      no_category = Some ''CRYPTO_SCAM'', no_riskScore = Some (sc_score scoring),
      no_source = ''WALLETGUARD''\<rparr>"

text \<open>A projection onto the graph never breaks the protective flow: its error is swallowed.\<close>

definition project :: "runtime \<Rightarrow> node_input \<Rightarrow> ('a graph_db_scheme, unit) prog" where
  "project rt i = attempt (recordNode rt i)"

definition check_wallet ::
    "runtime \<Rightarrow> auth_user \<Rightarrow> check_wallet_dto \<Rightarrow> ('a wallet_db_scheme, wallet_check) prog" where
  "check_wallet rt user dto =
     (let addressValid = isAddressValid (cw_network dto) (cw_address dto) in
     bind_p (now rt) (\<lambda>t.
     let thirtyDaysAgo = t - 30 * 24 * 60 * 60 * 1000 in
     bind_p (count_rows wallets (\<lambda>c. wc_userId c = au_userId user \<and>
               wc_decision c = WD_CONTINUED_ANYWAY \<and> thirtyDaysAgo \<le> wc_createdAt c))
       (\<lambda>priorWarnings.
     let scoring = score_wallet dto priorWarnings in
     bind_p (new_id rt) (\<lambda>uid.
     bind_p (now rt) (\<lambda>createdAt.
     bind_p (insert_row wallets_update (new_wallet user dto priorWarnings scoring uid createdAt))
       (\<lambda>created.
     bind_p (append_evidence rt (wallet_opened user dto addressValid scoring (wc_id created)))
       (\<lambda>evidence.
     bind_p (if sc_level scoring = HIGH \<or> sc_level scoring = CRITICAL
             then bind_p (start_pause rt user
                            (wallet_pause dto addressValid (sc_level scoring) (wc_id created)))
                    (\<lambda>pause. ret (Some (pe_id pause)))
             else ret None) (\<lambda>guardianPauseId.
     seq_p (record_risk rt user (wallet_risk scoring (wc_id created) (ev_id evidence)))
     (seq_p (project rt (wallet_finding dto scoring))
     (update_row wallets wallets_update (\<lambda>c. wc_id c = wc_id created)
       (\<lambda>c. c\<lparr>wc_evidenceEventId := Some (ev_id evidence),
              wc_guardianPauseEventId := guardianPauseId\<rparr>)))))))))))"

section \<open>Deciding\<close>

datatype wallet_choice =
    WX_VALIDATED | WX_BLOCKED | WX_ESCALATED_TO_TRUSTED_CONTACT | WX_CONTINUED_ANYWAY

fun wallet_next :: "wallet_choice \<Rightarrow> wallet_decision" where
  "wallet_next WX_VALIDATED = WD_VALIDATED"
| "wallet_next WX_BLOCKED = WD_BLOCKED"
| "wallet_next WX_ESCALATED_TO_TRUSTED_CONTACT = WD_ESCALATED_TO_TRUSTED_CONTACT"
| "wallet_next WX_CONTINUED_ANYWAY = WD_CONTINUED_ANYWAY"

definition wallet_kind :: "wallet_choice \<Rightarrow> decision_kind" where
  "wallet_kind d =
     (if d = WX_CONTINUED_ANYWAY then CONTINUE else if d = WX_VALIDATED then RELEASE else OTHER)"

definition wallet_params :: "wallet_choice \<Rightarrow> wallet_check \<Rightarrow> enforce_params" where
  "wallet_params d c =
     \<lparr>en_module = M_WALLETGUARD, en_eventId = wc_id c, en_riskLevel = wc_riskLevel c,
      en_amountMinor = None, en_kind = wallet_kind d\<rparr>"

definition settle_wallet :: "wallet_choice \<Rightarrow> string option \<Rightarrow> int \<Rightarrow> wallet_check \<Rightarrow> wallet_check" where
  "settle_wallet d notes t c =
     c\<lparr>wc_decision := wallet_next d, wc_decidedAt := Some t, wc_decisionNotes := notes\<rparr>"

definition wallet_decided ::
    "auth_user \<Rightarrow> wallet_choice \<Rightarrow> string option \<Rightarrow> wallet_check \<Rightarrow> append_input" where
  "wallet_decided user d notes c =
     user_event (Some (au_tenantId user)) (au_userId user) ''WALLET_CHECK'' (wc_id c)
       (''WALLET_CHECK_'' @ wallet_decision_text (wallet_next d))
       (if d = WX_CONTINUED_ANYWAY then ''User continued past WalletGuard warning''
        else ''Wallet check resolved: '' @ wallet_decision_text (wallet_next d))
       (JObj [(''decision'', JStr (wallet_decision_text (wallet_next d))),
              (''notes'', opt_str notes)])"

definition wallet_review :: "auth_user \<Rightarrow> wallet_check \<Rightarrow> request_input" where
  "wallet_review user c =
     \<lparr>rq_user = user, rq_module = M_WALLETGUARD, rq_eventId = wc_id c,
      rq_summary = network_text (wc_network c) @ '' wallet flagged as '' @
        level_text (wc_riskLevel c) @ '' risk'',
      rq_contactId = None, rq_metadata = JObj [(''walletCheckId'', JStr (wc_id c))]\<rparr>"

definition wallet_follow ::
    "runtime \<Rightarrow> auth_user \<Rightarrow> wallet_choice \<Rightarrow> string option \<Rightarrow> wallet_check \<Rightarrow>
     ('a wallet_db_scheme, unit) prog" where
  "wallet_follow rt user d notes existing =
     seq_p (append_evidence rt (wallet_decided user d notes existing))
     (when_p (d = WX_ESCALATED_TO_TRUSTED_CONTACT)
       (bind_p (requestReview rt (wallet_review user existing)) (\<lambda>review.
        case review of
          None \<Rightarrow> ret ()
        | Some rv \<Rightarrow> void_p (update_row wallets wallets_update (\<lambda>c. wc_id c = wc_id existing)
            (\<lambda>c. c\<lparr>wc_trustedContactReviewId := Some (rv_id rv)\<rparr>)))))"

definition decide_wallet ::
    "runtime \<Rightarrow> auth_user \<Rightarrow> string \<Rightarrow> wallet_choice \<Rightarrow> string option \<Rightarrow>
     ('a wallet_db_scheme, wallet_check) prog" where
  "decide_wallet rt user walletCheckId d notes =
     bind_p (find_row wallets (\<lambda>c. wc_id c = walletCheckId \<and> wc_userId c = au_userId user)) (\<lambda>found.
     bind_p (require_some found (NotFoundException ''Wallet check not found'')) (\<lambda>existing.
     seq_p (ensure (wc_decision existing = WD_PENDING)
       (BadRequestException (''Wallet check already decided ('' @
          wallet_decision_text (wc_decision existing) @ '')'')))
     (seq_p (enforceDecision rt user (wallet_params d existing))
     (bind_p (now rt) (\<lambda>t.
      bind_p (update_row wallets wallets_update (\<lambda>c. wc_id c = wc_id existing)
                (settle_wallet d notes t)) (\<lambda>updated.
      seq_p (wallet_follow rt user d notes existing) (ret updated)))))))"

definition wallet_history :: "auth_user \<Rightarrow> int \<Rightarrow> ('a wallet_db_scheme, wallet_check list) prog" where
  "wallet_history user limit =
     bind_p (find_rows wallets (\<lambda>c. wc_userId c = au_userId user)) (\<lambda>rows.
     ret (take (clamp 1 200 limit) (order_desc wc_createdAt rows)))"

section \<open>The log is respected\<close>

lemma wallet_score_names [simp]: "distinct (map fst (sc_breakdown (score_wallet dto n)))"
  by (simp add: score_wallet_def scoreWalletGuard_def score_breakdown_def Let_def)

lemma project_safe: "moves (log_safe rt') (project rt i)"
  unfolding project_def by (auto intro!: safe_rules recordNode_safe)

lemma check_wallet_safe: "moves (log_safe rt) (check_wallet rt user dto)"
  unfolding check_wallet_def Let_def
  by (auto simp: log_untouched wallet_opened_def
      intro!: safe_rules append_safe start_pause_safe record_risk_safe project_safe)

lemma decide_wallet_safe: "moves (log_safe rt) (decide_wallet rt user cid d notes)"
  unfolding decide_wallet_def wallet_follow_def
  by (auto simp: log_untouched wallet_decided_def
      intro!: safe_rules append_safe enforceDecision_safe requestReview_safe split: option.splits)

section \<open>Properties\<close>

interpretation walletguard: held_action wallets wallets_update wc_id wc_userId
  "\<lambda>c. wc_decision c = WD_PENDING" wallet_params settle_wallet wallet_follow
  "''Wallet check not found''"
  "\<lambda>c. ''Wallet check already decided ('' @ wallet_decision_text (wc_decision c) @ '')''" decide_wallet
proof unfold_locales
  fix d n t and c :: wallet_check
  show "wc_id (settle_wallet d n t c) = wc_id c" "wc_userId (settle_wallet d n t c) = wc_userId c"
    "wc_decision (settle_wallet d n t c) \<noteq> WD_PENDING"
    by (cases d; simp add: settle_wallet_def)+
next
  fix c :: wallet_check and w :: "'a wallet_db_scheme" and rt user d n
  assume "find (\<lambda>q. wc_id q = wc_id c) (wallets w) \<noteq> None"
  then show "runs (wallet_follow rt user d n c) w (\<lambda>_ w'.
      map (\<lambda>q. (wc_id q, wc_userId q, wc_decision q = WD_PENDING)) (wallets w') =
      map (\<lambda>q. (wc_id q, wc_userId q, wc_decision q = WD_PENDING)) (wallets w))"
    by (auto simp: wallet_follow_def run_simps runs_stamped
        intro!: wallets_frame.request_then runs_mono [OF link_keeps_view
          [where view = "\<lambda>q. (wc_id q, wc_userId q, wc_decision q = WD_PENDING)"]])
qed (simp_all add: wallets_frame.seeded_same wallets_frame.enforce_same decide_wallet_def)

lemma wallet_fields [simp]:
  "wc_id (new_wallet user dto n sc uid t) = uid"
  "wc_decision (new_wallet user dto n sc uid t) = WD_PENDING"
  "wc_userId (new_wallet user dto n sc uid t) = au_userId user"
  "wc_riskScore (new_wallet user dto n sc uid t) = sc_score sc"
  "wc_riskLevel (new_wallet user dto n sc uid t) = sc_level sc"
  "wc_guardianPauseEventId (new_wallet user dto n sc uid t) = None"
  by (simp_all add: new_wallet_def)

lemma wallet_payloads [simp]:
  "in_entityId (wallet_opened user dto v sc uid) = uid"
  "in_eventType (wallet_opened user dto v sc uid) = ''WALLET_CHECK_OPENED''"
  "ri_riskScore (wallet_risk sc uid e) = sc_score sc"
  "ri_riskLevel (wallet_risk sc uid e) = sc_level sc"
  "sp_durationSeconds (wallet_pause dto v l uid) = Some 90"
  "sp_riskLevel (wallet_pause dto v l uid) = l"
  by (simp_all add: wallet_opened_def wallet_risk_def wallet_pause_def)

text \<open>What a projection writes: the nodes and the draw counter only, and the node is there.\<close>

lemma recordNode_writes:
  "runs (recordNode rt i) w (\<lambda>n w'. (\<exists>g h. w' = graph_nodes_update g (db_tick_update h w)) \<and>
     (\<exists>n\<in>set (graph_nodes w'). node_for (no_indicatorType i)
        (normalizeIndicator (no_indicatorType i) (no_indicatorValue i)) n))"
proof (cases "find (node_for (no_indicatorType i)
    (normalizeIndicator (no_indicatorType i) (no_indicatorValue i))) (graph_nodes w)")
  case None
  then show ?thesis
    by (simp add: recordNode_def Let_def run_simps indicator_node_def node_for_def)
      (intro exI, rule refl)
next
  case (Some old)
  then have old: "old \<in> set (graph_nodes w)"
    and key: "node_for (no_indicatorType i)
      (normalizeIndicator (no_indicatorType i) (no_indicatorValue i)) old"
    using find_SomeD [OF Some] by simp_all
  obtain n where n: "find (\<lambda>n. gn_id n = gn_id old) (graph_nodes w) = Some n"
    using find_ex [of "\<lambda>n. gn_id n = gn_id old" "graph_nodes w"] old by auto
  have bumped: "\<exists>y\<in>set (map (\<lambda>r. if gn_id r = gn_id old then bump_node s c d t r else r) (graph_nodes w)).
      node_for (no_indicatorType i) (normalizeIndicator (no_indicatorType i) (no_indicatorValue i)) y"
    for s c d t
    using old key by (auto simp: node_for_def bump_node_def intro!: bexI [of _ "bump_node s c d t old"])
  show ?thesis
    by (simp add: recordNode_def Let_def run_simps Some n del: set_map)
      (intro conjI exI, rule refl, rule bumped)
qed

lemma project_then:
  assumes "\<And>g h. (\<exists>n\<in>set (g (graph_nodes w)). node_for (no_indicatorType i)
      (normalizeIndicator (no_indicatorType i) (no_indicatorValue i)) n) \<Longrightarrow>
    Q () (graph_nodes_update g (db_tick_update h w))"
  shows "runs (project rt i) w Q"
  unfolding project_def attempt_def runs_catch runs_void
  by (rule disjI1, rule runs_mono [OF recordNode_writes]) (auto intro!: assms)

text \<open>
  Checking an address opens one pending row for the caller, linked to the evidence event of
  its opening, with the score and level of the scorer, or 100 and critical when the address is
  malformed for its network. From high risk on, and only then, an active pause of 90 seconds at
  the row's own level is opened for the caller and linked; one risk event repeats score and
  level, and the fraud graph has the node of the address afterwards.
\<close>

lemma check_screens_wallet:
  assumes wallets: "fresh_ids rt w (wc_id ` set (wallets w))"
    and pauses: "fresh_ids rt w (pe_id ` set (pauses w))"
  shows "runs (check_wallet rt user dto) w (\<lambda>c w'.
    let prior = length (filter (\<lambda>c. wc_userId c = au_userId user \<and>
          wc_decision c = WD_CONTINUED_ANYWAY \<and>
          rt_clock rt (db_tick w) - 2592000000 \<le> wc_createdAt c) (wallets w));
        scoring = score_wallet dto prior
    in wallets w' = wallets w @ [c] \<and> wc_userId c = au_userId user \<and> wc_decision c = WD_PENDING \<and>
       wc_riskScore c = sc_score scoring \<and> wc_riskLevel c = sc_level scoring \<and>
       (\<not> isAddressValid (cw_network dto) (cw_address dto) \<longrightarrow>
          wc_riskScore c = 100 \<and> wc_riskLevel c = CRITICAL) \<and>
       (\<exists>e es. evidence_events w' = evidence_events w @ e # es \<and>
          wc_evidenceEventId c = Some (ev_id e) \<and> ev_entityId e = wc_id c \<and>
          ev_eventType e = ''WALLET_CHECK_OPENED'') \<and>
       (if HIGH \<le> wc_riskLevel c
        then \<exists>p. pauses w' = pauses w @ [p] \<and> wc_guardianPauseEventId c = Some (pe_id p) \<and>
          pe_userId p = au_userId user \<and> pe_status p = PAUSE_ACTIVE \<and>
          pe_riskLevel p = wc_riskLevel c \<and> pe_expiresAt p = pe_startedAt p + 90000
        else pauses w' = pauses w \<and> wc_guardianPauseEventId c = None) \<and>
       (\<exists>r. risk_events w' = risk_events w @ [r] \<and> re_userId r = au_userId user \<and>
          re_riskScore r = wc_riskScore c \<and> re_riskLevel r = wc_riskLevel c) \<and>
       (\<exists>n\<in>set (graph_nodes w'). node_for IT_CRYPTO_WALLET (normalizeWallet (cw_address dto)) n))"
proof -
  define n where "n = length (filter (\<lambda>c. wc_userId c = au_userId user \<and>
      wc_decision c = WD_CONTINUED_ANYWAY \<and>
      rt_clock rt (db_tick w) - 2592000000 \<le> wc_createdAt c) (wallets w))"
  note eqs = check_wallet_def Let_def run_simps runs_stamped n_def [symmetric]
    record_risk_def find_append_eq fresh_rows [OF wallets]
  have high: "HIGH \<le> l \<longleftrightarrow> l = HIGH \<or> l = CRITICAL" for l
    by (cases l) simp_all
  have finding: "no_indicatorType (wallet_finding dto sc) = IT_CRYPTO_WALLET"
    "no_indicatorValue (wallet_finding dto sc) = cw_address dto" for sc
    by (simp_all add: wallet_finding_def)
  have bad: "\<not> isAddressValid (cw_network dto) (cw_address dto) \<Longrightarrow>
      sc_score (score_wallet dto k) = 100 \<and> sc_level (score_wallet dto k) = CRITICAL" for k
    by (simp add: score_wallet_def)
  have valid: "isAddressValid (cw_network dto) (cw_address dto)"
    if "sc_level (score_wallet dto k) = HIGH" for k
    using bad [of k] that by auto
  show ?thesis
  proof (cases "HIGH \<le> sc_level (score_wallet dto n)")
    case True
    then show ?thesis
      by (simp add: eqs high)
         (rule wallets_frame.pause_then, rule fresh_pauses [OF pauses], simp_all,
          auto simp: eqs pause_opened_def high finding bad valid
            intro!: project_then intro: bexI)
  next
    case False
    with bad show ?thesis by (auto simp: eqs high finding intro!: project_then)
  qed
qed

text \<open>
  A wallet check is resolved at most once, by its owner, through the gate: continuing past
  it was allowed by the policy for its level, validating it under review had an approved review
  of this very check, and afterwards every decision of the owner on it is rejected without
  effect. A decision that fails changes no check.
\<close>

theorem wallet_decided_once:
  assumes "distinct (map wc_id (wallets w))"
  shows "ends (decide_wallet rt user cid d notes) w (\<lambda>r w'.
    case r of
      Inl x \<Rightarrow> wallets w' = wallets w
    | Inr c' \<Rightarrow> \<exists>c. find (\<lambda>c. wc_id c = cid \<and> wc_userId c = au_userId user) (wallets w) = Some c \<and>
        wc_decision c = WD_PENDING \<and> wc_decision c' = wallet_next d \<and>
        (let p = policy_of w user (wc_riskLevel c) None in
         (d = WX_CONTINUED_ANYWAY \<longrightarrow> pd_continueAnywayAllowed p) \<and>
         (d = WX_VALIDATED \<and> pd_reviewRequired p \<longrightarrow> has_approval w M_WALLETGUARD cid)) \<and>
        (\<forall>d2 n2. raises (decide_wallet rt user cid d2 n2) w'
           (\<lambda>x w2. (\<exists>m. x = BadRequestException m) \<and> w2 = w')))"
proof (rule ends_mono [OF walletguard.decided_once [OF assms]], goal_cases)
  case (1 r w')
  then show ?case
    by (cases r)
       (auto simp: settle_wallet_def gate_blocks_def wallet_params_def wallet_kind_def Let_def
         dest: find_SomeD)
qed

definition demo_wallets :: "protection_settings list \<Rightarrow> wallet_check list \<Rightarrow> wallet_db" where
  "demo_wallets ss cs = \<lparr>db_tick = 0, evidence_events = [], audit_logs = [], jobs = [],
     ws_events = [], evidence_files = [], export_bundles = [], deliveries = [], alerts = [],
     users = [], contacts = [demo_contact], reviews = [], settings = ss, profiles = [],
     risk_events = [], pauses = [], holds = [], warnings = [], signals = [], similarities = [],
     graph_nodes = [], graph_edges = [], wallets = cs\<rparr>"

definition demo_wallet_dto :: check_wallet_dto where
  "demo_wallet_dto = \<lparr>cw_network = NW_ETH, cw_address = ''0x12'', cw_reputation = None,
     cw_clipboardSwapDetected = None, cw_walletSwitched = None, cw_graphMatchScore = None,
     cw_urgencyDetected = None, cw_secrecyDetected = None, cw_metadata = JUndef\<rparr>"

lemma demo_wallet_invalid: "\<not> isAddressValid NW_ETH ''0x12''"
  by code_simp

definition demo_wallet :: wallet_check where
  "demo_wallet = new_wallet demo_user demo_wallet_dto 0 (score_wallet demo_wallet_dto 0) ''c1'' 0"

lemma demo_wallet_critical: "sc_level (score_wallet demo_wallet_dto n) = CRITICAL"
  using demo_wallet_invalid by (simp add: score_wallet_def demo_wallet_dto_def)

lemma check_screens_wallet_witness:
  "runs (check_wallet demo_rt demo_user demo_wallet_dto) (demo_wallets [] [])
     (\<lambda>c w'. wallets w' = [c] \<and> wc_riskScore c = 100 \<and>
       (\<exists>p. pauses w' = [p] \<and> wc_guardianPauseEventId c = Some (pe_id p)))"
proof -
  have "fresh_ids demo_rt (demo_wallets [] []) (wc_id ` set (wallets (demo_wallets [] [])))"
    "fresh_ids demo_rt (demo_wallets [] []) (pe_id ` set (pauses (demo_wallets [] [])))"
    by (simp_all add: fresh_ids_def demo_wallets_def)
  moreover have "\<not> isAddressValid (cw_network demo_wallet_dto) (cw_address demo_wallet_dto)"
    using demo_wallet_invalid by (simp add: demo_wallet_dto_def)
  ultimately show ?thesis
    using check_screens_wallet [of demo_rt "demo_wallets [] []" demo_user demo_wallet_dto]
    by (auto simp: Let_def demo_wallet_critical demo_wallets_def elim!: runs_mono)
qed

theorem wallet_decided_once_witness:
  "ends (decide_wallet demo_rt demo_user ''c1'' WX_CONTINUED_ANYWAY None)
     (demo_wallets [strict_settings] [demo_wallet])
     (\<lambda>r w'. \<exists>x. r = Inl x \<and> wallets w' = [demo_wallet])"
proof -
  have d: "distinct (map wc_id (wallets (demo_wallets [strict_settings] [demo_wallet])))"
    by (simp add: demo_wallets_def)
  have "\<not> pd_continueAnywayAllowed (policy_of (demo_wallets [strict_settings] [demo_wallet]) demo_user CRITICAL a)" for a
    by (simp add: policy_of_def settings_of_def demo_wallets_def strict_settings_def demo_user_def
        default_settings_def evaluate_policy_def Let_def)
  moreover have "wc_riskLevel c = CRITICAL"
    if "find P (wallets (demo_wallets [strict_settings] [demo_wallet])) = Some c" for P c
    using find_SomeD [OF that] by (simp add: demo_wallets_def demo_wallet_def demo_wallet_critical)
  moreover have "wallets (demo_wallets [strict_settings] [demo_wallet]) = [demo_wallet]"
    by (simp add: demo_wallets_def)
  ultimately show ?thesis
    by (intro ends_mono [OF wallet_decided_once [OF d]]) (fastforce simp: Let_def split: sum.splits)
qed

end
