(* ===== verification/Clustering.thy ===== *)
theory Clustering
  imports WalletGuard
begin

text \<open>
  Clustering of scam signals (modules/clustering): the key of the cluster a signal belongs to,
  derived from its normal form, and the service that links a signal to its cluster and
  recounts the cluster from its members.
\<close>

section \<open>Cluster keys\<close>

datatype cluster_match =
    SHARED_INDICATOR | SHARED_DOMAIN_ROOT | SHARED_PHONE | SHARED_EMAIL | SHARED_WALLET
  | SHARED_PHRASE | MATCH_SHARED_CATEGORY | MANUAL_MATCH

definition match_text :: "cluster_match \<Rightarrow> string" where
  "match_text m = (case m of
     SHARED_INDICATOR \<Rightarrow> ''SHARED_INDICATOR'' | SHARED_DOMAIN_ROOT \<Rightarrow> ''SHARED_DOMAIN_ROOT''
   | SHARED_PHONE \<Rightarrow> ''SHARED_PHONE'' | SHARED_EMAIL \<Rightarrow> ''SHARED_EMAIL''
   | SHARED_WALLET \<Rightarrow> ''SHARED_WALLET'' | SHARED_PHRASE \<Rightarrow> ''SHARED_PHRASE''
   | MATCH_SHARED_CATEGORY \<Rightarrow> ''SHARED_CATEGORY'' | MANUAL_MATCH \<Rightarrow> ''MANUAL'')"

datatype cluster_status = CLUSTER_ACTIVE | CLUSTER_MONITORING | CLUSTER_ARCHIVED

fun split_on :: "char \<Rightarrow> string \<Rightarrow> string list" where
  "split_on c [] = [[]]"
| "split_on c (x # xs) =
     (if x = c then [] # split_on c xs
      else (case split_on c xs of [] \<Rightarrow> [[x]] | p # ps \<Rightarrow> (x # p) # ps))"

definition domainRoot :: "string \<Rightarrow> string option" where
  "domainRoot host =
     (let clean = strip_end (\<lambda>c. c = CHR ''.'') (to_lower (trim host)) in
      if clean = [] \<or> (\<exists>c\<in>set clean. is_space c) then None
      else let labels = filter (\<lambda>l. l \<noteq> []) (split_on (CHR ''.'') clean) in
        if length labels < 2 then None
        else Some (join_with ''.'' (drop (length labels - 2) labels)))"

definition emailDomain :: "string \<Rightarrow> string option" where
  "emailDomain email =
     (if CHR ''@'' \<notin> set email then None
      else let domain = to_lower (trim (after_last (CHR ''@'') email)) in
        if CHR ''.'' \<in> set domain \<and> \<not> (\<exists>c\<in>set domain. is_space c) then Some domain else None)"

record derived_key =
  dk_key :: string
  dk_matchType :: cluster_match
  dk_label :: string

definition root_key :: "string \<Rightarrow> derived_key" where
  "root_key base = \<lparr>dk_key = ''domain-root:'' @ base, dk_matchType = SHARED_DOMAIN_ROOT,
     dk_label = ''Domain root '' @ em_dash @ '' '' @ base\<rparr>"

definition email_key :: "string \<Rightarrow> derived_key" where
  "email_key domain = \<lparr>dk_key = ''email-domain:'' @ domain, dk_matchType = SHARED_EMAIL,
     dk_label = ''Email domain '' @ em_dash @ '' '' @ domain\<rparr>"

definition deriveClusterKey :: "indicator_type \<Rightarrow> string \<Rightarrow> derived_key option" where
  "deriveClusterKey ty normalized =
     (if ty = IT_DOMAIN \<or> ty = IT_URL then map_option root_key (domainRoot (normalizeDomain normalized))
      else if ty = IT_EMAIL then map_option email_key (emailDomain normalized)
      else None)"

section \<open>State\<close>

record scam_cluster =
  cl_id :: string
  cl_clusterKey :: string
  cl_matchType :: cluster_match
  cl_label :: string
  cl_category :: "string option"
  cl_status :: cluster_status
  cl_signalCount :: nat
  cl_confidenceScore :: int
  cl_firstSeen :: int
  cl_lastSeen :: int
  cl_createdAt :: int

record cluster_db = wallet_db +
  clusters :: "scam_cluster list"

interpretation clusters_tab: table clusters clusters_update
  by unfold_locales simp

section \<open>The service\<close>

definition new_cluster :: "derived_key \<Rightarrow> string option \<Rightarrow> string \<Rightarrow> int \<Rightarrow> scam_cluster" where
  "new_cluster d category uid t =
     \<lparr>cl_id = uid, cl_clusterKey = dk_key d, cl_matchType = dk_matchType d, cl_label = dk_label d,
      cl_category = category, cl_status = CLUSTER_ACTIVE, cl_signalCount = 0,
      cl_confidenceScore = 0, cl_firstSeen = t, cl_lastSeen = t, cl_createdAt = t\<rparr>"

definition aggregate_cluster :: "scam_signal list \<Rightarrow> scam_cluster \<Rightarrow> scam_cluster" where
  "aggregate_cluster members c =
     (if members = [] then c\<lparr>cl_signalCount := 0, cl_confidenceScore := 0\<rparr>
      else c\<lparr>cl_signalCount := length members,
             cl_confidenceScore := Max (set (map ss_confidenceScore members)),
             cl_firstSeen := Min (set (map ss_firstSeen members)),
             cl_lastSeen := Max (set (map ss_lastSeen members))\<rparr>)"

definition recount :: "string \<Rightarrow> ('a cluster_db_scheme, scam_cluster) prog" where
  "recount clusterId =
     bind_p (find_rows signals (\<lambda>s. ss_clusterId s = Some clusterId)) (\<lambda>members.
     update_row clusters clusters_update (\<lambda>c. cl_id c = clusterId) (aggregate_cluster members))"

definition cluster_event ::
    "derived_key \<Rightarrow> bool \<Rightarrow> string \<Rightarrow> string \<Rightarrow> string option \<Rightarrow> append_input" where
  "cluster_event d found clusterId signalId ip =
     \<lparr>in_tenantId = None, in_actorId = None, in_actorType = Some ''SYSTEM'',
      in_entityType = ''SCAM_CLUSTER'', in_entityId = clusterId,
      in_eventType = (if found then ''CLUSTER_LINKED'' else ''CLUSTER_CREATED''),
      in_eventDescription = (if found then ''Signal linked to scam cluster ('' @ dk_label d @ '')''
        else ''Scam cluster created ('' @ dk_label d @ '')''),
      in_metadata = JObj [(''matchType'', JStr (match_text (dk_matchType d))),
        (''signalId'', JStr signalId)],
      in_ipAddress = ip, in_deviceId = None\<rparr>"

text \<open>The cluster of a key, created when there is none.\<close>

definition find_or_create_cluster ::
    "runtime \<Rightarrow> derived_key \<Rightarrow> string option \<Rightarrow> ('a cluster_db_scheme, scam_cluster \<times> bool) prog" where
  "find_or_create_cluster rt d category =
     bind_p (find_row clusters (\<lambda>c. cl_clusterKey c = dk_key d)) (\<lambda>found.
     case found of
       Some c \<Rightarrow> ret (c, True)
     | None \<Rightarrow>
         bind_p (new_id rt) (\<lambda>uid.
         bind_p (now rt) (\<lambda>t.
         bind_p (insert_row clusters_update (new_cluster d category uid t)) (\<lambda>c.
         ret (c, False)))))"

definition link_signal :: "scam_signal \<Rightarrow> scam_cluster \<Rightarrow> ('a cluster_db_scheme, unit) prog" where
  "link_signal s c =
     when_p (ss_clusterId s \<noteq> Some (cl_id c))
       (void_p (update_row signals signals_update (\<lambda>q. ss_id q = ss_id s)
          (\<lambda>q. q\<lparr>ss_clusterId := Some (cl_id c)\<rparr>)))"

definition clusterSignal ::
    "runtime \<Rightarrow> scam_signal \<Rightarrow> string option \<Rightarrow> ('a cluster_db_scheme, scam_cluster option) prog" where
  "clusterSignal rt s ip =
     (case deriveClusterKey (ss_indicatorType s) (ss_normalizedIndicator s) of
        None \<Rightarrow> ret None
      | Some d \<Rightarrow>
          bind_p (find_or_create_cluster rt d (ss_category s)) (\<lambda>(cluster, existing).
          let alreadyLinked = (ss_clusterId s = Some (cl_id cluster)) in
          seq_p (link_signal s cluster)
          (bind_p (recount (cl_id cluster)) (\<lambda>updated.
           seq_p (when_p (\<not> existing \<or> \<not> alreadyLinked)
             (void_p (append_evidence rt (cluster_event d existing (cl_id cluster) (ss_id s) ip))))
           (ret (Some updated))))))"

text \<open>The filters of the listing are ignored unless they name a status and a match type.\<close>

definition cluster_statuses :: "(string \<times> cluster_status) list" where
  "cluster_statuses = [(''ACTIVE'', CLUSTER_ACTIVE), (''MONITORING'', CLUSTER_MONITORING),
     (''ARCHIVED'', CLUSTER_ARCHIVED)]"

definition cluster_matches :: "(string \<times> cluster_match) list" where
  "cluster_matches = map (\<lambda>m. (match_text m, m))
     [SHARED_INDICATOR, SHARED_DOMAIN_ROOT, SHARED_PHONE, SHARED_EMAIL, SHARED_WALLET,
      SHARED_PHRASE, MATCH_SHARED_CATEGORY, MANUAL_MATCH]"

definition listClusters ::
    "string option \<Rightarrow> string option \<Rightarrow> ('a cluster_db_scheme, scam_cluster list) prog" where
  "listClusters status matchType =
     (let st = map_of cluster_statuses (or_default status []);
          mt = map_of cluster_matches (or_default matchType [])
      in
      bind_p (find_rows clusters (\<lambda>c. (st \<noteq> None \<longrightarrow> st = Some (cl_status c)) \<and>
                (mt \<noteq> None \<longrightarrow> mt = Some (cl_matchType c)))) (\<lambda>rows.
      ret (take 200 (order_desc cl_lastSeen rows))))"

definition getCluster :: "string \<Rightarrow> ('a cluster_db_scheme, scam_cluster \<times> scam_signal list) prog" where
  "getCluster i =
     bind_p (find_row clusters (\<lambda>c. cl_id c = i)) (\<lambda>found.
     bind_p (require_some found (NotFoundException ''Scam cluster not found'')) (\<lambda>c.
     bind_p (find_rows signals (\<lambda>s. ss_clusterId s = Some i)) (\<lambda>rows.
     ret (c, take 200 (order_desc ss_lastSeen rows)))))"

section \<open>The log is respected\<close>

lemma cluster_event_storable [simp]: "storable (in_metadata (cluster_event d f c s ip))"
  by (simp add: cluster_event_def)

lemma clusterSignal_safe: "moves (log_safe rt) (clusterSignal rt s ip)"
  unfolding clusterSignal_def find_or_create_cluster_def link_signal_def recount_def Let_def
  by (auto simp: log_untouched intro!: safe_rules append_safe split: option.splits prod.splits)

section \<open>Properties\<close>

text \<open>A domain root is two labels without dots or spaces, in lower case: its own root.\<close>

lemma split_on_parts:
  "l \<in> set (split_on c s) \<Longrightarrow> set l \<subseteq> set s - {c}"
proof (induction s arbitrary: l)
  case (Cons x xs)
  then show ?case
    by (cases "split_on c xs") (fastforce split: if_splits)+
qed simp

lemma split_on_nodot: "c \<notin> set a \<Longrightarrow> split_on c a = [a]"
  by (induction a) auto

lemma split_on_join: "c \<notin> set a \<Longrightarrow> split_on c (a @ c # b) = a # split_on c b"
  by (induction a) auto

lemma lower_char_idem: "lower_char (lower_char c) = lower_char c"
  by (auto simp: lower_char_def code_def)

lemma domainRoot_shape:
  assumes "domainRoot h = Some r"
  obtains a b where "r = a @ ''.'' @ b" "a \<noteq> []" "b \<noteq> []" "CHR ''.'' \<notin> set a" "CHR ''.'' \<notin> set b"
    "\<forall>c\<in>set r. \<not> is_space c \<and> lower_char c = c"
proof -
  define clean where "clean = strip_end (\<lambda>c. c = CHR ''.'') (to_lower (trim h))"
  define labels where "labels = filter (\<lambda>l. l \<noteq> []) (split_on (CHR ''.'') clean)"
  have len: "2 \<le> length labels" and r: "r = join_with ''.'' (drop (length labels - 2) labels)"
    and plain: "\<forall>c\<in>set clean. \<not> is_space c"
    using assms by (auto simp: domainRoot_def Let_def clean_def labels_def split: if_splits)
  have sub: "set clean \<subseteq> set (to_lower (trim h))"
    unfolding clean_def strip_end_def
    by (metis rev_rev_ident set_dropWhileD set_rev subsetI)
  have low: "\<forall>c\<in>set clean. lower_char c = c"
    using sub by (auto simp: to_lower_def lower_char_idem dest!: subsetD)
  obtain a b where ab: "drop (length labels - 2) labels = [a, b]"
  proof -
    have two: "length xs = 2 \<Longrightarrow> \<exists>a b. xs = [a, b]" for xs :: "string list"
      by (cases xs; cases "tl xs") auto
    show ?thesis using two [of "drop (length labels - 2) labels"] len that by auto
  qed
  then have "{a, b} \<subseteq> set labels" by (metis list.set(1,2) set_drop_subset)
  then have "a \<noteq> []" "b \<noteq> []" "a \<in> set (split_on (CHR ''.'') clean)" "b \<in> set (split_on (CHR ''.'') clean)"
    by (auto simp: labels_def)
  with split_on_parts [OF this(3)] split_on_parts [OF this(4)] show ?thesis
    using that [of a b] plain low by (auto simp: r ab is_space_def lower_char_def code_def)
qed

lemma domainRoot_idem: "domainRoot h = Some r \<Longrightarrow> domainRoot r = Some r"
proof (elim domainRoot_shape)
  fix a b assume r: "r = a @ ''.'' @ b" "a \<noteq> []" "b \<noteq> []" "CHR ''.'' \<notin> set a" "CHR ''.'' \<notin> set b"
    "\<forall>c\<in>set r. \<not> is_space c \<and> lower_char c = c"
  have nodrop: "\<forall>c\<in>set s. \<not> P c \<Longrightarrow> dropWhile P s = s" for P and s :: string
    by (cases s) auto
  have "trim r = r" using r(6) by (simp add: trim_def nodrop)
  moreover have "to_lower r = r" using r(6) by (simp add: to_lower_def map_idI)
  moreover have "strip_end (\<lambda>c. c = CHR ''.'') r = r"
    using r(3,5) by (cases b rule: rev_cases) (auto simp: r(1) strip_end_def)
  moreover have "split_on (CHR ''.'') r = [a, b]"
    using r(4,5) by (simp add: r(1) split_on_join split_on_nodot)
  ultimately show "domainRoot r = Some r"
    using r(2,3,6) by (auto simp: domainRoot_def Let_def r(1))
qed

lemma aggregate_fields [simp]:
  "cl_id (aggregate_cluster ms c) = cl_id c"
  "cl_clusterKey (aggregate_cluster ms c) = cl_clusterKey c"
  "cl_signalCount (aggregate_cluster ms c) = length ms"
  by (simp_all add: aggregate_cluster_def)

lemma find_or_create_finds:
  assumes "distinct (map cl_id (clusters w))" "fresh_ids rt w (cl_id ` set (clusters w))"
  shows "runs (find_or_create_cluster rt d cat) w (\<lambda>(c, found) w1.
    find (\<lambda>c. cl_clusterKey c = dk_key d) (clusters w1) = Some c \<and> signals w1 = signals w \<and>
    distinct (map cl_id (clusters w1)))"
proof -
  have "rt_uuid rt (db_tick w) \<notin> cl_id ` set (clusters w)"
    using assms(2) by (simp add: fresh_ids_def)
  then show ?thesis
    using assms(1)
    by (auto simp: find_or_create_cluster_def run_simps new_cluster_def find_append_eq
        split: option.split)
qed

lemma link_signal_links:
  assumes "distinct (map ss_id (signals w))" "s \<in> set (signals w)"
  shows "runs (link_signal s c) w (\<lambda>_ w1. clusters w1 = clusters w \<and>
    signals w1 = map (\<lambda>q. if ss_id q = ss_id s then q\<lparr>ss_clusterId := Some (cl_id c)\<rparr> else q)
      (signals w))"
proof -
  obtain q where "find (\<lambda>q. ss_id q = ss_id s) (signals w) = Some q"
    using assms(2) find_ex [of "\<lambda>q. ss_id q = ss_id s" "signals w"] by auto
  moreover have "map (\<lambda>q. if ss_id q = ss_id s then q\<lparr>ss_clusterId := Some (cl_id c)\<rparr> else q)
      (signals w) = signals w" if "ss_clusterId s = Some (cl_id c)"
  proof -
    have "s\<lparr>ss_clusterId := Some (cl_id c)\<rparr> = s" using that by (cases s) simp
    then have "(if ss_id q = ss_id s then q\<lparr>ss_clusterId := Some (cl_id c)\<rparr> else q) = q"
      if "q \<in> set (signals w)" for q
      using same_key [OF assms(1) that assms(2)] by auto
    then show ?thesis by (rule map_idI)
  qed
  ultimately show ?thesis by (simp add: link_signal_def run_simps)
qed

lemma recount_counts:
  assumes "distinct (map cl_id (clusters w))" "find P (clusters w) = Some c"
    "\<And>ms c. P (aggregate_cluster ms c) = P c"
  shows "runs (recount (cl_id c)) w (\<lambda>u w1. cl_id u = cl_id c \<and> signals w1 = signals w \<and>
    cl_signalCount u = length (filter (\<lambda>q. ss_clusterId q = Some (cl_id c)) (signals w)) \<and>
    find P (clusters w1) = Some u)"
proof -
  have "find (\<lambda>r. cl_id r = cl_id c) (clusters w) = Some c"
    by (rule find_by_key [OF assms(1,2)])
  then show ?thesis
    using find_mapped_by [OF assms(2), of "\<lambda>r. cl_id r = cl_id c"] assms(3)
    by (simp add: recount_def run_simps)
qed

text \<open>
  Clustering links a signal of a clustered type to the one cluster of its key, whose count
  is then the number of its members, and touches nothing else of any signal: no status, score
  or category moves by being clustered. A signal of another type is left alone.
\<close>

lemma clustering_links_signal:
  assumes "distinct (map ss_id (signals w))" "s \<in> set (signals w)"
    "distinct (map cl_id (clusters w))" "fresh_ids rt w (cl_id ` set (clusters w))"
  shows "runs (clusterSignal rt s ip) w (\<lambda>res w'.
    case deriveClusterKey (ss_indicatorType s) (ss_normalizedIndicator s) of
      None \<Rightarrow> res = None \<and> w' = w
    | Some d \<Rightarrow> \<exists>c. res = Some c \<and>
        find (\<lambda>c. cl_clusterKey c = dk_key d) (clusters w') = Some c \<and>
        cl_signalCount c = length (filter (\<lambda>q. ss_clusterId q = Some (cl_id c)) (signals w')) \<and>
        signals w' = map (\<lambda>q. if ss_id q = ss_id s then q\<lparr>ss_clusterId := Some (cl_id c)\<rparr> else q)
          (signals w))"
proof (cases "deriveClusterKey (ss_indicatorType s) (ss_normalizedIndicator s)")
  case None
  then show ?thesis by (simp add: clusterSignal_def run_simps)
next
  case (Some d)
  have linked: "runs (link_signal s c) w1 (\<lambda>_ w2. runs (recount (cl_id c)) w2 (\<lambda>u w3.
      cl_id u = cl_id c \<and> find (\<lambda>c. cl_clusterKey c = dk_key d) (clusters w3) = Some u \<and>
      cl_signalCount u = length (filter (\<lambda>q. ss_clusterId q = Some (cl_id c)) (signals w3)) \<and>
      signals w3 = map (\<lambda>q. if ss_id q = ss_id s then q\<lparr>ss_clusterId := Some (cl_id c)\<rparr> else q)
        (signals w)))"
    if "find (\<lambda>c. cl_clusterKey c = dk_key d) (clusters w1) = Some c" "signals w1 = signals w"
      "distinct (map cl_id (clusters w1))" for c w1
    by (rule runs_mono [OF link_signal_links], simp_all add: that(2) assms(1,2))
       (rule runs_mono [OF recount_counts [where P = "\<lambda>c. cl_clusterKey c = dk_key d"]],
        use that in auto)
  show ?thesis
    unfolding clusterSignal_def Some Let_def option.case runs_bind runs_seq
  proof (rule runs_mono [OF find_or_create_finds [OF assms(3,4)]], clarsimp simp: runs_seq runs_bind)
    fix c found w1
    assume "find (\<lambda>c. cl_clusterKey c = dk_key d) (clusters w1) = Some c"
      "signals w1 = signals w" "distinct (map cl_id (clusters w1))"
    from linked [OF this] show "runs (link_signal s c) w1 (\<lambda>_ w2. runs (recount (cl_id c)) w2 (\<lambda>u w3.
        runs (when_p (found \<longrightarrow> ss_clusterId s \<noteq> Some (cl_id c))
          (void_p (append_evidence rt (cluster_event d found (cl_id c) (ss_id s) ip)))) w3 (\<lambda>_ w4.
          runs (ret (Some u)) w4 (\<lambda>res w'. \<exists>c. res = Some c \<and>
            find (\<lambda>c. cl_clusterKey c = dk_key d) (clusters w') = Some c \<and>
            cl_signalCount c = length (filter (\<lambda>q. ss_clusterId q = Some (cl_id c)) (signals w')) \<and>
            signals w' = map (\<lambda>q. if ss_id q = ss_id s then q\<lparr>ss_clusterId := Some (cl_id c)\<rparr> else q)
              (signals w)))))"
      by (elim runs_mono) (simp add: run_simps runs_stamped)
  qed
qed

definition demo_clusters :: "scam_signal list \<Rightarrow> scam_cluster list \<Rightarrow> cluster_db" where
  "demo_clusters ss cs = \<lparr>db_tick = 0, evidence_events = [], audit_logs = [], jobs = [],
     ws_events = [], evidence_files = [], export_bundles = [], deliveries = [], alerts = [],
     users = [], contacts = [], reviews = [], settings = [], profiles = [],
     risk_events = [], pauses = [], holds = [], warnings = [], signals = ss, similarities = [],
     graph_nodes = [], graph_edges = [], wallets = [], clusters = cs\<rparr>"

definition demo_signal :: "string \<Rightarrow> string \<Rightarrow> scam_signal" where
  "demo_signal i v = \<lparr>ss_id = i, ss_tenantId = None, ss_submittedByUserId = None,
     ss_sourceType = USER_REPORT, ss_sourceName = None, ss_category = None,
     ss_indicatorType = IT_DOMAIN, ss_indicatorValue = v, ss_normalizedIndicator = v,
     ss_description = None, ss_rawText = None, ss_reportCount = 1, ss_confidenceScore = 27,
     ss_sourceReliabilityScore = 11, ss_evidenceStrengthScore = 3, ss_recencyScore = 10,
     ss_status = UNVERIFIED_REPORT, ss_geography = None, ss_firstSeen = 0, ss_lastSeen = 0,
     ss_clusterId = None, ss_publicSafeCandidate = False, ss_createdAt = 0\<rparr>"

lemma clustering_links_signal_witness:
  "runs (clusterSignal demo_rt (demo_signal ''s1'' ''pay.evil.io'') None)
     (demo_clusters [demo_signal ''s1'' ''pay.evil.io''] [])
     (\<lambda>res w'. \<exists>c. res = Some c \<and> cl_signalCount c = 1)"
proof -
  have key: "deriveClusterKey IT_DOMAIN ''pay.evil.io'' = Some (root_key ''evil.io'')"
    by code_simp
  show ?thesis
    by (rule runs_mono [OF clustering_links_signal])
       (auto simp: demo_clusters_def demo_signal_def fresh_ids_def key)
qed

end
