(* ===== verification/NlpStub.thy ===== *)
theory NlpStub
  imports Database
begin

text \<open>
  The in-process classifier of suspicious text (modules/ai/nlp-stub.ts), with the fragment of
  regular expressions it uses. A pattern is matched from a cursor (the character before, for
  word boundaries, and the text ahead) and gives every cursor it may end at, so a text
  satisfies \<open>RegExp.test\<close> when some position has an end.
\<close>

section \<open>Patterns\<close>

text \<open>
  Literals ignore case (the flag \<open>i\<close>); \<open>Spaces\<close> is \<open>\s+\<close>, \<open>Bound\<close> is \<open>\b\<close>, \<open>AnyChar\<close> is a dot,
  \<open>AnyRun\<close> is \<open>.*\<close> and \<open>Digit\<close> is \<open>\d\<close>.
\<close>

datatype pat =
    Lit string
  | Spaces
  | Bound
  | AnyChar
  | AnyRun
  | Digit
  | Maybe pat
  | Either pat pat
  | Then pat pat

type_synonym cursor = "char option \<times> string"

definition word_char :: "char \<Rightarrow> bool" where
  "word_char c \<longleftrightarrow> is_digit c \<or> 65 \<le> code c \<and> code c \<le> 90 \<or> 97 \<le> code c \<and> code c \<le> 122 \<or> c = CHR ''_''"

definition line_end :: "char \<Rightarrow> bool" where
  "line_end c \<longleftrightarrow> code c = 10 \<or> code c = 13"

definition ascii_lower :: "char \<Rightarrow> char" where
  "ascii_lower c = (if 65 \<le> code c \<and> code c \<le> 90 then char_of (code c + 32) else c)"

definition word_before :: "cursor \<Rightarrow> bool" where
  "word_before cur = (case fst cur of None \<Rightarrow> False | Some c \<Rightarrow> word_char c)"

definition word_ahead :: "cursor \<Rightarrow> bool" where
  "word_ahead cur = (case snd cur of [] \<Rightarrow> False | c # _ \<Rightarrow> word_char c)"

text \<open>The cursors after one character, and after each nonempty run of characters of a class.\<close>

definition one_of :: "(char \<Rightarrow> bool) \<Rightarrow> cursor \<Rightarrow> cursor list" where
  "one_of P cur = (case snd cur of [] \<Rightarrow> [] | c # cs \<Rightarrow> if P c then [(Some c, cs)] else [])"

fun run_of :: "(char \<Rightarrow> bool) \<Rightarrow> string \<Rightarrow> cursor list" where
  "run_of P [] = []"
| "run_of P (c # cs) = (if P c then (Some c, cs) # run_of P cs else [])"

fun literal :: "string \<Rightarrow> cursor \<Rightarrow> cursor list" where
  "literal [] cur = [cur]"
| "literal (x # xs) (p, []) = []"
| "literal (x # xs) (p, c # cs) =
     (if ascii_lower c = ascii_lower x then literal xs (Some c, cs) else [])"

primrec match_at :: "pat \<Rightarrow> cursor \<Rightarrow> cursor list" where
  "match_at (Lit s) cur = literal s cur"
| "match_at Spaces cur = run_of is_space (snd cur)"
| "match_at Bound cur = (if word_before cur \<noteq> word_ahead cur then [cur] else [])"
| "match_at AnyChar cur = one_of (\<lambda>c. \<not> line_end c) cur"
| "match_at AnyRun cur = cur # run_of (\<lambda>c. \<not> line_end c) (snd cur)"
| "match_at Digit cur = one_of is_digit cur"
| "match_at (Maybe p) cur = match_at p cur @ [cur]"
| "match_at (Either p q) cur = match_at p cur @ match_at q cur"
| "match_at (Then p q) cur = concat (map (match_at q) (match_at p cur))"

fun found_from :: "pat \<Rightarrow> char option \<Rightarrow> string \<Rightarrow> bool" where
  "found_from p prev [] = (match_at p (prev, []) \<noteq> [])"
| "found_from p prev (c # cs) = (match_at p (prev, c # cs) \<noteq> [] \<or> found_from p (Some c) cs)"

definition test_pat :: "pat \<Rightarrow> string \<Rightarrow> bool" where
  "test_pat p s = found_from p None s"

fun seqs :: "pat list \<Rightarrow> pat" where
  "seqs [] = Lit []"
| "seqs [p] = p"
| "seqs (p # q # ps) = Then p (seqs (q # ps))"

fun alts :: "pat list \<Rightarrow> pat" where
  "alts [] = Lit []"
| "alts [p] = p"
| "alts (p # q # ps) = Either p (alts (q # ps))"

definition words_alt :: "string list \<Rightarrow> pat" where
  "words_alt ws = alts (map Lit ws)"

text \<open>Words separated by white space between two word boundaries.\<close>

definition phrase :: "pat list \<Rightarrow> pat" where
  "phrase ps = seqs (Bound # ps @ [Bound])"

lemmas pattern_eval = phrase_def words_alt_def test_pat_def word_before_def word_ahead_def word_char_def
  ascii_lower_def one_of_def text_eval

section \<open>The rule set\<close>

definition bank_patterns :: "pat list" where
  "bank_patterns =
     [phrase [Lit ''safe'', Spaces, Lit ''account''],
      phrase [Lit ''verify'', Spaces, Maybe (seqs [Lit ''your'', Spaces]), Lit ''account''],
      phrase [Lit ''account'', Spaces, Maybe (seqs [Lit ''is'', Spaces]),
        alts [Lit ''locked'', Lit ''suspended'', seqs [Lit ''on'', Spaces, Lit ''hold'']]],
      phrase [Lit ''bank'', Spaces,
        alts [Lit ''security'', seqs [Lit ''fraud'', Spaces, Lit ''team'']]]]"

definition gift_card_patterns :: "pat list" where
  "gift_card_patterns =
     [phrase [Lit ''gift'', Spaces, Lit ''card'', Maybe (Lit ''s'')],
      phrase [alts [seqs [Lit ''google'', Spaces, Lit ''play''], Lit ''itunes'', Lit ''amazon''],
        Spaces, Lit ''card''],
      phrase [words_alt [''read'', ''share''], Spaces, Maybe (seqs [Lit ''me'', Spaces]),
        Lit ''the'', Spaces, Lit ''code'']]"

definition remote_access_patterns :: "pat list" where
  "remote_access_patterns =
     [phrase [Lit ''remote'', Spaces, Lit ''access''],
      phrase [words_alt [''teamviewer'', ''anydesk'', ''logmein'']],
      phrase [Lit ''install'', AnyRun, words_alt [''remote'', ''support''], Spaces, Lit ''tool'']]"

definition tech_support_patterns :: "pat list" where
  "tech_support_patterns =
     [phrase [words_alt [''microsoft'', ''apple'', ''windows''], Spaces,
        words_alt [''support'', ''technician'']],
      phrase [Lit ''your'', Spaces, Lit ''computer'', Spaces, Maybe (seqs [Lit ''is'', Spaces]),
        Lit ''infected'']]"

definition government_patterns :: "pat list" where
  "government_patterns =
     [phrase [alts [Lit ''irs'', seqs [Lit ''social'', Spaces, Lit ''security''], Lit ''hmrc'', Lit ''cra'']],
      phrase [Lit ''social'', Spaces, Lit ''security'', Spaces,
        Maybe (seqs [Lit ''number'', Spaces]), Maybe (seqs [Lit ''is'', Spaces]),
        words_alt [''suspended'', ''compromised'']],
      phrase [alts [seqs [Lit ''arrest'', Spaces, Lit ''warrant''],
        seqs [Lit ''warrant'', Spaces, Lit ''for'', Spaces, Lit ''your'', Spaces, Lit ''arrest'']]]]"

definition crypto_patterns :: "pat list" where
  "crypto_patterns =
     [phrase [Lit ''crypto'', Spaces, words_alt [''investment'', ''opportunity'']],
      phrase [Lit ''bitcoin'', Spaces, words_alt [''profit'', ''investment'']],
      phrase [Lit ''guaranteed'', Spaces, Lit ''return'', Maybe (Lit ''s'')]]"

definition romance_patterns :: "pat list" where
  "romance_patterns =
     [phrase [Lit ''soulmate''],
      phrase [Lit ''my'', Spaces, Maybe (seqs [Lit ''only'', Spaces]), Lit ''love''],
      phrase [words_alt [''send'', ''wire''], Spaces, Maybe (seqs [Lit ''me'', Spaces]),
        Maybe (seqs [Lit ''some'', Spaces]), Lit ''money'']]"

definition CATEGORY_PATTERNS :: "(string \<times> pat list) list" where
  "CATEGORY_PATTERNS =
     [(''BANK_IMPERSONATION'', bank_patterns), (''GIFT_CARD_SCAM'', gift_card_patterns),
      (''REMOTE_ACCESS_SCAM'', remote_access_patterns),
      (''TECH_SUPPORT_SCAM'', tech_support_patterns),
      (''GOVERNMENT_IMPERSONATION'', government_patterns), (''CRYPTO_SCAM'', crypto_patterns),
      (''ROMANCE_SCAM'', romance_patterns)]"

definition urgency_patterns :: "pat list" where
  "urgency_patterns =
     [phrase [alts [Lit ''urgent'', Lit ''immediately'', seqs [Lit ''right'', Spaces, Lit ''now''],
        seqs [Lit ''expire'', Maybe (Lit ''s''), Spaces,
          alts [Lit ''today'', seqs [Lit ''in'', Spaces, Digit]]]]],
      phrase [alts [seqs [Lit ''act'', Spaces, Lit ''now''],
        seqs [Lit ''don'', Maybe AnyChar, Lit ''t'', Spaces, Lit ''wait'']]]]"

definition secrecy_patterns :: "pat list" where
  "secrecy_patterns =
     [phrase [alts [seqs [Lit ''do'', Spaces, Lit ''not''], seqs [Lit ''don'', Maybe AnyChar, Lit ''t'']],
        Spaces, Lit ''tell'', Spaces, words_alt [''anyone'', ''anybody'']],
      phrase [Lit ''keep'', Spaces, Maybe (seqs [Lit ''this'', Spaces]),
        Maybe (seqs [Lit ''a'', Spaces]), Lit ''secret''],
      phrase [Lit ''between'', Spaces,
        Maybe (seqs [Lit ''you'', Spaces, Lit ''and'', Spaces]), Lit ''me'']]"

definition authority_patterns :: "pat list" where
  "authority_patterns =
     [phrase [alts [Lit ''official'', Lit ''government'', seqs [Lit ''law'', Spaces, Lit ''enforcement''],
        Lit ''federal'', Lit ''court''], Spaces, words_alt [''notice'', ''order'', ''action'']],
      phrase [Lit ''on'', Spaces, Lit ''behalf'', Spaces, Lit ''of'']]"

definition pressure_patterns :: "pat list" where
  "pressure_patterns =
     [phrase [alts [seqs [Lit ''or'', Spaces, Lit ''else''],
        seqs [Lit ''otherwise'', Spaces, Lit ''you'', Spaces, Lit ''will''],
        seqs [Lit ''will'', Spaces, Lit ''be'', Spaces, words_alt [''arrested'', ''sued'', ''charged'']]]],
      phrase [Lit ''final'', Spaces, words_alt [''notice'', ''warning'']]]"

definition TACTIC_PATTERNS :: "(string \<times> pat list) list" where
  "TACTIC_PATTERNS =
     [(''urgency'', urgency_patterns), (''secrecy'', secrecy_patterns),
      (''fake-authority'', authority_patterns), (''pressure'', pressure_patterns)]"

section \<open>The classifier\<close>

record nlp_input =
  ni_text :: string
  ni_indicatorType :: "string option"
  ni_hintedCategory :: "string option"

record nlp_output =
  np_category :: "string option"
  np_categoryConfidence :: int
  np_scamScore :: int
  np_manipulationTactics :: "string list"
  np_modelVersion :: string

definition STUB_MODEL_VERSION :: string where
  "STUB_MODEL_VERSION = ''nlp-stub-1.0.0''"

definition hits :: "(string \<times> pat list) list \<Rightarrow> string \<Rightarrow> string list" where
  "hits rules text = map fst (filter (\<lambda>r. \<exists>p\<in>set (snd r). test_pat p text) rules)"

definition classifyWithStub :: "nlp_input \<Rightarrow> nlp_output" where
  "classifyWithStub i =
     (let categoryHits = hits CATEGORY_PATTERNS (ni_text i);
          tacticHits = hits TACTIC_PATTERNS (ni_text i);
          nc = int (length categoryHits)
      in \<lparr>np_category = or_else (first_of categoryHits) (ni_hintedCategory i),
          np_categoryConfidence =
            (if categoryHits \<noteq> [] then min 70 (35 + nc * 15)
             else if ni_hintedCategory i \<noteq> None \<and> ni_hintedCategory i \<noteq> Some [] then 20 else 0),
          np_scamScore = min 70 ((if categoryHits \<noteq> [] then 30 else 10) + nc * 12 +
            int (length tacticHits) * 8),
          np_manipulationTactics = tacticHits,
          np_modelVersion = STUB_MODEL_VERSION\<rparr>)"

section \<open>Properties\<close>

lemma hits_bound: "length (hits rules text) \<le> length rules"
  by (simp add: hits_def)

text \<open>The order of the rules is kept, so the first hit is the first rule that matches.\<close>

lemma hits_sub: "set (hits rules text) \<subseteq> set (map fst rules)"
  by (auto simp: hits_def)

text \<open>
  A verdict of the stub never looks verified: whatever the text, its score lies between 10
  and 70 and its confidence between 0 and 70. A text on which no category rule matches scores
  at most 42, less than any text on which one does, and its category is the caller's hint.
\<close>

lemma stub_stays_tentative:
  "let v = classifyWithStub i; cs = hits CATEGORY_PATTERNS (ni_text i) in
   10 \<le> np_scamScore v \<and> np_scamScore v \<le> 70 \<and>
   0 \<le> np_categoryConfidence v \<and> np_categoryConfidence v \<le> 70 \<and>
   (if cs = [] then np_scamScore v \<le> 42 \<and> np_category v = ni_hintedCategory i
    else 42 \<le> np_scamScore v \<and> 50 \<le> np_categoryConfidence v \<and> np_category v = Some (hd cs))"
proof -
  have "length (hits TACTIC_PATTERNS (ni_text i)) \<le> 4"
    using hits_bound [of TACTIC_PATTERNS "ni_text i"] by (simp add: TACTIC_PATTERNS_def)
  then show ?thesis
    by (cases "hits CATEGORY_PATTERNS (ni_text i)")
       (simp_all add: classifyWithStub_def Let_def first_of_def)
qed

text \<open>A pattern at work.\<close>

lemma phrase_found:
  "test_pat (phrase [Lit ''gift'', Spaces, Lit ''card'', Maybe (Lit ''s'')]) ''a Gift  cards''"
  "\<not> test_pat (phrase [Lit ''gift'', Spaces, Lit ''card'']) ''gift cards''"
  by (simp_all add: pattern_eval)

end
