(* ===== verification/EmbeddingStub.thy ===== *)
theory EmbeddingStub
  imports Indicators Complex_Main "HOL-Library.Word"
begin

text \<open>
  The in-process embedding of a text (modules/ai/embedding-stub.ts): character trigrams, hashed
  by 32-bit FNV-1a into 64 counters, scaled by their Euclidean norm. The components are floating
  point numbers in the source; here they are rationals, and the square root is a parameter.
\<close>

unbundle bit_operations_syntax

text \<open>\<open>Math.imul(...) >>> 0\<close> is the multiplication of 32-bit words.\<close>

definition fnv1a :: "string \<Rightarrow> 32 word" where
  "fnv1a s = foldl (\<lambda>h c. (h XOR of_nat (code c)) * 0x01000193) 0x811c9dc5 s"

definition STUB_EMBEDDING_VERSION :: string where
  "STUB_EMBEDDING_VERSION = ''embedding-stub-1.0.0''"

definition STUB_EMBEDDING_DIMS :: nat where
  "STUB_EMBEDDING_DIMS = 64"

type_synonym vec = "rat list"

definition square_sum :: "vec \<Rightarrow> rat" where
  "square_sum v = sum_list (map (\<lambda>x. x * x) v)"

definition l2normalize :: "(rat \<Rightarrow> rat) \<Rightarrow> vec \<Rightarrow> vec" where
  "l2normalize sq v = (let norm = sq (square_sum v) in if norm = 0 then v else map (\<lambda>x. x / norm) v)"

text \<open>The windows of three characters, from left to right.\<close>

fun trigrams :: "string \<Rightarrow> string list" where
  "trigrams (a # b # c # cs) = [a, b, c] # trigrams (b # c # cs)"
| "trigrams _ = []"

definition bucket :: "string \<Rightarrow> nat" where
  "bucket trigram = unat (fnv1a trigram) mod STUB_EMBEDDING_DIMS"

definition count_trigram :: "vec \<Rightarrow> string \<Rightarrow> vec" where
  "count_trigram v trigram = v[bucket trigram := v ! bucket trigram + 1]"

definition trigram_counts :: "string \<Rightarrow> vec" where
  "trigram_counts s = foldl count_trigram (replicate STUB_EMBEDDING_DIMS 0) (trigrams s)"

definition normalized_text :: "string \<Rightarrow> string" where
  "normalized_text text = trim (collapse_spaces (to_lower text))"

record embedding_output =
  eo_vector :: vec
  eo_modelVersion :: string

definition stubEmbed :: "(rat \<Rightarrow> rat) \<Rightarrow> string \<Rightarrow> embedding_output option" where
  "stubEmbed sq text =
     (let normalized = normalized_text text in
      if length normalized < 3 then None
      else Some \<lparr>eo_vector = l2normalize sq (trigram_counts normalized),
                 eo_modelVersion = STUB_EMBEDDING_VERSION\<rparr>)"

definition dot :: "vec \<Rightarrow> vec \<Rightarrow> rat" where
  "dot a b = sum_list (map (\<lambda>(x, y). x * y) (zip a b))"

definition cosineSimilarity :: "vec \<Rightarrow> vec \<Rightarrow> rat" where
  "cosineSimilarity a b =
     (if length a \<noteq> length b \<or> a = [] then 0
      else if dot a b > 1 then 1 else if dot a b < - 1 then - 1 else dot a b)"

section \<open>Properties\<close>

lemma length_trigrams: "length (trigrams s) = length s - 2"
  by (induction s rule: trigrams.induct) auto

lemma bucket_bound: "bucket t < STUB_EMBEDDING_DIMS"
  by (simp add: bucket_def STUB_EMBEDDING_DIMS_def)

lemma sum_bumped: "i < length v \<Longrightarrow> sum_list (v[i := v ! i + 1]) = sum_list v + (1 :: rat)"
  by (induction v arbitrary: i) (auto split: nat.split)

lemma count_trigram_sum:
  "length v = STUB_EMBEDDING_DIMS \<Longrightarrow> sum_list (count_trigram v t) = sum_list v + 1"
  using bucket_bound [of t] by (simp add: count_trigram_def sum_bumped)

lemma count_trigram_length [simp]: "length (count_trigram v t) = length v"
  by (simp add: count_trigram_def)

lemma counts_of:
  "length v = STUB_EMBEDDING_DIMS \<Longrightarrow>
   length (foldl count_trigram v ts) = STUB_EMBEDDING_DIMS \<and>
   sum_list (foldl count_trigram v ts) = sum_list v + of_nat (length ts)"
  by (induction ts arbitrary: v)
     (simp_all add: count_trigram_length count_trigram_sum add.commute)

text \<open>Every window is counted once, in one of the 64 counters.\<close>

lemma trigram_counts_total:
  "length (trigram_counts s) = STUB_EMBEDDING_DIMS"
  "sum_list (trigram_counts s) = of_nat (length s - 2)"
  using counts_of [of "replicate STUB_EMBEDDING_DIMS 0" "trigrams s"]
  by (simp_all add: trigram_counts_def length_trigrams sum_list_replicate)

lemma cosine_bounds: "- 1 \<le> cosineSimilarity a b" "cosineSimilarity a b \<le> 1"
  by (auto simp: cosineSimilarity_def)

lemma dot_commute: "length a = length b \<Longrightarrow> dot a b = dot b a"
  by (induction a b rule: list_induct2) (auto simp: dot_def mult.commute)

lemma cosine_commute: "cosineSimilarity a b = cosineSimilarity b a"
  by (cases "length a = length b") (auto simp: cosineSimilarity_def dot_commute)

lemma dot_scaled:
  "length a = length b \<Longrightarrow> dot (map (\<lambda>x. x / r) a) (map (\<lambda>x. x / s) b) = dot a b / (r * s)"
  by (induction a b rule: list_induct2) (auto simp: dot_def add_divide_distrib)

text \<open>
  With an exact square root the embedding of a text is a unit vector, so its similarity with itself
  is one.
\<close>

lemma self_similar:
  assumes "sq (square_sum v) * sq (square_sum v) = square_sum v" "square_sum v \<noteq> 0" "v \<noteq> []"
  shows "cosineSimilarity (l2normalize sq v) (l2normalize sq v) = 1"
proof -
  have self: "dot v v = square_sum v"
    by (induction v) (simp_all add: dot_def square_sum_def)
  have "sq (square_sum v) \<noteq> 0" using assms(1,2) by auto
  then have "dot (l2normalize sq v) (l2normalize sq v) = 1"
    using assms(1,2) dot_scaled [of v v] by (simp add: l2normalize_def Let_def self)
  moreover have "l2normalize sq v \<noteq> []" using assms(3) by (simp add: l2normalize_def Let_def)
  ultimately show ?thesis by (simp add: cosineSimilarity_def)
qed

end
