(* ===== verification/OsintStub.thy ===== *)
theory OsintStub
  imports EmbeddingStub
begin

text \<open>
  The safe OSINT lookups: the deterministic stub (modules/osint/osint-stub.ts) and the catalog
  of external providers, each live only when its key is configured
  (modules/osint/providers). A lookup sees the type and the normal form of an indicator, and
  nothing else.
\<close>

definition indicator_text :: "indicator_type \<Rightarrow> string" where
  "indicator_text t = (case t of
     IT_PHONE \<Rightarrow> ''PHONE'' | IT_EMAIL \<Rightarrow> ''EMAIL'' | IT_DOMAIN \<Rightarrow> ''DOMAIN'' | IT_URL \<Rightarrow> ''URL''
   | IT_CRYPTO_WALLET \<Rightarrow> ''CRYPTO_WALLET'' | IT_SCAM_PHRASE \<Rightarrow> ''SCAM_PHRASE''
   | IT_FAKE_COMPANY \<Rightarrow> ''FAKE_COMPANY'' | IT_SOCIAL_PROFILE \<Rightarrow> ''SOCIAL_PROFILE''
   | IT_OTHER \<Rightarrow> ''OTHER'')"

section \<open>The stub\<close>

record osint_output =
  oo_provider :: string
  oo_modelVersion :: string
  oo_data :: js
  oo_riskHints :: "string list"

definition STUB_OSINT_PROVIDER :: string where
  "STUB_OSINT_PROVIDER = ''osint-stub''"

definition STUB_OSINT_VERSION :: string where
  "STUB_OSINT_VERSION = ''osint-stub-1.0.0''"

definition REGISTRARS :: "string list" where
  "REGISTRARS = [''Namecheap'', ''GoDaddy'', ''Cloudflare'', ''Tucows'', ''Porkbun'', ''Gandi'']"

definition CARRIERS :: "string list" where
  "CARRIERS = [''mobile'', ''landline'', ''voip'', ''unknown'']"

definition BALANCES :: "string list" where
  "BALANCES = [''empty'', ''micro'', ''small'', ''medium'', ''large'']"

definition str_list :: "string list \<Rightarrow> js" where
  "str_list ss = JArr (map JStr ss)"

definition domain_data :: "string \<Rightarrow> nat \<Rightarrow> js \<times> string list" where
  "domain_data indicator seed =
     (let age = seed mod 720; sslValid = (seed mod 7 \<noteq> 0);
          hints = (if age < 30 then [''recently-registered''] else []) @
                  (if \<not> sslValid then [''ssl-invalid''] else [])
      in (JObj [(''indicator'', JStr indicator), (''domainAgeDays'', JNum (int age)),
            (''registrar'', JStr (REGISTRARS ! (seed mod 6))), (''sslValid'', JBool sslValid),
            (''riskHints'', str_list hints)], hints))"

definition email_data :: "string \<Rightarrow> nat \<Rightarrow> js \<times> string list" where
  "email_data indicator seed =
     (let dom = (if CHR ''@'' \<in> set indicator then after (CHR ''@'') indicator else indicator);
          age = seed mod 1200; breaches = seed mod 5;
          hints = (if age < 60 then [''young-email-domain''] else []) @
                  (if breaches > 0 then [''breach-hits-'' @ show_nat breaches] else [])
      in (JObj [(''domain'', JStr dom), (''domainAgeDays'', JNum (int age)),
            (''reputationScore'', JNum (50 + int (seed mod 50))),
            (''breachHitCount'', JNum (int breaches)), (''riskHints'', str_list hints)], hints))"

definition phone_data :: "string \<Rightarrow> nat \<Rightarrow> js \<times> string list" where
  "phone_data indicator seed =
     (let country = (if starts_with ''+1'' indicator then ''US''
            else if starts_with ''+44'' indicator then ''GB'' else ''UNKNOWN'');
          carrier = CARRIERS ! (seed mod 4);
          hints = (if carrier = ''voip'' then [''voip-number''] else [])
      in (JObj [(''country'', JStr country), (''carrierType'', JStr carrier),
            (''riskHints'', str_list hints)], hints))"

definition wallet_data :: "string \<Rightarrow> nat \<Rightarrow> js \<times> string list" where
  "wallet_data indicator seed =
     (let chain = (if starts_with ''0x'' indicator \<or> starts_with ''0X'' indicator then ''EVM''
            else if starts_with ''bc1'' indicator then ''BTC'' else ''UNKNOWN'');
          hit = (seed mod 6 = 0);
          hints = (if hit then [''known-scam-list-hit''] else [])
      in (JObj [(''chain'', JStr chain), (''balanceBucket'', JStr (BALANCES ! (seed mod 5))),
            (''knownScamListHit'', JBool hit), (''riskHints'', str_list hints)], hints))"

definition buildData :: "indicator_type \<Rightarrow> string \<Rightarrow> nat \<Rightarrow> js \<times> string list" where
  "buildData ty indicator seed =
     (case ty of
        IT_DOMAIN \<Rightarrow> domain_data indicator seed
      | IT_URL \<Rightarrow> domain_data indicator seed
      | IT_EMAIL \<Rightarrow> email_data indicator seed
      | IT_PHONE \<Rightarrow> phone_data indicator seed
      | IT_CRYPTO_WALLET \<Rightarrow> wallet_data indicator seed
      | _ \<Rightarrow> (JObj [(''indicator'', JStr indicator), (''riskHints'', str_list [])], []))"

definition stubOsintEnrich :: "indicator_type \<Rightarrow> string \<Rightarrow> osint_output" where
  "stubOsintEnrich ty normalized =
     (let seed = unat (fnv1a (indicator_text ty @ '':'' @ normalized));
          (data, hints) = buildData ty normalized seed
      in \<lparr>oo_provider = STUB_OSINT_PROVIDER, oo_modelVersion = STUB_OSINT_VERSION,
          oo_data = data, oo_riskHints = hints\<rparr>)"

section \<open>The provider catalog\<close>

record provider_spec =
  ps_name :: string
  ps_category :: string
  ps_types :: "indicator_type list"
  ps_envKey :: string

definition spec :: "string \<Rightarrow> string \<Rightarrow> indicator_type list \<Rightarrow> string \<Rightarrow> provider_spec" where
  "spec n c ts k = \<lparr>ps_name = n, ps_category = c, ps_types = ts, ps_envKey = k\<rparr>"

definition ALL_ENRICHABLE :: "indicator_type list" where
  "ALL_ENRICHABLE = [IT_DOMAIN, IT_URL, IT_EMAIL, IT_PHONE, IT_CRYPTO_WALLET]"

definition SPECS :: "provider_spec list" where
  "SPECS =
     [spec ''whois'' ''WHOIS'' [IT_DOMAIN, IT_URL] ''OSINT_WHOIS_API_KEY'',
      spec ''passive-dns'' ''PASSIVE_DNS'' [IT_DOMAIN, IT_URL] ''OSINT_PASSIVE_DNS_API_KEY'',
      spec ''cert-transparency'' ''CERT_TRANSPARENCY'' [IT_DOMAIN, IT_URL]
        ''OSINT_CERT_TRANSPARENCY_API_KEY'',
      spec ''domain-reputation'' ''DOMAIN_REPUTATION'' [IT_DOMAIN, IT_URL]
        ''OSINT_DOMAIN_REPUTATION_API_KEY'',
      spec ''url-reputation'' ''URL_REPUTATION'' [IT_URL] ''OSINT_URL_REPUTATION_API_KEY'',
      spec ''phone-reputation'' ''PHONE_REPUTATION'' [IT_PHONE] ''OSINT_PHONE_REPUTATION_API_KEY'',
      spec ''email-reputation'' ''EMAIL_REPUTATION'' [IT_EMAIL] ''OSINT_EMAIL_REPUTATION_API_KEY'',
      spec ''wallet-reputation'' ''WALLET_REPUTATION'' [IT_CRYPTO_WALLET]
        ''OSINT_WALLET_REPUTATION_API_KEY'',
      spec ''blockchain-explorer'' ''BLOCKCHAIN_EXPLORER'' [IT_CRYPTO_WALLET]
        ''OSINT_BLOCKCHAIN_EXPLORER_API_KEY'',
      spec ''takedown-history'' ''TAKEDOWN_HISTORY'' ALL_ENRICHABLE ''OSINT_TAKEDOWN_HISTORY_API_KEY'',
      spec ''public-advisory'' ''PUBLIC_ADVISORY'' ALL_ENRICHABLE ''OSINT_PUBLIC_ADVISORY_API_KEY'']"

record provider =
  pv_name :: string
  pv_category :: string
  pv_types :: "indicator_type list"
  pv_configured :: bool

definition buildOsintProviders :: "(string \<Rightarrow> bool) \<Rightarrow> provider list" where
  "buildOsintProviders env = map (\<lambda>s. \<lparr>pv_name = ps_name s, pv_category = ps_category s,
     pv_types = ps_types s, pv_configured = env (ps_envKey s)\<rparr>) SPECS"

text \<open>A lookup answers the same whatever it is asked: no live client exists yet.\<close>

definition lookup :: "provider \<Rightarrow> js \<times> string list" where
  "lookup p =
     (if \<not> pv_configured p
      then (JObj [(''provider'', JStr (pv_name p)), (''configured'', JBool False)], [])
      else (JObj [(''provider'', JStr (pv_name p)), (''configured'', JBool True),
              (''findings'', JArr [])], []))"

definition catalog :: "(string \<Rightarrow> bool) \<Rightarrow> (string \<times> string \<times> bool) list" where
  "catalog env = map (\<lambda>p. (pv_name p, pv_category p, pv_configured p)) (buildOsintProviders env)"

definition providersFor :: "(string \<Rightarrow> bool) \<Rightarrow> indicator_type \<Rightarrow> provider list" where
  "providersFor env ty = filter (\<lambda>p. ty \<in> set (pv_types p)) (buildOsintProviders env)"

definition provider_runs :: "(string \<Rightarrow> bool) \<Rightarrow> indicator_type \<Rightarrow> (provider \<times> js \<times> string list) list" where
  "provider_runs env ty = map (\<lambda>p. (p, lookup p)) (providersFor env ty)"

text \<open>Providers have distinct names, so their rows never overwrite one another's.\<close>

lemma provider_names_distinct: "distinct (map pv_name (buildOsintProviders env))"
  by (simp add: buildOsintProviders_def SPECS_def spec_def)

lemma stub_hints_listed:
  "oo_riskHints (stubOsintEnrich ty v) \<noteq> [] \<Longrightarrow> ty \<in> set ALL_ENRICHABLE"
  by (cases ty) (auto simp: stubOsintEnrich_def buildData_def ALL_ENRICHABLE_def Let_def)

end
