(* ===== verification/Enrichment.thy ===== *)
theory Enrichment
  imports Clustering NlpStub OsintStub
begin

text \<open>
  The enrichment of scam signals: classification, embedding and OSINT lookups (modules/ai,
  modules/osint). Every client answers from its in-process stub when no external service is
  configured or when the service fails, and every answer leaves an audited AI decision. The
  external services are parameters: an answer, or None when the call failed.
\<close>

record ai_services =
  ai_url :: bool
  ai_classify :: "nlp_input \<Rightarrow> nat \<Rightarrow> nlp_output option"
  ai_embed :: "string \<Rightarrow> nat \<Rightarrow> embedding_output option"
  ai_osint :: "indicator_type \<Rightarrow> string \<Rightarrow> nat \<Rightarrow> osint_output option"
  ai_env :: "string \<Rightarrow> bool"
  ai_sqrt :: "rat \<Rightarrow> rat"

section \<open>State\<close>

datatype ai_source = AI_STUB | AI_EXTERNAL

datatype ai_review_status = AI_PENDING | AI_CONFIRMED | AI_CORRECTED | AI_NOT_REQUIRED

datatype reviewer_label =
    CONFIRMED_CORRECT | FALSE_POSITIVE | FALSE_NEGATIVE | CORRECTED_CATEGORY
  | INCONCLUSIVE_ACCEPTED

record ai_decision =
  ad_id :: string
  ad_serviceKind :: string
  ad_modelVersion :: string
  ad_source :: ai_source
  ad_entityType :: "string option"
  ad_entityId :: "string option"
  ad_inputDigest :: string
  ad_inputSnippet :: "string option"
  ad_output :: js
  ad_confidence :: "int option"
  ad_durationMs :: "int option"
  ad_requiresHumanReview :: bool
  ad_reviewStatus :: ai_review_status
  ad_reviewerLabel :: "reviewer_label option"
  ad_reviewedByUserId :: "string option"
  ad_reviewedAt :: "int option"
  ad_reviewNotes :: "string option"
  ad_createdAt :: int

record signal_embedding =
  se_id :: string
  se_signalId :: string
  se_modelVersion :: string
  se_source :: ai_source
  se_vector :: vec

record enrichment =
  oe_id :: string
  oe_signalId :: "string option"
  oe_indicatorType :: indicator_type
  oe_normalizedIndicator :: string
  oe_provider :: string
  oe_modelVersion :: string
  oe_source :: ai_source
  oe_data :: js
  oe_riskHints :: "string list"
  oe_createdAt :: int

record intel_db = cluster_db +
  ai_decisions :: "ai_decision list"
  embeddings :: "signal_embedding list"
  enrichments :: "enrichment list"

interpretation ai_decisions_tab: table ai_decisions ai_decisions_update
  by unfold_locales simp

interpretation embeddings_tab: table embeddings embeddings_update
  by unfold_locales simp

interpretation enrichments_tab: table enrichments enrichments_update
  by unfold_locales simp

section \<open>Clients\<close>

text \<open>The common shape: an external answer when configured and given, else the stub's.\<close>

definition ask_external ::
    "bool \<Rightarrow> (nat \<Rightarrow> 'o option) \<Rightarrow> 'r \<Rightarrow> ('o \<Rightarrow> 'r) \<Rightarrow> ('a core_db_scheme, 'r) prog" where
  "ask_external configured call fallback wrap =
     (if \<not> configured then ret fallback
      else bind_p (draw call) (\<lambda>answer.
        case answer of None \<Rightarrow> ret fallback | Some out \<Rightarrow> ret (wrap out)))"

definition nlp_client ::
    "ai_services \<Rightarrow> nlp_input \<Rightarrow> ('a core_db_scheme, nlp_output \<times> ai_source) prog" where
  "nlp_client ai i =
     ask_external (ai_url ai) (ai_classify ai i) (classifyWithStub i, AI_STUB) (\<lambda>a. (a, AI_EXTERNAL))"

definition embedding_client ::
    "ai_services \<Rightarrow> string \<Rightarrow> ('a core_db_scheme, (embedding_output \<times> ai_source) option) prog" where
  "embedding_client ai text =
     ask_external (ai_url ai) (ai_embed ai text)
       (map_option (\<lambda>a. (a, AI_STUB)) (stubEmbed (ai_sqrt ai) text)) (\<lambda>a. Some (a, AI_EXTERNAL))"

definition osint_client ::
    "ai_services \<Rightarrow> indicator_type \<Rightarrow> string \<Rightarrow> ('a core_db_scheme, osint_output \<times> ai_source) prog" where
  "osint_client ai ty v =
     ask_external (ai_url ai) (ai_osint ai ty v) (stubOsintEnrich ty v, AI_STUB) (\<lambda>a. (a, AI_EXTERNAL))"

section \<open>The audit trail\<close>

definition SNIPPET_LEN :: nat where
  "SNIPPET_LEN = 200"

record decision_input =
  di_serviceKind :: string
  di_modelVersion :: string
  di_source :: ai_source
  di_entityType :: "string option"
  di_entityId :: "string option"
  di_input :: string
  di_snippet :: "string option"
  di_output :: js
  di_confidence :: "int option"
  di_durationMs :: int

definition new_decision :: "runtime \<Rightarrow> decision_input \<Rightarrow> string \<Rightarrow> int \<Rightarrow> ai_decision" where
  "new_decision rt d uid t =
     \<lparr>ad_id = uid, ad_serviceKind = di_serviceKind d, ad_modelVersion = di_modelVersion d,
      ad_source = di_source d, ad_entityType = di_entityType d, ad_entityId = di_entityId d,
      ad_inputDigest = rt_sha256 rt (di_input d), ad_inputSnippet = di_snippet d,
      ad_output = stored_json (di_output d), ad_confidence = di_confidence d,
      ad_durationMs = Some (di_durationMs d), ad_requiresHumanReview = False,
      ad_reviewStatus = AI_PENDING, ad_reviewerLabel = None, ad_reviewedByUserId = None,
      ad_reviewedAt = None, ad_reviewNotes = None, ad_createdAt = t\<rparr>"

definition record_ai_decision :: "runtime \<Rightarrow> decision_input \<Rightarrow> ('a intel_db_scheme, ai_decision) prog" where
  "record_ai_decision rt d =
     bind_p (new_id rt) (\<lambda>uid. bind_p (now rt) (\<lambda>t.
     insert_row ai_decisions_update (new_decision rt d uid t)))"

section \<open>Classification\<close>

definition canonical_nlp :: "nlp_input \<Rightarrow> string" where
  "canonical_nlp i = json_stringify (JObj [(''text'', JStr (ni_text i)),
     (''indicatorType'', opt_str (ni_indicatorType i)),
     (''hintedCategory'', opt_str (ni_hintedCategory i))])"

definition nlp_output_js :: "nlp_output \<Rightarrow> js" where
  "nlp_output_js v = JObj [(''category'', opt_str (np_category v)),
     (''categoryConfidence'', JNum (np_categoryConfidence v)),
     (''scamScore'', JNum (np_scamScore v)),
     (''manipulationTactics'', str_list (np_manipulationTactics v)),
     (''modelVersion'', JStr (np_modelVersion v))]"

text \<open>\<open>s || null\<close>.\<close>

definition nonempty :: "string \<Rightarrow> string option" where
  "nonempty s = (if s = [] then None else Some s)"

definition classified ::
    "nlp_input \<Rightarrow> string option \<Rightarrow> string option \<Rightarrow> nlp_output \<Rightarrow> ai_source \<Rightarrow> int \<Rightarrow> decision_input" where
  "classified i entityType entityId out src dur =
     \<lparr>di_serviceKind = ''NLP_CLASSIFIER'', di_modelVersion = np_modelVersion out, di_source = src,
      di_entityType = entityType, di_entityId = entityId, di_input = canonical_nlp i,
      di_snippet = nonempty (take SNIPPET_LEN (ni_text i)), di_output = nlp_output_js out,
      di_confidence = Some (np_scamScore out), di_durationMs = dur\<rparr>"

definition classify_text ::
    "runtime \<Rightarrow> ai_services \<Rightarrow> nlp_input \<Rightarrow> string option \<Rightarrow> string option \<Rightarrow>
     ('a intel_db_scheme, nlp_output \<times> ai_decision) prog" where
  "classify_text rt ai i entityType entityId =
     bind_p (now rt) (\<lambda>start.
     bind_p (nlp_client ai i) (\<lambda>(out, src).
     bind_p (now rt) (\<lambda>stop.
     bind_p (record_ai_decision rt (classified i entityType entityId out src (stop - start))) (\<lambda>d.
     ret (out, d)))))"

section \<open>Embeddings and similarity links\<close>

definition SIMILARITY_THRESHOLD :: rat where
  "SIMILARITY_THRESHOLD = 7 / 10"

definition TOP_N_SIMILAR :: nat where
  "TOP_N_SIMILAR = 5"

definition SCAN_CAP :: nat where
  "SCAN_CAP = 5000"

definition upsert_embedding ::
    "runtime \<Rightarrow> string \<Rightarrow> embedding_output \<Rightarrow> ai_source \<Rightarrow> ('a intel_db_scheme, signal_embedding) prog" where
  "upsert_embedding rt signalId out src =
     bind_p (find_row embeddings (\<lambda>e. se_signalId e = signalId)) (\<lambda>found.
     case found of
       Some e \<Rightarrow> update_row embeddings embeddings_update (\<lambda>e. se_signalId e = signalId)
         (\<lambda>e. e\<lparr>se_modelVersion := eo_modelVersion out, se_source := src, se_vector := eo_vector out\<rparr>)
     | None \<Rightarrow> bind_p (new_id rt) (\<lambda>uid.
         insert_row embeddings_update \<lparr>se_id = uid, se_signalId = signalId,
           se_modelVersion = eo_modelVersion out, se_source = src, se_vector = eo_vector out\<rparr>))"

definition similar_to :: "vec \<Rightarrow> signal_embedding list \<Rightarrow> (string \<times> rat) list" where
  "similar_to v candidates =
     take TOP_N_SIMILAR (order_desc_rat snd
       (filter (\<lambda>c. SIMILARITY_THRESHOLD \<le> snd c)
         (map (\<lambda>c. (se_signalId c, cosineSimilarity v (se_vector c))) candidates)))"

definition similarity_key :: "similarity \<Rightarrow> string \<times> string \<times> string" where
  "similarity_key y = (sy_signalAId y, sy_signalBId y, sy_modelVersion y)"

definition upsert_similarity ::
    "runtime \<Rightarrow> string \<times> string \<Rightarrow> string \<Rightarrow> rat \<Rightarrow> ('a intel_db_scheme, similarity) prog" where
  "upsert_similarity rt p modelVersion score =
     bind_p (find_row similarities (\<lambda>y. similarity_key y = (fst p, snd p, modelVersion))) (\<lambda>found.
     case found of
       Some y \<Rightarrow> update_row similarities similarities_update
         (\<lambda>y. similarity_key y = (fst p, snd p, modelVersion)) (\<lambda>y. y\<lparr>sy_score := score\<rparr>)
     | None \<Rightarrow> bind_p (new_id rt) (\<lambda>uid. bind_p (now rt) (\<lambda>t.
         insert_row similarities_update \<lparr>sy_id = uid, sy_signalAId = fst p, sy_signalBId = snd p,
           sy_score = score, sy_modelVersion = modelVersion, sy_createdAt = t\<rparr>)))"

definition link_similarity ::
    "runtime \<Rightarrow> string \<Rightarrow> string \<Rightarrow> string \<times> rat \<Rightarrow> ('a intel_db_scheme, bool) prog" where
  "link_similarity rt signalId modelVersion c =
     catch_p (seq_p (upsert_similarity rt (canonical_pair signalId (fst c)) modelVersion (snd c))
        (ret True)) (\<lambda>_. ret False)"

definition persistSimilar ::
    "runtime \<Rightarrow> string \<Rightarrow> vec \<Rightarrow> string \<Rightarrow> ('a intel_db_scheme, nat) prog" where
  "persistSimilar rt signalId v modelVersion =
     bind_p (find_rows embeddings (\<lambda>e. se_signalId e \<noteq> signalId \<and> se_modelVersion e = modelVersion))
       (\<lambda>rows.
     bind_p (map_p (link_similarity rt signalId modelVersion) (similar_to v (take SCAN_CAP rows)))
       (\<lambda>ws. ret (written ws)))"

definition embedded :: "string \<Rightarrow> string \<Rightarrow> embedding_output \<Rightarrow> ai_source \<Rightarrow> int \<Rightarrow> decision_input" where
  "embedded signalId text out src dur =
     \<lparr>di_serviceKind = ''EMBEDDING'', di_modelVersion = eo_modelVersion out, di_source = src,
      di_entityType = Some ''SCAM_SIGNAL'', di_entityId = Some signalId, di_input = text,
      di_snippet = Some (take SNIPPET_LEN text),
      di_output = JObj [(''dims'', JNum (int (length (eo_vector out)))),
        (''modelVersion'', JStr (eo_modelVersion out))],
      di_confidence = None, di_durationMs = dur\<rparr>"

definition embedSignal ::
    "runtime \<Rightarrow> ai_services \<Rightarrow> scam_signal \<Rightarrow> string \<Rightarrow>
     ('a intel_db_scheme, (signal_embedding \<times> nat) option) prog" where
  "embedSignal rt ai s text =
     (if length (trim text) < 3 then ret None
      else
        bind_p (now rt) (\<lambda>start.
        bind_p (embedding_client ai text) (\<lambda>result.
        case result of
          None \<Rightarrow> ret None
        | Some (out, src) \<Rightarrow>
            bind_p (now rt) (\<lambda>stop.
            bind_p (upsert_embedding rt (ss_id s) out src) (\<lambda>e.
            seq_p (record_ai_decision rt (embedded (ss_id s) text out src (stop - start)))
            (bind_p (persistSimilar rt (ss_id s) (eo_vector out) (eo_modelVersion out)) (\<lambda>n.
             ret (Some (e, n)))))))))"

text \<open>The similar signals of one signal, best first; a link whose other signal is gone is dropped.\<close>

record similar_signal =
  sm_score :: rat
  sm_modelVersion :: string
  sm_createdAt :: int
  sm_signal :: "string \<times> indicator_type \<times> string \<times> string option \<times> signal_status \<times> int \<times> string option"

definition as_similar :: "similarity \<Rightarrow> scam_signal \<Rightarrow> similar_signal" where
  "as_similar y q = \<lparr>sm_score = sy_score y, sm_modelVersion = sy_modelVersion y,
     sm_createdAt = sy_createdAt y,
     sm_signal = (ss_id q, ss_indicatorType q, ss_indicatorValue q, ss_category q, ss_status q,
       ss_confidenceScore q, ss_clusterId q)\<rparr>"

definition other_signal :: "string \<Rightarrow> similarity \<Rightarrow> string" where
  "other_signal i y = (if sy_signalAId y = i then sy_signalBId y else sy_signalAId y)"

definition listSimilarTo :: "string \<Rightarrow> int \<Rightarrow> ('a intel_db_scheme, similar_signal list) prog" where
  "listSimilarTo i limit =
     bind_p (find_rows similarities (\<lambda>y. sy_signalAId y = i \<or> sy_signalBId y = i)) (\<lambda>rows.
     let links = take (clamp 1 100 limit) (order_desc_rat sy_score rows) in
     if links = [] then ret []
     else bind_p (find_rows signals (\<lambda>q. ss_id q \<in> set (map (other_signal i) links))) (\<lambda>others.
       ret (List.map_filter (\<lambda>y. map_option (as_similar y)
              (find (\<lambda>q. ss_id q = other_signal i y) others)) links)))"

section \<open>OSINT enrichment\<close>

definition ENRICHABLE_TYPES :: "indicator_type list" where
  "ENRICHABLE_TYPES = [IT_DOMAIN, IT_URL, IT_EMAIL, IT_PHONE, IT_CRYPTO_WALLET]"

definition enrichment_key :: "enrichment \<Rightarrow> indicator_type \<times> string \<times> string" where
  "enrichment_key e = (oe_indicatorType e, oe_normalizedIndicator e, oe_provider e)"

record enrichment_input =
  ei_modelVersion :: string
  ei_source :: ai_source
  ei_data :: js
  ei_riskHints :: "string list"

definition new_enrichment ::
    "scam_signal \<Rightarrow> string \<Rightarrow> enrichment_input \<Rightarrow> string \<Rightarrow> int \<Rightarrow> enrichment" where
  "new_enrichment s prov i uid t =
     \<lparr>oe_id = uid, oe_signalId = Some (ss_id s), oe_indicatorType = ss_indicatorType s,
      oe_normalizedIndicator = ss_normalizedIndicator s, oe_provider = prov,
      oe_modelVersion = ei_modelVersion i, oe_source = ei_source i,
      oe_data = stored_json (ei_data i), oe_riskHints = ei_riskHints i, oe_createdAt = t\<rparr>"

text \<open>The upsert on the triple of a row; only the structural one renews the model version.\<close>

definition upsert_enrichment ::
    "runtime \<Rightarrow> bool \<Rightarrow> scam_signal \<Rightarrow> string \<Rightarrow> enrichment_input \<Rightarrow> ('a intel_db_scheme, enrichment) prog"
  where
  "upsert_enrichment rt renew s prov i =
     (let key = (ss_indicatorType s, ss_normalizedIndicator s, prov) in
      bind_p (find_row enrichments (\<lambda>e. enrichment_key e = key)) (\<lambda>found.
      case found of
        Some e \<Rightarrow> update_row enrichments enrichments_update (\<lambda>e. enrichment_key e = key)
          (\<lambda>e. e\<lparr>oe_signalId := Some (ss_id s),
                 oe_modelVersion := (if renew then ei_modelVersion i else oe_modelVersion e),
                 oe_source := ei_source i, oe_data := stored_json (ei_data i),
                 oe_riskHints := ei_riskHints i\<rparr>)
      | None \<Rightarrow> bind_p (new_id rt) (\<lambda>uid. bind_p (now rt) (\<lambda>t.
          insert_row enrichments_update (new_enrichment s prov i uid t)))))"

definition canonical_osint :: "scam_signal \<Rightarrow> string" where
  "canonical_osint s = json_stringify (JObj [(''indicatorType'', JStr (indicator_text (ss_indicatorType s))),
     (''normalizedIndicator'', JStr (ss_normalizedIndicator s))])"

definition osint_output_js :: "osint_output \<Rightarrow> js" where
  "osint_output_js v = JObj [(''provider'', JStr (oo_provider v)),
     (''modelVersion'', JStr (oo_modelVersion v)), (''data'', oo_data v),
     (''riskHints'', str_list (oo_riskHints v))]"

definition enriched :: "scam_signal \<Rightarrow> osint_output \<Rightarrow> ai_source \<Rightarrow> int \<Rightarrow> decision_input" where
  "enriched s out src dur =
     \<lparr>di_serviceKind = ''OSINT_ENRICHMENT'', di_modelVersion = oo_modelVersion out,
      di_source = src, di_entityType = Some ''SCAM_SIGNAL'', di_entityId = Some (ss_id s),
      di_input = canonical_osint s, di_snippet = Some (take SNIPPET_LEN (canonical_osint s)),
      di_output = osint_output_js out, di_confidence = None, di_durationMs = dur\<rparr>"

text \<open>A provider that is not live and found nothing leaves no row.\<close>

definition store_run ::
    "runtime \<Rightarrow> scam_signal \<Rightarrow> provider \<times> js \<times> string list \<Rightarrow> ('a intel_db_scheme, unit) prog" where
  "store_run rt s r =
     (case r of (p, data, hints) \<Rightarrow>
        when_p (pv_configured p \<or> hints \<noteq> [])
          (void_p (upsert_enrichment rt False s (pv_name p)
             \<lparr>ei_modelVersion = ''provider:'' @ pv_category p,
              ei_source = (if pv_configured p then AI_EXTERNAL else AI_STUB),
              ei_data = data, ei_riskHints = hints\<rparr>)))"

definition enrichSignal ::
    "runtime \<Rightarrow> ai_services \<Rightarrow> scam_signal \<Rightarrow> ('a intel_db_scheme, enrichment option) prog" where
  "enrichSignal rt ai s =
     (if ss_indicatorType s \<notin> set ENRICHABLE_TYPES then ret None
      else
        bind_p (now rt) (\<lambda>start.
        bind_p (osint_client ai (ss_indicatorType s) (ss_normalizedIndicator s)) (\<lambda>(out, src).
        bind_p (now rt) (\<lambda>stop.
        bind_p (upsert_enrichment rt True s (oo_provider out)
          \<lparr>ei_modelVersion = oo_modelVersion out, ei_source = src, ei_data = oo_data out,
           ei_riskHints = oo_riskHints out\<rparr>) (\<lambda>e.
        seq_p (record_ai_decision rt (enriched s out src (stop - start)))
        (seq_p (attempt (for_p (store_run rt s) (provider_runs (ai_env ai) (ss_indicatorType s))))
        (ret (Some e))))))))"

definition osint_payload :: "scam_signal \<Rightarrow> js" where
  "osint_payload s = JObj [(''signalId'', JStr (ss_id s)),
     (''indicatorType'', JStr (indicator_text (ss_indicatorType s))),
     (''normalizedIndicator'', JStr (ss_normalizedIndicator s))]"

text \<open>Without a queue the enrichment runs at once; True when it was queued.\<close>

definition enqueueEnrichment ::
    "runtime \<Rightarrow> ai_services \<Rightarrow> string \<Rightarrow> ('a intel_db_scheme, bool) prog" where
  "enqueueEnrichment rt ai signalId =
     bind_p (find_row signals (\<lambda>q. ss_id q = signalId)) (\<lambda>found.
     bind_p (require_some found (NotFoundException ''Scam signal not found'')) (\<lambda>s.
     bind_p (enqueue rt ''osint-enrichment'' (osint_payload s) None) (\<lambda>jobId.
     if truthy jobId then ret True
     else seq_p (enrichSignal rt ai s) (ret False))))"

definition enrichment_worker :: "runtime \<Rightarrow> ai_services \<Rightarrow> string \<Rightarrow> ('a intel_db_scheme, unit) prog" where
  "enrichment_worker rt ai signalId =
     bind_p (find_row signals (\<lambda>q. ss_id q = signalId)) (\<lambda>found.
     case found of None \<Rightarrow> ret () | Some s \<Rightarrow> void_p (enrichSignal rt ai s))"

definition list_enrichments ::
    "string option \<Rightarrow> string option \<Rightarrow> string option \<Rightarrow> int \<Rightarrow> ('a intel_db_scheme, enrichment list) prog"
  where
  "list_enrichments signalId indicatorType normalizedIndicator limit =
     (let ty = (case indicatorType of None \<Rightarrow> None | Some t \<Rightarrow> map_of indicator_names t) in
      bind_p (find_rows enrichments (\<lambda>e.
        (truthy signalId \<longrightarrow> oe_signalId e = signalId) \<and> (ty \<noteq> None \<longrightarrow> ty = Some (oe_indicatorType e)) \<and>
        (truthy normalizedIndicator \<longrightarrow> normalizedIndicator = Some (oe_normalizedIndicator e))))
        (\<lambda>rows. ret (take (clamp 1 500 limit) (order_desc oe_createdAt rows))))"

section \<open>The mode and the use of the engines\<close>

definition ENGINES :: "(string \<times> string) list" where
  "ENGINES =
     [(''NLP_CLASSIFIER'', ''A1SCAMSHIELD NLP classifier''),
      (''EMBEDDING'', ''ScamScript Genome embeddings''),
      (''AUTHENTICITY'', ''Authenticity suite (face/voice/scene)''),
      (''OSINT'', ''OSINT enrichment''),
      (''FRAUD_JOURNEY'', ''Fraud Journey assessment''),
      (''VICTIM_STATE'', ''Victim State assessment''),
      (''PREDICTED_NEXT_MOVE'', ''Predicted Next Move'')]"

record engine_mode =
  em_serviceKind :: string
  em_label :: string
  em_mode :: ai_source
  em_fallback :: ai_source

definition ai_status :: "ai_services \<Rightarrow> bool \<times> ai_source \<times> engine_mode list" where
  "ai_status ai =
     (let mode = (if ai_url ai then AI_EXTERNAL else AI_STUB) in
      (ai_url ai, mode, map (\<lambda>(k, l). \<lparr>em_serviceKind = k, em_label = l, em_mode = mode,
         em_fallback = AI_STUB\<rparr>) ENGINES))"

text \<open>The groups of the tally, in the order of their first decision.\<close>

definition ai_usage :: "('a intel_db_scheme, ((string \<times> ai_source) \<times> nat) list) prog" where
  "ai_usage =
     bind_p (find_rows ai_decisions (\<lambda>_. True)) (\<lambda>rows.
     let keys = map (\<lambda>d. (ad_serviceKind d, ad_source d)) rows in
     ret (map (\<lambda>k. (k, count_list keys k)) (remdups keys)))"

definition list_decisions ::
    "string option \<Rightarrow> string option \<Rightarrow> string option \<Rightarrow> int option \<Rightarrow>
     ('a intel_db_scheme, ai_decision list) prog" where
  "list_decisions serviceKind entityType entityId limit =
     bind_p (find_rows ai_decisions (\<lambda>d.
       (truthy serviceKind \<longrightarrow> serviceKind = Some (ad_serviceKind d)) \<and>
       (truthy entityType \<longrightarrow> ad_entityType d = entityType) \<and>
       (truthy entityId \<longrightarrow> ad_entityId d = entityId))) (\<lambda>rows.
     ret (take (clamp 1 500 (or_default limit 100)) (order_desc ad_createdAt rows)))"

section \<open>The log is respected\<close>

lemma ask_external_safe: "moves (log_safe rt) (ask_external c call f wrap)"
  unfolding ask_external_def
  by (auto simp: log_untouched intro!: safe_rules split: option.splits)

lemma record_decision_safe: "moves (log_safe rt') (record_ai_decision rt d)"
  unfolding record_ai_decision_def by (auto simp: log_untouched intro!: safe_rules)

lemma classify_safe: "moves (log_safe rt') (classify_text rt ai i et ei)"
  unfolding classify_text_def nlp_client_def
  by (auto intro!: safe_rules ask_external_safe record_decision_safe split: prod.splits)

lemma upsert_similarity_safe: "moves (log_safe rt') (upsert_similarity rt p v s)"
  unfolding upsert_similarity_def by (auto simp: log_untouched intro!: safe_rules split: option.splits)

lemma embedSignal_safe: "moves (log_safe rt') (embedSignal rt ai s text)"
  unfolding embedSignal_def embedding_client_def upsert_embedding_def persistSimilar_def
    link_similarity_def
  by (auto simp: log_untouched
      intro!: safe_rules ask_external_safe record_decision_safe upsert_similarity_safe
      split: option.splits prod.splits)

lemma upsert_enrichment_safe: "moves (log_safe rt') (upsert_enrichment rt b s p i)"
  unfolding upsert_enrichment_def Let_def
  by (auto simp: log_untouched intro!: safe_rules split: option.splits)

lemma enrichSignal_safe: "moves (log_safe rt') (enrichSignal rt ai s)"
  unfolding enrichSignal_def osint_client_def store_run_def
  by (auto intro!: safe_rules ask_external_safe record_decision_safe upsert_enrichment_safe
      split: prod.splits)

section \<open>What enrichment leaves alone\<close>

text \<open>A reading of the state that the enrichment of a signal and its projection never change.\<close>

locale unenriched =
  fixes f :: "'a intel_db_scheme \<Rightarrow> 'b"
  assumes ignores:
    "f (db_tick_update gt w) = f w" "f (ai_decisions_update ga w) = f w"
    "f (embeddings_update ge w) = f w" "f (enrichments_update gi w) = f w"
    "f (similarities_update gs w) = f w" "f (graph_nodes_update gn w) = f w"
    "f (graph_edges_update gg w) = f w"
begin

lemma draw_same: "moves (\<lambda>w w'. f w' = f w) (draw g)"
  "moves (\<lambda>w w'. f w' = f w) (now rt)" "moves (\<lambda>w w'. f w' = f w) (new_id rt)"
  by (simp_all add: moves_def draw_defs ignores)

lemma external_same: "moves (\<lambda>w w'. f w' = f w) (ask_external c call d wrap)"
  unfolding ask_external_def by (intro same.moves_rules draw_same)

lemma decision_same: "moves (\<lambda>w w'. f w' = f w) (record_ai_decision rt d)"
  unfolding record_ai_decision_def
  by (intro same.moves_rules same.table_moves draw_same) (simp_all add: ignores)

lemma classify_same: "moves (\<lambda>w w'. f w' = f w) (classify_text rt ai i et ei)"
  unfolding classify_text_def nlp_client_def
  by (auto intro!: same.moves_rules draw_same external_same decision_same split: prod.split)

lemma embed_same: "moves (\<lambda>w w'. f w' = f w) (embedSignal rt ai s text)"
  unfolding embedSignal_def embedding_client_def upsert_embedding_def persistSimilar_def
    link_similarity_def upsert_similarity_def
  by (auto simp: ignores split: prod.split
      intro!: same.moves_rules same.table_moves draw_same external_same decision_same)

lemma process_same: "moves (\<lambda>w w'. f w' = f w) (processSignal rt s)"
  unfolding processSignal_def ensureNodeForSignal_def linkClusterPeers_def
    linkSimilarityPeers_def link_similar_def link_peer_def upsertEdge_def upsert_edge_row_def Let_def
  by (auto simp: ignores split: prod.split intro!: same.moves_rules same.table_moves draw_same)

lemma enrich_same: "moves (\<lambda>w w'. f w' = f w) (enrichSignal rt ai s)"
  unfolding enrichSignal_def osint_client_def store_run_def upsert_enrichment_def Let_def
  by (auto simp: ignores split: prod.split
      intro!: same.moves_rules same.table_moves draw_same external_same decision_same)

end

interpretation signals_unenriched: unenriched signals
  by unfold_locales simp_all

section \<open>Properties\<close>

text \<open>
  Classifying a text always answers and always leaves exactly one audited decision: it
  names the model that answered, the digest of the canonical input and the score as its
  confidence; an answer marked as the stub's is the stub's, and one marked external was given
  by the configured service.
\<close>

lemma classification_audited:
  "runs (classify_text rt ai i entityType entityId) w (\<lambda>(out, d) w'.
     ai_decisions w' = ai_decisions w @ [d] \<and> ad_serviceKind d = ''NLP_CLASSIFIER'' \<and>
     ad_modelVersion d = np_modelVersion out \<and> ad_confidence d = Some (np_scamScore out) \<and>
     ad_inputDigest d = rt_sha256 rt (canonical_nlp i) \<and> ad_entityId d = entityId \<and>
     ad_reviewStatus d = AI_PENDING \<and>
     (if ad_source d = AI_STUB then out = classifyWithStub i
      else ai_url ai \<and> (\<exists>n. ai_classify ai i n = Some out)))"
  by (auto simp: classify_text_def nlp_client_def ask_external_def record_ai_decision_def run_simps
      new_decision_def classified_def split: option.split)

text \<open>A stored link is canonical, at or above the threshold, and the only one of its pair and model.\<close>

definition links_ok :: "('a intel_db_scheme) \<Rightarrow> bool" where
  "links_ok w \<longleftrightarrow> distinct (map similarity_key (similarities w)) \<and>
     (\<forall>y\<in>set (similarities w). sy_signalAId y < sy_signalBId y \<and>
        SIMILARITY_THRESHOLD \<le> sy_score y \<and> sy_score y \<le> 1)"

lemma links_ignore [simp]:
  "links_ok (db_tick_update gt w) = links_ok w" "links_ok (embeddings_update ge w) = links_ok w"
  "links_ok (ai_decisions_update ga w) = links_ok w"
  by (simp_all add: links_ok_def)

lemma upsert_similarity_keeps:
  assumes "fst p < snd p" "SIMILARITY_THRESHOLD \<le> x" "x \<le> 1"
  shows "moves (\<lambda>w w'. links_ok w \<longrightarrow> links_ok w') (upsert_similarity rt p v x)"
proof (unfold moves_def, intro allI impI)
  fix w :: "'a intel_db_scheme" assume ok: "links_ok w"
  show "links_ok (snd (upsert_similarity rt p v x w))"
  proof (cases "find (\<lambda>y. similarity_key y = (fst p, snd p, v)) (similarities w)")
    case None
    then have "(fst p, snd p, v) \<notin> set (map similarity_key (similarities w))"
      by (auto simp: find_None_iff)
    with None ok assms show ?thesis
      by (auto simp: upsert_similarity_def bind_p_def find_row_def ask_def insert_row_def draw_defs
          links_ok_def similarity_key_def)
  next
    case (Some y)
    have key: "similarity_key (if P then y\<lparr>sy_score := x\<rparr> else y) = similarity_key y" for P y
      by (simp add: similarity_key_def)
    with Some ok assms(2,3) show ?thesis
      by (auto simp: upsert_similarity_def bind_p_def find_row_def ask_def update_row_def links_ok_def
          comp_def key)
  qed
qed

lemma similar_to_sound:
  "(i, x) \<in> set (similar_to v es) \<Longrightarrow>
   SIMILARITY_THRESHOLD \<le> x \<and> x \<le> 1 \<and> i \<in> se_signalId ` set es"
  by (auto simp: similar_to_def cosine_bounds dest!: in_set_takeD)

lemma map_moves_in:
  assumes "\<And>x. x \<in> set xs \<Longrightarrow> moves (\<lambda>w w'. I w \<longrightarrow> I w') (f x)"
  shows "moves (\<lambda>w w'. I w \<longrightarrow> I w') (map_p f xs)"
  using assms by (induction xs) (auto intro!: keep.moves_rules)

lemma bind_find_rows: "bind_p (find_rows get P) f w = f (filter P (get w)) w"
  by (simp add: bind_p_def find_rows_def ask_def)

lemma persistSimilar_keeps: "moves (\<lambda>w w'. links_ok w \<longrightarrow> links_ok w') (persistSimilar rt i v m)"
proof -
  have link: "moves (\<lambda>w w'. links_ok w \<longrightarrow> links_ok w') (link_similarity rt i m c)"
    if "c \<in> set (similar_to v (take SCAN_CAP (filter (\<lambda>e. se_signalId e \<noteq> i \<and> P e) es)))" for c P es
  proof -
    have "SIMILARITY_THRESHOLD \<le> snd c \<and> snd c \<le> 1 \<and>
        fst c \<in> se_signalId ` set (take SCAN_CAP (filter (\<lambda>e. se_signalId e \<noteq> i \<and> P e) es))"
      using that by (intro similar_to_sound) simp
    then have "SIMILARITY_THRESHOLD \<le> snd c" "snd c \<le> 1" "i \<noteq> fst c"
      by (auto dest!: in_set_takeD)
    then show ?thesis
      unfolding link_similarity_def
      by (intro keep.moves_rules upsert_similarity_keeps) (auto simp: canonical_pair_def)
  qed
  have "moves (\<lambda>w w'. links_ok w \<longrightarrow> links_ok w')
      (bind_p (map_p (link_similarity rt i m)
        (similar_to v (take SCAN_CAP (filter (\<lambda>e. se_signalId e \<noteq> i \<and> se_modelVersion e = m) es))))
        (\<lambda>ws. ret (written ws)))" for es
    by (intro keep.moves_rules map_moves_in link)
  then show ?thesis
    unfolding moves_def persistSimilar_def bind_find_rows by blast
qed

lemma links_draw: "moves (\<lambda>w w'. links_ok w \<longrightarrow> links_ok w') (draw d)"
  by (simp add: moves_def draw_def)

text \<open>
  Embedding a signal keeps the similarity links sound: each one joins two different signals
  in canonical order, is the only one of its pair and model version, and carries a similarity
  of at least 0.7 and at most 1, whatever vector the service answered.
\<close>

lemma embedding_keeps_links:
  assumes "links_ok w"
  shows "ends (embedSignal rt ai s text) w (\<lambda>_ w'. links_ok w')"
proof -
  have "moves (\<lambda>w w'. links_ok w \<longrightarrow> links_ok w') (embedSignal rt ai s text)"
    unfolding embedSignal_def embedding_client_def upsert_embedding_def ask_external_def
      record_ai_decision_def now_def new_id_def
    by (auto split: prod.split option.split
        intro!: keep.moves_rules keep.table_moves persistSimilar_keeps links_draw)
  with assms show ?thesis by (auto simp: ends_def moves_def split: prod.split dest: spec [of _ w])
qed

definition demo_ai :: ai_services where
  "demo_ai = \<lparr>ai_url = False, ai_classify = (\<lambda>_ _. None), ai_embed = (\<lambda>_ _. None),
     ai_osint = (\<lambda>_ _ _. None), ai_env = (\<lambda>_. False), ai_sqrt = (\<lambda>x. 1)\<rparr>"

definition demo_intel :: "scam_signal list \<Rightarrow> signal_embedding list \<Rightarrow> intel_db" where
  "demo_intel ss es = \<lparr>db_tick = 0, evidence_events = [], audit_logs = [], jobs = [],
     ws_events = [], evidence_files = [], export_bundles = [], deliveries = [], alerts = [],
     users = [], contacts = [], reviews = [], settings = [], profiles = [],
     risk_events = [], pauses = [], holds = [], warnings = [], signals = ss, similarities = [],
     graph_nodes = [], graph_edges = [], wallets = [], clusters = [], ai_decisions = [],
     embeddings = es, enrichments = []\<rparr>"

lemma embedding_keeps_links_witness:
  "\<exists>r w'. embedSignal demo_rt demo_ai (demo_signal ''s2'' ''x'') ''send gift cards''
     (demo_intel [] [\<lparr>se_id = ''e1'', se_signalId = ''s1'', se_modelVersion = STUB_EMBEDDING_VERSION,
        se_source = AI_STUB, se_vector = replicate 64 1\<rparr>]) = (r, w') \<and>
     (\<forall>y\<in>set (similarities w'). sy_signalAId y < sy_signalBId y)"
proof -
  let ?w = "demo_intel [] [\<lparr>se_id = ''e1'', se_signalId = ''s1'',
    se_modelVersion = STUB_EMBEDDING_VERSION, se_source = AI_STUB, se_vector = replicate 64 1\<rparr>]"
  have "links_ok ?w" by (simp add: links_ok_def demo_intel_def)
  from embedding_keeps_links [OF this, of demo_rt demo_ai "demo_signal ''s2'' ''x''" "''send gift cards''"]
  show ?thesis by (auto simp: ends_def links_ok_def split: prod.splits)
qed

end
