(* ===== verification/ScamSignals.thy ===== *)
theory ScamSignals
  imports Enrichment
begin

text \<open>
  The intake of scam reports (modules/scam-signals): normalised, merged with the signal of the
  same indicator, scored, logged, clustered, enriched, projected onto the fraud graph and queued
  for review when the score says so.
\<close>

section \<open>State\<close>

record tenant =
  tn_id :: string
  tn_name :: string
  tn_type :: tenant_type

record reliability_profile =
  rl_sourceType :: source_type
  rl_baseReliabilityScore :: int

datatype queue_status = Q_PENDING | Q_IN_REVIEW | Q_COMPLETED

record queue_item =
  qi_id :: string
  qi_signalId :: "string option"
  qi_registryEntryId :: "string option"
  qi_reviewStatus :: queue_status
  qi_publicSafe :: bool
  qi_assignedToUserId :: "string option"
  qi_reviewNotes :: "string option"
  qi_decision :: "string option"
  qi_createdAt :: int

record report_db = intel_db +
  tenants :: "tenant list"
  reliability :: "reliability_profile list"
  review_queue :: "queue_item list"

interpretation tenants_tab: table tenants tenants_update
  by unfold_locales simp

interpretation reliability_tab: table reliability reliability_update
  by unfold_locales simp

interpretation review_queue_tab: table review_queue review_queue_update
  by unfold_locales simp

definition source_text :: "source_type \<Rightarrow> string" where
  "source_text s = (case s of
     USER_REPORT \<Rightarrow> ''USER_REPORT'' | PARTNER_REPORT \<Rightarrow> ''PARTNER_REPORT''
   | BANK_REPORT \<Rightarrow> ''BANK_REPORT'' | INVESTIGATOR \<Rightarrow> ''INVESTIGATOR''
   | GOVERNMENT_ADVISORY \<Rightarrow> ''GOVERNMENT_ADVISORY'' | PUBLIC_WEB \<Rightarrow> ''PUBLIC_WEB''
   | INTERNAL \<Rightarrow> ''INTERNAL'')"

definition signal_status_text :: "signal_status \<Rightarrow> string" where
  "signal_status_text s = (case s of
     UNVERIFIED_REPORT \<Rightarrow> ''UNVERIFIED_REPORT'' | SUSPICIOUS_SIGNAL \<Rightarrow> ''SUSPICIOUS_SIGNAL''
   | PATTERN_MATCH \<Rightarrow> ''PATTERN_MATCH'' | UNDER_REVIEW \<Rightarrow> ''UNDER_REVIEW''
   | HIGH_RISK_INDICATOR \<Rightarrow> ''HIGH_RISK_INDICATOR''
   | VERIFIED_SCAM_INTELLIGENCE \<Rightarrow> ''VERIFIED_SCAM_INTELLIGENCE''
   | PUBLIC_SAFE_ALERT \<Rightarrow> ''PUBLIC_SAFE_ALERT'' | ARCHIVED \<Rightarrow> ''ARCHIVED''
   | REJECTED \<Rightarrow> ''REJECTED'')"

section \<open>Scores and status\<close>

record signal_scores =
  sv_sourceReliability :: int
  sv_evidenceStrength :: int
  sv_recency :: int
  sv_confidence :: int

text \<open>
  \<open>Math.round((base / 100) * 30)\<close> is the rounded value of \<open>3 * base / 10\<close>, half up; the
  floating point detour gives the same for every base from 0 to 100.
\<close>

definition scoreSignal :: "int \<Rightarrow> bool \<Rightarrow> bool \<Rightarrow> int \<Rightarrow> bool \<Rightarrow> signal_scores" where
  "scoreSignal base hasDescription hasRawText reportCount hasCategory =
     (let reliability = (3 * base + 5) div 10;
          strength = min 25 ((if hasDescription then 8 else 3) + (if hasRawText then 6 else 0));
          recency = 10;
          repeat_points = min 15 (reportCount * 3);
          category = (if hasCategory then 8 else 0)
      in \<lparr>sv_sourceReliability = reliability, sv_evidenceStrength = strength, sv_recency = recency,
          sv_confidence = min 100 (reliability + strength + recency + repeat_points + category)\<rparr>)"

definition deriveStatus :: "int \<Rightarrow> int \<Rightarrow> signal_status" where
  "deriveStatus reportCount confidence =
     (if reportCount \<ge> 3 then PATTERN_MATCH
      else if confidence \<ge> 55 then SUSPICIOUS_SIGNAL else UNVERIFIED_REPORT)"

definition partnerSourceTypeFor :: "tenant_type \<Rightarrow> source_type" where
  "partnerSourceTypeFor t =
     (if t = TT_BANK then BANK_REPORT
      else if t = TT_AGENCY then GOVERNMENT_ADVISORY
      else if t = TT_INVESTIGATOR then INVESTIGATOR
      else if t = TT_INTERNAL then INTERNAL
      else PARTNER_REPORT)"

section \<open>Intake\<close>

record report_dto =
  rd_indicatorType :: indicator_type
  rd_indicatorValue :: string
  rd_category :: "string option"
  rd_description :: "string option"
  rd_rawText :: "string option"
  rd_geography :: "string option"

record intake_options =
  io_dto :: report_dto
  io_sourceType :: source_type
  io_tenantId :: "string option"
  io_submittedByUserId :: "string option"
  io_actorType :: string
  io_extra :: "(string \<times> js) list"

definition apply_scores :: "int \<Rightarrow> signal_scores \<Rightarrow> scam_signal \<Rightarrow> scam_signal" where
  "apply_scores reportCount sv s =
     s\<lparr>ss_reportCount := reportCount, ss_sourceReliabilityScore := sv_sourceReliability sv,
       ss_evidenceStrengthScore := sv_evidenceStrength sv, ss_recencyScore := sv_recency sv,
       ss_confidenceScore := sv_confidence sv,
       ss_status := deriveStatus reportCount (sv_confidence sv)\<rparr>"

definition merge_report :: "int \<Rightarrow> report_dto \<Rightarrow> int \<Rightarrow> scam_signal \<Rightarrow> scam_signal" where
  "merge_report base dto t old =
     (let n = ss_reportCount old + 1;
          category = or_else (ss_category old) (rd_category dto);
          description = or_else (ss_description old) (rd_description dto);
          rawText = or_else (ss_rawText old) (rd_rawText dto)
      in apply_scores n
           (scoreSignal base (truthy description) (truthy rawText) n (truthy category))
           (old\<lparr>ss_lastSeen := t, ss_category := category, ss_description := description,
                ss_rawText := rawText\<rparr>))"

definition new_signal :: "int \<Rightarrow> intake_options \<Rightarrow> string \<Rightarrow> string \<Rightarrow> int \<Rightarrow> scam_signal" where
  "new_signal base opts normalized uid t =
     (let dto = io_dto opts in
      apply_scores 1
        (scoreSignal base (truthy (rd_description dto)) (truthy (rd_rawText dto)) 1
           (truthy (rd_category dto)))
        \<lparr>ss_id = uid, ss_tenantId = io_tenantId opts,
         ss_submittedByUserId = io_submittedByUserId opts, ss_sourceType = io_sourceType opts,
         ss_sourceName = None, ss_category = rd_category dto,
         ss_indicatorType = rd_indicatorType dto, ss_indicatorValue = trim (rd_indicatorValue dto),
         ss_normalizedIndicator = normalized, ss_description = rd_description dto,
         ss_rawText = rd_rawText dto, ss_reportCount = 1, ss_confidenceScore = 0,
         ss_sourceReliabilityScore = 0, ss_evidenceStrengthScore = 0, ss_recencyScore = 0,
         ss_status = UNVERIFIED_REPORT, ss_geography = rd_geography dto, ss_firstSeen = t,
         ss_lastSeen = t, ss_clusterId = None, ss_publicSafeCandidate = False,
         ss_createdAt = t\<rparr>)"

definition same_indicator :: "indicator_type \<Rightarrow> string \<Rightarrow> scam_signal \<Rightarrow> bool" where
  "same_indicator ty normalized s \<longleftrightarrow>
     ss_normalizedIndicator s = normalized \<and> ss_indicatorType s = ty"

text \<open>Merged into the oldest signal of the indicator, or created; True when merged.\<close>

definition store_report ::
    "runtime \<Rightarrow> intake_options \<Rightarrow> ('a report_db_scheme, scam_signal \<times> bool) prog" where
  "store_report rt opts =
     (let dto = io_dto opts;
          normalized = normalizeIndicator (rd_indicatorType dto) (rd_indicatorValue dto)
      in
      bind_p (find_row reliability (\<lambda>p. rl_sourceType p = io_sourceType opts)) (\<lambda>profile.
      let base = (case profile of None \<Rightarrow> 35 | Some p \<Rightarrow> rl_baseReliabilityScore p) in
      bind_p (find_rows signals (same_indicator (rd_indicatorType dto) normalized)) (\<lambda>rows.
      case first_of (order_asc ss_createdAt rows) of
        Some old \<Rightarrow>
          bind_p (now rt) (\<lambda>t.
          bind_p (update_row signals signals_update (\<lambda>s. ss_id s = ss_id old)
            (merge_report base dto t)) (\<lambda>s. ret (s, True)))
      | None \<Rightarrow>
          bind_p (new_id rt) (\<lambda>uid. bind_p (now rt) (\<lambda>t.
          bind_p (insert_row signals_update (new_signal base opts normalized uid t))
            (\<lambda>s. ret (s, False)))))))"

definition report_event ::
    "intake_options \<Rightarrow> scam_signal \<Rightarrow> bool \<Rightarrow> string option \<Rightarrow> append_input" where
  "report_event opts s isDuplicate ip =
     \<lparr>in_tenantId = io_tenantId opts, in_actorId = None, in_actorType = Some (io_actorType opts),
      in_entityType = ''SCAM_SIGNAL'', in_entityId = ss_id s,
      in_eventType = (if isDuplicate then ''SIGNAL_DUPLICATE_MERGED'' else ''SIGNAL_COLLECTED''),
      in_eventDescription = ''Scam report '' @
        (if isDuplicate then ''merged into an existing'' else ''collected as a new'') @
        '' signal ('' @ indicator_text (rd_indicatorType (io_dto opts)) @ '')'',
      in_metadata = JObj ([(''indicatorType'', JStr (indicator_text (rd_indicatorType (io_dto opts)))),
         (''reportCount'', JNum (ss_reportCount s)), (''confidenceScore'', JNum (ss_confidenceScore s)),
         (''sourceType'', JStr (source_text (io_sourceType opts)))] @ io_extra opts),
      in_ipAddress = ip, in_deviceId = None\<rparr>"

text \<open>Clustered and read again; when clustering fails the signal at hand is kept.\<close>

definition cluster_report ::
    "runtime \<Rightarrow> scam_signal \<Rightarrow> string option \<Rightarrow> ('a report_db_scheme, scam_signal) prog" where
  "cluster_report rt s ip =
     catch_p
       (bind_p (clusterSignal rt s ip) (\<lambda>_.
        bind_p (find_row signals (\<lambda>q. ss_id q = ss_id s)) (\<lambda>refreshed.
        ret (or_default refreshed s))))
       (\<lambda>_. ret s)"

definition enrichment_text :: "report_dto \<Rightarrow> string" where
  "enrichment_text dto =
     trim (join_with newline (filter (\<lambda>s. s \<noteq> [])
       [or_default (rd_description dto) [], or_default (rd_rawText dto) []]))"

definition report_nlp :: "report_dto \<Rightarrow> nlp_input" where
  "report_nlp dto = \<lparr>ni_text = enrichment_text dto,
     ni_indicatorType = Some (indicator_text (rd_indicatorType dto)),
     ni_hintedCategory = rd_category dto\<rparr>"

definition enrich_report ::
    "runtime \<Rightarrow> ai_services \<Rightarrow> report_dto \<Rightarrow> scam_signal \<Rightarrow> ('a report_db_scheme, unit) prog" where
  "enrich_report rt ai dto s =
     seq_p (when_p (enrichment_text dto \<noteq> [])
       (seq_p (attempt (classify_text rt ai (report_nlp dto) (Some ''SCAM_SIGNAL'') (Some (ss_id s))))
         (attempt (embedSignal rt ai s (enrichment_text dto)))))
     (seq_p (attempt (processSignal rt s))
            (attempt (enrichSignal rt ai s)))"

definition new_item :: "string option \<Rightarrow> string option \<Rightarrow> string \<Rightarrow> int \<Rightarrow> queue_item" where
  "new_item signalId entryId uid t =
     \<lparr>qi_id = uid, qi_signalId = signalId, qi_registryEntryId = entryId,
      qi_reviewStatus = Q_PENDING, qi_publicSafe = False, qi_assignedToUserId = None,
      qi_reviewNotes = None, qi_decision = None, qi_createdAt = t\<rparr>"

definition open_item :: "string \<Rightarrow> queue_item \<Rightarrow> bool" where
  "open_item signalId q \<longleftrightarrow> qi_signalId q = Some signalId \<and> qi_reviewStatus q \<noteq> Q_COMPLETED"

definition queue_report :: "runtime \<Rightarrow> scam_signal \<Rightarrow> ('a report_db_scheme, unit) prog" where
  "queue_report rt s =
     when_p (ss_status s = SUSPICIOUS_SIGNAL \<or> ss_status s = PATTERN_MATCH)
       (bind_p (find_row review_queue (open_item (ss_id s))) (\<lambda>queued.
        when_p (queued = None)
          (bind_p (new_id rt) (\<lambda>uid. bind_p (now rt) (\<lambda>t.
           void_p (insert_row review_queue_update (new_item (Some (ss_id s)) None uid t)))))))"

definition intake ::
    "runtime \<Rightarrow> ai_services \<Rightarrow> intake_options \<Rightarrow> string option \<Rightarrow> ('a report_db_scheme, scam_signal) prog"
  where
  "intake rt ai opts ip =
     bind_p (store_report rt opts) (\<lambda>(stored, isDuplicate).
     seq_p (append_evidence rt (report_event opts stored isDuplicate ip))
     (bind_p (cluster_report rt stored ip) (\<lambda>s.
      seq_p (enrich_report rt ai (io_dto opts) s)
      (seq_p (queue_report rt s)
      (ret s)))))"

section \<open>The three ways in\<close>

definition submitReport ::
    "runtime \<Rightarrow> ai_services \<Rightarrow> report_dto \<Rightarrow> string option \<Rightarrow>
     ('a report_db_scheme, string \<times> string \<times> string) prog" where
  "submitReport rt ai dto ip =
     bind_p (intake rt ai \<lparr>io_dto = dto, io_sourceType = USER_REPORT, io_tenantId = None,
       io_submittedByUserId = None, io_actorType = ''PUBLIC'', io_extra = []\<rparr> ip) (\<lambda>s.
     ret (''UNVERIFIED_REPORT'',
       ''Report received. VIGISCAM will review and classify the signal before any public-safe use.'',
       ss_id s))"

definition module_options ::
    "report_dto \<Rightarrow> string option \<Rightarrow> string option \<Rightarrow> string \<Rightarrow> intake_options" where
  "module_options dto tenantId userId sourceModule =
     \<lparr>io_dto = dto, io_sourceType = INTERNAL, io_tenantId = tenantId,
      io_submittedByUserId = userId, io_actorType = ''INTERNAL'',
      io_extra = [(''sourceModule'', JStr sourceModule)]\<rparr>"

definition submitFromModule ::
    "runtime \<Rightarrow> ai_services \<Rightarrow> report_dto \<Rightarrow> string option \<Rightarrow> string option \<Rightarrow> string \<Rightarrow>
     ('a report_db_scheme, scam_signal) prog" where
  "submitFromModule rt ai dto tenantId userId sourceModule =
     intake rt ai (module_options dto tenantId userId sourceModule) None"

text \<open>The principal of a partner request (common/auth/partner.types.ts).\<close>

record partner_principal =
  pp_keyId :: string
  pp_tenantId :: string
  pp_keyPrefix :: string
  pp_scopes :: "key_scope list"
  pp_plan :: key_plan

record partner_result =
  pr_status :: string
  pr_message :: string
  pr_signalId :: string
  pr_internalStatus :: signal_status
  pr_clusterId :: "string option"
  pr_confidenceScore :: int

definition partner_options :: "partner_principal \<Rightarrow> tenant \<Rightarrow> report_dto \<Rightarrow> intake_options" where
  "partner_options p t dto =
     \<lparr>io_dto = dto, io_sourceType = partnerSourceTypeFor (tn_type t),
      io_tenantId = Some (pp_tenantId p), io_submittedByUserId = None, io_actorType = ''PARTNER'',
      io_extra = [(''partnerKeyId'', JStr (pp_keyId p)), (''partnerKeyPrefix'', JStr (pp_keyPrefix p)),
        (''tenantType'', JStr (tenant_type_text (tn_type t)))]\<rparr>"

definition submitPartnerReport ::
    "runtime \<Rightarrow> ai_services \<Rightarrow> partner_principal \<Rightarrow> report_dto \<Rightarrow> string option \<Rightarrow>
     ('a report_db_scheme, partner_result) prog" where
  "submitPartnerReport rt ai p dto ip =
     bind_p (find_row tenants (\<lambda>t. tn_id t = pp_tenantId p)) (\<lambda>found.
     bind_p (require_some found (NotFoundException ''Partner tenant not found'')) (\<lambda>t.
     bind_p (intake rt ai (partner_options p t dto) ip) (\<lambda>s.
     ret \<lparr>pr_status = ''PARTNER_REPORT_ACCEPTED'',
          pr_message = ''Partner report accepted and queued for review.'', pr_signalId = ss_id s,
          pr_internalStatus = ss_status s, pr_clusterId = ss_clusterId s,
          pr_confidenceScore = ss_confidenceScore s\<rparr>)))"

section \<open>Reading\<close>

definition signal_statuses :: "(string \<times> signal_status) list" where
  "signal_statuses = map (\<lambda>s. (signal_status_text s, s))
     [UNVERIFIED_REPORT, SUSPICIOUS_SIGNAL, PATTERN_MATCH, UNDER_REVIEW, HIGH_RISK_INDICATOR,
      VERIFIED_SCAM_INTELLIGENCE, PUBLIC_SAFE_ALERT, ARCHIVED, REJECTED]"

definition listSignals :: "string option \<Rightarrow> ('a report_db_scheme, scam_signal list) prog" where
  "listSignals status =
     (let st = map_of signal_statuses (or_default status []) in
      bind_p (find_rows signals (\<lambda>s. st \<noteq> None \<longrightarrow> st = Some (ss_status s))) (\<lambda>rows.
      ret (take 200 (order_desc ss_lastSeen rows))))"

definition getSignal :: "string \<Rightarrow> ('a report_db_scheme, scam_signal) prog" where
  "getSignal i =
     bind_p (find_row signals (\<lambda>s. ss_id s = i)) (\<lambda>found.
     require_some found (NotFoundException ''Scam signal not found''))"

section \<open>The log is respected\<close>

lemma store_report_safe: "moves (log_safe rt') (store_report rt opts)"
  unfolding store_report_def Let_def
  by (auto simp: log_untouched intro!: safe_rules split: option.splits)

lemma enrich_report_safe: "moves (log_safe rt') (enrich_report rt ai dto s)"
  unfolding enrich_report_def
  by (intro safe_rules classify_safe embedSignal_safe processSignal_safe enrichSignal_safe)

lemma queue_report_safe: "moves (log_safe rt') (queue_report rt s)"
  unfolding queue_report_def by (auto simp: log_untouched intro!: safe_rules)

lemma intake_safe:
  assumes "\<And>s d. storable (in_metadata (report_event opts s d ip))"
  shows "moves (log_safe rt) (intake rt ai opts ip)"
  unfolding intake_def cluster_report_def
  by (auto intro!: safe_rules append_safe store_report_safe clusterSignal_safe enrich_report_safe
      queue_report_safe assms split: prod.splits)

lemma submitReport_safe: "moves (log_safe rt) (submitReport rt ai dto ip)"
  unfolding submitReport_def
  by (auto simp: report_event_def intro!: safe_rules intake_safe)

lemma submitFromModule_safe: "moves (log_safe rt) (submitFromModule rt ai dto t u m)"
  unfolding submitFromModule_def
  by (auto simp: report_event_def module_options_def intro!: intake_safe)

lemma submitPartnerReport_safe: "moves (log_safe rt) (submitPartnerReport rt ai p dto ip)"
  unfolding submitPartnerReport_def
  by (auto simp: report_event_def partner_options_def intro!: safe_rules intake_safe
      split: option.splits)

section \<open>Properties\<close>

text \<open>A signal apart from its cluster, which clustering may set.\<close>

definition unlinked :: "scam_signal \<Rightarrow> scam_signal" where
  "unlinked s = s\<lparr>ss_clusterId := None\<rparr>"

lemma unlinked_fields [simp]:
  "unlinked (s\<lparr>ss_clusterId := c\<rparr>) = unlinked s" "ss_id (unlinked s) = ss_id s"
  "ss_status (unlinked s) = ss_status s"
  by (simp_all add: unlinked_def)

lemma unlinked_same:
  assumes "unlinked s = unlinked q"
  shows "ss_id s = ss_id q" "ss_status s = ss_status q" "ss_reportCount s = ss_reportCount q"
    "ss_publicSafeCandidate s = ss_publicSafeCandidate q"
  using assms by (cases s; cases q; simp add: unlinked_def)+

lemma clustering_unlinked:
  "moves (\<lambda>w w'. map unlinked (signals w') = map unlinked (signals w)) (clusterSignal rt s ip)"
proof -
  have upd: "map unlinked (map (\<lambda>q. if P q then q\<lparr>ss_clusterId := c\<rparr> else q) xs) = map unlinked xs" for P c xs
    by simp
  have linked: "moves (\<lambda>w w'. map unlinked (signals w') = map unlinked (signals w))
      (update_row signals signals_update P (\<lambda>q. q\<lparr>ss_clusterId := c\<rparr>))" for P c
    by (auto simp: moves_def update_row_def upd simp del: map_map split: option.split)
  show ?thesis
    unfolding clusterSignal_def find_or_create_cluster_def link_signal_def recount_def Let_def
      append_evidence_def
    by (auto intro!: same.moves_rules same.table_moves linked split: prod.split,
        auto simp: moves_def draw_defs insert_row_def split: option.split)
qed

lemma find_unlinked:
  assumes "map unlinked ys = map unlinked xs" "find (\<lambda>q. ss_id q = i) xs = Some x"
  shows "\<exists>y. find (\<lambda>q. ss_id q = i) ys = Some y \<and> unlinked y = unlinked x"
  using assms
proof (induction xs arbitrary: ys)
  case (Cons a xs)
  then obtain b bs where "ys = b # bs" "unlinked b = unlinked a" by (cases ys) auto
  with Cons show ?case by (auto split: if_splits dest: unlinked_same(1))
qed simp

lemma cluster_report_runs:
  assumes "find (\<lambda>q. ss_id q = ss_id s) (signals w) = Some s"
  shows "runs (cluster_report rt s ip) w (\<lambda>s' w'. unlinked s' = unlinked s \<and>
    map unlinked (signals w') = map unlinked (signals w))"
proof -
  obtain r w1 where run: "clusterSignal rt s ip w = (r, w1)" by (cases "clusterSignal rt s ip w")
  have same: "map unlinked (signals w1) = map unlinked (signals w)"
    by (rule movesD [OF clustering_unlinked run])
  then obtain q where "find (\<lambda>q. ss_id q = ss_id s) (signals w1) = Some q" "unlinked q = unlinked s"
    using find_unlinked [OF same assms] by auto
  with run same show ?thesis
    by (auto simp: cluster_report_def runs_def catch_p_def bind_p_def find_row_def ask_def ret_def
        split: sum.split)
qed

lemma enrich_report_runs:
  "runs (enrich_report rt ai dto s) w (\<lambda>_ w'. signals w' = signals w)"
  unfolding enrich_report_def
  by (auto simp: runs_seq runs_basic
      intro!: runs_attempt [OF signals_unenriched.classify_same]
        runs_attempt [OF signals_unenriched.embed_same]
        runs_attempt [OF signals_unenriched.process_same]
        runs_attempt [OF signals_unenriched.enrich_same])

lemma queue_report_runs:
  "runs (queue_report rt s) w (\<lambda>_ w'. signals w' = signals w \<and>
     (ss_status s = SUSPICIOUS_SIGNAL \<or> ss_status s = PATTERN_MATCH \<longrightarrow>
        (\<exists>q\<in>set (review_queue w'). open_item (ss_id s) q)))"
  by (auto simp: queue_report_def run_simps new_item_def open_item_def find_None_iff
      dest!: find_SomeD split: option.split)

lemma merged_fields [simp]:
  "ss_id (merge_report base dto t old) = ss_id old"
  "ss_reportCount (merge_report base dto t old) = ss_reportCount old + 1"
  "ss_status (merge_report base dto t old) =
     deriveStatus (ss_reportCount old + 1) (ss_confidenceScore (merge_report base dto t old))"
  by (simp_all add: merge_report_def apply_scores_def Let_def)

lemma new_signal_fields [simp]:
  "ss_id (new_signal base opts v uid t) = uid" "ss_reportCount (new_signal base opts v uid t) = 1"
  "ss_status (new_signal base opts v uid t) =
     deriveStatus 1 (ss_confidenceScore (new_signal base opts v uid t))"
  by (simp_all add: new_signal_def apply_scores_def Let_def)

text \<open>The oldest signal of the reported indicator, the one a repeated report is merged into.\<close>

definition earlier_report :: "report_dto \<Rightarrow> scam_signal list \<Rightarrow> scam_signal option" where
  "earlier_report dto ss = first_of (order_asc ss_createdAt (filter (same_indicator
     (rd_indicatorType dto) (normalizeIndicator (rd_indicatorType dto) (rd_indicatorValue dto))) ss))"

lemma store_report_runs:
  assumes "distinct (map ss_id (signals w))" "fresh_ids rt w (ss_id ` set (signals w))"
  shows "runs (store_report rt opts) w (\<lambda>(s, dup) w'.
    find (\<lambda>q. ss_id q = ss_id s) (signals w') = Some s \<and>
    ss_status s = deriveStatus (ss_reportCount s) (ss_confidenceScore s) \<and>
    (case earlier_report (io_dto opts) (signals w) of
       None \<Rightarrow> ss_reportCount s = 1 \<and> map ss_id (signals w') = map ss_id (signals w) @ [ss_id s]
     | Some old \<Rightarrow> ss_id s = ss_id old \<and> ss_reportCount s = ss_reportCount old + 1 \<and>
         map ss_id (signals w') = map ss_id (signals w)))"
proof (cases "earlier_report (io_dto opts) (signals w)")
  case None
  show ?thesis
    using None fresh_rows(1) [OF assms(2), of "db_tick w"] by (simp add: store_report_def Let_def run_simps earlier_report_def find_append_eq)
next
  case (Some old)
  then have "old \<in> set (signals w)"
    by (auto simp: earlier_report_def dest!: first_of_SomeD)
  then obtain x where "find (\<lambda>q. ss_id q = ss_id old) (signals w) = Some x"
    using find_ex [of "\<lambda>q. ss_id q = ss_id old" "signals w"] by auto
  moreover from this have "x = old"
    using same_key [OF assms(1) _ \<open>old \<in> set (signals w)\<close>] by (auto dest: find_SomeD)
  ultimately show ?thesis
    using Some find_mapped [of "\<lambda>q. ss_id q = ss_id old" "signals w" old]
    by (simp add: store_report_def Let_def run_simps earlier_report_def comp_def cong: if_cong)
qed

text \<open>
  C40. Taking in a report always succeeds, and never verifies or publishes anything: the signal
  it returns is unverified, suspicious or a pattern match, whatever the stored signal was
  before. Reports of one indicator share one signal: the report is counted on the oldest signal
  of its normal form when there is one, and opens exactly one new signal otherwise; no other
  signal is added or removed. A signal above the first level has an open item in the review
  queue.
\<close>

theorem intake_never_verifies:
  assumes "distinct (map ss_id (signals w))" "fresh_ids rt w (ss_id ` set (signals w))"
  shows "runs (intake rt ai opts ip) w (\<lambda>s w'.
    ss_status s \<in> {UNVERIFIED_REPORT, SUSPICIOUS_SIGNAL, PATTERN_MATCH} \<and>
    (\<exists>q. find (\<lambda>q. ss_id q = ss_id s) (signals w') = Some q \<and> ss_status q = ss_status s \<and>
       ss_reportCount q = ss_reportCount s) \<and>
    (ss_status s = UNVERIFIED_REPORT \<or> (\<exists>q\<in>set (review_queue w'). open_item (ss_id s) q)) \<and>
    (case earlier_report (io_dto opts) (signals w) of
       None \<Rightarrow> ss_reportCount s = 1 \<and> map ss_id (signals w') = map ss_id (signals w) @ [ss_id s]
     | Some old \<Rightarrow> ss_id s = ss_id old \<and> ss_reportCount s = ss_reportCount old + 1 \<and>
         map ss_id (signals w') = map ss_id (signals w)))"
proof -
  have derived: "deriveStatus n c \<in> {UNVERIFIED_REPORT, SUSPICIOUS_SIGNAL, PATTERN_MATCH}" for n c
    by (simp add: deriveStatus_def)
  have "map ss_id xs = map ss_id (map unlinked xs)" for xs
    by (simp add: comp_def)
  then have ids: "map unlinked ys = map unlinked xs \<Longrightarrow> map ss_id ys = map ss_id xs" for xs ys
    by metis
  have rest: "runs (bind_p (cluster_report rt s0 ip) (\<lambda>s. seq_p (enrich_report rt ai (io_dto opts) s)
      (seq_p (queue_report rt s) (ret s)))) w1 (\<lambda>s w'. unlinked s = unlinked s0 \<and>
        map unlinked (signals w') = map unlinked (signals w1) \<and>
        (ss_status s = SUSPICIOUS_SIGNAL \<or> ss_status s = PATTERN_MATCH \<longrightarrow>
           (\<exists>q\<in>set (review_queue w'). open_item (ss_id s) q)))"
    if "find (\<lambda>q. ss_id q = ss_id s0) (signals w1) = Some s0" for s0 w1
    by (auto simp: runs_bind runs_seq runs_basic
        intro!: runs_mono [OF cluster_report_runs [OF that]] runs_mono [OF enrich_report_runs]
          runs_mono [OF queue_report_runs])
  show ?thesis
    unfolding intake_def runs_bind
  proof (rule runs_mono [OF store_report_runs [OF assms]], clarsimp simp: runs_seq runs_stamped, goal_cases)
    case (1 s0 dup w1)
    show ?case
      unfolding runs_bind [symmetric] runs_seq [symmetric]
    proof (rule runs_mono [OF rest], simp add: 1(1), goal_cases)
      case (1 s w')
      then have m: "map unlinked (signals w') = map unlinked (signals w1)" and u: "unlinked s = unlinked s0"
        by simp_all
      obtain q where q: "find (\<lambda>q. ss_id q = ss_id s0) (signals w') = Some q" "unlinked q = unlinked s0"
        using find_unlinked [OF m \<open>find _ (signals w1) = _\<close>] by blast
      note same = unlinked_same [OF u] unlinked_same [OF q(2)]
      show ?case
        using 1 \<open>ss_status s0 = _\<close> \<open>case _ of None \<Rightarrow> _ | Some _ \<Rightarrow> _\<close>
          derived [of "ss_reportCount s0" "ss_confidenceScore s0"]
        by (simp add: same q(1) ids [OF m] split: option.splits) blast+
    qed
  qed
qed

definition demo_reports :: "scam_signal list \<Rightarrow> report_db" where
  "demo_reports ss = \<lparr>db_tick = 0, evidence_events = [], audit_logs = [], jobs = [],
     ws_events = [], evidence_files = [], export_bundles = [], deliveries = [], alerts = [],
     users = [], contacts = [], reviews = [], settings = [], profiles = [],
     risk_events = [], pauses = [], holds = [], warnings = [], signals = ss, similarities = [],
     graph_nodes = [], graph_edges = [], wallets = [], clusters = [], ai_decisions = [],
     embeddings = [], enrichments = [], tenants = [], reliability = [], review_queue = []\<rparr>"

definition demo_verified :: scam_signal where
  "demo_verified = (demo_signal ''s1'' ''evil.io'')\<lparr>ss_status := VERIFIED_SCAM_INTELLIGENCE\<rparr>"

definition demo_options :: intake_options where
  "demo_options = \<lparr>io_dto = \<lparr>rd_indicatorType = IT_DOMAIN, rd_indicatorValue = ''evil.io'',
       rd_category = None, rd_description = None, rd_rawText = None, rd_geography = None\<rparr>,
     io_sourceType = USER_REPORT, io_tenantId = None, io_submittedByUserId = None,
     io_actorType = ''PUBLIC'', io_extra = []\<rparr>"

text \<open>An anonymous report of an indicator already verified takes the verification away.\<close>

theorem intake_never_verifies_witness:
  "runs (intake demo_rt demo_ai demo_options None) (demo_reports [demo_verified])
     (\<lambda>s w'. ss_id s = ''s1'' \<and> ss_status s \<noteq> VERIFIED_SCAM_INTELLIGENCE)"
proof -
  have "normalizeDomain ''evil.io'' = ''evil.io''" by (simp add: normal_eval)
  then have "earlier_report (io_dto demo_options) (signals (demo_reports [demo_verified])) = Some demo_verified"
    by (simp add: earlier_report_def demo_options_def demo_reports_def demo_verified_def
        demo_signal_def same_indicator_def order_asc_def first_of_def)
  moreover have "ss_id demo_verified = ''s1''"
    by (simp add: demo_verified_def demo_signal_def)
  ultimately show ?thesis
    by (intro runs_mono [OF intake_never_verifies])
       (auto simp: demo_reports_def fresh_ids_def, simp add: demo_rt_def)
qed

end
