(* ===== verification/ClaimVerify.thy ===== *)
theory ClaimVerify
  imports ScamSignals
begin

text \<open>
  ClaimVerify (modules/claimverify): a stranger's claim is scored and kept as a pending row, put
  behind a Guardian Pause from high risk on, fed into the intake of scam signals by the
  indicators found in its subject, and decided once by its owner through the enforcement gate.
\<close>

section \<open>State\<close>

record claim_check =
  cv_id :: string
  cv_userId :: string
  cv_tenantId :: "string option"
  cv_claimType :: claim_type
  cv_subject :: js
  cv_domainAgeDays :: "int option"
  cv_locationMismatch :: bool
  cv_imageReuseDetected :: bool
  cv_scamPhraseScore :: "int option"
  cv_paymentPressure :: bool
  cv_secrecyDetected :: bool
  cv_urgencyDetected :: bool
  cv_priorWarningsCount :: nat
  cv_riskScore :: int
  cv_riskLevel :: risk_level
  cv_riskBreakdown :: breakdown
  cv_decision :: claim_decision
  cv_decidedAt :: "int option"
  cv_decisionNotes :: "string option"
  cv_guardianPauseEventId :: "string option"
  cv_evidenceEventId :: "string option"
  cv_trustedContactReviewId :: "string option"
  cv_metadata :: js
  cv_createdAt :: int

record claim_db = report_db +
  claims :: "claim_check list"

interpretation claims_tab: table claims claims_update
  by unfold_locales simp

interpretation claims_frame: unpaused claims
  by unfold_locales simp_all

section \<open>The indicators of a claim\<close>

text \<open>The first of the keys that holds a string with something in it.\<close>

fun firstString :: "(string \<times> js) list \<Rightarrow> string list \<Rightarrow> string option" where
  "firstString s [] = None"
| "firstString s (k # ks) =
     (case map_of s k of
        Some (JStr v) \<Rightarrow> if trim v \<noteq> [] then Some (trim v) else firstString s ks
      | _ \<Rightarrow> firstString s ks)"

text \<open>\<open>/^[a-z]+:\/\//i\<close> and \<open>/[/?#].*$/\<close>.\<close>

definition letter :: "char \<Rightarrow> bool" where
  "letter c \<longleftrightarrow> is_az c \<or> is_AZ c"

definition drop_scheme :: "string \<Rightarrow> string" where
  "drop_scheme s =
     (let rest = dropWhile letter s in
      if rest \<noteq> s \<and> starts_with ''://'' rest then drop 3 rest else s)"

fun drop_path :: "string \<Rightarrow> string" where
  "drop_path [] = []"
| "drop_path (c # cs) =
     (if c \<in> set ''/?#'' \<and> (\<forall>x\<in>set cs. \<not> line_end x) then [] else c # drop_path cs)"

definition toDomain :: "string \<Rightarrow> string" where
  "toDomain raw = to_lower (trim (drop_path (drop_scheme raw)))"

definition label_char :: "char \<Rightarrow> bool" where
  "label_char c \<longleftrightarrow> letter c \<or> is_digit c \<or> c = CHR ''-''"

definition domain_re :: "string \<Rightarrow> bool" where
  "domain_re d \<longleftrightarrow> 2 \<le> length (split_on (CHR ''.'') d) \<and>
     (\<forall>l\<in>set (split_on (CHR ''.'') d). l \<noteq> [] \<and> (\<forall>c\<in>set l. label_char c))"

definition email_re :: "string \<Rightarrow> bool" where
  "email_re v \<longleftrightarrow> (\<forall>c\<in>set v. \<not> is_space c) \<and> CHR ''@'' \<in> set v \<and> before (CHR ''@'') v \<noteq> [] \<and>
     CHR ''@'' \<notin> set (after (CHR ''@'') v) \<and>
     CHR ''.'' \<in> set (butlast (drop 1 (after (CHR ''@'') v)))"

definition phone_re :: "string \<Rightarrow> bool" where
  "phone_re v \<longleftrightarrow>
     (case (if starts_with ''+'' v then drop 1 v else v) of
        [] \<Rightarrow> False
      | d # ds \<Rightarrow> is_digit d \<and> 6 \<le> length ds \<and>
          (\<forall>c\<in>set ds. is_digit c \<or> c \<in> set '' ()-''))"

definition wallet_re :: "string \<Rightarrow> bool" where
  "wallet_re v \<longleftrightarrow> 20 \<le> length v \<and> (\<forall>c\<in>set v. letter c \<or> is_digit c)"

type_synonym indicator = "indicator_type \<times> string"

definition push_indicator :: "indicator_type \<Rightarrow> string \<Rightarrow> indicator list \<Rightarrow> indicator list" where
  "push_indicator ty v out =
     (if v = [] \<or> (ty, to_lower v) \<in> set (map (\<lambda>(t, x). (t, to_lower x)) out) then out
      else out @ [(ty, v)])"

definition push_found :: "(string \<Rightarrow> bool) \<Rightarrow> indicator_type \<Rightarrow> string option \<Rightarrow>
    (string \<Rightarrow> string) \<Rightarrow> indicator list \<Rightarrow> indicator list" where
  "push_found ok ty found value out =
     (case found of None \<Rightarrow> out
      | Some v \<Rightarrow> if ok v then push_indicator ty (value v) out else out)"

definition extractClaimIndicators :: "js \<Rightarrow> indicator list" where
  "extractClaimIndicators subject =
     (case subject of
        JObj s \<Rightarrow>
          let i1 = push_found domain_re IT_DOMAIN (map_option toDomain
                (firstString s [''websiteDomain'', ''domain'', ''website'', ''url''])) (\<lambda>d. d) [];
              i2 = push_found email_re IT_EMAIL (firstString s [''email'', ''contactEmail''])
                to_lower i1;
              i3 = push_found phone_re IT_PHONE (firstString s [''phone'', ''phoneNumber'', ''contactPhone''])
                (filter (\<lambda>c. \<not> (is_space c \<or> c \<in> set ''()-''))) i2;
              i4 = push_found wallet_re IT_CRYPTO_WALLET
                (firstString s [''wallet'', ''walletAddress'', ''cryptoWallet'', ''address'']) (\<lambda>v. v) i3
          in push_found (\<lambda>v. 2 \<le> length v) IT_FAKE_COMPANY
               (firstString s [''personOrBusinessName'', ''businessName'', ''company'', ''name''])
               (\<lambda>v. v) i4
      | _ \<Rightarrow> [])"

section \<open>Verifying a claim\<close>

record verify_claim_dto =
  vc_claimType :: claim_type
  vc_subject :: js
  vc_domainAgeDays :: "int option"
  vc_locationMismatch :: "bool option"
  vc_imageReuseDetected :: "bool option"
  vc_scamPhraseScore :: "int option"
  vc_paymentPressure :: "bool option"
  vc_secrecyDetected :: "bool option"
  vc_urgencyDetected :: "bool option"
  vc_metadata :: js

definition score_claim :: "verify_claim_dto \<Rightarrow> nat \<Rightarrow> scoring" where
  "score_claim dto priorWarnings = scoreClaimVerify
     \<lparr>ci_claimType = vc_claimType dto, ci_domainAgeDays = vc_domainAgeDays dto,
      ci_locationMismatch = or_default (vc_locationMismatch dto) False,
      ci_imageReuse = or_default (vc_imageReuseDetected dto) False,
      ci_scamPhrase = vc_scamPhraseScore dto,
      ci_paymentPressure = or_default (vc_paymentPressure dto) False,
      ci_secrecy = or_default (vc_secrecyDetected dto) False,
      ci_urgency = or_default (vc_urgencyDetected dto) False,
      ci_priorWarnings = int priorWarnings\<rparr>"

definition new_claim ::
    "auth_user \<Rightarrow> verify_claim_dto \<Rightarrow> nat \<Rightarrow> scoring \<Rightarrow> string \<Rightarrow> int \<Rightarrow> claim_check" where
  "new_claim user dto priorWarnings scoring uid createdAt =
     \<lparr>cv_id = uid, cv_userId = au_userId user, cv_tenantId = Some (au_tenantId user),
      cv_claimType = vc_claimType dto, cv_subject = stored_json (vc_subject dto),
      cv_domainAgeDays = vc_domainAgeDays dto,
      cv_locationMismatch = or_default (vc_locationMismatch dto) False,
      cv_imageReuseDetected = or_default (vc_imageReuseDetected dto) False,
      cv_scamPhraseScore = vc_scamPhraseScore dto,
      cv_paymentPressure = or_default (vc_paymentPressure dto) False,
      cv_secrecyDetected = or_default (vc_secrecyDetected dto) False,
      cv_urgencyDetected = or_default (vc_urgencyDetected dto) False,
      cv_priorWarningsCount = priorWarnings, cv_riskScore = sc_score scoring,
      cv_riskLevel = sc_level scoring, cv_riskBreakdown = sc_breakdown scoring,
      cv_decision = CD_PENDING, cv_decidedAt = None, cv_decisionNotes = None,
      cv_guardianPauseEventId = None, cv_evidenceEventId = None,
      cv_trustedContactReviewId = None, cv_metadata = stored_json (vc_metadata dto),
      cv_createdAt = createdAt\<rparr>"

definition claim_opened ::
    "auth_user \<Rightarrow> verify_claim_dto \<Rightarrow> scoring \<Rightarrow> string \<Rightarrow> append_input" where
  "claim_opened user dto scoring uid =
     user_event (Some (au_tenantId user)) (au_userId user) ''CLAIM_VERIFICATION'' uid
       ''CLAIM_VERIFICATION_OPENED''
       (''ClaimVerify '' @ claim_type_text (vc_claimType dto) @ '': '' @
          level_text (sc_level scoring) @ '' (score '' @ show_int (sc_score scoring) @ '')'')
       (JObj [(''claimType'', JStr (claim_type_text (vc_claimType dto))),
              (''riskScore'', JNum (sc_score scoring)),
              (''riskLevel'', JStr (level_text (sc_level scoring))),
              (''breakdown'', breakdown_js (sc_breakdown scoring))])"

definition spoken_type :: "claim_type \<Rightarrow> string" where
  "spoken_type t = spaced (to_lower (claim_type_text t))"

definition claim_pause :: "verify_claim_dto \<Rightarrow> risk_level \<Rightarrow> string \<Rightarrow> start_pause_dto" where
  "claim_pause dto l uid =
     \<lparr>sp_riskLevel = l, sp_triggerType = SUSPICIOUS_CLAIM,
      sp_triggerSummary = ''Claim type '' @ spoken_type (vc_claimType dto) @ '' flagged as '' @
        level_text l @ '' risk'',
      sp_durationSeconds = Some 90, sp_metadata = JObj [(''claimVerificationId'', JStr uid)]\<rparr>"

definition claimCategory :: "claim_type \<Rightarrow> string option" where
  "claimCategory t =
     (if t = CT_INVESTMENT then Some ''INVESTMENT_SCAM''
      else if t = CT_ROMANCE then Some ''ROMANCE_SCAM''
      else if t = CT_CHARITY then Some ''DONATION_SCAM''
      else if t = CT_GOVERNMENT then Some ''GOVERNMENT_IMPERSONATION''
      else if t = CT_JOB \<or> t = CT_WORK_FROM_HOME then Some ''FAKE_JOB_SCAM''
      else None)"

definition claim_report :: "verify_claim_dto \<Rightarrow> risk_level \<Rightarrow> indicator \<Rightarrow> report_dto" where
  "claim_report dto l i =
     \<lparr>rd_indicatorType = fst i, rd_indicatorValue = snd i,
      rd_category = claimCategory (vc_claimType dto),
      rd_description = Some (''Suspicious '' @ spoken_type (vc_claimType dto) @
        '' claim flagged by ClaimVerify ('' @ level_text l @ '').''),
      rd_rawText = None, rd_geography = None\<rparr>"

definition claim_risk :: "scoring \<Rightarrow> string \<Rightarrow> string \<Rightarrow> risk_input" where
  "claim_risk scoring uid evidenceId =
     \<lparr>ri_moduleSource = RM_CLAIMVERIFY, ri_sessionId = None,
      ri_eventType = ''CLAIMVERIFY_VERIFY'', ri_riskScore = sc_score scoring,
      ri_riskLevel = sc_level scoring,
      ri_triggerReason = ''Claim verification flagged as '' @ level_text (sc_level scoring) @ '' risk'',
      ri_recommendedAction = proceed_action (sc_level scoring), ri_detectedSignals = [],
      ri_metadata = JObj [(''claimVerificationId'', JStr uid), (''evidenceEventId'', JStr evidenceId)]\<rparr>"

text \<open>A failed intake must not break the user's check.\<close>

definition feed_indicators ::
    "runtime \<Rightarrow> ai_services \<Rightarrow> auth_user \<Rightarrow> verify_claim_dto \<Rightarrow> risk_level \<Rightarrow>
     ('a claim_db_scheme, unit) prog" where
  "feed_indicators rt ai user dto l =
     for_p (\<lambda>i. attempt (submitFromModule rt ai (claim_report dto l i) (Some (au_tenantId user))
         (Some (au_userId user)) ''CLAIMVERIFY''))
       (extractClaimIndicators (vc_subject dto))"

definition verify_claim ::
    "runtime \<Rightarrow> ai_services \<Rightarrow> auth_user \<Rightarrow> verify_claim_dto \<Rightarrow> ('a claim_db_scheme, claim_check) prog"
  where
  "verify_claim rt ai user dto =
     bind_p (now rt) (\<lambda>t.
     let thirtyDaysAgo = t - 30 * 24 * 60 * 60 * 1000 in
     bind_p (count_rows claims (\<lambda>c. cv_userId c = au_userId user \<and>
               cv_decision c = CD_CONTINUED_ANYWAY \<and> thirtyDaysAgo \<le> cv_createdAt c))
       (\<lambda>priorWarnings.
     let scoring = score_claim dto priorWarnings in
     bind_p (new_id rt) (\<lambda>uid.
     bind_p (now rt) (\<lambda>createdAt.
     bind_p (insert_row claims_update (new_claim user dto priorWarnings scoring uid createdAt))
       (\<lambda>created.
     bind_p (append_evidence rt (claim_opened user dto scoring (cv_id created))) (\<lambda>evidence.
     bind_p (if sc_level scoring = HIGH \<or> sc_level scoring = CRITICAL
             then bind_p (start_pause rt user (claim_pause dto (sc_level scoring) (cv_id created)))
                    (\<lambda>pause. seq_p (feed_indicators rt ai user dto (sc_level scoring))
                      (ret (Some (pe_id pause))))
             else ret None) (\<lambda>guardianPauseId.
     seq_p (record_risk rt user (claim_risk scoring (cv_id created) (ev_id evidence)))
     (update_row claims claims_update (\<lambda>c. cv_id c = cv_id created)
       (\<lambda>c. c\<lparr>cv_evidenceEventId := Some (ev_id evidence),
              cv_guardianPauseEventId := guardianPauseId\<rparr>)))))))))"

section \<open>Deciding\<close>

datatype claim_choice =
    CX_TRUSTED | CX_REJECTED | CX_ESCALATED_TO_TRUSTED_CONTACT | CX_CONTINUED_ANYWAY

fun claim_next :: "claim_choice \<Rightarrow> claim_decision" where
  "claim_next CX_TRUSTED = CD_TRUSTED"
| "claim_next CX_REJECTED = CD_REJECTED"
| "claim_next CX_ESCALATED_TO_TRUSTED_CONTACT = CD_ESCALATED_TO_TRUSTED_CONTACT"
| "claim_next CX_CONTINUED_ANYWAY = CD_CONTINUED_ANYWAY"

definition claim_kind :: "claim_choice \<Rightarrow> decision_kind" where
  "claim_kind d =
     (if d = CX_CONTINUED_ANYWAY then CONTINUE else if d = CX_TRUSTED then RELEASE else OTHER)"

definition claim_params :: "claim_choice \<Rightarrow> claim_check \<Rightarrow> enforce_params" where
  "claim_params d c =
     \<lparr>en_module = M_CLAIMVERIFY, en_eventId = cv_id c, en_riskLevel = cv_riskLevel c,
      en_amountMinor = None, en_kind = claim_kind d\<rparr>"

definition settle_claim :: "claim_choice \<Rightarrow> string option \<Rightarrow> int \<Rightarrow> claim_check \<Rightarrow> claim_check" where
  "settle_claim d notes t c =
     c\<lparr>cv_decision := claim_next d, cv_decidedAt := Some t, cv_decisionNotes := notes\<rparr>"

definition claim_decided ::
    "auth_user \<Rightarrow> claim_choice \<Rightarrow> string option \<Rightarrow> claim_check \<Rightarrow> append_input" where
  "claim_decided user d notes c =
     user_event (Some (au_tenantId user)) (au_userId user) ''CLAIM_VERIFICATION'' (cv_id c)
       (''CLAIM_VERIFICATION_'' @ claim_decision_text (claim_next d))
       (if d = CX_CONTINUED_ANYWAY then ''User continued past claim warning''
        else ''Claim verification resolved: '' @ claim_decision_text (claim_next d))
       (JObj [(''decision'', JStr (claim_decision_text (claim_next d))),
              (''notes'', opt_str notes)])"

definition claim_review :: "auth_user \<Rightarrow> claim_check \<Rightarrow> request_input" where
  "claim_review user c =
     \<lparr>rq_user = user, rq_module = M_CLAIMVERIFY, rq_eventId = cv_id c,
      rq_summary = ''Claim of type '' @ spoken_type (cv_claimType c) @ '' flagged as '' @
        level_text (cv_riskLevel c) @ '' risk'',
      rq_contactId = None, rq_metadata = JObj [(''claimVerificationId'', JStr (cv_id c))]\<rparr>"

definition claim_follow ::
    "runtime \<Rightarrow> auth_user \<Rightarrow> claim_choice \<Rightarrow> string option \<Rightarrow> claim_check \<Rightarrow>
     ('a claim_db_scheme, unit) prog" where
  "claim_follow rt user d notes existing =
     seq_p (append_evidence rt (claim_decided user d notes existing))
     (when_p (d = CX_ESCALATED_TO_TRUSTED_CONTACT)
       (bind_p (requestReview rt (claim_review user existing)) (\<lambda>review.
        case review of
          None \<Rightarrow> ret ()
        | Some rv \<Rightarrow> void_p (update_row claims claims_update (\<lambda>c. cv_id c = cv_id existing)
            (\<lambda>c. c\<lparr>cv_trustedContactReviewId := Some (rv_id rv)\<rparr>)))))"

definition decide_claim ::
    "runtime \<Rightarrow> auth_user \<Rightarrow> string \<Rightarrow> claim_choice \<Rightarrow> string option \<Rightarrow>
     ('a claim_db_scheme, claim_check) prog" where
  "decide_claim rt user verificationId d notes =
     bind_p (find_row claims (\<lambda>c. cv_id c = verificationId \<and> cv_userId c = au_userId user)) (\<lambda>found.
     bind_p (require_some found (NotFoundException ''Claim verification not found'')) (\<lambda>existing.
     seq_p (ensure (cv_decision existing = CD_PENDING)
       (BadRequestException (''Claim already decided ('' @
          claim_decision_text (cv_decision existing) @ '')'')))
     (seq_p (enforceDecision rt user (claim_params d existing))
     (bind_p (now rt) (\<lambda>t.
      bind_p (update_row claims claims_update (\<lambda>c. cv_id c = cv_id existing)
                (settle_claim d notes t)) (\<lambda>updated.
      seq_p (claim_follow rt user d notes existing) (ret updated)))))))"

definition claim_history :: "auth_user \<Rightarrow> int \<Rightarrow> ('a claim_db_scheme, claim_check list) prog" where
  "claim_history user limit =
     bind_p (find_rows claims (\<lambda>c. cv_userId c = au_userId user)) (\<lambda>rows.
     ret (take (clamp 1 200 limit) (order_desc cv_createdAt rows)))"

section \<open>The log is respected\<close>

lemma claim_score_names [simp]: "distinct (map fst (sc_breakdown (score_claim dto n)))"
  by (simp add: score_claim_def scoreClaimVerify_def score_breakdown_def Let_def)

lemma feed_indicators_safe: "moves (log_safe rt) (feed_indicators rt ai user dto l)"
  unfolding feed_indicators_def by (intro safe_rules submitFromModule_safe)

lemma verify_claim_safe: "moves (log_safe rt) (verify_claim rt ai user dto)"
  unfolding verify_claim_def Let_def
  by (auto simp: log_untouched claim_opened_def
      intro!: safe_rules append_safe start_pause_safe record_risk_safe feed_indicators_safe)

lemma decide_claim_safe: "moves (log_safe rt) (decide_claim rt user cid d notes)"
  unfolding decide_claim_def claim_follow_def
  by (auto simp: log_untouched claim_decided_def
      intro!: safe_rules append_safe enforceDecision_safe requestReview_safe split: option.splits)

section \<open>Properties\<close>

interpretation claimverify: held_action claims claims_update cv_id cv_userId
  "\<lambda>c. cv_decision c = CD_PENDING" claim_params settle_claim claim_follow
  "''Claim verification not found''"
  "\<lambda>c. ''Claim already decided ('' @ claim_decision_text (cv_decision c) @ '')''" decide_claim
proof unfold_locales
  fix d n t and c :: claim_check
  show "cv_id (settle_claim d n t c) = cv_id c" "cv_userId (settle_claim d n t c) = cv_userId c"
    "cv_decision (settle_claim d n t c) \<noteq> CD_PENDING"
    by (cases d; simp add: settle_claim_def)+
next
  fix c :: claim_check and w :: "'a claim_db_scheme" and rt user d n
  assume "find (\<lambda>q. cv_id q = cv_id c) (claims w) \<noteq> None"
  then show "runs (claim_follow rt user d n c) w (\<lambda>_ w'.
      map (\<lambda>q. (cv_id q, cv_userId q, cv_decision q = CD_PENDING)) (claims w') =
      map (\<lambda>q. (cv_id q, cv_userId q, cv_decision q = CD_PENDING)) (claims w))"
    by (auto simp: claim_follow_def run_simps runs_stamped
        intro!: claims_frame.request_then runs_mono [OF link_keeps_view
          [where view = "\<lambda>q. (cv_id q, cv_userId q, cv_decision q = CD_PENDING)"]])
qed (simp_all add: claims_frame.seeded_same claims_frame.enforce_same decide_claim_def)

lemma claim_fields [simp]:
  "cv_id (new_claim user dto n sc uid t) = uid"
  "cv_decision (new_claim user dto n sc uid t) = CD_PENDING"
  "cv_userId (new_claim user dto n sc uid t) = au_userId user"
  "cv_riskScore (new_claim user dto n sc uid t) = sc_score sc"
  "cv_riskLevel (new_claim user dto n sc uid t) = sc_level sc"
  "cv_guardianPauseEventId (new_claim user dto n sc uid t) = None"
  by (simp_all add: new_claim_def)

lemma claim_payloads [simp]:
  "in_entityId (claim_opened user dto sc uid) = uid"
  "in_eventType (claim_opened user dto sc uid) = ''CLAIM_VERIFICATION_OPENED''"
  "ri_riskScore (claim_risk sc uid e) = sc_score sc"
  "ri_riskLevel (claim_risk sc uid e) = sc_level sc"
  "sp_durationSeconds (claim_pause dto l uid) = Some 90"
  "sp_riskLevel (claim_pause dto l uid) = l"
  by (simp_all add: claim_opened_def claim_risk_def claim_pause_def)

text \<open>A reading of the state that the intake of a report never changes.\<close>

locale unreported = unenriched f for f :: "'a report_db_scheme \<Rightarrow> 'b" +
  assumes ignores_report:
    "f (signals_update gq w) = f w" "f (clusters_update gc w) = f w"
    "f (review_queue_update gr w) = f w" "f (evidence_events_update gv w) = f w"
begin

lemma append_same: "moves (\<lambda>w w'. f w' = f w) (append_evidence rt input)"
  unfolding append_evidence_def Let_def
  by (intro same.moves_rules same.table_moves)
     (simp_all add: moves_def draw_defs insert_row_def ignores ignores_report split: option.split)

lemma cluster_same: "moves (\<lambda>w w'. f w' = f w) (clusterSignal rt s ip)"
  unfolding clusterSignal_def find_or_create_cluster_def link_signal_def recount_def Let_def
  by (auto simp: ignores_report split: prod.split
      intro!: same.moves_rules same.table_moves append_same draw_same)

lemma intake_same: "moves (\<lambda>w w'. f w' = f w) (intake rt ai opts ip)"
  unfolding intake_def store_report_def cluster_report_def enrich_report_def queue_report_def Let_def
  by (auto simp: ignores_report split: prod.split option.split
      intro!: same.moves_rules same.table_moves append_same cluster_same draw_same
        classify_same embed_same process_same enrich_same)

end

interpretation claims_unreported: unreported "\<lambda>w. (claims w, pauses w, risk_events w)"
  by unfold_locales simp_all

text \<open>A loop of best-effort steps always ends, in a state related to the first.\<close>

context step_preorder begin

lemma runs_for_attempts:
  "(\<And>x. moves R (f x)) \<Longrightarrow> runs (for_p (\<lambda>x. attempt (f x)) xs) w (\<lambda>_ w'. R w w')"
proof (induction xs arbitrary: w)
  case (Cons x xs)
  then show ?case
    by (auto simp: runs_seq intro!: runs_attempt [OF Cons.prems] runs_mono [OF Cons.IH] intro: trans)
qed (simp add: runs_basic refl)

end

definition fed :: "runtime \<Rightarrow> ('a claim_db_scheme) \<Rightarrow> ('a claim_db_scheme) \<Rightarrow> bool" where
  "fed rt w w' \<longleftrightarrow> log_safe rt w w' \<and>
     (claims w', pauses w', risk_events w') = (claims w, pauses w, risk_events w)"

interpretation feeding: step_preorder "fed rt" for rt
  by unfold_locales (auto simp: fed_def intro: safe.refl safe.trans)

lemma feed_runs: "runs (feed_indicators rt ai user dto l) w (\<lambda>_ w'. fed rt w w')"
  unfolding feed_indicators_def
proof (rule feeding.runs_for_attempts)
  fix i
  have "moves (\<lambda>w w'. (claims w', pauses w', risk_events w') = (claims w, pauses w, risk_events w))
      (submitFromModule rt ai (claim_report dto l i) t u m)" for t u m
    unfolding submitFromModule_def by (rule claims_unreported.intake_same)
  then show "moves (fed rt) (submitFromModule rt ai (claim_report dto l i)
      (Some (au_tenantId user)) (Some (au_userId user)) ''CLAIMVERIFY'')"
    using submitFromModule_safe unfolding moves_def fed_def by blast
qed

lemma feed_then:
  assumes "\<And>w' es. evidence_events w' = evidence_events w @ es \<Longrightarrow> claims w' = claims w \<Longrightarrow>
    pauses w' = pauses w \<Longrightarrow> risk_events w' = risk_events w \<Longrightarrow> Q () w'"
  shows "runs (feed_indicators rt ai user dto l) w Q"
  by (rule runs_mono [OF feed_runs]) (auto simp: fed_def log_safe_def log_extends_def prefix_def intro: assms)

text \<open>
  Verifying a claim opens one pending row for the caller with the score and level of the
  scorer, linked to the evidence event of its opening. From high risk on, and only then, an
  active pause of 90 seconds at the row's own level is opened for the caller and linked; one
  risk event repeats score and level. The indicators of a risky claim are reported to the signal
  intake, whose failure or success changes none of this.
\<close>

lemma verify_screens_claim:
  assumes claims: "fresh_ids rt w (cv_id ` set (claims w))"
    and pauses: "fresh_ids rt w (pe_id ` set (pauses w))"
  shows "runs (verify_claim rt ai user dto) w (\<lambda>c w'.
    let prior = length (filter (\<lambda>c. cv_userId c = au_userId user \<and>
          cv_decision c = CD_CONTINUED_ANYWAY \<and>
          rt_clock rt (db_tick w) - 2592000000 \<le> cv_createdAt c) (claims w));
        scoring = score_claim dto prior
    in claims w' = claims w @ [c] \<and> cv_userId c = au_userId user \<and> cv_decision c = CD_PENDING \<and>
       cv_riskScore c = sc_score scoring \<and> cv_riskLevel c = sc_level scoring \<and>
       (\<exists>e es. evidence_events w' = evidence_events w @ e # es \<and>
          cv_evidenceEventId c = Some (ev_id e) \<and> ev_entityId e = cv_id c \<and>
          ev_eventType e = ''CLAIM_VERIFICATION_OPENED'') \<and>
       (if HIGH \<le> cv_riskLevel c
        then \<exists>p. pauses w' = pauses w @ [p] \<and> cv_guardianPauseEventId c = Some (pe_id p) \<and>
          pe_userId p = au_userId user \<and> pe_status p = PAUSE_ACTIVE \<and>
          pe_riskLevel p = cv_riskLevel c \<and> pe_expiresAt p = pe_startedAt p + 90000
        else pauses w' = pauses w \<and> cv_guardianPauseEventId c = None) \<and>
       (\<exists>r. risk_events w' = risk_events w @ [r] \<and> re_userId r = au_userId user \<and>
          re_riskScore r = cv_riskScore c \<and> re_riskLevel r = cv_riskLevel c))"
proof -
  define n where "n = length (filter (\<lambda>c. cv_userId c = au_userId user \<and>
      cv_decision c = CD_CONTINUED_ANYWAY \<and>
      rt_clock rt (db_tick w) - 2592000000 \<le> cv_createdAt c) (claims w))"
  note eqs = verify_claim_def Let_def run_simps runs_stamped n_def [symmetric]
    record_risk_def find_append_eq fresh_rows [OF claims]
  have high: "HIGH \<le> l \<longleftrightarrow> l = HIGH \<or> l = CRITICAL" for l
    by (cases l) simp_all
  show ?thesis
  proof (cases "HIGH \<le> sc_level (score_claim dto n)")
    case True
    then show ?thesis
      by (simp add: eqs high)
         (rule claims_frame.pause_then, rule fresh_pauses [OF pauses], simp_all,
          auto simp: eqs pause_opened_def high intro!: feed_then)
  next
    case False
    then show ?thesis by (simp add: eqs high)
  qed
qed

definition demo_claims :: "claim_check list \<Rightarrow> claim_db" where
  "demo_claims cs = \<lparr>db_tick = 0, evidence_events = [], audit_logs = [], jobs = [],
     ws_events = [], evidence_files = [], export_bundles = [], deliveries = [], alerts = [],
     users = [], contacts = [], reviews = [], settings = [], profiles = [],
     risk_events = [], pauses = [], holds = [], warnings = [], signals = [], similarities = [],
     graph_nodes = [], graph_edges = [], wallets = [], clusters = [], ai_decisions = [],
     embeddings = [], enrichments = [], tenants = [], reliability = [], review_queue = [],
     claims = cs\<rparr>"

definition demo_claim_dto :: verify_claim_dto where
  "demo_claim_dto = \<lparr>vc_claimType = CT_OIL_PROJECT,
     vc_subject = JObj [(''domain'', JStr ''https://oil.example/invest'')],
     vc_domainAgeDays = Some 5, vc_locationMismatch = Some True, vc_imageReuseDetected = None,
     vc_scamPhraseScore = None, vc_paymentPressure = Some True, vc_secrecyDetected = Some True,
     vc_urgencyDetected = None, vc_metadata = JUndef\<rparr>"

lemma demo_claim_critical: "HIGH \<le> sc_level (score_claim demo_claim_dto n)"
  by (simp add: score_claim_def demo_claim_dto_def scoreClaimVerify_def score_breakdown_def Let_def
      domainAgeScore_def third_capped_def points_if_def prior_points_def clamp_score_def
      scoreToLevel_def)

lemma verify_screens_claim_witness:
  "runs (verify_claim demo_rt demo_ai demo_user demo_claim_dto) (demo_claims [])
     (\<lambda>c w'. claims w' = [c] \<and> (\<exists>p. pauses w' = [p] \<and> cv_guardianPauseEventId c = Some (pe_id p)))"
proof -
  have "fresh_ids demo_rt (demo_claims []) (cv_id ` set (claims (demo_claims [])))"
    "fresh_ids demo_rt (demo_claims []) (pe_id ` set (pauses (demo_claims [])))"
    by (simp_all add: fresh_ids_def demo_claims_def)
  from verify_screens_claim [OF this, of demo_ai demo_user demo_claim_dto] show ?thesis
    by (rule runs_mono) (auto simp: Let_def demo_claim_critical demo_claims_def)
qed

text \<open>
  Only structured values become signals: a domain that is a domain, an e-mail address, a phone
  number of digits, an address of letters and digits, a name of two characters, and none empty.
\<close>

fun well_formed :: "indicator \<Rightarrow> bool" where
  "well_formed (IT_DOMAIN, v) = domain_re v"
| "well_formed (IT_EMAIL, v) = (\<exists>a. v = to_lower a \<and> email_re a)"
| "well_formed (IT_PHONE, v) = (\<forall>c\<in>set v. is_digit c \<or> c = CHR ''+'')"
| "well_formed (IT_CRYPTO_WALLET, v) = wallet_re v"
| "well_formed (IT_FAKE_COMPANY, v) = (2 \<le> length v)"
| "well_formed (_, v) = False"

lemma push_well_formed:
  assumes "\<forall>i\<in>set out. well_formed i \<and> snd i \<noteq> []" "\<And>v. ok v \<Longrightarrow> well_formed (ty, value v)"
  shows "\<forall>i\<in>set (push_found ok ty found value out). well_formed i \<and> snd i \<noteq> []"
  using assms by (auto simp: push_found_def push_indicator_def split: option.splits)

lemma phone_re_chars:
  assumes "phone_re v"
  shows "\<forall>c\<in>set v. is_digit c \<or> c = CHR ''+'' \<or> c = CHR '' '' \<or> c \<in> set ''()-''"
proof -
  define u where "u = (if starts_with ''+'' v then drop 1 v else v)"
  have "\<forall>c\<in>set u. is_digit c \<or> c = CHR '' '' \<or> c \<in> set ''()-''"
    using assms unfolding phone_re_def u_def [symmetric] by (cases u) auto
  moreover have "set v \<subseteq> insert (CHR ''+'') (set u)"
    by (cases v) (auto simp: u_def starts_with_def)
  ultimately show ?thesis by blast
qed

lemma extracted_well_formed:
  "\<forall>i\<in>set (extractClaimIndicators subject). well_formed i \<and> snd i \<noteq> []"
proof (cases subject)
  case (JObj s)
  have "well_formed (IT_PHONE, filter (\<lambda>c. \<not> (is_space c \<or> c \<in> set ''()-'')) v)" if "phone_re v" for v
    using phone_re_chars [OF that] by (fastforce simp: is_space_def code_def)
  then show ?thesis
    unfolding extractClaimIndicators_def JObj js.case Let_def
    by (intro push_well_formed) auto
qed (simp_all add: extractClaimIndicators_def)

end
