(* ===== verification/Webhooks.thy ===== *)
theory Webhooks
  imports ClaimVerify
begin

text \<open>
  Outbound webhooks (modules/webhooks): subscriptions of partner tenants, and the signed
  deliveries of an event to every matching active subscription. The deliveries of the source
  are not awaited by the operation that publishes the event; the model runs them at that point,
  one after the other. The HMAC, the partner's endpoint and the regular expressions an
  administrator types in are parameters.
\<close>

record web_services =
  web_hmac :: "string \<Rightarrow> string \<Rightarrow> string"
  web_fetch :: "string \<Rightarrow> string \<Rightarrow> (string \<times> string) list \<Rightarrow> nat \<Rightarrow> string + bool \<times> int \<times> string"
  web_regex :: "string \<Rightarrow> string \<Rightarrow> bool option"

section \<open>State\<close>

datatype hook_event =
    SIGNAL_VERIFIED | REGISTRY_PUBLISHED | REGISTRY_UNPUBLISHED | PUBLIC_ALERT_PUBLISHED

fun hook_event_text :: "hook_event \<Rightarrow> string" where
  "hook_event_text SIGNAL_VERIFIED = ''SIGNAL_VERIFIED''"
| "hook_event_text REGISTRY_PUBLISHED = ''REGISTRY_PUBLISHED''"
| "hook_event_text REGISTRY_UNPUBLISHED = ''REGISTRY_UNPUBLISHED''"
| "hook_event_text PUBLIC_ALERT_PUBLISHED = ''PUBLIC_ALERT_PUBLISHED''"

datatype hook_status = HOOK_ACTIVE | HOOK_PAUSED | HOOK_REVOKED

datatype hook_outcome = HD_PENDING | HD_SUCCEEDED | HD_FAILED

record subscription =
  wh_id :: string
  wh_tenantId :: string
  wh_url :: string
  wh_secret :: string
  wh_eventTypes :: "hook_event list"
  wh_status :: hook_status
  wh_label :: "string option"
  wh_createdByUserId :: "string option"
  wh_revokedAt :: "int option"
  wh_createdAt :: int
  wh_updatedAt :: int

record hook_delivery =
  hd_id :: string
  hd_subscriptionId :: string
  hd_tenantId :: string
  hd_eventType :: hook_event
  hd_payload :: js
  hd_signature :: string
  hd_attempt :: nat
  hd_status :: hook_outcome
  hd_responseStatus :: "int option"
  hd_responseBody :: "string option"
  hd_error :: "string option"
  hd_deliveredAt :: "int option"
  hd_succeededAt :: "int option"
  hd_createdAt :: int

record hook_db = claim_db +
  subscriptions :: "subscription list"
  hook_deliveries :: "hook_delivery list"

interpretation subscriptions_tab: table subscriptions subscriptions_update
  by unfold_locales simp

interpretation hook_deliveries_tab: table hook_deliveries hook_deliveries_update
  by unfold_locales simp

section \<open>Managing subscriptions\<close>

record subscription_dto =
  sd_tenantId :: string
  sd_url :: string
  sd_eventTypes :: "hook_event list"
  sd_label :: "string option"

text \<open>What is shown of a subscription: everything but the secret.\<close>

record safe_subscription =
  sw_id :: string
  sw_tenantId :: string
  sw_url :: string
  sw_eventTypes :: "hook_event list"
  sw_status :: hook_status
  sw_label :: "string option"
  sw_createdByUserId :: "string option"
  sw_revokedAt :: "int option"
  sw_createdAt :: int
  sw_updatedAt :: int

definition safe_select :: "subscription \<Rightarrow> safe_subscription" where
  "safe_select s = \<lparr>sw_id = wh_id s, sw_tenantId = wh_tenantId s, sw_url = wh_url s,
     sw_eventTypes = wh_eventTypes s, sw_status = wh_status s, sw_label = wh_label s,
     sw_createdByUserId = wh_createdByUserId s, sw_revokedAt = wh_revokedAt s,
     sw_createdAt = wh_createdAt s, sw_updatedAt = wh_updatedAt s\<rparr>"

definition generateSecret :: "runtime \<Rightarrow> ('a core_db_scheme, string) prog" where
  "generateSecret rt = bind_p (random_token rt) (\<lambda>r. ret (''whsec_'' @ r))"

definition new_subscription ::
    "auth_user \<Rightarrow> subscription_dto \<Rightarrow> string \<Rightarrow> string \<Rightarrow> int \<Rightarrow> subscription" where
  "new_subscription actor dto secret uid t =
     \<lparr>wh_id = uid, wh_tenantId = sd_tenantId dto, wh_url = sd_url dto, wh_secret = secret,
      wh_eventTypes = sd_eventTypes dto, wh_status = HOOK_ACTIVE, wh_label = sd_label dto,
      wh_createdByUserId = Some (au_userId actor), wh_revokedAt = None, wh_createdAt = t,
      wh_updatedAt = t\<rparr>"

definition admin_event ::
    "string option \<Rightarrow> string \<Rightarrow> string \<Rightarrow> string \<Rightarrow> string \<Rightarrow> string \<Rightarrow> string \<Rightarrow> js \<Rightarrow>
     string option \<Rightarrow> append_input" where
  "admin_event tenant actor role etype eid evtype descr meta ip =
     (user_event tenant actor etype eid evtype descr meta)
       \<lparr>in_actorType := Some role, in_ipAddress := ip\<rparr>"

definition subscription_created ::
    "auth_user \<Rightarrow> subscription_dto \<Rightarrow> tenant \<Rightarrow> string \<Rightarrow> string option \<Rightarrow> append_input" where
  "subscription_created actor dto t uid ip =
     admin_event (Some (tn_id t)) (au_userId actor) ''ADMIN'' ''WEBHOOK_SUBSCRIPTION'' uid
       ''WEBHOOK_SUBSCRIPTION_CREATED''
       (''Webhook subscription created for '' @ tn_name t @ '' -> '' @ sd_url dto)
       (JObj [(''tenantId'', JStr (tn_id t)),
         (''eventTypes'', JArr (map (JStr \<circ> hook_event_text) (sd_eventTypes dto))),
         (''url'', JStr (sd_url dto))]) ip"

definition createSubscription ::
    "runtime \<Rightarrow> auth_user \<Rightarrow> subscription_dto \<Rightarrow> string option \<Rightarrow>
     ('a hook_db_scheme, string \<times> safe_subscription) prog" where
  "createSubscription rt actor dto ip =
     bind_p (find_row tenants (\<lambda>t. tn_id t = sd_tenantId dto)) (\<lambda>found.
     bind_p (require_some found (NotFoundException ''Tenant not found'')) (\<lambda>t.
     bind_p (generateSecret rt) (\<lambda>secret.
     bind_p (new_id rt) (\<lambda>uid. bind_p (now rt) (\<lambda>c.
     bind_p (insert_row subscriptions_update (new_subscription actor dto secret uid c)) (\<lambda>s.
     seq_p (append_evidence rt (subscription_created actor dto t (wh_id s) ip))
     (ret (secret, safe_select s))))))))"

definition listSubscriptions ::
    "string option \<Rightarrow> ('a hook_db_scheme, safe_subscription list) prog" where
  "listSubscriptions tenantId =
     bind_p (find_rows subscriptions (\<lambda>s. truthy tenantId \<longrightarrow> tenantId = Some (wh_tenantId s)))
       (\<lambda>rows. ret (map safe_select (take 200 (order_desc wh_createdAt rows))))"

definition revoke_row :: "int \<Rightarrow> int \<Rightarrow> subscription \<Rightarrow> subscription" where
  "revoke_row t u s = s\<lparr>wh_status := HOOK_REVOKED, wh_revokedAt := Some t, wh_updatedAt := u\<rparr>"

definition subscription_revoked :: "auth_user \<Rightarrow> subscription \<Rightarrow> string option \<Rightarrow> append_input" where
  "subscription_revoked actor s ip =
     admin_event (Some (wh_tenantId s)) (au_userId actor) ''ADMIN'' ''WEBHOOK_SUBSCRIPTION''
       (wh_id s) ''WEBHOOK_SUBSCRIPTION_REVOKED'' ''Webhook subscription revoked''
       (JObj [(''tenantId'', JStr (wh_tenantId s)), (''url'', JStr (wh_url s))]) ip"

definition revokeSubscription ::
    "runtime \<Rightarrow> auth_user \<Rightarrow> string \<Rightarrow> string option \<Rightarrow> ('a hook_db_scheme, safe_subscription) prog"
  where
  "revokeSubscription rt actor i ip =
     bind_p (find_row subscriptions (\<lambda>s. wh_id s = i)) (\<lambda>found.
     bind_p (require_some found (NotFoundException ''Webhook subscription not found'')) (\<lambda>s.
     if wh_status s = HOOK_REVOKED then ret (safe_select s)
     else
       bind_p (now rt) (\<lambda>t. bind_p (now rt) (\<lambda>u.
       bind_p (update_row subscriptions subscriptions_update (\<lambda>s. wh_id s = i) (revoke_row t u))
         (\<lambda>updated.
       seq_p (append_evidence rt (subscription_revoked actor s ip))
       (ret (safe_select updated)))))))"

text \<open>The columns of a delivery shown: neither the payload nor the signature.\<close>

record delivery_view =
  dw_id :: string
  dw_eventType :: hook_event
  dw_status :: hook_outcome
  dw_responseStatus :: "int option"
  dw_responseBody :: "string option"
  dw_error :: "string option"
  dw_attempt :: nat
  dw_deliveredAt :: "int option"
  dw_succeededAt :: "int option"
  dw_createdAt :: int

definition as_delivery_view :: "hook_delivery \<Rightarrow> delivery_view" where
  "as_delivery_view d = \<lparr>dw_id = hd_id d, dw_eventType = hd_eventType d, dw_status = hd_status d,
     dw_responseStatus = hd_responseStatus d, dw_responseBody = hd_responseBody d,
     dw_error = hd_error d, dw_attempt = hd_attempt d, dw_deliveredAt = hd_deliveredAt d,
     dw_succeededAt = hd_succeededAt d, dw_createdAt = hd_createdAt d\<rparr>"

definition listHookDeliveries :: "string \<Rightarrow> int \<Rightarrow> ('a hook_db_scheme, delivery_view list) prog" where
  "listHookDeliveries subscriptionId limit =
     bind_p (find_rows hook_deliveries (\<lambda>d. hd_subscriptionId d = subscriptionId)) (\<lambda>rows.
     ret (map as_delivery_view (take (clamp 1 500 limit) (order_desc hd_createdAt rows))))"

section \<open>Publishing and delivering\<close>

definition envelope ::
    "subscription \<Rightarrow> hook_event \<Rightarrow> (string \<times> js) list \<Rightarrow> string \<Rightarrow> int \<Rightarrow> js" where
  "envelope s e data eid timestamp =
     JObj [(''id'', JStr eid), (''eventType'', JStr (hook_event_text e)),
       (''tenantId'', JStr (wh_tenantId s)),
       (''occurredAt'', JStr (to_iso_string (timestamp * 1000))), (''data'', JObj data)]"

definition signature_header :: "web_services \<Rightarrow> string \<Rightarrow> int \<Rightarrow> string \<Rightarrow> string" where
  "signature_header web secret timestamp body =
     ''t='' @ show_int timestamp @ '',v1='' @
     web_hmac web secret (show_int timestamp @ ''.'' @ body)"

definition new_hook_delivery ::
    "subscription \<Rightarrow> hook_event \<Rightarrow> js \<Rightarrow> string \<Rightarrow> int \<Rightarrow> string \<Rightarrow> int \<Rightarrow> hook_delivery" where
  "new_hook_delivery s e env sig t uid c =
     \<lparr>hd_id = uid, hd_subscriptionId = wh_id s, hd_tenantId = wh_tenantId s, hd_eventType = e,
      hd_payload = stored_json env, hd_signature = sig, hd_attempt = 1, hd_status = HD_PENDING,
      hd_responseStatus = None, hd_responseBody = None, hd_error = None,
      hd_deliveredAt = Some t, hd_succeededAt = None, hd_createdAt = c\<rparr>"

definition hook_headers :: "string \<Rightarrow> hook_event \<Rightarrow> string \<Rightarrow> (string \<times> string) list" where
  "hook_headers sig e deliveryId =
     [(''Content-Type'', ''application/json''), (''X-VIGISCAM-Signature'', sig),
      (''X-VIGISCAM-Event'', hook_event_text e), (''X-VIGISCAM-Delivery-Id'', deliveryId)]"

definition answered_row :: "bool \<Rightarrow> int \<Rightarrow> string \<Rightarrow> int option \<Rightarrow> hook_delivery \<Rightarrow> hook_delivery" where
  "answered_row ok st body t d =
     d\<lparr>hd_status := (if ok then HD_SUCCEEDED else HD_FAILED), hd_responseStatus := Some st,
       hd_responseBody := Some (take 2000 body), hd_succeededAt := t\<rparr>"

definition failed_row :: "string \<Rightarrow> hook_delivery \<Rightarrow> hook_delivery" where
  "failed_row err d = d\<lparr>hd_status := HD_FAILED, hd_error := Some (take 2000 err)\<rparr>"

text \<open>
  What the endpoint answered is written to the delivery: a response with its status, or the
  error of the call. The row was created by this delivery, so its update finds it.
\<close>

definition record_answer ::
    "runtime \<Rightarrow> string \<Rightarrow> string + bool \<times> int \<times> string \<Rightarrow> ('a hook_db_scheme, unit) prog" where
  "record_answer rt deliveryId answer =
     (case answer of
        Inl err \<Rightarrow> attempt (update_row hook_deliveries hook_deliveries_update
          (\<lambda>d. hd_id d = deliveryId) (failed_row err))
      | Inr (ok, st, body) \<Rightarrow>
          bind_p (if ok then bind_p (now rt) (\<lambda>t. ret (Some t)) else ret None) (\<lambda>t.
          void_p (update_row hook_deliveries hook_deliveries_update
            (\<lambda>d. hd_id d = deliveryId) (answered_row ok st body t))))"

definition deliver ::
    "runtime \<Rightarrow> web_services \<Rightarrow> hook_event \<Rightarrow> (string \<times> js) list \<Rightarrow> subscription \<Rightarrow>
     ('a hook_db_scheme, unit) prog" where
  "deliver rt web e data s =
     bind_p (now rt) (\<lambda>t0.
     let timestamp = t0 div 1000 in
     bind_p (new_id rt) (\<lambda>eid.
     let env = envelope s e data eid timestamp;
         body = json_stringify env;
         sig = signature_header web (wh_secret s) timestamp body
     in
     bind_p (now rt) (\<lambda>t.
     bind_p (new_id rt) (\<lambda>uid. bind_p (now rt) (\<lambda>c.
     bind_p (insert_row hook_deliveries_update (new_hook_delivery s e env sig t uid c)) (\<lambda>d.
     bind_p (draw (web_fetch web (wh_url s) body (hook_headers sig e (hd_id d)))) (\<lambda>answer.
     record_answer rt (hd_id d) answer)))))))"

definition takes_event :: "hook_event \<Rightarrow> subscription \<Rightarrow> bool" where
  "takes_event e s \<longleftrightarrow> wh_status s = HOOK_ACTIVE \<and> e \<in> set (wh_eventTypes s)"

definition broadcastPublic ::
    "runtime \<Rightarrow> web_services \<Rightarrow> hook_event \<Rightarrow> (string \<times> js) list \<Rightarrow> ('a hook_db_scheme, unit) prog"
  where
  "broadcastPublic rt web e data =
     bind_p (find_rows subscriptions (takes_event e)) (\<lambda>subs. for_p (deliver rt web e data) subs)"

definition publish_event ::
    "runtime \<Rightarrow> web_services \<Rightarrow> hook_event \<Rightarrow> string option \<Rightarrow> (string \<times> js) list \<Rightarrow>
     ('a hook_db_scheme, unit) prog" where
  "publish_event rt web e tenantId data =
     when_p (truthy tenantId)
       (bind_p (find_rows subscriptions (\<lambda>s. tenantId = Some (wh_tenantId s) \<and> takes_event e s))
         (\<lambda>subs. for_p (deliver rt web e data) subs))"

section \<open>The log is respected\<close>

lemma admin_event_storable [simp]:
  "storable (in_metadata (admin_event t a r et ei ev de m ip)) = storable m"
  by (simp add: admin_event_def user_event_def)

lemma deliver_safe: "moves (log_safe rt') (deliver rt web e data s)"
  unfolding deliver_def record_answer_def Let_def
  by (auto simp: log_untouched intro!: safe_rules split: sum.splits prod.splits)

lemma publish_safe: "moves (log_safe rt') (publish_event rt web e t data)"
  unfolding publish_event_def by (intro safe_rules deliver_safe)

lemma broadcast_safe: "moves (log_safe rt') (broadcastPublic rt web e data)"
  unfolding broadcastPublic_def by (intro safe_rules deliver_safe)

lemma createSubscription_safe: "moves (log_safe rt) (createSubscription rt actor dto ip)"
  unfolding createSubscription_def generateSecret_def
  by (auto simp: log_untouched subscription_created_def intro!: safe_rules append_safe)

lemma revokeSubscription_safe: "moves (log_safe rt) (revokeSubscription rt actor i ip)"
  unfolding revokeSubscription_def
  by (auto simp: log_untouched subscription_revoked_def intro!: safe_rules append_safe)

section \<open>Properties\<close>

text \<open>A reading of the state that publishing never changes.\<close>

locale unhooked =
  fixes f :: "'a hook_db_scheme \<Rightarrow> 'b"
  assumes ignores_hooks:
    "f (hook_deliveries_update g w) = f w" "f (db_tick_update h w) = f w"
begin

lemma draw_same: "moves (\<lambda>w w'. f w' = f w) (draw d)"
  by (simp add: moves_def draw_def ignores_hooks)

lemma deliver_same: "moves (\<lambda>w w'. f w' = f w) (deliver rt web e data s)"
  unfolding deliver_def record_answer_def now_def new_id_def Let_def
  by (auto simp: ignores_hooks split: sum.splits prod.splits
      intro!: same.moves_rules same.table_moves draw_same)

lemma publish_same: "moves (\<lambda>w w'. f w' = f w) (publish_event rt web e t data)"
  unfolding publish_event_def by (intro same.moves_rules same.table_moves deliver_same)

lemma broadcast_same: "moves (\<lambda>w w'. f w' = f w) (broadcastPublic rt web e data)"
  unfolding broadcastPublic_def by (intro same.moves_rules same.table_moves deliver_same)

end

interpretation log_unhooked: unhooked "\<lambda>w. (evidence_events w, subscriptions w, signals w)"
  by unfold_locales simp_all

text \<open>A settled delivery of an event to a subscription, signed with its secret.\<close>

definition delivered ::
    "web_services \<Rightarrow> hook_event \<Rightarrow> (string \<times> js) list \<Rightarrow> subscription \<Rightarrow> hook_delivery \<Rightarrow> bool" where
  "delivered web e data s d \<longleftrightarrow>
     hd_subscriptionId d = wh_id s \<and> hd_tenantId d = wh_tenantId s \<and> hd_eventType d = e \<and>
     hd_status d \<noteq> HD_PENDING \<and> (hd_status d = HD_SUCCEEDED \<longleftrightarrow> hd_succeededAt d \<noteq> None) \<and>
     (\<exists>eid t. hd_payload d = stored_json (envelope s e data eid t) \<and>
        hd_signature d = signature_header web (wh_secret s) t (json_stringify (envelope s e data eid t)))"

definition settled :: "hook_delivery \<Rightarrow> hook_delivery \<Rightarrow> bool" where
  "settled d d' \<longleftrightarrow>
     hd_id d' = hd_id d \<and> hd_subscriptionId d' = hd_subscriptionId d \<and>
     hd_tenantId d' = hd_tenantId d \<and> hd_eventType d' = hd_eventType d \<and>
     hd_payload d' = hd_payload d \<and> hd_signature d' = hd_signature d \<and>
     hd_status d' \<noteq> HD_PENDING \<and> (hd_status d' = HD_SUCCEEDED \<longleftrightarrow> hd_succeededAt d' \<noteq> None)"

lemma answer_settles:
  assumes "hook_deliveries w = ds @ [d]" "hd_id d \<notin> hd_id ` set ds" "hd_succeededAt d = None"
  shows "runs (record_answer rt (hd_id d) answer) w
    (\<lambda>_ w'. \<exists>d'. hook_deliveries w' = ds @ [d'] \<and> settled d d' \<and> db_tick w \<le> db_tick w')"
proof -
  have ne: "r \<in> set ds \<Longrightarrow> hd_id r \<noteq> hd_id d" for r using assms(2) by (metis imageI)
  then have f: "find (\<lambda>r. hd_id r = hd_id d) ds = None" by (simp add: find_None_iff)
  have m: "map (\<lambda>r. if hd_id r = hd_id d then g r else r) ds = ds" for g
    by (rule map_idI) (simp add: ne)
  show ?thesis
  proof (cases answer)
    case (Inl err)
    have "settled d (failed_row err d)" using assms(3) by (simp add: settled_def failed_row_def)
    then show ?thesis
      by (simp add: Inl record_answer_def attempt_def runs_catch run_simps assms(1) find_append_eq f m)
  next
    case (Inr a)
    obtain ok st body where a: "a = (ok, st, body)" by (cases a) auto
    have "settled d (answered_row ok st body t d)" if "ok \<longleftrightarrow> t \<noteq> None" for t
      using that by (simp add: settled_def answered_row_def)
    then show ?thesis
      by (cases ok) (simp_all add: Inr a record_answer_def run_simps assms(1) find_append_eq f m)
  qed
qed

text \<open>One delivery: its row is new, settled and signed; identifiers drawn later are still fresh.\<close>

lemma deliver_runs:
  assumes "inj (rt_uuid rt)" "fresh_ids rt w (hd_id ` set (hook_deliveries w))"
  shows "runs (deliver rt web e data s) w (\<lambda>_ w'. \<exists>d.
    hook_deliveries w' = hook_deliveries w @ [d] \<and> delivered web e data s d \<and>
    fresh_ids rt w' (hd_id ` set (hook_deliveries w')))"
proof -
  define n where "n = db_tick w"
  let ?u = "rt_uuid rt (Suc (Suc (Suc n)))"
  have new: "?u \<notin> hd_id ` set (hook_deliveries w)"
    using assms(2) by (simp add: fresh_ids_def n_def)
  have ok: "delivered web e data s d'" if "settled (new_hook_delivery s e (envelope s e data eid t)
      (signature_header web (wh_secret s) t (json_stringify (envelope s e data eid t))) u uid c) d'"
    for d' eid t u uid c
    using that by (auto simp: delivered_def settled_def new_hook_delivery_def)
  have fresh: "fresh_ids rt w' (hd_id ` set (hook_deliveries w @ [d']))"
    if "n + 4 \<le> db_tick w'" "hd_id d' = ?u" for w' :: "'a hook_db_scheme" and d'
    using that assms(2) injD [OF assms(1)] by (fastforce simp: fresh_ids_def n_def)
  show ?thesis
    unfolding deliver_def Let_def runs_bind runs_draw runs_table
  proof (rule runs_mono [OF answer_settles [where ds = "hook_deliveries w"]], goal_cases)
    case (4 a w')
    then obtain d' where d': "hook_deliveries w' = hook_deliveries w @ [d']" "n + 4 \<le> db_tick w'"
      and st: "settled (new_hook_delivery s e (envelope s e data (rt_uuid rt (Suc n)) (rt_clock rt n div 1000))
        (signature_header web (wh_secret s) (rt_clock rt n div 1000)
          (json_stringify (envelope s e data (rt_uuid rt (Suc n)) (rt_clock rt n div 1000))))
        (rt_clock rt (Suc (Suc n))) ?u (rt_clock rt (Suc (Suc (Suc (Suc n)))))) d'"
      by (auto simp: n_def)
    from st have "hd_id d' = ?u" by (simp add: settled_def new_hook_delivery_def)
    with d' ok [OF st] fresh [of w' d'] show ?case by simp
  qed (use new in \<open>simp_all add: new_hook_delivery_def n_def\<close>)
qed

lemma deliveries_run:
  assumes "inj (rt_uuid rt)" "fresh_ids rt w (hd_id ` set (hook_deliveries w))"
  shows "runs (for_p (deliver rt web e data) subs) w (\<lambda>_ w'. \<exists>ds.
    hook_deliveries w' = hook_deliveries w @ ds \<and> list_all2 (delivered web e data) subs ds)"
  using assms(2)
proof (induction subs arbitrary: w)
  case (Cons s subs)
  show ?case
    unfolding for_p.simps runs_seq
  proof (rule runs_mono [OF deliver_runs [OF assms(1) Cons.prems]], elim exE conjE)
    fix u d and w1 :: "'a hook_db_scheme"
    assume 1: "hook_deliveries w1 = hook_deliveries w @ [d]" "delivered web e data s d"
      "fresh_ids rt w1 (hd_id ` set (hook_deliveries w1))"
    show "runs (for_p (deliver rt web e data) subs) w1 (\<lambda>_ w'. \<exists>ds.
        hook_deliveries w' = hook_deliveries w @ ds \<and> list_all2 (delivered web e data) (s # subs) ds)"
      by (rule runs_mono [OF Cons.IH [OF 1(3)]]) (use 1(1,2) in auto)
  qed
qed (simp add: runs_basic)

text \<open>
  Publishing an event never fails, and hands it to exactly the subscriptions of the owning
  tenant that are active and listed for the event, once each and in order: a revoked
  subscription, another event's and another tenant's get nothing. Every delivery is settled, is
  marked successful exactly when the endpoint accepted it, and carries the signature of its own
  time stamp and body under the secret of its subscription. An event without a tenant reaches
  nobody.
\<close>

lemma publish_reaches_subscribers:
  assumes "inj (rt_uuid rt)" "fresh_ids rt w (hd_id ` set (hook_deliveries w))"
  shows "runs (publish_event rt web e tenantId data) w (\<lambda>_ w'. \<exists>ds.
    hook_deliveries w' = hook_deliveries w @ ds \<and>
    list_all2 (delivered web e data)
      (filter (\<lambda>s. truthy tenantId \<and> tenantId = Some (wh_tenantId s) \<and>
         wh_status s = HOOK_ACTIVE \<and> e \<in> set (wh_eventTypes s)) (subscriptions w)) ds)"
  using deliveries_run [OF assms]
  by (simp add: publish_event_def takes_event_def run_simps)

definition demo_web :: web_services where
  "demo_web = \<lparr>web_hmac = (\<lambda>k m. k @ ''/'' @ m), web_fetch = (\<lambda>u b h n. Inr (True, 200, ''ok'')),
     web_regex = (\<lambda>p s. Some (p = s))\<rparr>"

definition demo_subscription :: "string \<Rightarrow> string \<Rightarrow> subscription" where
  "demo_subscription i t = \<lparr>wh_id = i, wh_tenantId = t, wh_url = ''https://hooks.example'',
     wh_secret = ''whsec_1'', wh_eventTypes = [SIGNAL_VERIFIED], wh_status = HOOK_ACTIVE,
     wh_label = None, wh_createdByUserId = None, wh_revokedAt = None, wh_createdAt = 0,
     wh_updatedAt = 0\<rparr>"

definition demo_hooks :: "subscription list \<Rightarrow> hook_db" where
  "demo_hooks subs = \<lparr>db_tick = 0, evidence_events = [], audit_logs = [], jobs = [],
     ws_events = [], evidence_files = [], export_bundles = [], deliveries = [], alerts = [],
     users = [], contacts = [], reviews = [], settings = [], profiles = [],
     risk_events = [], pauses = [], holds = [], warnings = [], signals = [], similarities = [],
     graph_nodes = [], graph_edges = [], wallets = [], clusters = [], ai_decisions = [],
     embeddings = [], enrichments = [], tenants = [], reliability = [], review_queue = [],
     claims = [], subscriptions = subs, hook_deliveries = []\<rparr>"

lemma show_nat_inj: "show_nat m = show_nat n \<Longrightarrow> m = n"
  by (metis digits_value_show_nat)

lemma demo_rt_inj: "inj (rt_uuid demo_rt)"
  by (auto simp: demo_rt_def inj_def dest: show_nat_inj)

lemma publish_reaches_subscribers_witness:
  "runs (publish_event demo_rt demo_web SIGNAL_VERIFIED (Some ''t1'') [])
     (demo_hooks [demo_subscription ''w1'' ''t1'', demo_subscription ''w2'' ''t2''])
     (\<lambda>_ w'. map hd_subscriptionId (hook_deliveries w') = [''w1''])"
  by (rule runs_mono [OF publish_reaches_subscribers])
     (auto simp: demo_rt_inj demo_hooks_def fresh_ids_def demo_subscription_def truthy_def
       delivered_def list_all2_Cons1)

end
