(* ===== verification/ReviewQueue.thy ===== *)
theory ReviewQueue
  imports Webhooks
begin

text \<open>
  The internal review workflow (modules/review-queue): the listing of queued items, claiming one,
  and the reviewer's decision on a signal, the only operation that verifies one.
\<close>

datatype review_verdict =
    MARK_UNDER_REVIEW | MARK_HIGH_RISK | PROMOTE_TO_VERIFIED | REJECT_SIGNAL | ARCHIVE_SIGNAL

fun verdict_text :: "review_verdict \<Rightarrow> string" where
  "verdict_text MARK_UNDER_REVIEW = ''MARK_UNDER_REVIEW''"
| "verdict_text MARK_HIGH_RISK = ''MARK_HIGH_RISK''"
| "verdict_text PROMOTE_TO_VERIFIED = ''PROMOTE_TO_VERIFIED''"
| "verdict_text REJECT_SIGNAL = ''REJECT''"
| "verdict_text ARCHIVE_SIGNAL = ''ARCHIVE''"

fun DECISION_STATUS :: "review_verdict \<Rightarrow> signal_status" where
  "DECISION_STATUS MARK_UNDER_REVIEW = UNDER_REVIEW"
| "DECISION_STATUS MARK_HIGH_RISK = HIGH_RISK_INDICATOR"
| "DECISION_STATUS PROMOTE_TO_VERIFIED = VERIFIED_SCAM_INTELLIGENCE"
| "DECISION_STATUS REJECT_SIGNAL = REJECTED"
| "DECISION_STATUS ARCHIVE_SIGNAL = ARCHIVED"

section \<open>Listing and claiming\<close>

record signal_summary =
  sg_id :: string
  sg_indicatorType :: indicator_type
  sg_indicatorValue :: string
  sg_status :: signal_status
  sg_confidenceScore :: int
  sg_reportCount :: int

definition signalSummary :: "scam_signal \<Rightarrow> signal_summary" where
  "signalSummary s = \<lparr>sg_id = ss_id s, sg_indicatorType = ss_indicatorType s,
     sg_indicatorValue = ss_indicatorValue s, sg_status = ss_status s,
     sg_confidenceScore = ss_confidenceScore s, sg_reportCount = ss_reportCount s\<rparr>"

definition queue_statuses :: "(string \<times> queue_status) list" where
  "queue_statuses = [(''PENDING'', Q_PENDING), (''IN_REVIEW'', Q_IN_REVIEW), (''COMPLETED'', Q_COMPLETED)]"

text \<open>Each item with the summary of its signal, when that still exists.\<close>

definition with_signal :: "scam_signal list \<Rightarrow> queue_item \<Rightarrow> queue_item \<times> signal_summary option" where
  "with_signal ss q =
     (q, case qi_signalId q of
           None \<Rightarrow> None
         | Some i \<Rightarrow> if i = [] then None else map_option signalSummary (find (\<lambda>s. ss_id s = i) (rev ss)))"

definition list_queue ::
    "string option \<Rightarrow> ('a hook_db_scheme, (queue_item \<times> signal_summary option) list) prog" where
  "list_queue status =
     (let st = map_of queue_statuses (or_default status []) in
      bind_p (find_rows review_queue (\<lambda>q. st \<noteq> None \<longrightarrow> st = Some (qi_reviewStatus q))) (\<lambda>rows.
      let items = take 200 (order_asc qi_createdAt rows) in
      bind_p (find_rows signals (\<lambda>s. Some (ss_id s) \<in> set (map qi_signalId items))) (\<lambda>ss.
      ret (map (with_signal ss) items))))"

definition claimed :: "auth_user \<Rightarrow> queue_item \<Rightarrow> queue_item" where
  "claimed reviewer q = q\<lparr>qi_assignedToUserId := Some (au_userId reviewer), qi_reviewStatus := Q_IN_REVIEW\<rparr>"

definition review_started :: "auth_user \<Rightarrow> string \<Rightarrow> string option \<Rightarrow> append_input" where
  "review_started reviewer queueId ip =
     admin_event None (au_userId reviewer) ''REVIEWER'' ''REVIEW_QUEUE_ITEM'' queueId
       ''REVIEW_STARTED'' ''Reviewer claimed a review-queue item'' JUndef ip"

definition assign_item ::
    "runtime \<Rightarrow> auth_user \<Rightarrow> string \<Rightarrow> string option \<Rightarrow> ('a hook_db_scheme, queue_item) prog" where
  "assign_item rt reviewer queueId ip =
     bind_p (find_row review_queue (\<lambda>q. qi_id q = queueId)) (\<lambda>found.
     bind_p (require_some found (NotFoundException ''Review-queue item not found'')) (\<lambda>_.
     bind_p (update_row review_queue review_queue_update (\<lambda>q. qi_id q = queueId) (claimed reviewer))
       (\<lambda>updated.
     seq_p (append_evidence rt (review_started reviewer queueId ip))
     (ret updated))))"

section \<open>Deciding\<close>

definition decide_signal :: "review_verdict \<Rightarrow> bool \<Rightarrow> scam_signal \<Rightarrow> scam_signal" where
  "decide_signal v candidate s =
     s\<lparr>ss_status := DECISION_STATUS v,
       ss_publicSafeCandidate := (if v = PROMOTE_TO_VERIFIED then True else candidate)\<rparr>"

definition close_item ::
    "auth_user \<Rightarrow> review_verdict \<Rightarrow> string option \<Rightarrow> queue_item \<Rightarrow> queue_item" where
  "close_item reviewer v notes q =
     q\<lparr>qi_reviewStatus := Q_COMPLETED, qi_assignedToUserId := Some (au_userId reviewer),
       qi_reviewNotes := (case notes of None \<Rightarrow> qi_reviewNotes q | Some n \<Rightarrow> Some n),
       qi_decision := Some (verdict_text v), qi_publicSafe := (v = PROMOTE_TO_VERIFIED)\<rparr>"

text \<open>The newest open item of the signal is closed; without one a closed item is created.\<close>

definition close_review ::
    "runtime \<Rightarrow> auth_user \<Rightarrow> string \<Rightarrow> review_verdict \<Rightarrow> string option \<Rightarrow>
     ('a hook_db_scheme, queue_item) prog" where
  "close_review rt reviewer signalId v notes =
     bind_p (find_rows review_queue (open_item signalId)) (\<lambda>rows.
     case first_of (order_desc qi_createdAt rows) of
       Some item \<Rightarrow> update_row review_queue review_queue_update (\<lambda>q. qi_id q = qi_id item)
         (close_item reviewer v notes)
     | None \<Rightarrow>
         bind_p (new_id rt) (\<lambda>uid. bind_p (now rt) (\<lambda>t.
         insert_row review_queue_update
           (close_item reviewer v notes (new_item (Some signalId) None uid t)))))"

definition review_completed ::
    "auth_user \<Rightarrow> string \<Rightarrow> review_verdict \<Rightarrow> string option \<Rightarrow> string option \<Rightarrow> append_input" where
  "review_completed reviewer signalId v notes ip =
     admin_event None (au_userId reviewer) ''REVIEWER'' ''SCAM_SIGNAL'' signalId ''REVIEW_COMPLETED''
       (''Reviewer decision '' @ verdict_text v @ '' '' @ em_dash @ '' signal status set to '' @
        signal_status_text (DECISION_STATUS v))
       (JObj [(''decision'', JStr (verdict_text v)),
         (''newStatus'', JStr (signal_status_text (DECISION_STATUS v))), (''notes'', opt_str notes)]) ip"

definition verified_payload :: "scam_signal \<Rightarrow> (string \<times> js) list" where
  "verified_payload s =
     [(''signalId'', JStr (ss_id s)), (''indicatorType'', JStr (indicator_text (ss_indicatorType s))),
      (''indicatorValue'', JStr (ss_indicatorValue s)),
      (''status'', JStr (signal_status_text (ss_status s))),
      (''confidenceScore'', JNum (ss_confidenceScore s))]"

definition reviewSignal ::
    "runtime \<Rightarrow> web_services \<Rightarrow> auth_user \<Rightarrow> string \<Rightarrow> review_verdict \<Rightarrow> string option \<Rightarrow>
     string option \<Rightarrow> ('a hook_db_scheme, scam_signal \<times> queue_item) prog" where
  "reviewSignal rt web reviewer signalId v notes ip =
     bind_p (find_row signals (\<lambda>s. ss_id s = signalId)) (\<lambda>found.
     bind_p (require_some found (NotFoundException ''Scam signal not found'')) (\<lambda>s.
     bind_p (update_row signals signals_update (\<lambda>s. ss_id s = signalId)
       (decide_signal v (ss_publicSafeCandidate s))) (\<lambda>updated.
     bind_p (close_review rt reviewer signalId v notes) (\<lambda>item.
     seq_p (append_evidence rt (review_completed reviewer signalId v notes ip))
     (seq_p (when_p (v = PROMOTE_TO_VERIFIED \<and> truthy (ss_tenantId updated))
        (attempt (publish_event rt web SIGNAL_VERIFIED (ss_tenantId updated) (verified_payload updated))))
      (ret (updated, item)))))))"

section \<open>The log is respected\<close>

lemma assign_item_safe: "moves (log_safe rt) (assign_item rt reviewer i ip)"
  unfolding assign_item_def
  by (auto simp: log_untouched review_started_def intro!: safe_rules append_safe)

lemma reviewSignal_safe: "moves (log_safe rt) (reviewSignal rt web reviewer i v notes ip)"
  unfolding reviewSignal_def close_review_def
  by (auto simp: log_untouched review_completed_def opt_str_def
      intro!: safe_rules append_safe publish_safe split: option.splits)

section \<open>Properties\<close>

interpretation reviews_unhooked: unhooked "\<lambda>w. (signals w, review_queue w, evidence_events w)"
  by unfold_locales simp_all

definition open_items :: "string \<Rightarrow> ('a hook_db_scheme) \<Rightarrow> nat" where
  "open_items i w = length (filter (open_item i) (review_queue w))"

lemma close_runs:
  assumes "distinct (map qi_id (review_queue w))" "fresh_ids rt w (qi_id ` set (review_queue w))"
  shows "runs (close_review rt reviewer i v notes) w (\<lambda>q w'.
    q \<in> set (review_queue w') \<and> qi_signalId q = Some i \<and> qi_reviewStatus q = Q_COMPLETED \<and>
    qi_decision q = Some (verdict_text v) \<and> qi_assignedToUserId q = Some (au_userId reviewer) \<and>
    open_items i w' = open_items i w - 1 \<and>
    signals w' = signals w \<and> subscriptions w' = subscriptions w \<and>
    hook_deliveries w' = hook_deliveries w \<and> evidence_events w' = evidence_events w \<and>
    db_tick w \<le> db_tick w')"
proof (cases "first_of (order_desc qi_createdAt (filter (open_item i) (review_queue w)))")
  case None
  then show ?thesis
    by (simp add: close_review_def run_simps new_item_def close_item_def open_items_def open_item_def)
next
  case (Some x)
  then have x: "x \<in> set (review_queue w)" "open_item i x"
    by (auto dest!: first_of_SomeD)
  then obtain y where y: "find (\<lambda>q. qi_id q = qi_id x) (review_queue w) = Some y"
    using find_ex [of "\<lambda>q. qi_id q = qi_id x" "review_queue w"] by auto
  then have "y = x" using same_key [OF assms(1) _ x(1)] by (auto dest: find_SomeD)
  have closed: "\<not> open_item i (close_item reviewer v notes q)" for q
    by (simp add: open_item_def close_item_def)
  have count: "length (filter (open_item i)
      (map (\<lambda>q. if qi_id q = qi_id x then close_item reviewer v notes q else q) qs)) =
      length (filter (open_item i) qs) - (if x \<in> set qs then 1 else 0)"
    if "distinct (map qi_id qs)" "\<forall>q\<in>set qs. qi_id q = qi_id x \<longrightarrow> q = x" for qs
    using that
  proof (induction qs)
    case (Cons q qs)
    show ?case
    proof (cases "q = x")
      case True
      then have "x \<notin> set qs" using Cons.prems(1) by (auto simp: image_iff)
      moreover from this have "map (\<lambda>q. if qi_id q = qi_id x then close_item reviewer v notes q else q) qs = qs"
        using Cons.prems True by (intro map_idI) auto
      ultimately show ?thesis using True x(2) by (simp add: closed)
    next
      case False
      then have "qi_id q \<noteq> qi_id x" using Cons.prems(2) by auto
      moreover have "filter (open_item i) qs \<noteq> []" if "x \<in> set qs"
        using that x(2) by (auto simp: filter_empty_conv)
      ultimately show ?thesis using Cons False by (auto simp: Suc_diff_le Suc_le_eq)
    qed
  qed simp
  have "\<forall>q\<in>set (review_queue w). qi_id q = qi_id x \<longrightarrow> q = x"
    using same_key [OF assms(1) _ x(1)] by auto
  note c = count [OF assms(1) this]
  have "close_item reviewer v notes x \<in> set (map (\<lambda>q. if qi_id q = qi_id x
      then close_item reviewer v notes q else q) (review_queue w))"
    using x(1) by (force simp: image_iff)
  moreover have "qi_signalId x = Some i" using x(2) by (simp add: open_item_def)
  ultimately show ?thesis
    using y \<open>y = x\<close> x(1) c
    by (simp add: close_review_def run_simps Some open_items_def)
       (simp add: close_item_def)
qed

text \<open>
  A reviewer's decision on an existing signal always takes effect: the signal gets the status
  of the decision and no other signal changes, at most one review of it that was open is closed,
  the decision is recorded on a completed item in the reviewer's name and in the evidence log,
  and only a promotion can make the signal a public-safe candidate. The tenant's webhooks hear
  of promotions only, and their failures never undo the review.
\<close>

lemma review_takes_effect:
  assumes "find (\<lambda>s. ss_id s = i) (signals w) = Some s"
    "distinct (map qi_id (review_queue w))" "fresh_ids rt w (qi_id ` set (review_queue w))"
  shows "runs (reviewSignal rt web reviewer i v notes ip) w (\<lambda>(s', q) w'.
    s' = decide_signal v (ss_publicSafeCandidate s) s \<and>
    signals w' = map (\<lambda>q. if ss_id q = i then decide_signal v (ss_publicSafeCandidate s) q else q) (signals w) \<and>
    q \<in> set (review_queue w') \<and> qi_signalId q = Some i \<and> qi_reviewStatus q = Q_COMPLETED \<and>
    qi_decision q = Some (verdict_text v) \<and> qi_assignedToUserId q = Some (au_userId reviewer) \<and>
    open_items i w' = open_items i w - 1 \<and>
    (\<exists>e. evidence_events w' = evidence_events w @ [e] \<and> ev_entityId e = i \<and>
       ev_eventType e = ''REVIEW_COMPLETED'' \<and> ev_actorId e = Some (au_userId reviewer)) \<and>
    (v \<noteq> PROMOTE_TO_VERIFIED \<longrightarrow> hook_deliveries w' = hook_deliveries w))"
proof -
  let ?d = "decide_signal v (ss_publicSafeCandidate s)"
  let ?w1 = "signals_update (map (\<lambda>q. if ss_id q = i then ?d q else q)) w"
  have e: "ev_entityId (stamped rt (review_completed reviewer i v notes ip) u) = i"
    "ev_eventType (stamped rt (review_completed reviewer i v notes ip) u) = ''REVIEW_COMPLETED''"
    "ev_actorId (stamped rt (review_completed reviewer i v notes ip) u) = Some (au_userId reviewer)"
    for u :: "'a hook_db_scheme"
    by (simp_all add: review_completed_def admin_event_def user_event_def)
  have told: "runs (when_p b (attempt (publish_event rt web SIGNAL_VERIFIED t d))) u (\<lambda>_ u'.
      (signals u', review_queue u', evidence_events u') = (signals u, review_queue u, evidence_events u) \<and>
      (\<not> b \<longrightarrow> hook_deliveries u' = hook_deliveries u))" for b t d and u :: "'a hook_db_scheme"
    by (cases b) (auto simp: runs_basic intro: runs_attempt [OF reviews_unhooked.publish_same])
  have "runs (close_review rt reviewer i v notes) ?w1 (\<lambda>q w2.
      runs (append_evidence rt (review_completed reviewer i v notes ip)) w2 (\<lambda>_ w3.
      runs (when_p (v = PROMOTE_TO_VERIFIED \<and> truthy (ss_tenantId (?d s))) (attempt
        (publish_event rt web SIGNAL_VERIFIED (ss_tenantId (?d s)) (verified_payload (?d s))))) w3 (\<lambda>_ w'.
      signals w' = signals ?w1 \<and> q \<in> set (review_queue w') \<and> qi_signalId q = Some i \<and>
      qi_reviewStatus q = Q_COMPLETED \<and> qi_decision q = Some (verdict_text v) \<and>
      qi_assignedToUserId q = Some (au_userId reviewer) \<and> open_items i w' = open_items i w - 1 \<and>
      (\<exists>e. evidence_events w' = evidence_events w @ [e] \<and> ev_entityId e = i \<and>
         ev_eventType e = ''REVIEW_COMPLETED'' \<and> ev_actorId e = Some (au_userId reviewer)) \<and>
      (v \<noteq> PROMOTE_TO_VERIFIED \<longrightarrow> hook_deliveries w' = hook_deliveries w))))"
  proof (rule runs_mono [OF close_runs], goal_cases)
    case (3 q w2)
    show ?case
      unfolding runs_stamped
      by (rule runs_mono [OF told]) (use 3 e in \<open>auto simp: open_items_def\<close>)
  qed (use assms(2,3) in \<open>simp_all add: fresh_ids_def\<close>)
  then show ?thesis
    by (simp add: reviewSignal_def run_simps assms(1) del: runs_basic(6))
qed

text \<open>A rejected signal is promoted: nothing in the workflow asks what it was before.\<close>

lemma review_takes_effect_witness:
  "runs (reviewSignal demo_rt demo_web demo_user ''s1'' PROMOTE_TO_VERIFIED None None)
     ((demo_hooks [])\<lparr>signals := [(demo_signal ''s1'' ''evil.io'')\<lparr>ss_status := REJECTED\<rparr>]\<rparr>)
     (\<lambda>(s, q) w'. ss_status s = VERIFIED_SCAM_INTELLIGENCE \<and>
        (\<exists>e. evidence_events w' = [e] \<and> ev_entityId e = ''s1''))"
  by (rule runs_mono [OF review_takes_effect
        [where s = "(demo_signal ''s1'' ''evil.io'')\<lparr>ss_status := REJECTED\<rparr>"]])
     (auto simp: demo_hooks_def demo_signal_def fresh_ids_def decide_signal_def)

end
