(* ===== verification/SafeLanguage.thy ===== *)
theory SafeLanguage
  imports NlpStub
begin

text \<open>
  The safe-language gate (modules/registry/safe-language.ts): a text that accuses a person or a
  business directly is refused before it can be stored on anything publishable.
\<close>

text \<open>\<open>\s?\<close>\<close>

definition space_opt :: pat where
  "space_opt = Maybe (alts (map (\<lambda>n. Lit [char_of (n::nat)]) [9, 10, 11, 12, 13, 32, 160]))"

definition article_opt :: pat where
  "article_opt = Maybe (Either (seqs [Lit ''a'', Spaces]) (seqs [Lit ''an'', Spaces]))"

definition FORBIDDEN_PATTERNS :: "(pat \<times> string) list" where
  "FORBIDDEN_PATTERNS =
     [(phrase [Lit ''is'', Spaces, article_opt,
         alts [Lit ''scammer'', Lit ''criminal'', Lit ''fraudster'', Lit ''thief'', Lit ''crook'',
           seqs [Lit ''con'', space_opt, Lit ''artist''], seqs [Lit ''scam'', space_opt, Lit ''artist''],
           Lit ''swindler'']],
       ''a direct identity accusation (e.g. \"is a scammer\")''),
      (phrase [Lit ''is'', Spaces, Lit ''criminal''],
       ''a direct identity accusation (e.g. \"is criminal\")''),
      (phrase [Lit ''are'', Spaces,
         words_alt [''scammers'', ''criminals'', ''fraudsters'', ''thieves'', ''crooks'']],
       ''a direct identity accusation (e.g. \"are scammers\")''),
      (seqs [Bound, words_alt [''owned'', ''run'', ''operated''], Spaces, Lit ''by'', Spaces, article_opt,
         words_alt [''scammer'', ''criminal'', ''fraudster'', ''crook'']],
       ''a direct identity accusation (e.g. \"owned by a scammer\")'')]"

definition findUnsafeLanguage :: "string \<Rightarrow> string option" where
  "findUnsafeLanguage text = map_option snd (find (\<lambda>p. test_pat (fst p) text) FORBIDDEN_PATTERNS)"

definition assertPublicSafeLanguage :: "string \<Rightarrow> string \<Rightarrow> ('w, unit) prog" where
  "assertPublicSafeLanguage text fieldName =
     (case findUnsafeLanguage text of
        None \<Rightarrow> ret ()
      | Some violation \<Rightarrow> throw (BadRequestException (fieldName @ '' contains '' @ violation @
          ''. Public-safe entries must use '' @
          ''status-based language describing observed behaviour, not direct '' @
          ''accusations against a named person or business.'')))"

definition public_safe :: "string \<Rightarrow> bool" where
  "public_safe text \<longleftrightarrow> findUnsafeLanguage text = None"

lemma runs_safe_language [run_simps]:
  "runs (assertPublicSafeLanguage text f) w Q \<longleftrightarrow> public_safe text \<and> Q () w"
  by (simp add: assertPublicSafeLanguage_def public_safe_def run_simps split: option.split)

lemma raises_safe_language [run_simps]:
  "raises (assertPublicSafeLanguage text f) w Q \<longleftrightarrow> (\<exists>v. findUnsafeLanguage text = Some v \<and>
     Q (BadRequestException (f @ '' contains '' @ v @
       ''. Public-safe entries must use '' @
       ''status-based language describing observed behaviour, not direct '' @
       ''accusations against a named person or business.'')) w)"
  by (auto simp: assertPublicSafeLanguage_def run_simps split: option.split)

context step_preorder begin

lemma safe_language_moves: "moves R (assertPublicSafeLanguage text f)"
  unfolding assertPublicSafeLanguage_def by (cases "findUnsafeLanguage text") (auto intro: moves_rules)

end

text \<open>Examples: an accusation is found, a description of behaviour passes.\<close>

lemmas safe_eval = public_safe_def findUnsafeLanguage_def FORBIDDEN_PATTERNS_def article_opt_def
  space_opt_def pattern_eval

lemma unsafe_example: "findUnsafeLanguage ''He is a con artist'' \<noteq> None"
  by (simp add: safe_eval)

lemma safe_example: "public_safe ''Fake shop''"
  by (simp add: safe_eval)

end
