(* ===== verification/Cache.thy ===== *)
theory Cache
  imports Prelude
begin

text \<open>
  The in-process cache (common/cache/cache.service.ts): a map from keys to values with a time
  of expiry, bounded in size, and the contract its clients rely on. The map is the list of its
  entries in insertion order, as a JavaScript \<open>Map\<close> iterates. The invalidations broadcast to
  other nodes are applied there by the same operations.
\<close>

type_synonym 'v cache = "(string \<times> 'v \<times> int) list"

definition MAX_ENTRIES :: nat where
  "MAX_ENTRIES = 1000"

definition cache_delete :: "string \<Rightarrow> 'v cache \<Rightarrow> 'v cache" where
  "cache_delete k c = filter (\<lambda>e. fst e \<noteq> k) c"

text \<open>The value held for a key unless it has expired; an expired entry is dropped.\<close>

definition cache_get :: "string \<Rightarrow> int \<Rightarrow> 'v cache \<Rightarrow> 'v option \<times> 'v cache" where
  "cache_get k t c =
     (case map_of c k of
        None \<Rightarrow> (None, c)
      | Some (v, expiresAt) \<Rightarrow> if expiresAt < t then (None, cache_delete k c) else (Some v, c))"

text \<open>\<open>Map.set\<close>: a key already there keeps its place.\<close>

definition map_put :: "string \<Rightarrow> 'x \<Rightarrow> (string \<times> 'x) list \<Rightarrow> (string \<times> 'x) list" where
  "map_put k x c =
     (if k \<in> fst ` set c then map (\<lambda>e. if fst e = k then (k, x) else e) c else c @ [(k, x)])"

definition cache_set :: "string \<Rightarrow> 'v \<Rightarrow> int \<Rightarrow> int \<Rightarrow> 'v cache \<Rightarrow> 'v cache" where
  "cache_set k v ttlMs t c =
     (let room = (if MAX_ENTRIES \<le> length c then tl c else c) in map_put k (v, t + ttlMs) room)"

definition cache_deletePrefix :: "string \<Rightarrow> 'v cache \<Rightarrow> nat \<times> 'v cache" where
  "cache_deletePrefix p c =
     (length (filter (\<lambda>e. starts_with p (fst e)) c), filter (\<lambda>e. \<not> starts_with p (fst e)) c)"

text \<open>What another node does on an invalidation message it did not send itself.\<close>

datatype invalidation = InvalidateKey string | InvalidatePrefix string

fun apply_invalidation :: "bool \<Rightarrow> invalidation \<Rightarrow> 'v cache \<Rightarrow> 'v cache" where
  "apply_invalidation own (InvalidateKey k) c = (if own then c else cache_delete k c)"
| "apply_invalidation own (InvalidatePrefix p) c = (if own then c else snd (cache_deletePrefix p c))"

section \<open>Its invariant\<close>

definition cache_ok :: "'v cache \<Rightarrow> bool" where
  "cache_ok c \<longleftrightarrow> distinct (map fst c) \<and> length c \<le> MAX_ENTRIES"

lemma distinct_filter: "distinct (map fst c) \<Longrightarrow> distinct (map fst (filter P c))"
  by (induction c) auto

lemma map_put_keys:
  "map fst (map_put k x c) = (if k \<in> fst ` set c then map fst c else map fst c @ [k])"
  by (auto simp: map_put_def comp_def)

lemma cache_set_ok: "cache_ok c \<Longrightarrow> cache_ok (cache_set k v ttl t c)"
proof -
  assume c: "cache_ok c"
  define room where "room = (if MAX_ENTRIES \<le> length c then tl c else c)"
  have r: "distinct (map fst room)" "length room < MAX_ENTRIES"
    using c by (auto simp: cache_ok_def room_def map_tl distinct_tl MAX_ENTRIES_def)
  have "distinct (map fst (map_put k x room))" "length (map_put k x room) \<le> Suc (length room)" for x
    using r(1) by (simp add: map_put_keys) (simp add: map_put_def)
  with r(2) show ?thesis
    unfolding cache_ok_def cache_set_def Let_def room_def [symmetric]
    by (meson Suc_leI order_trans)
qed

lemma cache_ok_rules:
  "cache_ok []" "cache_ok c \<Longrightarrow> cache_ok (cache_delete k c)"
  "cache_ok c \<Longrightarrow> cache_ok (snd (cache_get k t c))"
  "cache_ok c \<Longrightarrow> cache_ok (snd (cache_deletePrefix p c))"
  by (auto simp: cache_ok_def cache_delete_def cache_get_def cache_deletePrefix_def distinct_filter
      intro: order_trans [OF length_filter_le] split: option.splits)

section \<open>What a reader may see\<close>

text \<open>
  The contract of a cache for a client that keeps its answers under a prefix: a value read was
  held, a write holds at most one value more, and a sweep of the prefix leaves none under it.
  Whatever a client knows of the values it wrote, it knows of the values it reads.
\<close>

locale prefix_cache =
  fixes held :: "'c \<Rightarrow> (string \<times> 'v) set"
    and get_c :: "string \<Rightarrow> int \<Rightarrow> 'c \<Rightarrow> 'v option \<times> 'c"
    and set_c :: "string \<Rightarrow> 'v \<Rightarrow> int \<Rightarrow> int \<Rightarrow> 'c \<Rightarrow> 'c"
    and sweep_c :: "string \<Rightarrow> 'c \<Rightarrow> 'c"
  assumes get_held: "fst (get_c k t c) = Some v \<Longrightarrow> (k, v) \<in> held c"
    and after_get: "held (snd (get_c k t c)) \<subseteq> held c"
    and after_set: "held (set_c k v ttl t c) \<subseteq> insert (k, v) (held c)"
    and after_sweep: "held (sweep_c p c) \<subseteq> {e \<in> held c. \<not> starts_with p (fst e)}"
begin

text \<open>Every value held under the prefix is good.\<close>

definition good :: "string \<Rightarrow> ('v \<Rightarrow> bool) \<Rightarrow> 'c \<Rightarrow> bool" where
  "good p Q c \<longleftrightarrow> (\<forall>(k, v)\<in>held c. starts_with p k \<longrightarrow> Q v)"

lemma get_good: "good p Q c \<Longrightarrow> starts_with p k \<Longrightarrow> fst (get_c k t c) = Some v \<Longrightarrow> Q v"
  using get_held by (fastforce simp: good_def)

lemma get_keeps: "good p Q c \<Longrightarrow> good p Q (snd (get_c k t c))"
  using after_get [of k t c] by (auto simp: good_def)

lemma set_keeps: "good p Q c \<Longrightarrow> (starts_with p k \<Longrightarrow> Q v) \<Longrightarrow> good p Q (set_c k v ttl t c)"
  using after_set [of k v ttl t c] by (auto simp: good_def)

lemma sweep_makes_good: "good p Q (sweep_c p c)"
  using after_sweep [of p c] by (auto simp: good_def)

lemma sweep_keeps: "good p Q c \<Longrightarrow> good p Q (sweep_c q c)"
  using after_sweep [of q c] by (auto simp: good_def)

end

definition cached_values :: "'v cache \<Rightarrow> (string \<times> 'v) set" where
  "cached_values c = (\<lambda>e. (fst e, fst (snd e))) ` set c"

lemma map_put_set: "set (map_put k x c) \<subseteq> insert (k, x) (set c)"
  by (auto simp: map_put_def)

interpretation node_cache: prefix_cache cached_values cache_get cache_set "\<lambda>p c. snd (cache_deletePrefix p c)"
proof
  fix k t v and c :: "'v cache"
  show "fst (cache_get k t c) = Some v \<Longrightarrow> (k, v) \<in> cached_values c"
    by (force simp: cache_get_def cached_values_def split: option.splits if_splits dest: map_of_SomeD)
  show "cached_values (snd (cache_get k t c)) \<subseteq> cached_values c"
    by (auto simp: cache_get_def cached_values_def cache_delete_def split: option.splits)
next
  fix k ttl t and v :: 'v and c :: "'v cache"
  have "set (tl c) \<subseteq> set c" by (cases c) auto
  then have "set (cache_set k v ttl t c) \<subseteq> insert (k, v, t + ttl) (set c)"
    using map_put_set [of k "(v, t + ttl)" c] map_put_set [of k "(v, t + ttl)" "tl c"]
    by (auto simp: cache_set_def Let_def)
  from image_mono [OF this, of "\<lambda>e. (fst e, fst (snd e))"]
  show "cached_values (cache_set k v ttl t c) \<subseteq> insert (k, v) (cached_values c)"
    by (simp add: cached_values_def)
next
  fix p and c :: "'v cache"
  show "cached_values (snd (cache_deletePrefix p c)) \<subseteq>
      {e \<in> cached_values c. \<not> starts_with p (fst e)}"
    by (auto simp: cached_values_def cache_deletePrefix_def)
qed

lemma map_of_put: "map_of (map_put k x c) k = Some x"
proof (cases "k \<in> fst ` set c")
  case True
  then have "map_of (map (\<lambda>e. if fst e = k then (k, x) else e) c) k = Some x"
    by (induction c) auto
  with True show ?thesis by (simp add: map_put_def)
next
  case False
  then have "map_of c k = None" by (simp add: map_of_eq_None_iff)
  with False show ?thesis by (simp add: map_put_def map_add_def)
qed

lemma get_after_set:
  "u \<le> t + ttl \<Longrightarrow> fst (cache_get k u (cache_set k v ttl t c)) = Some v"
  by (simp add: cache_get_def cache_set_def Let_def map_of_put)

lemma get_after_expiry: "t + ttl < u \<Longrightarrow> fst (cache_get k u (cache_set k v ttl t c)) = None"
  by (simp add: cache_get_def cache_set_def Let_def map_of_put)

end
