(* ===== verification/RegistryData.thy ===== *)
theory RegistryData
  imports ReviewQueue SafeLanguage Cache
begin

text \<open>
  The tables of the public side of the system: registry entries, the appeals against them, the
  takedown requests, the public alerts, and the cache of public answers.
\<close>

datatype entry_status =
    EN_CANDIDATE | EN_UNDER_REVIEW | EN_APPROVED | EN_PUBLISHED | EN_REJECTED | EN_ARCHIVED

fun entry_status_text :: "entry_status \<Rightarrow> string" where
  "entry_status_text EN_CANDIDATE = ''CANDIDATE''"
| "entry_status_text EN_UNDER_REVIEW = ''UNDER_REVIEW''"
| "entry_status_text EN_APPROVED = ''APPROVED_PUBLIC_SAFE''"
| "entry_status_text EN_PUBLISHED = ''PUBLISHED''"
| "entry_status_text EN_REJECTED = ''REJECTED''"
| "entry_status_text EN_ARCHIVED = ''ARCHIVED''"

datatype public_status =
    VERIFIED_MALICIOUS | HIGH_RISK_VERIFIED | OFFICIALLY_REPORTED | TAKEDOWN_CONFIRMED

fun public_status_text :: "public_status \<Rightarrow> string" where
  "public_status_text VERIFIED_MALICIOUS = ''VERIFIED_MALICIOUS''"
| "public_status_text HIGH_RISK_VERIFIED = ''HIGH_RISK_VERIFIED''"
| "public_status_text OFFICIALLY_REPORTED = ''OFFICIALLY_REPORTED''"
| "public_status_text TAKEDOWN_CONFIRMED = ''TAKEDOWN_CONFIRMED''"

record registry_entry =
  re_id :: string
  re_indicatorType :: indicator_type
  re_indicatorValue :: string
  re_normalizedIndicator :: string
  re_category :: string
  re_status :: entry_status
  re_publicStatus :: "public_status option"
  re_confidenceScore :: int
  re_publicSafeSummary :: string
  re_recommendedAction :: "string option"
  re_firstSeen :: "int option"
  re_lastSeen :: "int option"
  re_evidenceCount :: int
  re_sourceSignalId :: "string option"
  re_approvedByUserId :: "string option"
  re_approvedAt :: "int option"
  re_publishedAt :: "int option"
  re_updatedAt :: int

text \<open>The public shape of an entry (modules/registry/registry.mapper.ts).\<close>

record public_entry =
  pu_id :: string
  pu_indicatorType :: indicator_type
  pu_indicator :: string
  pu_category :: string
  pu_publicStatus :: "public_status option"
  pu_riskLevel :: risk_level
  pu_summary :: string
  pu_recommendedAction :: "string option"
  pu_firstSeen :: "int option"
  pu_lastSeen :: "int option"
  pu_evidenceCount :: int
  pu_publishedAt :: "int option"

definition toPublicRegistryEntry :: "registry_entry \<Rightarrow> public_entry" where
  "toPublicRegistryEntry e =
     \<lparr>pu_id = re_id e, pu_indicatorType = re_indicatorType e, pu_indicator = re_indicatorValue e,
      pu_category = re_category e, pu_publicStatus = re_publicStatus e,
      pu_riskLevel = levelForScore (re_confidenceScore e), pu_summary = re_publicSafeSummary e,
      pu_recommendedAction = re_recommendedAction e, pu_firstSeen = re_firstSeen e,
      pu_lastSeen = re_lastSeen e, pu_evidenceCount = re_evidenceCount e,
      pu_publishedAt = re_publishedAt e\<rparr>"

record search_result =
  sr_items :: "public_entry list"
  sr_page :: nat
  sr_limit :: nat
  sr_hasMore :: bool

datatype appeal_type = CORRECTION | REMOVAL | OWNERSHIP_DISPUTE

fun appeal_type_text :: "appeal_type \<Rightarrow> string" where
  "appeal_type_text CORRECTION = ''CORRECTION''"
| "appeal_type_text REMOVAL = ''REMOVAL''"
| "appeal_type_text OWNERSHIP_DISPUTE = ''OWNERSHIP_DISPUTE''"

datatype appeal_status = AP_SUBMITTED | AP_UNDER_REVIEW | AP_ACCEPTED | AP_REJECTED

fun appeal_status_text :: "appeal_status \<Rightarrow> string" where
  "appeal_status_text AP_SUBMITTED = ''SUBMITTED''"
| "appeal_status_text AP_UNDER_REVIEW = ''UNDER_REVIEW''"
| "appeal_status_text AP_ACCEPTED = ''ACCEPTED''"
| "appeal_status_text AP_REJECTED = ''REJECTED''"

record registry_appeal =
  ra_id :: string
  ra_registryEntryId :: string
  ra_appealType :: appeal_type
  ra_status :: appeal_status
  ra_submitterName :: string
  ra_submitterEmail :: string
  ra_submitterRelationship :: "string option"
  ra_reason :: string
  ra_requestedChange :: "string option"
  ra_reviewedByUserId :: "string option"
  ra_reviewedAt :: "int option"
  ra_reviewNotes :: "string option"
  ra_resolutionAction :: "string option"
  ra_createdAt :: int

datatype provider_type =
    DOMAIN_REGISTRAR | HOSTING_PROVIDER | TELECOM_CARRIER | EMAIL_PROVIDER | SOCIAL_PLATFORM
  | PAYMENT_PROVIDER | APP_STORE | LAW_ENFORCEMENT | PROVIDER_OTHER

fun provider_type_text :: "provider_type \<Rightarrow> string" where
  "provider_type_text DOMAIN_REGISTRAR = ''DOMAIN_REGISTRAR''"
| "provider_type_text HOSTING_PROVIDER = ''HOSTING_PROVIDER''"
| "provider_type_text TELECOM_CARRIER = ''TELECOM_CARRIER''"
| "provider_type_text EMAIL_PROVIDER = ''EMAIL_PROVIDER''"
| "provider_type_text SOCIAL_PLATFORM = ''SOCIAL_PLATFORM''"
| "provider_type_text PAYMENT_PROVIDER = ''PAYMENT_PROVIDER''"
| "provider_type_text APP_STORE = ''APP_STORE''"
| "provider_type_text LAW_ENFORCEMENT = ''LAW_ENFORCEMENT''"
| "provider_type_text PROVIDER_OTHER = ''OTHER''"

datatype takedown_status =
    TD_DRAFT | TD_SUBMITTED | TD_ACKNOWLEDGED | TD_IN_PROGRESS | TD_COMPLETED | TD_REJECTED
  | TD_WITHDRAWN

fun takedown_status_text :: "takedown_status \<Rightarrow> string" where
  "takedown_status_text TD_DRAFT = ''DRAFT''"
| "takedown_status_text TD_SUBMITTED = ''SUBMITTED''"
| "takedown_status_text TD_ACKNOWLEDGED = ''ACKNOWLEDGED''"
| "takedown_status_text TD_IN_PROGRESS = ''IN_PROGRESS''"
| "takedown_status_text TD_COMPLETED = ''COMPLETED''"
| "takedown_status_text TD_REJECTED = ''REJECTED''"
| "takedown_status_text TD_WITHDRAWN = ''WITHDRAWN''"

record takedown =
  td_id :: string
  td_registryEntryId :: string
  td_providerType :: provider_type
  td_providerName :: string
  td_providerReference :: "string option"
  td_status :: takedown_status
  td_details :: string
  td_submittedByUserId :: "string option"
  td_submittedAt :: "int option"
  td_resolvedByUserId :: "string option"
  td_resolvedAt :: "int option"
  td_outcomeNotes :: "string option"
  td_updatedAt :: int

record takedown_template =
  tt_id :: string
  tt_providerType :: provider_type
  tt_providerName :: string
  tt_detectorPattern :: string
  tt_abuseContact :: "string option"
  tt_detailsTemplate :: string
  tt_enabled :: bool
  tt_priority :: int

datatype alert_severity = AS_INFO | AS_WARNING | AS_CRITICAL

fun severity_text :: "alert_severity \<Rightarrow> string" where
  "severity_text AS_INFO = ''INFO''"
| "severity_text AS_WARNING = ''WARNING''"
| "severity_text AS_CRITICAL = ''CRITICAL''"

datatype alert_status = AL_DRAFT | AL_PUBLISHED | AL_EXPIRED | AL_WITHDRAWN

fun alert_status_text :: "alert_status \<Rightarrow> string" where
  "alert_status_text AL_DRAFT = ''DRAFT''"
| "alert_status_text AL_PUBLISHED = ''PUBLISHED''"
| "alert_status_text AL_EXPIRED = ''EXPIRED''"
| "alert_status_text AL_WITHDRAWN = ''WITHDRAWN''"

record public_alert =
  pa_id :: string
  pa_title :: string
  pa_body :: string
  pa_region :: string
  pa_severity :: alert_severity
  pa_category :: "string option"
  pa_registryEntryIds :: "string list"
  pa_status :: alert_status
  pa_createdByUserId :: "string option"
  pa_publishedByUserId :: "string option"
  pa_publishedAt :: "int option"
  pa_expiresAt :: "int option"
  pa_withdrawnAt :: "int option"
  pa_updatedAt :: int

record alert_view =
  av_id :: string
  av_title :: string
  av_body :: string
  av_region :: string
  av_severity :: alert_severity
  av_category :: "string option"
  av_publishedAt :: "int option"
  av_expiresAt :: "int option"

text \<open>The values the two public read paths keep in the one cache of the process.\<close>

datatype cached = CachedSearch search_result | CachedAlerts "alert_view list"

record registry_db = hook_db +
  registry_entries :: "registry_entry list"
  appeals :: "registry_appeal list"
  takedowns :: "takedown list"
  templates :: "takedown_template list"
  public_alerts :: "public_alert list"
  process_cache :: "cached cache"

interpretation registry_entries_tab: table registry_entries registry_entries_update
  by unfold_locales simp

interpretation appeals_tab: table appeals appeals_update
  by unfold_locales simp

interpretation takedowns_tab: table takedowns takedowns_update
  by unfold_locales simp

interpretation templates_tab: table templates templates_update
  by unfold_locales simp

interpretation public_alerts_tab: table public_alerts public_alerts_update
  by unfold_locales simp

section \<open>The cache of a process\<close>

definition read_cache :: "runtime \<Rightarrow> string \<Rightarrow> ('a registry_db_scheme, cached option) prog" where
  "read_cache rt k =
     bind_p (now rt) (\<lambda>t.
     bind_p (ask (\<lambda>w. cache_get k t (process_cache w))) (\<lambda>(v, c).
     seq_p (modify_p (process_cache_update (\<lambda>_. c))) (ret v)))"

definition write_cache :: "runtime \<Rightarrow> string \<Rightarrow> cached \<Rightarrow> int \<Rightarrow> ('a registry_db_scheme, unit) prog" where
  "write_cache rt k v ttlMs =
     bind_p (now rt) (\<lambda>t. modify_p (process_cache_update (cache_set k v ttlMs t)))"

definition sweep_cache :: "string \<Rightarrow> ('a registry_db_scheme, nat) prog" where
  "sweep_cache p =
     bind_p (ask (\<lambda>w. cache_deletePrefix p (process_cache w))) (\<lambda>(n, c).
     seq_p (modify_p (process_cache_update (\<lambda>_. c))) (ret n))"

lemmas cache_ops_defs = read_cache_def write_cache_def sweep_cache_def

lemma runs_cache [run_simps]:
  "runs (read_cache rt k) w Q \<longleftrightarrow>
     (let (v, c) = cache_get k (rt_clock rt (db_tick w)) (process_cache w)
      in Q v (w\<lparr>db_tick := db_tick w + 1, process_cache := c\<rparr>))"
  "runs (write_cache rt k v ttl) w Qw \<longleftrightarrow>
     Qw () (process_cache_update (cache_set k v ttl (rt_clock rt (db_tick w)))
       (w\<lparr>db_tick := db_tick w + 1\<rparr>))"
  "runs (sweep_cache p) w Qs \<longleftrightarrow>
     (let (n, c) = cache_deletePrefix p (process_cache w) in Qs n (w\<lparr>process_cache := c\<rparr>))"
  by (simp_all add: cache_ops_defs run_simps Let_def split: prod.split)

lemma cache_safe:
  "moves (log_safe rt') (read_cache rt k)" "moves (log_safe rt') (write_cache rt k v ttl)"
  "moves (log_safe rt') (sweep_cache p)"
  unfolding cache_ops_defs
  by (auto intro!: safe_rules split: prod.split) (simp_all add: moves_def modify_p_def log_untouched)

end
