(* ===== verification/Takedown.thy ===== *)
theory Takedown
  imports RegistryData
begin

text \<open>
  Takedown requests (modules/takedown): their lifecycle, and the automation that drafts one when
  a registry entry is published. The regular expressions of the provider templates are typed in
  by administrators; matching them is a parameter, None for a text that is no expression.
\<close>

section \<open>The lifecycle\<close>

fun TRANSITIONS :: "takedown_status \<Rightarrow> takedown_status list" where
  "TRANSITIONS TD_DRAFT = [TD_SUBMITTED, TD_WITHDRAWN]"
| "TRANSITIONS TD_SUBMITTED =
     [TD_ACKNOWLEDGED, TD_IN_PROGRESS, TD_COMPLETED, TD_REJECTED, TD_WITHDRAWN]"
| "TRANSITIONS TD_ACKNOWLEDGED = [TD_IN_PROGRESS, TD_COMPLETED, TD_REJECTED, TD_WITHDRAWN]"
| "TRANSITIONS TD_IN_PROGRESS = [TD_COMPLETED, TD_REJECTED, TD_WITHDRAWN]"
| "TRANSITIONS TD_COMPLETED = []"
| "TRANSITIONS TD_REJECTED = []"
| "TRANSITIONS TD_WITHDRAWN = []"

definition TERMINAL :: "takedown_status list" where
  "TERMINAL = [TD_COMPLETED, TD_REJECTED, TD_WITHDRAWN]"

record takedown_dto =
  tk_registryEntryId :: string
  tk_providerType :: provider_type
  tk_providerName :: string
  tk_providerReference :: "string option"
  tk_details :: string

record takedown_update =
  tu_status :: takedown_status
  tu_providerReference :: "string option"
  tu_notes :: "string option"

definition takedown_event ::
    "takedown \<Rightarrow> auth_user \<Rightarrow> string \<Rightarrow> string \<Rightarrow> string option \<Rightarrow> append_input" where
  "takedown_event t actor evtype descr ip =
     admin_event None (au_userId actor) ''ADMIN'' ''TAKEDOWN_REQUEST'' (td_id t) evtype descr
       (JObj [(''status'', JStr (takedown_status_text (td_status t))),
         (''providerType'', JStr (provider_type_text (td_providerType t))),
         (''registryEntryId'', JStr (td_registryEntryId t))]) ip"

definition new_takedown :: "takedown_dto \<Rightarrow> string \<Rightarrow> string \<Rightarrow> int \<Rightarrow> takedown" where
  "new_takedown dto entryId uid t =
     \<lparr>td_id = uid, td_registryEntryId = entryId, td_providerType = tk_providerType dto,
      td_providerName = tk_providerName dto, td_providerReference = tk_providerReference dto,
      td_status = TD_DRAFT, td_details = tk_details dto, td_submittedByUserId = None,
      td_submittedAt = None, td_resolvedByUserId = None, td_resolvedAt = None,
      td_outcomeNotes = None, td_updatedAt = t\<rparr>"

definition createTakedown ::
    "runtime \<Rightarrow> auth_user \<Rightarrow> takedown_dto \<Rightarrow> string option \<Rightarrow> ('a registry_db_scheme, takedown) prog"
  where
  "createTakedown rt actor dto ip =
     bind_p (find_row registry_entries (\<lambda>e. re_id e = tk_registryEntryId dto)) (\<lambda>found.
     bind_p (require_some found (NotFoundException ''Registry entry not found'')) (\<lambda>e.
     seq_p (ensure (re_status e \<noteq> EN_REJECTED)
       (BadRequestException ''Cannot open a takedown for a rejected registry entry''))
     (bind_p (new_id rt) (\<lambda>uid. bind_p (now rt) (\<lambda>t.
      bind_p (insert_row takedowns_update (new_takedown dto (re_id e) uid t)) (\<lambda>td.
      seq_p (append_evidence rt (takedown_event td actor ''TAKEDOWN_CREATED''
        (''Takedown request drafted against '' @ tk_providerName dto @ '' ('' @
         provider_type_text (tk_providerType dto) @ '')'') ip))
      (ret td)))))))"

definition takedown_statuses :: "(string \<times> takedown_status) list" where
  "takedown_statuses = map (\<lambda>s. (takedown_status_text s, s))
     [TD_DRAFT, TD_SUBMITTED, TD_ACKNOWLEDGED, TD_IN_PROGRESS, TD_COMPLETED, TD_REJECTED, TD_WITHDRAWN]"

definition listTakedowns :: "string option \<Rightarrow> ('a registry_db_scheme, takedown list) prog" where
  "listTakedowns status =
     (let st = map_of takedown_statuses (or_default status []) in
      bind_p (find_rows takedowns (\<lambda>t. st \<noteq> None \<longrightarrow> st = Some (td_status t))) (\<lambda>rows.
      ret (take 200 (order_desc td_updatedAt rows))))"

definition getTakedown ::
    "string \<Rightarrow> ('a registry_db_scheme, takedown \<times> registry_entry option) prog" where
  "getTakedown i =
     bind_p (find_row takedowns (\<lambda>t. td_id t = i)) (\<lambda>found.
     bind_p (require_some found (NotFoundException ''Takedown request not found'')) (\<lambda>t.
     bind_p (find_row registry_entries (\<lambda>e. re_id e = td_registryEntryId t)) (\<lambda>e.
     ret (t, e))))"

definition transition_refused :: "takedown_status \<Rightarrow> takedown_status \<Rightarrow> exn" where
  "transition_refused old new =
     BadRequestException (''Cannot move a takedown from '' @ takedown_status_text old @ '' to '' @
       takedown_status_text new @
       (if TRANSITIONS old \<noteq> []
        then ''; allowed: '' @ join_with '', '' (map takedown_status_text (TRANSITIONS old))
        else '' '' @ em_dash @ '' it is already in a final state''))"

definition advance_takedown ::
    "auth_user \<Rightarrow> takedown_update \<Rightarrow> int \<Rightarrow> int \<Rightarrow> int \<Rightarrow> takedown \<Rightarrow> takedown" where
  "advance_takedown actor dto ts tr u t =
     (let t1 = t\<lparr>td_status := tu_status dto, td_updatedAt := u\<rparr>;
          t2 = (case tu_providerReference dto of None \<Rightarrow> t1 | Some r \<Rightarrow> t1\<lparr>td_providerReference := Some r\<rparr>);
          t3 = (case tu_notes dto of None \<Rightarrow> t2 | Some n \<Rightarrow> t2\<lparr>td_outcomeNotes := Some n\<rparr>);
          t4 = (if tu_status dto = TD_SUBMITTED
                then t3\<lparr>td_submittedByUserId := Some (au_userId actor), td_submittedAt := Some ts\<rparr> else t3)
      in if tu_status dto \<in> set TERMINAL
         then t4\<lparr>td_resolvedByUserId := Some (au_userId actor), td_resolvedAt := Some tr\<rparr> else t4)"

text \<open>The clock is read for the submission and for the resolution; a reading not used is dropped.\<close>

definition updateTakedown ::
    "runtime \<Rightarrow> auth_user \<Rightarrow> string \<Rightarrow> takedown_update \<Rightarrow> string option \<Rightarrow>
     ('a registry_db_scheme, takedown) prog" where
  "updateTakedown rt actor i dto ip =
     bind_p (getTakedown i) (\<lambda>(t, _).
     seq_p (ensure (tu_status dto \<in> set (TRANSITIONS (td_status t)))
       (transition_refused (td_status t) (tu_status dto)))
     (bind_p (now rt) (\<lambda>ts. bind_p (now rt) (\<lambda>tr. bind_p (now rt) (\<lambda>u.
      bind_p (update_row takedowns takedowns_update (\<lambda>t. td_id t = i)
        (advance_takedown actor dto ts tr u)) (\<lambda>updated.
      seq_p (append_evidence rt (takedown_event updated actor
        (''TAKEDOWN_'' @ takedown_status_text (tu_status dto))
        (''Takedown request moved to '' @ takedown_status_text (tu_status dto)) ip))
      (ret updated)))))))"

section \<open>Automatic drafts\<close>

fun TYPE_TO_PROVIDER :: "indicator_type \<Rightarrow> provider_type option" where
  "TYPE_TO_PROVIDER IT_DOMAIN = Some DOMAIN_REGISTRAR"
| "TYPE_TO_PROVIDER IT_URL = Some DOMAIN_REGISTRAR"
| "TYPE_TO_PROVIDER IT_EMAIL = Some EMAIL_PROVIDER"
| "TYPE_TO_PROVIDER IT_PHONE = Some TELECOM_CARRIER"
| "TYPE_TO_PROVIDER IT_CRYPTO_WALLET = Some PAYMENT_PROVIDER"
| "TYPE_TO_PROVIDER IT_SOCIAL_PROFILE = Some SOCIAL_PLATFORM"
| "TYPE_TO_PROVIDER _ = None"

text \<open>An empty name counts as none.\<close>

definition extractDetectedName :: "js \<Rightarrow> provider_type \<Rightarrow> string option" where
  "extractDetectedName data ty =
     (case data of
        JObj kvs \<Rightarrow>
          if ty = DOMAIN_REGISTRAR
          then (case map_of kvs ''registrar'' of Some (JStr s) \<Rightarrow> nonempty s | _ \<Rightarrow> None) else None
      | _ \<Rightarrow> None)"

definition pattern_matches :: "web_services \<Rightarrow> string \<Rightarrow> string \<Rightarrow> bool" where
  "pattern_matches web pattern value =
     (let cleaned = (if starts_with ''(?i)'' pattern then drop 4 pattern else pattern) in
      web_regex web cleaned value = Some True)"

text \<open>
  \<open>replace(/needle/g, rep)\<close> with a nonempty needle: the dollar sequences of the replacement are
  expanded, as \<open>String.replace\<close> does.
\<close>

fun expand_dollars :: "string \<Rightarrow> string \<Rightarrow> string \<Rightarrow> string \<Rightarrow> string" where
  "expand_dollars m b a (d # c # cs) =
     (if d = CHR ''$'' \<and> c = CHR ''$'' then d # expand_dollars m b a cs
      else if d = CHR ''$'' \<and> c = CHR ''&'' then m @ expand_dollars m b a cs
      else if d = CHR ''$'' \<and> c = CHR 0x60 then b @ expand_dollars m b a cs
      else if d = CHR ''$'' \<and> c = CHR 0x27 then a @ expand_dollars m b a cs
      else d # expand_dollars m b a (c # cs))"
| "expand_dollars m b a s = s"

function replace_all :: "string \<Rightarrow> string \<Rightarrow> string \<Rightarrow> string \<Rightarrow> string" where
  "replace_all needle rep pre [] = []"
| "replace_all needle rep pre (c # cs) =
     (if needle \<noteq> [] \<and> starts_with needle (c # cs)
      then let rest = drop (length needle) (c # cs) in
        expand_dollars needle pre rest rep @ replace_all needle rep (pre @ needle) rest
      else c # replace_all needle rep (pre @ [c]) cs)"
  by pat_completeness auto
termination
  by (relation "measure (\<lambda>(n, r, b, s). length s)") (auto simp: Suc_diff_le length_greater_0_conv)

definition renderTemplate :: "string \<Rightarrow> registry_entry \<Rightarrow> string" where
  "renderTemplate tpl e =
     replace_all ''{summary}'' (re_publicSafeSummary e) []
       (replace_all ''{category}'' (re_category e) []
         (replace_all ''{indicator}'' (re_indicatorValue e) [] tpl))"

definition drafted :: "takedown \<Rightarrow> takedown_template \<Rightarrow> registry_entry \<Rightarrow> string \<Rightarrow> append_input" where
  "drafted t tpl e name =
     \<lparr>in_tenantId = None, in_actorId = None, in_actorType = Some ''SYSTEM'',
      in_entityType = ''TAKEDOWN_REQUEST'', in_entityId = td_id t,
      in_eventType = ''TAKEDOWN_AUTO_DRAFTED'',
      in_eventDescription = ''Auto-drafted takedown to '' @ tt_providerName tpl @ '' ('' @ name @ '')'',
      in_metadata = JObj [(''registryEntryId'', JStr (re_id e)), (''templateId'', JStr (tt_id tpl)),
        (''providerType'', JStr (provider_type_text (tt_providerType tpl))),
        (''providerName'', JStr (tt_providerName tpl)), (''detectedName'', JStr name)],
      in_ipAddress = None, in_deviceId = None\<rparr>"

definition template_dto :: "takedown_template \<Rightarrow> registry_entry \<Rightarrow> takedown_dto" where
  "template_dto tpl e =
     \<lparr>tk_registryEntryId = re_id e, tk_providerType = tt_providerType tpl,
      tk_providerName = tt_providerName tpl, tk_providerReference = None,
      tk_details = renderTemplate (tt_detailsTemplate tpl) e\<rparr>"

text \<open>How many templates matched, and the identifier of the draft when one was created.\<close>

definition draft_from ::
    "runtime \<Rightarrow> registry_entry \<Rightarrow> string \<Rightarrow> nat \<Rightarrow> takedown_template \<Rightarrow>
     ('a registry_db_scheme, nat \<times> string list) prog" where
  "draft_from rt e name matched tpl =
     bind_p (find_row takedowns (\<lambda>t. td_registryEntryId t = re_id e \<and>
       td_providerName t = tt_providerName tpl)) (\<lambda>existing.
     case existing of
       Some _ \<Rightarrow> ret (matched, [])
     | None \<Rightarrow>
         bind_p (new_id rt) (\<lambda>uid. bind_p (now rt) (\<lambda>t.
         bind_p (insert_row takedowns_update (new_takedown (template_dto tpl e) (re_id e) uid t)) (\<lambda>td.
         seq_p (append_evidence rt (drafted td tpl e name))
         (ret (matched, [td_id td]))))))"

definition tryAutomate ::
    "runtime \<Rightarrow> web_services \<Rightarrow> registry_entry \<Rightarrow> ('a registry_db_scheme, nat \<times> string list) prog" where
  "tryAutomate rt web e =
     (case TYPE_TO_PROVIDER (re_indicatorType e) of
        None \<Rightarrow> ret (0, [])
      | Some ty \<Rightarrow>
          bind_p (find_rows enrichments (\<lambda>row. oe_indicatorType row = re_indicatorType e \<and>
            oe_normalizedIndicator row = re_normalizedIndicator e)) (\<lambda>rows.
          let data = (case first_of (order_desc oe_createdAt rows) of
                        None \<Rightarrow> JUndef | Some row \<Rightarrow> oe_data row)
          in case extractDetectedName data ty of
               None \<Rightarrow> ret (0, [])
             | Some name \<Rightarrow>
                 bind_p (find_rows templates (\<lambda>t. tt_enabled t \<and> tt_providerType t = ty)) (\<lambda>ts.
                 case filter (\<lambda>t. pattern_matches web (tt_detectorPattern t) name)
                        (order_desc tt_priority ts) of
                   [] \<Rightarrow> ret (0, [])
                 | tpl # rest \<Rightarrow> draft_from rt e name (Suc (length rest)) tpl)))"

text \<open>The order of the provider types is the order of their declaration.\<close>

fun provider_rank :: "provider_type \<Rightarrow> nat" where
  "provider_rank DOMAIN_REGISTRAR = 0"
| "provider_rank HOSTING_PROVIDER = 1"
| "provider_rank TELECOM_CARRIER = 2"
| "provider_rank EMAIL_PROVIDER = 3"
| "provider_rank SOCIAL_PLATFORM = 4"
| "provider_rank PAYMENT_PROVIDER = 5"
| "provider_rank APP_STORE = 6"
| "provider_rank LAW_ENFORCEMENT = 7"
| "provider_rank PROVIDER_OTHER = 8"

definition provider_types :: "(string \<times> provider_type) list" where
  "provider_types = map (\<lambda>p. (provider_type_text p, p))
     [DOMAIN_REGISTRAR, HOSTING_PROVIDER, TELECOM_CARRIER, EMAIL_PROVIDER, SOCIAL_PLATFORM,
      PAYMENT_PROVIDER, APP_STORE, LAW_ENFORCEMENT, PROVIDER_OTHER]"

definition listTemplates ::
    "string option \<Rightarrow> bool option \<Rightarrow> ('a registry_db_scheme, takedown_template list) prog" where
  "listTemplates providerType enabled =
     (let ty = map_of provider_types (or_default providerType []) in
     bind_p (find_rows templates (\<lambda>t. (ty \<noteq> None \<longrightarrow> ty = Some (tt_providerType t)) \<and>
       (enabled \<noteq> None \<longrightarrow> enabled = Some (tt_enabled t)))) (\<lambda>rows.
     ret (take 500 (order_asc (\<lambda>t. provider_rank (tt_providerType t))
       (order_desc tt_priority (order_asc tt_providerName rows))))))"

definition createTemplate ::
    "runtime \<Rightarrow> (string \<Rightarrow> takedown_template) \<Rightarrow> ('a registry_db_scheme, takedown_template) prog" where
  "createTemplate rt input =
     bind_p (new_id rt) (\<lambda>uid. insert_row templates_update (input uid))"

section \<open>The log is respected\<close>

lemma createTakedown_safe: "moves (log_safe rt) (createTakedown rt actor dto ip)"
  unfolding createTakedown_def
  by (auto simp: log_untouched takedown_event_def intro!: safe_rules append_safe)

lemma updateTakedown_safe: "moves (log_safe rt) (updateTakedown rt actor i dto ip)"
  unfolding updateTakedown_def getTakedown_def
  by (auto simp: log_untouched takedown_event_def intro!: safe_rules append_safe split: prod.split)

lemma tryAutomate_safe: "moves (log_safe rt) (tryAutomate rt web e)"
  unfolding tryAutomate_def draft_from_def Let_def
  by (auto simp: log_untouched drafted_def intro!: safe_rules append_safe
      split: option.split list.split)

section \<open>Properties\<close>

text \<open>How far a request has come; every transition goes strictly up, so at most four happen.\<close>

fun td_rank :: "takedown_status \<Rightarrow> nat" where
  "td_rank TD_DRAFT = 0"
| "td_rank TD_SUBMITTED = 1"
| "td_rank TD_ACKNOWLEDGED = 2"
| "td_rank TD_IN_PROGRESS = 3"
| "td_rank TD_COMPLETED = 4"
| "td_rank TD_REJECTED = 4"
| "td_rank TD_WITHDRAWN = 4"

lemma transition_up: "s' \<in> set (TRANSITIONS s) \<Longrightarrow> td_rank s < td_rank s'"
  by (cases s) auto

lemma td_rank_top: "td_rank s \<le> 4" "td_rank s = 4 \<longleftrightarrow> s \<in> set TERMINAL"
  by (cases s; simp add: TERMINAL_def)+

lemma terminal_stuck: "s \<in> set TERMINAL \<longleftrightarrow> TRANSITIONS s = []"
  by (cases s) (auto simp: TERMINAL_def)

lemma withdrawable: "s \<notin> set TERMINAL \<longleftrightarrow> TD_WITHDRAWN \<in> set (TRANSITIONS s)"
  by (cases s) (auto simp: TERMINAL_def)

lemma advance_fields [simp]:
  "td_status (advance_takedown actor dto ts tr u t) = tu_status dto"
  "td_id (advance_takedown actor dto ts tr u t) = td_id t"
  "tu_status dto \<in> set TERMINAL \<Longrightarrow>
     td_resolvedByUserId (advance_takedown actor dto ts tr u t) = Some (au_userId actor)"
  by (auto simp: advance_takedown_def Let_def TERMINAL_def split: option.split)

text \<open>
  C38. A takedown request moves only along the declared transitions, and every move takes it
  strictly further towards one of the final states, which it then never leaves: an update either
  fails and changes nothing, or raises the rank of that one request, which is at most four. A
  request that is not final can always be withdrawn.
\<close>

theorem takedown_moves_forward:
  assumes "find (\<lambda>t. td_id t = i) (takedowns w) = Some t"
  shows "ends (updateTakedown rt actor i dto ip) w (\<lambda>r w'. case r of
      Inl e \<Rightarrow> w' = w \<and> tu_status dto \<notin> set (TRANSITIONS (td_status t))
    | Inr t' \<Rightarrow> td_rank (td_status t) < td_rank (td_status t') \<and> td_rank (td_status t') \<le> 4 \<and>
        td_status t \<notin> set TERMINAL \<and> td_status t' = tu_status dto \<and>
        find (\<lambda>t. td_id t = i) (takedowns w') = Some t' \<and>
        (td_status t' \<in> set TERMINAL \<longrightarrow> td_resolvedByUserId t' = Some (au_userId actor))) \<and>
    (td_status t \<notin> set TERMINAL \<longrightarrow> tu_status dto = TD_WITHDRAWN \<longrightarrow>
      runs (updateTakedown rt actor i dto ip) w (\<lambda>t' w'. td_status t' = TD_WITHDRAWN))"
proof -
  have upd: "find (\<lambda>t. td_id t = i) (map (\<lambda>t. if td_id t = i then advance_takedown actor dto ts tr u t
      else t) (takedowns w)) = Some (advance_takedown actor dto ts tr u t)" for ts tr u
    by (rule find_mapped [OF assms]) simp
  have stuck: "tu_status dto \<in> set (TRANSITIONS (td_status t)) \<Longrightarrow> td_status t \<notin> set TERMINAL"
    by (auto simp: terminal_stuck)
  show ?thesis
  proof (cases "tu_status dto \<in> set (TRANSITIONS (td_status t))")
    case True
    then show ?thesis
      using transition_up [OF True] td_rank_top(1) stuck
      by (auto simp: ends_iff updateTakedown_def getTakedown_def run_simps runs_stamped assms upd)
  next
    case False
    moreover have "updateTakedown rt actor i dto ip w =
        (Inl (transition_refused (td_status t) (tu_status dto)), w)"
      by (simp add: raises_eq [symmetric] updateTakedown_def getTakedown_def run_simps assms False)
    ultimately show ?thesis
      by (auto simp: ends_def withdrawable)
  qed
qed

text \<open>The automation writes nothing but drafts, at most one, never a second for a provider.\<close>

lemma automation_drafts:
  "ends (tryAutomate rt web e) w (\<lambda>r w'. takedowns w' = takedowns w \<or>
     (\<exists>t. takedowns w' = takedowns w @ [t] \<and> td_status t = TD_DRAFT \<and>
        td_registryEntryId t = re_id e \<and>
        (\<forall>q\<in>set (takedowns w). td_registryEntryId q = re_id e \<longrightarrow> td_providerName q \<noteq> td_providerName t)))"
proof -
  have draft: "ends (draft_from rt e name n tpl) w (\<lambda>r w'. takedowns w' = takedowns w \<or>
     (\<exists>t. takedowns w' = takedowns w @ [t] \<and> td_status t = TD_DRAFT \<and>
        td_registryEntryId t = re_id e \<and>
        (\<forall>q\<in>set (takedowns w). td_registryEntryId q = re_id e \<longrightarrow> td_providerName q \<noteq> td_providerName t)))"
    for name n tpl
    by (auto simp: ends_iff draft_from_def run_simps runs_stamped new_takedown_def template_dto_def
        find_None_iff split: option.split)
  show ?thesis
    unfolding tryAutomate_def Let_def
    by (auto simp: ends_basic ends_bind find_rows_def ask_def ends_def [of "\<lambda>w. (Inr (g w), w)" for g]
        draft split: option.split list.split)
qed

definition demo_registry :: "registry_entry list \<Rightarrow> takedown list \<Rightarrow> registry_db" where
  "demo_registry es ts = \<lparr>db_tick = 0, evidence_events = [], audit_logs = [], jobs = [],
     ws_events = [], evidence_files = [], export_bundles = [], deliveries = [], alerts = [],
     users = [], contacts = [], reviews = [], settings = [], profiles = [],
     risk_events = [], pauses = [], holds = [], warnings = [], signals = [], similarities = [],
     graph_nodes = [], graph_edges = [], wallets = [], clusters = [], ai_decisions = [],
     embeddings = [], enrichments = [], tenants = [], reliability = [], review_queue = [],
     claims = [], subscriptions = [], hook_deliveries = [], registry_entries = es, appeals = [],
     takedowns = ts, templates = [], public_alerts = [], process_cache = []\<rparr>"

definition demo_takedown :: takedown where
  "demo_takedown = new_takedown \<lparr>tk_registryEntryId = ''e1'', tk_providerType = DOMAIN_REGISTRAR,
     tk_providerName = ''Registrar'', tk_providerReference = None, tk_details = ''please''\<rparr> ''e1'' ''t1'' 0"

theorem takedown_moves_forward_witness:
  "runs (updateTakedown demo_rt demo_user ''t1''
       \<lparr>tu_status = TD_WITHDRAWN, tu_providerReference = None, tu_notes = None\<rparr> None)
     (demo_registry [] [demo_takedown]) (\<lambda>t w'. td_status t = TD_WITHDRAWN)"
proof -
  have "find (\<lambda>t. td_id t = ''t1'') (takedowns (demo_registry [] [demo_takedown])) = Some demo_takedown"
    by (simp add: demo_registry_def demo_takedown_def new_takedown_def)
  from takedown_moves_forward [OF this, of demo_rt demo_user
      "\<lparr>tu_status = TD_WITHDRAWN, tu_providerReference = None, tu_notes = None\<rparr>" None]
  show ?thesis by (simp add: demo_takedown_def new_takedown_def TERMINAL_def)
qed

end
