(* ===== verification/CachedReads.thy ===== *)
theory CachedReads
  imports RegistryData
begin

text \<open>
  The read path of the two public listings (registry.service.ts search, public-alert.service.ts
  listPublic): the answer held for the key, or a computed one that is then held. The locale states
  what its clients need of their query, and shows once that cached answers stay as good as fresh
  ones.
\<close>

definition through_cache ::
    "runtime \<Rightarrow> string \<Rightarrow> (cached \<Rightarrow> 'r option) \<Rightarrow> ('r \<Rightarrow> cached) \<Rightarrow> int \<Rightarrow>
     ('a registry_db_scheme, 'r) prog \<Rightarrow> ('a registry_db_scheme, 'r) prog" where
  "through_cache rt key unwrap wrap ttlMs compute =
     bind_p (read_cache rt key) (\<lambda>hit.
     case (case hit of None \<Rightarrow> None | Some v \<Rightarrow> unwrap v) of
       Some r \<Rightarrow> ret r
     | None \<Rightarrow>
         bind_p compute (\<lambda>r.
         seq_p (write_cache rt key (wrap r) ttlMs)
         (ret r)))"

text \<open>
  The same path in its two steps: the look into the cache with, on a miss, the query; and the write
  of the queried answer, which comes after an await. The flag tells a miss.
\<close>

definition ask_cached ::
    "runtime \<Rightarrow> string \<Rightarrow> (cached \<Rightarrow> 'r option) \<Rightarrow> ('a registry_db_scheme, 'r) prog \<Rightarrow>
     ('a registry_db_scheme, 'r \<times> bool) prog" where
  "ask_cached rt key unwrap compute =
     bind_p (read_cache rt key) (\<lambda>hit.
     case (case hit of None \<Rightarrow> None | Some v \<Rightarrow> unwrap v) of
       Some r \<Rightarrow> ret (r, False)
     | None \<Rightarrow> bind_p compute (\<lambda>r. ret (r, True)))"

lemma through_cache_steps:
  "through_cache rt key unwrap wrap ttlMs compute =
     bind_p (ask_cached rt key unwrap compute) (\<lambda>(r, missed).
     seq_p (when_p missed (write_cache rt key (wrap r) ttlMs)) (ret r))"
proof
  fix w
  show "through_cache rt key unwrap wrap ttlMs compute w =
      bind_p (ask_cached rt key unwrap compute) (\<lambda>(r, missed).
      seq_p (when_p missed (write_cache rt key (wrap r) ttlMs)) (ret r)) w"
    unfolding through_cache_def ask_cached_def
    by (auto simp: bind_p_def seq_p_def when_p_def ret_def split: prod.splits sum.splits option.splits)
qed

fun as_search :: "cached \<Rightarrow> search_result option" where
  "as_search (CachedSearch r) = Some r"
| "as_search (CachedAlerts vs) = None"

fun as_alerts :: "cached \<Rightarrow> alert_view list option" where
  "as_alerts (CachedSearch r) = None"
| "as_alerts (CachedAlerts vs) = Some vs"

lemma unwrap_iff: "as_search v = Some r \<longleftrightarrow> v = CachedSearch r" "as_alerts v = Some vs \<longleftrightarrow> v = CachedAlerts vs"
  by (cases v; auto)+

lemma through_cache_safe:
  "moves (log_safe rt') compute \<Longrightarrow> moves (log_safe rt') (through_cache rt k unwrap wrap ttl compute)"
  unfolding through_cache_def by (intro safe_rules cache_safe)

text \<open>A miss computes the answer, and for its time to live the same key gets it again.\<close>

lemma answered_by_key:
  assumes "fst (cache_get k (rt_clock rt (db_tick w)) (process_cache w)) = None"
    and "\<And>r. unwrap (wrap r) = Some r"
    and "runs compute (w\<lparr>db_tick := db_tick w + 1, process_cache := snd (cache_get k (rt_clock rt (db_tick w))
      (process_cache w))\<rparr>) (\<lambda>r v. r = r0 \<and> v = w\<lparr>db_tick := n, process_cache := c\<rparr>)"
    and "rt_clock rt (n + 1) \<le> rt_clock rt n + ttl"
  shows "runs (through_cache rt k unwrap wrap ttl compute) w (\<lambda>r w1. r = r0 \<and>
    runs (through_cache rt k unwrap wrap ttl compute') w1 (\<lambda>r' _. r' = r))"
proof -
  have hit: "fst (cache_get k (rt_clock rt (n + 1)) (cache_set k (v::cached) ttl (rt_clock rt n) c)) = Some v"
    for v c by (rule get_after_set [OF assms(4)])
  have "runs compute (w\<lparr>db_tick := db_tick w + 1, process_cache := snd (cache_get k (rt_clock rt (db_tick w))
      (process_cache w))\<rparr>) (\<lambda>r v. runs (seq_p (write_cache rt k (wrap r) ttl) (ret r)) v (\<lambda>r w1. r = r0 \<and>
        runs (through_cache rt k unwrap wrap ttl compute') w1 (\<lambda>r' _. r' = r)))"
    by (rule runs_mono [OF assms(3)])
       (use hit in \<open>simp add: run_simps through_cache_def Let_def case_prod_beta assms(2)\<close>)
  then show ?thesis
    by (simp add: through_cache_def [of rt k unwrap wrap ttl compute] runs_bind runs_cache Let_def
        case_prod_beta assms(1))
qed

lemma cache_const: "process_cache_update g w = w\<lparr>process_cache := g (process_cache w)\<rparr>"
  by (rule registry_db.equality) simp_all

lemma option_cases_run:
  "runs m w Q \<Longrightarrow> (\<And>r. x = Some r \<Longrightarrow> Q (g r) w) \<Longrightarrow>
   runs (case x of Some r \<Rightarrow> ret (g r) | None \<Rightarrow> m) w Q"
  by (auto simp: runs_basic split: option.split)

locale cached_answers =
  fixes p :: string
    and key :: "'q \<Rightarrow> string"
    and wrap :: "'r \<Rightarrow> cached"
    and unwrap :: "cached \<Rightarrow> 'r option"
    and compute :: "'q \<Rightarrow> ('a registry_db_scheme, 'r) prog"
    and answers :: "'a registry_db_scheme \<Rightarrow> 'r \<Rightarrow> bool"
  assumes unwrap_wrap: "unwrap v = Some r \<longleftrightarrow> v = wrap r"
    and under_prefix: "starts_with p (key q)"
    and answers_ignores: "answers (process_cache_update g w) = answers w"
      "answers (db_tick_update h w) = answers w"
    and compute_answers: "runs (compute q) w (\<lambda>r w'. (\<exists>n. w' = w\<lparr>db_tick := n\<rparr>) \<and> answers w r)"
begin

definition all_good :: "'a registry_db_scheme \<Rightarrow> bool" where
  "all_good w \<longleftrightarrow> node_cache.good p (\<lambda>v. \<forall>r. unwrap v = Some r \<longrightarrow> answers w r) (process_cache w)"

lemma read_answers:
  assumes "all_good w"
  shows "runs (through_cache rt (key q) unwrap wrap ttl (compute q)) w (\<lambda>r w'.
    answers w r \<and> all_good w' \<and> (\<exists>n c. w' = w\<lparr>db_tick := n, process_cache := c\<rparr>))"
proof -
  define P where "P = (\<lambda>v. \<forall>r. unwrap v = Some r \<longrightarrow> answers w r)"
  let ?t = "rt_clock rt (db_tick w)"
  let ?c = "snd (cache_get (key q) ?t (process_cache w))"
  let ?w1 = "w\<lparr>db_tick := db_tick w + 1, process_cache := ?c\<rparr>"
  have good: "node_cache.good p P (process_cache w)" using assms by (simp add: all_good_def P_def)
  then have c: "node_cache.good p P ?c" by (rule node_cache.get_keeps)
  have kept: "all_good (w\<lparr>db_tick := n, process_cache := d\<rparr>) \<longleftrightarrow> node_cache.good p P d" for n d
    by (simp add: all_good_def P_def answers_ignores)
  have miss: "runs (bind_p (compute q) (\<lambda>r. seq_p (write_cache rt (key q) (wrap r) ttl) (ret r))) ?w1
      (\<lambda>r w'. answers w r \<and> all_good w' \<and> (\<exists>n c. w' = w\<lparr>db_tick := n, process_cache := c\<rparr>))"
    unfolding runs_bind
  proof (rule runs_mono [OF compute_answers], elim conjE exE)
    fix r v n assume v: "v = ?w1\<lparr>db_tick := n\<rparr>" and r: "answers ?w1 r"
    have "answers w r" using r by (simp add: answers_ignores)
    moreover have "unwrap (wrap r) = Some r" by (simp add: unwrap_wrap)
    ultimately have "P (wrap r)" by (simp add: P_def)
    from node_cache.set_keeps [OF c this] \<open>answers w r\<close>
    show "runs (seq_p (write_cache rt (key q) (wrap r) ttl) (ret r)) v
        (\<lambda>r w'. answers w r \<and> all_good w' \<and> (\<exists>n c. w' = w\<lparr>db_tick := n, process_cache := c\<rparr>))"
      unfolding v runs_seq runs_cache runs_basic
      by (simp add: cache_const [of "cache_set k x ttl t" for k x ttl t] kept) blast
  qed
  have hit: "answers w r" if "fst (cache_get (key q) ?t (process_cache w)) = Some v" "unwrap v = Some r" for v r
    using node_cache.get_good [OF good under_prefix that(1)] that(2) by (simp add: P_def)
  show ?thesis
    unfolding through_cache_def runs_bind runs_cache Let_def case_prod_beta
    by (rule option_cases_run [where g = "\<lambda>r. r", OF miss]) (use hit in \<open>auto simp: kept c runs_basic split: option.splits\<close>)
qed

lemma ask_answers:
  assumes "all_good w"
  shows "runs (ask_cached rt (key q) unwrap (compute q)) w (\<lambda>(r, missed) w'.
    answers w r \<and> all_good w' \<and> (\<exists>n. w' = w\<lparr>db_tick := n,
      process_cache := snd (cache_get (key q) (rt_clock rt (db_tick w)) (process_cache w))\<rparr>))"
proof -
  define P where "P = (\<lambda>v. \<forall>r. unwrap v = Some r \<longrightarrow> answers w r)"
  let ?t = "rt_clock rt (db_tick w)"
  let ?c = "snd (cache_get (key q) ?t (process_cache w))"
  let ?w1 = "w\<lparr>db_tick := db_tick w + 1, process_cache := ?c\<rparr>"
  have good: "node_cache.good p P (process_cache w)" using assms by (simp add: all_good_def P_def)
  have kept: "all_good (w\<lparr>db_tick := n, process_cache := ?c\<rparr>)" for n
    using node_cache.get_keeps [OF good] by (simp add: all_good_def P_def answers_ignores)
  have swap: "w\<lparr>process_cache := ?c, db_tick := n\<rparr> = w\<lparr>db_tick := n, process_cache := ?c\<rparr>" for n
    by (rule registry_db.equality) simp_all
  have miss: "runs (bind_p (compute q) (\<lambda>r. ret (r, True))) ?w1 (\<lambda>(r, missed) w'.
      answers w r \<and> all_good w' \<and> (\<exists>n. w' = w\<lparr>db_tick := n, process_cache := ?c\<rparr>))"
    unfolding runs_bind
    by (rule runs_mono [OF compute_answers]) (auto simp: answers_ignores runs_basic kept swap)
  have "answers w r" if "fst (cache_get (key q) ?t (process_cache w)) = Some v" "unwrap v = Some r" for v r
    using node_cache.get_good [OF good under_prefix that(1)] that(2) by (simp add: P_def)
  then show ?thesis
    unfolding ask_cached_def runs_bind runs_cache Let_def case_prod_beta
    by (intro option_cases_run [where g = "\<lambda>r. (r, False)", OF miss [unfolded case_prod_beta]])
       (auto simp: kept split: option.splits)
qed

end

end
