(* ===== verification/Registry.thy ===== *)
theory Registry
  imports Takedown CachedReads
begin

text \<open>
  The Scam Intelligence Registry (modules/registry/registry.service.ts): the lifecycle that turns
  a verified signal into a public entry, and the cached public search.
\<close>

section \<open>Public search\<close>

definition MAX_PAGE_SIZE :: int where
  "MAX_PAGE_SIZE = 100"

definition DEFAULT_PAGE_SIZE :: int where
  "DEFAULT_PAGE_SIZE = 50"

definition SEARCH_CACHE_TTL_MS :: int where
  "SEARCH_CACHE_TTL_MS = 60000"

definition SEARCH_CACHE_PREFIX :: string where
  "SEARCH_CACHE_PREFIX = ''registry:search:''"

record search_query =
  sq_q :: "string option"
  sq_type :: "string option"
  sq_category :: "string option"
  sq_page :: "int option"
  sq_limit :: "int option"

definition buildCacheKey :: "search_query \<Rightarrow> int \<Rightarrow> int \<Rightarrow> string" where
  "buildCacheKey q page limit = join_with ''|''
     [SEARCH_CACHE_PREFIX, ''q='' @ to_lower (trim (or_default (sq_q q) [])),
      ''t='' @ or_default (sq_type q) [], ''c='' @ or_default (sq_category q) [],
      ''p='' @ show_int page, ''l='' @ show_int limit]"

definition to_upper :: "string \<Rightarrow> string" where
  "to_upper s = concat (map (\<lambda>c. if code c = 223 then ''SS'' else [upper_char c]) s)"

definition indicator_types :: "(string \<times> indicator_type) list" where
  "indicator_types = map (\<lambda>t. (indicator_text t, t))
     [IT_PHONE, IT_EMAIL, IT_DOMAIN, IT_URL, IT_CRYPTO_WALLET, IT_SCAM_PHRASE, IT_FAKE_COMPANY,
      IT_SOCIAL_PROFILE, IT_OTHER]"

definition parseType :: "string option \<Rightarrow> indicator_type option" where
  "parseType raw = (if truthy raw then map_of indicator_types (to_upper (or_default raw [])) else None)"

definition contains :: "string \<Rightarrow> string \<Rightarrow> bool" where
  "contains needle s \<longleftrightarrow> (\<exists>n\<in>set [0..<Suc (length s)]. starts_with needle (drop n s))"

text \<open>The condition of the query: published, and the filters given.\<close>

definition search_where :: "search_query \<Rightarrow> registry_entry \<Rightarrow> bool" where
  "search_where q e \<longleftrightarrow>
     re_status e = EN_PUBLISHED \<and>
     (parseType (sq_type q) \<noteq> None \<longrightarrow> parseType (sq_type q) = Some (re_indicatorType e)) \<and>
     (truthy (sq_category q) \<longrightarrow> re_category e = to_upper (or_default (sq_category q) [])) \<and>
     (let text = trim (or_default (sq_q q) []) in
      text \<noteq> [] \<longrightarrow>
        (case parseType (sq_type q) of
           Some ty \<Rightarrow> re_normalizedIndicator e = normalizeIndicator ty text
         | None \<Rightarrow> contains (to_lower text) (re_normalizedIndicator e) \<or>
             contains (to_lower text) (to_lower (re_indicatorValue e))))"

text \<open>Descending with the missing values first, as the database orders them.\<close>

definition order_desc_nulls :: "('r \<Rightarrow> int option) \<Rightarrow> 'r list \<Rightarrow> 'r list" where
  "order_desc_nulls key rs =
     filter (\<lambda>r. key r = None) rs @ order_desc (\<lambda>r. the (key r)) (filter (\<lambda>r. key r \<noteq> None) rs)"

definition search_page :: "search_query \<Rightarrow> int" where
  "search_page q = max 1 (or_default (sq_page q) 1)"

definition search_limit :: "search_query \<Rightarrow> int" where
  "search_limit q = min MAX_PAGE_SIZE (max 1 (or_default (sq_limit q) DEFAULT_PAGE_SIZE))"

definition search_rows :: "search_query \<Rightarrow> ('a registry_db_scheme, search_result) prog" where
  "search_rows q =
     (let page = nat (search_page q); limit = nat (search_limit q) in
      bind_p (find_rows registry_entries (search_where q)) (\<lambda>found.
      let rows = take (limit + 1) (drop ((page - 1) * limit) (order_desc_nulls re_lastSeen found));
          hasMore = (limit < length rows);
          items = map toPublicRegistryEntry (if hasMore then take limit rows else rows)
      in ret \<lparr>sr_items = items, sr_page = page, sr_limit = limit, sr_hasMore = hasMore\<rparr>))"

definition search_key :: "search_query \<Rightarrow> string" where
  "search_key q = buildCacheKey q (search_page q) (search_limit q)"

definition search_registry ::
    "runtime \<Rightarrow> search_query \<Rightarrow> ('a registry_db_scheme, search_result) prog" where
  "search_registry rt q =
     through_cache rt (search_key q) as_search CachedSearch SEARCH_CACHE_TTL_MS (search_rows q)"

definition invalidateSearchCache :: "('a registry_db_scheme, nat) prog" where
  "invalidateSearchCache = sweep_cache SEARCH_CACHE_PREFIX"

section \<open>Governance\<close>

record candidate_dto =
  cn_signalId :: string
  cn_publicStatus :: public_status
  cn_publicSafeSummary :: string
  cn_recommendedAction :: "string option"
  cn_category :: "string option"

definition registry_event ::
    "registry_entry \<Rightarrow> auth_user \<Rightarrow> string \<Rightarrow> string \<Rightarrow> string \<Rightarrow> string option \<Rightarrow> append_input" where
  "registry_event e actor role evtype descr ip =
     admin_event None (au_userId actor) role ''REGISTRY_ENTRY'' (re_id e) evtype descr
       (JObj [(''status'', JStr (entry_status_text (re_status e))),
         (''indicatorType'', JStr (indicator_text (re_indicatorType e)))]) ip"

definition new_entry :: "candidate_dto \<Rightarrow> scam_signal \<Rightarrow> string \<Rightarrow> int \<Rightarrow> registry_entry" where
  "new_entry dto s uid t =
     \<lparr>re_id = uid, re_indicatorType = ss_indicatorType s, re_indicatorValue = ss_indicatorValue s,
      re_normalizedIndicator = ss_normalizedIndicator s,
      re_category = or_default (or_else (cn_category dto) (ss_category s)) ''OTHER'',
      re_status = EN_CANDIDATE, re_publicStatus = Some (cn_publicStatus dto),
      re_confidenceScore = ss_confidenceScore s, re_publicSafeSummary = cn_publicSafeSummary dto,
      re_recommendedAction = cn_recommendedAction dto, re_firstSeen = Some (ss_firstSeen s),
      re_lastSeen = Some (ss_lastSeen s), re_evidenceCount = ss_reportCount s,
      re_sourceSignalId = Some (ss_id s), re_approvedByUserId = None, re_approvedAt = None,
      re_publishedAt = None, re_updatedAt = t\<rparr>"

definition createCandidate ::
    "runtime \<Rightarrow> auth_user \<Rightarrow> candidate_dto \<Rightarrow> string option \<Rightarrow>
     ('a registry_db_scheme, registry_entry) prog" where
  "createCandidate rt reviewer dto ip =
     bind_p (find_row signals (\<lambda>s. ss_id s = cn_signalId dto)) (\<lambda>found.
     bind_p (require_some found (NotFoundException ''Scam signal not found'')) (\<lambda>s.
     seq_p (ensure (ss_status s = VERIFIED_SCAM_INTELLIGENCE) (BadRequestException
       ''Only a signal promoted to verified intelligence can become a registry candidate''))
     (seq_p (assertPublicSafeLanguage (cn_publicSafeSummary dto) ''publicSafeSummary'')
     (seq_p (when_p (truthy (cn_recommendedAction dto))
       (assertPublicSafeLanguage (or_default (cn_recommendedAction dto) []) ''recommendedAction''))
     (bind_p (find_row registry_entries (\<lambda>e. re_sourceSignalId e = Some (ss_id s))) (\<lambda>duplicate.
      seq_p (ensure (duplicate = None)
        (ConflictException ''A registry entry already exists for this signal''))
      (bind_p (new_id rt) (\<lambda>uid. bind_p (now rt) (\<lambda>t.
       bind_p (insert_row registry_entries_update (new_entry dto s uid t)) (\<lambda>e.
       bind_p (new_id rt) (\<lambda>qid. bind_p (now rt) (\<lambda>qt.
       seq_p (insert_row review_queue_update (new_item None (Some (re_id e)) qid qt))
       (seq_p (append_evidence rt (registry_event e reviewer ''REVIEWER'' ''REGISTRY_CANDIDATE_CREATED''
          ''Registry candidate created from a verified signal'' ip))
       (ret e))))))))))))))"

definition entry_statuses :: "(string \<times> entry_status) list" where
  "entry_statuses = map (\<lambda>s. (entry_status_text s, s))
     [EN_CANDIDATE, EN_UNDER_REVIEW, EN_APPROVED, EN_PUBLISHED, EN_REJECTED, EN_ARCHIVED]"

definition listInternal :: "string option \<Rightarrow> ('a registry_db_scheme, registry_entry list) prog" where
  "listInternal status =
     (let st = map_of entry_statuses (or_default status []) in
      bind_p (find_rows registry_entries (\<lambda>e. st \<noteq> None \<longrightarrow> st = Some (re_status e))) (\<lambda>rows.
      ret (take 200 (order_desc re_updatedAt rows))))"

definition getInternal :: "string \<Rightarrow> ('a registry_db_scheme, registry_entry) prog" where
  "getInternal i =
     bind_p (find_row registry_entries (\<lambda>e. re_id e = i)) (\<lambda>found.
     require_some found (NotFoundException ''Registry entry not found''))"

definition requireStatus ::
    "string \<Rightarrow> entry_status list \<Rightarrow> ('a registry_db_scheme, registry_entry) prog" where
  "requireStatus i allowed =
     bind_p (find_row registry_entries (\<lambda>e. re_id e = i)) (\<lambda>found.
     bind_p (require_some found (NotFoundException ''Registry entry not found'')) (\<lambda>e.
     seq_p (ensure (re_status e \<in> set allowed) (BadRequestException
       (''Registry entry status is '' @ entry_status_text (re_status e) @ ''; this action requires '' @
        join_with '' or '' (map entry_status_text allowed))))
     (ret e)))"

definition complete_item :: "auth_user \<Rightarrow> string \<Rightarrow> queue_item \<Rightarrow> queue_item" where
  "complete_item actor decision q =
     q\<lparr>qi_reviewStatus := Q_COMPLETED, qi_assignedToUserId := Some (au_userId actor),
       qi_decision := Some decision\<rparr>"

definition markQueueComplete ::
    "string \<Rightarrow> auth_user \<Rightarrow> string \<Rightarrow> ('a registry_db_scheme, unit) prog" where
  "markQueueComplete entryId actor decision =
     update_rows review_queue_update
       (\<lambda>q. qi_registryEntryId q = Some entryId \<and> qi_reviewStatus q \<noteq> Q_COMPLETED)
       (complete_item actor decision)"

definition set_entry ::
    "runtime \<Rightarrow> string \<Rightarrow> (int \<Rightarrow> registry_entry \<Rightarrow> registry_entry) \<Rightarrow>
     ('a registry_db_scheme, registry_entry) prog" where
  "set_entry rt i f =
     bind_p (now rt) (\<lambda>t. bind_p (now rt) (\<lambda>u.
     update_row registry_entries registry_entries_update (\<lambda>e. re_id e = i)
       (\<lambda>e. (f t e)\<lparr>re_updatedAt := u\<rparr>)))"

definition approved_entry :: "auth_user \<Rightarrow> int \<Rightarrow> registry_entry \<Rightarrow> registry_entry" where
  "approved_entry admin t e =
     e\<lparr>re_status := EN_APPROVED, re_approvedByUserId := Some (au_userId admin), re_approvedAt := Some t\<rparr>"

definition approve_entry ::
    "runtime \<Rightarrow> auth_user \<Rightarrow> string \<Rightarrow> string option \<Rightarrow> ('a registry_db_scheme, registry_entry) prog"
  where
  "approve_entry rt admin i ip =
     seq_p (requireStatus i [EN_CANDIDATE, EN_UNDER_REVIEW])
     (bind_p (set_entry rt i (approved_entry admin)) (\<lambda>updated.
      seq_p (markQueueComplete i admin ''APPROVED'')
      (seq_p (append_evidence rt (registry_event updated admin ''ADMIN'' ''REGISTRY_APPROVED''
         ''Registry entry passed public-safe review'' ip))
      (ret updated))))"

definition hook_payload :: "registry_entry \<Rightarrow> (string \<times> js) list" where
  "hook_payload e =
     [(''registryEntryId'', JStr (re_id e)), (''indicatorType'', JStr (indicator_text (re_indicatorType e))),
      (''indicatorValue'', JStr (re_indicatorValue e)),
      (''publicStatus'', opt_str (map_option public_status_text (re_publicStatus e))),
      (''publishedAt'', (case re_publishedAt e of None \<Rightarrow> JNull | Some t \<Rightarrow> JDate t))]"

definition notifyPartner ::
    "runtime \<Rightarrow> web_services \<Rightarrow> registry_entry \<Rightarrow> hook_event \<Rightarrow> ('a registry_db_scheme, unit) prog"
  where
  "notifyPartner rt web e ev =
     when_p (truthy (re_sourceSignalId e))
       (attempt
         (bind_p (find_row signals (\<lambda>s. re_sourceSignalId e = Some (ss_id s))) (\<lambda>source.
          let tenantId = (case source of None \<Rightarrow> None | Some s \<Rightarrow> ss_tenantId s) in
          when_p (truthy tenantId) (publish_event rt web ev tenantId (hook_payload e)))))"

definition published_entry :: "int \<Rightarrow> registry_entry \<Rightarrow> registry_entry" where
  "published_entry t e = e\<lparr>re_status := EN_PUBLISHED, re_publishedAt := Some t\<rparr>"

definition publish_entry ::
    "runtime \<Rightarrow> web_services \<Rightarrow> auth_user \<Rightarrow> string \<Rightarrow> string option \<Rightarrow>
     ('a registry_db_scheme, registry_entry) prog" where
  "publish_entry rt web admin i ip =
     seq_p (requireStatus i [EN_APPROVED])
     (bind_p (set_entry rt i published_entry) (\<lambda>updated.
      seq_p (append_evidence rt (registry_event updated admin ''ADMIN'' ''REGISTRY_PUBLISHED''
         ''Registry entry published to the public registry'' ip))
      (seq_p invalidateSearchCache
      (seq_p (notifyPartner rt web updated REGISTRY_PUBLISHED)
      (seq_p (attempt (tryAutomate rt web updated))
      (ret updated))))))"

definition unpublished_entry :: "int \<Rightarrow> registry_entry \<Rightarrow> registry_entry" where
  "unpublished_entry t e = e\<lparr>re_status := EN_APPROVED, re_publishedAt := None\<rparr>"

definition unpublish_entry ::
    "runtime \<Rightarrow> web_services \<Rightarrow> auth_user \<Rightarrow> string \<Rightarrow> string option \<Rightarrow>
     ('a registry_db_scheme, registry_entry) prog" where
  "unpublish_entry rt web admin i ip =
     seq_p (requireStatus i [EN_PUBLISHED])
     (bind_p (set_entry rt i unpublished_entry) (\<lambda>updated.
      seq_p (append_evidence rt (registry_event updated admin ''ADMIN'' ''REGISTRY_UNPUBLISHED''
         ''Registry entry removed from the public registry'' ip))
      (seq_p invalidateSearchCache
      (seq_p (notifyPartner rt web updated REGISTRY_UNPUBLISHED)
      (ret updated)))))"

definition rejected_entry :: "int \<Rightarrow> registry_entry \<Rightarrow> registry_entry" where
  "rejected_entry t e = e\<lparr>re_status := EN_REJECTED\<rparr>"

definition reject_entry ::
    "runtime \<Rightarrow> auth_user \<Rightarrow> string \<Rightarrow> string option \<Rightarrow> ('a registry_db_scheme, registry_entry) prog"
  where
  "reject_entry rt admin i ip =
     seq_p (requireStatus i [EN_CANDIDATE, EN_UNDER_REVIEW, EN_APPROVED])
     (bind_p (set_entry rt i rejected_entry) (\<lambda>updated.
      seq_p (markQueueComplete i admin ''REJECTED'')
      (seq_p (append_evidence rt (registry_event updated admin ''ADMIN'' ''REGISTRY_REJECTED''
         ''Registry entry rejected'' ip))
      (ret updated))))"

section \<open>The log is respected\<close>

lemma registry_event_storable [simp]: "storable (in_metadata (registry_event e a r t d ip))"
  by (simp add: registry_event_def)

lemma search_safe: "moves (log_safe rt') (search_registry rt q)"
  unfolding search_registry_def search_rows_def Let_def
  by (intro through_cache_safe safe_rules)

lemmas safe_language_safe =
  step_preorder.safe_language_moves [OF safe.step_preorder_axioms]

lemma createCandidate_safe: "moves (log_safe rt) (createCandidate rt reviewer dto ip)"
  unfolding createCandidate_def
  by (auto simp: log_untouched intro!: safe_rules append_safe safe_language_safe)

lemmas entry_safe_rules = safe_rules append_safe cache_safe publish_safe tryAutomate_safe

lemma entry_ops_safe:
  "moves (log_safe rt) (approve_entry rt admin i ip)"
  "moves (log_safe rt) (publish_entry rt web admin i ip)"
  "moves (log_safe rt) (unpublish_entry rt web admin i ip)"
  "moves (log_safe rt) (reject_entry rt admin i ip)"
  unfolding approve_entry_def publish_entry_def unpublish_entry_def reject_entry_def
    requireStatus_def set_entry_def markQueueComplete_def invalidateSearchCache_def notifyPartner_def
    Let_def
  by (auto simp: log_untouched intro!: entry_safe_rules)

section \<open>What the operations do\<close>

text \<open>A reading of the state that the partner's webhook and the takedown automation leave alone.\<close>

locale published_view = unhooked f for f :: "'a registry_db_scheme \<Rightarrow> 'b" +
  assumes ignores_publication:
    "f (evidence_events_update ge w) = f w" "f (takedowns_update gt w) = f w"
begin

lemma append_same: "moves (\<lambda>w w'. f w' = f w) (append_evidence rt input)"
  unfolding append_evidence_def Let_def
  by (intro same.moves_rules same.table_moves)
     (simp_all add: moves_def draw_defs insert_row_def ignores_hooks ignores_publication split: option.split)

lemma automate_same: "moves (\<lambda>w w'. f w' = f w) (tryAutomate rt web e)"
  unfolding tryAutomate_def draft_from_def new_id_def now_def Let_def
  by (auto simp: ignores_publication split: option.split list.split
      intro!: same.moves_rules same.table_moves append_same draw_same)

lemma partner_same: "moves (\<lambda>w w'. f w' = f w) (notifyPartner rt web e ev)"
  unfolding notifyPartner_def Let_def by (intro same.moves_rules same.table_moves publish_same)

end

interpretation entries_published: published_view "\<lambda>w. (registry_entries w, signals w, process_cache w)"
  by unfold_locales simp_all

definition beside :: "('a registry_db_scheme) \<Rightarrow> ('a registry_db_scheme) \<Rightarrow> bool" where
  "beside w w' \<longleftrightarrow> log_extends w w' \<and>
     (registry_entries w', signals w', process_cache w') = (registry_entries w, signals w, process_cache w)"

interpretation beside: step_preorder beside
  by unfold_locales (auto simp: beside_def intro: log.trans simp: log.refl)

lemma log_moves: "moves (log_safe rt) m \<Longrightarrow> moves log_extends m"
  by (auto simp: moves_def log_safe_def)

lemma besides:
  "moves beside (append_evidence rt input)" "moves beside (notifyPartner rt web e ev)"
  "moves beside (tryAutomate rt web e)"
proof -
  have "moves (log_safe rt) (notifyPartner rt web e ev)"
    unfolding notifyPartner_def Let_def by (intro safe_rules publish_safe)
  from log_moves [OF this] entries_published.partner_same
  show "moves beside (notifyPartner rt web e ev)" unfolding moves_def beside_def by blast
  from log_moves [OF tryAutomate_safe] entries_published.automate_same
  show "moves beside (tryAutomate rt web e)" unfolding moves_def beside_def by blast
  from append_extends entries_published.append_same
  show "moves beside (append_evidence rt input)" unfolding moves_def beside_def by blast
qed

text \<open>The log has an event of a type on an entity; it stays there.\<close>

definition logged :: "string \<Rightarrow> string \<Rightarrow> ('a core_db_scheme) \<Rightarrow> bool" where
  "logged evtype i w \<longleftrightarrow> (\<exists>e\<in>set (evidence_events w). ev_eventType e = evtype \<and> ev_entityId e = i)"

lemma logged_extends: "log_extends w w' \<Longrightarrow> logged evtype i w \<Longrightarrow> logged evtype i w'"
  by (auto simp: logged_def log_extends_def dest: set_mono_prefix)

lemma logged_cache [simp]: "logged evtype i (process_cache_update f w) \<longleftrightarrow> logged evtype i w"
  by (simp add: logged_def)

text \<open>One entry was changed by \<open>f\<close> and the change is in the log.\<close>

definition moved ::
    "string \<Rightarrow> (int \<Rightarrow> registry_entry \<Rightarrow> registry_entry) \<Rightarrow> string \<Rightarrow> ('a registry_db_scheme) \<Rightarrow>
     registry_entry \<Rightarrow> ('a registry_db_scheme) \<Rightarrow> bool" where
  "moved i f evtype w r w' \<longleftrightarrow>
     (\<exists>t u. registry_entries w' =
        map (\<lambda>e. if re_id e = i then (f t e)\<lparr>re_updatedAt := u\<rparr> else e) (registry_entries w)) \<and>
     find (\<lambda>e. re_id e = i) (registry_entries w') = Some r \<and>
     signals w' = signals w \<and> log_extends w w' \<and> logged evtype i w'"

definition swept :: "string \<Rightarrow> ('a registry_db_scheme) \<Rightarrow> ('a registry_db_scheme) \<Rightarrow> bool" where
  "swept p w w' \<longleftrightarrow> process_cache w' = snd (cache_deletePrefix p (process_cache w))"

lemma stamped_logged:
  "logged evtype i (evidence_events_update (\<lambda>es. es @ [stamped rt (registry_event e a role evtype d ip) v]) w)
     \<longleftrightarrow> logged evtype i w \<or> i = re_id e"
  by (auto simp: logged_def registry_event_def admin_event_def user_event_def)

lemma allowed_runs:
  assumes "find (\<lambda>e. re_id e = i) (registry_entries w) = Some e" "re_status e \<in> set allowed"
  shows "runs (requireStatus i allowed) w Q \<longleftrightarrow> Q e w"
  using assms by (simp add: requireStatus_def run_simps)

lemma refused:
  assumes "\<not> (\<exists>e. find (\<lambda>e. re_id e = i) (registry_entries w) = Some e \<and> re_status e \<in> set allowed)"
  shows "raises (requireStatus i allowed) w (\<lambda>_ w'. w' = w)"
  using assms
  by (cases "find (\<lambda>e. re_id e = i) (registry_entries w)") (auto simp: requireStatus_def run_simps)

definition keeps_id :: "(int \<Rightarrow> registry_entry \<Rightarrow> registry_entry) \<Rightarrow> bool" where
  "keeps_id f \<longleftrightarrow> (\<forall>t e. re_id (f t e) = re_id e)"

lemma entry_updates_keep_id [simp]:
  "keeps_id (approved_entry admin)" "keeps_id published_entry" "keeps_id unpublished_entry"
  "keeps_id rejected_entry"
  by (simp_all add: keeps_id_def approved_entry_def published_entry_def unpublished_entry_def
      rejected_entry_def)

lemma set_entry_runs:
  assumes "find (\<lambda>e. re_id e = i) (registry_entries w) = Some e" "keeps_id f"
    "\<And>t u w'. registry_entries w' =
        map (\<lambda>e. if re_id e = i then (f t e)\<lparr>re_updatedAt := u\<rparr> else e) (registry_entries w) \<Longrightarrow>
      signals w' = signals w \<Longrightarrow> evidence_events w' = evidence_events w \<Longrightarrow>
      process_cache w' = process_cache w \<Longrightarrow> Q ((f t e)\<lparr>re_updatedAt := u\<rparr>) w'"
  shows "runs (set_entry rt i f) w Q"
  using assms(1,3) by (simp add: set_entry_def run_simps)

lemma moved_found:
  assumes "find (\<lambda>e. re_id e = i) (registry_entries w) = Some e" "keeps_id f"
  shows "find (\<lambda>e. re_id e = i) (map (\<lambda>e. if re_id e = i then (f t e)\<lparr>re_updatedAt := u\<rparr> else e)
    (registry_entries w)) = Some ((f t e)\<lparr>re_updatedAt := u\<rparr>)"
  using assms(2) by (intro find_mapped [OF assms(1)]) (simp add: keeps_id_def)

lemma id_of_found:
  "find (\<lambda>e. re_id e = i) es = Some e \<Longrightarrow> keeps_id f \<Longrightarrow> re_id ((f t e)\<lparr>re_updatedAt := u\<rparr>) = i"
  by (auto simp: keeps_id_def dest: find_SomeD)

lemma approve_moves:
  assumes "find (\<lambda>e. re_id e = i) (registry_entries w) = Some e"
    "re_status e \<in> {EN_CANDIDATE, EN_UNDER_REVIEW}"
  shows "runs (approve_entry rt admin i ip) w (\<lambda>r w'.
    moved i (approved_entry admin) ''REGISTRY_APPROVED'' w r w' \<and> process_cache w' = process_cache w)"
proof -
  note found = moved_found [OF assms(1), of "approved_entry admin"]
  note id' = id_of_found [OF assms(1), of "approved_entry admin"]
  show ?thesis
    unfolding approve_entry_def runs_seq runs_bind
    by (subst allowed_runs [OF assms(1)])
       (use assms(2) in \<open>auto intro!: set_entry_runs [OF assms(1)] simp: markQueueComplete_def run_simps
          runs_stamped moved_def stamped_logged found id' log_extends_def\<close>)
qed

lemma reject_moves:
  assumes "find (\<lambda>e. re_id e = i) (registry_entries w) = Some e"
    "re_status e \<in> {EN_CANDIDATE, EN_UNDER_REVIEW, EN_APPROVED}"
  shows "runs (reject_entry rt admin i ip) w (\<lambda>r w'.
    moved i rejected_entry ''REGISTRY_REJECTED'' w r w' \<and> process_cache w' = process_cache w)"
proof -
  note found = moved_found [OF assms(1), of "rejected_entry"]
  note id' = id_of_found [OF assms(1), of "rejected_entry"]
  show ?thesis
    unfolding reject_entry_def runs_seq runs_bind
    by (subst allowed_runs [OF assms(1)])
       (use assms(2) in \<open>auto intro!: set_entry_runs [OF assms(1)] simp: markQueueComplete_def run_simps
          runs_stamped moved_def stamped_logged found id' log_extends_def\<close>)
qed

lemma publication_steps:
  "runs (notifyPartner rt web e ev) w (\<lambda>_ w'. beside w w')"
  "runs (attempt (tryAutomate rt web e)) w (\<lambda>_ w'. beside w w')"
proof -
  have "moves beside (bind_p (find_row signals (\<lambda>s. re_sourceSignalId e = Some (ss_id s))) (\<lambda>source.
      let tenantId = (case source of None \<Rightarrow> None | Some s \<Rightarrow> ss_tenantId s) in
      when_p (truthy tenantId) (publish_event rt web ev tenantId (hook_payload e))))"
  proof -
    have "moves beside (publish_event rt web ev t d)" for t d
      using log_moves [OF publish_safe] entries_published.publish_same
      unfolding moves_def beside_def by blast
    then show ?thesis unfolding Let_def by (intro beside.moves_rules beside.table_moves)
  qed
  then show "runs (notifyPartner rt web e ev) w (\<lambda>_ w'. beside w w')"
    unfolding notifyPartner_def by (auto simp: runs_basic beside.refl intro: runs_attempt)
  show "runs (attempt (tryAutomate rt web e)) w (\<lambda>_ w'. beside w w')"
    by (rule runs_attempt [OF besides(3)])
qed

lemma moved_beside:
  "moved i f evtype w r v \<Longrightarrow> beside v v' \<Longrightarrow> moved i f evtype w r v'"
  by (auto simp: moved_def beside_def intro: log.trans logged_extends)

lemma publish_moves:
  assumes "find (\<lambda>e. re_id e = i) (registry_entries w) = Some e" "re_status e = EN_APPROVED"
  shows "runs (publish_entry rt web admin i ip) w (\<lambda>r w'.
    moved i published_entry ''REGISTRY_PUBLISHED'' w r w' \<and> swept SEARCH_CACHE_PREFIX w w')"
proof -
  note found = moved_found [OF assms(1), of published_entry]
  note id' = id_of_found [OF assms(1), of published_entry]
  have rest: "runs (notifyPartner rt web r REGISTRY_PUBLISHED) v (\<lambda>_ v1.
      runs (attempt (tryAutomate rt web r)) v1 (\<lambda>_ v2. runs (ret r) v2 (\<lambda>r w'.
      moved i published_entry ''REGISTRY_PUBLISHED'' w r w' \<and> swept SEARCH_CACHE_PREFIX w w')))"
    if m: "moved i published_entry ''REGISTRY_PUBLISHED'' w r v" and c: "swept SEARCH_CACHE_PREFIX w v" for r v
  proof (rule runs_mono [OF publication_steps(1)], rule runs_mono [OF publication_steps(2)])
    fix v1 v2 assume "beside v v1" "beside v1 v2"
    then have "beside v v2" by (rule beside.trans)
    then show "runs (ret r) v2 (\<lambda>r w'.
        moved i published_entry ''REGISTRY_PUBLISHED'' w r w' \<and> swept SEARCH_CACHE_PREFIX w w')"
      using moved_beside [OF m] c by (simp add: runs_basic swept_def beside_def)
  qed
  show ?thesis
    unfolding publish_entry_def runs_seq runs_bind invalidateSearchCache_def
  proof (subst allowed_runs [OF assms(1)], simp add: assms(2), rule set_entry_runs [OF assms(1)], simp)
    fix t u and v :: "'a registry_db_scheme"
    let ?r = "(published_entry t e)\<lparr>re_updatedAt := u\<rparr>"
    assume v: "registry_entries v = map (\<lambda>e. if re_id e = i then (published_entry t e)\<lparr>re_updatedAt := u\<rparr>
        else e) (registry_entries w)" "signals v = signals w" "evidence_events v = evidence_events w"
      "process_cache v = process_cache w"
    show "runs (append_evidence rt (registry_event ?r admin ''ADMIN'' ''REGISTRY_PUBLISHED''
        ''Registry entry published to the public registry'' ip)) v (\<lambda>_ v. runs (sweep_cache SEARCH_CACHE_PREFIX) v (\<lambda>_ v.
        runs (notifyPartner rt web ?r REGISTRY_PUBLISHED) v (\<lambda>_ v1. runs (attempt (tryAutomate rt web ?r)) v1 (\<lambda>_ v2. runs (ret ?r) v2 (\<lambda>r w'. moved i published_entry ''REGISTRY_PUBLISHED'' w r w' \<and> swept SEARCH_CACHE_PREFIX w w')))))"
      unfolding runs_stamped runs_cache Let_def case_prod_beta
      by (rule rest) (use v in \<open>auto simp: moved_def swept_def found id' stamped_logged log_extends_def\<close>)
  qed
qed

lemma unpublish_moves:
  assumes "find (\<lambda>e. re_id e = i) (registry_entries w) = Some e" "re_status e = EN_PUBLISHED"
  shows "runs (unpublish_entry rt web admin i ip) w (\<lambda>r w'.
    moved i unpublished_entry ''REGISTRY_UNPUBLISHED'' w r w' \<and> swept SEARCH_CACHE_PREFIX w w')"
proof -
  note found = moved_found [OF assms(1), of unpublished_entry]
  note id' = id_of_found [OF assms(1), of unpublished_entry]
  have rest: "runs (notifyPartner rt web r REGISTRY_UNPUBLISHED) v (\<lambda>_ v1.
      runs (ret r) v1 (\<lambda>r w'. moved i unpublished_entry ''REGISTRY_UNPUBLISHED'' w r w' \<and>
        swept SEARCH_CACHE_PREFIX w w'))"
    if m: "moved i unpublished_entry ''REGISTRY_UNPUBLISHED'' w r v" and c: "swept SEARCH_CACHE_PREFIX w v" for r v
    by (rule runs_mono [OF publication_steps(1)])
       (use moved_beside [OF m] c in \<open>simp add: runs_basic swept_def beside_def\<close>)
  show ?thesis
    unfolding unpublish_entry_def runs_seq runs_bind invalidateSearchCache_def
  proof (subst allowed_runs [OF assms(1)], simp add: assms(2), rule set_entry_runs [OF assms(1)], simp)
    fix t u and v :: "'a registry_db_scheme"
    let ?r = "(unpublished_entry t e)\<lparr>re_updatedAt := u\<rparr>"
    assume v: "registry_entries v = map (\<lambda>e. if re_id e = i then (unpublished_entry t e)\<lparr>re_updatedAt := u\<rparr>
        else e) (registry_entries w)" "signals v = signals w" "evidence_events v = evidence_events w"
      "process_cache v = process_cache w"
    show "runs (append_evidence rt (registry_event ?r admin ''ADMIN'' ''REGISTRY_UNPUBLISHED''
        ''Registry entry removed from the public registry'' ip)) v (\<lambda>_ v. runs (sweep_cache SEARCH_CACHE_PREFIX) v (\<lambda>_ v.
        runs (notifyPartner rt web ?r REGISTRY_UNPUBLISHED) v (\<lambda>_ v1. runs (ret ?r) v1 (\<lambda>r w'. moved i unpublished_entry ''REGISTRY_UNPUBLISHED'' w r w' \<and> swept SEARCH_CACHE_PREFIX w w'))))"
      unfolding runs_stamped runs_cache Let_def case_prod_beta
      by (rule rest) (use v in \<open>auto simp: moved_def swept_def found id' stamped_logged log_extends_def\<close>)
  qed
qed

text \<open>A candidate is created from a verified signal with public-safe text, or nothing happens.\<close>

definition candidate_of :: "('a registry_db_scheme) \<Rightarrow> candidate_dto \<Rightarrow> registry_entry \<Rightarrow> bool" where
  "candidate_of w dto e \<longleftrightarrow> re_status e = EN_CANDIDATE \<and> re_publicSafeSummary e = cn_publicSafeSummary dto \<and>
     re_recommendedAction e = cn_recommendedAction dto \<and> public_safe (cn_publicSafeSummary dto) \<and>
     (truthy (cn_recommendedAction dto) \<longrightarrow> public_safe (or_default (cn_recommendedAction dto) [])) \<and>
     (\<exists>s\<in>set (signals w). ss_status s = VERIFIED_SCAM_INTELLIGENCE \<and> re_sourceSignalId e = Some (ss_id s)) \<and>
     (\<forall>q\<in>set (registry_entries w). re_sourceSignalId q \<noteq> re_sourceSignalId e)"

lemma create_outcome:
  "ends (createCandidate rt reviewer dto ip) w (\<lambda>r w'. case r of
      Inl _ \<Rightarrow> w' = w
    | Inr e \<Rightarrow> candidate_of w dto e \<and> re_id e = rt_uuid rt (db_tick w) \<and>
        registry_entries w' = registry_entries w @ [e] \<and> signals w' = signals w \<and>
        process_cache w' = process_cache w \<and> log_extends w w' \<and>
        logged ''REGISTRY_CANDIDATE_CREATED'' (re_id e) w')"
proof (cases "raises (createCandidate rt reviewer dto ip) w (\<lambda>_ w'. w' = w)")
  case True
  then show ?thesis by (simp add: ends_iff)
next
  case False
  have "runs (createCandidate rt reviewer dto ip) w (\<lambda>_ _. True) \<or>
      raises (createCandidate rt reviewer dto ip) w (\<lambda>_ _. True)"
    by (rule runs_or_raises)
  then have "runs (createCandidate rt reviewer dto ip) w (\<lambda>_ _. True)"
    using False by (auto simp: createCandidate_def run_simps runs_stamped split: option.splits)
  then have "runs (createCandidate rt reviewer dto ip) w (\<lambda>e w'.
      candidate_of w dto e \<and> re_id e = rt_uuid rt (db_tick w) \<and>
        registry_entries w' = registry_entries w @ [e] \<and> signals w' = signals w \<and>
        process_cache w' = process_cache w \<and> log_extends w w' \<and>
        logged ''REGISTRY_CANDIDATE_CREATED'' (re_id e) w')"
    by (auto simp: createCandidate_def run_simps runs_stamped new_entry_def candidate_of_def
        stamped_logged log_extends_def find_None_iff dest!: find_SomeD split: option.splits)
  then show ?thesis by (simp add: ends_iff)
qed

section \<open>The lifecycle\<close>

text \<open>
  The abstract machine: each entry has a status, and a command moves it along one transition or
  is refused. Publication needs an approval, and a rejection is final.
\<close>

datatype registry_command = Approve | Publish | Unpublish | Reject

fun command_from :: "registry_command \<Rightarrow> entry_status list" where
  "command_from Approve = [EN_CANDIDATE, EN_UNDER_REVIEW]"
| "command_from Publish = [EN_APPROVED]"
| "command_from Unpublish = [EN_PUBLISHED]"
| "command_from Reject = [EN_CANDIDATE, EN_UNDER_REVIEW, EN_APPROVED]"

fun command_to :: "registry_command \<Rightarrow> entry_status" where
  "command_to Approve = EN_APPROVED"
| "command_to Publish = EN_PUBLISHED"
| "command_to Unpublish = EN_APPROVED"
| "command_to Reject = EN_REJECTED"

definition lifecycle_step ::
    "registry_command \<Rightarrow> string \<Rightarrow> (string \<Rightarrow> entry_status option) \<Rightarrow> (string \<Rightarrow> entry_status option) option"
  where
  "lifecycle_step c i v =
     (case v i of
        None \<Rightarrow> None
      | Some st \<Rightarrow> if st \<in> set (command_from c) then Some (v(i \<mapsto> command_to c)) else None)"

definition lifecycle_of :: "('a registry_db_scheme) \<Rightarrow> string \<Rightarrow> entry_status option" where
  "lifecycle_of w i = map_option re_status (find (\<lambda>e. re_id e = i) (registry_entries w))"

fun exec_command ::
    "runtime \<Rightarrow> web_services \<Rightarrow> auth_user \<Rightarrow> registry_command \<Rightarrow> string \<Rightarrow> string option \<Rightarrow>
     ('a registry_db_scheme, registry_entry) prog" where
  "exec_command rt web admin Approve i ip = approve_entry rt admin i ip"
| "exec_command rt web admin Publish i ip = publish_entry rt web admin i ip"
| "exec_command rt web admin Unpublish i ip = unpublish_entry rt web admin i ip"
| "exec_command rt web admin Reject i ip = reject_entry rt admin i ip"

lemma find_other:
  "keeps_id f \<Longrightarrow> j \<noteq> i \<Longrightarrow>
   find (\<lambda>e. re_id e = j) (map (\<lambda>e. if re_id e = i then (f t e)\<lparr>re_updatedAt := u\<rparr> else e) es) =
   find (\<lambda>e. re_id e = j) es"
  by (induction es) (auto simp: keeps_id_def)

lemma moved_status:
  assumes "moved i f evtype w r w'" "\<And>t e. re_status (f t e) = st"
  shows "re_status r = st"
proof -
  obtain t u where "registry_entries w' =
      map (\<lambda>e. if re_id e = i then (f t e)\<lparr>re_updatedAt := u\<rparr> else e) (registry_entries w)"
    using assms(1) unfolding moved_def by blast
  moreover have "r \<in> set (registry_entries w')" "re_id r = i"
    using assms(1) by (auto simp: moved_def dest: find_SomeD)
  ultimately show ?thesis using assms(2) by (auto split: if_splits)
qed

lemma moved_lifecycle:
  assumes "moved i f evtype w r w'" "keeps_id f" "\<And>t e. re_status (f t e) = st"
  shows "re_status r = st \<and> lifecycle_of w' = (lifecycle_of w)(i \<mapsto> st)"
  using assms(1) moved_status [OF assms(1,3)] find_other [OF assms(2)]
  by (auto simp: moved_def lifecycle_of_def fun_eq_iff)

lemma command_runs:
  assumes "find (\<lambda>e. re_id e = i) (registry_entries w) = Some e" "re_status e \<in> set (command_from c)"
  shows "runs (exec_command rt web admin c i ip) w (\<lambda>r w'.
    re_status r = command_to c \<and> lifecycle_of w' = (lifecycle_of w)(i \<mapsto> command_to c))"
proof (cases c)
  case Approve
  show ?thesis
    unfolding Approve exec_command.simps command_to.simps
    by (rule runs_mono [OF approve_moves [OF assms(1)]])
       (use assms(2) Approve in \<open>auto simp: approved_entry_def dest!: moved_lifecycle [OF _ entry_updates_keep_id(1)]\<close>)
next
  case Publish
  show ?thesis
    unfolding Publish exec_command.simps command_to.simps
    by (rule runs_mono [OF publish_moves [OF assms(1)]])
       (use assms(2) Publish in \<open>auto simp: published_entry_def dest!: moved_lifecycle [OF _ entry_updates_keep_id(2)]\<close>)
next
  case Unpublish
  show ?thesis
    unfolding Unpublish exec_command.simps command_to.simps
    by (rule runs_mono [OF unpublish_moves [OF assms(1)]])
       (use assms(2) Unpublish in \<open>auto simp: unpublished_entry_def dest!: moved_lifecycle [OF _ entry_updates_keep_id(3)]\<close>)
next
  case Reject
  show ?thesis
    unfolding Reject exec_command.simps command_to.simps
    by (rule runs_mono [OF reject_moves [OF assms(1)]])
       (use assms(2) Reject in \<open>auto simp: rejected_entry_def dest!: moved_lifecycle [OF _ entry_updates_keep_id(4)]\<close>)
qed

lemma command_refused:
  assumes "\<not> (\<exists>e. find (\<lambda>e. re_id e = i) (registry_entries w) = Some e \<and> re_status e \<in> set (command_from c))"
  shows "raises (exec_command rt web admin c i ip) w (\<lambda>_ w'. w' = w)"
  using assms
  by (cases c) (auto simp: approve_entry_def publish_entry_def unpublish_entry_def reject_entry_def
      raises_seq intro!: refused disjI1)

text \<open>
  C5. The service implements the abstract lifecycle of the registry: a command of an
  administrator succeeds exactly when the abstract machine accepts it, the statuses of all
  entries are afterwards those the machine computes (the one entry moved, every other as it
  was), and a command the machine refuses leaves the whole state as it was. So an entry is
  published only from an approval, and a rejected entry never comes back.
\<close>

theorem registry_refines_lifecycle:
  "ends (exec_command rt web admin c i ip) w (\<lambda>r w'.
    case lifecycle_step c i (lifecycle_of w) of
      None \<Rightarrow> isl r \<and> w' = w
    | Some v \<Rightarrow> \<not> isl r \<and> re_status (projr r) = command_to c \<and> lifecycle_of w' = v)"
proof (cases "\<exists>e. find (\<lambda>e. re_id e = i) (registry_entries w) = Some e \<and> re_status e \<in> set (command_from c)")
  case True
  then obtain e where e: "find (\<lambda>e. re_id e = i) (registry_entries w) = Some e"
    "re_status e \<in> set (command_from c)" by blast
  then show ?thesis
    by (intro ends_runs [OF command_runs [OF e]]) (simp add: lifecycle_step_def lifecycle_of_def)
next
  case False
  have "lifecycle_step c i (lifecycle_of w) = None"
    using False by (cases "find (\<lambda>e. re_id e = i) (registry_entries w)")
      (auto simp: lifecycle_step_def lifecycle_of_def)
  then show ?thesis using command_refused [OF False, of rt web admin ip] by (simp add: ends_iff)
qed

end
