(* ===== verification/RegistryAppeal.thy ===== *)
theory RegistryAppeal
  imports Registry
begin

text \<open>
  Corrections and appeals against published entries (modules/registry/registry-appeal.service.ts):
  anyone may file one, a compliance decision settles it, and only an accepted appeal may take
  the entry off the public registry.
\<close>

definition APPEAL_ACK :: string where
  "APPEAL_ACK = ''Appeal received. A VIGISCAM compliance reviewer will assess it. The registry entry is unchanged until a decision is made.''"

record appeal_dto =
  ap_appealType :: appeal_type
  ap_submitterName :: string
  ap_submitterEmail :: string
  ap_submitterRelationship :: "string option"
  ap_reason :: string
  ap_requestedChange :: "string option"

record appeal_receipt =
  rc_status :: string
  rc_message :: string
  rc_appealId :: string

definition new_appeal :: "appeal_dto \<Rightarrow> string \<Rightarrow> string \<Rightarrow> int \<Rightarrow> registry_appeal" where
  "new_appeal dto entryId uid t =
     \<lparr>ra_id = uid, ra_registryEntryId = entryId, ra_appealType = ap_appealType dto,
      ra_status = AP_SUBMITTED, ra_submitterName = ap_submitterName dto,
      ra_submitterEmail = ap_submitterEmail dto,
      ra_submitterRelationship = ap_submitterRelationship dto, ra_reason = ap_reason dto,
      ra_requestedChange = ap_requestedChange dto, ra_reviewedByUserId = None,
      ra_reviewedAt = None, ra_reviewNotes = None, ra_resolutionAction = None, ra_createdAt = t\<rparr>"

definition appeal_filed :: "appeal_dto \<Rightarrow> string \<Rightarrow> string \<Rightarrow> string option \<Rightarrow> append_input" where
  "appeal_filed dto appealId entryId ip =
     \<lparr>in_tenantId = None, in_actorId = None, in_actorType = Some ''PUBLIC'',
      in_entityType = ''REGISTRY_APPEAL'', in_entityId = appealId,
      in_eventType = ''REGISTRY_APPEAL_FILED'',
      in_eventDescription = ''Appeal ('' @ appeal_type_text (ap_appealType dto) @
        '') filed against a published registry entry'',
      in_metadata = JObj [(''registryEntryId'', JStr entryId),
        (''appealType'', JStr (appeal_type_text (ap_appealType dto)))],
      in_ipAddress = ip, in_deviceId = None\<rparr>"

definition fileAppeal ::
    "runtime \<Rightarrow> string \<Rightarrow> appeal_dto \<Rightarrow> string option \<Rightarrow> ('a registry_db_scheme, appeal_receipt) prog"
  where
  "fileAppeal rt entryId dto ip =
     bind_p (find_row registry_entries (\<lambda>e. re_id e = entryId \<and> re_status e = EN_PUBLISHED)) (\<lambda>found.
     bind_p (require_some found (NotFoundException ''Registry entry not found'')) (\<lambda>e.
     bind_p (new_id rt) (\<lambda>uid. bind_p (now rt) (\<lambda>t.
     bind_p (insert_row appeals_update (new_appeal dto (re_id e) uid t)) (\<lambda>a.
     seq_p (append_evidence rt (appeal_filed dto (ra_id a) (re_id e) ip))
     (ret \<lparr>rc_status = ''APPEAL_RECEIVED'', rc_message = APPEAL_ACK, rc_appealId = ra_id a\<rparr>))))))"

definition appeal_statuses :: "(string \<times> appeal_status) list" where
  "appeal_statuses = map (\<lambda>s. (appeal_status_text s, s))
     [AP_SUBMITTED, AP_UNDER_REVIEW, AP_ACCEPTED, AP_REJECTED]"

definition listAppeals :: "string option \<Rightarrow> ('a registry_db_scheme, registry_appeal list) prog" where
  "listAppeals status =
     (let st = map_of appeal_statuses (or_default status []) in
      bind_p (find_rows appeals (\<lambda>a. st \<noteq> None \<longrightarrow> st = Some (ra_status a))) (\<lambda>rows.
      ret (take 200 (order_desc ra_createdAt rows))))"

definition getAppeal ::
    "string \<Rightarrow> ('a registry_db_scheme, registry_appeal \<times> registry_entry option) prog" where
  "getAppeal i =
     bind_p (find_row appeals (\<lambda>a. ra_id a = i)) (\<lambda>found.
     bind_p (require_some found (NotFoundException ''Registry appeal not found'')) (\<lambda>a.
     bind_p (find_row registry_entries (\<lambda>e. re_id e = ra_registryEntryId a)) (\<lambda>e.
     ret (a, e))))"

definition requireAppeal ::
    "string \<Rightarrow> appeal_status list \<Rightarrow> ('a registry_db_scheme, registry_appeal) prog" where
  "requireAppeal i allowed =
     bind_p (find_row appeals (\<lambda>a. ra_id a = i)) (\<lambda>found.
     bind_p (require_some found (NotFoundException ''Registry appeal not found'')) (\<lambda>a.
     seq_p (ensure (ra_status a \<in> set allowed) (BadRequestException
       (''Appeal status is '' @ appeal_status_text (ra_status a) @ ''; this action requires '' @
        join_with '' or '' (map appeal_status_text allowed))))
     (ret a)))"

definition appeal_event ::
    "registry_appeal \<Rightarrow> auth_user \<Rightarrow> string \<Rightarrow> string \<Rightarrow> string \<Rightarrow> string option \<Rightarrow> append_input" where
  "appeal_event a actor role evtype descr ip =
     admin_event None (au_userId actor) role ''REGISTRY_APPEAL'' (ra_id a) evtype descr
       (JObj [(''status'', JStr (appeal_status_text (ra_status a))),
         (''appealType'', JStr (appeal_type_text (ra_appealType a))),
         (''registryEntryId'', JStr (ra_registryEntryId a))]) ip"

definition taken_under_review :: "auth_user \<Rightarrow> registry_appeal \<Rightarrow> registry_appeal" where
  "taken_under_review reviewer a =
     a\<lparr>ra_status := AP_UNDER_REVIEW, ra_reviewedByUserId := Some (au_userId reviewer)\<rparr>"

definition startReview ::
    "runtime \<Rightarrow> auth_user \<Rightarrow> string \<Rightarrow> string option \<Rightarrow> ('a registry_db_scheme, registry_appeal) prog"
  where
  "startReview rt reviewer i ip =
     bind_p (requireAppeal i [AP_SUBMITTED]) (\<lambda>a.
     bind_p (update_row appeals appeals_update (\<lambda>q. ra_id q = ra_id a) (taken_under_review reviewer))
       (\<lambda>updated.
     seq_p (append_evidence rt (appeal_event updated reviewer ''REVIEWER''
       ''REGISTRY_APPEAL_UNDER_REVIEW'' ''Registry appeal taken under review'' ip))
     (ret updated)))"

record appeal_decision =
  dn_accepted :: bool
  dn_reviewNotes :: string
  dn_resolutionAction :: "string option"
  dn_unpublishEntry :: bool

definition decided_appeal :: "auth_user \<Rightarrow> appeal_decision \<Rightarrow> int \<Rightarrow> registry_appeal \<Rightarrow> registry_appeal" where
  "decided_appeal admin dto t a =
     a\<lparr>ra_status := (if dn_accepted dto then AP_ACCEPTED else AP_REJECTED),
       ra_reviewedByUserId := Some (au_userId admin), ra_reviewedAt := Some t,
       ra_reviewNotes := Some (dn_reviewNotes dto),
       ra_resolutionAction := or_else (dn_resolutionAction dto) (ra_resolutionAction a)\<rparr>"

text \<open>An accepted appeal that asks for it takes the entry off, when it is published.\<close>

definition remove_contested ::
    "runtime \<Rightarrow> web_services \<Rightarrow> auth_user \<Rightarrow> string \<Rightarrow> string option \<Rightarrow> ('a registry_db_scheme, unit) prog"
  where
  "remove_contested rt web admin entryId ip =
     bind_p (find_row registry_entries (\<lambda>e. re_id e = entryId)) (\<lambda>found.
     case found of
       None \<Rightarrow> ret ()
     | Some e \<Rightarrow> when_p (re_status e = EN_PUBLISHED)
         (void_p (unpublish_entry rt web admin (re_id e) ip)))"

definition decideAppeal ::
    "runtime \<Rightarrow> web_services \<Rightarrow> auth_user \<Rightarrow> string \<Rightarrow> appeal_decision \<Rightarrow> string option \<Rightarrow>
     ('a registry_db_scheme, registry_appeal) prog" where
  "decideAppeal rt web admin i dto ip =
     bind_p (requireAppeal i [AP_SUBMITTED, AP_UNDER_REVIEW]) (\<lambda>a.
     seq_p (when_p (dn_accepted dto \<and> dn_unpublishEntry dto)
       (remove_contested rt web admin (ra_registryEntryId a) ip))
     (bind_p (now rt) (\<lambda>t.
      bind_p (update_row appeals appeals_update (\<lambda>q. ra_id q = ra_id a) (decided_appeal admin dto t))
        (\<lambda>updated.
      seq_p (append_evidence rt (appeal_event updated admin ''COMPLIANCE_OFFICER''
        (if dn_accepted dto then ''REGISTRY_APPEAL_ACCEPTED'' else ''REGISTRY_APPEAL_REJECTED'')
        (if dn_accepted dto then ''Registry appeal accepted by compliance review''
         else ''Registry appeal rejected by compliance review'') ip))
      (ret updated)))))"

section \<open>The log is respected\<close>

lemma appeal_ops_safe:
  "moves (log_safe rt) (fileAppeal rt e dto ip)" "moves (log_safe rt) (startReview rt reviewer i ip)"
  "moves (log_safe rt) (decideAppeal rt web admin i ans ip)"
  unfolding fileAppeal_def startReview_def decideAppeal_def requireAppeal_def remove_contested_def
  by (auto simp: log_untouched appeal_filed_def appeal_event_def
      intro!: safe_rules append_safe entry_ops_safe split: option.split)

section \<open>Properties\<close>

interpretation appeals_published: published_view appeals
  by unfold_locales simp_all

lemma runs_moves: "runs m w Q \<Longrightarrow> moves R m \<Longrightarrow> runs m w (\<lambda>a w'. Q a w' \<and> R w w')"
  by (auto simp: runs_iff moves_def dest: spec [of _ w])

lemma unpublish_appeals: "moves (\<lambda>w w'. appeals w' = appeals w) (unpublish_entry rt web admin i ip)"
  unfolding unpublish_entry_def requireStatus_def set_entry_def invalidateSearchCache_def sweep_cache_def
    now_def
  by (auto intro!: same.moves_rules same.table_moves appeals_published.append_same
      appeals_published.partner_same appeals_published.draw_same split: prod.split)
     (simp_all add: moves_def modify_p_def)

lemma remove_runs:
  "runs (remove_contested rt web admin j ip) w (\<lambda>_ w'. lifecycle_of w' =
     (if lifecycle_of w j = Some EN_PUBLISHED then (lifecycle_of w)(j \<mapsto> EN_APPROVED) else lifecycle_of w) \<and>
     appeals w' = appeals w)"
proof (cases "find (\<lambda>e. re_id e = j) (registry_entries w)")
  case None
  then show ?thesis by (simp add: remove_contested_def run_simps lifecycle_of_def)
next
  case (Some e)
  then have j: "re_id e = j" by (auto dest: find_SomeD)
  show ?thesis
  proof (cases "re_status e = EN_PUBLISHED")
    case True
    have "lifecycle_of w j = Some EN_PUBLISHED" by (simp add: lifecycle_of_def Some True)
    then show ?thesis
      unfolding remove_contested_def runs_bind runs_table Some option.case j True when_p_def runs_void
      by (simp add: runs_void, intro runs_mono [OF runs_moves [OF unpublish_moves [OF Some True] unpublish_appeals]])
         (auto simp: unpublished_entry_def dest!: moved_lifecycle [OF _ entry_updates_keep_id(3)])
  next
    case False
    then show ?thesis by (simp add: remove_contested_def run_simps lifecycle_of_def Some)
  qed
qed

definition appeal_final :: "appeal_status \<Rightarrow> bool" where
  "appeal_final s \<longleftrightarrow> s = AP_ACCEPTED \<or> s = AP_REJECTED"

lemma decided_fields [simp]:
  "ra_id (decided_appeal admin dto t a) = ra_id a"
  "appeal_final (ra_status (decided_appeal admin dto t a))"
  "ra_status (decided_appeal admin dto t a) = (if dn_accepted dto then AP_ACCEPTED else AP_REJECTED)"
  "ra_reviewedByUserId (decided_appeal admin dto t a) = Some (au_userId admin)"
  by (simp_all add: decided_appeal_def appeal_final_def)

text \<open>
  An appeal is decided once: a decision on an open appeal settles it in the officer's name,
  a decision on a settled one is refused without any effect. The registry follows the decision
  and nothing else: the contested entry leaves the public registry exactly when the appeal is
  accepted with that request and the entry is published, and no other entry moves.
\<close>

lemma appeal_decided_once:
  assumes "find (\<lambda>q. ra_id q = i) (appeals w) = Some a"
  shows "ends (decideAppeal rt web admin i dto ip) w (\<lambda>r w'. case r of
      Inl _ \<Rightarrow> w' = w \<and> appeal_final (ra_status a)
    | Inr a' \<Rightarrow> \<not> appeal_final (ra_status a) \<and> appeal_final (ra_status a') \<and>
        (ra_status a' = AP_ACCEPTED \<longleftrightarrow> dn_accepted dto) \<and>
        ra_reviewedByUserId a' = Some (au_userId admin) \<and>
        find (\<lambda>q. ra_id q = i) (appeals w') = Some a' \<and>
        lifecycle_of w' =
          (if dn_accepted dto \<and> dn_unpublishEntry dto \<and>
              lifecycle_of w (ra_registryEntryId a) = Some EN_PUBLISHED
           then (lifecycle_of w)(ra_registryEntryId a \<mapsto> EN_APPROVED) else lifecycle_of w))"
proof (cases "appeal_final (ra_status a)")
  case True
  then have "raises (decideAppeal rt web admin i dto ip) w (\<lambda>_ w'. w' = w)"
    by (auto simp: decideAppeal_def requireAppeal_def run_simps assms appeal_final_def)
  with True show ?thesis by (simp add: ends_iff)
next
  case False
  then have open': "ra_status a \<in> {AP_SUBMITTED, AP_UNDER_REVIEW}"
    by (cases "ra_status a") (simp_all add: appeal_final_def)
  have i: "ra_id a = i" using find_SomeD [OF assms] by simp
  have upd: "find (\<lambda>q. ra_id q = i) (map (\<lambda>q. if ra_id q = i then decided_appeal admin dto t q else q)
      (appeals w)) = Some (decided_appeal admin dto t a)" for t
    by (rule find_mapped [OF assms]) simp
  have rest: "runs (bind_p (now rt) (\<lambda>t.
      bind_p (update_row appeals appeals_update (\<lambda>q. ra_id q = ra_id a) (decided_appeal admin dto t))
        (\<lambda>updated. seq_p (append_evidence rt (ev updated)) (ret updated)))) v
      (\<lambda>a' w'. (\<exists>t. a' = decided_appeal admin dto t a) \<and> lifecycle_of w' = lifecycle_of v \<and>
        find (\<lambda>q. ra_id q = i) (appeals w') = Some a')" if "appeals v = appeals w" for v ev
    by (auto simp: run_simps runs_stamped that i assms upd lifecycle_of_def)
  have removed: "runs (when_p (dn_accepted dto \<and> dn_unpublishEntry dto)
      (remove_contested rt web admin (ra_registryEntryId a) ip)) w (\<lambda>_ v. appeals v = appeals w \<and>
      lifecycle_of v = (if dn_accepted dto \<and> dn_unpublishEntry dto \<and>
              lifecycle_of w (ra_registryEntryId a) = Some EN_PUBLISHED
           then (lifecycle_of w)(ra_registryEntryId a \<mapsto> EN_APPROVED) else lifecycle_of w))"
    by (auto simp: runs_basic intro!: runs_mono [OF remove_runs])
  have req: "runs (requireAppeal i [AP_SUBMITTED, AP_UNDER_REVIEW]) w Q \<longleftrightarrow> Q a w" for Q
    using open' by (auto simp: requireAppeal_def run_simps assms)
  have "runs (decideAppeal rt web admin i dto ip) w (\<lambda>a' w'. (\<exists>t. a' = decided_appeal admin dto t a) \<and>
      find (\<lambda>q. ra_id q = i) (appeals w') = Some a' \<and> lifecycle_of w' =
        (if dn_accepted dto \<and> dn_unpublishEntry dto \<and>
              lifecycle_of w (ra_registryEntryId a) = Some EN_PUBLISHED
           then (lifecycle_of w)(ra_registryEntryId a \<mapsto> EN_APPROVED) else lifecycle_of w))"
    unfolding decideAppeal_def
    by (subst runs_bind, subst req, subst runs_seq, rule runs_mono [OF removed], rule runs_mono [OF rest])
       (auto simp: assms)
  then show ?thesis
    by (rule ends_runs) (use False in \<open>auto simp: appeal_final_def split: if_splits\<close>)
qed

definition demo_appeal :: registry_appeal where
  "demo_appeal = new_appeal \<lparr>ap_appealType = REMOVAL, ap_submitterName = ''Owner'',
     ap_submitterEmail = ''owner@example.org'', ap_submitterRelationship = None,
     ap_reason = ''This address is mine.'', ap_requestedChange = None\<rparr> ''e1'' ''a1'' 0"

lemma appeal_decided_once_witness:
  "ends (decideAppeal demo_rt demo_web demo_user ''a1''
       \<lparr>dn_accepted = True, dn_reviewNotes = ''legitimate'', dn_resolutionAction = None,
        dn_unpublishEntry = True\<rparr> None)
     ((demo_registry [] [])\<lparr>appeals := [demo_appeal]\<rparr>)
     (\<lambda>r w'. \<not> isl r \<and> ra_status (projr r) = AP_ACCEPTED)"
  by (rule ends_mono [OF appeal_decided_once [where a = demo_appeal]])
     (auto simp: demo_appeal_def new_appeal_def appeal_final_def split: sum.splits)

end
