(* ===== verification/PublicSearch.thy ===== *)
theory PublicSearch
  imports Registry
begin

text \<open>
  What a visitor of the public registry can see: the cached search against the registry as it
  stands. The cache is the one of a single process and a search runs to its end; the last section
  looks at a search that is overtaken by an unpublication, and the theory Serving at every other
  interleaving.
\<close>

section \<open>Cached answers\<close>

text \<open>Every item of the answer is the public view of an entry published now.\<close>

definition shows_published :: "('a registry_db_scheme) \<Rightarrow> search_result \<Rightarrow> bool" where
  "shows_published w r \<longleftrightarrow>
     (\<forall>p\<in>set (sr_items r). \<exists>e\<in>set (registry_entries w).
        re_status e = EN_PUBLISHED \<and> p = toPublicRegistryEntry e)"

lemma key_prefix: "starts_with SEARCH_CACHE_PREFIX (search_key q)"
  by (simp add: search_key_def buildCacheKey_def starts_with_def)

lemma in_order_nulls: "set (order_desc_nulls key rs) = set rs"
  by (auto simp: order_desc_nulls_def)

lemma rows_published: "runs (search_rows q) w (\<lambda>r w'. w' = w \<and> shows_published w r)"
  by (auto simp: search_rows_def Let_def run_simps shows_published_def search_where_def in_order_nulls
      dest!: in_set_takeD in_set_dropD)

interpretation searches: cached_answers SEARCH_CACHE_PREFIX search_key CachedSearch as_search
    search_rows shows_published
proof
  fix q and w :: "'a registry_db_scheme"
  show "runs (search_rows q) w (\<lambda>r w'. (\<exists>n. w' = w\<lparr>db_tick := n\<rparr>) \<and> shows_published w r)"
    by (rule runs_mono [OF rows_published]) (auto intro: exI [of _ "db_tick w"])
qed (auto simp: unwrap_iff key_prefix shows_published_def fun_eq_iff)

section \<open>The key forgets the case\<close>

text \<open>
  A search is answered by its key: within the time to live, a query with the same key gets
  the answer the first query was given. The key has the text of the query in lower case, so two
  queries that the registry itself tells apart share one answer.
\<close>

lemma search_answers_by_key:
  assumes "search_key q' = search_key q"
    and "fst (cache_get (search_key q) (rt_clock rt (db_tick w)) (process_cache w)) = None"
    and "rt_clock rt (db_tick w + 2) \<le> rt_clock rt (db_tick w + 1) + SEARCH_CACHE_TTL_MS"
  shows "runs (search_registry rt q) w (\<lambda>r w1. runs (search_rows q) w (\<lambda>r0 _. r = r0) \<and>
    runs (search_registry rt q') w1 (\<lambda>r' _. r' = r))"
proof -
  define r0 where "r0 = (case search_rows q w of (Inr r, _) \<Rightarrow> r)"
  have run: "runs (search_rows q) v Q \<longleftrightarrow> Q r0 v" if "registry_entries v = registry_entries w" for v Q
    by (simp add: runs_def r0_def search_rows_def Let_def find_rows_def ask_def bind_p_def ret_def that)
  have "runs (search_registry rt q) w (\<lambda>r w1. r = r0 \<and>
      runs (through_cache rt (search_key q) as_search CachedSearch SEARCH_CACHE_TTL_MS (search_rows q')) w1
        (\<lambda>r' _. r' = r))"
    unfolding search_registry_def
    by (rule answered_by_key [where n = "db_tick w + 1" and c = "snd (cache_get (search_key q)
        (rt_clock rt (db_tick w)) (process_cache w))"]) (use assms in \<open>simp_all add: run\<close>)
  then show ?thesis
    by (rule runs_mono) (simp add: run search_registry_def [of rt q'] assms(1))
qed

definition demo_entry :: "string \<Rightarrow> indicator_type \<Rightarrow> string \<Rightarrow> registry_entry" where
  "demo_entry i ty v = \<lparr>re_id = i, re_indicatorType = ty, re_indicatorValue = v,
     re_normalizedIndicator = v, re_category = ''OTHER'', re_status = EN_PUBLISHED,
     re_publicStatus = Some VERIFIED_MALICIOUS, re_confidenceScore = 90,
     re_publicSafeSummary = ''High-risk indicator.'', re_recommendedAction = None,
     re_firstSeen = None, re_lastSeen = None, re_evidenceCount = 1,
     re_sourceSignalId = Some ''s1'', re_approvedByUserId = Some ''u1'', re_approvedAt = Some 0,
     re_publishedAt = Some 0, re_updatedAt = 0\<rparr>"

definition wallet_query :: "string \<Rightarrow> search_query" where
  "wallet_query v = \<lparr>sq_q = Some v, sq_type = Some ''CRYPTO_WALLET'', sq_category = None,
     sq_page = None, sq_limit = None\<rparr>"

lemma demo_wallet_rows:
  "runs (search_rows (wallet_query ''1bvbmsey'')) (demo_registry [demo_entry ''e1'' IT_CRYPTO_WALLET ''1BvBMSEY''] [])
     (\<lambda>r _. sr_items r = [])"
  "runs (search_rows (wallet_query ''1BvBMSEY'')) (demo_registry [demo_entry ''e1'' IT_CRYPTO_WALLET ''1BvBMSEY''] [])
     (\<lambda>r _. map pu_id (sr_items r) = [''e1''])"
  "runs (search_rows (wallet_query ''1BvBMSEY'')) (demo_registry [demo_entry ''e1'' IT_CRYPTO_WALLET ''1BvBMSEY''] [])
     (\<lambda>r _. toPublicRegistryEntry (demo_entry ''e1'' IT_CRYPTO_WALLET ''1BvBMSEY'') \<in> set (sr_items r))"
  by (simp_all add: search_rows_def search_where_def wallet_query_def demo_registry_def demo_entry_def
      run_simps Let_def parseType_def truthy_def to_upper_def indicator_types_def indicator_text_def
      normalizeWallet_def starts_with_def search_page_def search_limit_def MAX_PAGE_SIZE_def
      DEFAULT_PAGE_SIZE_def order_desc_nulls_def order_desc_def toPublicRegistryEntry_def text_eval)

text \<open>
  The wallet is published and a direct search finds it; after somebody looked for it in lower
  case, the search for the very address finds nothing.
\<close>

lemma search_answers_by_key_witness:
  "runs (search_registry demo_rt (wallet_query ''1bvbmsey''))
     (demo_registry [demo_entry ''e1'' IT_CRYPTO_WALLET ''1BvBMSEY''] [])
     (\<lambda>_ w1. runs (search_registry demo_rt (wallet_query ''1BvBMSEY'')) w1 (\<lambda>r' _. sr_items r' = [])) \<and>
   runs (search_rows (wallet_query ''1BvBMSEY''))
     (demo_registry [demo_entry ''e1'' IT_CRYPTO_WALLET ''1BvBMSEY''] [])
     (\<lambda>r _. map pu_id (sr_items r) = [''e1''])"
proof -
  have key: "search_key (wallet_query ''1BvBMSEY'') = search_key (wallet_query ''1bvbmsey'')"
    by (simp add: search_key_def wallet_query_def buildCacheKey_def search_page_def search_limit_def text_eval)
  let ?w = "demo_registry [demo_entry ''e1'' IT_CRYPTO_WALLET ''1BvBMSEY''] []"
  have "fst (cache_get (search_key (wallet_query ''1bvbmsey'')) (rt_clock demo_rt (db_tick ?w)) (process_cache ?w)) = None"
    by (simp add: demo_registry_def cache_get_def)
  from search_answers_by_key [OF key this] show ?thesis
    using demo_wallet_rows
    by (auto simp: demo_rt_def SEARCH_CACHE_TTL_MS_def runs_iff)
qed

section \<open>A search overtaken by an unpublication\<close>

text \<open>
  C35. The query of a search and the write of its answer are separate steps, and an unpublication
  may run between them. Its sweep of the cache comes too early: when the search had found the
  entry, the answer written afterwards is served to the next search for its time to live, with the
  entry in it, although the entry has left the public registry.
\<close>

theorem overtaken_search_is_stale:
  assumes "find (\<lambda>e. re_id e = i) (registry_entries w) = Some e" "re_status e = EN_PUBLISHED"
    and "runs (search_rows q) w (\<lambda>r _. toPublicRegistryEntry e \<in> set (sr_items r))"
    and "\<And>n. rt_clock rt (Suc n) \<le> rt_clock rt n + SEARCH_CACHE_TTL_MS"
  shows "runs (search_rows q) w (\<lambda>r w1.
    runs (unpublish_entry rt web admin i ip) w1 (\<lambda>_ w2.
    runs (write_cache rt (search_key q) (CachedSearch r) SEARCH_CACHE_TTL_MS) w2 (\<lambda>_ w3.
    runs (search_registry rt q) w3 (\<lambda>r' w4. toPublicRegistryEntry e \<in> set (sr_items r') \<and>
      lifecycle_of w4 i = Some EN_APPROVED))))"
proof -
  have "runs (search_rows q) w (\<lambda>r :: search_result. \<lambda>w1. w1 = w \<and> toPublicRegistryEntry e \<in> set (sr_items r))"
    using rows_published [of q w] assms(3) by (auto simp: runs_iff)
  then show ?thesis
  proof (rule runs_mono, elim conjE)
    fix r :: search_result and w1 assume w1: "w1 = w" and r: "toPublicRegistryEntry e \<in> set (sr_items r)"
    have hit: "fst (cache_get k (rt_clock rt (Suc n)) (cache_set k (v::cached) SEARCH_CACHE_TTL_MS
        (rt_clock rt n) c)) = Some v" for k v c n
      by (rule get_after_set [OF assms(4)])
    show "runs (unpublish_entry rt web admin i ip) w1 (\<lambda>_ w2.
      runs (write_cache rt (search_key q) (CachedSearch r) SEARCH_CACHE_TTL_MS) w2 (\<lambda>_ w3.
      runs (search_registry rt q) w3 (\<lambda>r' w4. toPublicRegistryEntry e \<in> set (sr_items r') \<and>
        lifecycle_of w4 i = Some EN_APPROVED)))"
      unfolding w1
    proof (rule runs_mono [OF unpublish_moves [OF assms(1,2)]], elim conjE)
      fix r1 w2 assume "moved i unpublished_entry ''REGISTRY_UNPUBLISHED'' w r1 w2"
      from moved_lifecycle [OF this, of EN_APPROVED]
      have "lifecycle_of w2 i = Some EN_APPROVED" by (simp add: unpublished_entry_def)
      then show "runs (write_cache rt (search_key q) (CachedSearch r) SEARCH_CACHE_TTL_MS) w2 (\<lambda>_ w3.
          runs (search_registry rt q) w3 (\<lambda>r' w4. toPublicRegistryEntry e \<in> set (sr_items r') \<and>
            lifecycle_of w4 i = Some EN_APPROVED))"
        by (simp add: search_registry_def through_cache_def run_simps Let_def case_prod_beta hit lifecycle_of_def r)
    qed
  qed
qed

theorem overtaken_search_is_stale_witness:
  "runs (search_rows (wallet_query ''1BvBMSEY''))
     (demo_registry [demo_entry ''e1'' IT_CRYPTO_WALLET ''1BvBMSEY''] []) (\<lambda>r w1.
   runs (unpublish_entry demo_rt demo_web demo_user ''e1'' None) w1 (\<lambda>_ w2.
   runs (write_cache demo_rt (search_key (wallet_query ''1BvBMSEY'')) (CachedSearch r)
     SEARCH_CACHE_TTL_MS) w2 (\<lambda>_ w3.
   runs (search_registry demo_rt (wallet_query ''1BvBMSEY'')) w3
     (\<lambda>r' w4. toPublicRegistryEntry (demo_entry ''e1'' IT_CRYPTO_WALLET ''1BvBMSEY'') \<in> set (sr_items r') \<and>
        lifecycle_of w4 ''e1'' = Some EN_APPROVED))))"
  by (rule overtaken_search_is_stale [OF _ _ demo_wallet_rows(3)])
     (simp_all add: demo_registry_def demo_entry_def demo_rt_def SEARCH_CACHE_TTL_MS_def)

end
