(* ===== verification/PublicAlerts.thy ===== *)
theory PublicAlerts
  imports PublicSearch
begin

text \<open>
  Regional public alerts (modules/public-alerts): authored behind the safe-language gate, moved
  along a lifecycle, broadcast when published, and listed for the public through the cache.
\<close>

definition ALERTS_CACHE_PREFIX :: string where
  "ALERTS_CACHE_PREFIX = ''public-alerts:''"

definition ALERTS_CACHE_TTL_MS :: int where
  "ALERTS_CACHE_TTL_MS = 60000"

fun ALERT_TRANSITIONS :: "alert_status \<Rightarrow> alert_status list" where
  "ALERT_TRANSITIONS AL_DRAFT = [AL_PUBLISHED, AL_WITHDRAWN]"
| "ALERT_TRANSITIONS AL_PUBLISHED = [AL_EXPIRED, AL_WITHDRAWN]"
| "ALERT_TRANSITIONS AL_EXPIRED = []"
| "ALERT_TRANSITIONS AL_WITHDRAWN = []"

definition canTransition :: "alert_status \<Rightarrow> alert_status \<Rightarrow> bool" where
  "canTransition from_status to_status \<longleftrightarrow> to_status \<in> set (ALERT_TRANSITIONS from_status)"

section \<open>Authoring\<close>

text \<open>The date of expiry is the parsed date of the request.\<close>

record alert_dto =
  ac_title :: string
  ac_body :: string
  ac_region :: string
  ac_severity :: "alert_severity option"
  ac_category :: "string option"
  ac_registryEntryIds :: "string list option"
  ac_expiresAt :: "int option"

definition actorTypeFor :: "auth_user \<Rightarrow> string" where
  "actorTypeFor actor =
     (if au_role actor = SUPER_ADMIN \<or> au_role actor = COMPLIANCE_OFFICER then ''ADMIN''
      else if au_role actor = REVIEWER then ''REVIEWER'' else ''STAFF'')"

definition new_public_alert :: "auth_user \<Rightarrow> alert_dto \<Rightarrow> string \<Rightarrow> int \<Rightarrow> public_alert" where
  "new_public_alert actor dto uid t =
     \<lparr>pa_id = uid, pa_title = ac_title dto, pa_body = ac_body dto, pa_region = ac_region dto,
      pa_severity = or_default (ac_severity dto) AS_WARNING, pa_category = ac_category dto,
      pa_registryEntryIds = or_default (ac_registryEntryIds dto) [], pa_status = AL_DRAFT,
      pa_createdByUserId = Some (au_userId actor), pa_publishedByUserId = None,
      pa_publishedAt = None, pa_expiresAt = ac_expiresAt dto, pa_withdrawnAt = None,
      pa_updatedAt = t\<rparr>"

definition alert_created :: "auth_user \<Rightarrow> public_alert \<Rightarrow> string option \<Rightarrow> append_input" where
  "alert_created actor a ip =
     admin_event None (au_userId actor) (actorTypeFor actor) ''PUBLIC_ALERT'' (pa_id a)
       ''PUBLIC_ALERT_CREATED''
       (''Public alert drafted for '' @ pa_region a @ '': '' @ [CHR 0x22] @ pa_title a @ [CHR 0x22])
       (JObj [(''region'', JStr (pa_region a)), (''severity'', JStr (severity_text (pa_severity a))),
         (''category'', opt_str (pa_category a))]) ip"

definition create_alert ::
    "runtime \<Rightarrow> auth_user \<Rightarrow> alert_dto \<Rightarrow> string option \<Rightarrow> ('a registry_db_scheme, public_alert) prog"
  where
  "create_alert rt actor dto ip =
     seq_p (assertPublicSafeLanguage (ac_title dto) ''title'')
     (seq_p (assertPublicSafeLanguage (ac_body dto) ''body'')
     (bind_p (new_id rt) (\<lambda>uid. bind_p (now rt) (\<lambda>t.
      bind_p (insert_row public_alerts_update (new_public_alert actor dto uid t)) (\<lambda>a.
      seq_p (append_evidence rt (alert_created actor a ip))
      (ret a))))))"

definition getInternalAlert :: "string \<Rightarrow> ('a registry_db_scheme, public_alert) prog" where
  "getInternalAlert i =
     bind_p (find_row public_alerts (\<lambda>a. pa_id a = i)) (\<lambda>found.
     require_some found (NotFoundException ''Public alert not found''))"

record alert_status_dto =
  us_status :: alert_status
  us_reason :: "string option"

definition advance_alert :: "auth_user \<Rightarrow> alert_status \<Rightarrow> int \<Rightarrow> int \<Rightarrow> public_alert \<Rightarrow> public_alert" where
  "advance_alert actor st t u a =
     (let a1 = a\<lparr>pa_status := st, pa_updatedAt := u\<rparr>;
          a2 = (if st = AL_PUBLISHED
                then a1\<lparr>pa_publishedByUserId := Some (au_userId actor), pa_publishedAt := Some t\<rparr> else a1);
          a3 = (if st = AL_WITHDRAWN then a2\<lparr>pa_withdrawnAt := Some t\<rparr> else a2)
      in if st = AL_EXPIRED then a3\<lparr>pa_expiresAt := Some t\<rparr> else a3)"

definition alert_moved ::
    "auth_user \<Rightarrow> alert_status_dto \<Rightarrow> alert_status \<Rightarrow> public_alert \<Rightarrow> string option \<Rightarrow> append_input" where
  "alert_moved actor dto previous a ip =
     admin_event None (au_userId actor) (actorTypeFor actor) ''PUBLIC_ALERT'' (pa_id a)
       (''PUBLIC_ALERT_'' @ alert_status_text (us_status dto))
       (or_default (us_reason dto) (''Public alert moved to '' @ alert_status_text (us_status dto)))
       (JObj [(''region'', JStr (pa_region a)), (''severity'', JStr (severity_text (pa_severity a))),
         (''previousStatus'', JStr (alert_status_text previous))]) ip"

definition alert_payload :: "public_alert \<Rightarrow> (string \<times> js) list" where
  "alert_payload a =
     [(''alertId'', JStr (pa_id a)), (''title'', JStr (pa_title a)), (''body'', JStr (pa_body a)),
      (''region'', JStr (pa_region a)), (''severity'', JStr (severity_text (pa_severity a))),
      (''category'', opt_str (pa_category a)),
      (''registryEntryIds'', JArr (map JStr (pa_registryEntryIds a))),
      (''publishedAt'', (case pa_publishedAt a of None \<Rightarrow> JNull | Some t \<Rightarrow> JDate t))]"

definition update_alert_status ::
    "runtime \<Rightarrow> web_services \<Rightarrow> auth_user \<Rightarrow> string \<Rightarrow> alert_status_dto \<Rightarrow> string option \<Rightarrow>
     ('a registry_db_scheme, public_alert) prog" where
  "update_alert_status rt web actor i dto ip =
     bind_p (getInternalAlert i) (\<lambda>current.
     seq_p (ensure (canTransition (pa_status current) (us_status dto)) (BadRequestException
       (''Cannot move a public alert from '' @ alert_status_text (pa_status current) @ '' to '' @
        alert_status_text (us_status dto))))
     (bind_p (now rt) (\<lambda>t. bind_p (now rt) (\<lambda>u.
      bind_p (update_row public_alerts public_alerts_update (\<lambda>a. pa_id a = i)
        (advance_alert actor (us_status dto) t u)) (\<lambda>updated.
      seq_p (append_evidence rt (alert_moved actor dto (pa_status current) updated ip))
      (seq_p (sweep_cache ALERTS_CACHE_PREFIX)
      (seq_p (when_p (us_status dto = AL_PUBLISHED)
        (attempt (broadcastPublic rt web PUBLIC_ALERT_PUBLISHED (alert_payload updated))))
      (ret updated))))))))"

definition alert_statuses :: "(string \<times> alert_status) list" where
  "alert_statuses = map (\<lambda>s. (alert_status_text s, s)) [AL_DRAFT, AL_PUBLISHED, AL_EXPIRED, AL_WITHDRAWN]"

definition listInternalAlerts ::
    "string option \<Rightarrow> string option \<Rightarrow> ('a registry_db_scheme, public_alert list) prog" where
  "listInternalAlerts status region =
     (let st = map_of alert_statuses (or_default status []) in
      bind_p (find_rows public_alerts (\<lambda>a. (st \<noteq> None \<longrightarrow> st = Some (pa_status a)) \<and>
        (truthy region \<longrightarrow> region = Some (pa_region a)))) (\<lambda>rows.
      ret (take 200 (order_desc pa_updatedAt rows))))"

section \<open>The public listing\<close>

record alert_filters =
  af_region :: "string option"
  af_minSeverity :: "string option"
  af_limit :: "int option"

definition alerts_limit :: "alert_filters \<Rightarrow> int" where
  "alerts_limit f = min 200 (max 1 (or_default (af_limit f) 50))"

definition alerts_key :: "alert_filters \<Rightarrow> string" where
  "alerts_key f = ALERTS_CACHE_PREFIX @ ''r='' @ or_default (af_region f) [] @ ''|s='' @
     or_default (af_minSeverity f) [] @ ''|l='' @ show_int (alerts_limit f)"

definition severityAtOrAbove :: "alert_severity \<Rightarrow> alert_severity list" where
  "severityAtOrAbove minimum = dropWhile (\<lambda>s. s \<noteq> minimum) [AS_INFO, AS_WARNING, AS_CRITICAL]"

definition severities :: "(string \<times> alert_severity) list" where
  "severities = map (\<lambda>s. (severity_text s, s)) [AS_INFO, AS_WARNING, AS_CRITICAL]"

definition alerts_where :: "alert_filters \<Rightarrow> int \<Rightarrow> public_alert \<Rightarrow> bool" where
  "alerts_where f t a \<longleftrightarrow>
     pa_status a = AL_PUBLISHED \<and>
     (truthy (af_region f) \<longrightarrow> af_region f = Some (pa_region a)) \<and>
     (case map_of severities (or_default (af_minSeverity f) []) of
        None \<Rightarrow> True | Some m \<Rightarrow> pa_severity a \<in> set (severityAtOrAbove m)) \<and>
     (case pa_expiresAt a of None \<Rightarrow> True | Some x \<Rightarrow> t < x)"

definition as_alert_view :: "public_alert \<Rightarrow> alert_view" where
  "as_alert_view a = \<lparr>av_id = pa_id a, av_title = pa_title a, av_body = pa_body a,
     av_region = pa_region a, av_severity = pa_severity a, av_category = pa_category a,
     av_publishedAt = pa_publishedAt a, av_expiresAt = pa_expiresAt a\<rparr>"

definition alert_rows :: "runtime \<Rightarrow> alert_filters \<Rightarrow> ('a registry_db_scheme, alert_view list) prog" where
  "alert_rows rt f =
     bind_p (now rt) (\<lambda>t.
     bind_p (find_rows public_alerts (alerts_where f t)) (\<lambda>rows.
     ret (map as_alert_view (take (nat (alerts_limit f)) (order_desc_nulls pa_publishedAt rows)))))"

definition listPublic :: "runtime \<Rightarrow> alert_filters \<Rightarrow> ('a registry_db_scheme, alert_view list) prog" where
  "listPublic rt f =
     through_cache rt (alerts_key f) as_alerts CachedAlerts ALERTS_CACHE_TTL_MS (alert_rows rt f)"

section \<open>The log is respected\<close>

lemma create_alert_safe: "moves (log_safe rt) (create_alert rt actor dto ip)"
  unfolding create_alert_def
  by (auto simp: log_untouched alert_created_def opt_str_def split: option.split
      intro!: safe_rules append_safe safe_language_safe)

lemma update_alert_safe: "moves (log_safe rt) (update_alert_status rt web actor i dto ip)"
  unfolding update_alert_status_def getInternalAlert_def
  by (auto simp: log_untouched alert_moved_def intro!: safe_rules append_safe cache_safe broadcast_safe)

lemma listPublic_safe: "moves (log_safe rt') (listPublic rt f)"
  unfolding listPublic_def alert_rows_def
  by (intro through_cache_safe safe_rules)

section \<open>What the public can see\<close>

definition shows_alerts :: "('a registry_db_scheme) \<Rightarrow> alert_view list \<Rightarrow> bool" where
  "shows_alerts w vs \<longleftrightarrow>
     (\<forall>v\<in>set vs. \<exists>a\<in>set (public_alerts w). pa_status a = AL_PUBLISHED \<and> v = as_alert_view a)"

lemma alerts_key_prefix: "starts_with ALERTS_CACHE_PREFIX (alerts_key f)"
  by (simp add: alerts_key_def starts_with_def)

lemma alert_rows_published:
  "runs (alert_rows rt f) w (\<lambda>vs w'. w' = w\<lparr>db_tick := db_tick w + 1\<rparr> \<and> shows_alerts w vs)"
  by (auto simp: alert_rows_def run_simps shows_alerts_def alerts_where_def in_order_nulls
      dest!: in_set_takeD)

interpretation alert_reads: cached_answers ALERTS_CACHE_PREFIX alerts_key CachedAlerts as_alerts
    "alert_rows rt" shows_alerts for rt
proof
  fix q and w :: "'a registry_db_scheme"
  show "runs (alert_rows rt q) w (\<lambda>r w'. (\<exists>n. w' = w\<lparr>db_tick := n\<rparr>) \<and> shows_alerts w r)"
    by (rule runs_mono [OF alert_rows_published]) auto
qed (auto simp: unwrap_iff alerts_key_prefix shows_alerts_def fun_eq_iff)

interpretation alerts_published: published_view "\<lambda>w. (public_alerts w, process_cache w)"
  by unfold_locales simp_all

lemma alerts_good_same:
  "(public_alerts w', process_cache w') = (public_alerts w, process_cache w) \<Longrightarrow>
   alert_reads.all_good w \<Longrightarrow> alert_reads.all_good w'"
  by (simp add: alert_reads.all_good_def shows_alerts_def)

lemma swept_alerts_good:
  "alert_reads.all_good (w\<lparr>process_cache := snd (cache_deletePrefix ALERTS_CACHE_PREFIX (process_cache w))\<rparr>)"
  by (simp add: alert_reads.all_good_def node_cache.sweep_makes_good)

text \<open>A change of status ends with a sweep, and the broadcast after it touches no alert.\<close>

lemma swept_at_last:
  "runs (seq_p (sweep_cache ALERTS_CACHE_PREFIX)
     (seq_p (when_p b (attempt (broadcastPublic rt web ev payload))) (ret a))) w
     (\<lambda>_ w'. alert_reads.all_good w')"
proof -
  let ?v = "w\<lparr>process_cache := snd (cache_deletePrefix ALERTS_CACHE_PREFIX (process_cache w))\<rparr>"
  have "runs (when_p b (attempt (broadcastPublic rt web ev payload))) ?v (\<lambda>_ w'. alert_reads.all_good w')"
    using swept_alerts_good [of w]
    by (cases b) (auto simp only: runs_basic if_True if_False
        intro: runs_attempt [OF alerts_published.broadcast_same] alerts_good_same [OF _ swept_alerts_good])
  then show ?thesis by (simp only: runs_seq runs_cache Let_def case_prod_beta runs_basic)
qed

lemma update_alert_sweeps:
  assumes "alert_reads.all_good w"
  shows "ends (update_alert_status rt web actor i dto ip) w (\<lambda>_ w'. alert_reads.all_good w')"
proof (cases "\<exists>a. find (\<lambda>a. pa_id a = i) (public_alerts w) = Some a \<and> canTransition (pa_status a) (us_status dto)")
  case True
  then obtain a where a: "find (\<lambda>a. pa_id a = i) (public_alerts w) = Some a"
    "canTransition (pa_status a) (us_status dto)" by blast
  have tail: "runs (seq_p (append_evidence rt e) (seq_p (sweep_cache ALERTS_CACHE_PREFIX)
      (seq_p (when_p b (attempt (broadcastPublic rt web ev d))) (ret r)))) v
      (\<lambda>_ w'. alert_reads.all_good w')" for e b ev d r and v :: "'a registry_db_scheme"
    by (subst runs_seq) (simp only: runs_stamped, rule runs_mono [OF swept_at_last], simp)
  have guarded: "runs (seq_p (ensure c e) m) v Q \<longleftrightarrow> c \<and> runs m v Q" for c e m v Q
    by (simp add: run_simps)
  have "runs (update_alert_status rt web actor i dto ip) w (\<lambda>_ w'. alert_reads.all_good w')"
    using a by (simp add: update_alert_status_def getInternalAlert_def runs_bind runs_table runs_draw
        runs_basic guarded tail del: runs_seq)
  then show ?thesis by (rule ends_runs)
next
  case False
  then have "raises (update_alert_status rt web actor i dto ip) w (\<lambda>_ w'. w' = w)"
    by (cases "find (\<lambda>a. pa_id a = i) (public_alerts w)")
       (auto simp: update_alert_status_def getInternalAlert_def raises_bind raises_seq runs_bind runs_seq
         runs_basic raises_basic runs_table raises_table)
  with assms show ?thesis by (simp add: ends_iff raises_mono)
qed

lemma drafting_keeps:
  "alert_reads.all_good w \<Longrightarrow> public_alerts w' = public_alerts w @ [a] \<Longrightarrow>
   process_cache w' = process_cache w \<Longrightarrow> alert_reads.all_good w'"
  unfolding alert_reads.all_good_def shows_alerts_def node_cache.good_def
  by fastforce

lemma create_alert_keeps:
  assumes "alert_reads.all_good w"
  shows "ends (create_alert rt actor draft ip) w (\<lambda>_ w'. alert_reads.all_good w')"
proof (cases "public_safe (ac_title draft) \<and> public_safe (ac_body draft)")
  case True
  have "runs (create_alert rt actor draft ip) w (\<lambda>_ w'. alert_reads.all_good w')"
    using True by (simp add: create_alert_def run_simps runs_stamped drafting_keeps [OF assms])
  then show ?thesis by (rule ends_runs)
next
  case False
  then have "raises (create_alert rt actor draft ip) w (\<lambda>_ w'. w' = w)"
    by (auto simp: create_alert_def run_simps public_safe_def)
  with assms show ?thesis by (simp add: ends_iff raises_mono)
qed

definition demo_public_alert :: public_alert where
  "demo_public_alert = \<lparr>pa_id = ''a1'', pa_title = ''Fake bank calls'', pa_body = ''Callers ask for codes.'',
     pa_region = ''US'', pa_severity = AS_WARNING, pa_category = None, pa_registryEntryIds = [],
     pa_status = AL_PUBLISHED, pa_createdByUserId = Some ''u1'', pa_publishedByUserId = Some ''u1'',
     pa_publishedAt = Some 0, pa_expiresAt = None, pa_withdrawnAt = None, pa_updatedAt = 0\<rparr>"

definition all_alerts :: alert_filters where
  "all_alerts = \<lparr>af_region = None, af_minSeverity = None, af_limit = None\<rparr>"

section \<open>A listing overtaken by a withdrawal\<close>

text \<open>
  The query of a listing and the write of its answer are separate steps as well. A withdrawal that
  runs between them sweeps too early, and the next listing still has the withdrawn alert.
\<close>

lemma overtaken_listing_is_stale:
  assumes "find (\<lambda>a. pa_id a = i) (public_alerts w) = Some a" "pa_status a = AL_PUBLISHED"
    and "runs (alert_rows rt f) w (\<lambda>vs _. as_alert_view a \<in> set vs)"
    and "\<And>n. rt_clock rt (Suc n) \<le> rt_clock rt n + ALERTS_CACHE_TTL_MS"
  shows "runs (alert_rows rt f) w (\<lambda>vs w1.
    runs (update_alert_status rt web actor i \<lparr>us_status = AL_WITHDRAWN, us_reason = reason\<rparr> ip) w1 (\<lambda>_ w2.
    runs (write_cache rt (alerts_key f) (CachedAlerts vs) ALERTS_CACHE_TTL_MS) w2 (\<lambda>_ w3.
    runs (listPublic rt f) w3 (\<lambda>vs' w4. as_alert_view a \<in> set vs' \<and>
      (\<exists>b. find (\<lambda>a. pa_id a = i) (public_alerts w4) = Some b \<and> pa_status b = AL_WITHDRAWN)))))"
proof -
  have hit: "fst (cache_get k (rt_clock rt (Suc n)) (cache_set k (v::cached) ALERTS_CACHE_TTL_MS
      (rt_clock rt n) c)) = Some v" for k v c n
    by (rule get_after_set [OF assms(4)])
  have id: "pa_id (advance_alert actor st t u b) = pa_id b" "pa_status (advance_alert actor st t u b) = st" for st t u b
    by (simp_all add: advance_alert_def Let_def)
  show ?thesis
    using assms(1-3) alert_rows_published [of rt f w]
    by (auto simp: runs_iff [of "alert_rows rt f"] canTransition_def update_alert_status_def getInternalAlert_def
        listPublic_def through_cache_def run_simps runs_stamped Let_def case_prod_beta hit find_mapped id)
qed

lemma overtaken_listing_is_stale_witness:
  "runs (alert_rows demo_rt all_alerts) ((demo_registry [] [])\<lparr>public_alerts := [demo_public_alert]\<rparr>) (\<lambda>vs w1.
    runs (update_alert_status demo_rt demo_web demo_user ''a1'' \<lparr>us_status = AL_WITHDRAWN, us_reason = None\<rparr> None) w1 (\<lambda>_ w2.
    runs (write_cache demo_rt (alerts_key all_alerts) (CachedAlerts vs) ALERTS_CACHE_TTL_MS) w2 (\<lambda>_ w3.
    runs (listPublic demo_rt all_alerts) w3 (\<lambda>vs' _. as_alert_view demo_public_alert \<in> set vs'))))"
proof -
  let ?w = "(demo_registry [] [])\<lparr>public_alerts := [demo_public_alert]\<rparr>"
  have "runs (alert_rows demo_rt all_alerts) ?w (\<lambda>vs _. as_alert_view demo_public_alert \<in> set vs)"
    by (simp add: alert_rows_def run_simps alerts_where_def all_alerts_def demo_public_alert_def demo_registry_def
        truthy_def order_desc_nulls_def order_desc_def alerts_limit_def severities_def text_eval)
  from overtaken_listing_is_stale [OF _ _ this, where i = "''a1''" and web = demo_web and actor = demo_user and reason = None and ip = None]
  have "runs (alert_rows demo_rt all_alerts) ?w (\<lambda>vs w1.
    runs (update_alert_status demo_rt demo_web demo_user ''a1'' \<lparr>us_status = AL_WITHDRAWN, us_reason = None\<rparr> None) w1 (\<lambda>_ w2.
    runs (write_cache demo_rt (alerts_key all_alerts) (CachedAlerts vs) ALERTS_CACHE_TTL_MS) w2 (\<lambda>_ w3.
    runs (listPublic demo_rt all_alerts) w3 (\<lambda>vs' w4. as_alert_view demo_public_alert \<in> set vs' \<and>
      (\<exists>b. find (\<lambda>a. pa_id a = ''a1'') (public_alerts w4) = Some b \<and> pa_status b = AL_WITHDRAWN)))))"
    by (simp add: demo_public_alert_def demo_rt_def ALERTS_CACHE_TTL_MS_def)
  then show ?thesis by (auto elim!: runs_mono)
qed

end
