(* ===== verification/Pipeline.thy ===== *)
theory Pipeline
  imports RegistryAppeal PublicAlerts
begin

text \<open>
  The way of an indicator from a report to the public registry, across the components: intake,
  review, candidate, approval, publication, search. The reachable states of all their operations,
  in any order and whether they succeed or fail, and what holds in each of them.
\<close>

section \<open>Intake, seen from the registry\<close>

interpretation registry_view: unreported "\<lambda>w. (registry_entries w, process_cache w)"
  by unfold_locales simp_all

text \<open>The verified signals; no step of the intake adds to them.\<close>

definition verified :: "('a report_db_scheme) \<Rightarrow> string set" where
  "verified w = ss_id ` set (filter (\<lambda>s. ss_status s = VERIFIED_SCAM_INTELLIGENCE) (signals w))"

definition no_promotion :: "('a report_db_scheme) \<Rightarrow> ('a report_db_scheme) \<Rightarrow> bool" where
  "no_promotion w w' \<longleftrightarrow> verified w' \<subseteq> verified w"

interpretation no_promotion: step_preorder no_promotion
  by unfold_locales (auto simp: no_promotion_def)

lemma same_signals: "moves (\<lambda>w w'. signals w' = signals w) m \<Longrightarrow> moves no_promotion m"
  by (auto simp: moves_def no_promotion_def verified_def)

lemma unlinked_verified:
  assumes "map unlinked (signals w') = map unlinked (signals w)"
  shows "verified w' = verified w"
proof -
  have "map ss_id (filter (\<lambda>s. ss_status s = st) xs) = map ss_id (filter (\<lambda>s. ss_status s = st) (map unlinked xs))"
    for st xs by (simp add: filter_map comp_def)
  then have "map ss_id (filter (\<lambda>s. ss_status s = st) (signals w')) =
      map ss_id (filter (\<lambda>s. ss_status s = st) (signals w))" for st
    using assms by metis
  then show ?thesis unfolding verified_def by (metis set_map)
qed

lemma not_derived: "deriveStatus n c \<noteq> VERIFIED_SCAM_INTELLIGENCE"
  by (simp add: deriveStatus_def)

lemma draws_promote_none: "moves no_promotion (draw d)"
  by (rule same_signals) (simp add: moves_def draw_def)

lemma store_promotes_none: "moves no_promotion (store_report rt opts)"
proof -
  have "moves no_promotion (update_row signals signals_update P (merge_report b dto t))" for P b dto t
    by (auto simp: moves_def update_row_def no_promotion_def verified_def not_derived split: option.split if_splits)
  moreover have "moves no_promotion (insert_row signals_update (new_signal b opts v u t))" for b v u t
    by (auto simp: moves_def insert_row_def no_promotion_def verified_def not_derived)
  ultimately show ?thesis
    unfolding store_report_def Let_def now_def new_id_def
    by (auto intro!: no_promotion.moves_rules no_promotion.find_row_moves no_promotion.find_rows_moves
        draws_promote_none split: option.split)
qed

lemma enrich_report_same: "moves (\<lambda>w w'. signals w' = signals w) (enrich_report rt ai dto s)"
  unfolding enrich_report_def
  by (intro same.moves_rules signals_unenriched.classify_same signals_unenriched.embed_same
      signals_unenriched.process_same signals_unenriched.enrich_same)

lemma queue_report_same: "moves (\<lambda>w w'. signals w' = signals w) (queue_report rt s)"
  unfolding queue_report_def
  by (intro same.moves_rules same.table_moves signals_unenriched.draw_same) simp

lemma append_signals: "moves (\<lambda>w w'. signals w' = signals w) (append_evidence rt input)"
  unfolding append_evidence_def Let_def
  by (intro same.moves_rules same.table_moves signals_unenriched.draw_same)
     (simp_all add: moves_def draw_defs insert_row_def split: option.split)

lemma intake_promotes_none: "moves no_promotion (intake rt ai opts ip)"
proof -
  have "moves no_promotion (clusterSignal rt s ip)" for s
    using clustering_unlinked [of rt s ip] unlinked_verified
    by (fastforce simp: moves_def no_promotion_def)
  then show ?thesis
    unfolding intake_def cluster_report_def
    by (auto intro!: no_promotion.moves_rules no_promotion.table_moves store_promotes_none
        same_signals [OF enrich_report_same] same_signals [OF queue_report_same]
        same_signals [OF append_signals] split: prod.split)
qed

section \<open>What is traced\<close>

text \<open>A reviewer's promotion of the signal is in the evidence log.\<close>

definition promotion_text :: string where
  "promotion_text = ''Reviewer decision PROMOTE_TO_VERIFIED '' @ em_dash @
     '' signal status set to VERIFIED_SCAM_INTELLIGENCE''"

definition promoted :: "string \<Rightarrow> ('a core_db_scheme) \<Rightarrow> bool" where
  "promoted i w \<longleftrightarrow> (\<exists>e\<in>set (evidence_events w). ev_eventType e = ''REVIEW_COMPLETED'' \<and>
     ev_entityId e = i \<and> ev_actorId e \<noteq> None \<and> ev_eventDescription e = promotion_text)"

definition entry_traced :: "('a core_db_scheme) \<Rightarrow> registry_entry \<Rightarrow> bool" where
  "entry_traced w e \<longleftrightarrow>
     (\<exists>i. re_sourceSignalId e = Some i \<and> promoted i w) \<and>
     public_safe (re_publicSafeSummary e) \<and>
     (truthy (re_recommendedAction e) \<longrightarrow> public_safe (or_default (re_recommendedAction e) [])) \<and>
     (re_status e \<in> {EN_APPROVED, EN_PUBLISHED} \<longrightarrow> logged ''REGISTRY_APPROVED'' (re_id e) w) \<and>
     (re_status e = EN_PUBLISHED \<longrightarrow> logged ''REGISTRY_PUBLISHED'' (re_id e) w)"

definition traced :: "('a registry_db_scheme) \<Rightarrow> bool" where
  "traced w \<longleftrightarrow> (\<forall>i\<in>verified w. promoted i w) \<and>
     (\<forall>e\<in>set (registry_entries w). entry_traced w e) \<and>
     distinct (map re_id (registry_entries w)) \<and> searches.all_good w"

lemma promoted_extends: "log_extends w w' \<Longrightarrow> promoted i w \<Longrightarrow> promoted i w'"
  by (auto simp: promoted_def log_extends_def dest: set_mono_prefix)

lemma entry_traced_extends: "log_extends w w' \<Longrightarrow> entry_traced w e \<Longrightarrow> entry_traced w' e"
  by (auto simp: entry_traced_def intro: promoted_extends logged_extends)

text \<open>Steps that leave signals and entries alone and spoil no cached search.\<close>

definition apart :: "('a registry_db_scheme) \<Rightarrow> ('a registry_db_scheme) \<Rightarrow> bool" where
  "apart w w' \<longleftrightarrow> log_extends w w' \<and> no_promotion w w' \<and> registry_entries w' = registry_entries w \<and>
     (searches.all_good w \<longrightarrow> searches.all_good w')"

interpretation apart: step_preorder apart
  by unfold_locales (auto simp: apart_def log.refl no_promotion.refl intro: log.trans no_promotion.trans)

lemma traced_apart: "traced w \<Longrightarrow> apart w w' \<Longrightarrow> traced w'"
  by (auto simp: traced_def apart_def no_promotion_def intro: promoted_extends entry_traced_extends)

lemma searches_good:
  "searches.all_good w \<Longrightarrow> registry_entries w' = registry_entries w \<Longrightarrow>
   (\<And>P. node_cache.good SEARCH_CACHE_PREFIX P (process_cache w) \<Longrightarrow>
        node_cache.good SEARCH_CACHE_PREFIX P (process_cache w')) \<Longrightarrow> searches.all_good w'"
  by (simp add: searches.all_good_def shows_published_def)

lemma searches_good_same:
  "(registry_entries w', process_cache w') = (registry_entries w, process_cache w) \<Longrightarrow>
   searches.all_good w \<Longrightarrow> searches.all_good w'"
  by (erule searches_good) simp_all

lemma beside_apart: "moves beside m \<Longrightarrow> moves apart m"
  by (auto simp: moves_def beside_def apart_def no_promotion_def verified_def
      elim: searches_good_same [rotated])

lemma draws_apart: "moves apart (draw d)" "moves apart (now rt)" "moves apart (new_id rt)"
  by (auto simp: moves_def draw_defs apart_def log_extends_def no_promotion_def verified_def
      elim: searches_good_same [rotated])

lemma cache_apart:
  "moves apart (sweep_cache p)" "moves apart (read_cache rt k)"
  "\<not> starts_with SEARCH_CACHE_PREFIX k \<Longrightarrow> moves apart (write_cache rt k v ttl)"
  unfolding cache_ops_defs
  by (auto simp: moves_def apart_def log_extends_def no_promotion_def verified_def Let_def prog_defs
      case_prod_beta elim!: searches_good
      intro: node_cache.sweep_keeps node_cache.get_keeps node_cache.set_keeps)

lemmas apart_rules = apart.moves_rules apart.table_moves draws_apart cache_apart
  beside_apart [OF besides(1)] beside_apart [OF besides(2)] beside_apart [OF besides(3)]

section \<open>Each operation keeps it\<close>

lemma moves_ends: "moves R m \<Longrightarrow> ends m w (\<lambda>_ w'. R w w')"
  by (auto simp: moves_def ends_def split: prod.split dest: spec [of _ w])

lemma intake_apart:
  assumes "moves (log_safe rt) (intake rt ai opts ip :: ('a registry_db_scheme, scam_signal) prog)"
  shows "moves apart (intake rt ai opts ip :: ('a registry_db_scheme, scam_signal) prog)"
  using log_moves [OF assms] intake_promotes_none [of rt ai opts ip] registry_view.intake_same [of rt ai opts ip]
  by (auto simp: moves_def apart_def elim: searches_good_same [rotated])

lemma reports_apart:
  "moves apart (submitReport rt ai dto ip)" "moves apart (submitFromModule rt ai dto t u m)"
  "moves apart (submitPartnerReport rt ai p dto ip)"
  unfolding submitReport_def submitFromModule_def submitPartnerReport_def
  by (auto intro!: apart_rules intake_apart intake_safe simp: report_event_def module_options_def
      partner_options_def split: option.splits)

lemma alerts_apart:
  "moves apart (listPublic rt f)" "moves apart (update_alert_status rt web actor i dto ip)"
  "moves apart (create_alert rt actor draft ip)"
proof -
  have table: "moves apart (insert_row public_alerts_update a)"
    "moves apart (update_row public_alerts public_alerts_update P g)" for a P g
    by (auto simp: moves_def insert_row_def update_row_def apart_def log_extends_def no_promotion_def
        verified_def split: option.split elim: searches_good_same [rotated])
  have "moves beside (broadcastPublic rt web ev d)" for ev d
    using log_moves [OF broadcast_safe] entries_published.broadcast_same
    unfolding moves_def beside_def by blast
  note broadcast = beside_apart [OF this]
  have key: "\<not> starts_with SEARCH_CACHE_PREFIX (alerts_key f)"
    by (simp add: alerts_key_def ALERTS_CACHE_PREFIX_def SEARCH_CACHE_PREFIX_def starts_with_def)
  show "moves apart (listPublic rt f)"
    unfolding listPublic_def through_cache_def alert_rows_def
    by (auto intro!: apart_rules key split: option.split)
  show "moves apart (update_alert_status rt web actor i dto ip)"
    unfolding update_alert_status_def getInternalAlert_def
    by (auto intro!: apart_rules table broadcast)
  show "moves apart (create_alert rt actor draft ip)"
    unfolding create_alert_def
    by (auto intro!: apart_rules table apart.safe_language_moves)
qed

text \<open>The review.\<close>

lemma stamped_description [simp]: "ev_eventDescription (stamped rt input w) = in_eventDescription input"
  by (simp add: stamped_def append_evidence_def Let_def prog_defs)

lemma close_beside: "runs (close_review rt reviewer i v notes) w (\<lambda>_ w'. beside w w')"
proof (cases "first_of (order_desc qi_createdAt (filter (open_item i) (review_queue w)))")
  case None
  then show ?thesis by (simp add: close_review_def run_simps beside_def log_extends_def)
next
  case (Some x)
  then have "x \<in> set (review_queue w)" by (auto dest!: first_of_SomeD)
  then obtain y where "find (\<lambda>q. qi_id q = qi_id x) (review_queue w) = Some y"
    using find_ex [of "\<lambda>q. qi_id q = qi_id x" "review_queue w"] by auto
  with Some show ?thesis by (simp add: close_review_def run_simps beside_def log_extends_def)
qed

lemma review_outcome:
  assumes "find (\<lambda>s. ss_id s = i) (signals w) = Some s"
  shows "runs (reviewSignal rt web reviewer i v notes ip) w (\<lambda>_ w'. log_extends w w' \<and>
    signals w' = map (\<lambda>q. if ss_id q = i then decide_signal v (ss_publicSafeCandidate s) q else q) (signals w) \<and>
    (registry_entries w', process_cache w') = (registry_entries w, process_cache w) \<and>
    verified w' \<subseteq> verified w \<union> (if v = PROMOTE_TO_VERIFIED then {i} else {}) \<and>
    (v = PROMOTE_TO_VERIFIED \<longrightarrow> promoted i w'))"
    (is "runs _ _ (\<lambda>_ w'. ?Q w')")
proof -
  let ?d = "decide_signal v (ss_publicSafeCandidate s)"
  let ?w1 = "signals_update (map (\<lambda>q. if ss_id q = i then ?d q else q)) w"
  have set_ver: "verified ?w1 \<subseteq> verified w \<union> (if v = PROMOTE_TO_VERIFIED then {i} else {})"
    by (cases v) (auto simp: verified_def decide_signal_def split: if_splits)
  have told: "runs (when_p b (attempt (publish_event rt web SIGNAL_VERIFIED t d))) u (\<lambda>_ u'. beside u u')"
    for b t d and u :: "'a registry_db_scheme"
  proof -
    have "moves beside (publish_event rt web SIGNAL_VERIFIED t d)"
      using log_moves [OF publish_safe] entries_published.publish_same unfolding moves_def beside_def by blast
    then show ?thesis by (auto simp: runs_basic beside.refl intro: runs_attempt)
  qed
  have "runs (close_review rt reviewer i v notes) ?w1 (\<lambda>q w2.
      runs (append_evidence rt (review_completed reviewer i v notes ip)) w2 (\<lambda>_ w3.
      runs (when_p (v = PROMOTE_TO_VERIFIED \<and> truthy (ss_tenantId (?d s))) (attempt
        (publish_event rt web SIGNAL_VERIFIED (ss_tenantId (?d s)) (verified_payload (?d s))))) w3 (\<lambda>_ w'. ?Q w')))"
    unfolding runs_stamped
  proof (rule runs_mono [OF close_beside], rule runs_mono [OF told], goal_cases)
    case (1 q w2 u w')
    let ?e = "stamped rt (review_completed reviewer i v notes ip) w2"
    from 1(1) have w2: "log_extends w w2" "signals w2 = signals ?w1"
      "(registry_entries w2, process_cache w2) = (registry_entries w, process_cache w)"
      by (simp_all add: beside_def log_extends_def)
    from 1(2) have w': "signals w' = signals ?w1"
      "(registry_entries w', process_cache w') = (registry_entries w, process_cache w)"
      and log: "prefix (evidence_events w2 @ [?e]) (evidence_events w')"
      using w2 by (simp_all add: beside_def log_extends_def)
    have "log_extends w w'"
      using w2(1) log by (auto simp: log_extends_def intro: prefix_order.trans append_prefixD)
    moreover have "?e \<in> set (evidence_events w')" using set_mono_prefix [OF log] by simp
    then have "v = PROMOTE_TO_VERIFIED \<Longrightarrow> promoted i w'"
      unfolding promoted_def
      by (intro bexI [of _ ?e]) (simp_all add: review_completed_def promotion_text_def admin_event_def user_event_def
          signal_status_text_def)
    moreover have "verified w' = verified ?w1" using w'(1) by (simp add: verified_def)
    ultimately show ?case using w' set_ver by simp
  qed
  then show ?thesis by (simp add: reviewSignal_def run_simps assms del: runs_basic(6))
qed

lemma review_traced:
  assumes "traced w"
  shows "ends (reviewSignal rt web reviewer i v notes ip) w (\<lambda>_ w'. traced w')"
proof (cases "find (\<lambda>s. ss_id s = i) (signals w)")
  case None
  then have "raises (reviewSignal rt web reviewer i v notes ip) w (\<lambda>_ w'. w' = w)"
    by (simp add: reviewSignal_def run_simps)
  with assms show ?thesis by (simp add: ends_iff raises_mono)
next
  case (Some s)
  show ?thesis
  proof (rule ends_runs [OF review_outcome [OF Some]], elim conjE)
    fix w' :: "'a registry_db_scheme"
    assume w': "log_extends w w'" "(registry_entries w', process_cache w') = (registry_entries w, process_cache w)"
      "verified w' \<subseteq> verified w \<union> (if v = PROMOTE_TO_VERIFIED then {i} else {})"
      "v = PROMOTE_TO_VERIFIED \<longrightarrow> promoted i w'"
    have "promoted j w'" if "j \<in> verified w'" for j
      using that w'(3,4) assms promoted_extends [OF w'(1)] by (auto simp: traced_def split: if_splits)
    then show "traced w'"
      using assms w'(2) searches_good_same [OF w'(2)] entry_traced_extends [OF w'(1)]
      by (auto simp: traced_def)
  qed
qed

text \<open>A candidate.\<close>

lemma candidate_traced:
  assumes "traced w" "fresh_ids rt w (re_id ` set (registry_entries w))"
  shows "ends (createCandidate rt reviewer dto ip) w (\<lambda>_ w'. traced w')"
proof (rule ends_mono [OF create_outcome])
  fix r and w' :: "'a registry_db_scheme"
  assume out: "case r of Inl _ \<Rightarrow> w' = w
    | Inr e \<Rightarrow> candidate_of w dto e \<and> re_id e = rt_uuid rt (db_tick w) \<and>
        registry_entries w' = registry_entries w @ [e] \<and> signals w' = signals w \<and>
        process_cache w' = process_cache w \<and> log_extends w w' \<and>
        logged ''REGISTRY_CANDIDATE_CREATED'' (re_id e) w'"
  show "traced w'"
  proof (cases r)
    case (Inl x)
    with out assms(1) show ?thesis by simp
  next
    case (Inr e)
    with out have e: "candidate_of w dto e" "re_id e = rt_uuid rt (db_tick w)"
      "registry_entries w' = registry_entries w @ [e]" "signals w' = signals w"
      "process_cache w' = process_cache w" "log_extends w w'" by simp_all
    have "entry_traced w' e"
      using e(1) assms(1) promoted_extends [OF e(6)]
      by (auto simp: candidate_of_def entry_traced_def traced_def verified_def)
    moreover have "re_id e \<notin> re_id ` set (registry_entries w)"
      using assms(2) e(2) by (auto simp: fresh_ids_def)
    moreover have "searches.all_good w'"
      using assms(1) e(3,5)
      by (auto simp: traced_def searches.all_good_def shows_published_def node_cache.good_def
          split: prod.splits)
    moreover have "verified w' = verified w" using e(4) by (simp add: verified_def)
    ultimately show ?thesis
      using assms(1) e(3) entry_traced_extends [OF e(6)] promoted_extends [OF e(6)]
      by (auto simp: traced_def)
  qed
qed

text \<open>An entry moved along its lifecycle.\<close>

definition keeps_text :: "(int \<Rightarrow> registry_entry \<Rightarrow> registry_entry) \<Rightarrow> bool" where
  "keeps_text f \<longleftrightarrow> keeps_id f \<and> (\<forall>t e. re_sourceSignalId (f t e) = re_sourceSignalId e \<and>
     re_publicSafeSummary (f t e) = re_publicSafeSummary e \<and>
     re_recommendedAction (f t e) = re_recommendedAction e)"

lemma entry_updates_keep_text [simp]:
  "keeps_text (approved_entry admin)" "keeps_text published_entry" "keeps_text unpublished_entry"
  "keeps_text rejected_entry"
  by (simp_all add: keeps_text_def) (simp_all add: approved_entry_def published_entry_def
      unpublished_entry_def rejected_entry_def)

lemma moved_logged:
  "moved i f evtype w r w' \<Longrightarrow> logged evtype i w'"
  "moved i f evtype w r w' \<Longrightarrow> logged evtype' i w \<Longrightarrow> logged evtype' i w'"
  by (auto simp: moved_def intro: logged_extends)

lemma moved_traced:
  assumes w: "traced w" and m: "moved i f evtype w r w'" and f: "keeps_text f" "\<And>t e. re_status (f t e) = st"
    and e: "find (\<lambda>e. re_id e = i) (registry_entries w) = Some e"
    and logs: "st \<in> {EN_APPROVED, EN_PUBLISHED} \<Longrightarrow>
        evtype = ''REGISTRY_APPROVED'' \<or> logged ''REGISTRY_APPROVED'' i w"
      "st = EN_PUBLISHED \<Longrightarrow> evtype = ''REGISTRY_PUBLISHED''"
    and cache: "re_status e \<noteq> EN_PUBLISHED \<and> process_cache w' = process_cache w \<or> swept SEARCH_CACHE_PREFIX w w'"
  shows "traced w'"
proof -
  obtain t u where es: "registry_entries w' =
      map (\<lambda>e. if re_id e = i then (f t e)\<lparr>re_updatedAt := u\<rparr> else e) (registry_entries w)"
    and log: "log_extends w w'" and sig: "signals w' = signals w"
    using m by (auto simp: moved_def)
  have kept: "re_id (f t q) = re_id q" "re_sourceSignalId (f t q) = re_sourceSignalId q"
    "re_publicSafeSummary (f t q) = re_publicSafeSummary q"
    "re_recommendedAction (f t q) = re_recommendedAction q" for q
    using f(1) by (auto simp: keeps_text_def keeps_id_def)
  have "entry_traced w' q" if "q \<in> set (registry_entries w)" for q
    using w that entry_traced_extends [OF log] by (simp add: traced_def)
  then have "\<forall>q\<in>set (registry_entries w'). entry_traced w' q"
    using logs moved_logged [OF m] by (auto simp: es entry_traced_def kept f(2))
  moreover have "map re_id (registry_entries w') = map re_id (registry_entries w)"
    by (simp add: es comp_def kept cong: if_cong)
  moreover have "searches.all_good w'"
    using cache
  proof
    assume "swept SEARCH_CACHE_PREFIX w w'"
    then show ?thesis by (simp add: searches.all_good_def swept_def node_cache.sweep_makes_good)
  next
    assume c: "re_status e \<noteq> EN_PUBLISHED \<and> process_cache w' = process_cache w"
    have "q \<in> set (registry_entries w')" if "q \<in> set (registry_entries w)" "re_status q = EN_PUBLISHED" for q
    proof -
      have "distinct (map re_id (registry_entries w))" using w by (simp add: traced_def)
      then have "re_id q \<noteq> i" using that c find_SomeD [OF e] same_key by metis
      then show ?thesis using that(1) by (force simp: es)
    qed
    then have "shows_published w r' \<Longrightarrow> shows_published w' r'" for r'
      unfolding shows_published_def by blast
    then show ?thesis
      using w c by (auto simp: traced_def searches.all_good_def node_cache.good_def split: prod.splits)
  qed
  moreover have "verified w' = verified w" using sig by (simp add: verified_def)
  ultimately show ?thesis
    using w promoted_extends [OF log] by (auto simp: traced_def)
qed

lemma command_traced:
  assumes "traced w"
  shows "ends (exec_command rt web admin c i ip) w (\<lambda>_ w'. traced w')"
proof (cases "\<exists>e. find (\<lambda>e. re_id e = i) (registry_entries w) = Some e \<and> re_status e \<in> set (command_from c)")
  case False
  have "raises (exec_command rt web admin c i ip) w (\<lambda>_ w'. traced w')"
    by (rule raises_mono [OF command_refused [OF False]]) (simp add: assms)
  then show ?thesis by (simp add: ends_iff)
next
  case True
  then obtain e where e: "find (\<lambda>e. re_id e = i) (registry_entries w) = Some e"
    "re_status e \<in> set (command_from c)" by blast
  have old: "entry_traced w e" "re_id e = i" using assms find_SomeD [OF e(1)] by (auto simp: traced_def)
  show ?thesis
  proof (cases c)
    case Approve
    show ?thesis unfolding Approve exec_command.simps
      by (rule ends_runs [OF approve_moves [OF e(1)]])
         (use e(2) Approve in \<open>auto elim!: moved_traced [OF assms, where st = EN_APPROVED, OF _ _ _ e(1)]
            simp: approved_entry_def\<close>)
  next
    case Publish
    then have p: "re_status e = EN_APPROVED" using e(2) by simp
    then have "logged ''REGISTRY_APPROVED'' i w" using old by (simp add: entry_traced_def)
    then show ?thesis unfolding Publish exec_command.simps
      by (intro ends_runs [OF publish_moves [OF e(1) p]])
         (auto elim!: moved_traced [OF assms, where st = EN_PUBLISHED, OF _ _ _ e(1)]
            simp: published_entry_def)
  next
    case Unpublish
    then have p: "re_status e = EN_PUBLISHED" using e(2) by simp
    then have "logged ''REGISTRY_APPROVED'' i w" using old by (simp add: entry_traced_def)
    then show ?thesis unfolding Unpublish exec_command.simps
      by (intro ends_runs [OF unpublish_moves [OF e(1) p]])
         (auto elim!: moved_traced [OF assms, where st = EN_APPROVED, OF _ _ _ e(1)]
            simp: unpublished_entry_def)
  next
    case Reject
    show ?thesis unfolding Reject exec_command.simps
      by (rule ends_runs [OF reject_moves [OF e(1)]])
         (use e(2) Reject in \<open>auto elim!: moved_traced [OF assms, where st = EN_REJECTED, OF _ _ _ e(1)]
            simp: rejected_entry_def\<close>)
  qed
qed

text \<open>Appeals, and the public search.\<close>

lemma keeps_traced: "(\<And>w. traced w \<Longrightarrow> ends m w (\<lambda>_ w'. traced w')) \<Longrightarrow> moves (\<lambda>w w'. traced w \<longrightarrow> traced w') m"
  by (auto simp: moves_def ends_def case_prod_beta)

lemma apart_keeps: "moves apart m \<Longrightarrow> moves (\<lambda>w w'. traced w \<longrightarrow> traced w') m"
  by (auto simp: moves_def intro: traced_apart)

lemma appeals_apart:
  "moves apart (insert_row appeals_update a)" "moves apart (update_row appeals appeals_update P g)"
  by (auto simp: moves_def insert_row_def update_row_def apart_def log_extends_def no_promotion_def
      verified_def split: option.split elim: searches_good_same [rotated])

lemma filing_apart:
  "moves apart (fileAppeal rt e dto ip)" "moves apart (startReview rt reviewer i ip)"
  unfolding fileAppeal_def startReview_def requireAppeal_def
  by (auto intro!: apart_rules appeals_apart)

lemma appeal_traced: "moves (\<lambda>w w'. traced w \<longrightarrow> traced w') (decideAppeal rt web admin i dto ip)"
proof -
  have "moves (\<lambda>w w'. traced w \<longrightarrow> traced w') (unpublish_entry rt web admin j ip)" for j
    using command_traced [where c = Unpublish] by (intro keeps_traced) simp
  moreover have "moves apart (requireAppeal i xs)" for xs
    unfolding requireAppeal_def by (intro apart_rules)
  ultimately show ?thesis
    unfolding decideAppeal_def remove_contested_def
    by (auto intro!: keep.moves_rules keep.table_moves apart_keeps [OF draws_apart(2)]
        apart_keeps [OF appeals_apart(2)] apart_keeps [OF beside_apart [OF besides(1)]]
        split: option.split intro: apart_keeps)
qed

lemma search_traced:
  assumes "traced w"
  shows "ends (search_registry rt q) w (\<lambda>_ w'. traced w')"
proof -
  have "searches.all_good w" using assms by (simp add: traced_def)
  from searches.read_answers [OF this]
  have "runs (search_registry rt q) w (\<lambda>r w'. searches.all_good w' \<and>
      (\<exists>n c. w' = w\<lparr>db_tick := n, process_cache := c\<rparr>))"
    unfolding search_registry_def by (rule runs_mono) blast
  then show ?thesis
    by (rule ends_runs)
       (use assms in \<open>auto simp: traced_def verified_def promoted_def entry_traced_def logged_def\<close>)
qed

section \<open>The reachable states\<close>

text \<open>
  A system that started with empty tables and an empty cache, after any sequence of operations,
  each run to its end (which may be an exception). A candidate gets an identifier no entry has.
  \<open>elsewhere\<close> stands for every operation of the other components, which touch none of the three
  tables concerned and only extend the log.
\<close>

inductive registry_step ::
    "runtime \<Rightarrow> web_services \<Rightarrow> ai_services \<Rightarrow> 'a registry_db_scheme \<Rightarrow> 'a registry_db_scheme \<Rightarrow> bool"
  for rt web ai w where
  public_report: "registry_step rt web ai w (snd (submitReport rt ai dto ip w))"
| module_report: "registry_step rt web ai w (snd (submitFromModule rt ai dto t u m w))"
| partner_report: "registry_step rt web ai w (snd (submitPartnerReport rt ai p dto ip w))"
| review: "registry_step rt web ai w (snd (reviewSignal rt web reviewer i v notes ip w))"
| candidate: "fresh_ids rt w (re_id ` set (registry_entries w)) \<Longrightarrow>
    registry_step rt web ai w (snd (createCandidate rt reviewer cand ip w))"
| governance: "registry_step rt web ai w (snd (exec_command rt web admin c i ip w))"
| appeal_filing: "registry_step rt web ai w (snd (fileAppeal rt i appeal ip w))"
| appeal_review: "registry_step rt web ai w (snd (startReview rt reviewer i ip w))"
| appeal_ruling: "registry_step rt web ai w (snd (decideAppeal rt web admin i ruling ip w))"
| searching: "registry_step rt web ai w (snd (search_registry rt q w))"
| alert_listing: "registry_step rt web ai w (snd (listPublic rt f w))"
| alert_drafting: "registry_step rt web ai w (snd (create_alert rt actor draft ip w))"
| alert_update: "registry_step rt web ai w (snd (update_alert_status rt web actor i st ip w))"

inductive pipeline :: "runtime \<Rightarrow> web_services \<Rightarrow> ai_services \<Rightarrow> ('a registry_db_scheme) \<Rightarrow> bool"
  for rt web ai where
  start: "signals w = [] \<Longrightarrow> registry_entries w = [] \<Longrightarrow> process_cache w = [] \<Longrightarrow> pipeline rt web ai w"
| operation: "pipeline rt web ai w \<Longrightarrow> registry_step rt web ai w w' \<Longrightarrow> pipeline rt web ai w'"
| elsewhere: "pipeline rt web ai w \<Longrightarrow> signals w' = signals w \<Longrightarrow> registry_entries w' = registry_entries w \<Longrightarrow>
    process_cache w' = process_cache w \<Longrightarrow> log_extends w w' \<Longrightarrow> pipeline rt web ai w'"

lemma keeps_snd: "moves (\<lambda>w w'. traced w \<longrightarrow> traced w') m \<Longrightarrow> traced w \<Longrightarrow> traced (snd (m w))"
  by (simp add: moves_def)

lemma ends_snd: "ends m w (\<lambda>_ w'. traced w') \<Longrightarrow> traced (snd (m w))"
  by (simp add: ends_def split: prod.splits)

lemma step_traced: "registry_step rt web ai w w' \<Longrightarrow> traced w \<Longrightarrow> traced w'"
  by (erule registry_step.cases)
     (blast intro: keeps_snd apart_keeps reports_apart alerts_apart filing_apart appeal_traced
      ends_snd review_traced candidate_traced command_traced search_traced)+

lemma elsewhere_traced:
  assumes "traced w" "signals w' = signals w" "registry_entries w' = registry_entries w"
    "process_cache w' = process_cache w" "log_extends w w'"
  shows "traced w'"
proof -
  have "apart w w'"
    using assms by (auto simp: apart_def no_promotion_def verified_def elim: searches_good_same [rotated])
  with assms(1) show ?thesis by (rule traced_apart)
qed

lemma start_traced:
  "signals w = [] \<Longrightarrow> registry_entries w = [] \<Longrightarrow> process_cache w = [] \<Longrightarrow> traced w"
  by (simp add: traced_def verified_def searches.all_good_def node_cache.good_def cached_values_def)

lemma pipeline_traced: "pipeline rt web ai w \<Longrightarrow> traced w"
  by (induction rule: pipeline.induct) (auto intro: start_traced step_traced elsewhere_traced)

lemma pipeline_steps: "(registry_step rt web ai)\<^sup>*\<^sup>* w w' \<Longrightarrow> pipeline rt web ai w \<Longrightarrow> pipeline rt web ai w'"
  by (induction rule: rtranclp_induct) (auto intro: pipeline.operation)

text \<open>
  C1. Nothing reaches the public registry without its trace. In every state the system can reach,
  whatever was reported, reviewed, appealed or searched before and in whatever order, each item a
  search shows, cached or not, is an entry that is published at that moment, comes from a signal
  that a named reviewer promoted, was approved and published by administrative acts, all three of
  them in the evidence log, and has passed the language gate.
\<close>

theorem public_items_traced:
  assumes "pipeline rt web ai w"
  shows "runs (search_registry rt q) w (\<lambda>r w'. \<forall>p\<in>set (sr_items r). \<exists>e\<in>set (registry_entries w).
    p = toPublicRegistryEntry e \<and> re_status e = EN_PUBLISHED \<and>
    (\<exists>i. re_sourceSignalId e = Some i \<and> promoted i w) \<and>
    logged ''REGISTRY_APPROVED'' (re_id e) w \<and> logged ''REGISTRY_PUBLISHED'' (re_id e) w \<and>
    public_safe (re_publicSafeSummary e))"
proof -
  have t: "traced w" by (rule pipeline_traced [OF assms])
  then have "searches.all_good w" by (simp add: traced_def)
  from searches.read_answers [OF this] show ?thesis
    unfolding search_registry_def
    by (rule runs_mono) (use t in \<open>fastforce simp: shows_published_def traced_def entry_traced_def\<close>)
qed

section \<open>A first publication\<close>

text \<open>A report into the empty system leaves one signal.\<close>

lemma same_length: "moves (\<lambda>w w'. signals w' = signals w) m \<Longrightarrow>
   moves (\<lambda>w w'. length (signals w') = length (signals w)) m"
  by (simp add: moves_def)

lemma clustering_length: "moves (\<lambda>w w'. length (signals w') = length (signals w)) (clusterSignal rt s ip)"
  using clustering_unlinked [of rt s ip] by (auto simp: moves_def dest: map_eq_imp_length_eq)

lemma first_intake:
  fixes w :: "'a report_db_scheme"
  assumes "signals w = []"
  shows "length (signals (snd (intake rt ai opts ip w))) = 1"
proof -
  have "runs (store_report rt opts) w (\<lambda>_ v. length (signals v) = 1)"
    using assms by (simp add: store_report_def Let_def run_simps)
  then obtain s d v where v: "store_report rt opts w = (Inr (s, d), v)" "length (signals v) = 1"
    by (auto simp: runs_iff)
  have "moves (\<lambda>w w' :: 'a report_db_scheme. length (signals w') = length (signals w))
      (seq_p (append_evidence rt (report_event opts s d ip)) (bind_p (cluster_report rt s ip) (\<lambda>s.
       seq_p (enrich_report rt ai (io_dto opts) s) (seq_p (queue_report rt s) (ret s)))))"
    unfolding cluster_report_def
    by (intro same.moves_rules same.table_moves same_length [OF append_signals] clustering_length
        same_length [OF enrich_report_same] same_length [OF queue_report_same])
  then show ?thesis
    using v by (simp add: intake_def bind_p_def [of "store_report rt opts"] moves_def)
qed

lemma first_report:
  assumes "signals w = []"
  shows "length (signals (snd (submitReport rt ai dto ip w))) = 1"
  using first_intake [OF assms]
  by (simp add: submitReport_def bind_p_def ret_def split: prod.split sum.split) (metis snd_conv)

definition first_candidate :: "string \<Rightarrow> candidate_dto" where
  "first_candidate i = \<lparr>cn_signalId = i, cn_publicStatus = VERIFIED_MALICIOUS,
     cn_publicSafeSummary = ''Fake shop'', cn_recommendedAction = None, cn_category = None\<rparr>"

definition any_query :: search_query where
  "any_query = \<lparr>sq_q = None, sq_type = None, sq_category = None, sq_page = None, sq_limit = None\<rparr>"

lemma any_query_finds:
  assumes "registry_entries w = [e]" "re_status e = EN_PUBLISHED" "process_cache w = []"
  shows "runs (search_registry rt any_query) w (\<lambda>r _. sr_items r = [toPublicRegistryEntry e])"
  using assms
  by (cases "re_lastSeen e") (simp_all add: search_registry_def through_cache_def search_rows_def search_where_def any_query_def
      run_simps Let_def cache_get_def parseType_def truthy_def search_page_def search_limit_def
      MAX_PAGE_SIZE_def DEFAULT_PAGE_SIZE_def order_desc_nulls_def order_desc_def trim_def)

lemma candidate_created:
  assumes "find (\<lambda>s. ss_id s = i) (signals w) = Some s" "ss_status s = VERIFIED_SCAM_INTELLIGENCE"
    "registry_entries w = []"
  shows "runs (createCandidate rt reviewer (first_candidate i) ip) w (\<lambda>e w'.
    registry_entries w' = [e] \<and> process_cache w' = process_cache w \<and> re_status e = EN_CANDIDATE)"
proof -
  show ?thesis
    using assms safe_example by (simp add: createCandidate_def run_simps runs_stamped first_candidate_def truthy_def new_entry_def)
qed

text \<open>The empty system reports, reviews, drafts, approves and publishes one indicator.\<close>

lemma first_publication:
  "\<exists>w e. (registry_step demo_rt demo_web demo_ai)\<^sup>*\<^sup>* (demo_registry [] []) w \<and>
     registry_entries w = [e] \<and> process_cache w = [] \<and> re_status e = EN_PUBLISHED"
proof -
  let ?s = "registry_step demo_rt demo_web demo_ai :: registry_db \<Rightarrow> registry_db \<Rightarrow> bool"
  define w0 where "w0 = demo_registry [] []"
  define w1 where "w1 = snd (submitReport demo_rt demo_ai (io_dto demo_options) None w0)"
  have p1: "?s w0 w1" unfolding w1_def by (rule registry_step.public_report)
  have "length (signals w1) = 1" unfolding w1_def
    by (rule first_report) (simp add: w0_def demo_registry_def)
  then obtain s where s: "signals w1 = [s]" by (auto simp: length_Suc_conv)
  have v1: "registry_entries w1 = [] \<and> process_cache w1 = []"
  proof -
    have "moves (\<lambda>w w'. (registry_entries w', process_cache w') = (registry_entries w, process_cache w))
        (submitReport demo_rt demo_ai (io_dto demo_options) None :: (registry_db, string \<times> string \<times> string) prog)"
      unfolding submitReport_def by (intro same.moves_rules registry_view.intake_same)
    then show ?thesis unfolding w1_def moves_def by (simp add: w0_def demo_registry_def)
  qed
  obtain w2 x where run2: "reviewSignal demo_rt demo_web demo_user (ss_id s) PROMOTE_TO_VERIFIED None None w1 = (Inr x, w2)"
    and w2: "signals w2 = [decide_signal PROMOTE_TO_VERIFIED (ss_publicSafeCandidate s) s]"
      "registry_entries w2 = []" "process_cache w2 = []"
    using review_outcome [of "ss_id s" w1 s demo_rt demo_web demo_user PROMOTE_TO_VERIFIED None None] s v1
    by (auto simp: runs_iff)
  have p2: "?s w1 w2" using registry_step.review run2 by (metis snd_conv)
  have found: "find (\<lambda>q. ss_id q = ss_id s) (signals w2) = Some (decide_signal PROMOTE_TO_VERIFIED (ss_publicSafeCandidate s) s)"
    "ss_status (decide_signal PROMOTE_TO_VERIFIED (ss_publicSafeCandidate s) s) = VERIFIED_SCAM_INTELLIGENCE"
    by (simp_all add: w2 decide_signal_def)
  obtain w3 e where run3: "createCandidate demo_rt demo_user (first_candidate (ss_id s)) None w2 = (Inr e, w3)"
    and w3: "registry_entries w3 = [e]" "process_cache w3 = []" "re_status e = EN_CANDIDATE"
    using candidate_created [OF found w2(2), of demo_rt demo_user None] w2(3) by (auto simp: runs_iff)
  have p3: "?s w2 w3" using registry_step.candidate [of demo_rt w2 demo_web demo_ai demo_user "first_candidate (ss_id s)" None] run3 w2(2)
    by (simp add: fresh_ids_def)
  obtain w4 f where run4: "approve_entry demo_rt demo_user (re_id e) None w3 = (Inr f, w4)"
    and w4: "registry_entries w4 = [f]" "process_cache w4 = []" "re_id f = re_id e" "re_status f = EN_APPROVED"
    using approve_moves [of "re_id e" w3 e demo_rt demo_user None] w3
    by (auto simp: runs_iff moved_def approved_entry_def)
  have p4: "?s w3 w4" using registry_step.governance [of demo_rt demo_web demo_ai w3 demo_user Approve "re_id e" None] run4 by simp
  obtain w5 g where run5: "publish_entry demo_rt demo_web demo_user (re_id e) None w4 = (Inr g, w5)"
    and w5: "registry_entries w5 = [g]" "process_cache w5 = []" "re_status g = EN_PUBLISHED"
    using publish_moves [of "re_id e" w4 f demo_rt demo_web demo_user None] w4
    by (auto simp: runs_iff moved_def published_entry_def swept_def cache_deletePrefix_def)
  have p5: "?s w4 w5" using registry_step.governance [of demo_rt demo_web demo_ai w4 demo_user Publish "re_id e" None] run5 by simp
  have "?s\<^sup>*\<^sup>* w0 w5"
    by (rule converse_rtranclp_into_rtranclp [of ?s, rotated])
       (rule converse_rtranclp_into_rtranclp [of ?s, rotated],
        rule converse_rtranclp_into_rtranclp [of ?s, rotated],
        rule converse_rtranclp_into_rtranclp [of ?s, rotated],
        rule r_into_rtranclp [of ?s], (rule p5 p4 p3 p2 p1)+)
  with w5 show ?thesis unfolding w0_def by blast
qed

text \<open>After that the public search shows it, with its trace.\<close>

theorem public_items_traced_witness:
  "\<exists>w :: registry_db. pipeline demo_rt demo_web demo_ai w \<and>
     runs (search_registry demo_rt any_query) w (\<lambda>r _. sr_items r \<noteq> [] \<and>
       (\<forall>p\<in>set (sr_items r). \<exists>e\<in>set (registry_entries w). p = toPublicRegistryEntry e \<and>
          (\<exists>i. re_sourceSignalId e = Some i \<and> promoted i w)))"
proof -
  obtain w g where w: "(registry_step demo_rt demo_web demo_ai)\<^sup>*\<^sup>* (demo_registry [] []) w"
    "registry_entries w = [g]" "process_cache w = []" "re_status g = EN_PUBLISHED"
    using first_publication by blast
  have "pipeline demo_rt demo_web demo_ai (demo_registry [] [])"
    by (rule pipeline.start) (simp_all add: demo_registry_def)
  from pipeline_steps [OF w(1) this] have p: "pipeline demo_rt demo_web demo_ai w" .
  have "runs (search_registry demo_rt any_query) w (\<lambda>r _. sr_items r = [toPublicRegistryEntry g])"
    by (rule any_query_finds [OF w(2,4,3)])
  moreover note public_items_traced [OF p, of any_query]
  ultimately show ?thesis using p
    by (intro exI [of _ w] conjI) (assumption, clarsimp simp: runs_iff, metis)
qed

end
