(* ===== verification/Serving.thy ===== *)
theory Serving
  imports Pipeline
begin

text \<open>
  What the public is served from the cache while operations interleave. A search of the registry
  and a listing of the alerts are two steps each, as in the code: the look into the cache with the
  query behind it, and, after an await, the write of the answer; between the two any operation may
  run. The operations that write (reports, reviews, governance, appeals, alerts) are single steps.
\<close>

section \<open>Steps that leave the alerts and their cached listings alone\<close>

definition aside :: "('a registry_db_scheme) \<Rightarrow> ('a registry_db_scheme) \<Rightarrow> bool" where
  "aside w w' \<longleftrightarrow> public_alerts w' = public_alerts w \<and>
     (\<forall>P. node_cache.good ALERTS_CACHE_PREFIX P (process_cache w) \<longrightarrow>
          node_cache.good ALERTS_CACHE_PREFIX P (process_cache w'))"

interpretation aside: step_preorder aside
  by unfold_locales (auto simp: aside_def)

lemma aside_good: "aside w w' \<Longrightarrow> alert_reads.all_good w \<Longrightarrow> alert_reads.all_good w'"
  by (simp add: aside_def alert_reads.all_good_def shows_alerts_def)

lemma same_aside:
  "moves (\<lambda>w w'. (public_alerts w', process_cache w') = (public_alerts w, process_cache w)) m \<Longrightarrow> moves aside m"
  by (simp add: moves_def aside_def)

interpretation alerts_unreported: unreported "\<lambda>w. (public_alerts w, process_cache w)"
  by unfold_locales simp_all

lemma cache_aside:
  "moves aside (sweep_cache p)" "moves aside (read_cache rt k)"
  "\<not> starts_with ALERTS_CACHE_PREFIX k \<Longrightarrow> moves aside (write_cache rt k v ttl)"
  unfolding cache_ops_defs
  by (auto simp: moves_def aside_def Let_def prog_defs case_prod_beta
      intro: node_cache.sweep_keeps node_cache.get_keeps node_cache.set_keeps)

lemma draws_aside: "moves aside (draw d)" "moves aside (now rt)" "moves aside (new_id rt)"
  by (simp_all add: moves_def draw_defs aside_def)

lemmas aside_rules = aside.moves_rules aside.table_moves draws_aside cache_aside aside.safe_language_moves
  same_aside [OF alerts_unreported.intake_same] same_aside [OF alerts_published.append_same]
  same_aside [OF alerts_published.publish_same] same_aside [OF alerts_published.partner_same]
  same_aside [OF alerts_published.automate_same]

lemma rows_aside:
  "moves aside (insert_row signals_update s)" "moves aside (update_row signals signals_update P g)"
  "moves aside (insert_row review_queue_update q)" "moves aside (update_row review_queue review_queue_update Q h)"
  "aside w (review_queue_update gq w)" "moves aside (insert_row registry_entries_update e)"
  "moves aside (update_row registry_entries registry_entries_update R k)"
  "moves aside (insert_row appeals_update a)" "moves aside (update_row appeals appeals_update A l)"
  by (auto simp: moves_def insert_row_def update_row_def aside_def split: option.split)

lemma key_not_alerts: "\<not> starts_with ALERTS_CACHE_PREFIX (search_key q)"
  by (simp add: search_key_def buildCacheKey_def ALERTS_CACHE_PREFIX_def SEARCH_CACHE_PREFIX_def starts_with_def)

lemma search_aside: "moves aside (search_registry rt q)"
  unfolding search_registry_def through_cache_def search_rows_def Let_def
  by (auto intro!: aside_rules key_not_alerts split: option.split)

lemma reports_aside:
  "moves aside (submitReport rt ai dto ip)" "moves aside (submitFromModule rt ai dto t u m)"
  "moves aside (submitPartnerReport rt ai p dto ip)"
  unfolding submitReport_def submitFromModule_def submitPartnerReport_def
  by (auto intro!: aside_rules split: option.splits)

lemma review_aside: "moves aside (reviewSignal rt web reviewer i v notes ip)"
  unfolding reviewSignal_def close_review_def
  by (auto intro!: aside_rules rows_aside split: option.split)

lemma entries_aside:
  "moves aside (createCandidate rt reviewer dto ip)" "moves aside (exec_command rt web admin c i ip)"
proof -
  show "moves aside (createCandidate rt reviewer dto ip)"
    unfolding createCandidate_def by (auto intro!: aside_rules rows_aside)
  show "moves aside (exec_command rt web admin c i ip)"
    by (cases c; simp add: approve_entry_def publish_entry_def unpublish_entry_def reject_entry_def
        requireStatus_def set_entry_def invalidateSearchCache_def markQueueComplete_def)
       (auto intro!: aside_rules rows_aside)
qed

lemma appeals_aside:
  "moves aside (fileAppeal rt i dto ip)" "moves aside (startReview rt reviewer i ip)"
  "moves aside (decideAppeal rt web admin i ruling ip)"
proof -
  have "moves aside (unpublish_entry rt web admin j ip)" for j
    using entries_aside(2) [of rt web admin Unpublish j ip] by simp
  then show "moves aside (decideAppeal rt web admin i ruling ip)"
    unfolding decideAppeal_def remove_contested_def requireAppeal_def
    by (auto intro!: aside_rules rows_aside split: option.split)
qed (auto simp: fileAppeal_def startReview_def requireAppeal_def intro!: aside_rules rows_aside)

lemma listing_good:
  assumes "alert_reads.all_good w"
  shows "alert_reads.all_good (snd (listPublic rt f w))"
  using alert_reads.read_answers [OF assms, of rt f ALERTS_CACHE_TTL_MS rt]
  by (auto simp: listPublic_def runs_iff)

lemma step_alerts_good:
  "registry_step rt web ai w w' \<Longrightarrow> alert_reads.all_good w \<Longrightarrow> alert_reads.all_good w'"
  by (erule registry_step.cases)
     (use listing_good create_alert_keeps update_alert_sweeps in
      \<open>auto simp: ends_def case_prod_beta
         intro: aside_good [OF search_aside [unfolded moves_def, rule_format]]
           aside_good [OF reports_aside(1) [unfolded moves_def, rule_format]]
           aside_good [OF reports_aside(2) [unfolded moves_def, rule_format]]
           aside_good [OF reports_aside(3) [unfolded moves_def, rule_format]]
           aside_good [OF review_aside [unfolded moves_def, rule_format]]
           aside_good [OF entries_aside(1) [unfolded moves_def, rule_format]]
           aside_good [OF entries_aside(2) [unfolded moves_def, rule_format]]
           aside_good [OF appeals_aside(1) [unfolded moves_def, rule_format]]
           aside_good [OF appeals_aside(2) [unfolded moves_def, rule_format]]
           aside_good [OF appeals_aside(3) [unfolded moves_def, rule_format]]\<close>)

section \<open>Searches and listings in flight\<close>

definition ask_search :: "runtime \<Rightarrow> search_query \<Rightarrow> ('a registry_db_scheme, search_result \<times> bool) prog" where
  "ask_search rt q = ask_cached rt (search_key q) as_search (search_rows q)"

definition ask_listing :: "runtime \<Rightarrow> alert_filters \<Rightarrow> ('a registry_db_scheme, alert_view list \<times> bool) prog" where
  "ask_listing rt f = ask_cached rt (alerts_key f) as_alerts (alert_rows rt f)"

fun answer_ttl :: "cached \<Rightarrow> int" where
  "answer_ttl (CachedSearch r) = SEARCH_CACHE_TTL_MS"
| "answer_ttl (CachedAlerts vs) = ALERTS_CACHE_TTL_MS"

text \<open>Run without a pause, the two steps are the operations of the services.\<close>

lemma search_in_steps:
  "search_registry rt q = bind_p (ask_search rt q) (\<lambda>(r, missed).
     seq_p (when_p missed (write_cache rt (search_key q) (CachedSearch r) (answer_ttl (CachedSearch r)))) (ret r))"
  by (simp add: search_registry_def ask_search_def through_cache_steps)

lemma listing_in_steps:
  "listPublic rt f = bind_p (ask_listing rt f) (\<lambda>(vs, missed).
     seq_p (when_p missed (write_cache rt (alerts_key f) (CachedAlerts vs) (answer_ttl (CachedAlerts vs)))) (ret vs))"
  by (simp add: listPublic_def ask_listing_def through_cache_steps)

text \<open>
  Something that was public in the one state, an entry for a search and an alert for a listing, is
  public no more in the other.
\<close>

fun withdraws :: "cached \<Rightarrow> 'a registry_db_scheme \<Rightarrow> 'a registry_db_scheme \<Rightarrow> bool" where
  "withdraws (CachedSearch r) w w' \<longleftrightarrow>
     (\<exists>e\<in>set (registry_entries w). re_status e = EN_PUBLISHED \<and>
        toPublicRegistryEntry e \<notin>
          toPublicRegistryEntry ` set (filter (\<lambda>e. re_status e = EN_PUBLISHED) (registry_entries w')))"
| "withdraws (CachedAlerts vs) w w' \<longleftrightarrow>
     (\<exists>a\<in>set (public_alerts w). pa_status a = AL_PUBLISHED \<and>
        as_alert_view a \<notin> as_alert_view ` set (filter (\<lambda>a. pa_status a = AL_PUBLISHED) (public_alerts w')))"

text \<open>
  A system that started empty, and the answers in flight: queried, and to be written to the cache
  under their keys. Everything interleaves, with one restriction: no entry leaves the public
  registry while a search is in flight, and no alert leaves its publication while a listing is.
  \<open>overtaken_search_is_stale\<close> and \<open>overtaken_listing_is_stale\<close> show what happens otherwise.
\<close>

inductive serving ::
    "runtime \<Rightarrow> web_services \<Rightarrow> ai_services \<Rightarrow> 'a registry_db_scheme \<Rightarrow> (string \<times> cached) list \<Rightarrow> bool"
  for rt web ai where
  start: "signals w = [] \<Longrightarrow> registry_entries w = [] \<Longrightarrow> process_cache w = [] \<Longrightarrow> serving rt web ai w []"
| operation: "serving rt web ai w ps \<Longrightarrow> registry_step rt web ai w w' \<Longrightarrow>
    list_all (\<lambda>p. \<not> withdraws (snd p) w w') ps \<Longrightarrow> serving rt web ai w' ps"
| elsewhere: "serving rt web ai w ps \<Longrightarrow> signals w' = signals w \<Longrightarrow> registry_entries w' = registry_entries w \<Longrightarrow>
    public_alerts w' = public_alerts w \<Longrightarrow> process_cache w' = process_cache w \<Longrightarrow> log_extends w w' \<Longrightarrow>
    serving rt web ai w' ps"
| search_asked: "serving rt web ai w ps \<Longrightarrow> ask_search rt q w = (Inr (r, missed), w') \<Longrightarrow>
    serving rt web ai w' (if missed then (search_key q, CachedSearch r) # ps else ps)"
| listing_asked: "serving rt web ai w ps \<Longrightarrow> ask_listing rt f w = (Inr (vs, missed), w') \<Longrightarrow>
    serving rt web ai w' (if missed then (alerts_key f, CachedAlerts vs) # ps else ps)"
| stored: "serving rt web ai w (ps @ (k, v) # qs) \<Longrightarrow>
    serving rt web ai (snd (write_cache rt k v (answer_ttl v) w)) (ps @ qs)"

fun shows_public :: "'a registry_db_scheme \<Rightarrow> cached \<Rightarrow> bool" where
  "shows_public w (CachedSearch r) = shows_published w r"
| "shows_public w (CachedAlerts vs) = shows_alerts w vs"

lemma still_public: "shows_public w v \<Longrightarrow> \<not> withdraws v w w' \<Longrightarrow> shows_public w' v"
  by (cases v) (fastforce simp: shows_published_def shows_alerts_def image_iff)+

lemma public_same:
  "registry_entries w' = registry_entries w \<Longrightarrow> public_alerts w' = public_alerts w \<Longrightarrow>
   shows_public w' v = shows_public w v"
  by (cases v) (simp_all add: shows_published_def shows_alerts_def)

text \<open>What holds all the time: the trace, the cached answers of both kinds, the answers in flight.\<close>

definition served :: "'a registry_db_scheme \<Rightarrow> (string \<times> cached) list \<Rightarrow> bool" where
  "served w ps \<longleftrightarrow> traced w \<and> alert_reads.all_good w \<and> list_all (\<lambda>p. shows_public w (snd p)) ps"

text \<open>A change of the clock and of the cache that spoils no cached answer.\<close>

lemma served_cache:
  assumes "served w ps" "searches.all_good (w\<lparr>db_tick := n, process_cache := c\<rparr>)"
    "alert_reads.all_good (w\<lparr>db_tick := n, process_cache := c\<rparr>)"
  shows "served (w\<lparr>db_tick := n, process_cache := c\<rparr>) ps"
  using assms
  by (auto simp: served_def traced_def verified_def promoted_def entry_traced_def logged_def
      public_same [of "w\<lparr>db_tick := n, process_cache := c\<rparr>" w])

lemma get_keeps_both:
  assumes "served w ps"
  shows "searches.all_good (w\<lparr>db_tick := n, process_cache := snd (cache_get k t (process_cache w))\<rparr>)"
    and "alert_reads.all_good (w\<lparr>db_tick := n, process_cache := snd (cache_get k t (process_cache w))\<rparr>)"
  using assms node_cache.get_keeps
  by (auto simp: served_def traced_def searches.all_good_def alert_reads.all_good_def shows_published_def
      shows_alerts_def)

lemma set_keeps_both:
  assumes "served w ps" "shows_public w v"
  shows "searches.all_good (w\<lparr>db_tick := n, process_cache := cache_set k v ttl t (process_cache w)\<rparr>)"
    and "alert_reads.all_good (w\<lparr>db_tick := n, process_cache := cache_set k v ttl t (process_cache w)\<rparr>)"
proof -
  have "searches.all_good w" "alert_reads.all_good w" using assms(1) by (simp_all add: served_def traced_def)
  moreover have "as_search v = Some r \<Longrightarrow> shows_published w r" "as_alerts v = Some vs \<Longrightarrow> shows_alerts w vs" for r vs
    using assms(2) by (cases v; simp)+
  ultimately show "searches.all_good (w\<lparr>db_tick := n, process_cache := cache_set k v ttl t (process_cache w)\<rparr>)"
    "alert_reads.all_good (w\<lparr>db_tick := n, process_cache := cache_set k v ttl t (process_cache w)\<rparr>)"
    by (simp_all add: searches.all_good_def alert_reads.all_good_def shows_published_def shows_alerts_def
        node_cache.set_keeps)
qed

lemma asked_served:
  assumes "served w ps" "run w = (Inr (r, missed), w')"
    and "runs run w (\<lambda>(r, missed) w'. shows_public w (f r) \<and> g w' \<and> (\<exists>n. w' = w\<lparr>db_tick := n,
      process_cache := snd (cache_get k t (process_cache w))\<rparr>))"
  shows "served w' (if missed then (k, f r) # ps else ps)"
proof -
  obtain n where w': "w' = w\<lparr>db_tick := n, process_cache := snd (cache_get k t (process_cache w))\<rparr>"
    and r: "shows_public w (f r)"
    using assms(2,3) by (auto simp: runs_def)
  have "served w' ps" unfolding w' by (rule served_cache [OF assms(1) get_keeps_both [OF assms(1)]])
  moreover have "shows_public w' (f r) = shows_public w (f r)" by (rule public_same) (simp_all add: w')
  ultimately show ?thesis using r by (simp add: served_def)
qed

lemma serving_served: "serving rt web ai w ps \<Longrightarrow> served w ps"
proof (induction rule: serving.induct)
  case (start w)
  then show ?case
    by (simp add: served_def start_traced alert_reads.all_good_def node_cache.good_def cached_values_def)
next
  case (operation w ps w')
  have "shows_public w' (snd p)" if "p \<in> set ps" for p
    using operation.IH operation.hyps(3) that by (auto simp: served_def list_all_iff intro: still_public)
  with operation show ?case
    by (auto simp: served_def list_all_iff intro: step_traced step_alerts_good)
next
  case (elsewhere w ps w')
  have "shows_public w' (snd p)" if "p \<in> set ps" for p
    using elsewhere public_same [of w' w] that by (auto simp: served_def list_all_iff)
  moreover have "alert_reads.all_good w'"
    using elsewhere by (auto simp: served_def intro: alerts_good_same)
  moreover have "traced w'"
    by (rule elsewhere_traced [of w]) (use elsewhere in \<open>simp_all add: served_def\<close>)
  ultimately show ?case by (simp add: served_def list_all_iff)
next
  case (search_asked w ps q r missed w')
  then have "searches.all_good w" by (simp add: served_def traced_def)
  from searches.ask_answers [OF this, of rt q] search_asked show ?case
    by (intro asked_served [where f = CachedSearch and run = "ask_search rt q" and g = searches.all_good])
       (auto simp: ask_search_def)
next
  case (listing_asked w ps f vs missed w')
  then have "alert_reads.all_good w" by (simp add: served_def)
  from alert_reads.ask_answers [OF this, of rt f rt] listing_asked show ?case
    by (intro asked_served [where f = CachedAlerts and run = "ask_listing rt f" and g = alert_reads.all_good])
       (auto simp: ask_listing_def)
next
  case (stored w ps k v qs)
  then have w: "served w (ps @ qs)" "shows_public w v" by (simp_all add: served_def)
  have "snd (write_cache rt k v (answer_ttl v) w) = w\<lparr>db_tick := db_tick w + 1,
      process_cache := cache_set k v (answer_ttl v) (rt_clock rt (db_tick w)) (process_cache w)\<rparr>"
    by (simp add: cache_ops_defs prog_defs)
  with served_cache [OF w(1) set_keeps_both [OF w]] show ?case by simp
qed

lemma serving_steps:
  "(registry_step rt web ai)\<^sup>*\<^sup>* w w' \<Longrightarrow> serving rt web ai w [] \<Longrightarrow> serving rt web ai w' []"
  by (induction rule: rtranclp_induct) (auto intro: serving.operation)

section \<open>Properties\<close>

text \<open>
  C6. In every state reached from the empty system by the operations of reports, reviews,
  governance, appeals and alerts, each of them one step, interleaved with searches and listings in
  their two steps, the public search answers, every item it shows is the public view of an entry
  that is published at that moment, computed or cached, and it changes nothing but the cache and
  the clock. The condition on the interleaving is that no entry is unpublished while a search is in
  flight (between its query and the write of its answer); without it the claim is false, as
  \<open>overtaken_search_is_stale\<close> shows.
\<close>

theorem search_shows_published:
  assumes "serving rt web ai w in_flight"
  shows "runs (search_registry rt q) w (\<lambda>r w'. shows_published w r \<and>
    (\<exists>n c. w' = w\<lparr>db_tick := n, process_cache := c\<rparr>))"
proof -
  have "searches.all_good w" using serving_served [OF assms] by (simp add: served_def traced_def)
  from searches.read_answers [OF this] show ?thesis
    unfolding search_registry_def by (rule runs_mono) blast
qed

text \<open>
  C32. In the same states the public listing of alerts answers, shows only alerts that are
  published at that moment, computed or cached, and changes nothing but the cache and the clock: a
  withdrawn or expired alert is gone from the very next listing. The condition on the interleaving
  is that no alert leaves its publication while a listing is in flight; without it a withdrawn
  alert is served for a minute, as \<open>overtaken_listing_is_stale\<close> shows.
\<close>

theorem alerts_listing_published:
  assumes "serving rt web ai w in_flight"
  shows "runs (listPublic rt f) w (\<lambda>vs w'. shows_alerts w vs \<and>
    (\<exists>n c. w' = w\<lparr>db_tick := n, process_cache := c\<rparr>))"
proof -
  have "alert_reads.all_good w" using serving_served [OF assms] by (simp add: served_def)
  from alert_reads.read_answers [OF this, of rt] show ?thesis
    unfolding listPublic_def by (rule runs_mono) blast
qed

section \<open>Witnesses\<close>

text \<open>After the first publication one search is in flight, and another one is answered.\<close>

theorem search_shows_published_witness:
  "\<exists>(w :: registry_db) k a. serving demo_rt demo_web demo_ai w [(k, a)] \<and>
     runs (search_registry demo_rt any_query) w (\<lambda>r _. shows_published w r \<and> sr_items r \<noteq> [])"
proof -
  obtain w g where w: "(registry_step demo_rt demo_web demo_ai)\<^sup>*\<^sup>* (demo_registry [] []) w"
    "registry_entries w = [g]" "process_cache w = []" "re_status g = EN_PUBLISHED"
    using first_publication by blast
  have "serving demo_rt demo_web demo_ai (demo_registry [] []) []"
    by (rule serving.start) (simp_all add: demo_registry_def)
  from serving_steps [OF w(1) this] have s: "serving demo_rt demo_web demo_ai w []" .
  have "runs (ask_search demo_rt any_query) w (\<lambda>(r, missed) w'. missed \<and> registry_entries w' = [g] \<and> process_cache w' = [])"
    using w(2-4) by (simp add: ask_search_def ask_cached_def run_simps cache_get_def search_rows_def Let_def)
  then obtain r w1 where ask: "ask_search demo_rt any_query w = (Inr (r, True), w1)"
    and w1: "registry_entries w1 = [g]" "process_cache w1 = []"
    by (auto simp: runs_iff)
  from serving.search_asked [OF s ask] have s1: "serving demo_rt demo_web demo_ai w1 [(search_key any_query, CachedSearch r)]"
    by simp
  have "runs (search_registry demo_rt any_query) w1 (\<lambda>r _. sr_items r = [toPublicRegistryEntry g])"
    by (rule any_query_finds [OF w1(1) w(4) w1(2)])
  with search_shows_published [OF s1, of any_query] s1 show ?thesis
    by (intro exI [of _ w1] exI conjI) (assumption, auto simp: runs_iff)
qed

theorem alerts_listing_published_witness:
  "runs (update_alert_status demo_rt demo_web demo_user ''a1'' \<lparr>us_status = AL_WITHDRAWN, us_reason = None\<rparr> None)
     (snd (listPublic demo_rt all_alerts ((demo_registry [] [])\<lparr>public_alerts := [demo_public_alert]\<rparr>)))
     (\<lambda>_ w. runs (listPublic demo_rt all_alerts) w (\<lambda>vs _. vs = []))"
proof -
  let ?w = "(demo_registry [] [])\<lparr>public_alerts := [demo_public_alert]\<rparr>"
  let ?dto = "\<lparr>us_status = AL_WITHDRAWN, us_reason = None\<rparr>"
  define w1 where "w1 = snd (listPublic demo_rt all_alerts ?w)"
  have "serving demo_rt demo_web demo_ai ?w []" by (rule serving.start) (simp_all add: demo_registry_def)
  note first = alerts_listing_published [OF this, of all_alerts]
  have s1: "serving demo_rt demo_web demo_ai w1 []"
    unfolding w1_def by (rule serving_steps [OF _ \<open>serving demo_rt demo_web demo_ai ?w []\<close>])
      (rule r_into_rtranclp, rule registry_step.alert_listing)
  have a1: "public_alerts w1 = [demo_public_alert]" using first by (auto simp: runs_iff w1_def)
  have "runs (update_alert_status demo_rt demo_web demo_user ''a1'' ?dto None) w1
      (\<lambda>_ w. \<exists>a. public_alerts w = [a] \<and> pa_status a = AL_WITHDRAWN)"
    by (simp add: update_alert_status_def getInternalAlert_def run_simps runs_stamped a1 canTransition_def
        demo_public_alert_def advance_alert_def Let_def case_prod_beta)
  then obtain b w2 a where run: "update_alert_status demo_rt demo_web demo_user ''a1'' ?dto None w1 = (Inr b, w2)"
    and a2: "public_alerts w2 = [a]" "pa_status a = AL_WITHDRAWN"
    by (auto simp: runs_iff)
  have "registry_step demo_rt demo_web demo_ai w1 w2" using registry_step.alert_update run by (metis snd_conv)
  then have "serving demo_rt demo_web demo_ai w2 []"
    by (intro serving_steps [OF _ s1] r_into_rtranclp)
  from alerts_listing_published [OF this, of all_alerts] a2
  have "runs (listPublic demo_rt all_alerts) w2 (\<lambda>vs _. vs = [])"
    by (auto simp: runs_iff shows_alerts_def)
  then show ?thesis using run by (simp add: w1_def [symmetric] runs_iff)
qed

end
