(* ===== verification/Families.thy ===== *)
theory Families
  imports HeldAction
begin

text \<open>
  Families (modules/families, modules/alerts): a user's trusted contacts and alerts, and the
  guardianship of one user over another, which is active only while the protected user consents.
\<close>

section \<open>State\<close>

datatype link_status = GL_PENDING | GL_ACTIVE | GL_DECLINED | GL_REVOKED

record guardian_link =
  gl_id :: string
  gl_tenantId :: string
  gl_guardianUserId :: string
  gl_protectedUserId :: string
  gl_status :: link_status
  gl_scope :: "string list"
  gl_requestedAt :: int
  gl_consentGrantedAt :: "int option"
  gl_consentRevokedAt :: "int option"
  gl_createdAt :: int

record family_db = guard_db +
  guardian_links :: "guardian_link list"

interpretation guardian_links_tab: table guardian_links guardian_links_update
  by unfold_locales simp

section \<open>Alerts\<close>

record alert_input =
  ax_tenantId :: string
  ax_userId :: string
  ax_type :: string
  ax_severity :: string
  ax_title :: string
  ax_message :: string

definition create_user_alert :: "runtime \<Rightarrow> alert_input \<Rightarrow> ('a notify_db_scheme, alert) prog" where
  "create_user_alert rt input =
     bind_p (new_id rt) (\<lambda>uid.
     insert_row alerts_update
       \<lparr>at_id = uid, at_tenantId = ax_tenantId input, at_userId = ax_userId input,
        at_type = ax_type input, at_severity = ax_severity input, at_title = ax_title input,
        at_message = ax_message input, at_readAt = None\<rparr>)"

text \<open>The table keeps the order of creation, so the newest come first when it is reversed.\<close>

definition listForUser :: "auth_user \<Rightarrow> bool \<Rightarrow> ('a notify_db_scheme, alert list) prog" where
  "listForUser user unreadOnly =
     bind_p (find_rows alerts (\<lambda>a. at_userId a = au_userId user \<and> (unreadOnly \<longrightarrow> at_readAt a = None)))
       (\<lambda>rows. ret (take 100 (rev rows)))"

definition read_at :: "int option \<Rightarrow> int \<Rightarrow> alert \<Rightarrow> alert" where
  "read_at prior t a = a\<lparr>at_readAt := Some (or_default prior t)\<rparr>"

definition mark_alert_read :: "runtime \<Rightarrow> auth_user \<Rightarrow> string \<Rightarrow> ('a notify_db_scheme, alert) prog" where
  "mark_alert_read rt user i =
     bind_p (find_row alerts (\<lambda>a. at_id a = i)) (\<lambda>found.
     case found of
       None \<Rightarrow> throw (NotFoundException ''Alert not found'')
     | Some a \<Rightarrow>
         seq_p (ensure (at_userId a = au_userId user) (NotFoundException ''Alert not found''))
         (bind_p (now rt) (\<lambda>t.
          update_row alerts alerts_update (\<lambda>q. at_id q = i) (read_at (at_readAt a) t))))"

section \<open>Trusted contacts\<close>

record contact_dto =
  cd_fullName :: string
  cd_relationship :: "string option"
  cd_email :: "string option"
  cd_phone :: "string option"
  cd_canReceiveAlerts :: "bool option"
  cd_canApprove :: "bool option"

definition create_contact ::
    "runtime \<Rightarrow> auth_user \<Rightarrow> contact_dto \<Rightarrow> ('a review_db_scheme, trusted_contact) prog" where
  "create_contact rt user dto =
     bind_p (new_id rt) (\<lambda>uid. bind_p (now rt) (\<lambda>t.
     insert_row contacts_update
       \<lparr>tc_id = uid, tc_userId = au_userId user, tc_fullName = cd_fullName dto,
        tc_relationship = cd_relationship dto, tc_email = cd_email dto, tc_phone = cd_phone dto,
        tc_active = True, tc_canReceiveAlerts = or_default (cd_canReceiveAlerts dto) True,
        tc_canApprove = or_default (cd_canApprove dto) False, tc_createdAt = t\<rparr>))"

definition list_contacts :: "auth_user \<Rightarrow> ('a review_db_scheme, trusted_contact list) prog" where
  "list_contacts user =
     bind_p (find_rows contacts (\<lambda>c. tc_userId c = au_userId user)) (\<lambda>rows.
     ret (order_desc tc_createdAt rows))"

definition requireOwned :: "auth_user \<Rightarrow> string \<Rightarrow> ('a review_db_scheme, trusted_contact) prog" where
  "requireOwned user i =
     bind_p (find_row contacts (\<lambda>c. tc_id c = i)) (\<lambda>found.
     case found of
       None \<Rightarrow> throw (NotFoundException ''Trusted contact not found'')
     | Some c \<Rightarrow> seq_p (ensure (tc_userId c = au_userId user)
         (NotFoundException ''Trusted contact not found'')) (ret c))"

text \<open>The fields the request has (the optional ones that are present) replace the stored ones.\<close>

record contact_changes =
  ch_fullName :: "string option"
  ch_relationship :: "string option"
  ch_email :: "string option"
  ch_phone :: "string option"
  ch_canReceiveAlerts :: "bool option"
  ch_canApprove :: "bool option"

definition change_contact :: "contact_changes \<Rightarrow> trusted_contact \<Rightarrow> trusted_contact" where
  "change_contact dto c =
     c\<lparr>tc_fullName := or_default (ch_fullName dto) (tc_fullName c),
       tc_relationship := or_else (ch_relationship dto) (tc_relationship c),
       tc_email := or_else (ch_email dto) (tc_email c),
       tc_phone := or_else (ch_phone dto) (tc_phone c),
       tc_canReceiveAlerts := or_default (ch_canReceiveAlerts dto) (tc_canReceiveAlerts c),
       tc_canApprove := or_default (ch_canApprove dto) (tc_canApprove c)\<rparr>"

definition update_contact ::
    "auth_user \<Rightarrow> string \<Rightarrow> contact_changes \<Rightarrow> ('a review_db_scheme, trusted_contact) prog" where
  "update_contact user i dto =
     seq_p (requireOwned user i)
     (update_row contacts contacts_update (\<lambda>c. tc_id c = i) (change_contact dto))"

definition remove_contact :: "auth_user \<Rightarrow> string \<Rightarrow> ('a review_db_scheme, unit) prog" where
  "remove_contact user i =
     seq_p (requireOwned user i) (delete_rows contacts_update (\<lambda>c. tc_id c = i))"

section \<open>Guardianship\<close>

definition DEFAULT_SCOPE :: "string list" where
  "DEFAULT_SCOPE = [''RISK_OVERVIEW'', ''ALERTS'']"

definition link_event ::
    "guardian_link \<Rightarrow> string \<Rightarrow> string \<Rightarrow> string \<Rightarrow> string \<Rightarrow> string option \<Rightarrow> append_input" where
  "link_event l actorId actorType evtype descr ip =
     \<lparr>in_tenantId = Some (gl_tenantId l), in_actorId = Some actorId, in_actorType = Some actorType,
      in_entityType = ''GUARDIAN_LINK'', in_entityId = gl_id l, in_eventType = evtype,
      in_eventDescription = descr,
      in_metadata = JObj [(''guardianUserId'', JStr (gl_guardianUserId l)),
        (''protectedUserId'', JStr (gl_protectedUserId l))],
      in_ipAddress = ip, in_deviceId = None\<rparr>"

definition requested_again :: "int \<Rightarrow> guardian_link \<Rightarrow> guardian_link" where
  "requested_again t l =
     l\<lparr>gl_status := GL_PENDING, gl_scope := DEFAULT_SCOPE, gl_requestedAt := t,
       gl_consentGrantedAt := None, gl_consentRevokedAt := None\<rparr>"

definition new_link :: "auth_user \<Rightarrow> string \<Rightarrow> string \<Rightarrow> int \<Rightarrow> guardian_link" where
  "new_link guardian protectedId uid t =
     \<lparr>gl_id = uid, gl_tenantId = au_tenantId guardian, gl_guardianUserId = au_userId guardian,
      gl_protectedUserId = protectedId, gl_status = GL_PENDING, gl_scope = DEFAULT_SCOPE,
      gl_requestedAt = t, gl_consentGrantedAt = None, gl_consentRevokedAt = None, gl_createdAt = t\<rparr>"

definition open_link ::
    "runtime \<Rightarrow> auth_user \<Rightarrow> string \<Rightarrow> guardian_link option \<Rightarrow> ('a family_db_scheme, guardian_link) prog"
  where
  "open_link rt guardian protectedId existing =
     (case existing of
        Some old \<Rightarrow> bind_p (now rt) (\<lambda>t.
          update_row guardian_links guardian_links_update (\<lambda>l. gl_id l = gl_id old) (requested_again t))
      | None \<Rightarrow> bind_p (new_id rt) (\<lambda>uid. bind_p (now rt) (\<lambda>t.
          insert_row guardian_links_update (new_link guardian protectedId uid t))))"

definition requestGuardianship ::
    "runtime \<Rightarrow> auth_user \<Rightarrow> string \<Rightarrow> string option \<Rightarrow> ('a family_db_scheme, guardian_link) prog" where
  "requestGuardianship rt guardian protectedUserEmail ip =
     (let email = trim (to_lower protectedUserEmail) in
      bind_p (find_row users (\<lambda>u. us_email u = email)) (\<lambda>account.
      bind_p (require_some account (NotFoundException ''No VIGISCAM account with that email'')) (\<lambda>u.
      seq_p (ensure (us_id u \<noteq> au_userId guardian)
        (BadRequestException ''You cannot request guardianship of your own account''))
      (bind_p (find_row guardian_links (\<lambda>l. gl_guardianUserId l = au_userId guardian \<and>
          gl_protectedUserId l = us_id u)) (\<lambda>existing.
       seq_p (ensure (case existing of None \<Rightarrow> True
           | Some l \<Rightarrow> gl_status l \<noteq> GL_PENDING \<and> gl_status l \<noteq> GL_ACTIVE)
         (ConflictException ''A guardianship request already exists for this person''))
       (bind_p (open_link rt guardian (us_id u) existing) (\<lambda>l.
        seq_p (append_evidence rt (link_event l (au_userId guardian) ''USER'' ''GUARDIANSHIP_REQUESTED''
          ''Guardianship requested; awaiting protected-user consent'' ip))
        (ret l))))))))"

definition listAsGuardian :: "auth_user \<Rightarrow> ('a family_db_scheme, guardian_link list) prog" where
  "listAsGuardian user =
     bind_p (find_rows guardian_links (\<lambda>l. gl_guardianUserId l = au_userId user)) (\<lambda>rows.
     ret (order_desc gl_createdAt rows))"

definition listAsProtected :: "auth_user \<Rightarrow> ('a family_db_scheme, guardian_link list) prog" where
  "listAsProtected user =
     bind_p (find_rows guardian_links (\<lambda>l. gl_protectedUserId l = au_userId user)) (\<lambda>rows.
     ret (order_desc gl_createdAt rows))"

definition requireProtectedUserLink ::
    "auth_user \<Rightarrow> string \<Rightarrow> ('a family_db_scheme, guardian_link) prog" where
  "requireProtectedUserLink user i =
     bind_p (find_row guardian_links (\<lambda>l. gl_id l = i)) (\<lambda>found.
     case found of
       None \<Rightarrow> throw (NotFoundException ''Guardianship request not found'')
     | Some l \<Rightarrow> seq_p (ensure (gl_protectedUserId l = au_userId user)
         (NotFoundException ''Guardianship request not found'')) (ret l))"

text \<open>The three answers of the protected user have one shape.\<close>

definition answer_link ::
    "runtime \<Rightarrow> auth_user \<Rightarrow> string \<Rightarrow> link_status \<Rightarrow> string \<Rightarrow> (int \<Rightarrow> guardian_link \<Rightarrow> guardian_link) \<Rightarrow>
     string \<Rightarrow> string \<Rightarrow> string option \<Rightarrow> ('a family_db_scheme, guardian_link) prog" where
  "answer_link rt user i expected refusal f evtype descr ip =
     bind_p (requireProtectedUserLink user i) (\<lambda>l.
     seq_p (ensure (gl_status l = expected) (BadRequestException refusal))
     (bind_p (now rt) (\<lambda>t.
      bind_p (update_row guardian_links guardian_links_update (\<lambda>l. gl_id l = i) (f t)) (\<lambda>updated.
      seq_p (append_evidence rt (link_event updated (au_userId user) ''USER'' evtype descr ip))
      (ret updated)))))"

definition granted :: "int \<Rightarrow> guardian_link \<Rightarrow> guardian_link" where
  "granted t l = l\<lparr>gl_status := GL_ACTIVE, gl_consentGrantedAt := Some t\<rparr>"

definition grantConsent ::
    "runtime \<Rightarrow> auth_user \<Rightarrow> string \<Rightarrow> string option \<Rightarrow> ('a family_db_scheme, guardian_link) prog" where
  "grantConsent rt user i ip =
     answer_link rt user i GL_PENDING ''This guardianship request is not pending'' granted
       ''CONSENT_GRANTED'' ''Protected user granted monitoring consent'' ip"

definition declined :: "int \<Rightarrow> guardian_link \<Rightarrow> guardian_link" where
  "declined t l = l\<lparr>gl_status := GL_DECLINED\<rparr>"

definition declineConsent ::
    "runtime \<Rightarrow> auth_user \<Rightarrow> string \<Rightarrow> string option \<Rightarrow> ('a family_db_scheme, guardian_link) prog" where
  "declineConsent rt user i ip =
     answer_link rt user i GL_PENDING ''This guardianship request is not pending'' declined
       ''CONSENT_DECLINED'' ''Protected user declined the guardianship request'' ip"

definition revoked :: "int \<Rightarrow> guardian_link \<Rightarrow> guardian_link" where
  "revoked t l = l\<lparr>gl_status := GL_REVOKED, gl_consentRevokedAt := Some t\<rparr>"

definition revokeConsent ::
    "runtime \<Rightarrow> auth_user \<Rightarrow> string \<Rightarrow> string option \<Rightarrow> ('a family_db_scheme, guardian_link) prog" where
  "revokeConsent rt user i ip =
     answer_link rt user i GL_ACTIVE ''This guardianship is not active'' revoked
       ''CONSENT_REVOKED'' ''Protected user revoked monitoring consent'' ip"

record risk_view =
  rk_id :: string
  rk_eventType :: string
  rk_riskLevel :: risk_level
  rk_riskScore :: int

record protected_summary =
  gs_userId :: string
  gs_fullName :: string
  gs_scope :: "string list"
  gs_consentGrantedAt :: "int option"
  gs_openAlerts :: nat
  gs_recentRiskEvents :: "risk_view list"

definition as_risk_view :: "risk_event \<Rightarrow> risk_view" where
  "as_risk_view r = \<lparr>rk_id = re_id r, rk_eventType = re_eventType r, rk_riskLevel = re_riskLevel r,
     rk_riskScore = re_riskScore r\<rparr>"

text \<open>
  The protected user is read with the link; a missing account, which the foreign key excludes,
  is a type error when the answer is built.
\<close>

definition getProtectedSummary ::
    "runtime \<Rightarrow> auth_user \<Rightarrow> string \<Rightarrow> string option \<Rightarrow> ('a family_db_scheme, protected_summary) prog" where
  "getProtectedSummary rt guardian i ip =
     bind_p (find_row guardian_links (\<lambda>l. gl_id l = i)) (\<lambda>found.
     case found of
       None \<Rightarrow> throw (NotFoundException ''Guardianship not found'')
     | Some l \<Rightarrow>
     bind_p (find_row users (\<lambda>u. us_id u = gl_protectedUserId l)) (\<lambda>account.
     seq_p (ensure (gl_guardianUserId l = au_userId guardian) (NotFoundException ''Guardianship not found''))
     (seq_p (ensure (gl_status l = GL_ACTIVE) (ForbiddenException
       (''Monitoring is not active '' @ em_dash @ '' consent was not granted or has been revoked'') []))
     (bind_p (find_rows risk_events (\<lambda>r. re_userId r = gl_protectedUserId l)) (\<lambda>risks.
      bind_p (count_rows alerts (\<lambda>a. at_userId a = gl_protectedUserId l \<and> at_readAt a = None)) (\<lambda>openAlerts.
      seq_p (append_evidence rt (link_event l (au_userId guardian) ''GUARDIAN''
        ''GUARDIAN_ACCESSED_PROTECTED_USER'' (''Guardian viewed the protected user'' @ [CHR 0x27] @ ''s risk summary'') ip))
      (bind_p (require_some account (InternalError ''TypeError'')) (\<lambda>u.
       ret \<lparr>gs_userId = us_id u, gs_fullName = us_fullName u, gs_scope = gl_scope l,
            gs_consentGrantedAt = gl_consentGrantedAt l, gs_openAlerts = openAlerts,
            gs_recentRiskEvents = map as_risk_view (take 10 (rev risks))\<rparr>))))))))"

section \<open>The log is respected\<close>

lemma link_event_storable [simp]: "storable (in_metadata (link_event l a at t d ip))"
  by (simp add: link_event_def)

lemma guardianship_safe:
  "moves (log_safe rt) (requestGuardianship rt user email ip)"
  "moves (log_safe rt) (grantConsent rt user i ip)" "moves (log_safe rt) (declineConsent rt user i ip)"
  "moves (log_safe rt) (revokeConsent rt user i ip)" "moves (log_safe rt) (getProtectedSummary rt user i ip)"
  unfolding requestGuardianship_def open_link_def grantConsent_def declineConsent_def revokeConsent_def
    answer_link_def requireProtectedUserLink_def getProtectedSummary_def Let_def
  by (auto simp: log_untouched intro!: safe_rules append_safe split: option.split)

section \<open>Consent\<close>

text \<open>
  The protocol of consent between a guardian and a protected user, as the log of their link must
  show it: who may do what in which state. No state at all is the one before the first request.
\<close>

definition consent_step ::
    "string \<Rightarrow> string \<Rightarrow> link_status option \<Rightarrow> string \<times> string option \<Rightarrow> link_status option option" where
  "consent_step g p st ev =
     (let (ty, actor) = ev in
      if ty = ''GUARDIANSHIP_REQUESTED'' \<and> actor = Some g \<and> st \<in> {None, Some GL_DECLINED, Some GL_REVOKED}
        then Some (Some GL_PENDING)
      else if ty = ''CONSENT_GRANTED'' \<and> actor = Some p \<and> st = Some GL_PENDING then Some (Some GL_ACTIVE)
      else if ty = ''CONSENT_DECLINED'' \<and> actor = Some p \<and> st = Some GL_PENDING then Some (Some GL_DECLINED)
      else if ty = ''CONSENT_REVOKED'' \<and> actor = Some p \<and> st = Some GL_ACTIVE then Some (Some GL_REVOKED)
      else if ty = ''GUARDIAN_ACCESSED_PROTECTED_USER'' \<and> actor = Some g \<and> st = Some GL_ACTIVE then Some st
      else None)"

primrec consent_run ::
    "string \<Rightarrow> string \<Rightarrow> link_status option \<Rightarrow> (string \<times> string option) list \<Rightarrow> link_status option option" where
  "consent_run g p st [] = Some st"
| "consent_run g p st (ev # evs) =
     (case consent_step g p st ev of None \<Rightarrow> None | Some st' \<Rightarrow> consent_run g p st' evs)"

definition link_trace :: "string \<Rightarrow> ('a core_db_scheme) \<Rightarrow> (string \<times> string option) list" where
  "link_trace i w = map (\<lambda>e. (ev_eventType e, ev_actorId e))
     (filter (\<lambda>e. ev_entityType e = ''GUARDIAN_LINK'' \<and> ev_entityId e = i) (evidence_events w))"

definition consent_of :: "('a core_db_scheme) \<Rightarrow> guardian_link \<Rightarrow> link_status option option" where
  "consent_of w l = consent_run (gl_guardianUserId l) (gl_protectedUserId l) None (link_trace (gl_id l) w)"

lemma consent_run_snoc:
  "consent_run g p st (evs @ [ev]) =
     (case consent_run g p st evs of None \<Rightarrow> None | Some st' \<Rightarrow> consent_step g p st' ev)"
  by (induction evs arbitrary: st) (auto split: option.split)

definition consented :: "('a family_db_scheme) \<Rightarrow> bool" where
  "consented w \<longleftrightarrow> distinct (map gl_id (guardian_links w)) \<and>
     (\<forall>l\<in>set (guardian_links w). consent_of w l = Some (Some (gl_status l))) \<and>
     (\<forall>i. i \<notin> gl_id ` set (guardian_links w) \<longrightarrow> link_trace i w = [])"

text \<open>A change that keeps the two users of a link.\<close>

definition same_parties :: "(guardian_link \<Rightarrow> guardian_link) \<Rightarrow> bool" where
  "same_parties f \<longleftrightarrow> (\<forall>l. gl_id (f l) = gl_id l \<and> gl_guardianUserId (f l) = gl_guardianUserId l \<and>
     gl_protectedUserId (f l) = gl_protectedUserId l)"

lemma updates_same_parties [simp]:
  "same_parties (requested_again t)" "same_parties (granted t)" "same_parties (declined t)"
  "same_parties (revoked t)" "same_parties id" "same_parties (\<lambda>l. l)"
  by (simp_all add: same_parties_def requested_again_def granted_def declined_def revoked_def)

lemma acted:
  assumes w: "consented w" "find (\<lambda>l. gl_id l = i) (guardian_links w) = Some l" "same_parties f"
    and w': "guardian_links w' = map (\<lambda>l. if gl_id l = i then f l else l) (guardian_links w)"
      "evidence_events w' = evidence_events w @ [e]"
    and e: "ev_entityType e = ''GUARDIAN_LINK''" "ev_entityId e = i"
    and step: "consent_step (gl_guardianUserId l) (gl_protectedUserId l) (Some (gl_status l))
      (ev_eventType e, ev_actorId e) = Some (Some (gl_status (f l)))"
  shows "consented w'"
proof -
  have l: "l \<in> set (guardian_links w)" "gl_id l = i" using find_SomeD [OF w(2)] by auto
  have ids: "map gl_id (guardian_links w') = map gl_id (guardian_links w)"
    using w(3) by (simp add: w' same_parties_def comp_def cong: if_cong)
  have trace: "link_trace j w' = link_trace j w @ (if j = i then [(ev_eventType e, ev_actorId e)] else [])" for j
    using e by (simp add: link_trace_def w'(2))
  have only: "q = l" if "q \<in> set (guardian_links w)" "gl_id q = i" for q
    using w(1) same_key [of gl_id] that l by (metis consented_def)
  have "consent_of w' q = Some (Some (gl_status q))" if q: "q \<in> set (guardian_links w')" for q
  proof (cases "gl_id q = i")
    case True
    then have "q = f l" using q only w(3) by (auto simp: w'(1) same_parties_def split: if_splits)
    moreover have "consent_of w l = Some (Some (gl_status l))" using w(1) l(1) by (simp add: consented_def)
    ultimately show ?thesis
      using w(3) step l(2) by (simp add: consent_of_def trace same_parties_def consent_run_snoc)
  next
    case False
    then have "q \<in> set (guardian_links w)" using q w(3) by (auto simp: w'(1) same_parties_def split: if_splits)
    then show ?thesis using w(1) False by (simp add: consented_def consent_of_def trace)
  qed
  moreover have "gl_id ` set (guardian_links w') = gl_id ` set (guardian_links w)"
    using arg_cong [OF ids, of set] by simp
  ultimately show ?thesis
    using w(1) ids l by (auto simp: consented_def trace)
qed

lemma link_event_fields [simp]:
  "in_entityType (link_event l a at t d ip) = ''GUARDIAN_LINK''"
  "in_entityId (link_event l a at t d ip) = gl_id l"
  "in_eventType (link_event l a at t d ip) = t" "in_actorId (link_event l a at t d ip) = Some a"
  by (simp_all add: link_event_def)

lemma ends_refused: "raises m w (\<lambda>_ w'. w' = w) \<Longrightarrow> (\<And>e. P (Inl e) w) \<Longrightarrow> ends m w P"
  by (auto simp: ends_iff raises_iff)

text \<open>An answer of the protected user, or nothing.\<close>

lemma answer_consented:
  assumes "consented w" "\<And>t. same_parties (f t)" "\<And>t l. gl_status (f t l) = st"
    and "\<And>g p. consent_step g p (Some expected) (evtype, Some p) = Some (Some st)"
  shows "ends (answer_link rt user i expected refusal f evtype descr ip) w (\<lambda>_ w'. consented w')"
proof (cases "\<exists>l. find (\<lambda>l. gl_id l = i) (guardian_links w) = Some l \<and>
    gl_protectedUserId l = au_userId user \<and> gl_status l = expected")
  case True
  then obtain l where l: "find (\<lambda>l. gl_id l = i) (guardian_links w) = Some l"
    "gl_protectedUserId l = au_userId user" "gl_status l = expected" by blast
  have i: "gl_id (f t l) = i" for t using find_SomeD [OF l(1)] assms(2) by (simp add: same_parties_def)
  have "runs (answer_link rt user i expected refusal f evtype descr ip) w (\<lambda>_ w'. consented w')"
    using assms(4) [of "gl_guardianUserId l" "gl_protectedUserId l"] l
    by (simp add: answer_link_def requireProtectedUserLink_def run_simps runs_stamped)
       (rule acted [OF assms(1) l(1), of "f t" for t], auto simp: assms(2,3) i l)
  then show ?thesis by (rule ends_runs)
next
  case False
  then have "raises (answer_link rt user i expected refusal f evtype descr ip) w (\<lambda>_ w'. w' = w)"
    by (cases "find (\<lambda>l. gl_id l = i) (guardian_links w)")
       (auto simp: answer_link_def requireProtectedUserLink_def run_simps)
  with assms(1) show ?thesis by (auto intro: ends_refused)
qed

lemma summary_outcome:
  assumes "consented w"
  shows "ends (getProtectedSummary rt user i ip) w (\<lambda>r w'. consented w' \<and>
    (\<not> isl r \<longrightarrow> (\<exists>l\<in>set (guardian_links w). gl_id l = i \<and> gl_guardianUserId l = au_userId user \<and>
       gl_status l = GL_ACTIVE)))"
proof (cases "\<exists>l. find (\<lambda>l. gl_id l = i) (guardian_links w) = Some l \<and>
    gl_guardianUserId l = au_userId user \<and> gl_status l = GL_ACTIVE")
  case True
  then obtain l where l: "find (\<lambda>l. gl_id l = i) (guardian_links w) = Some l"
    "gl_guardianUserId l = au_userId user" "gl_status l = GL_ACTIVE" by blast
  have i: "gl_id l = i" "l \<in> set (guardian_links w)" using find_SomeD [OF l(1)] by auto
  have "consented (evidence_events_update (\<lambda>es. es @ [stamped rt (link_event l (au_userId user) ''GUARDIAN''
      ''GUARDIAN_ACCESSED_PROTECTED_USER'' d ip) v]) (w\<lparr>db_tick := n\<rparr>))" for d n
      and v :: "'a family_db_scheme"
    by (rule acted [OF assms l(1), of "\<lambda>l. l"]) (auto simp: i l consent_step_def)
  then show ?thesis
    using l i by (cases "find (\<lambda>u. us_id u = gl_protectedUserId l) (users w)")
      (auto simp: getProtectedSummary_def ends_iff run_simps runs_stamped)
next
  case False
  then have "raises (getProtectedSummary rt user i ip) w (\<lambda>_ w'. w' = w)"
    by (cases "find (\<lambda>l. gl_id l = i) (guardian_links w)")
       (auto simp: getProtectedSummary_def run_simps)
  with assms show ?thesis by (auto intro: ends_refused)
qed

lemma request_consented:
  assumes "consented w" "fresh_ids rt w (gl_id ` set (guardian_links w))"
  shows "ends (requestGuardianship rt user email ip) w (\<lambda>_ w'. consented w')"
proof -
  let ?ok = "\<lambda>u. find (\<lambda>u. us_email u = trim (to_lower email)) (users w) = Some u \<and> us_id u \<noteq> au_userId user"
  let ?pair = "\<lambda>u l. gl_guardianUserId l = au_userId user \<and> gl_protectedUserId l = us_id u"
  consider (no) "raises (requestGuardianship rt user email ip) w (\<lambda>_ w'. w' = w)"
    | (again) u l where "?ok u" "find (?pair u) (guardian_links w) = Some l"
        "gl_status l \<noteq> GL_PENDING" "gl_status l \<noteq> GL_ACTIVE"
    | (first) u where "?ok u" "find (?pair u) (guardian_links w) = None"
  proof (cases "find (\<lambda>u. us_email u = trim (to_lower email)) (users w)")
    case (Some u)
    then show ?thesis
      using that by (cases "find (?pair u) (guardian_links w)")
        (auto simp: requestGuardianship_def Let_def run_simps)
  qed (use that in \<open>simp add: requestGuardianship_def Let_def run_simps\<close>)
  then show ?thesis
  proof cases
    case no
    with assms(1) show ?thesis by (auto intro: ends_refused)
  next
    case (again u l)
    have l: "l \<in> set (guardian_links w)" "?pair u l" using find_SomeD [OF again(2)] by auto
    then obtain q where q: "find (\<lambda>q. gl_id q = gl_id l) (guardian_links w) = Some q"
      using find_ex [of "\<lambda>q. gl_id q = gl_id l" "guardian_links w"] by auto
    moreover have "q = l"
      using find_SomeD [OF q] l(1) assms(1) same_key [of gl_id "guardian_links w"] by (auto simp: consented_def)
    ultimately have "runs (requestGuardianship rt user email ip) w (\<lambda>_ w'. consented w')"
      using again l
      by (simp add: requestGuardianship_def Let_def open_link_def run_simps runs_stamped)
         (rule acted [OF assms(1), of "gl_id l" l "requested_again t" for t],
          auto simp: requested_again_def consent_step_def,
          cases "gl_status l", auto)
    then show ?thesis by (rule ends_runs)
  next
    case (first u)
    let ?l = "new_link user (us_id u) (rt_uuid rt (db_tick w)) (rt_clock rt (Suc (db_tick w)))"
    have new: "gl_id ?l \<notin> gl_id ` set (guardian_links w)"
      using assms(2) by (auto simp: new_link_def fresh_ids_def)
    have trace: "link_trace j w' = link_trace j w @
        (if j = gl_id ?l then [(''GUARDIANSHIP_REQUESTED'', Some (au_userId user))] else [])"
      if "evidence_events w' = evidence_events w @ [stamped rt (link_event ?l (au_userId user) ''USER''
        ''GUARDIANSHIP_REQUESTED'' d ip) v]" for j d and v w' :: "'a family_db_scheme"
      using that by (simp add: link_trace_def)
    have none: "link_trace (gl_id ?l) w = []" using assms(1) new by (simp add: consented_def)
    have "consented w'" if "guardian_links w' = guardian_links w @ [?l]"
      "evidence_events w' = evidence_events w @ [stamped rt (link_event ?l (au_userId user) ''USER''
        ''GUARDIANSHIP_REQUESTED'' d ip) v]" for d and v w' :: "'a family_db_scheme"
    proof -
      have "consent_of w' q = Some (Some (gl_status q))" if "q \<in> set (guardian_links w)" for q
      proof -
        have "gl_id q \<noteq> gl_id ?l" using that new by (metis imageI)
        then show ?thesis
          using assms(1) that trace [OF \<open>evidence_events w' = _\<close>] by (simp add: consented_def consent_of_def)
      qed
      moreover have "consent_of w' ?l = Some (Some (gl_status ?l))"
        using trace [OF \<open>evidence_events w' = _\<close>] none
        by (simp add: consent_of_def) (simp add: new_link_def consent_step_def)
      ultimately show ?thesis
        using assms(1) new that(1) trace [OF that(2)] by (auto simp: consented_def)
    qed
    then have "runs (requestGuardianship rt user email ip) w (\<lambda>_ w'. consented w')"
      using first by (simp add: requestGuardianship_def Let_def open_link_def run_simps runs_stamped)
    then show ?thesis by (rule ends_runs)
  qed
qed

text \<open>
  A system that started without links, after any operations on them; \<open>elsewhere\<close> stands for
  everything else, which touches no link and logs nothing about one.
\<close>

inductive guarded :: "runtime \<Rightarrow> ('a family_db_scheme) \<Rightarrow> bool" for rt where
  start: "guardian_links w = [] \<Longrightarrow> \<forall>e\<in>set (evidence_events w). ev_entityType e \<noteq> ''GUARDIAN_LINK'' \<Longrightarrow>
    guarded rt w"
| request: "guarded rt w \<Longrightarrow> fresh_ids rt w (gl_id ` set (guardian_links w)) \<Longrightarrow>
    guarded rt (snd (requestGuardianship rt user email ip w))"
| grant: "guarded rt w \<Longrightarrow> guarded rt (snd (grantConsent rt user i ip w))"
| decline: "guarded rt w \<Longrightarrow> guarded rt (snd (declineConsent rt user i ip w))"
| revoke: "guarded rt w \<Longrightarrow> guarded rt (snd (revokeConsent rt user i ip w))"
| access: "guarded rt w \<Longrightarrow> guarded rt (snd (getProtectedSummary rt user i ip w))"
| elsewhere: "guarded rt w \<Longrightarrow> guardian_links w' = guardian_links w \<Longrightarrow>
    evidence_events w' = evidence_events w @ es \<Longrightarrow> \<forall>e\<in>set es. ev_entityType e \<noteq> ''GUARDIAN_LINK'' \<Longrightarrow>
    guarded rt w'"

lemma ends_state: "ends m w (\<lambda>_ w'. Q w') \<Longrightarrow> Q (snd (m w))"
  by (simp add: ends_def split: prod.splits)

lemma answers_consented:
  assumes "consented w"
  shows "consented (snd (grantConsent rt user i ip w))" "consented (snd (declineConsent rt user i ip w))"
    "consented (snd (revokeConsent rt user i ip w))"
  unfolding grantConsent_def declineConsent_def revokeConsent_def
  by (rule ends_state, rule answer_consented [OF assms], simp, simp add: granted_def declined_def revoked_def,
      simp add: consent_step_def)+

lemma guarded_consented: "guarded rt w \<Longrightarrow> consented w"
proof (induction rule: guarded.induct)
  case (start w)
  then show ?case by (simp add: consented_def link_trace_def)
next
  case (request w user email ip)
  then show ?case by (intro ends_state [OF request_consented])
next
  case (access w user i ip)
  then show ?case
    by (intro ends_state [where Q = consented]) (rule ends_mono [OF summary_outcome], simp_all)
next
  case (elsewhere w w' es)
  then have "link_trace i w' = link_trace i w" for i by (simp add: link_trace_def)
  with elsewhere show ?case by (simp add: consented_def consent_of_def)
qed (simp_all add: answers_consented)

text \<open>
  C16. Guardianship follows its protocol of consent, and the log proves it. In every reachable
  state the events logged on a link are a run of the protocol, with the guardian asking and
  looking and the protected user granting, declining and revoking, and it ends in the status the
  link has. A guardian sees a summary only when this run ends with consent granted and not
  revoked.
\<close>

theorem monitoring_needs_consent:
  assumes "guarded rt w" "l \<in> set (guardian_links w)"
  shows "consent_of w l = Some (Some (gl_status l)) \<and>
    (runs (getProtectedSummary rt u (gl_id l) ip) w (\<lambda>_ _. True) \<longrightarrow>
       au_userId u = gl_guardianUserId l \<and> consent_of w l = Some (Some GL_ACTIVE))"
proof -
  have c: "consented w" by (rule guarded_consented [OF assms(1)])
  then have same: "q = l" if "q \<in> set (guardian_links w)" "gl_id q = gl_id l" for q
    using that assms(2) same_key [of gl_id "guardian_links w"] by (auto simp: consented_def)
  have "consent_of w l = Some (Some (gl_status l))" using c assms(2) by (simp add: consented_def)
  moreover have "au_userId u = gl_guardianUserId l \<and> gl_status l = GL_ACTIVE"
    if "runs (getProtectedSummary rt u (gl_id l) ip) w (\<lambda>_ _. True)"
    using that summary_outcome [OF c, of rt u "gl_id l" ip] same
    by (fastforce simp: ends_def runs_iff split: prod.splits)
  ultimately show ?thesis by simp
qed

definition demo_family :: "app_user list \<Rightarrow> family_db" where
  "demo_family us = \<lparr>db_tick = 0, evidence_events = [], audit_logs = [], jobs = [],
     ws_events = [], evidence_files = [], export_bundles = [], deliveries = [], alerts = [],
     users = us, contacts = [], reviews = [], settings = [], profiles = [], risk_events = [],
     guardian_links = []\<rparr>"

definition demo_parent :: app_user where
  "demo_parent = \<lparr>us_id = ''u2'', us_email = ''p@x.org'', us_fullName = ''Pat'', us_elderModeEnabled = False\<rparr>"

text \<open>The guardian asks, the protected user consents: the guardian may look.\<close>

theorem monitoring_needs_consent_witness:
  "\<exists>(w :: family_db) l. guarded demo_rt w \<and> l \<in> set (guardian_links w) \<and>
     runs (getProtectedSummary demo_rt demo_user (gl_id l) None) w (\<lambda>s _. gs_fullName s = ''Pat'') \<and>
     consent_of w l = Some (Some GL_ACTIVE)"
proof -
  define w0 where "w0 = demo_family [demo_parent]"
  let ?i = "rt_uuid demo_rt 0"
  let ?l = "new_link demo_user ''u2'' ?i (rt_clock demo_rt (Suc 0))"
  have email: "trim (to_lower ''P@x.org '') = ''p@x.org''" by (simp add: text_eval)
  have g0: "guarded demo_rt w0" by (rule guarded.start) (simp_all add: w0_def demo_family_def)
  obtain w1 where run1: "requestGuardianship demo_rt demo_user ''P@x.org '' None w0 = (Inr ?l, w1)"
    and w1: "guardian_links w1 = [?l]" "users w1 = [demo_parent]" "evidence_events w1 \<noteq> []"
  proof -
    have "runs (requestGuardianship demo_rt demo_user ''P@x.org '' None) w0 (\<lambda>l w1. l = ?l \<and>
        guardian_links w1 = [?l] \<and> users w1 = [demo_parent] \<and> evidence_events w1 \<noteq> [])"
      by (simp add: requestGuardianship_def open_link_def Let_def email run_simps runs_stamped w0_def
          demo_family_def demo_parent_def demo_user_def)
    then show thesis using that by (auto simp: runs_iff)
  qed
  have g1: "guarded demo_rt w1"
    using guarded.request [OF g0, of demo_user "''P@x.org ''" None] run1
    by (simp add: w0_def demo_family_def fresh_ids_def)
  let ?p = "demo_user\<lparr>au_userId := ''u2''\<rparr>"
  have l: "gl_id ?l = ?i" "gl_protectedUserId ?l = ''u2''" "gl_status ?l = GL_PENDING"
    "gl_guardianUserId ?l = au_userId demo_user" by (simp_all add: new_link_def)
  have "runs (grantConsent demo_rt ?p ?i None) w1 (\<lambda>r w2. (\<exists>t. r = granted t ?l \<and>
      guardian_links w2 = [granted t ?l]) \<and> users w2 = [demo_parent])"
    by (simp add: grantConsent_def answer_link_def requireProtectedUserLink_def run_simps runs_stamped w1 l)
       (rule exI, rule refl)
  then obtain w2 t where run2: "grantConsent demo_rt ?p ?i None w1 = (Inr (granted t ?l), w2)"
    and w2: "guardian_links w2 = [granted t ?l]" "users w2 = [demo_parent]"
    by (auto simp only: runs_iff)
  have m: "gl_id (granted t ?l) = ?i" "gl_protectedUserId (granted t ?l) = ''u2''"
    "gl_status (granted t ?l) = GL_ACTIVE" "gl_guardianUserId (granted t ?l) = au_userId demo_user"
    using l by (simp_all add: granted_def)
  have g2: "guarded demo_rt w2" using guarded.grant [OF g1, of ?p "?i" None] run2 by simp
  have "runs (getProtectedSummary demo_rt demo_user ?i None) w2 (\<lambda>s _. gs_fullName s = ''Pat'')"
    by (simp add: getProtectedSummary_def run_simps runs_stamped w2 m demo_parent_def)
  moreover from this have "runs (getProtectedSummary demo_rt demo_user (gl_id (granted t ?l)) None) w2 (\<lambda>_ _. True)"
    unfolding m by (rule runs_mono) simp
  with monitoring_needs_consent [OF g2, of "granted t ?l" demo_user None] w2 m
  have "consent_of w2 (granted t ?l) = Some (Some GL_ACTIVE)" by simp
  ultimately show ?thesis
    using g2 w2 by (intro exI [of _ w2] exI [of _ "granted t ?l"]) (simp add: m)
qed

end
