(* ===== verification/Billing.thy ===== *)
theory Billing
  imports Webhooks
begin

text \<open>
  Billing (modules/billing, common/billing): the plan of a tenant, which Stripe's webhooks, an
  administrator's manual invoice and the checkout change, and the guard that admits a tenant to
  the routes its plan covers.
\<close>

section \<open>Plans\<close>

datatype billing_plan = BP_FREE | BP_BASIC | BP_FAMILY_GUARDIAN | BP_PREMIUM_SHIELD

fun plan_text :: "billing_plan \<Rightarrow> string" where
  "plan_text BP_FREE = ''FREE''"
| "plan_text BP_BASIC = ''BASIC''"
| "plan_text BP_FAMILY_GUARDIAN = ''FAMILY_GUARDIAN''"
| "plan_text BP_PREMIUM_SHIELD = ''PREMIUM_SHIELD''"

definition BILLING_PLANS :: "billing_plan list" where
  "BILLING_PLANS = [BP_FREE, BP_BASIC, BP_FAMILY_GUARDIAN, BP_PREMIUM_SHIELD]"

definition isBillingPlan :: "string \<Rightarrow> bool" where
  "isBillingPlan v \<longleftrightarrow> v \<in> set (map plan_text BILLING_PLANS)"

record plan_definition =
  pd_plan :: billing_plan
  pd_displayName :: string
  pd_priceEnvVar :: "string option"
  pd_requiresCheckout :: bool

fun PLAN_REGISTRY :: "billing_plan \<Rightarrow> plan_definition" where
  "PLAN_REGISTRY BP_FREE = \<lparr>pd_plan = BP_FREE, pd_displayName = ''Free'', pd_priceEnvVar = None,
     pd_requiresCheckout = False\<rparr>"
| "PLAN_REGISTRY BP_BASIC = \<lparr>pd_plan = BP_BASIC, pd_displayName = ''Vigiscam Basic'',
     pd_priceEnvVar = Some ''STRIPE_PRICE_BASIC'', pd_requiresCheckout = True\<rparr>"
| "PLAN_REGISTRY BP_FAMILY_GUARDIAN = \<lparr>pd_plan = BP_FAMILY_GUARDIAN,
     pd_displayName = ''Vigiscam Family Guardian'',
     pd_priceEnvVar = Some ''STRIPE_PRICE_FAMILY_GUARDIAN'', pd_requiresCheckout = True\<rparr>"
| "PLAN_REGISTRY BP_PREMIUM_SHIELD = \<lparr>pd_plan = BP_PREMIUM_SHIELD,
     pd_displayName = ''Vigiscam Premium Shield'',
     pd_priceEnvVar = Some ''STRIPE_PRICE_PREMIUM_SHIELD'', pd_requiresCheckout = True\<rparr>"

definition PURCHASABLE_PLANS :: "billing_plan list" where
  "PURCHASABLE_PLANS = [BP_BASIC, BP_FAMILY_GUARDIAN, BP_PREMIUM_SHIELD]"

datatype plan_status = SB_INACTIVE | SB_TRIALING | SB_ACTIVE | SB_PAST_DUE | SB_CANCELED | SB_MANUAL

fun plan_status_text :: "plan_status \<Rightarrow> string" where
  "plan_status_text SB_INACTIVE = ''INACTIVE''"
| "plan_status_text SB_TRIALING = ''TRIALING''"
| "plan_status_text SB_ACTIVE = ''ACTIVE''"
| "plan_status_text SB_PAST_DUE = ''PAST_DUE''"
| "plan_status_text SB_CANCELED = ''CANCELED''"
| "plan_status_text SB_MANUAL = ''MANUAL''"

definition ENTITLED_STATUSES :: "plan_status list" where
  "ENTITLED_STATUSES = [SB_TRIALING, SB_ACTIVE, SB_MANUAL]"

definition mapStripeStatus :: "string \<Rightarrow> plan_status" where
  "mapStripeStatus s =
     (if s = ''trialing'' then SB_TRIALING
      else if s = ''active'' then SB_ACTIVE
      else if s = ''past_due'' \<or> s = ''unpaid'' then SB_PAST_DUE
      else if s = ''canceled'' \<or> s = ''incomplete_expired'' then SB_CANCELED
      else SB_INACTIVE)"

fun PLAN_RANK :: "billing_plan \<Rightarrow> nat" where
  "PLAN_RANK BP_FREE = 0"
| "PLAN_RANK BP_BASIC = 1"
| "PLAN_RANK BP_FAMILY_GUARDIAN = 2"
| "PLAN_RANK BP_PREMIUM_SHIELD = 3"

definition planSatisfies :: "billing_plan \<Rightarrow> billing_plan \<Rightarrow> bool" where
  "planSatisfies held required \<longleftrightarrow> PLAN_RANK held \<ge> PLAN_RANK required"

section \<open>State\<close>

record tenant_subscription =
  ts_tenantId :: string
  ts_plan :: billing_plan
  ts_status :: plan_status
  ts_stripeCustomerId :: "string option"
  ts_stripeSubscriptionId :: "string option"
  ts_stripePriceId :: "string option"
  ts_currentPeriodEnd :: "int option"
  ts_cancelAtPeriodEnd :: bool
  ts_manualInvoice :: bool

text \<open>
  What the service reads of a Stripe event: the object is a checkout session or a subscription.
  \<open>so_customer\<close> and \<open>so_subscription\<close> are absent unless they are strings, \<open>so_price\<close> is the price
  of the first item, and the end of the period is in seconds.
\<close>

record stripe_object =
  so_id :: string
  so_tenantId :: "string option"
  so_customer :: "string option"
  so_subscription :: "string option"
  so_status :: string
  so_price :: "string option"
  so_current_period_end :: "int option"
  so_cancel_at_period_end :: "bool option"

record stripe_event =
  sx_id :: string
  sx_type :: string
  sx_object :: "stripe_object option"

record billing_event =
  be_id :: string
  be_stripeEventId :: string
  be_type :: string
  be_tenantId :: "string option"
  be_payload :: stripe_event
  be_processedAt :: "int option"
  be_createdAt :: int

record billing_db = report_db +
  subscribers :: "tenant_subscription list"
  billing_events :: "billing_event list"

interpretation subscribers_tab: table subscribers subscribers_update
  by unfold_locales simp

interpretation billing_events_tab: table billing_events billing_events_update
  by unfold_locales simp

section \<open>Stripe\<close>

text \<open>
  Stripe's SDK: its calls answer or fail with an error; \<open>sk_verify\<close> checks a signature and
  returns the event. The environment holds the client (when a key is configured), the other
  variables the services read, and the reading of a body as the JSON of an event.
\<close>

record stripe_error =
  sr_message :: string
  sr_code :: "string option"
  sr_type :: string

record stripe_sdk =
  sk_customer :: "string \<Rightarrow> string \<Rightarrow> nat \<Rightarrow> stripe_error + string"
  sk_session :: "string \<Rightarrow> string \<Rightarrow> string \<Rightarrow> string \<Rightarrow> string \<Rightarrow> nat \<Rightarrow> stripe_error + (string \<times> string option)"
  sk_portal :: "string \<Rightarrow> string \<Rightarrow> nat \<Rightarrow> stripe_error + string"
  sk_verify :: "string \<Rightarrow> string \<Rightarrow> string \<Rightarrow> string + stripe_event"

record billing_env =
  bn_client :: "stripe_sdk option"
  bn_webhookSecret :: "string option"
  bn_nodeEnv :: string
  bn_appUrl :: "string option"
  bn_price :: "string \<Rightarrow> string option"
  bn_parse :: "string \<Rightarrow> string + stripe_event"

definition stripe_configured :: "billing_env \<Rightarrow> bool" where
  "stripe_configured env \<longleftrightarrow> bn_client env \<noteq> None"

definition stripeCall ::
    "string \<Rightarrow> (nat \<Rightarrow> stripe_error + 'x) \<Rightarrow> ('a core_db_scheme, 'x) prog" where
  "stripeCall op f =
     bind_p (draw f) (\<lambda>r.
     case r of
       Inr x \<Rightarrow> ret x
     | Inl e \<Rightarrow>
         (let coded = (if truthy (sr_code e) then '' ['' @ or_default (sr_code e) [] @ '']'' else []);
              msg = ''Stripe '' @ op @ '' failed: '' @ sr_message e @ coded in
          if sr_type e = ''StripeInvalidRequestError'' then throw (BadRequestException msg)
          else throw (BadGatewayException msg)))"

definition ensureCustomer ::
    "billing_env \<Rightarrow> string \<Rightarrow> string \<Rightarrow> string option \<Rightarrow> ('a core_db_scheme, string) prog" where
  "ensureCustomer env tenantId email existing =
     (case bn_client env of
        None \<Rightarrow> ret (or_default existing (''cus_stub_'' @ take 8 tenantId))
      | Some sdk \<Rightarrow>
          if truthy existing then ret (or_default existing [])
          else stripeCall ''customers.create'' (sk_customer sdk email tenantId))"

definition createCheckoutSession ::
    "billing_env \<Rightarrow> string \<Rightarrow> string \<Rightarrow> string \<Rightarrow> string \<Rightarrow> string \<Rightarrow>
     ('a core_db_scheme, string \<times> string option) prog" where
  "createCheckoutSession env customerId priceId tenantId successUrl cancelUrl =
     (case bn_client env of
        None \<Rightarrow> ret (''cs_stub_'' @ take 8 tenantId,
          Some (''https://stub.billing.local/checkout?tenant='' @ tenantId @ ''&price='' @ priceId))
      | Some sdk \<Rightarrow> stripeCall ''checkout.sessions.create''
          (sk_session sdk customerId priceId tenantId successUrl cancelUrl))"

definition createBillingPortalSession ::
    "billing_env \<Rightarrow> string \<Rightarrow> string \<Rightarrow> ('a core_db_scheme, string) prog" where
  "createBillingPortalSession env customerId returnUrl =
     (case bn_client env of
        None \<Rightarrow> ret (''https://stub.billing.local/portal?customer='' @ customerId)
      | Some sdk \<Rightarrow> stripeCall ''billingPortal.sessions.create'' (sk_portal sdk customerId returnUrl))"

text \<open>The signature is checked only when the request has one.\<close>

definition constructWebhookEvent ::
    "billing_env \<Rightarrow> string \<Rightarrow> string option \<Rightarrow> string + stripe_event" where
  "constructWebhookEvent env rawBody signature =
     (case bn_client env of
        Some sdk \<Rightarrow>
          if truthy (bn_webhookSecret env) \<and> truthy signature
          then sk_verify sdk rawBody (or_default signature []) (or_default (bn_webhookSecret env) [])
          else bn_parse env rawBody
      | None \<Rightarrow> bn_parse env rawBody)"

section \<open>The subscription of a tenant\<close>

record subscription_view =
  vs_tenantId :: string
  vs_plan :: billing_plan
  vs_status :: plan_status
  vs_stripeCustomerId :: "string option"
  vs_currentPeriodEnd :: "int option"
  vs_cancelAtPeriodEnd :: bool
  vs_manualInvoice :: bool
  vs_stripeConfigured :: bool

definition getSubscription ::
    "billing_env \<Rightarrow> string \<Rightarrow> ('a billing_db_scheme, subscription_view) prog" where
  "getSubscription env tenantId =
     bind_p (find_row subscribers (\<lambda>s. ts_tenantId s = tenantId)) (\<lambda>row.
     ret \<lparr>vs_tenantId = tenantId,
          vs_plan = (case row of None \<Rightarrow> BP_FREE | Some s \<Rightarrow> ts_plan s),
          vs_status = (case row of None \<Rightarrow> SB_INACTIVE | Some s \<Rightarrow> ts_status s),
          vs_stripeCustomerId = (case row of None \<Rightarrow> None | Some s \<Rightarrow> ts_stripeCustomerId s),
          vs_currentPeriodEnd = (case row of None \<Rightarrow> None | Some s \<Rightarrow> ts_currentPeriodEnd s),
          vs_cancelAtPeriodEnd = (case row of None \<Rightarrow> False | Some s \<Rightarrow> ts_cancelAtPeriodEnd s),
          vs_manualInvoice = (case row of None \<Rightarrow> False | Some s \<Rightarrow> ts_manualInvoice s),
          vs_stripeConfigured = stripe_configured env\<rparr>)"

definition resolveEffectivePlan :: "string \<Rightarrow> ('a billing_db_scheme, billing_plan) prog" where
  "resolveEffectivePlan tenantId =
     bind_p (find_row subscribers (\<lambda>s. ts_tenantId s = tenantId)) (\<lambda>row.
     ret (case row of
            None \<Rightarrow> BP_FREE
          | Some s \<Rightarrow> if ts_status s \<notin> set ENTITLED_STATUSES then BP_FREE else ts_plan s))"

text \<open>The guard of the routes of a plan; the requirement is the decorator's argument, if any.\<close>

definition canActivate ::
    "billing_plan option \<Rightarrow> auth_user option \<Rightarrow> ('a billing_db_scheme, bool) prog" where
  "canActivate required user =
     (case required of
        None \<Rightarrow> ret True
      | Some plan \<Rightarrow>
          bind_p (require_some user (ForbiddenException ''Authentication required'' [])) (\<lambda>u.
          bind_p (resolveEffectivePlan (au_tenantId u)) (\<lambda>effective.
          seq_p (ensure (planSatisfies effective plan)
            (ForbiddenException (''This feature requires the '' @ plan_text plan @ '' plan (current: '' @
               plan_text effective @ '')'') []))
          (ret True))))"

text \<open>The columns a change names; the others keep their value, or the default of a new row.\<close>

record subscription_patch =
  sp_plan :: "billing_plan option"
  sp_status :: "plan_status option"
  sp_stripeCustomerId :: "string option"
  sp_stripeSubscriptionId :: "string option"
  sp_stripePriceId :: "string option"
  sp_currentPeriodEnd :: "int option"
  sp_cancelAtPeriodEnd :: "bool option"
  sp_manualInvoice :: "bool option"

definition no_change :: subscription_patch where
  "no_change = \<lparr>sp_plan = None, sp_status = None, sp_stripeCustomerId = None, sp_stripeSubscriptionId = None,
     sp_stripePriceId = None, sp_currentPeriodEnd = None, sp_cancelAtPeriodEnd = None,
     sp_manualInvoice = None\<rparr>"

definition blank_subscription :: "string \<Rightarrow> tenant_subscription" where
  "blank_subscription tenantId = \<lparr>ts_tenantId = tenantId, ts_plan = BP_FREE, ts_status = SB_INACTIVE,
     ts_stripeCustomerId = None, ts_stripeSubscriptionId = None, ts_stripePriceId = None,
     ts_currentPeriodEnd = None, ts_cancelAtPeriodEnd = False, ts_manualInvoice = False\<rparr>"

definition patched :: "subscription_patch \<Rightarrow> tenant_subscription \<Rightarrow> tenant_subscription" where
  "patched p s =
     s\<lparr>ts_plan := or_default (sp_plan p) (ts_plan s), ts_status := or_default (sp_status p) (ts_status s),
       ts_stripeCustomerId := or_else (sp_stripeCustomerId p) (ts_stripeCustomerId s),
       ts_stripeSubscriptionId := or_else (sp_stripeSubscriptionId p) (ts_stripeSubscriptionId s),
       ts_stripePriceId := or_else (sp_stripePriceId p) (ts_stripePriceId s),
       ts_currentPeriodEnd := or_else (sp_currentPeriodEnd p) (ts_currentPeriodEnd s),
       ts_cancelAtPeriodEnd := or_default (sp_cancelAtPeriodEnd p) (ts_cancelAtPeriodEnd s),
       ts_manualInvoice := or_default (sp_manualInvoice p) (ts_manualInvoice s)\<rparr>"

text \<open>A new row needs its tenant: the foreign key of the table (Prisma's P2003).\<close>

definition upsertSubscription ::
    "string \<Rightarrow> subscription_patch \<Rightarrow> ('a billing_db_scheme, tenant_subscription) prog" where
  "upsertSubscription tenantId p =
     bind_p (find_row subscribers (\<lambda>s. ts_tenantId s = tenantId)) (\<lambda>row.
     case row of
       Some s \<Rightarrow> update_row subscribers subscribers_update (\<lambda>s. ts_tenantId s = tenantId) (patched p)
     | None \<Rightarrow>
         bind_p (find_row tenants (\<lambda>t. tn_id t = tenantId)) (\<lambda>tenant.
         seq_p (ensure (tenant \<noteq> None) (InternalError ''P2003''))
         (insert_row subscribers_update (patched p (blank_subscription tenantId)))))"

definition assertBillingConfiguredInProduction :: "billing_env \<Rightarrow> ('w, unit) prog" where
  "assertBillingConfiguredInProduction env =
     ensure (\<not> (bn_nodeEnv env = ''production'' \<and> \<not> stripe_configured env))
       (ServiceUnavailableException
          ''Billing is not available: Stripe is not configured in this environment.'')"

definition recordBillingAudit ::
    "string option \<Rightarrow> string \<Rightarrow> string \<Rightarrow> js \<Rightarrow> ('a core_db_scheme, unit) prog" where
  "recordBillingAudit actorId action tenantId metadata =
     attempt (insert_row audit_logs_update
       \<lparr>al_actorId = actorId, al_actorType = Some (if truthy actorId then ''USER'' else ''SYSTEM''),
        al_action = ''BILLING_'' @ action, al_targetType = Some ''TENANT_SUBSCRIPTION'',
        al_targetId = Some tenantId, al_metadata = metadata\<rparr>)"

section \<open>Checkout, portal and manual invoice\<close>

record checkout_dto =
  kd_plan :: billing_plan
  kd_successUrl :: "string option"
  kd_cancelUrl :: "string option"

definition app_base :: "billing_env \<Rightarrow> string" where
  "app_base env = or_default (bn_appUrl env) ''https://app.vigiscam.local''"

definition plan_price :: "billing_env \<Rightarrow> billing_plan \<Rightarrow> string option" where
  "plan_price env plan =
     (case pd_priceEnvVar (PLAN_REGISTRY plan) of None \<Rightarrow> None | Some v \<Rightarrow> bn_price env v)"

definition billing_evidence ::
    "string \<Rightarrow> string \<Rightarrow> string \<Rightarrow> string \<Rightarrow> string \<Rightarrow> js \<Rightarrow> append_input" where
  "billing_evidence tenantId actorId actorType evtype descr metadata =
     \<lparr>in_tenantId = Some tenantId, in_actorId = Some actorId, in_actorType = Some actorType,
      in_entityType = ''TENANT_SUBSCRIPTION'', in_entityId = tenantId, in_eventType = evtype,
      in_eventDescription = descr, in_metadata = metadata, in_ipAddress = None, in_deviceId = None\<rparr>"

definition current_customer :: "string \<Rightarrow> ('a billing_db_scheme, string option) prog" where
  "current_customer tenantId =
     bind_p (find_row subscribers (\<lambda>s. ts_tenantId s = tenantId)) (\<lambda>row.
     ret (case row of None \<Rightarrow> None | Some s \<Rightarrow> ts_stripeCustomerId s))"

definition startCheckout ::
    "runtime \<Rightarrow> billing_env \<Rightarrow> auth_user \<Rightarrow> checkout_dto \<Rightarrow>
     ('a billing_db_scheme, string option \<times> string) prog" where
  "startCheckout rt env user dto =
     seq_p (assertBillingConfiguredInProduction env)
     (seq_p (ensure (kd_plan dto \<in> set PURCHASABLE_PLANS)
        (BadRequestException ''This plan is not purchasable''))
     (let price = plan_price env (kd_plan dto) in
      seq_p (ensure (\<not> (stripe_configured env \<and> \<not> truthy price))
        (BadRequestException (''No Stripe price configured for '' @ plan_text (kd_plan dto) @ '' (set '' @
           or_default (pd_priceEnvVar (PLAN_REGISTRY (kd_plan dto))) ''null'' @ '')'')))
      (bind_p (current_customer (au_tenantId user)) (\<lambda>existing.
       bind_p (ensureCustomer env (au_tenantId user) (au_email user) existing) (\<lambda>customerId.
       bind_p (createCheckoutSession env customerId
         (or_default price (''price_stub_'' @ plan_text (kd_plan dto))) (au_tenantId user)
         (or_default (kd_successUrl dto) (app_base env @ ''/billing/success''))
         (or_default (kd_cancelUrl dto) (app_base env @ ''/billing/cancel''))) (\<lambda>session.
       let metadata = JObj [(''plan'', JStr (plan_text (kd_plan dto))), (''sessionId'', JStr (fst session))] in
       seq_p (upsertSubscription (au_tenantId user) (no_change\<lparr>sp_stripeCustomerId := Some customerId\<rparr>))
       (seq_p (append_evidence rt (billing_evidence (au_tenantId user) (au_userId user) ''USER''
          ''BILLING_CHECKOUT_STARTED'' (''Checkout started for '' @ plan_text (kd_plan dto)) metadata))
       (seq_p (recordBillingAudit (Some (au_userId user)) ''CHECKOUT_STARTED'' (au_tenantId user) metadata)
       (ret (snd session, fst session))))))))))"

definition openPortal :: "billing_env \<Rightarrow> auth_user \<Rightarrow> ('a billing_db_scheme, string) prog" where
  "openPortal env user =
     seq_p (assertBillingConfiguredInProduction env)
     (bind_p (current_customer (au_tenantId user)) (\<lambda>existing.
      bind_p (ensureCustomer env (au_tenantId user) (au_email user) existing) (\<lambda>customerId.
      seq_p (when_p (\<not> truthy existing)
        (void_p (upsertSubscription (au_tenantId user) (no_change\<lparr>sp_stripeCustomerId := Some customerId\<rparr>))))
      (bind_p (createBillingPortalSession env customerId (app_base env @ ''/billing'')) (\<lambda>url.
       seq_p (recordBillingAudit (Some (au_userId user)) ''PORTAL_OPENED'' (au_tenantId user)
         (JObj [(''customerId'', JStr customerId)]))
       (ret url))))))"

definition setManualInvoice ::
    "runtime \<Rightarrow> auth_user \<Rightarrow> string \<Rightarrow> billing_plan \<Rightarrow> string option \<Rightarrow>
     ('a billing_db_scheme, tenant_subscription) prog" where
  "setManualInvoice rt admin tenantId plan note =
     bind_p (find_row tenants (\<lambda>t. tn_id t = tenantId)) (\<lambda>tenant.
     seq_p (ensure (tenant \<noteq> None) (BadRequestException ''Tenant not found''))
     (bind_p (upsertSubscription tenantId (no_change\<lparr>sp_plan := Some plan, sp_status := Some SB_MANUAL,
        sp_manualInvoice := Some True\<rparr>)) (\<lambda>row.
      let metadata = JObj [(''plan'', JStr (plan_text plan)), (''note'', opt_str note)] in
      seq_p (append_evidence rt (billing_evidence tenantId (au_userId admin) ''ADMIN''
        ''BILLING_MANUAL_INVOICE_SET'' (''Manual-invoice billing set: '' @ plan_text plan) metadata))
      (seq_p (recordBillingAudit (Some (au_userId admin)) ''MANUAL_INVOICE_SET'' tenantId metadata)
      (ret row)))))"

section \<open>Webhooks\<close>

definition extractTenantId :: "stripe_event \<Rightarrow> string option" where
  "extractTenantId event = (case sx_object event of None \<Rightarrow> None | Some x \<Rightarrow> so_tenantId x)"

definition planFromPriceId :: "billing_env \<Rightarrow> string option \<Rightarrow> billing_plan" where
  "planFromPriceId env priceId =
     (let basic = bn_price env ''STRIPE_PRICE_BASIC'';
          family = bn_price env ''STRIPE_PRICE_FAMILY_GUARDIAN'';
          premium = bn_price env ''STRIPE_PRICE_PREMIUM_SHIELD'' in
      if \<not> truthy priceId then BP_FREE
      else if truthy premium \<and> priceId = premium then BP_PREMIUM_SHIELD
      else if truthy family \<and> priceId = family then BP_FAMILY_GUARDIAN
      else if truthy basic \<and> priceId = basic then BP_BASIC
      else if ends_with ''PREMIUM_SHIELD'' (or_default priceId []) then BP_PREMIUM_SHIELD
      else if ends_with ''FAMILY_GUARDIAN'' (or_default priceId []) then BP_FAMILY_GUARDIAN
      else if ends_with ''BASIC'' (or_default priceId []) then BP_BASIC
      else BP_FREE)"

text \<open>The columns a subscription of Stripe sets; a period that ends at 0 is no period.\<close>

definition subscription_change :: "billing_env \<Rightarrow> stripe_object \<Rightarrow> bool \<Rightarrow> subscription_patch" where
  "subscription_change env sub deleted =
     no_change\<lparr>sp_plan := Some (if deleted then BP_FREE else planFromPriceId env (so_price sub)),
       sp_status := Some (if deleted then SB_CANCELED else mapStripeStatus (so_status sub)),
       sp_stripeSubscriptionId := Some (so_id sub), sp_stripePriceId := so_price sub,
       sp_currentPeriodEnd := (case so_current_period_end sub of
          None \<Rightarrow> None | Some t \<Rightarrow> if t = 0 then None else Some (t * 1000)),
       sp_cancelAtPeriodEnd := Some (or_default (so_cancel_at_period_end sub) False)\<rparr>"

definition applySubscriptionState ::
    "billing_env \<Rightarrow> string \<Rightarrow> stripe_object \<Rightarrow> bool \<Rightarrow> ('a billing_db_scheme, unit) prog" where
  "applySubscriptionState env tenantId sub deleted =
     (let p = subscription_change env sub deleted in
      seq_p (upsertSubscription tenantId p)
      (recordBillingAudit None ''SUBSCRIPTION_STATE_CHANGED'' tenantId
        (JObj [(''plan'', JStr (plan_text (or_default (sp_plan p) BP_FREE))),
               (''status'', JStr (plan_status_text (or_default (sp_status p) SB_INACTIVE))),
               (''stripeSubscriptionId'', JStr (so_id sub)), (''deleted'', JBool deleted)])))"

definition checkout_change :: "stripe_object \<Rightarrow> subscription_patch" where
  "checkout_change session =
     no_change\<lparr>sp_stripeCustomerId := so_customer session,
       sp_stripeSubscriptionId := so_subscription session, sp_status := Some SB_ACTIVE\<rparr>"

definition SUBSCRIPTION_EVENTS :: "string list" where
  "SUBSCRIPTION_EVENTS =
     [''customer.subscription.created'', ''customer.subscription.updated'', ''customer.subscription.deleted'']"

text \<open>An event of these types without an object is a type error, as is reading its metadata.\<close>

definition process_event ::
    "billing_env \<Rightarrow> stripe_event \<Rightarrow> ('a billing_db_scheme, unit) prog" where
  "process_event env event =
     (if sx_type event = ''checkout.session.completed'' then
        bind_p (require_some (sx_object event) (InternalError ''TypeError'')) (\<lambda>session.
        let tid = or_else (so_tenantId session) (extractTenantId event) in
        when_p (truthy tid \<and> so_customer session \<noteq> None)
          (void_p (upsertSubscription (or_default tid []) (checkout_change session))))
      else if sx_type event \<in> set SUBSCRIPTION_EVENTS then
        bind_p (require_some (sx_object event) (InternalError ''TypeError'')) (\<lambda>sub.
        let tid = or_else (so_tenantId sub) (extractTenantId event) in
        when_p (truthy tid)
          (applySubscriptionState env (or_default tid []) sub
             (sx_type event = ''customer.subscription.deleted'')))
      else ret ())"

definition new_billing_event :: "stripe_event \<Rightarrow> string option \<Rightarrow> string \<Rightarrow> int \<Rightarrow> billing_event" where
  "new_billing_event event tenantId uid t =
     \<lparr>be_id = uid, be_stripeEventId = sx_id event, be_type = sx_type event, be_tenantId = tenantId,
      be_payload = event, be_processedAt = None, be_createdAt = t\<rparr>"

definition mark_processed :: "string option \<Rightarrow> string option \<Rightarrow> int \<Rightarrow> billing_event \<Rightarrow> billing_event" where
  "mark_processed tenantId logged_for t b =
     b\<lparr>be_processedAt := Some t, be_tenantId := or_else tenantId logged_for\<rparr>"

definition log_billing_event ::
    "runtime \<Rightarrow> stripe_event \<Rightarrow> billing_event option \<Rightarrow> ('a billing_db_scheme, billing_event) prog" where
  "log_billing_event rt event already =
     (case already of
        Some b \<Rightarrow> ret b
      | None \<Rightarrow> bind_p (new_id rt) (\<lambda>uid. bind_p (now rt) (\<lambda>t.
          insert_row billing_events_update (new_billing_event event (extractTenantId event) uid t))))"

definition already_processed :: "billing_event option \<Rightarrow> bool" where
  "already_processed b = (case b of None \<Rightarrow> False | Some b \<Rightarrow> be_processedAt b \<noteq> None)"

definition run_billing_event ::
    "runtime \<Rightarrow> billing_env \<Rightarrow> stripe_event \<Rightarrow> billing_event \<Rightarrow> ('a billing_db_scheme, bool) prog" where
  "run_billing_event rt env event logRow =
     seq_p (process_event env event)
     (bind_p (now rt) (\<lambda>t.
      seq_p (update_row billing_events billing_events_update (\<lambda>b. be_id b = be_id logRow)
        (mark_processed (extractTenantId event) (be_tenantId logRow) t))
      (ret False)))"

text \<open>The answer is whether the event was a redelivery.\<close>

definition handleWebhook ::
    "runtime \<Rightarrow> billing_env \<Rightarrow> stripe_event \<Rightarrow> ('a billing_db_scheme, bool) prog" where
  "handleWebhook rt env event =
     bind_p (find_row billing_events (\<lambda>b. be_stripeEventId b = sx_id event)) (\<lambda>already.
     if already_processed already then ret True
     else
       bind_p (log_billing_event rt event already) (run_billing_event rt env event))"

text \<open>The public route: the raw body and the \<open>stripe-signature\<close> header, when there is one.\<close>

definition billing_webhook ::
    "runtime \<Rightarrow> billing_env \<Rightarrow> string option \<Rightarrow> string option \<Rightarrow> ('a billing_db_scheme, bool) prog" where
  "billing_webhook rt env rawBody signature =
     bind_p (require_some rawBody
       (BadRequestException ''Missing raw request body for webhook verification'')) (\<lambda>raw.
     case constructWebhookEvent env raw signature of
       Inl err \<Rightarrow> throw (BadRequestException (''Webhook signature verification failed: '' @ err))
     | Inr event \<Rightarrow> handleWebhook rt env event)"

definition listBillingEvents ::
    "string option \<Rightarrow> int \<Rightarrow> ('a billing_db_scheme, billing_event list) prog" where
  "listBillingEvents tenantId limit =
     bind_p (find_rows billing_events (\<lambda>b. truthy tenantId \<longrightarrow> be_tenantId b = tenantId)) (\<lambda>rows.
     ret (take (clamp 1 500 limit) (order_desc be_createdAt rows)))"

section \<open>The log is respected\<close>

lemma billing_evidence_storable [simp]:
  "storable (in_metadata (billing_evidence t a k ty d m)) \<longleftrightarrow> storable m"
  by (simp add: billing_evidence_def)

lemma stripe_safe:
  "moves (log_safe rt) (ensureCustomer env t e x)"
  "moves (log_safe rt) (createCheckoutSession env c p t su cu)"
  "moves (log_safe rt) (createBillingPortalSession env c u)"
  unfolding ensureCustomer_def createCheckoutSession_def createBillingPortalSession_def stripeCall_def Let_def
  by (auto simp: log_untouched intro!: safe_rules draw_safe split: option.split sum.split)

lemma upsert_safe: "moves (log_safe rt) (upsertSubscription t p)"
  unfolding upsertSubscription_def
  by (auto simp: log_untouched intro!: safe_rules split: option.split)

lemma billing_safe:
  "moves (log_safe rt) (startCheckout rt env user dto)" "moves (log_safe rt) (openPortal env user)"
  "moves (log_safe rt) (setManualInvoice rt admin t plan note)"
  "moves (log_safe rt) (handleWebhook rt env event)"
  unfolding startCheckout_def openPortal_def setManualInvoice_def handleWebhook_def run_billing_event_def process_event_def
    applySubscriptionState_def log_billing_event_def assertBillingConfiguredInProduction_def
    current_customer_def recordBillingAudit_def Let_def
  by (auto simp: log_untouched intro!: safe_rules append_safe upsert_safe stripe_safe split: option.split)

section \<open>What a delivery changes\<close>

text \<open>
  The specification of the webhooks: the events processed and the subscription of each tenant. An
  event names one tenant and one change, or none; it is refused when it is malformed or names a
  tenant that does not exist, and counts once.
\<close>

definition event_change :: "billing_env \<Rightarrow> stripe_event \<Rightarrow> (string \<times> subscription_patch) option" where
  "event_change env event =
     (case sx_object event of
        None \<Rightarrow> None
      | Some x \<Rightarrow>
          (let t = or_default (so_tenantId x) [] in
           if t = [] then None
           else if sx_type event = ''checkout.session.completed'' then
             (if so_customer x = None then None else Some (t, checkout_change x))
           else if sx_type event \<in> set SUBSCRIPTION_EVENTS then
             Some (t, subscription_change env x (sx_type event = ''customer.subscription.deleted''))
           else None))"

definition event_refused ::
    "string set \<Rightarrow> billing_env \<Rightarrow> (string \<Rightarrow> tenant_subscription option) \<Rightarrow> stripe_event \<Rightarrow> bool" where
  "event_refused ts env S event \<longleftrightarrow>
     sx_object event = None \<and> sx_type event \<in> set (''checkout.session.completed'' # SUBSCRIPTION_EVENTS) \<or>
     (case event_change env event of None \<Rightarrow> False | Some (t, p) \<Rightarrow> S t = None \<and> t \<notin> ts)"

definition changed ::
    "billing_env \<Rightarrow> stripe_event \<Rightarrow> (string \<Rightarrow> tenant_subscription option) \<Rightarrow>
     string \<Rightarrow> tenant_subscription option" where
  "changed env event S =
     (case event_change env event of
        None \<Rightarrow> S
      | Some (t, p) \<Rightarrow> S(t \<mapsto> patched p (or_default (S t) (blank_subscription t))))"

type_synonym billed = "string set \<times> (string \<Rightarrow> tenant_subscription option)"

definition billing_step :: "string set \<Rightarrow> billing_env \<Rightarrow> stripe_event \<Rightarrow> billed \<Rightarrow> billed" where
  "billing_step ts env event v =
     (if sx_id event \<in> fst v \<or> event_refused ts env (snd v) event then v
      else (insert (sx_id event) (fst v), changed env event (snd v)))"

text \<open>The view of a state, and the deliveries one after the other.\<close>

definition sub_of :: "('a billing_db_scheme) \<Rightarrow> string \<Rightarrow> tenant_subscription option" where
  "sub_of w = (\<lambda>t. find (\<lambda>s. ts_tenantId s = t) (subscribers w))"

definition processed_ids :: "billing_event list \<Rightarrow> string set" where
  "processed_ids bs = be_stripeEventId ` {b \<in> set bs. be_processedAt b \<noteq> None}"

definition billing_view :: "('a billing_db_scheme) \<Rightarrow> billed" where
  "billing_view w = (processed_ids (billing_events w), sub_of w)"

definition tenant_ids :: "('a report_db_scheme) \<Rightarrow> string set" where
  "tenant_ids w = tn_id ` set (tenants w)"

primrec deliver_events ::
    "runtime \<Rightarrow> billing_env \<Rightarrow> stripe_event list \<Rightarrow> ('a billing_db_scheme) \<Rightarrow> ('a billing_db_scheme)" where
  "deliver_events rt env [] w = w"
| "deliver_events rt env (e # es) w = deliver_events rt env es (snd (handleWebhook rt env e w))"

definition billing_ok :: "runtime \<Rightarrow> ('a billing_db_scheme) \<Rightarrow> bool" where
  "billing_ok rt w \<longleftrightarrow> distinct (map be_id (billing_events w)) \<and>
     distinct (map be_stripeEventId (billing_events w)) \<and>
     (\<forall>b\<in>set (billing_events w). \<exists>n<db_tick w. be_id b = rt_uuid rt n)"

lemma patched_tenant [simp]: "ts_tenantId (patched p s) = ts_tenantId s"
  by (simp add: patched_def)

lemma find_changed:
  assumes "\<And>s. key (f s) = key s"
  shows "find (\<lambda>s. key s = j) (map (\<lambda>s. if key s = i then f s else s) ss) =
    (if j = i then map_option f (find (\<lambda>s. key s = j) ss) else find (\<lambda>s. key s = j) ss)"
  using assms by (induction ss) auto

text \<open>Only the subscriptions and the audit log may differ, and the subscriptions are as given.\<close>

definition only_billed ::
    "('a billing_db_scheme) \<Rightarrow> (string \<Rightarrow> tenant_subscription option) \<Rightarrow> ('a billing_db_scheme) \<Rightarrow> bool" where
  "only_billed w S w' \<longleftrightarrow>
     w' = w\<lparr>subscribers := subscribers w', audit_logs := audit_logs w'\<rparr> \<and> sub_of w' = S"

lemma billed_writes [simp]:
  "w\<lparr>subscribers := f (subscribers w), audit_logs := audit_logs w\<rparr> = subscribers_update f w"
  "subscribers_update f w\<lparr>audit_logs := g (audit_logs w)\<rparr> = audit_logs_update g (subscribers_update f w)"
  for w :: "'a billing_db_scheme"
  by simp_all

lemma upsert_effect:
  "sub_of w t = None \<and> t \<notin> tenant_ids w \<Longrightarrow>
     raises (upsertSubscription t p) w (\<lambda>_ w'. w' = w)"
  "\<not> (sub_of w t = None \<and> t \<notin> tenant_ids w) \<Longrightarrow>
     runs (upsertSubscription t p) w (\<lambda>_ w'. only_billed w
       ((sub_of w)(t \<mapsto> patched p (or_default (sub_of w t) (blank_subscription t)))) w')"
proof -
  assume "sub_of w t = None \<and> t \<notin> tenant_ids w"
  moreover from this have "find (\<lambda>q. tn_id q = t) (tenants w) = None"
    by (auto simp: tenant_ids_def find_None_iff)
  ultimately show "raises (upsertSubscription t p) w (\<lambda>_ w'. w' = w)"
    by (simp add: upsertSubscription_def run_simps sub_of_def)
next
  assume ok: "\<not> (sub_of w t = None \<and> t \<notin> tenant_ids w)"
  show "runs (upsertSubscription t p) w (\<lambda>_ w'. only_billed w
       ((sub_of w)(t \<mapsto> patched p (or_default (sub_of w t) (blank_subscription t)))) w')"
  proof (cases "find (\<lambda>s. ts_tenantId s = t) (subscribers w)")
    case None
    with ok have "find (\<lambda>q. tn_id q = t) (tenants w) \<noteq> None"
      by (auto simp: tenant_ids_def sub_of_def find_None_iff)
    with None show ?thesis
      by (auto simp: upsertSubscription_def run_simps only_billed_def sub_of_def find_append_eq
          blank_subscription_def fun_eq_iff split: option.splits)
  next
    case (Some s)
    then show ?thesis
      by (auto simp: upsertSubscription_def run_simps only_billed_def sub_of_def find_changed fun_eq_iff)
  qed
qed

lemma billed_audited: "only_billed w S v \<Longrightarrow> only_billed w S (audit_logs_update g v)"
  unfolding only_billed_def sub_of_def
  by (elim conjE, drule arg_cong [where f = "audit_logs_update g"]) simp

lemma process_effect:
  "event_refused (tenant_ids w) env (sub_of w) event \<Longrightarrow> raises (process_event env event) w (\<lambda>_ w'. w' = w)"
  "\<not> event_refused (tenant_ids w) env (sub_of w) event \<Longrightarrow>
     runs (process_event env event) w (\<lambda>_ w'. only_billed w (changed env event (sub_of w)) w')"
proof -
  have same: "or_else (so_tenantId x) (extractTenantId event) = so_tenantId x"
    if "sx_object event = Some x" for x
    using that by (cases "so_tenantId x") (simp_all add: extractTenantId_def)
  have truth: "truthy (so_tenantId x) \<longleftrightarrow> or_default (so_tenantId x) [] \<noteq> []" for x
    by (simp add: truthy_def or_default_def split: option.split)
  have audited: "runs (recordBillingAudit a act t m) v (\<lambda>_ w'. only_billed w S w')"
    if "only_billed w S v" for a act t m v S
    using that by (simp add: recordBillingAudit_def attempt_def runs_catch run_simps billed_audited)
  note defs = process_event_def applySubscriptionState_def Let_def event_change_def changed_def same truth
  show "raises (process_event env event) w (\<lambda>_ w'. w' = w)"
    if "event_refused (tenant_ids w) env (sub_of w) event"
    using that upsert_effect(1)
    by (cases "sx_object event")
       (auto simp: event_refused_def defs run_simps SUBSCRIPTION_EVENTS_def split: if_splits)
  show "runs (process_event env event) w (\<lambda>_ w'. only_billed w (changed env event (sub_of w)) w')"
    if "\<not> event_refused (tenant_ids w) env (sub_of w) event"
    using that
    by (cases "sx_object event")
       (auto simp: event_refused_def defs run_simps split: if_splits
         intro!: runs_mono [OF upsert_effect(2)] audited,
        auto simp: only_billed_def)
qed

lemma log_effect:
  assumes "billing_ok rt w" "inj (rt_uuid rt)"
    "\<not> already_processed (find (\<lambda>b. be_stripeEventId b = sx_id event) (billing_events w))"
  shows "runs (log_billing_event rt event (find (\<lambda>b. be_stripeEventId b = sx_id event) (billing_events w))) w
    (\<lambda>b w'. b \<in> set (billing_events w') \<and> be_stripeEventId b = sx_id event \<and> be_processedAt b = None \<and>
      billing_ok rt w' \<and> billing_view w' = billing_view w \<and> tenants w' = tenants w)"
proof (cases "find (\<lambda>b. be_stripeEventId b = sx_id event) (billing_events w)")
  case None
  then have "\<forall>b\<in>set (billing_events w). be_stripeEventId b \<noteq> sx_id event" by (auto simp: find_None_iff)
  moreover have "be_id b \<noteq> rt_uuid rt (db_tick w)" if "b \<in> set (billing_events w)" for b
    using assms(1,2) that by (fastforce simp: billing_ok_def dest: injD)
  ultimately show ?thesis
    using assms(1) None
    by (auto simp: log_billing_event_def run_simps new_billing_event_def billing_ok_def billing_view_def
        sub_of_def processed_ids_def less_Suc_eq intro!: arg_cong [where f = "(`) be_stripeEventId"])
next
  case (Some b)
  with find_SomeD [OF Some] assms show ?thesis
    by (simp add: log_billing_event_def run_simps already_processed_def)
qed

lemma processed_simps [simp]:
  "processed_ids [] = {}"
  "processed_ids (q # bs) = (if be_processedAt q = None then {} else {be_stripeEventId q}) \<union> processed_ids bs"
  by (auto simp: processed_ids_def)

lemma marked_fields [simp]:
  "be_id (mark_processed tid l t b) = be_id b"
  "be_stripeEventId (mark_processed tid l t b) = be_stripeEventId b"
  "be_processedAt (mark_processed tid l t b) = Some t"
  by (simp_all add: mark_processed_def)

lemma processed_marked:
  assumes "\<forall>q\<in>set bs. be_id q = be_id b \<longrightarrow> q = b"
  shows "processed_ids (map (\<lambda>q. if be_id q = be_id b then mark_processed tid l t q else q) bs) =
    (if b \<in> set bs then {be_stripeEventId b} else {}) \<union> processed_ids bs"
  using assms by (induction bs) auto

lemma marked_ok:
  assumes "billing_ok rt w"
  shows "billing_ok rt (billing_events_update (map (\<lambda>q. if P q then mark_processed tid l t q else q)) w)"
proof -
  let ?g = "\<lambda>q. if P q then mark_processed tid l t q else q"
  have ids: "map be_id (map ?g bs) = map be_id bs"
    "map be_stripeEventId (map ?g bs) = map be_stripeEventId bs" for bs
    by (induction bs) simp_all
  have drawn: "\<forall>b\<in>set (map ?g bs). \<exists>n<k. be_id b = rt_uuid rt n"
    if "\<forall>b\<in>set bs. \<exists>n<k. be_id b = rt_uuid rt n" for bs k
    using that by (induction bs) auto
  show ?thesis
    using assms drawn [of "billing_events w" "db_tick w"]
    unfolding billing_ok_def by (simp del: map_map set_map list.set_map add: ids)
qed

lemma process_then_mark:
  assumes "b \<in> set (billing_events w)" "be_stripeEventId b = sx_id event" "billing_ok rt w"
    "\<not> event_refused (tenant_ids w) env (sub_of w) event"
    "processed_ids (billing_events w) = P" "sub_of w = S" "tenants w = ts"
  shows "runs (run_billing_event rt env event b) w
      (\<lambda>d w'. \<not> d \<and> billing_ok rt w' \<and> tenants w' = ts \<and>
        billing_view w' = (insert (sx_id event) P, changed env event S))"
proof -
  have after: "runs (bind_p (now rt) (\<lambda>t.
      seq_p (update_row billing_events billing_events_update (\<lambda>q. be_id q = be_id b)
        (mark_processed (extractTenantId event) (be_tenantId b) t)) (ret False))) w2
      (\<lambda>d w'. \<not> d \<and> billing_ok rt w' \<and> tenants w' = ts \<and>
        billing_view w' = (insert (sx_id event) P, changed env event S))"
    if "only_billed w (changed env event S) w2" for w2
  proof -
    from that have eq: "w2 = w\<lparr>subscribers := subscribers w2, audit_logs := audit_logs w2\<rparr>"
      and S: "sub_of w2 = changed env event S" by (simp_all add: only_billed_def)
    have same: "billing_events w2 = billing_events w" "tenants w2 = tenants w" "db_tick w2 = db_tick w"
      by (subst eq, simp)+
    have found: "find (\<lambda>q. be_id q = be_id b) (billing_events w) \<noteq> None"
      using assms(1) by (auto simp: find_None_iff)
    have ok2: "billing_ok rt (w2\<lparr>db_tick := Suc (db_tick w2)\<rparr>)"
      using assms(3) by (auto simp: billing_ok_def same less_Suc_eq)
    have only: "\<forall>q\<in>set (billing_events w). be_id q = be_id b \<longrightarrow> q = b"
      using assms(1,3) same_key [of be_id "billing_events w"] by (auto simp: billing_ok_def)
    show ?thesis
      using found S assms(2,5,7) marked_ok [OF ok2] processed_marked [OF only] assms(1)
      by (auto simp: run_simps same billing_view_def sub_of_def split: option.split)
  qed
  show ?thesis
    unfolding run_billing_event_def runs_seq [of "process_event env event"]
    by (rule runs_mono [OF process_effect(2) [OF assms(4)]]) (simp add: after assms(6))
qed

lemma processed_iff:
  assumes "billing_ok rt w"
  shows "already_processed (find (\<lambda>b. be_stripeEventId b = i) (billing_events w)) \<longleftrightarrow>
    i \<in> processed_ids (billing_events w)"
proof
  assume "i \<in> processed_ids (billing_events w)"
  then obtain b where b: "b \<in> set (billing_events w)" "be_stripeEventId b = i" "be_processedAt b \<noteq> None"
    by (auto simp: processed_ids_def)
  then obtain q where q: "find (\<lambda>b. be_stripeEventId b = i) (billing_events w) = Some q"
    using find_ex [of "\<lambda>b. be_stripeEventId b = i" "billing_events w"] by auto
  then have "q = b"
    using find_SomeD [OF q] b assms same_key [of be_stripeEventId "billing_events w"]
    by (auto simp: billing_ok_def)
  with b q show "already_processed (find (\<lambda>b. be_stripeEventId b = i) (billing_events w))"
    by (simp add: already_processed_def)
qed (auto simp: already_processed_def processed_ids_def image_iff dest!: find_SomeD split: option.splits)

lemma handle_new:
  assumes "billing_ok rt w" "inj (rt_uuid rt)" "sx_id event \<notin> processed_ids (billing_events w)"
    "\<not> event_refused (tenant_ids w) env (sub_of w) event"
  shows "runs (handleWebhook rt env event) w (\<lambda>deduped w'. \<not> deduped \<and> billing_ok rt w' \<and>
    tenants w' = tenants w \<and>
    billing_view w' = (insert (sx_id event) (processed_ids (billing_events w)), changed env event (sub_of w)))"
proof -
  have new: "\<not> already_processed (find (\<lambda>b. be_stripeEventId b = sx_id event) (billing_events w))"
    using processed_iff [OF assms(1)] assms(3) by simp
  have "runs (log_billing_event rt event (find (\<lambda>b. be_stripeEventId b = sx_id event) (billing_events w))) w
      (\<lambda>b w1. runs (run_billing_event rt env event b) w1 (\<lambda>d w'. \<not> d \<and> billing_ok rt w' \<and> tenants w' = tenants w \<and>
         billing_view w' = (insert (sx_id event) (processed_ids (billing_events w)), changed env event (sub_of w))))"
    by (rule runs_mono [OF log_effect [OF assms(1,2) new]], rule process_then_mark)
       (use assms(4) in \<open>auto simp: billing_view_def tenant_ids_def\<close>)
  then show ?thesis using new by (simp add: handleWebhook_def runs_bind runs_table runs_basic)
qed

lemma handle_refused:
  assumes "billing_ok rt w" "inj (rt_uuid rt)" "sx_id event \<notin> processed_ids (billing_events w)"
    "event_refused (tenant_ids w) env (sub_of w) event"
  shows "raises (handleWebhook rt env event) w (\<lambda>_ w'. billing_ok rt w' \<and> tenants w' = tenants w \<and>
    billing_view w' = billing_view w)"
proof -
  have new: "\<not> already_processed (find (\<lambda>b. be_stripeEventId b = sx_id event) (billing_events w))"
    using processed_iff [OF assms(1)] assms(3) by simp
  have "runs (log_billing_event rt event (find (\<lambda>b. be_stripeEventId b = sx_id event) (billing_events w))) w
      (\<lambda>_ w1. raises (process_event env event) w1 (\<lambda>_ w'. billing_ok rt w' \<and> tenants w' = tenants w \<and>
         billing_view w' = billing_view w))"
    by (rule runs_mono [OF log_effect [OF assms(1,2) new]], rule raises_mono [OF process_effect(1)])
       (use assms(4) in \<open>auto simp: billing_view_def tenant_ids_def\<close>)
  then show ?thesis
    using new
    by (simp add: handleWebhook_def run_billing_event_def raises_bind raises_seq raises_table runs_table
          raises_basic) (rule disjI2, erule runs_mono, simp)
qed

lemma handle_effect:
  assumes "billing_ok rt w" "inj (rt_uuid rt)"
  shows "ends (handleWebhook rt env event) w (\<lambda>_ w'. billing_ok rt w' \<and> tenants w' = tenants w \<and>
    billing_view w' = billing_step (tenant_ids w) env event (billing_view w))"
proof (cases "sx_id event \<in> processed_ids (billing_events w)")
  case True
  with processed_iff [OF assms(1), of "sx_id event"] assms show ?thesis
    by (simp add: handleWebhook_def ends_iff run_simps billing_step_def billing_view_def)
next
  case new: False
  show ?thesis
  proof (cases "event_refused (tenant_ids w) env (sub_of w) event")
    case True
    with handle_refused [OF assms new True] new show ?thesis
      by (auto simp: ends_iff billing_step_def billing_view_def)
  next
    case False
    with handle_new [OF assms new False] new show ?thesis
      by (auto simp: ends_iff billing_step_def billing_view_def elim!: runs_mono)
  qed
qed

lemma delivered_view:
  assumes "billing_ok rt w" "inj (rt_uuid rt)"
  shows "billing_view (deliver_events rt env es w) = fold (billing_step (tenant_ids w) env) es (billing_view w)"
  using assms(1)
proof (induction es arbitrary: w)
  case (Cons e es)
  let ?w = "snd (handleWebhook rt env e w)"
  have "billing_ok rt ?w \<and> tenants ?w = tenants w \<and>
      billing_view ?w = billing_step (tenant_ids w) env e (billing_view w)"
    using handle_effect [OF Cons.prems assms(2), of env e] by (simp add: ends_def split: prod.splits)
  with Cons.IH [of ?w] show ?case by (simp add: tenant_ids_def)
qed simp

section \<open>Redelivery\<close>

text \<open>An event counts when it was processed or will never be; delivering it again does nothing.\<close>

definition counted :: "string set \<Rightarrow> billing_env \<Rightarrow> billed \<Rightarrow> stripe_event \<Rightarrow> bool" where
  "counted ts env v event \<longleftrightarrow> sx_id event \<in> fst v \<or> event_refused ts env (snd v) event"

lemma counted_again: "counted ts env v e \<Longrightarrow> billing_step ts env e v = v"
  by (auto simp: counted_def billing_step_def)

lemma step_counts: "counted ts env (billing_step ts env e v) e"
  by (auto simp: counted_def billing_step_def)

lemma counted_stays: "counted ts env v e \<Longrightarrow> counted ts env (billing_step ts env d v) e"
  by (auto simp: counted_def billing_step_def event_refused_def changed_def split: option.splits if_splits)

fun first_deliveries :: "stripe_event list \<Rightarrow> stripe_event list" where
  "first_deliveries [] = []"
| "first_deliveries (e # es) = e # first_deliveries (filter (\<lambda>d. d \<noteq> e) es)"

lemma deliver_others:
  "counted ts env v e \<Longrightarrow> fold (billing_step ts env) (filter (\<lambda>d. d \<noteq> e) es) v = fold (billing_step ts env) es v"
  by (induction es arbitrary: v) (auto simp: counted_again counted_stays)

lemma deliver_first: "fold (billing_step ts env) (first_deliveries es) v = fold (billing_step ts env) es v"
  by (induction es arbitrary: v rule: first_deliveries.induct) (simp_all add: deliver_others step_counts)

text \<open>
  C24. Delivering webhooks more than once changes nothing: after any sequence of deliveries, with
  any repetitions in any order, failed ones included, the subscriptions and the set of processed
  events are those after delivering each event once, at its first delivery.
\<close>

theorem redelivery_harmless:
  assumes "billing_ok rt w" "inj (rt_uuid rt)"
  shows "sub_of (deliver_events rt env es w) = sub_of (deliver_events rt env (first_deliveries es) w) \<and>
    processed_ids (billing_events (deliver_events rt env es w)) =
      processed_ids (billing_events (deliver_events rt env (first_deliveries es) w))"
proof -
  have "billing_view (deliver_events rt env es w) = billing_view (deliver_events rt env (first_deliveries es) w)"
    by (simp add: delivered_view [OF assms] deliver_first)
  then show ?thesis by (simp add: billing_view_def)
qed

section \<open>The signature\<close>

text \<open>
  C25. A webhook request without the signature header is obeyed as if Stripe had sent it, whatever
  client and secret are configured: a body that reads as an active subscription of a tenant puts
  the tenant on the plan of the price the body names.
\<close>

theorem unsigned_webhook_obeyed:
  assumes "billing_ok rt w" "inj (rt_uuid rt)"
    and "bn_parse env body = Inr event" "sx_type event = ''customer.subscription.updated''"
    and "sx_object event = Some x" "so_tenantId x = Some t" "so_status x = ''active''"
    and "t \<in> tenant_ids w" "t \<noteq> []" "sx_id event \<notin> processed_ids (billing_events w)"
  shows "runs (billing_webhook rt env (Some body) None) w (\<lambda>deduped w'. \<not> deduped \<and>
    runs (resolveEffectivePlan t) w' (\<lambda>plan _. plan = planFromPriceId env (so_price x)))"
proof -
  have read: "constructWebhookEvent env body None = Inr event"
    using assms(3) by (simp add: constructWebhookEvent_def truthy_def split: option.split)
  have change: "event_change env event = Some (t, subscription_change env x False)"
    using assms(4-6,9) by (simp add: event_change_def SUBSCRIPTION_EVENTS_def)
  then have ok: "\<not> event_refused (tenant_ids w) env (sub_of w) event"
    using assms(5,8) by (simp add: event_refused_def)
  have plan: "runs (resolveEffectivePlan t) w' (\<lambda>plan _. plan = planFromPriceId env (so_price x))"
    if "sub_of w' = changed env event (sub_of w)" for w'
    using fun_cong [OF that, of t] assms(7)
    by (simp add: sub_of_def changed_def change resolveEffectivePlan_def run_simps patched_def
        subscription_change_def mapStripeStatus_def ENTITLED_STATUSES_def)
  show ?thesis
    using handle_new [OF assms(1,2,10) ok] by (auto simp: billing_webhook_def read run_simps billing_view_def
      intro: plan elim!: runs_mono)
qed

section \<open>Witnesses\<close>

definition demo_stripe :: stripe_sdk where
  "demo_stripe = \<lparr>sk_customer = (\<lambda>e t n. Inr (''cus_'' @ show_nat n)),
     sk_session = (\<lambda>c p t su cu n. Inr (''cs_1'', Some su)), sk_portal = (\<lambda>c r n. Inr r),
     sk_verify = (\<lambda>b s k. Inl ''No signatures found matching the expected signature'')\<rparr>"

definition demo_subscription_event :: "string \<Rightarrow> string \<Rightarrow> stripe_event" where
  "demo_subscription_event i ty = \<lparr>sx_id = i, sx_type = ty, sx_object = Some \<lparr>so_id = ''sub_1'',
     so_tenantId = Some ''t1'', so_customer = Some ''cus_1'', so_subscription = Some ''sub_1'',
     so_status = ''active'', so_price = Some ''price_PREMIUM_SHIELD'', so_current_period_end = Some 1800000000,
     so_cancel_at_period_end = None\<rparr>\<rparr>"

text \<open>A live environment: the client and the secret of the webhook are configured.\<close>

definition demo_billing_env :: billing_env where
  "demo_billing_env = \<lparr>bn_client = Some demo_stripe, bn_webhookSecret = Some ''whsec_1'',
     bn_nodeEnv = ''production'', bn_appUrl = None, bn_price = (\<lambda>v. None),
     bn_parse = (\<lambda>b. Inr (demo_subscription_event b ''customer.subscription.updated''))\<rparr>"

definition demo_billing :: "tenant list \<Rightarrow> billing_db" where
  "demo_billing ts = \<lparr>db_tick = 0, evidence_events = [], audit_logs = [], jobs = [],
     ws_events = [], evidence_files = [], export_bundles = [], deliveries = [], alerts = [],
     users = [], contacts = [], reviews = [], settings = [], profiles = [],
     risk_events = [], pauses = [], holds = [], warnings = [], signals = [], similarities = [],
     graph_nodes = [], graph_edges = [], wallets = [], clusters = [], ai_decisions = [],
     embeddings = [], enrichments = [], tenants = ts, reliability = [], review_queue = [],
     subscribers = [], billing_events = []\<rparr>"

lemma demo_billing_ok: "billing_ok demo_rt (demo_billing ts)"
  by (simp add: billing_ok_def demo_billing_def)

definition demo_tenant :: tenant where
  "demo_tenant = \<lparr>tn_id = ''t1'', tn_name = ''Bank'', tn_type = TT_BANK\<rparr>"

text \<open>An old event delivered again after the cancellation does not bring the plan back.\<close>

theorem redelivery_harmless_witness:
  "let w = demo_billing [demo_tenant]; e = demo_subscription_event ''e1'' ''customer.subscription.created'';
       d = demo_subscription_event ''e2'' ''customer.subscription.deleted'' in
   sub_of (deliver_events demo_rt demo_billing_env [e, d, e, d] w) =
     sub_of (deliver_events demo_rt demo_billing_env [e, d] w)"
proof -
  have "e \<noteq> d \<Longrightarrow> first_deliveries [e, d, e, d] = [e, d]" for e d by simp
  moreover have "demo_subscription_event ''e1'' ''customer.subscription.created'' \<noteq>
      demo_subscription_event ''e2'' ''customer.subscription.deleted''"
    by (simp add: demo_subscription_event_def)
  ultimately show ?thesis
    using redelivery_harmless [OF demo_billing_ok demo_rt_inj] by (metis (no_types))
qed

text \<open>A request of anybody, to a server with a live key and a secret, buys the highest plan.\<close>

theorem unsigned_webhook_obeyed_witness:
  "runs (billing_webhook demo_rt demo_billing_env (Some ''e1'') None) (demo_billing [demo_tenant])
     (\<lambda>deduped w'. \<not> deduped \<and> runs (resolveEffectivePlan ''t1'') w' (\<lambda>plan _. plan = BP_PREMIUM_SHIELD))"
proof -
  let ?e = "demo_subscription_event ''e1'' ''customer.subscription.updated''"
  have "bn_parse demo_billing_env ''e1'' = Inr ?e" by (simp add: demo_billing_env_def)
  from unsigned_webhook_obeyed [OF demo_billing_ok demo_rt_inj this, of _ "''t1''" "[demo_tenant]"]
  show ?thesis
    by (simp add: demo_subscription_event_def demo_billing_def demo_tenant_def tenant_ids_def
        demo_billing_env_def planFromPriceId_def truthy_def ends_with_def starts_with_def)
qed

end
