(* ===== verification/PartnerKeys.thy ===== *)
theory PartnerKeys
  imports Webhooks
begin

text \<open>
  Partner API keys (modules/partner-keys, common/auth/api-key.guard.ts): keys are issued to
  institutional tenants, stored as a hash, re-tiered and revoked by administrators, and checked on
  every partner request against their status, expiry, scopes and daily quota.
\<close>

section \<open>State\<close>

record partner_key =
  pk_id :: string
  pk_tenantId :: string
  pk_keyHash :: string
  pk_keyPrefix :: string
  pk_label :: string
  pk_scopes :: "key_scope list"
  pk_plan :: key_plan
  pk_status :: key_status
  pk_createdByUserId :: string
  pk_expiresAt :: "int option"
  pk_lastUsedAt :: "int option"
  pk_revokedAt :: "int option"
  pk_createdAt :: int

record key_usage =
  ku_keyId :: string
  ku_date :: int
  ku_requestCount :: nat

record key_db = report_db +
  partner_keys :: "partner_key list"
  key_usages :: "key_usage list"

interpretation partner_keys_tab: table partner_keys partner_keys_update
  by unfold_locales simp

interpretation key_usages_tab: table key_usages key_usages_update
  by unfold_locales simp

section \<open>Plans and days\<close>

fun DAILY_LIMITS :: "key_plan \<Rightarrow> nat option" where
  "DAILY_LIMITS PLAN_FREE = Some 1000"
| "DAILY_LIMITS PLAN_PRO = Some 100000"
| "DAILY_LIMITS PLAN_ENTERPRISE = None"

definition dailyLimitFor :: "key_plan \<Rightarrow> nat option" where
  "dailyLimitFor plan = DAILY_LIMITS plan"

text \<open>The midnight before, in milliseconds: the date part of the ISO text, read as a date.\<close>

definition todayUtcBucket :: "int \<Rightarrow> int" where
  "todayUtcBucket t = t - t mod 86400000"

section \<open>Management\<close>

definition ELIGIBLE_TENANT_TYPES :: "tenant_type list" where
  "ELIGIBLE_TENANT_TYPES =
     [TT_BANK, TT_PLATFORM, TT_INVESTIGATOR, TT_AGENCY, TT_ENTERPRISE, TT_INTERNAL]"

record create_key_dto =
  yd_tenantId :: string
  yd_label :: string
  yd_scopes :: "key_scope list"
  yd_plan :: "key_plan option"
  yd_expiresAt :: "int option"

text \<open>The raw key, its hash and the prefix that is displayed; the token is 20 random bytes in hex.\<close>

definition generateRawKey :: "runtime \<Rightarrow> ('a core_db_scheme, string \<times> string \<times> string) prog" where
  "generateRawKey rt =
     bind_p (random_token rt) (\<lambda>random.
     let raw = ''vsk_'' @ random in ret (raw, rt_sha256 rt raw, take 10 raw))"

text \<open>The column of the hash is unique (Prisma's P2002).\<close>

definition insert_key :: "partner_key \<Rightarrow> ('a key_db_scheme, partner_key) prog" where
  "insert_key k =
     bind_p (find_row partner_keys (\<lambda>q. pk_keyHash q = pk_keyHash k)) (\<lambda>clash.
     seq_p (ensure (clash = None) (InternalError ''P2002''))
     (insert_row partner_keys_update k))"

definition key_event ::
    "auth_user \<Rightarrow> partner_key \<Rightarrow> string \<Rightarrow> string \<Rightarrow> js \<Rightarrow> string option \<Rightarrow> append_input" where
  "key_event actor k evtype descr metadata ip =
     \<lparr>in_tenantId = Some (pk_tenantId k), in_actorId = Some (au_userId actor), in_actorType = Some ''ADMIN'',
      in_entityType = ''PARTNER_API_KEY'', in_entityId = pk_id k, in_eventType = evtype,
      in_eventDescription = descr, in_metadata = metadata, in_ipAddress = ip, in_deviceId = None\<rparr>"

definition new_key ::
    "auth_user \<Rightarrow> create_key_dto \<Rightarrow> string \<Rightarrow> string \<Rightarrow> string \<Rightarrow> int \<Rightarrow> partner_key" where
  "new_key actor dto h shown uid t =
     \<lparr>pk_id = uid, pk_tenantId = yd_tenantId dto, pk_keyHash = h, pk_keyPrefix = shown,
      pk_label = yd_label dto, pk_scopes = yd_scopes dto, pk_plan = or_default (yd_plan dto) PLAN_FREE,
      pk_status = KEY_ACTIVE, pk_createdByUserId = au_userId actor, pk_expiresAt = yd_expiresAt dto,
      pk_lastUsedAt = None, pk_revokedAt = None, pk_createdAt = t\<rparr>"

definition issueKey ::
    "runtime \<Rightarrow> auth_user \<Rightarrow> create_key_dto \<Rightarrow> string option \<Rightarrow> ('a key_db_scheme, string \<times> partner_key) prog"
  where
  "issueKey rt actor dto ip =
     bind_p (find_row tenants (\<lambda>t. tn_id t = yd_tenantId dto)) (\<lambda>found.
     bind_p (require_some found (NotFoundException ''Tenant not found'')) (\<lambda>tenant.
     seq_p (ensure (tn_type tenant \<in> set ELIGIBLE_TENANT_TYPES) (BadRequestException
       (''Tenant type '' @ tenant_type_text (tn_type tenant) @ '' cannot hold a partner API key '' @ em_dash @
        '' partner keys are only for institutional tenants (BANK, PLATFORM, INVESTIGATOR, AGENCY, ENTERPRISE, INTERNAL).'')))
     (bind_p (generateRawKey rt) (\<lambda>(raw, h, shown).
      bind_p (new_id rt) (\<lambda>uid. bind_p (now rt) (\<lambda>t.
      bind_p (insert_key (new_key actor dto h shown uid t)) (\<lambda>k.
      seq_p (append_evidence rt (key_event actor k ''PARTNER_KEY_ISSUED''
        (''Partner API key issued ('' @ shown @ ellipsis @ '') to '' @ tn_name tenant @ '' on '' @
         key_plan_text (pk_plan k) @ '' plan'')
        (JObj [(''tenantId'', JStr (tn_id tenant)), (''scopes'', JArr (map (\<lambda>s. JStr (scope_text s)) (pk_scopes k))),
               (''plan'', JStr (key_plan_text (pk_plan k))), (''keyPrefix'', JStr shown)]) ip))
      (ret (raw, k)))))))))"

text \<open>What is shown of a key: every column but the hash.\<close>

record key_view =
  kv_id :: string
  kv_tenantId :: string
  kv_keyPrefix :: string
  kv_label :: string
  kv_scopes :: "key_scope list"
  kv_plan :: key_plan
  kv_status :: key_status
  kv_createdByUserId :: string
  kv_expiresAt :: "int option"
  kv_lastUsedAt :: "int option"
  kv_revokedAt :: "int option"
  kv_createdAt :: int

definition safeSelect :: "partner_key \<Rightarrow> key_view" where
  "safeSelect k =
     \<lparr>kv_id = pk_id k, kv_tenantId = pk_tenantId k, kv_keyPrefix = pk_keyPrefix k, kv_label = pk_label k,
      kv_scopes = pk_scopes k, kv_plan = pk_plan k, kv_status = pk_status k,
      kv_createdByUserId = pk_createdByUserId k, kv_expiresAt = pk_expiresAt k,
      kv_lastUsedAt = pk_lastUsedAt k, kv_revokedAt = pk_revokedAt k, kv_createdAt = pk_createdAt k\<rparr>"

definition updatePlan ::
    "runtime \<Rightarrow> auth_user \<Rightarrow> string \<Rightarrow> key_plan \<Rightarrow> string option \<Rightarrow> ('a key_db_scheme, key_view) prog" where
  "updatePlan rt actor i plan ip =
     bind_p (find_row partner_keys (\<lambda>k. pk_id k = i)) (\<lambda>found.
     bind_p (require_some found (NotFoundException ''Partner API key not found'')) (\<lambda>key.
     if pk_plan key = plan then ret (safeSelect key)
     else
       bind_p (update_row partner_keys partner_keys_update (\<lambda>k. pk_id k = i) (\<lambda>k. k\<lparr>pk_plan := plan\<rparr>)) (\<lambda>updated.
       seq_p (append_evidence rt (key_event actor key ''PARTNER_KEY_PLAN_CHANGED''
         (''Partner API key plan changed '' @ key_plan_text (pk_plan key) @ '' -> '' @ key_plan_text plan @
          '' ('' @ pk_keyPrefix key @ ellipsis @ '')'')
         (JObj [(''tenantId'', JStr (pk_tenantId key)), (''keyPrefix'', JStr (pk_keyPrefix key)),
                (''from'', JStr (key_plan_text (pk_plan key))), (''to'', JStr (key_plan_text plan))]) ip))
       (ret (safeSelect updated)))))"

definition listUsage :: "string \<Rightarrow> int \<Rightarrow> ('a key_db_scheme, key_usage list) prog" where
  "listUsage keyId limit =
     bind_p (find_rows key_usages (\<lambda>u. ku_keyId u = keyId)) (\<lambda>rows.
     ret (take (clamp 1 365 limit) (order_desc ku_date rows)))"

definition listKeys :: "string option \<Rightarrow> ('a key_db_scheme, key_view list) prog" where
  "listKeys tenantId =
     bind_p (find_rows partner_keys (\<lambda>k. truthy tenantId \<longrightarrow> tenantId = Some (pk_tenantId k))) (\<lambda>rows.
     ret (map safeSelect (take 200 (order_desc pk_createdAt rows))))"

definition revoke_at :: "int \<Rightarrow> partner_key \<Rightarrow> partner_key" where
  "revoke_at t k = k\<lparr>pk_status := KEY_REVOKED, pk_revokedAt := Some t\<rparr>"

definition revokeKey ::
    "runtime \<Rightarrow> auth_user \<Rightarrow> string \<Rightarrow> string option \<Rightarrow> ('a key_db_scheme, key_view) prog" where
  "revokeKey rt actor i ip =
     bind_p (find_row partner_keys (\<lambda>k. pk_id k = i)) (\<lambda>found.
     bind_p (require_some found (NotFoundException ''Partner API key not found'')) (\<lambda>key.
     if pk_status key = KEY_REVOKED then ret (safeSelect key)
     else
       bind_p (now rt) (\<lambda>t.
       bind_p (update_row partner_keys partner_keys_update (\<lambda>k. pk_id k = i) (revoke_at t)) (\<lambda>updated.
       seq_p (append_evidence rt (key_event actor key ''PARTNER_KEY_REVOKED''
         (''Partner API key revoked ('' @ pk_keyPrefix key @ ellipsis @ '')'')
         (JObj [(''tenantId'', JStr (pk_tenantId key)), (''keyPrefix'', JStr (pk_keyPrefix key))]) ip))
       (ret (safeSelect updated))))))"

section \<open>The guard of partner requests\<close>

text \<open>The header as the HTTP server gives it: absent, one value or several.\<close>

datatype header_value = NoHeader | OneHeader string | ManyHeaders "string list"

definition extractKey :: "header_value \<Rightarrow> string option" where
  "extractKey h = (case h of
     NoHeader \<Rightarrow> None | OneHeader v \<Rightarrow> Some v | ManyHeaders vs \<Rightarrow> first_of vs)"

definition missing_scopes :: "key_scope list \<Rightarrow> partner_key \<Rightarrow> key_scope list" where
  "missing_scopes required key = filter (\<lambda>s. s \<notin> set (pk_scopes key)) required"

definition principal_of :: "partner_key \<Rightarrow> partner_principal" where
  "principal_of key = \<lparr>pp_keyId = pk_id key, pp_tenantId = pk_tenantId key,
     pp_keyPrefix = pk_keyPrefix key, pp_scopes = pk_scopes key, pp_plan = pk_plan key\<rparr>"

definition count_usage :: "string \<Rightarrow> int \<Rightarrow> ('a key_db_scheme, key_usage) prog" where
  "count_usage keyId today =
     (let mine = (\<lambda>u. ku_keyId u = keyId \<and> ku_date u = today) in
      bind_p (find_row key_usages mine) (\<lambda>usage.
      case usage of
        None \<Rightarrow> insert_row key_usages_update \<lparr>ku_keyId = keyId, ku_date = today, ku_requestCount = 1\<rparr>
      | Some u \<Rightarrow> update_row key_usages key_usages_update mine (\<lambda>u. u\<lparr>ku_requestCount := ku_requestCount u + 1\<rparr>)))"

definition check_quota :: "partner_key \<Rightarrow> int \<Rightarrow> ('a key_db_scheme, unit) prog" where
  "check_quota key today =
     (case dailyLimitFor (pk_plan key) of
        None \<Rightarrow> ret ()
      | Some limit \<Rightarrow>
          bind_p (find_row key_usages (\<lambda>u. ku_keyId u = pk_id key \<and> ku_date u = today)) (\<lambda>usage.
          ensure (\<not> (case usage of None \<Rightarrow> 0 | Some u \<Rightarrow> ku_requestCount u) \<ge> limit)
            (TooManyRequestsException (''Daily quota exceeded for '' @ key_plan_text (pk_plan key) @ '' plan ('' @
               show_nat limit @ '' requests/day)''))))"

text \<open>
  The guard decides, and then starts two writes it does not wait for: the time of the last use and
  the count of the day. They are separate programs here, so that they can run at any later time or
  fail; \<open>api_key_guard\<close> is the run in which both end before anything else happens.
\<close>

definition admit_request ::
    "runtime \<Rightarrow> key_scope list option \<Rightarrow> header_value \<Rightarrow> ('a key_db_scheme, partner_key \<times> int) prog" where
  "admit_request rt required header =
     (let raw = extractKey header in
      seq_p (ensure (truthy raw) (UnauthorizedException ''Missing X-API-Key header''))
      (bind_p (find_row partner_keys (\<lambda>k. pk_keyHash k = rt_sha256 rt (or_default raw []))) (\<lambda>found.
       bind_p (require_some found (UnauthorizedException ''Invalid or revoked API key'')) (\<lambda>key.
       seq_p (ensure (pk_status key = KEY_ACTIVE) (UnauthorizedException ''Invalid or revoked API key''))
       (seq_p (case pk_expiresAt key of
            None \<Rightarrow> ret ()
          | Some e \<Rightarrow> bind_p (now rt) (\<lambda>t. ensure (\<not> e < t) (UnauthorizedException ''API key has expired'')))
       (let missing = missing_scopes (or_default required []) key in
        seq_p (ensure (missing = []) (ForbiddenException
          (''API key is missing required scope(s): '' @ join_with '', '' (map scope_text missing)) []))
        (bind_p (now rt) (\<lambda>t. let today = todayUtcBucket t in
         seq_p (check_quota key today)
         (ret (key, today))))))))))"

definition touch_key :: "runtime \<Rightarrow> string \<Rightarrow> ('a key_db_scheme, unit) prog" where
  "touch_key rt keyId =
     bind_p (now rt) (\<lambda>used.
     attempt (update_row partner_keys partner_keys_update (\<lambda>k. pk_id k = keyId)
       (\<lambda>k. k\<lparr>pk_lastUsedAt := Some used\<rparr>)))"

definition api_key_guard ::
    "runtime \<Rightarrow> key_scope list option \<Rightarrow> header_value \<Rightarrow> ('a key_db_scheme, partner_principal) prog" where
  "api_key_guard rt required header =
     bind_p (admit_request rt required header) (\<lambda>(key, today).
     seq_p (touch_key rt (pk_id key))
     (seq_p (attempt (count_usage (pk_id key) today))
     (ret (principal_of key))))"

section \<open>The log is respected\<close>

lemma key_event_storable [simp]: "storable (in_metadata (key_event a k ty d m ip)) \<longleftrightarrow> storable m"
  by (simp add: key_event_def)

lemma partner_keys_safe:
  "moves (log_safe rt) (issueKey rt actor dto ip)" "moves (log_safe rt) (updatePlan rt actor i plan ip)"
  "moves (log_safe rt) (revokeKey rt actor i ip)" "moves (log_safe rt) (api_key_guard rt required header)"
  unfolding issueKey_def generateRawKey_def insert_key_def updatePlan_def revokeKey_def api_key_guard_def
    admit_request_def touch_key_def check_quota_def count_usage_def Let_def
  by (auto simp: log_untouched intro!: safe_rules append_safe split: option.split prod.split)

section \<open>Admission\<close>

text \<open>A change of the rows that keeps what a lookup looks at commutes with the lookup.\<close>

lemma find_touched:
  assumes "\<And>q. P (g q) \<longleftrightarrow> P q"
  shows "find P (map g qs) = map_option g (find P qs)"
  using assms by (induction qs) auto

definition usage_of :: "('a key_db_scheme) \<Rightarrow> string \<Rightarrow> int \<Rightarrow> nat" where
  "usage_of w i d =
     (case find (\<lambda>u. ku_keyId u = i \<and> ku_date u = d) (key_usages w) of
        None \<Rightarrow> 0 | Some u \<Rightarrow> ku_requestCount u)"

definition admissible :: "runtime \<Rightarrow> key_scope list \<Rightarrow> partner_key \<Rightarrow> bool" where
  "admissible rt required k \<longleftrightarrow> pk_status k = KEY_ACTIVE \<and> set required \<subseteq> set (pk_scopes k) \<and>
     (\<forall>e n. pk_expiresAt k = Some e \<longrightarrow> rt_clock rt n \<le> e)"

definition within_quota :: "key_plan \<Rightarrow> nat \<Rightarrow> bool" where
  "within_quota plan used \<longleftrightarrow> (case dailyLimitFor plan of None \<Rightarrow> True | Some l \<Rightarrow> used < l)"

lemma missing_none [simp]: "missing_scopes required k = [] \<longleftrightarrow> set required \<subseteq> set (pk_scopes k)"
  by (auto simp: missing_scopes_def filter_empty_conv)

lemma usage_ignores [simp]:
  "usage_of (w\<lparr>db_tick := n\<rparr>) = usage_of w" "usage_of (partner_keys_update g w) = usage_of w"
  for w :: "'a key_db_scheme"
  by (simp_all add: usage_of_def fun_eq_iff)

lemma runs_count:
  "runs (attempt (count_usage i d)) w (\<lambda>_ w'. partner_keys w' = partner_keys w \<and>
     usage_of w' i d = usage_of w i d + 1)"
  by (cases "find (\<lambda>u. ku_keyId u = i \<and> ku_date u = d) (key_usages w)")
     (auto simp: attempt_def runs_catch count_usage_def Let_def run_simps usage_of_def find_append_eq find_mapped)

lemma runs_quota:
  "within_quota (pk_plan k) (usage_of w (pk_id k) d) \<Longrightarrow> key_usages w' = key_usages w \<Longrightarrow>
   runs (check_quota k d) w' Q \<longleftrightarrow> Q () w'"
  by (auto simp: check_quota_def within_quota_def usage_of_def run_simps split: option.splits)

lemma raises_quota:
  "\<not> within_quota (pk_plan k) (usage_of w (pk_id k) d) \<Longrightarrow> key_usages w' = key_usages w \<Longrightarrow>
   raises (check_quota k d) w' Q \<longleftrightarrow>
      Q (TooManyRequestsException (''Daily quota exceeded for '' @ key_plan_text (pk_plan k) @ '' plan ('' @
         show_nat (or_default (dailyLimitFor (pk_plan k)) 0) @ '' requests/day)'')) w'"
  by (auto simp: check_quota_def within_quota_def usage_of_def run_simps split: option.splits)

lemma admission:
  assumes "find (\<lambda>q. pk_keyHash q = rt_sha256 rt raw) (partner_keys w) = Some k"
    and "extractKey header = Some raw" "raw \<noteq> []" "admissible rt (or_default required []) k"
    and "todayUtcBucket (rt_clock rt (db_tick w + (if pk_expiresAt k = None then 0 else 1))) = d"
  shows "within_quota (pk_plan k) (usage_of w (pk_id k) d) \<Longrightarrow>
      runs (admit_request rt required header) w (\<lambda>r w'. r = (k, d) \<and> (\<exists>n. w' = w\<lparr>db_tick := n\<rparr>))"
    and "\<not> within_quota (pk_plan k) (usage_of w (pk_id k) d) \<Longrightarrow>
      raises (admit_request rt required header) w (\<lambda>e w'. \<exists>n. w' = w\<lparr>db_tick := n\<rparr>)"
  using assms
  by (cases "pk_expiresAt k";
      auto simp: admit_request_def Let_def truthy_def admissible_def not_less run_simps runs_quota [of k w]
        raises_quota [of k w])+

lemma guard_admits:
  assumes "find (\<lambda>q. pk_keyHash q = rt_sha256 rt raw) (partner_keys w) = Some k"
    and "extractKey header = Some raw" "raw \<noteq> []" "admissible rt (or_default required []) k"
    and "todayUtcBucket (rt_clock rt (db_tick w + (if pk_expiresAt k = None then 0 else 1))) = d"
    and "within_quota (pk_plan k) (usage_of w (pk_id k) d)"
  shows "runs (api_key_guard rt required header) w (\<lambda>p w'. p = principal_of k \<and>
    usage_of w' (pk_id k) d = usage_of w (pk_id k) d + 1 \<and>
    (\<exists>t. partner_keys w' = map (\<lambda>q. if pk_id q = pk_id k then q\<lparr>pk_lastUsedAt := Some t\<rparr> else q) (partner_keys w)))"
proof -
  have found: "find (\<lambda>q. pk_id q = pk_id k) (partner_keys w) \<noteq> None"
    using find_SomeD [OF assms(1)] by (auto simp: find_None_iff)
  have touch: "runs (attempt (update_row partner_keys partner_keys_update (\<lambda>q. pk_id q = pk_id k) f)) w' Q \<longleftrightarrow>
      Q () (partner_keys_update (map (\<lambda>q. if pk_id q = pk_id k then f q else q)) w')"
    if "partner_keys w' = partner_keys w" for w' f Q
    using found that by (auto simp: attempt_def runs_catch run_simps split: option.splits)
  show ?thesis
    unfolding api_key_guard_def runs_bind
    by (rule runs_mono [OF admission(1) [OF assms(1-5) assms(6)]])
       (auto simp: touch_key_def run_simps touch simp del: map_eq_conv intro!: runs_mono [OF runs_count] exI)
qed

section \<open>The daily quota\<close>

text \<open>How many of \<open>n\<close> requests with the same header, one after the other, are let through.\<close>

primrec admitted ::
    "runtime \<Rightarrow> key_scope list option \<Rightarrow> header_value \<Rightarrow> nat \<Rightarrow> ('a key_db_scheme) \<Rightarrow> nat" where
  "admitted rt required header 0 w = 0"
| "admitted rt required header (Suc n) w =
     (case api_key_guard rt required header w of
        (Inr p, w') \<Rightarrow> Suc (admitted rt required header n w')
      | (Inl e, w') \<Rightarrow> admitted rt required header n w')"

lemma guard_over_quota:
  assumes "find (\<lambda>q. pk_keyHash q = rt_sha256 rt raw) (partner_keys w) = Some k"
    and "extractKey header = Some raw" "raw \<noteq> []" "admissible rt (or_default required []) k"
    and "\<And>n. todayUtcBucket (rt_clock rt n) = d" "\<not> within_quota (pk_plan k) (usage_of w (pk_id k) d)"
  shows "raises (api_key_guard rt required header) w (\<lambda>e w'. partner_keys w' = partner_keys w \<and>
    usage_of w' = usage_of w)"
  unfolding api_key_guard_def raises_bind
  by (rule disjI1, rule raises_mono [OF admission(2) [OF assms(1-5) assms(6)]]) auto

text \<open>The key is found and has not changed but for the time of its last use.\<close>

definition same_key_row :: "partner_key \<Rightarrow> partner_key \<Rightarrow> bool" where
  "same_key_row k q \<longleftrightarrow> q\<lparr>pk_lastUsedAt := None\<rparr> = k\<lparr>pk_lastUsedAt := None\<rparr>"

lemma same_key_rowD:
  "same_key_row k q \<Longrightarrow> pk_id q = pk_id k \<and> pk_plan q = pk_plan k \<and> pk_status q = pk_status k \<and>
     pk_scopes q = pk_scopes k \<and> pk_expiresAt q = pk_expiresAt k"
  by (cases k; cases q) (simp add: same_key_row_def)

lemma admitted_count:
  assumes "find (\<lambda>q. pk_keyHash q = rt_sha256 rt raw) (partner_keys w) = Some q" "same_key_row k q"
    and "extractKey header = Some raw" "raw \<noteq> []" "admissible rt (or_default required []) k"
    and day: "\<And>n. todayUtcBucket (rt_clock rt n) = d"
  shows "admitted rt required header n w = (case dailyLimitFor (pk_plan k) of
    None \<Rightarrow> n | Some l \<Rightarrow> min n (l - usage_of w (pk_id k) d))"
  using assms(1,2)
proof (induction n arbitrary: w q)
  case (Suc n)
  note q = same_key_rowD [OF Suc.prems(2)]
  have ok: "admissible rt (or_default required []) q" using assms(5) q by (simp add: admissible_def)
  show ?case
  proof (cases "within_quota (pk_plan k) (usage_of w (pk_id k) d)")
    case True
    obtain p w' t where run: "api_key_guard rt required header w = (Inr p, w')"
      "usage_of w' (pk_id k) d = usage_of w (pk_id k) d + 1"
      "partner_keys w' = map (\<lambda>r. if pk_id r = pk_id q then r\<lparr>pk_lastUsedAt := Some t\<rparr> else r) (partner_keys w)"
      using guard_admits [OF Suc.prems(1) assms(3,4) ok day] True q by (auto simp: runs_iff)
    have "find (\<lambda>r. pk_keyHash r = rt_sha256 rt raw) (partner_keys w') = Some (q\<lparr>pk_lastUsedAt := Some t\<rparr>)"
      unfolding run(3) by (subst find_touched) (simp_all add: Suc.prems(1))
    moreover have "same_key_row k (q\<lparr>pk_lastUsedAt := Some t\<rparr>)"
      using Suc.prems(2) by (simp add: same_key_row_def)
    ultimately show ?thesis
      using Suc.IH [of w'] run True by (auto simp: within_quota_def split: option.splits)
  next
    case False
    obtain e w' where run: "api_key_guard rt required header w = (Inl e, w')"
      "partner_keys w' = partner_keys w" "usage_of w' = usage_of w"
      using guard_over_quota [OF Suc.prems(1) assms(3,4) ok day] False q by (auto simp: raises_iff)
    then show ?thesis
      using Suc.IH [of w' q] Suc.prems False by (auto simp: within_quota_def split: option.splits)
  qed
qed (simp split: option.split)

text \<open>
  When every request has been counted before the next one is decided, the quota is exact: those are
  let through that the plan's limit leaves after the requests already counted.
\<close>

lemma quota_exact:
  assumes "find (\<lambda>q. pk_keyHash q = rt_sha256 rt raw) (partner_keys w) = Some k"
    and "extractKey header = Some raw" "raw \<noteq> []" "admissible rt (or_default required []) k"
    and "\<And>n. todayUtcBucket (rt_clock rt n) = d"
  shows "admitted rt required header n w = (case dailyLimitFor (pk_plan k) of
    None \<Rightarrow> n | Some l \<Rightarrow> min n (l - usage_of w (pk_id k) d))"
  by (rule admitted_count [OF assms(1) _ assms(2-5)]) (simp add: same_key_row_def)

subsection \<open>Requests that race\<close>

text \<open>
  The same requests with their counts written whenever the database gets to them. \<open>out\<close> are the
  counts started and not yet written, by key and day; \<open>n\<close> requests were let through, \<open>peak\<close> is the
  largest number of counts that were out when one was, and \<open>lost\<close> counts failed, which the guard
  ignores. In between anything may happen that leaves the key (but for its last use) and its count
  alone.
\<close>

inductive requests ::
    "runtime \<Rightarrow> key_scope list option \<Rightarrow> header_value \<Rightarrow> partner_key \<Rightarrow> ('a key_db_scheme) \<Rightarrow>
     ('a key_db_scheme) \<Rightarrow> (string \<times> int) list \<Rightarrow> nat \<Rightarrow> nat \<Rightarrow> nat \<Rightarrow> bool"
  for rt required header k w where
  none: "requests rt required header k w w [] 0 0 0"
| let_through: "requests rt required header k w v out n peak lost \<Longrightarrow>
    admit_request rt required header v = (Inr (q, d), v') \<Longrightarrow>
    requests rt required header k w v' ((pk_id q, d) # out) (Suc n) (max peak (length out)) lost"
| refused: "requests rt required header k w v out n peak lost \<Longrightarrow>
    admit_request rt required header v = (Inl e, v') \<Longrightarrow>
    requests rt required header k w v' out n peak lost"
| counted: "requests rt required header k w v (xs @ (i, d) # ys) n peak lost \<Longrightarrow>
    requests rt required header k w (snd (count_usage i d v)) (xs @ ys) n peak lost"
| uncounted: "requests rt required header k w v (xs @ x # ys) n peak lost \<Longrightarrow>
    requests rt required header k w v (xs @ ys) n peak (Suc lost)"
| elsewhere: "requests rt required header k w v out n peak lost \<Longrightarrow>
    map (\<lambda>q. q\<lparr>pk_lastUsedAt := None\<rparr>) (partner_keys v') = map (\<lambda>q. q\<lparr>pk_lastUsedAt := None\<rparr>) (partner_keys v) \<Longrightarrow>
    usage_of v' (pk_id k) = usage_of v (pk_id k) \<Longrightarrow>
    requests rt required header k w v' out n peak lost"

definition holds_key :: "string \<Rightarrow> partner_key \<Rightarrow> ('a key_db_scheme) \<Rightarrow> bool" where
  "holds_key h k v \<longleftrightarrow> (\<exists>q. find (\<lambda>q. pk_keyHash q = h) (partner_keys v) = Some q \<and> same_key_row k q)"

lemma holds_key_untouched:
  fixes v v' :: "'a key_db_scheme"
  assumes "map (\<lambda>q. q\<lparr>pk_lastUsedAt := None\<rparr>) (partner_keys v') = map (\<lambda>q. q\<lparr>pk_lastUsedAt := None\<rparr>) (partner_keys v)"
  shows "holds_key h k v' = holds_key h k v"
proof -
  have "holds_key h k u \<longleftrightarrow> find (\<lambda>q. pk_keyHash q = h) (map (\<lambda>q. q\<lparr>pk_lastUsedAt := None\<rparr>) (partner_keys u)) =
      Some (k\<lparr>pk_lastUsedAt := None\<rparr>)" for u :: "'a key_db_scheme"
    by (subst find_touched) (auto simp: holds_key_def same_key_row_def)
  with assms show ?thesis by simp
qed

lemma count_run:
  "usage_of (snd (count_usage i d w)) i d = usage_of w i d + 1"
  "partner_keys (snd (count_usage i d w)) = partner_keys w"
proof -
  have "runs (count_usage i d) w (\<lambda>_ w'. usage_of w' i d = usage_of w i d + 1 \<and> partner_keys w' = partner_keys w)"
    by (cases "find (\<lambda>u. ku_keyId u = i \<and> ku_date u = d) (key_usages w)")
       (auto simp: count_usage_def Let_def run_simps usage_of_def find_append_eq find_mapped)
  then show "usage_of (snd (count_usage i d w)) i d = usage_of w i d + 1"
    "partner_keys (snd (count_usage i d w)) = partner_keys w"
    by (auto simp: runs_iff)
qed

text \<open>The decision about one request, in any state that has the key.\<close>

lemma decided:
  assumes "holds_key (rt_sha256 rt raw) k v" "extractKey header = Some raw" "raw \<noteq> []"
    "admissible rt (or_default required []) k" "\<And>n. todayUtcBucket (rt_clock rt n) = d"
  shows "\<exists>n. snd (admit_request rt required header v) = v\<lparr>db_tick := n\<rparr>"
    and "within_quota (pk_plan k) (usage_of v (pk_id k) d) \<Longrightarrow>
      \<exists>q. fst (admit_request rt required header v) = Inr (q, d) \<and> pk_id q = pk_id k"
    and "\<not> within_quota (pk_plan k) (usage_of v (pk_id k) d) \<Longrightarrow> \<exists>e. fst (admit_request rt required header v) = Inl e"
proof -
  obtain q where q: "find (\<lambda>q. pk_keyHash q = rt_sha256 rt raw) (partner_keys v) = Some q" "same_key_row k q"
    using assms(1) by (auto simp: holds_key_def)
  note same = same_key_rowD [OF q(2)]
  have ok: "admissible rt (or_default required []) q" using assms(4) same by (simp add: admissible_def)
  note a = admission [OF q(1) assms(2,3) ok assms(5)]
  show "within_quota (pk_plan k) (usage_of v (pk_id k) d) \<Longrightarrow>
      \<exists>q. fst (admit_request rt required header v) = Inr (q, d) \<and> pk_id q = pk_id k"
    using a(1) same by (auto simp: runs_iff)
  show "\<not> within_quota (pk_plan k) (usage_of v (pk_id k) d) \<Longrightarrow> \<exists>e. fst (admit_request rt required header v) = Inl e"
    using a(2) same by (auto simp: raises_iff)
  show "\<exists>n. snd (admit_request rt required header v) = v\<lparr>db_tick := n\<rparr>"
    using a same by (cases "within_quota (pk_plan k) (usage_of v (pk_id k) d)") (auto simp: runs_iff raises_iff)
qed

lemma requests_counted:
  assumes "requests rt required header k w v out n peak lost"
    and "holds_key (rt_sha256 rt raw) k w" "extractKey header = Some raw" "raw \<noteq> []"
    and "admissible rt (or_default required []) k" "\<And>n. todayUtcBucket (rt_clock rt n) = d"
  shows "holds_key (rt_sha256 rt raw) k v \<and> set out \<subseteq> {(pk_id k, d)} \<and>
    usage_of v (pk_id k) d + length out + lost = usage_of w (pk_id k) d + n \<and>
    (\<forall>l. dailyLimitFor (pk_plan k) = Some l \<longrightarrow> n \<le> (l - usage_of w (pk_id k) d) + peak + lost)"
  using assms(1)
proof induction
  case none
  with assms(2) show ?case by simp
next
  case (let_through v out n peak lost q d' v')
  note IH = let_through.IH
  note dec = decided [OF conjunct1 [OF IH] assms(3-6)]
  have in_quota: "within_quota (pk_plan k) (usage_of v (pk_id k) d)" and q: "d' = d" "pk_id q = pk_id k"
    using dec(2,3) let_through.hyps(2) by fastforce+
  obtain m where v': "v' = v\<lparr>db_tick := m\<rparr>" using dec(1) let_through.hyps(2) by auto
  have "holds_key (rt_sha256 rt raw) k v'" using IH by (simp add: v' holds_key_def)
  moreover have "Suc n \<le> (l - usage_of w (pk_id k) d) + max peak (length out) + lost"
    if "dailyLimitFor (pk_plan k) = Some l" for l
    using IH in_quota that by (auto simp: within_quota_def)
  ultimately show ?case using IH q by (simp add: v')
next
  case (refused v out n peak lost e v')
  obtain m where "v' = v\<lparr>db_tick := m\<rparr>"
    using decided(1) [OF conjunct1 [OF refused.IH] assms(3-6)] refused.hyps(2) by auto
  with refused.IH show ?case by (simp add: holds_key_def)
next
  case (counted v xs i d' ys n peak lost)
  then have "i = pk_id k" "d' = d" by auto
  with counted.IH show ?case by (simp add: holds_key_def count_run)
next
  case (uncounted v xs x ys n peak lost)
  then show ?case by auto
next
  case (elsewhere v out n peak lost v')
  with holds_key_untouched [OF elsewhere.hyps(2)] show ?case by simp
qed

text \<open>
  C27. The daily quota under races. Of any number of requests with a valid key on one day, their
  counts written at any later time in any order or lost, a request is let through exactly while the
  counts written so far are below the plan's limit; every request let through is counted, still to
  be counted, or lost; and the limit is exceeded at most by the number of counts that were out at
  once when a request was let through, plus those lost. Nothing leaks when each count is written
  before the next request.
\<close>

theorem quota_leaks_by_burst:
  assumes "find (\<lambda>q. pk_keyHash q = rt_sha256 rt raw) (partner_keys w) = Some k"
    and "extractKey header = Some raw" "raw \<noteq> []" "admissible rt (or_default required []) k"
    and "\<And>n. todayUtcBucket (rt_clock rt n) = d"
    and "requests rt required header k w v out n peak lost"
  shows "((\<exists>p. fst (admit_request rt required header v) = Inr p) \<longleftrightarrow>
      within_quota (pk_plan k) (usage_of v (pk_id k) d)) \<and>
    usage_of v (pk_id k) d + length out + lost = usage_of w (pk_id k) d + n \<and>
    (case dailyLimitFor (pk_plan k) of None \<Rightarrow> True
     | Some l \<Rightarrow> n \<le> (l - usage_of w (pk_id k) d) + peak + lost)"
proof -
  have "holds_key (rt_sha256 rt raw) k w" using assms(1) by (simp add: holds_key_def same_key_row_def)
  from requests_counted [OF assms(6) this assms(2-5)]
  have inv: "holds_key (rt_sha256 rt raw) k v"
    "usage_of v (pk_id k) d + length out + lost = usage_of w (pk_id k) d + n"
    "\<forall>l. dailyLimitFor (pk_plan k) = Some l \<longrightarrow> n \<le> (l - usage_of w (pk_id k) d) + peak + lost"
    by blast+
  show ?thesis
    using inv(2,3) decided(2,3) [OF inv(1) assms(2-5)] by (fastforce split: option.split)
qed

section \<open>Revocation\<close>

text \<open>What may happen to the keys: any operation of any administrator or partner, and anything
  else that leaves their table alone.\<close>

inductive key_step :: "runtime \<Rightarrow> ('a key_db_scheme) \<Rightarrow> ('a key_db_scheme) \<Rightarrow> bool" for rt where
  issue: "key_step rt w (snd (issueKey rt actor dto ip w))"
| retier: "key_step rt w (snd (updatePlan rt actor i plan ip w))"
| revoke: "key_step rt w (snd (revokeKey rt actor i ip w))"
| partner_request: "key_step rt w (snd (api_key_guard rt required header w))"
| decision: "key_step rt w (snd (admit_request rt required header w))"
| late_touch: "key_step rt w (snd (touch_key rt i w))"
| other: "partner_keys w' = partner_keys w \<Longrightarrow> key_step rt w w'"

definition dead :: "string \<Rightarrow> ('a key_db_scheme) \<Rightarrow> bool" where
  "dead h w \<longleftrightarrow> (\<exists>k. find (\<lambda>q. pk_keyHash q = h) (partner_keys w) = Some k \<and> pk_status k = KEY_REVOKED)"

lemma dead_ignores [simp]:
  "dead h (db_tick_update f1 w) = dead h w" "dead h (evidence_events_update f2 w) = dead h w"
  "dead h (key_usages_update f3 w) = dead h w"
  by (simp_all add: dead_def)

lemma dead_insert: "dead h w \<Longrightarrow> dead h (partner_keys_update (\<lambda>ks. ks @ [k]) w)"
  by (auto simp: dead_def find_snoc)

lemma dead_update:
  assumes "\<And>k. pk_keyHash (f k) = pk_keyHash k" "\<And>k. pk_status k = KEY_REVOKED \<Longrightarrow> pk_status (f k) = KEY_REVOKED"
  shows "moves (\<lambda>w w'. dead h w \<longrightarrow> dead h w') (update_row partner_keys partner_keys_update P f)"
proof -
  have "dead h (partner_keys_update (map (\<lambda>r. if P r then f r else r)) w)" if w: "dead h w" for w :: "'a key_db_scheme"
  proof -
    obtain k where k: "find (\<lambda>q. pk_keyHash q = h) (partner_keys w) = Some k" "pk_status k = KEY_REVOKED"
      using w by (auto simp: dead_def)
    have "find (\<lambda>q. pk_keyHash q = h) (map (\<lambda>r. if P r then f r else r) (partner_keys w)) =
        Some (if P k then f k else k)"
      by (subst find_touched) (simp_all add: assms(1) k(1))
    with k(2) assms(2) show ?thesis by (simp add: dead_def)
  qed
  then show ?thesis by (simp add: moves_def update_row_def split: option.split)
qed

lemma dead_draws:
  "moves (\<lambda>w w'. dead h w \<longrightarrow> dead h w') (now rt)" "moves (\<lambda>w w'. dead h w \<longrightarrow> dead h w') (new_id rt)"
  "moves (\<lambda>w w'. dead h w \<longrightarrow> dead h w') (random_token rt)"
  by (simp_all add: moves_def draw_defs)

lemma dead_append: "moves (\<lambda>w w'. dead h w \<longrightarrow> dead h w') (append_evidence rt input)"
  unfolding moves_def
proof (intro allI impI)
  fix w :: "'a key_db_scheme"
  assume "dead h w"
  obtain e w' where a: "append_evidence rt input w = (Inr e, w')" using append_returns [of rt input w] by auto
  then have "w' = evidence_events_update (\<lambda>es. es @ [e]) (w\<lparr>db_tick := db_tick w + 2\<rparr>)"
    by (intro appended_state) (simp add: appended_def)
  with a \<open>dead h w\<close> show "dead h (snd (append_evidence rt input w))" by simp
qed

lemma dead_usage: "moves (\<lambda>w w'. dead h w \<longrightarrow> dead h w') (count_usage i d)"
  unfolding count_usage_def Let_def
  by (auto intro!: keep.moves_rules keep.table_moves split: option.split)

lemma dead_insert_row: "moves (\<lambda>w w'. dead h w \<longrightarrow> dead h w') (insert_row partner_keys_update k)"
  by (simp add: moves_def insert_row_def dead_insert)

lemmas dead_rules = keep.moves_rules keep.find_row_moves dead_draws dead_append dead_update dead_usage
  dead_insert_row

lemma dead_ops:
  "moves (\<lambda>w w'. dead h w \<longrightarrow> dead h w') (issueKey rt actor dto ip)" "moves (\<lambda>w w'. dead h w \<longrightarrow> dead h w') (updatePlan rt actor i plan ip)"
  "moves (\<lambda>w w'. dead h w \<longrightarrow> dead h w') (revokeKey rt actor i ip)" "moves (\<lambda>w w'. dead h w \<longrightarrow> dead h w') (api_key_guard rt required header)"
  "moves (\<lambda>w w'. dead h w \<longrightarrow> dead h w') (admit_request rt required header)" "moves (\<lambda>w w'. dead h w \<longrightarrow> dead h w') (touch_key rt i)"
  unfolding issueKey_def generateRawKey_def insert_key_def updatePlan_def revokeKey_def revoke_at_def
    api_key_guard_def admit_request_def touch_key_def check_quota_def Let_def
  by (auto intro!: dead_rules split: prod.split option.split)

lemma dead_stays:
  assumes "key_step rt w w'" "dead h w"
  shows "dead h w'"
  using assms(1)
proof cases
  case other
  with assms(2) show ?thesis by (simp add: dead_def)
qed (simp_all add: dead_ops [unfolded moves_def, rule_format] assms(2))

lemma dead_steps: "(key_step rt)\<^sup>*\<^sup>* w w' \<Longrightarrow> dead h w \<Longrightarrow> dead h w'"
  by (induction rule: rtranclp_induct) (auto intro: dead_stays)

text \<open>
  C17. A revoked key stays out: once an administrator's revocation of a key has returned, no
  sequence of operations makes the guard accept a request with a header whose hash is that of
  the key; the request is refused with 401 and changes nothing.
\<close>

theorem revoked_stays_out:
  assumes "distinct (map pk_id (partner_keys w))" "distinct (map pk_keyHash (partner_keys w))"
    and "k \<in> set (partner_keys w)" "revokeKey rt actor (pk_id k) ip w = (Inr v, w1)"
    and "(key_step rt)\<^sup>*\<^sup>* w1 w2"
    and "extractKey header = Some raw" "rt_sha256 rt raw = pk_keyHash k"
  shows "raises (api_key_guard rt required header) w2
    (\<lambda>e w'. w' = w2 \<and> (\<exists>m. e = UnauthorizedException m))"
proof -
  have found: "find (\<lambda>q. key q = key k) (partner_keys w) = Some k" if "distinct (map key (partner_keys w))"
    for key :: "partner_key \<Rightarrow> string"
  proof -
    obtain q where q: "find (\<lambda>q. key q = key k) (partner_keys w) = Some q"
      using assms(3) find_ex [of "\<lambda>q. key q = key k" "partner_keys w"] by auto
    with find_SomeD [OF q] same_key [OF that _ assms(3)] show ?thesis by simp
  qed
  have gone: "dead (pk_keyHash k) (partner_keys_update (map (\<lambda>q. if pk_id q = pk_id k then revoke_at t q else q)) w')"
    if "partner_keys w' = partner_keys w" for t and w' :: "'a key_db_scheme"
  proof -
    have "find (\<lambda>q. pk_keyHash q = pk_keyHash k)
        (map (\<lambda>q. if pk_id q = pk_id k then revoke_at t q else q) (partner_keys w)) = Some (revoke_at t k)"
      by (subst find_touched) (simp_all add: revoke_at_def found [OF assms(2)])
    then show ?thesis by (simp add: dead_def that) (simp add: revoke_at_def)
  qed
  have "runs (revokeKey rt actor (pk_id k) ip) w (\<lambda>_ w'. dead (pk_keyHash k) w')"
  proof (cases "pk_status k = KEY_REVOKED")
    case True
    then show ?thesis
      by (simp add: revokeKey_def run_simps found [OF assms(1)] found [OF assms(2)] dead_def)
  next
    case False
    then show ?thesis
      by (simp add: revokeKey_def run_simps runs_stamped found [OF assms(1)] gone)
  qed
  then have "dead (pk_keyHash k) w1" using assms(4) by (simp add: runs_iff)
  then have "dead (pk_keyHash k) w2" using dead_steps [OF assms(5)] by blast
  then show ?thesis
    using assms(6,7)
    by (auto simp: dead_def api_key_guard_def admit_request_def Let_def truthy_def run_simps)
qed

section \<open>Issuing\<close>

text \<open>
  C26. An issued key works: the raw key the administrator is shown, sent as the header of a
  partner's request right after, while the key's expiry date (if it was given one) is not past, is
  accepted for every selection of the key's scopes and identifies the key, its tenant and plan. The
  row stored is determined by the request and two values derived from the raw key, its hash and its
  first ten characters; and the tenant is an institution.
\<close>

theorem issued_key_works:
  assumes "issueKey rt actor dto ip w = (Inr (raw, k), w1)" "set required \<subseteq> set (yd_scopes dto)"
    and "\<And>e n. yd_expiresAt dto = Some e \<Longrightarrow> rt_clock rt n \<le> e"
    and "\<forall>u\<in>set (key_usages w). ku_keyId u \<noteq> pk_id k"
  shows "runs (api_key_guard rt (Some required) (OneHeader raw)) w1 (\<lambda>p _. p = principal_of k) \<and>
    partner_keys w1 = partner_keys w @ [k] \<and>
    k = new_key actor dto (rt_sha256 rt raw) (take 10 raw) (pk_id k) (pk_createdAt k) \<and>
    pk_tenantId k = yd_tenantId dto \<and> pk_keyHash k = rt_sha256 rt raw \<and>
    (\<exists>t\<in>set (tenants w). tn_id t = pk_tenantId k \<and> tn_type t \<in> set ELIGIBLE_TENANT_TYPES)"
proof -
  have "runs (issueKey rt actor dto ip) w (\<lambda>(raw, k) w1. raw \<noteq> [] \<and>
      (\<exists>uid t. k = new_key actor dto (rt_sha256 rt raw) (take 10 raw) uid t) \<and>
      partner_keys w1 = partner_keys w @ [k] \<and> key_usages w1 = key_usages w \<and>
      find (\<lambda>q. pk_keyHash q = pk_keyHash k) (partner_keys w) = None \<and>
      (\<exists>t\<in>set (tenants w). tn_id t = yd_tenantId dto \<and> tn_type t \<in> set ELIGIBLE_TENANT_TYPES))"
  proof (cases "find (\<lambda>t. tn_id t = yd_tenantId dto) (tenants w)")
    case None
    then show ?thesis using assms(1) by (simp add: issueKey_def run_Inr table_Inr)
  next
    case (Some t)
    have "runs (issueKey rt actor dto ip) w (\<lambda>r w'. r = (raw, k) \<and> w' = w1)"
      using assms(1) by (simp add: runs_iff)
    with Some find_SomeD [OF Some] show ?thesis
      by (auto simp: issueKey_def generateRawKey_def insert_key_def Let_def run_simps runs_stamped
          intro!: exI)
  qed
  then obtain uid t where k: "k = new_key actor dto (rt_sha256 rt raw) (take 10 raw) uid t" "raw \<noteq> []"
    and w1: "partner_keys w1 = partner_keys w @ [k]" "key_usages w1 = key_usages w"
      "find (\<lambda>q. pk_keyHash q = pk_keyHash k) (partner_keys w) = None"
    and tenant: "\<exists>t\<in>set (tenants w). tn_id t = yd_tenantId dto \<and> tn_type t \<in> set ELIGIBLE_TENANT_TYPES"
    using assms(1) by (auto simp: runs_iff)
  have hash: "pk_keyHash k = rt_sha256 rt raw" using k by (simp add: new_key_def)
  have found: "find (\<lambda>q. pk_keyHash q = rt_sha256 rt raw) (partner_keys w1) = Some k"
    using w1(3) unfolding w1(1) hash by (simp add: find_append_eq hash)
  have unused: "usage_of w1 (pk_id k) d = 0" for d
  proof -
    have "find (\<lambda>u. ku_keyId u = pk_id k \<and> ku_date u = d) (key_usages w) = None"
      using assms(4) by (auto simp: find_None_iff)
    then show ?thesis by (simp add: usage_of_def w1(2))
  qed
  have "admissible rt required k" using assms(2,3) k by (auto simp: admissible_def new_key_def)
  moreover have "within_quota (pk_plan k) (usage_of w1 (pk_id k) d)" for d
    unfolding unused by (cases "pk_plan k") (simp_all add: within_quota_def dailyLimitFor_def)
  ultimately have "runs (api_key_guard rt (Some required) (OneHeader raw)) w1 (\<lambda>p _. p = principal_of k)"
    by (intro runs_mono [OF guard_admits [OF found _ k(2)]]) (auto simp: extractKey_def)
  then show ?thesis using k tenant hash by (simp add: w1(1) new_key_def)
qed

section \<open>Witnesses\<close>

definition demo_keys :: "partner_key list \<Rightarrow> key_usage list \<Rightarrow> key_db" where
  "demo_keys ks us = \<lparr>db_tick = 0, evidence_events = [], audit_logs = [], jobs = [],
     ws_events = [], evidence_files = [], export_bundles = [], deliveries = [], alerts = [],
     users = [], contacts = [], reviews = [], settings = [], profiles = [],
     risk_events = [], pauses = [], holds = [], warnings = [], signals = [], similarities = [],
     graph_nodes = [], graph_edges = [], wallets = [], clusters = [], ai_decisions = [],
     embeddings = [], enrichments = [],
     tenants = [\<lparr>tn_id = ''t1'', tn_name = ''Bank'', tn_type = TT_BANK\<rparr>], reliability = [],
     review_queue = [], partner_keys = ks, key_usages = us\<rparr>"

definition demo_key_dto :: create_key_dto where
  "demo_key_dto = \<lparr>yd_tenantId = ''t1'', yd_label = ''ingestion'', yd_scopes = [REPORT_SUBMIT, AGENCY_FEED],
     yd_plan = None, yd_expiresAt = None\<rparr>"

definition demo_key :: partner_key where
  "demo_key = new_key demo_user demo_key_dto ''vsk_1'' ''vsk_1'' ''k1'' 0"

text \<open>
  One request is left of the thousand of the day. Of two requests that arrive before either is
  counted, both are let through, one too many; and so would be a third.
\<close>

definition demo_day :: runtime where
  "demo_day = demo_rt\<lparr>rt_clock := (\<lambda>n. 1700000000000)\<rparr>"

definition demo_burst :: "key_db" where
  "demo_burst = demo_keys [demo_key] [\<lparr>ku_keyId = ''k1'', ku_date = 1699920000000, ku_requestCount = 999\<rparr>]"

lemma demo_day_facts:
  "todayUtcBucket (rt_clock demo_day n) = 1699920000000"
  "pk_id demo_key = ''k1''" "pk_keyHash demo_key = ''vsk_1''" "pk_plan demo_key = PLAN_FREE"
  "find (\<lambda>q. pk_keyHash q = rt_sha256 demo_day ''vsk_1'') (partner_keys demo_burst) = Some demo_key"
  "admissible demo_day (or_default (Some [REPORT_SUBMIT]) []) demo_key"
  "usage_of demo_burst ''k1'' 1699920000000 = 999"
  by (simp_all add: demo_day_def todayUtcBucket_def demo_burst_def demo_keys_def demo_rt_def usage_of_def
      demo_key_def new_key_def demo_key_dto_def admissible_def)

theorem quota_leaks_by_burst_witness:
  "\<exists>v out. requests demo_day (Some [REPORT_SUBMIT]) (OneHeader ''vsk_1'') demo_key demo_burst v out 2 1 0 \<and>
     usage_of v ''k1'' 1699920000000 + length out = 1001 \<and>
     (\<exists>p. fst (admit_request demo_day (Some [REPORT_SUBMIT]) (OneHeader ''vsk_1'') v) = Inr p)"
proof -
  let ?admit = "admit_request demo_day (Some [REPORT_SUBMIT]) (OneHeader ''vsk_1'')"
  let ?requests = "requests demo_day (Some [REPORT_SUBMIT]) (OneHeader ''vsk_1'') demo_key demo_burst"
  have raw: "extractKey (OneHeader ''vsk_1'') = Some ''vsk_1''" by (simp add: extractKey_def)
  have quota: "within_quota (pk_plan demo_key) (usage_of (demo_burst\<lparr>db_tick := n\<rparr>) (pk_id demo_key) 1699920000000)" for n
    by (simp add: demo_day_facts within_quota_def dailyLimitFor_def)
  have step: "\<exists>m. ?admit (demo_burst\<lparr>db_tick := n\<rparr>) = (Inr (demo_key, 1699920000000), demo_burst\<lparr>db_tick := m\<rparr>)" for n
    using admission(1) [where w = "demo_burst\<lparr>db_tick := n\<rparr>" and k = demo_key, OF _ raw _ demo_day_facts(6,1) quota]
    by (auto simp: demo_day_facts runs_iff)
  obtain m1 where a1: "?admit demo_burst = (Inr (demo_key, 1699920000000), demo_burst\<lparr>db_tick := m1\<rparr>)"
    using step [of "db_tick demo_burst"] by auto
  obtain m2 where a2: "?admit (demo_burst\<lparr>db_tick := m1\<rparr>) = (Inr (demo_key, 1699920000000), demo_burst\<lparr>db_tick := m2\<rparr>)"
    using step by blast
  have r: "?requests (demo_burst\<lparr>db_tick := m2\<rparr>) [(''k1'', 1699920000000), (''k1'', 1699920000000)] 2 1 0"
    using requests.let_through [OF requests.let_through [OF requests.none a1] a2] by (simp add: demo_day_facts numeral_2_eq_2)
  have "usage_of (demo_burst\<lparr>db_tick := m2\<rparr>) ''k1'' 1699920000000 = 999" by (simp add: demo_day_facts)
  then have "within_quota (pk_plan demo_key) (usage_of (demo_burst\<lparr>db_tick := m2\<rparr>) (pk_id demo_key) 1699920000000)"
    by (simp add: demo_day_facts within_quota_def dailyLimitFor_def)
  with quota_leaks_by_burst [OF demo_day_facts(5) raw _ demo_day_facts(6,1) r]
  have "\<exists>p. fst (?admit (demo_burst\<lparr>db_tick := m2\<rparr>)) = Inr p" by blast
  then show ?thesis using r \<open>usage_of (demo_burst\<lparr>db_tick := m2\<rparr>) ''k1'' 1699920000000 = 999\<close>
    by (intro exI [of _ "demo_burst\<lparr>db_tick := m2\<rparr>"] exI [of _ "[(''k1'', 1699920000000), (''k1'', 1699920000000)]"]) simp
qed

text \<open>After the revocation another key is issued; the old one stays out.\<close>

theorem revoked_stays_out_witness:
  "\<exists>v w1. revokeKey demo_rt demo_user ''k1'' None (demo_keys [demo_key] []) = (Inr v, w1) \<and>
     raises (api_key_guard demo_rt None (OneHeader ''vsk_1''))
       (snd (issueKey demo_rt demo_user demo_key_dto None w1)) (\<lambda>e _. \<exists>m. e = UnauthorizedException m)"
proof -
  have key: "pk_id demo_key = ''k1''" "pk_keyHash demo_key = ''vsk_1''" "pk_status demo_key = KEY_ACTIVE"
    by (simp_all add: demo_key_def new_key_def)
  have "runs (revokeKey demo_rt demo_user ''k1'' None) (demo_keys [demo_key] []) (\<lambda>_ _. True)"
    by (simp add: revokeKey_def run_simps runs_stamped demo_keys_def key)
  then obtain v w1 where r: "revokeKey demo_rt demo_user (pk_id demo_key) None (demo_keys [demo_key] []) = (Inr v, w1)"
    by (auto simp: runs_iff key)
  have "raises (api_key_guard demo_rt None (OneHeader ''vsk_1''))
      (snd (issueKey demo_rt demo_user demo_key_dto None w1))
      (\<lambda>e w'. w' = snd (issueKey demo_rt demo_user demo_key_dto None w1) \<and> (\<exists>m. e = UnauthorizedException m))"
    by (rule revoked_stays_out [OF _ _ _ r]) (auto simp: demo_keys_def key extractKey_def demo_rt_def intro: key_step.issue)
  then show ?thesis using r by (auto simp: key elim: raises_mono)
qed

text \<open>A key is issued to a bank and used.\<close>

theorem issued_key_works_witness:
  "\<exists>raw k w1. issueKey demo_rt demo_user demo_key_dto None (demo_keys [] []) = (Inr (raw, k), w1) \<and>
     runs (api_key_guard demo_rt (Some [REPORT_SUBMIT]) (OneHeader raw)) w1 (\<lambda>p _. p = principal_of k)"
proof -
  have "runs (issueKey demo_rt demo_user demo_key_dto None) (demo_keys [] []) (\<lambda>_ _. True)"
    by (simp add: issueKey_def generateRawKey_def insert_key_def Let_def run_simps runs_stamped demo_keys_def
        demo_key_dto_def ELIGIBLE_TENANT_TYPES_def)
  then obtain raw k w1 where r: "issueKey demo_rt demo_user demo_key_dto None (demo_keys [] []) = (Inr (raw, k), w1)"
    by (auto simp: runs_iff)
  have dto: "set [REPORT_SUBMIT] \<subseteq> set (yd_scopes demo_key_dto)" "yd_expiresAt demo_key_dto = None"
    "key_usages (demo_keys [] []) = []"
    by (simp_all add: demo_key_dto_def demo_keys_def)
  have "runs (api_key_guard demo_rt (Some [REPORT_SUBMIT]) (OneHeader raw)) w1 (\<lambda>p _. p = principal_of k)"
    using issued_key_works [OF r dto(1)] by (simp add: dto(2,3))
  with r show ?thesis by blast
qed

end
