(* ===== verification/ScamMirror.thy ===== *)
theory ScamMirror
  imports FraudGraph NlpStub
begin

text \<open>
  ScamMirror (modules/scammirror): simulated scam conversations. Every turn passes the sanitizer
  before it is stored; a turn with a real credential ends the session and opens a Guardian Pause.
\<close>

section \<open>The sanitizer\<close>

datatype sanitizer_reason = SR_CREDIT_CARD | SR_ETH_PRIVATE_KEY | SR_BITCOIN_WIF | SR_MNEMONIC_PHRASE | SR_SSN

fun reason_text :: "sanitizer_reason \<Rightarrow> string" where
  "reason_text SR_CREDIT_CARD = ''CREDIT_CARD''"
| "reason_text SR_ETH_PRIVATE_KEY = ''ETH_PRIVATE_KEY''"
| "reason_text SR_BITCOIN_WIF = ''BITCOIN_WIF''"
| "reason_text SR_MNEMONIC_PHRASE = ''MNEMONIC_PHRASE''"
| "reason_text SR_SSN = ''SSN''"

text \<open>
  The patterns of the sanitizer as functions from a cursor to the cursors where a match may end:
  a character of a class, one pattern after another, a fixed or a bounded number of times, and the
  word boundary. A text matches when some position has an end.
\<close>

type_synonym matcher = "cursor \<Rightarrow> cursor list"

definition followed :: "matcher \<Rightarrow> matcher \<Rightarrow> matcher" where
  "followed m n cur = concat (map n (m cur))"

primrec exactly :: "nat \<Rightarrow> matcher \<Rightarrow> matcher" where
  "exactly 0 m cur = [cur]"
| "exactly (Suc n) m cur = concat (map (exactly n m) (m cur))"

primrec up_to :: "nat \<Rightarrow> matcher \<Rightarrow> matcher" where
  "up_to 0 m cur = [cur]"
| "up_to (Suc n) m cur = cur # concat (map (up_to n m) (m cur))"

definition boundary :: matcher where
  "boundary cur = (if word_before cur \<noteq> word_ahead cur then [cur] else [])"

fun sequence :: "matcher list \<Rightarrow> matcher" where
  "sequence [] cur = [cur]"
| "sequence (m # ms) cur = concat (map (sequence ms) (m cur))"

fun somewhere :: "matcher \<Rightarrow> char option \<Rightarrow> string \<Rightarrow> bool" where
  "somewhere m prev [] = (m (prev, []) \<noteq> [])"
| "somewhere m prev (c # cs) = (m (prev, c # cs) \<noteq> [] \<or> somewhere m (Some c) cs)"

subsection \<open>Credit cards\<close>

text \<open>\<open>luhnValid\<close> doubles every second digit from the right.\<close>

fun luhn_sum :: "bool \<Rightarrow> nat list \<Rightarrow> nat" where
  "luhn_sum alt [] = 0"
| "luhn_sum alt (d # ds) =
     (if alt then (if 2 * d > 9 then 2 * d - 9 else 2 * d) else d) + luhn_sum (\<not> alt) ds"

definition luhnValid :: "string \<Rightarrow> bool" where
  "luhnValid digits \<longleftrightarrow> luhn_sum False (map (\<lambda>c. code c - 48) (rev digits)) mod 10 = 0"

definition card_gap :: "char \<Rightarrow> bool" where
  "card_gap c \<longleftrightarrow> c = CHR '' '' \<or> c = CHR ''-''"

text \<open>
  The runs of digits from a position, with spaces and dashes between, the longest (up to the
  given number of digits) first: the digits and the rest of the text. This is the order in which
  the greedy \<open>(?:\d[ -]*?){13,19}\<close> gives digits back; the gaps are lazy, so that a run ends at its
  last digit.
\<close>

fun card_runs :: "nat \<Rightarrow> string \<Rightarrow> string \<Rightarrow> (string \<times> string) list" where
  "card_runs 0 ds s = []"
| "card_runs (Suc n) ds [] = []"
| "card_runs (Suc n) ds (c # cs) =
     (if is_digit c then card_runs n (ds @ [c]) (dropWhile card_gap cs) @ [(ds @ [c], cs)] else [])"

definition card_match :: "char option \<Rightarrow> string \<Rightarrow> (string \<times> string) option" where
  "card_match prev s =
     (if (case prev of None \<Rightarrow> False | Some c \<Rightarrow> word_char c) then None
      else find (\<lambda>(ds, r). 13 \<le> length ds \<and> \<not> word_ahead (None, r)) (card_runs 19 [] s))"

text \<open>
  \<open>input.match(/.../g)\<close>: the digits of the successive matches; the search goes on where the last
  match ended (\<open>skip\<close> counts the characters of it that are still to pass).
\<close>

fun card_matches :: "nat \<Rightarrow> char option \<Rightarrow> string \<Rightarrow> string list" where
  "card_matches skip prev [] = []"
| "card_matches (Suc k) prev (c # cs) = card_matches k (Some c) cs"
| "card_matches 0 prev (c # cs) =
     (case card_match prev (c # cs) of
        None \<Rightarrow> card_matches 0 (Some c) cs
      | Some (ds, r) \<Rightarrow> ds # card_matches (length cs - length r) (Some c) cs)"

definition hasCreditCard :: "string \<Rightarrow> bool" where
  "hasCreditCard s \<longleftrightarrow>
     (\<exists>ds\<in>set (card_matches 0 None s). \<not> (length ds < 13 \<or> length ds > 19) \<and> luhnValid ds)"

subsection \<open>Private keys, mnemonics and social security numbers\<close>

definition is_hex_char :: "char \<Rightarrow> bool" where
  "is_hex_char c \<longleftrightarrow> is_digit c \<or> 65 \<le> code c \<and> code c \<le> 70 \<or> 97 \<le> code c \<and> code c \<le> 102"

definition hasEthPrivateKey :: "string \<Rightarrow> bool" where
  "hasEthPrivateKey = somewhere
     (sequence [boundary, one_of (\<lambda>c. c = CHR ''0''), one_of (\<lambda>c. c = CHR ''x''),
        exactly 64 (one_of is_hex_char), boundary]) None"

definition wif_char :: "char \<Rightarrow> bool" where
  "wif_char c \<longleftrightarrow> 49 \<le> code c \<and> code c \<le> 57 \<or> 65 \<le> code c \<and> code c \<le> 72 \<or>
     74 \<le> code c \<and> code c \<le> 78 \<or> 80 \<le> code c \<and> code c \<le> 90 \<or>
     97 \<le> code c \<and> code c \<le> 107 \<or> 109 \<le> code c \<and> code c \<le> 122"

definition hasBitcoinWif :: "string \<Rightarrow> bool" where
  "hasBitcoinWif = somewhere
     (sequence [boundary, one_of (\<lambda>c. c \<in> {CHR ''5'', CHR ''K'', CHR ''L''}),
        exactly 50 (one_of wif_char), up_to 1 (one_of wif_char), boundary]) None"

text \<open>The lines of a text (\<open>split(/\r?\n/)\<close>) and the words of a line between single spaces.\<close>

fun split_at :: "char \<Rightarrow> string \<Rightarrow> string list" where
  "split_at d [] = [[]]"
| "split_at d (c # cs) =
     (if c = d then [] # split_at d cs
      else (case split_at d cs of [] \<Rightarrow> [[c]] | l # ls \<Rightarrow> (c # l) # ls))"

definition drop_return :: "string \<Rightarrow> string" where
  "drop_return l = (if l \<noteq> [] \<and> code (last l) = 13 then butlast l else l)"

definition split_lines :: "string \<Rightarrow> string list" where
  "split_lines s = (let ls = split_at (char_of (10::nat)) s in map drop_return (butlast ls) @ [last ls])"

definition short_word :: "string \<Rightarrow> bool" where
  "short_word w \<longleftrightarrow> 3 \<le> length w \<and> length w \<le> 8 \<and> (\<forall>c\<in>set w. 97 \<le> code c \<and> code c \<le> 122)"

definition hasMnemonic :: "string \<Rightarrow> bool" where
  "hasMnemonic s \<longleftrightarrow> (\<exists>l\<in>set (split_lines s).
     let ws = split_at (CHR '' '') (trim l) in 12 \<le> length ws \<and> (\<forall>w\<in>set ws. short_word w))"

definition some_run :: "(char \<Rightarrow> bool) \<Rightarrow> matcher" where
  "some_run P cur = cur # run_of P (snd cur)"

definition hasSsn :: "string \<Rightarrow> bool" where
  "hasSsn s \<longleftrightarrow>
     (let digit = one_of is_digit; dash = one_of (\<lambda>c. c = CHR ''-''); other = one_of (\<lambda>c. \<not> word_char c) in
      somewhere (sequence [boundary, exactly 3 digit, dash, exactly 2 digit, dash, exactly 4 digit, boundary])
        None s \<or>
      somewhere (sequence [boundary,
          \<lambda>cur. literal ''ssn'' cur @
            sequence [literal ''social'', some_run is_space, literal ''security''] cur,
          up_to 4 other, exactly 3 digit, up_to 1 other, exactly 2 digit, up_to 1 other, exactly 4 digit,
          boundary]) None s)"

definition sanitize :: "string \<Rightarrow> sanitizer_reason option" where
  "sanitize input =
     (if hasCreditCard input then Some SR_CREDIT_CARD
      else if hasEthPrivateKey input then Some SR_ETH_PRIVATE_KEY
      else if hasBitcoinWif input then Some SR_BITCOIN_WIF
      else if hasMnemonic input then Some SR_MNEMONIC_PHRASE
      else if hasSsn input then Some SR_SSN
      else None)"

section \<open>Tactics\<close>

text \<open>\<open>\s*\<close> and \<open>'?\<close>, between the words of a phrase.\<close>

definition any_space :: pat where
  "any_space = Maybe Spaces"

definition apostrophe :: pat where
  "apostrophe = Maybe (Lit [CHR 0x27])"

definition spaced_words :: "string list \<Rightarrow> pat" where
  "spaced_words ws = seqs (tl (concat (map (\<lambda>w. [any_space, Lit w]) ws)))"

definition dont :: pat where
  "dont = seqs [Lit ''don'', apostrophe, Lit ''t'']"

definition TACTIC_RULES :: "(scam_tactic \<times> pat) list" where
  "TACTIC_RULES =
     [(T_URGENCY, phrase [alts [spaced_words [''right'', ''now''], Lit ''immediately'', Lit ''asap'',
         seqs [Lit ''urgent'', Maybe (Lit ''ly'')], spaced_words [''today'', ''only''],
         spaced_words [''limited'', ''time''], Lit ''hurry'', Lit ''quickly'', spaced_words [''act'', ''fast'']]]),
      (T_SECRECY, phrase [alts [seqs [dont, any_space, Lit ''tell''], spaced_words [''between'', ''us''],
         seqs [Lit ''keep'', any_space, words_alt [''this'', ''it''], any_space,
           words_alt [''secret'', ''confidential'', ''private'']],
         spaced_words [''nobody'', ''can'', ''know'']]]),
      (T_AUTHORITY, phrase [alts [Lit ''officer'', Lit ''agent'', spaced_words [''i'', ''am'', ''from''], Lit ''irs'',
         Lit ''fbi'', Lit ''police'', Lit ''sheriff'', Lit ''federal'', Lit ''court'',
         spaced_words [''tax'', ''authority''], Lit ''customs'']]),
      (T_ISOLATION, phrase [alts [seqs [dont, any_space, Lit ''trust'', any_space,
           words_alt [''them'', ''him'', ''her'', ''anyone'']],
         seqs [Lit ''they'', Maybe (alts [Lit (CHR 0x27 # ''ll''), seqs [any_space, Lit ''will'']]), any_space,
           Lit ''lie''],
         spaced_words [''nobody'', ''believes'', ''you''], spaced_words [''stay'', ''on'', ''the'', ''line''],
         seqs [dont, any_space, Lit ''hang'', any_space, Lit ''up'']]]),
      (T_REWARD, phrase [alts [seqs [Lit ''you'', any_space, alts [Lit ''won'', spaced_words [''have'', ''won'']]],
         Lit ''congratulations'', Lit ''prize'', spaced_words [''free'', ''money''], Lit ''inheritance'',
         Lit ''lottery'', Lit ''grant'']]),
      (T_THREAT, phrase [alts [Lit ''arrest'', Lit ''lawsuit'', Lit ''jail'', Lit ''prison'',
         seqs [Lit ''deport'', Maybe (words_alt [''ation'', ''ed''])], Lit ''fine'', Lit ''warrant'',
         spaced_words [''legal'', ''action'']]]),
      (T_EMOTIONAL_PRESSURE, phrase [alts [seqs [Lit ''my'', any_space,
           words_alt [''family'', ''child'', ''mother'', ''father'', ''son'', ''daughter''], any_space,
           words_alt [''is'', ''are''], any_space,
           alts [Lit ''dying'', Lit ''sick'', spaced_words [''in'', ''trouble'']]],
         spaced_words [''i'', ''love'', ''you''], spaced_words [''trust'', ''me'', ''please''],
         seqs [Lit ''you'', apostrophe, Lit ''re'', any_space, Lit ''my'', any_space, Lit ''only'', any_space,
           Lit ''hope'']]])]"

definition detectTactics :: "string \<Rightarrow> scam_tactic list" where
  "detectTactics s = map fst (filter (\<lambda>r. test_pat (snd r) s) TACTIC_RULES)"

section \<open>Sessions\<close>

record mirror_turn =
  mt_turn :: nat
  mt_role :: string
  mt_text :: string
  mt_tacticsDetected :: "scam_tactic list"
  mt_at :: string

record mirror_session =
  ms_id :: string
  ms_userId :: string
  ms_tenantId :: string
  ms_persona :: mirror_persona
  ms_scenario :: string
  ms_turns :: "mirror_turn list"
  ms_tacticsObserved :: "scam_tactic list"
  ms_status :: mirror_status
  ms_startedAt :: int
  ms_endedAt :: "int option"
  ms_endReason :: "string option"
  ms_guardianPauseEventId :: "string option"
  ms_evidenceEventId :: "string option"
  ms_metadata :: js

record mirror_db = graph_db +
  mirror_sessions :: "mirror_session list"

interpretation mirror_sessions_tab: table mirror_sessions mirror_sessions_update
  by unfold_locales simp

text \<open>The sessions are none of the tables that a pause writes.\<close>

interpretation sessions_frame: unpaused mirror_sessions
  by unfold_locales simp_all

definition new_session ::
    "auth_user \<Rightarrow> mirror_persona \<Rightarrow> string \<Rightarrow> js \<Rightarrow> string \<Rightarrow> int \<Rightarrow> mirror_session" where
  "new_session user persona scenario metadata uid t =
     \<lparr>ms_id = uid, ms_userId = au_userId user, ms_tenantId = au_tenantId user, ms_persona = persona,
      ms_scenario = scenario, ms_turns = [], ms_tacticsObserved = [], ms_status = MS_ACTIVE, ms_startedAt = t,
      ms_endedAt = None, ms_endReason = None, ms_guardianPauseEventId = None, ms_evidenceEventId = None,
      ms_metadata = stored_json metadata\<rparr>"

definition start_session ::
    "runtime \<Rightarrow> auth_user \<Rightarrow> mirror_persona \<Rightarrow> string \<Rightarrow> js \<Rightarrow> ('a mirror_db_scheme, mirror_session) prog" where
  "start_session rt user persona scenario metadata =
     bind_p (new_id rt) (\<lambda>uid. bind_p (now rt) (\<lambda>t.
     insert_row mirror_sessions_update (new_session user persona scenario metadata uid t)))"

definition requireActiveSession ::
    "auth_user \<Rightarrow> string \<Rightarrow> ('a mirror_db_scheme, mirror_session) prog" where
  "requireActiveSession user sessionId =
     bind_p (find_row mirror_sessions (\<lambda>s. ms_id s = sessionId \<and> ms_userId s = au_userId user)) (\<lambda>found.
     bind_p (require_some found (NotFoundException ''ScamMirror session not found'')) (\<lambda>session.
     seq_p (ensure (ms_status session = MS_ACTIVE) (BadRequestException
       (''Session already ended ('' @ mirror_status_text (ms_status session) @ '')'')))
     (ret session)))"

definition update_session ::
    "string \<Rightarrow> (mirror_session \<Rightarrow> mirror_session) \<Rightarrow> ('a mirror_db_scheme, mirror_session) prog" where
  "update_session i f = update_row mirror_sessions mirror_sessions_update (\<lambda>s. ms_id s = i) f"

definition aborted_session :: "string \<Rightarrow> int \<Rightarrow> mirror_session \<Rightarrow> mirror_session" where
  "aborted_session reason t s =
     s\<lparr>ms_status := MS_ABORTED_REAL_CREDS, ms_endedAt := Some t,
       ms_endReason := Some (''Sanitizer rejected input '' @ em_dash @ '' '' @ reason)\<rparr>"

definition creds_pause :: "string \<Rightarrow> string \<Rightarrow> start_pause_dto" where
  "creds_pause sessionId reason =
     \<lparr>sp_riskLevel = HIGH, sp_triggerType = TR_SECRECY,
      sp_triggerSummary = ''You typed a real credential into a training simulation. Take a moment.'',
      sp_durationSeconds = Some 90,
      sp_metadata = JObj [(''scamMirrorSessionId'', JStr sessionId), (''sanitizerReason'', JStr reason)]\<rparr>"

definition abortForRealCreds ::
    "runtime \<Rightarrow> auth_user \<Rightarrow> mirror_session \<Rightarrow> string \<Rightarrow> ('a mirror_db_scheme, mirror_session) prog" where
  "abortForRealCreds rt user session reason =
     bind_p (now rt) (\<lambda>t.
     bind_p (update_session (ms_id session) (aborted_session reason t)) (\<lambda>aborted.
     bind_p (append_evidence rt (user_event (Some (au_tenantId user)) (au_userId user) ''SCAMMIRROR_SESSION''
       (ms_id session) ''SCAMMIRROR_ABORTED_REAL_CREDS''
       (''ScamMirror aborted '' @ em_dash @ '' real '' @ reason @ '' detected in input'')
       (JObj [(''reason'', JStr reason), (''persona'', JStr (persona_text (ms_persona session)))]))) (\<lambda>evidence.
     bind_p (start_pause rt user (creds_pause (ms_id session) reason)) (\<lambda>pause.
     update_session (ms_id aborted) (\<lambda>s. s\<lparr>ms_evidenceEventId := Some (ev_id evidence),
       ms_guardianPauseEventId := Some (pe_id pause)\<rparr>)))))"

text \<open>\<open>[...new Set([...old, ...new])]\<close>: the first occurrence of each, in order.\<close>

definition union_in_order :: "'x list \<Rightarrow> 'x list \<Rightarrow> 'x list" where
  "union_in_order xs ys = rev (remdups (rev (xs @ ys)))"

definition add_turn :: "mirror_session \<Rightarrow> string \<Rightarrow> string \<Rightarrow> int \<Rightarrow> mirror_session \<Rightarrow> mirror_session" where
  "add_turn session role txt_said t s =
     (let tactics = detectTactics txt_said in
      s\<lparr>ms_turns := ms_turns session @ [\<lparr>mt_turn = length (ms_turns session) + 1, mt_role = role,
          mt_text = txt_said, mt_tacticsDetected = tactics, mt_at = to_iso_string t\<rparr>],
        ms_tacticsObserved := union_in_order (ms_tacticsObserved session) tactics\<rparr>)"

definition recordInput ::
    "runtime \<Rightarrow> auth_user \<Rightarrow> string \<Rightarrow> string \<Rightarrow> string \<Rightarrow> ('a mirror_db_scheme, mirror_session) prog" where
  "recordInput rt user sessionId role said =
     bind_p (requireActiveSession user sessionId) (\<lambda>session.
     case sanitize said of
       Some reason \<Rightarrow> abortForRealCreds rt user session (reason_text reason)
     | None \<Rightarrow> bind_p (now rt) (\<lambda>t. update_session (ms_id session) (add_turn session role said t)))"

definition ended_session :: "bool \<Rightarrow> int \<Rightarrow> mirror_session \<Rightarrow> mirror_session" where
  "ended_session learned t s =
     s\<lparr>ms_status := (if learned then MS_ENDED_LEARNED else MS_ENDED_ABANDONED), ms_endedAt := Some t,
       ms_endReason := Some (if learned then ''User completed the simulation'' else ''User abandoned'')\<rparr>"

definition tactic_node :: "scam_tactic \<Rightarrow> node_input" where
  "tactic_node tac = \<lparr>no_indicatorType = IT_SCAM_PHRASE, no_indicatorValue = tactic_text tac,
     no_category = Some ''SCRIPT_PATTERN'', no_riskScore = None, no_source = ''SCAMMIRROR''\<rparr>"

definition end_session ::
    "runtime \<Rightarrow> auth_user \<Rightarrow> string \<Rightarrow> bool \<Rightarrow> ('a mirror_db_scheme, mirror_session) prog" where
  "end_session rt user sessionId learned =
     bind_p (requireActiveSession user sessionId) (\<lambda>session.
     bind_p (now rt) (\<lambda>t.
     bind_p (update_session (ms_id session) (ended_session learned t)) (\<lambda>ended.
     let status = mirror_status_text (if learned then MS_ENDED_LEARNED else MS_ENDED_ABANDONED) in
     bind_p (append_evidence rt (user_event (Some (au_tenantId user)) (au_userId user) ''SCAMMIRROR_SESSION''
       (ms_id session) (''SCAMMIRROR_'' @ status)
       (''ScamMirror '' @ persona_text (ms_persona session) @ '' session '' @ to_lower status)
       (JObj [(''persona'', JStr (persona_text (ms_persona session))),
              (''tacticsObserved'', JArr (map (\<lambda>t. JStr (tactic_text t)) (ms_tacticsObserved ended))),
              (''turnCount'', JNum (int (length (ms_turns ended))))]))) (\<lambda>evidence.
     seq_p (when_p learned (for_p (\<lambda>tac. attempt (recordNode rt (tactic_node tac))) (ms_tacticsObserved ended)))
     (update_session (ms_id session) (\<lambda>s. s\<lparr>ms_evidenceEventId := Some (ev_id evidence)\<rparr>))))))"

definition session_history :: "auth_user \<Rightarrow> int \<Rightarrow> ('a mirror_db_scheme, mirror_session list) prog" where
  "session_history user limit =
     bind_p (find_rows mirror_sessions (\<lambda>s. ms_userId s = au_userId user)) (\<lambda>rows.
     ret (take (clamp 1 200 limit) (order_desc ms_startedAt rows)))"

section \<open>The log is respected\<close>

lemma mirror_safe:
  "moves (log_safe rt) (start_session rt user persona scenario metadata)"
  "moves (log_safe rt) (recordInput rt user i role said)" "moves (log_safe rt) (end_session rt user i learned)"
  unfolding start_session_def recordInput_def end_session_def abortForRealCreds_def requireActiveSession_def
    update_session_def Let_def
  by (auto simp: log_untouched user_event_def creds_pause_def
      intro!: safe_rules append_safe start_pause_safe recordNode_safe split: option.split)

section \<open>Transcripts\<close>

definition session_ok :: "mirror_session \<Rightarrow> bool" where
  "session_ok s \<longleftrightarrow>
     (\<forall>t\<in>set (ms_turns s). sanitize (mt_text t) = None \<and> mt_tacticsDetected t = detectTactics (mt_text t)) \<and>
     map mt_turn (ms_turns s) = [1..<length (ms_turns s) + 1] \<and>
     distinct (ms_tacticsObserved s) \<and>
     set (ms_tacticsObserved s) = (\<Union>t\<in>set (ms_turns s). set (mt_tacticsDetected t)) \<and>
     (ms_endedAt s = None \<longleftrightarrow> ms_status s = MS_ACTIVE)"

definition mirror_ok :: "('a mirror_db_scheme) \<Rightarrow> bool" where
  "mirror_ok w \<longleftrightarrow> (\<forall>s\<in>set (mirror_sessions w). session_ok s)"

lemma union_in_order_facts [simp]:
  "distinct (union_in_order xs ys)" "set (union_in_order xs ys) = set xs \<union> set ys"
  by (auto simp: union_in_order_def)

lemma new_session_ok: "session_ok (new_session user persona scenario metadata uid t)"
  by (simp add: session_ok_def new_session_def)

lemma add_turn_ok:
  "session_ok session \<Longrightarrow> sanitize said = None \<Longrightarrow> session_ok s \<Longrightarrow> session_ok (add_turn session role said t s)"
  by (auto simp: session_ok_def add_turn_def Let_def)

lemma marks_ok:
  "session_ok s \<Longrightarrow> session_ok (aborted_session reason t s)" "session_ok s \<Longrightarrow> session_ok (ended_session learned t s)"
  "session_ok s \<Longrightarrow> session_ok (s\<lparr>ms_evidenceEventId := e\<rparr>)"
  "session_ok s \<Longrightarrow> session_ok (s\<lparr>ms_evidenceEventId := e, ms_guardianPauseEventId := p\<rparr>)"
  by (simp_all add: session_ok_def aborted_session_def ended_session_def)

lemma update_keeps_ok:
  "(\<And>s. session_ok s \<Longrightarrow> session_ok (f s)) \<Longrightarrow>
   moves (\<lambda>w w'. mirror_ok w \<longrightarrow> mirror_ok w') (update_session i f)"
  by (auto simp: moves_def update_session_def update_row_def mirror_ok_def split: option.split)

lemma same_keeps_ok:
  assumes "moves (\<lambda>w w'. mirror_sessions w' = mirror_sessions w) m"
  shows "moves (\<lambda>w w'. mirror_ok w \<longrightarrow> mirror_ok w') m"
  using assms by (simp add: moves_def mirror_ok_def)

lemma recordNode_same: "moves (\<lambda>w w'. mirror_sessions w' = mirror_sessions w) (recordNode rt i)"
  unfolding recordNode_def Let_def
  by (intro same.moves_rules same.table_moves sessions_frame.draw_same) simp_all

lemmas mirror_rules = keep.moves_rules update_keeps_ok
  same_keeps_ok [OF sessions_frame.append_same] same_keeps_ok [OF sessions_frame.start_same]
  same_keeps_ok [OF recordNode_same] same_keeps_ok [OF sessions_frame.draw_same(1)]
  same_keeps_ok [OF sessions_frame.draw_same(2)]

lemma active_found:
  "requireActiveSession user i w = (Inr s, w') \<Longrightarrow>
     w' = w \<and> s \<in> set (mirror_sessions w) \<and> ms_id s = i \<and> ms_userId s = au_userId user \<and> ms_status s = MS_ACTIVE"
  by (auto simp: requireActiveSession_def run_Inr table_Inr dest: find_SomeD)

lemma active_then:
  assumes "mirror_ok w" "\<And>s. session_ok s \<Longrightarrow> moves (\<lambda>w w'. mirror_ok w \<longrightarrow> mirror_ok w') (K s)"
  shows "mirror_ok (snd (bind_p (requireActiveSession user i) K w))"
proof (cases "requireActiveSession user i w")
  case (Pair r w')
  show ?thesis
  proof (cases r)
    case (Inl e)
    then have "w' = w"
      using Pair by (auto simp: requireActiveSession_def prog_defs split: option.splits if_splits)
    with Inl Pair assms(1) show ?thesis by (simp add: bind_p_def)
  next
    case (Inr s)
    with Pair active_found [of user i w s w'] assms(1) have "session_ok s" "w' = w"
      by (auto simp: mirror_ok_def)
    with Inr Pair assms show ?thesis by (simp add: bind_p_def moves_def)
  qed
qed

lemma operations_keep_ok:
  assumes "mirror_ok w"
  shows "mirror_ok (snd (start_session rt user persona scenario metadata w))"
    "mirror_ok (snd (recordInput rt user i role said w))" "mirror_ok (snd (end_session rt user i learned w))"
proof -
  show "mirror_ok (snd (start_session rt user persona scenario metadata w))"
    using assms
    by (auto simp: start_session_def bind_p_def draw_defs insert_row_def mirror_ok_def new_session_ok)
  show "mirror_ok (snd (recordInput rt user i role said w))"
    unfolding recordInput_def
    by (rule active_then [OF assms]) (auto simp: abortForRealCreds_def intro!: mirror_rules marks_ok add_turn_ok
      split: option.split)
  show "mirror_ok (snd (end_session rt user i learned w))"
    unfolding end_session_def Let_def
    by (rule active_then [OF assms]) (auto intro!: mirror_rules marks_ok)
qed

text \<open>A system that started without sessions, after any operations on them and anything else.\<close>

inductive mirrored :: "runtime \<Rightarrow> ('a mirror_db_scheme) \<Rightarrow> bool" for rt where
  start: "mirror_sessions w = [] \<Longrightarrow> mirrored rt w"
| opens: "mirrored rt w \<Longrightarrow> mirrored rt (snd (start_session rt user persona scenario metadata w))"
| turn: "mirrored rt w \<Longrightarrow> mirrored rt (snd (recordInput rt user i role said w))"
| close: "mirrored rt w \<Longrightarrow> mirrored rt (snd (end_session rt user i learned w))"
| elsewhere: "mirrored rt w \<Longrightarrow> mirror_sessions w' = mirror_sessions w \<Longrightarrow> mirrored rt w'"

lemma mirrored_ok: "mirrored rt w \<Longrightarrow> mirror_ok w"
proof (induction rule: mirrored.induct)
  case (elsewhere w w')
  then show ?case by (simp add: mirror_ok_def)
qed (simp_all add: operations_keep_ok, simp add: mirror_ok_def)

text \<open>
  C23. Transcripts hold nothing the sanitizer recognises. In every reachable state each stored turn
  of each session passed the sanitizer, the turns are numbered from one, the tactics observed are
  those of the turns, without repetition, and a session has an end exactly when it is not active.
\<close>

theorem no_credentials_kept:
  assumes "mirrored rt w" "s \<in> set (mirror_sessions w)"
  shows "(\<forall>t\<in>set (ms_turns s). sanitize (mt_text t) = None) \<and>
    map mt_turn (ms_turns s) = [1..<length (ms_turns s) + 1] \<and> distinct (ms_tacticsObserved s) \<and>
    set (ms_tacticsObserved s) = (\<Union>t\<in>set (ms_turns s). set (detectTactics (mt_text t))) \<and>
    (ms_endedAt s = None \<longleftrightarrow> ms_status s = MS_ACTIVE)"
proof -
  have "session_ok s" using mirrored_ok [OF assms(1)] assms(2) by (simp add: mirror_ok_def)
  then show ?thesis by (auto simp: session_ok_def)
qed

text \<open>
  A turn with a credential ends the session: nothing of it is stored, the session is closed as
  aborted and a pause of HIGH risk is open.
\<close>

lemma credential_ends_session:
  assumes "find (\<lambda>s. ms_id s = i \<and> ms_userId s = au_userId user) (mirror_sessions w) = Some s"
    and "ms_status s = MS_ACTIVE" "sanitize said = Some reason" "fresh_ids rt w (pe_id ` set (pauses w))"
    and "distinct (map ms_id (mirror_sessions w))"
  shows "runs (recordInput rt user i role said) w (\<lambda>r w'. ms_status r = MS_ABORTED_REAL_CREDS \<and>
    ms_turns r = ms_turns s \<and> (\<exists>p. pauses w' = pauses w @ [p] \<and> pe_status p = PAUSE_ACTIVE \<and>
      pe_riskLevel p = HIGH \<and> pe_userId p = au_userId user \<and> ms_guardianPauseEventId r = Some (pe_id p)))"
proof -
  have s: "s \<in> set (mirror_sessions w)" "ms_id s = i" using find_SomeD [OF assms(1)] by auto
  have found: "find (\<lambda>q. ms_id q = i) (mirror_sessions w) = Some s"
    by (rule find_unique [OF assms(5,1)])
  have again: "find (\<lambda>q. ms_id q = i) (map (\<lambda>q. if ms_id q = i then aborted_session x t q else q)
      (mirror_sessions w)) = Some (aborted_session x t s)" for x t
    using find_mapped [OF found, of "aborted_session x t"] by (simp add: aborted_session_def)
  have id: "ms_id (aborted_session x t q) = ms_id q" for x t q by (simp add: aborted_session_def)
  show ?thesis
    using assms(1-3)
    by (simp add: recordInput_def requireActiveSession_def abortForRealCreds_def update_session_def
        run_simps runs_stamped s found id)
       (rule sessions_frame.pause_then,
        use assms(4) in \<open>auto simp: fresh_ids_def pause_opened_def again aborted_session_def creds_pause_def
          run_simps split: option.split\<close>)
qed

section \<open>What the sanitizer misses\<close>

definition card_number :: string where
  "card_number = ''4111 1111 1111 1111''"

lemma card_seen: "sanitize card_number = Some SR_CREDIT_CARD"
  unfolding card_number_def by code_simp

lemma card_unseen: "sanitize (card_number @ '' 123'') = None"
  unfolding card_number_def by code_simp

text \<open>
  C28. A card number hides behind its security code: a number that the sanitizer recognises alone
  is stored in the transcript of an active session when its three-digit code follows, for the
  digits are read as one number of nineteen, whose checksum is wrong.
\<close>

theorem card_with_code_stored:
  assumes "find (\<lambda>s. ms_id s = i \<and> ms_userId s = au_userId user) (mirror_sessions w) = Some s"
    and "ms_status s = MS_ACTIVE"
  shows "sanitize card_number = Some SR_CREDIT_CARD \<and>
    runs (recordInput rt user i role (card_number @ '' 123'')) w
      (\<lambda>r _. map mt_text (ms_turns r) = map mt_text (ms_turns s) @ [card_number @ '' 123''])"
proof -
  have "ms_id s = i" "s \<in> set (mirror_sessions w)" using find_SomeD [OF assms(1)] by auto
  then have "find (\<lambda>q. ms_id q = i) (mirror_sessions w) \<noteq> None" by (auto simp: find_None_iff)
  then show ?thesis
    using assms \<open>ms_id s = i\<close>
    by (auto simp: card_seen card_unseen recordInput_def requireActiveSession_def update_session_def
        run_simps add_turn_def Let_def split: option.splits)
qed

section \<open>Witnesses\<close>

definition demo_mirror :: "mirror_session list \<Rightarrow> mirror_db" where
  "demo_mirror ms = \<lparr>db_tick = 0, evidence_events = [], audit_logs = [], jobs = [],
     ws_events = [], evidence_files = [], export_bundles = [], deliveries = [], alerts = [],
     users = [], contacts = [], reviews = [], settings = [], profiles = [],
     risk_events = [], pauses = [], holds = [], warnings = [], signals = [], similarities = [],
     graph_nodes = [], graph_edges = [], mirror_sessions = ms\<rparr>"

text \<open>A session in which the scammer hurries the user.\<close>

theorem no_credentials_kept_witness:
  "\<exists>(w :: mirror_db) s. mirrored demo_rt w \<and> s \<in> set (mirror_sessions w) \<and> ms_turns s \<noteq> [] \<and>
     (\<forall>t\<in>set (ms_turns s). sanitize (mt_text t) = None)"
proof -
  let ?w0 = "demo_mirror []"
  let ?s = "new_session demo_user MP_ROMANCE ''practice'' (JObj []) (rt_uuid demo_rt 0) (rt_clock demo_rt (Suc 0))"
  have g0: "mirrored demo_rt ?w0" by (rule mirrored.start) (simp add: demo_mirror_def)
  obtain w1 where w1: "start_session demo_rt demo_user MP_ROMANCE ''practice'' (JObj []) ?w0 = (Inr ?s, w1)"
    "mirror_sessions w1 = [?s]"
    by (simp add: start_session_def bind_p_def draw_defs insert_row_def demo_mirror_def)
  have g1: "mirrored demo_rt w1"
    using mirrored.opens [OF g0, of demo_user MP_ROMANCE "''practice''" "JObj []"] w1(1) by simp
  have ok: "sanitize ''Hurry up'' = None" by code_simp
  have s: "ms_id ?s = rt_uuid demo_rt 0" "ms_userId ?s = au_userId demo_user" "ms_status ?s = MS_ACTIVE"
    by (simp_all add: new_session_def)
  have "runs (recordInput demo_rt demo_user (rt_uuid demo_rt 0) ''SCAMMER'' ''Hurry up'') w1
      (\<lambda>r w2. r \<in> set (mirror_sessions w2) \<and> ms_turns r \<noteq> [])"
    by (simp add: recordInput_def requireActiveSession_def update_session_def run_simps w1(2) s ok)
       (simp add: add_turn_def Let_def)
  then obtain r w2 where w2: "recordInput demo_rt demo_user (rt_uuid demo_rt 0) ''SCAMMER'' ''Hurry up'' w1 = (Inr r, w2)"
    "r \<in> set (mirror_sessions w2)" "ms_turns r \<noteq> []"
    by (auto simp only: runs_iff)
  have "mirrored demo_rt w2"
    using mirrored.turn [OF g1, of demo_user "rt_uuid demo_rt 0" "''SCAMMER''" "''Hurry up''"] w2(1) by simp
  with no_credentials_kept [OF this w2(2)] w2 show ?thesis by blast
qed

theorem card_with_code_stored_witness:
  "runs (recordInput demo_rt demo_user ''m1'' ''USER'' (card_number @ '' 123''))
     (demo_mirror [new_session demo_user MP_OTHER ''practice'' (JObj []) ''m1'' 0])
     (\<lambda>r _. map mt_text (ms_turns r) = [card_number @ '' 123''])"
proof -
  let ?s = "new_session demo_user MP_OTHER ''practice'' (JObj []) ''m1'' 0"
  have "find (\<lambda>s. ms_id s = ''m1'' \<and> ms_userId s = au_userId demo_user) (mirror_sessions (demo_mirror [?s])) = Some ?s"
    "ms_status ?s = MS_ACTIVE" "ms_turns ?s = []"
    by (simp_all add: demo_mirror_def new_session_def)
  from card_with_code_stored [OF this(1,2), of demo_rt "''USER''"] this(3) show ?thesis by simp
qed

end
