(* ===== verification/Auth.thy ===== *)
theory Auth
  imports ScamSignals
begin

text \<open>
  Accounts (modules/auth): registration, sign-in with a password, the rotation of refresh tokens,
  and the checks of the access token's claims and of roles on each request.
\<close>

section \<open>State\<close>

datatype user_status = US_ACTIVE | US_PENDING | US_SUSPENDED | US_DISABLED

datatype membership_status = MB_ACTIVE | MB_INVITED | MB_SUSPENDED | MB_REMOVED

text \<open>The columns of a user that sign-in needs, beside the row of \<open>users\<close> with the same id.\<close>

record account =
  ac_id :: string
  ac_email :: string
  ac_passwordHash :: string
  ac_fullName :: string
  ac_status :: user_status
  ac_lastLoginAt :: "int option"

record membership =
  mb_id :: string
  mb_userId :: string
  mb_tenantId :: string
  mb_role :: membership_role
  mb_status :: membership_status
  mb_isPrimary :: bool

record refresh_token =
  rf_id :: string
  rf_userId :: string
  rf_tokenHash :: string
  rf_expiresAt :: int
  rf_revokedAt :: "int option"
  rf_userAgent :: "string option"
  rf_ipAddress :: "string option"

record auth_db = report_db +
  accounts :: "account list"
  memberships :: "membership list"
  refresh_tokens :: "refresh_token list"

interpretation accounts_tab: table accounts accounts_update
  by unfold_locales simp

interpretation memberships_tab: table memberships memberships_update
  by unfold_locales simp

interpretation refresh_tokens_tab: table refresh_tokens refresh_tokens_update
  by unfold_locales simp

section \<open>Tokens\<close>

text \<open>
  The claims of an access token; signing it (the JWT library) and hashing and comparing passwords
  (bcrypt, with a salt drawn for each hash) are parameters.
\<close>

record jwt_payload =
  jp_sub :: string
  jp_email :: string
  jp_tenantId :: string
  jp_role :: membership_role
  jp_type :: string

record auth_env =
  ae_sign :: "jwt_payload \<Rightarrow> nat \<Rightarrow> string"
  ae_hash :: "string \<Rightarrow> nat \<Rightarrow> string"
  ae_compare :: "string \<Rightarrow> string \<Rightarrow> bool"
  ae_refreshTtlDays :: int

record request_context =
  rc_ip :: "string option"
  rc_userAgent :: "string option"

record signed_in =
  fq_id :: string
  fq_email :: string
  fq_fullName :: string
  fq_tenantId :: string
  fq_role :: membership_role

record auth_result =
  ar_accessToken :: string
  ar_refreshToken :: string
  ar_user :: signed_in

definition hashToken :: "runtime \<Rightarrow> string \<Rightarrow> string" where
  "hashToken rt raw = rt_sha256 rt raw"

definition writeAudit ::
    "string \<Rightarrow> string \<Rightarrow> request_context \<Rightarrow> ('a core_db_scheme, unit) prog" where
  "writeAudit action actorId ctx =
     void_p (insert_row audit_logs_update
       \<lparr>al_actorId = Some actorId, al_actorType = Some ''USER'', al_action = action,
        al_targetType = None, al_targetId = None, al_metadata = JNull\<rparr>)"

definition getPrimaryMembership :: "string \<Rightarrow> ('a auth_db_scheme, membership) prog" where
  "getPrimaryMembership userId =
     bind_p (find_rows memberships (\<lambda>m. mb_userId m = userId \<and> mb_status m = MB_ACTIVE)) (\<lambda>rows.
     require_some (first_of (filter mb_isPrimary rows @ filter (\<lambda>m. \<not> mb_isPrimary m) rows))
       (UnauthorizedException ''No active tenant membership for this account''))"

definition access_claims :: "account \<Rightarrow> membership \<Rightarrow> jwt_payload" where
  "access_claims user m =
     \<lparr>jp_sub = ac_id user, jp_email = ac_email user, jp_tenantId = mb_tenantId m, jp_role = mb_role m,
      jp_type = ''access''\<rparr>"

text \<open>The column of the hash is unique (Prisma's P2002).\<close>

definition insert_token :: "refresh_token \<Rightarrow> ('a auth_db_scheme, refresh_token) prog" where
  "insert_token t =
     bind_p (find_row refresh_tokens (\<lambda>q. rf_tokenHash q = rf_tokenHash t)) (\<lambda>clash.
     seq_p (ensure (clash = None) (InternalError ''P2002''))
     (insert_row refresh_tokens_update t))"

definition issueTokens ::
    "runtime \<Rightarrow> auth_env \<Rightarrow> account \<Rightarrow> membership \<Rightarrow> request_context \<Rightarrow> ('a auth_db_scheme, auth_result) prog"
  where
  "issueTokens rt env user m ctx =
     bind_p (draw (ae_sign env (access_claims user m))) (\<lambda>accessToken.
     bind_p (random_token rt) (\<lambda>refreshToken.
     bind_p (now rt) (\<lambda>t.
     bind_p (new_id rt) (\<lambda>uid.
     seq_p (insert_token \<lparr>rf_id = uid, rf_userId = ac_id user, rf_tokenHash = hashToken rt refreshToken,
        rf_expiresAt = t + ae_refreshTtlDays env * 24 * 60 * 60 * 1000, rf_revokedAt = None,
        rf_userAgent = rc_userAgent ctx, rf_ipAddress = rc_ip ctx\<rparr>)
     (ret \<lparr>ar_accessToken = accessToken, ar_refreshToken = refreshToken,
           ar_user = \<lparr>fq_id = ac_id user, fq_email = ac_email user, fq_fullName = ac_fullName user,
             fq_tenantId = mb_tenantId m, fq_role = mb_role m\<rparr>\<rparr>)))))"

section \<open>Registration and sign-in\<close>

record register_dto =
  gd_email :: string
  gd_password :: string
  gd_fullName :: string

definition normal_email :: "string \<Rightarrow> string" where
  "normal_email e = trim (to_lower e)"

definition create_account ::
    "runtime \<Rightarrow> string \<Rightarrow> string \<Rightarrow> string \<Rightarrow> ('a auth_db_scheme, account \<times> membership) prog" where
  "create_account rt email passwordHash fullName =
     bind_p (new_id rt) (\<lambda>tid.
     seq_p (insert_row tenants_update
       \<lparr>tn_id = tid, tn_name = fullName @ [CHR 0x27] @ ''s space'', tn_type = TT_PERSONAL\<rparr>)
     (bind_p (new_id rt) (\<lambda>uid.
      seq_p (insert_row users_update
        \<lparr>us_id = uid, us_email = email, us_fullName = fullName, us_elderModeEnabled = False\<rparr>)
      (bind_p (insert_row accounts_update
        \<lparr>ac_id = uid, ac_email = email, ac_passwordHash = passwordHash, ac_fullName = fullName,
         ac_status = US_ACTIVE, ac_lastLoginAt = None\<rparr>) (\<lambda>user.
       bind_p (new_id rt) (\<lambda>mid.
       bind_p (insert_row memberships_update
         \<lparr>mb_id = mid, mb_userId = uid, mb_tenantId = tid, mb_role = INDIVIDUAL, mb_status = MB_ACTIVE,
          mb_isPrimary = True\<rparr>) (\<lambda>m.
       ret (user, m))))))))"

definition register ::
    "runtime \<Rightarrow> auth_env \<Rightarrow> register_dto \<Rightarrow> request_context \<Rightarrow> ('a auth_db_scheme, auth_result) prog" where
  "register rt env dto ctx =
     (let email = normal_email (gd_email dto) in
      bind_p (find_row accounts (\<lambda>a. ac_email a = email)) (\<lambda>existing.
      seq_p (ensure (existing = None) (ConflictException ''An account with this email already exists''))
      (bind_p (draw (ae_hash env (gd_password dto))) (\<lambda>passwordHash.
       bind_p (create_account rt email passwordHash (trim (gd_fullName dto))) (\<lambda>(user, m).
       seq_p (writeAudit ''USER_REGISTERED'' (ac_id user) ctx)
       (issueTokens rt env user m ctx))))))"

definition login ::
    "runtime \<Rightarrow> auth_env \<Rightarrow> string \<Rightarrow> string \<Rightarrow> request_context \<Rightarrow> ('a auth_db_scheme, auth_result) prog" where
  "login rt env email password ctx =
     bind_p (find_row accounts (\<lambda>a. ac_email a = normal_email email)) (\<lambda>found.
     bind_p (require_some (case found of
         None \<Rightarrow> None
       | Some u \<Rightarrow> if ae_compare env password (ac_passwordHash u) then Some u else None)
       (UnauthorizedException ''Invalid email or password'')) (\<lambda>user.
     seq_p (ensure (ac_status user = US_ACTIVE) (UnauthorizedException ''This account is not active''))
     (bind_p (getPrimaryMembership (ac_id user)) (\<lambda>m.
      bind_p (now rt) (\<lambda>t.
      seq_p (update_row accounts accounts_update (\<lambda>a. ac_id a = ac_id user) (\<lambda>a. a\<lparr>ac_lastLoginAt := Some t\<rparr>))
      (seq_p (writeAudit ''USER_LOGIN'' (ac_id user) ctx)
      (issueTokens rt env user m ctx)))))))"

text \<open>The account of a token is read with it; the foreign key excludes a missing one.\<close>

definition refresh ::
    "runtime \<Rightarrow> auth_env \<Rightarrow> string \<Rightarrow> request_context \<Rightarrow> ('a auth_db_scheme, auth_result) prog" where
  "refresh rt env rawToken ctx =
     bind_p (find_row refresh_tokens (\<lambda>t. rf_tokenHash t = hashToken rt rawToken)) (\<lambda>found.
     bind_p (require_some found (UnauthorizedException ''Invalid or expired refresh token'')) (\<lambda>stored.
     seq_p (ensure (rf_revokedAt stored = None) (UnauthorizedException ''Invalid or expired refresh token''))
     (bind_p (now rt) (\<lambda>t.
      seq_p (ensure (\<not> rf_expiresAt stored < t) (UnauthorizedException ''Invalid or expired refresh token''))
      (bind_p (find_row accounts (\<lambda>a. ac_id a = rf_userId stored)) (\<lambda>account.
       bind_p (require_some account (InternalError ''TypeError'')) (\<lambda>user.
       seq_p (ensure (ac_status user = US_ACTIVE) (UnauthorizedException ''This account is not active''))
       (bind_p (getPrimaryMembership (rf_userId stored)) (\<lambda>m.
        bind_p (issueTokens rt env user m ctx) (\<lambda>result.
        bind_p (now rt) (\<lambda>spent.
        seq_p (update_row refresh_tokens refresh_tokens_update (\<lambda>q. rf_id q = rf_id stored)
          (\<lambda>q. q\<lparr>rf_revokedAt := Some spent\<rparr>))
        (ret result))))))))))))"

definition logout :: "runtime \<Rightarrow> string \<Rightarrow> ('a auth_db_scheme, unit) prog" where
  "logout rt rawToken =
     bind_p (now rt) (\<lambda>t.
     update_rows refresh_tokens_update (\<lambda>q. rf_tokenHash q = hashToken rt rawToken \<and> rf_revokedAt q = None)
       (\<lambda>q. q\<lparr>rf_revokedAt := Some t\<rparr>))"

record profile_membership =
  pm_tenantId :: string
  pm_tenantName :: string
  pm_tenantType :: tenant_type
  pm_role :: membership_role
  pm_isPrimary :: bool

record profile =
  lu_id :: string
  lu_email :: string
  lu_fullName :: string
  lu_status :: user_status
  lu_memberships :: "profile_membership list"

definition membership_view ::
    "membership \<Rightarrow> ('a auth_db_scheme, profile_membership) prog" where
  "membership_view m =
     bind_p (find_row tenants (\<lambda>t. tn_id t = mb_tenantId m)) (\<lambda>found.
     bind_p (require_some found (InternalError ''TypeError'')) (\<lambda>t.
     ret \<lparr>pm_tenantId = mb_tenantId m, pm_tenantName = tn_name t, pm_tenantType = tn_type t,
          pm_role = mb_role m, pm_isPrimary = mb_isPrimary m\<rparr>))"

definition account_profile :: "string \<Rightarrow> ('a auth_db_scheme, profile) prog" where
  "account_profile userId =
     bind_p (find_row accounts (\<lambda>a. ac_id a = userId)) (\<lambda>found.
     bind_p (require_some found (UnauthorizedException ''Unauthorized'')) (\<lambda>user.
     bind_p (find_rows memberships (\<lambda>m. mb_userId m = userId)) (\<lambda>ms.
     bind_p (map_p membership_view ms) (\<lambda>views.
     ret \<lparr>lu_id = ac_id user, lu_email = ac_email user, lu_fullName = ac_fullName user,
          lu_status = ac_status user, lu_memberships = views\<rparr>))))"

section \<open>Requests\<close>

text \<open>The claims of a verified token, and the roles a route asks for.\<close>

definition validate_claims :: "jwt_payload \<Rightarrow> exn + auth_user" where
  "validate_claims p =
     (if jp_type p \<noteq> ''access'' \<or> jp_sub p = [] \<or> jp_tenantId p = []
      then Inl (UnauthorizedException ''Invalid access token'')
      else Inr \<lparr>au_userId = jp_sub p, au_email = jp_email p, au_tenantId = jp_tenantId p, au_role = jp_role p\<rparr>)"

definition roles_guard :: "membership_role list option \<Rightarrow> auth_user option \<Rightarrow> exn + bool" where
  "roles_guard required user =
     (case required of
        None \<Rightarrow> Inr True
      | Some roles \<Rightarrow>
          if roles = [] then Inr True
          else (case user of
             None \<Rightarrow> Inl (ForbiddenException ''Authentication required'' [])
           | Some u \<Rightarrow> if au_role u \<in> set roles then Inr True
               else Inl (ForbiddenException ''Insufficient role for this action'' [])))"

section \<open>Spent refresh tokens\<close>

definition spent :: "string \<Rightarrow> ('a auth_db_scheme) \<Rightarrow> bool" where
  "spent h w \<longleftrightarrow> (\<exists>t. find (\<lambda>q. rf_tokenHash q = h) (refresh_tokens w) = Some t \<and> rf_revokedAt t \<noteq> None)"

lemma spent_ignores [simp]:
  "spent h (db_tick_update f1 w) = spent h w" "spent h (audit_logs_update f2 w) = spent h w"
  "spent h (tenants_update f3 w) = spent h w" "spent h (users_update f4 w) = spent h w"
  "spent h (accounts_update f5 w) = spent h w" "spent h (memberships_update f6 w) = spent h w"
  by (simp_all add: spent_def)

lemma find_revoked:
  assumes "find (\<lambda>q. rf_tokenHash q = h) ts = Some t"
  shows "find (\<lambda>q. rf_tokenHash q = h) (map (\<lambda>q. if P q then q\<lparr>rf_revokedAt := v\<rparr> else q) ts) =
    Some (if P t then t\<lparr>rf_revokedAt := v\<rparr> else t)"
proof -
  have "find (\<lambda>q. rf_tokenHash q = h) (map (\<lambda>q. if P q then q\<lparr>rf_revokedAt := v\<rparr> else q) ts) =
      map_option (\<lambda>q. if P q then q\<lparr>rf_revokedAt := v\<rparr> else q) (find (\<lambda>q. rf_tokenHash q = h) ts)"
    by (induction ts) auto
  with assms show ?thesis by simp
qed

lemma spent_revoke:
  "spent h w \<Longrightarrow>
   spent h (refresh_tokens_update (map (\<lambda>q. if P q then q\<lparr>rf_revokedAt := Some v\<rparr> else q)) w)"
  by (auto simp: spent_def find_revoked)

lemma spent_token_ops:
  "moves (\<lambda>w w'. spent h w \<longrightarrow> spent h w') (insert_row refresh_tokens_update t)"
  "moves (\<lambda>w w'. spent h w \<longrightarrow> spent h w') (update_row refresh_tokens refresh_tokens_update P (\<lambda>q. q\<lparr>rf_revokedAt := Some v\<rparr>))"
  "moves (\<lambda>w w'. spent h w \<longrightarrow> spent h w') (update_rows refresh_tokens_update P (\<lambda>q. q\<lparr>rf_revokedAt := Some v\<rparr>))"
  "moves (\<lambda>w w'. spent h w \<longrightarrow> spent h w') (draw d)" "moves (\<lambda>w w'. spent h w \<longrightarrow> spent h w') (now rt)" "moves (\<lambda>w w'. spent h w \<longrightarrow> spent h w') (new_id rt)" "moves (\<lambda>w w'. spent h w \<longrightarrow> spent h w') (random_token rt)"
  by (auto simp: moves_def insert_row_def update_row_def update_rows_def modify_p_def draw_defs spent_revoke
      split: option.split) (auto simp: spent_def find_snoc)

lemmas spent_rules = keep.moves_rules spent_token_ops keep.find_row_moves keep.find_rows_moves

lemma spent_other:
  "moves (\<lambda>w w'. spent h w \<longrightarrow> spent h w') (writeAudit action i ctx)" "moves (\<lambda>w w'. spent h w \<longrightarrow> spent h w') (getPrimaryMembership i)"
  "moves (\<lambda>w w'. spent h w \<longrightarrow> spent h w') (create_account rt email ph fn)" "moves (\<lambda>w w'. spent h w \<longrightarrow> spent h w') (issueTokens rt env user m ctx)"
  "moves (\<lambda>w w'. spent h w \<longrightarrow> spent h w') (update_row accounts accounts_update Q g)"
  unfolding writeAudit_def getPrimaryMembership_def create_account_def issueTokens_def insert_token_def
  by (auto intro!: spent_rules keep.insert_row_moves keep.update_row_moves)

lemma spent_ops:
  "moves (\<lambda>w w'. spent h w \<longrightarrow> spent h w') (register rt env dto ctx)" "moves (\<lambda>w w'. spent h w \<longrightarrow> spent h w') (login rt env email password ctx)"
  "moves (\<lambda>w w'. spent h w \<longrightarrow> spent h w') (refresh rt env raw ctx)" "moves (\<lambda>w w'. spent h w \<longrightarrow> spent h w') (logout rt raw)"
  unfolding register_def login_def refresh_def logout_def Let_def
  by (auto intro!: spent_rules spent_other split: prod.split)

text \<open>What may happen between two requests: any operation on accounts and tokens, and anything else
  that leaves the table of the tokens alone.\<close>

inductive auth_step :: "runtime \<Rightarrow> auth_env \<Rightarrow> ('a auth_db_scheme) \<Rightarrow> ('a auth_db_scheme) \<Rightarrow> bool"
  for rt env where
  registers: "auth_step rt env w (snd (register rt env dto ctx w))"
| signs_in: "auth_step rt env w (snd (login rt env email password ctx w))"
| refreshes: "auth_step rt env w (snd (refresh rt env raw ctx w))"
| signs_out: "auth_step rt env w (snd (logout rt raw w))"
| other: "refresh_tokens w' = refresh_tokens w \<Longrightarrow> auth_step rt env w w'"

lemma spent_stays:
  assumes "auth_step rt env w w'" "spent h w"
  shows "spent h w'"
  using assms(1)
proof cases
  case other
  with assms(2) show ?thesis by (simp add: spent_def)
qed (simp_all add: spent_ops [unfolded moves_def, rule_format] assms(2))

lemma spent_steps: "(auth_step rt env)\<^sup>*\<^sup>* w w' \<Longrightarrow> spent h w \<Longrightarrow> spent h w'"
  by (induction rule: rtranclp_induct) (auto intro: spent_stays)

lemma spent_refused:
  "spent (hashToken rt raw) w \<Longrightarrow>
   refresh rt env raw ctx w = (Inl (UnauthorizedException ''Invalid or expired refresh token''), w)"
  by (auto simp: spent_def refresh_def prog_defs)

lemma issue_appends:
  "moves (\<lambda>w w'. \<exists>ts. refresh_tokens w' = refresh_tokens w @ ts) (issueTokens rt env user m ctx)"
  unfolding issueTokens_def insert_token_def
  by (auto simp: moves_def prog_defs draw_defs)

definition primary :: "string \<Rightarrow> membership list \<Rightarrow> membership option" where
  "primary i ms = (let rows = filter (\<lambda>m. mb_userId m = i \<and> mb_status m = MB_ACTIVE) ms in
     first_of (filter mb_isPrimary rows @ filter (\<lambda>m. \<not> mb_isPrimary m) rows))"

lemma runs_primary:
  "runs (getPrimaryMembership i) w Q \<longleftrightarrow>
     (case primary i (memberships w) of None \<Rightarrow> False | Some m \<Rightarrow> Q m w)"
  by (simp add: getPrimaryMembership_def primary_def run_simps)

lemma refresh_spends:
  assumes "refresh rt env raw ctx w = (Inr result, w1)"
  shows "spent (hashToken rt raw) w1"
proof -
  have "runs (refresh rt env raw ctx) w (\<lambda>r w'. r = result \<and> w' = w1)" using assms by (simp add: runs_iff)
  then obtain stored user m w2 where stored: "find (\<lambda>t. rf_tokenHash t = hashToken rt raw) (refresh_tokens w) = Some stored"
    and run: "runs (bind_p (issueTokens rt env user m ctx) (\<lambda>result. bind_p (now rt) (\<lambda>v.
        seq_p (update_row refresh_tokens refresh_tokens_update (\<lambda>q. rf_id q = rf_id stored) (\<lambda>q. q\<lparr>rf_revokedAt := Some v\<rparr>))
        (ret result)))) w2 (\<lambda>r w'. r = result \<and> w' = w1)"
    and w2: "refresh_tokens w2 = refresh_tokens w"
    by (auto simp: refresh_def runs_primary runs_bind [of "find_row _ _"] runs_bind [of "require_some _ _"]
        runs_bind [of "getPrimaryMembership _"] runs_bind [of "now _"] runs_seq [of "ensure _ _"] runs_table runs_basic runs_draw
        split: option.splits)
  from run obtain r w3 where issue: "issueTokens rt env user m ctx w2 = (Inr r, w3)"
    and rest: "runs (bind_p (now rt) (\<lambda>v. seq_p (update_row refresh_tokens refresh_tokens_update
        (\<lambda>q. rf_id q = rf_id stored) (\<lambda>q. q\<lparr>rf_revokedAt := Some v\<rparr>)) (ret r))) w3 (\<lambda>r w'. r = result \<and> w' = w1)"
    by (auto simp: runs_bind [of "issueTokens _ _ _ _ _"] runs_iff [of "issueTokens _ _ _ _ _"])
  obtain ts where "refresh_tokens w3 = refresh_tokens w @ ts"
    using movesD [OF issue_appends issue] w2 by auto
  then have found: "find (\<lambda>t. rf_tokenHash t = hashToken rt raw) (refresh_tokens w3) = Some stored"
    using stored by (simp add: find_append_eq)
  from rest show ?thesis
    by (auto simp: run_simps spent_def find_revoked [OF found] split: option.splits)
qed

text \<open>
  C19. A refresh token works once: after it was exchanged for a new pair, no sequence of
  registrations, sign-ins, refreshes and sign-outs makes it work again; presenting it is refused
  with 401 and changes nothing.
\<close>

theorem refresh_token_single_use:
  assumes "refresh rt env raw ctx w = (Inr result, w1)" "(auth_step rt env)\<^sup>*\<^sup>* w1 w2"
  shows "refresh rt env raw ctx' w2 =
    (Inl (UnauthorizedException ''Invalid or expired refresh token''), w2)"
  by (rule spent_refused [OF spent_steps [OF assms(2) refresh_spends [OF assms(1)]]])

section \<open>Signing in\<close>

text \<open>A failed sign-in tells nothing: an unknown address and a wrong password have one answer.\<close>

lemma login_tells_nothing:
  assumes "\<forall>u\<in>set (accounts w). ac_email u = normal_email email \<longrightarrow> \<not> ae_compare env password (ac_passwordHash u)"
  shows "login rt env email password ctx w = (Inl (UnauthorizedException ''Invalid email or password''), w)"
  using assms
  by (cases "find (\<lambda>a. ac_email a = normal_email email) (accounts w)")
     (auto simp: login_def prog_defs dest: find_SomeD)

definition signed_in_as :: "account \<Rightarrow> membership \<Rightarrow> signed_in" where
  "signed_in_as user m = \<lparr>fq_id = ac_id user, fq_email = ac_email user, fq_fullName = ac_fullName user,
     fq_tenantId = mb_tenantId m, fq_role = mb_role m\<rparr>"

lemma issue_runs:
  assumes "\<forall>n\<ge>db_tick w. hashToken rt (rt_random rt n) \<notin> rf_tokenHash ` set (refresh_tokens w)"
  shows "runs (issueTokens rt env user m ctx) w (\<lambda>r _. ar_user r = signed_in_as user m)"
proof -
  have "find (\<lambda>q. rf_tokenHash q = hashToken rt (rt_random rt (Suc (db_tick w)))) (refresh_tokens w) = None"
    using assms [rule_format, of "Suc (db_tick w)"] by (auto simp: find_None_iff) (metis imageI)
  then show ?thesis by (simp add: issueTokens_def insert_token_def run_simps signed_in_as_def)
qed

lemma register_creates:
  assumes "register rt env dto ctx w = (Inr r, w1)"
  shows "\<exists>user m n. accounts w1 = accounts w @ [user] \<and> memberships w1 = memberships w @ [m] \<and>
    ac_email user = normal_email (gd_email dto) \<and> ac_passwordHash user = ae_hash env (gd_password dto) n \<and>
    ac_status user = US_ACTIVE \<and> mb_userId m = ac_id user \<and> mb_status m = MB_ACTIVE \<and> mb_isPrimary m \<and>
    find (\<lambda>a. ac_email a = normal_email (gd_email dto)) (accounts w) = None \<and> ar_user r = signed_in_as user m"
proof -
  have "runs (register rt env dto ctx) w (\<lambda>r' w'. r' = r \<and> w' = w1)" using assms by (simp add: runs_iff)
  then show ?thesis
    by (auto simp: register_def create_account_def writeAudit_def issueTokens_def insert_token_def Let_def
        run_simps signed_in_as_def)
qed

text \<open>
  Who has registered can sign in: after a registration the same password, with the address in
  any case and with any spaces around it, signs in as the same user in the same personal tenant.
  (The hypotheses are bcrypt's: a password matches its own hash; and that drawn ids and tokens are
  new.)
\<close>

lemma registered_can_login:
  fixes w w1 :: "'a auth_db_scheme"
  assumes "register rt env dto ctx w = (Inr r, w1)" "normal_email email = normal_email (gd_email dto)"
    and "\<And>p n. ae_compare env p (ae_hash env p n)"
    and "\<forall>m\<in>set (memberships w). mb_userId m \<noteq> fq_id (ar_user r)"
    and "\<forall>n\<ge>db_tick w1. hashToken rt (rt_random rt n) \<notin> rf_tokenHash ` set (refresh_tokens w1)"
  shows "runs (login rt env email (gd_password dto) ctx') w1 (\<lambda>r' _. ar_user r' = ar_user r)"
proof -
  obtain user m n where w1: "accounts w1 = accounts w @ [user]" "memberships w1 = memberships w @ [m]"
    and user: "ac_email user = normal_email (gd_email dto)" "ac_passwordHash user = ae_hash env (gd_password dto) n"
      "ac_status user = US_ACTIVE" "mb_userId m = ac_id user" "mb_status m = MB_ACTIVE" "mb_isPrimary m"
    and none: "find (\<lambda>a. ac_email a = normal_email (gd_email dto)) (accounts w) = None"
    and r: "ar_user r = signed_in_as user m"
    using register_creates [OF assms(1)] by blast
  have found: "find (\<lambda>a. ac_email a = normal_email email) (accounts w1) = Some user"
    using none user(1) assms(2) by (simp add: w1(1) find_append_eq)
  have there: "find (\<lambda>a. ac_id a = ac_id user) (accounts w1) \<noteq> None"
    by (auto simp: w1(1) find_None_iff)
  have "filter (\<lambda>m. mb_userId m = ac_id user \<and> mb_status m = MB_ACTIVE) (memberships w) = []"
    using assms(4) r by (auto simp: filter_empty_conv signed_in_as_def)
  then have prim: "primary (ac_id user) (memberships w1) = Some m"
    using user by (simp add: primary_def w1(2) first_of_def)
  have "runs (issueTokens rt env user m ctx') w' (\<lambda>r' _. ar_user r' = ar_user r)"
    if "db_tick w1 \<le> db_tick w'" "refresh_tokens w' = refresh_tokens w1" for w' :: "'a auth_db_scheme"
    unfolding r by (rule issue_runs) (use that assms(5) in auto)
  then show ?thesis
    using found there prim user(2,3) assms(3)
    by (auto simp: login_def runs_primary run_simps writeAudit_def split: option.splits)
qed

text \<open>Tokens are issued to active accounts only, for an active membership.\<close>

lemma login_needs_active:
  assumes "login rt env email password ctx w = (Inr r, w1)"
  shows "\<exists>user m. user \<in> set (accounts w) \<and> m \<in> set (memberships w) \<and> ac_status user = US_ACTIVE \<and>
    mb_status m = MB_ACTIVE \<and> mb_userId m = ac_id user \<and> ae_compare env password (ac_passwordHash user) \<and>
    ar_user r = signed_in_as user m"
proof -
  have primary_in: "m \<in> set ms \<and> mb_userId m = i \<and> mb_status m = MB_ACTIVE" if "primary i ms = Some m" for i ms m
    using that by (auto simp: primary_def Let_def dest!: first_of_SomeD)
  have "runs (login rt env email password ctx) w (\<lambda>r' w'. r' = r \<and> w' = w1)" using assms by (simp add: runs_iff)
  then show ?thesis
    by (fastforce simp: login_def runs_primary issueTokens_def insert_token_def writeAudit_def run_simps signed_in_as_def
        dest: find_SomeD primary_in split: option.splits if_splits)
qed

section \<open>Witnesses\<close>

definition demo_auth :: auth_env where
  "demo_auth = \<lparr>ae_sign = (\<lambda>p n. jp_sub p), ae_hash = (\<lambda>p n. ''h'' @ p), ae_compare = (\<lambda>p h. h = ''h'' @ p),
     ae_refreshTtlDays = 7\<rparr>"

definition demo_context :: request_context where
  "demo_context = \<lparr>rc_ip = None, rc_userAgent = None\<rparr>"

definition demo_accounts ::
    "account list \<Rightarrow> membership list \<Rightarrow> refresh_token list \<Rightarrow> auth_db" where
  "demo_accounts us ms ts = \<lparr>db_tick = 0, evidence_events = [], audit_logs = [], jobs = [],
     ws_events = [], evidence_files = [], export_bundles = [], deliveries = [], alerts = [],
     users = [], contacts = [], reviews = [], settings = [], profiles = [],
     risk_events = [], pauses = [], holds = [], warnings = [], signals = [], similarities = [],
     graph_nodes = [], graph_edges = [], wallets = [], clusters = [], ai_decisions = [],
     embeddings = [], enrichments = [], tenants = [], reliability = [], review_queue = [],
     accounts = us, memberships = ms, refresh_tokens = ts\<rparr>"

lemma demo_random_inj: "hashToken demo_rt (rt_random demo_rt n) = hashToken demo_rt (rt_random demo_rt k) \<Longrightarrow> n = k"
  by (simp add: hashToken_def demo_rt_def) (metis digits_value_show_nat)

definition demo_token :: refresh_token where
  "demo_token = \<lparr>rf_id = ''r1'', rf_userId = ''u1'', rf_tokenHash = ''first'', rf_expiresAt = 1800000000000,
     rf_revokedAt = None, rf_userAgent = None, rf_ipAddress = None\<rparr>"

text \<open>A token is exchanged, the user signs out and in, and the old token is presented again.\<close>

theorem refresh_token_single_use_witness:
  "\<exists>r w1. refresh demo_rt demo_auth ''first'' demo_context
       (demo_accounts [\<lparr>ac_id = ''u1'', ac_email = ''j@x.org'', ac_passwordHash = ''h1'', ac_fullName = ''Jane'',
          ac_status = US_ACTIVE, ac_lastLoginAt = None\<rparr>]
        [\<lparr>mb_id = ''m1'', mb_userId = ''u1'', mb_tenantId = ''t1'', mb_role = INDIVIDUAL, mb_status = MB_ACTIVE,
          mb_isPrimary = True\<rparr>] [demo_token]) = (Inr r, w1) \<and>
     fst (refresh demo_rt demo_auth ''first'' demo_context (snd (logout demo_rt (ar_refreshToken r) w1))) =
       Inl (UnauthorizedException ''Invalid or expired refresh token'')"
proof -
  let ?w = "demo_accounts [\<lparr>ac_id = ''u1'', ac_email = ''j@x.org'', ac_passwordHash = ''h1'', ac_fullName = ''Jane'',
      ac_status = US_ACTIVE, ac_lastLoginAt = None\<rparr>]
    [\<lparr>mb_id = ''m1'', mb_userId = ''u1'', mb_tenantId = ''t1'', mb_role = INDIVIDUAL, mb_status = MB_ACTIVE,
      mb_isPrimary = True\<rparr>] [demo_token]"
  have h: "hashToken demo_rt ''first'' = ''first''" "hashToken demo_rt (rt_random demo_rt n) \<noteq> ''first''"
    "rt_clock demo_rt 0 \<le> 1800000000000" for n
    by (simp_all add: hashToken_def demo_rt_def)
  have token: "rf_tokenHash demo_token = ''first''" "rf_userId demo_token = ''u1''" "rf_revokedAt demo_token = None"
    "rf_expiresAt demo_token = 1800000000000"
    by (simp_all add: demo_token_def)
  have "runs (refresh demo_rt demo_auth ''first'' demo_context) ?w (\<lambda>_ _. True)"
    using h(2) [of 2] h(2) [THEN not_sym]
    by (simp add: refresh_def runs_primary primary_def issueTokens_def insert_token_def run_simps demo_accounts_def
        h(1) token first_of_def not_less h(3))
  then obtain r w1 where r: "refresh demo_rt demo_auth ''first'' demo_context ?w = (Inr r, w1)"
    by (auto simp: runs_iff)
  have "(auth_step demo_rt demo_auth)\<^sup>*\<^sup>* w1 (snd (logout demo_rt (ar_refreshToken r) w1))"
    by (intro r_into_rtranclp auth_step.signs_out)
  from refresh_token_single_use [OF r this, of demo_context] r show ?thesis by (intro exI conjI) auto
qed

definition demo_register :: register_dto where
  "demo_register = \<lparr>gd_email = ''j@x.org'', gd_password = ''passphrase'', gd_fullName = ''Jane''\<rparr>"

lemma registered_can_login_witness:
  "\<exists>r w1. register demo_rt demo_auth demo_register demo_context (demo_accounts [] [] []) = (Inr r, w1) \<and>
     runs (login demo_rt demo_auth '' J@X.org'' ''passphrase'' demo_context) w1 (\<lambda>r' _. ar_user r' = ar_user r)"
proof -
  have "runs (register demo_rt demo_auth demo_register demo_context) (demo_accounts [] [] [])
      (\<lambda>_ w'. \<exists>k<db_tick w'. rf_tokenHash ` set (refresh_tokens w') = {hashToken demo_rt (rt_random demo_rt k)})"
    by (simp add: register_def create_account_def writeAudit_def issueTokens_def insert_token_def Let_def run_simps
        demo_accounts_def) (rule exI, rule conjI [rotated], rule refl, simp)
  then obtain r w1 k where r: "register demo_rt demo_auth demo_register demo_context (demo_accounts [] [] []) = (Inr r, w1)"
    and k: "k < db_tick w1" "rf_tokenHash ` set (refresh_tokens w1) = {hashToken demo_rt (rt_random demo_rt k)}"
    by (auto simp: runs_iff)
  have email: "normal_email '' J@X.org'' = normal_email (gd_email demo_register)"
    by (simp add: normal_email_def demo_register_def text_eval)
  have fresh: "\<forall>n\<ge>db_tick w1. hashToken demo_rt (rt_random demo_rt n) \<notin> rf_tokenHash ` set (refresh_tokens w1)"
    using k by (auto dest: demo_random_inj)
  have "runs (login demo_rt demo_auth '' J@X.org'' (gd_password demo_register) demo_context) w1
      (\<lambda>r' _. ar_user r' = ar_user r)"
    by (rule registered_can_login [OF r email _ _ fresh]) (simp_all add: demo_auth_def demo_accounts_def)
  then show ?thesis using r by (auto simp: demo_register_def)
qed

end
