(* ===== verification/AgencyFeeds.thy ===== *)
theory AgencyFeeds
  imports PublicSearch
begin

text \<open>
  Cross-border agency feeds (modules/agency-feeds): an administrator issues a feed to an agency,
  the agency reads the published entries of the registry that match its filters page by page, and
  every read is recorded.
\<close>

section \<open>State\<close>

datatype feed_status = FEED_ACTIVE | FEED_PAUSED | FEED_REVOKED

fun feed_status_text :: "feed_status \<Rightarrow> string" where
  "feed_status_text FEED_ACTIVE = ''ACTIVE''"
| "feed_status_text FEED_PAUSED = ''PAUSED''"
| "feed_status_text FEED_REVOKED = ''REVOKED''"

record agency_feed =
  fd_id :: string
  fd_tenantId :: string
  fd_name :: string
  fd_region :: "string option"
  fd_categories :: "string list"
  fd_indicatorTypes :: "indicator_type list"
  fd_status :: feed_status
  fd_createdByUserId :: "string option"
  fd_lastDeliveredAt :: "int option"
  fd_revokedAt :: "int option"
  fd_createdAt :: int

record feed_delivery =
  fy_id :: string
  fy_feedId :: string
  fy_tenantId :: string
  fy_requestedByKeyId :: "string option"
  fy_itemCount :: nat
  fy_sinceCursor :: "int option"
  fy_untilCursor :: int
  fy_createdAt :: int

record feed_db = registry_db +
  feeds :: "agency_feed list"
  feed_deliveries :: "feed_delivery list"

interpretation feeds_tab: table feeds feeds_update
  by unfold_locales simp

interpretation feed_deliveries_tab: table feed_deliveries feed_deliveries_update
  by unfold_locales simp

section \<open>Management\<close>

definition FEED_TENANT_TYPES :: "tenant_type list" where
  "FEED_TENANT_TYPES = [TT_AGENCY, TT_INVESTIGATOR, TT_INTERNAL]"

definition MAX_FEED_ITEMS :: int where
  "MAX_FEED_ITEMS = 200"

definition DEFAULT_FEED_ITEMS :: int where
  "DEFAULT_FEED_ITEMS = 50"

record feed_dto =
  fo_tenantId :: string
  fo_name :: string
  fo_region :: "string option"
  fo_categories :: "string list option"
  fo_indicatorTypes :: "indicator_type list option"

definition new_feed :: "auth_user \<Rightarrow> feed_dto \<Rightarrow> string \<Rightarrow> int \<Rightarrow> agency_feed" where
  "new_feed actor dto uid t =
     \<lparr>fd_id = uid, fd_tenantId = fo_tenantId dto, fd_name = fo_name dto, fd_region = fo_region dto,
      fd_categories = or_default (fo_categories dto) [],
      fd_indicatorTypes = or_default (fo_indicatorTypes dto) [], fd_status = FEED_ACTIVE,
      fd_createdByUserId = Some (au_userId actor), fd_lastDeliveredAt = None, fd_revokedAt = None,
      fd_createdAt = t\<rparr>"

definition createFeed ::
    "runtime \<Rightarrow> auth_user \<Rightarrow> feed_dto \<Rightarrow> string option \<Rightarrow> ('a feed_db_scheme, agency_feed) prog" where
  "createFeed rt actor dto ip =
     bind_p (find_row tenants (\<lambda>t. tn_id t = fo_tenantId dto)) (\<lambda>found.
     bind_p (require_some found (NotFoundException ''Tenant not found'')) (\<lambda>tenant.
     seq_p (ensure (tn_type tenant \<in> set FEED_TENANT_TYPES) (BadRequestException
       (''Tenant type '' @ tenant_type_text (tn_type tenant) @
        '' cannot own an agency feed (only AGENCY / INVESTIGATOR / INTERNAL).'')))
     (bind_p (new_id rt) (\<lambda>uid. bind_p (now rt) (\<lambda>t.
      bind_p (insert_row feeds_update (new_feed actor dto uid t)) (\<lambda>feed.
      seq_p (append_evidence rt (admin_event (Some (tn_id tenant)) (au_userId actor) ''ADMIN''
        ''AGENCY_FEED'' (fd_id feed) ''AGENCY_FEED_CREATED''
        (''Cross-border agency feed \"'' @ fo_name dto @ ''\" issued to '' @ tn_name tenant)
        (JObj [(''region'', opt_str (fo_region dto)),
               (''categories'', JArr (map JStr (or_default (fo_categories dto) []))),
               (''indicatorTypes'', JArr (map (JStr \<circ> indicator_text) (or_default (fo_indicatorTypes dto) [])))]) ip))
      (ret feed)))))))"

definition listFeeds :: "string option \<Rightarrow> ('a feed_db_scheme, agency_feed list) prog" where
  "listFeeds tenantId =
     bind_p (find_rows feeds (\<lambda>f. truthy tenantId \<longrightarrow> tenantId = Some (fd_tenantId f))) (\<lambda>rows.
     ret (take 200 (order_desc fd_createdAt rows)))"

definition getFeed :: "string \<Rightarrow> ('a feed_db_scheme, agency_feed) prog" where
  "getFeed i =
     bind_p (find_row feeds (\<lambda>f. fd_id f = i)) (\<lambda>found.
     require_some found (NotFoundException ''Agency feed not found''))"

definition revokeFeed ::
    "runtime \<Rightarrow> auth_user \<Rightarrow> string \<Rightarrow> string option \<Rightarrow> ('a feed_db_scheme, agency_feed) prog" where
  "revokeFeed rt actor i ip =
     bind_p (getFeed i) (\<lambda>feed.
     if fd_status feed = FEED_REVOKED then ret feed
     else
       bind_p (now rt) (\<lambda>t.
       bind_p (update_row feeds feeds_update (\<lambda>f. fd_id f = i)
         (\<lambda>f. f\<lparr>fd_status := FEED_REVOKED, fd_revokedAt := Some t\<rparr>)) (\<lambda>updated.
       seq_p (append_evidence rt (admin_event (Some (fd_tenantId feed)) (au_userId actor) ''ADMIN''
         ''AGENCY_FEED'' (fd_id feed) ''AGENCY_FEED_REVOKED''
         (''Agency feed \"'' @ fd_name feed @ ''\" revoked'')
         (JObj [(''tenantId'', JStr (fd_tenantId feed))]) ip))
       (ret updated))))"

section \<open>Consumption\<close>

text \<open>What an agency receives of an entry.\<close>

record feed_item =
  fi_id :: string
  fi_indicatorType :: indicator_type
  fi_indicator :: string
  fi_category :: string
  fi_publicStatus :: "public_status option"
  fi_summary :: string
  fi_recommendedAction :: "string option"
  fi_firstSeen :: "int option"
  fi_lastSeen :: "int option"
  fi_publishedAt :: "int option"
  fi_updatedAt :: int

definition projectEntry :: "registry_entry \<Rightarrow> feed_item" where
  "projectEntry e =
     \<lparr>fi_id = re_id e, fi_indicatorType = re_indicatorType e, fi_indicator = re_indicatorValue e,
      fi_category = re_category e, fi_publicStatus = re_publicStatus e,
      fi_summary = re_publicSafeSummary e, fi_recommendedAction = re_recommendedAction e,
      fi_firstSeen = re_firstSeen e, fi_lastSeen = re_lastSeen e, fi_publishedAt = re_publishedAt e,
      fi_updatedAt = re_updatedAt e\<rparr>"

text \<open>The condition of the query: the filters of the feed, and the window of time.\<close>

definition feed_filter :: "agency_feed \<Rightarrow> registry_entry \<Rightarrow> bool" where
  "feed_filter feed e \<longleftrightarrow> re_status e = EN_PUBLISHED \<and>
     (fd_categories feed \<noteq> [] \<longrightarrow> re_category e \<in> set (fd_categories feed)) \<and>
     (fd_indicatorTypes feed \<noteq> [] \<longrightarrow> re_indicatorType e \<in> set (fd_indicatorTypes feed))"

definition in_window :: "int option \<Rightarrow> int \<Rightarrow> registry_entry \<Rightarrow> bool" where
  "in_window since until e \<longleftrightarrow>
     (case since of None \<Rightarrow> True | Some s \<Rightarrow> re_updatedAt e > s) \<and> re_updatedAt e \<le> until"

record feed_page =
  fg_items :: "feed_item list"
  fg_count :: nat
  fg_sinceCursor :: "string option"
  fg_untilCursor :: string
  fg_hasMore :: bool

definition feed_limit :: "int option \<Rightarrow> nat" where
  "feed_limit requested = clamp 1 MAX_FEED_ITEMS (or_default requested DEFAULT_FEED_ITEMS)"

text \<open>
  The reading of the \<open>since\<close> text as a date is the engine's (\<open>read_date\<close>); a text that is no
  date makes the query fail in Prisma.
\<close>

definition read_since ::
    "(string \<Rightarrow> int option) \<Rightarrow> string option \<Rightarrow> ('a feed_db_scheme, int option) prog" where
  "read_since read_date sinceIso =
     (if truthy sinceIso
      then bind_p (require_some (read_date (or_default sinceIso [])) (InternalError ''Invalid Date''))
             (\<lambda>t. ret (Some t))
      else ret None)"

definition consumeFeed ::
    "runtime \<Rightarrow> (string \<Rightarrow> int option) \<Rightarrow> partner_principal \<Rightarrow> string \<Rightarrow> string option \<Rightarrow> int option \<Rightarrow>
     ('a feed_db_scheme, feed_page) prog" where
  "consumeFeed rt read_date partner feedId sinceIso requestedLimit =
     bind_p (find_row feeds (\<lambda>f. fd_id f = feedId)) (\<lambda>found.
     bind_p (require_some found (NotFoundException ''Agency feed not found'')) (\<lambda>feed.
     seq_p (ensure (fd_tenantId feed = pp_tenantId partner) (NotFoundException ''Agency feed not found''))
     (seq_p (ensure (fd_status feed = FEED_ACTIVE)
        (ForbiddenException (''Feed is '' @ to_lower (feed_status_text (fd_status feed))) []))
     (let limit = feed_limit requestedLimit in
      bind_p (now rt) (\<lambda>until.
      bind_p (read_since read_date sinceIso) (\<lambda>since.
      bind_p (find_rows registry_entries (\<lambda>e. feed_filter feed e \<and> in_window since until e)) (\<lambda>matching.
      let rows = take (limit + 1) (order_asc re_updatedAt matching);
          hasMore = length rows > limit;
          items = map projectEntry (if hasMore then take limit rows else rows) in
      bind_p (new_id rt) (\<lambda>uid. bind_p (now rt) (\<lambda>t.
      seq_p (insert_row feed_deliveries_update
        \<lparr>fy_id = uid, fy_feedId = fd_id feed, fy_tenantId = fd_tenantId feed,
         fy_requestedByKeyId = Some (pp_keyId partner), fy_itemCount = length items,
         fy_sinceCursor = since, fy_untilCursor = until, fy_createdAt = t\<rparr>)
      (seq_p (update_row feeds feeds_update (\<lambda>f. fd_id f = fd_id feed) (\<lambda>f. f\<lparr>fd_lastDeliveredAt := Some until\<rparr>))
      (ret \<lparr>fg_items = items, fg_count = length items,
            fg_sinceCursor = map_option to_iso_string since,
            fg_untilCursor = to_iso_string until, fg_hasMore = hasMore\<rparr>)))))))))))"

section \<open>The log is respected\<close>

lemma feeds_safe:
  "moves (log_safe rt) (createFeed rt actor dto ip)" "moves (log_safe rt) (revokeFeed rt actor i ip)"
  "moves (log_safe rt) (consumeFeed rt read_date partner feedId sinceIso requested)"
  unfolding createFeed_def revokeFeed_def getFeed_def consumeFeed_def read_since_def Let_def
  by (auto simp: log_untouched comp_def intro!: safe_rules append_safe split: option.split)

section \<open>One page\<close>

text \<open>The partner may read the feed, whose filters are \<open>F\<close>.\<close>

definition readable :: "partner_principal \<Rightarrow> string \<Rightarrow> (registry_entry \<Rightarrow> bool) \<Rightarrow> 'a feed_db_scheme \<Rightarrow> bool" where
  "readable partner feedId F w \<longleftrightarrow> (\<exists>feed. find (\<lambda>f. fd_id f = feedId) (feeds w) = Some feed \<and>
     fd_tenantId feed = pp_tenantId partner \<and> fd_status feed = FEED_ACTIVE \<and> feed_filter feed = F)"

text \<open>The text of a cursor is read back as the time it was printed from.\<close>

definition reads_as :: "(string \<Rightarrow> int option) \<Rightarrow> string option \<Rightarrow> int option \<Rightarrow> bool" where
  "reads_as read_date cursor t \<longleftrightarrow>
     (case t of None \<Rightarrow> \<not> truthy cursor | Some _ \<Rightarrow> truthy cursor \<and> read_date (or_default cursor []) = t)"

definition window_rows ::
    "(registry_entry \<Rightarrow> bool) \<Rightarrow> int option \<Rightarrow> int \<Rightarrow> 'a feed_db_scheme \<Rightarrow> registry_entry list" where
  "window_rows F since until w =
     order_asc re_updatedAt (filter (\<lambda>e. F e \<and> in_window since until e) (registry_entries w))"

lemma feed_limit_pos: "1 \<le> feed_limit requested" "feed_limit requested \<le> 200"
  using clamp_bounds [of 1 MAX_FEED_ITEMS "or_default requested DEFAULT_FEED_ITEMS"]
  by (simp_all add: feed_limit_def MAX_FEED_ITEMS_def)

lemma filter_ignores_delivery [simp]: "feed_filter (f\<lparr>fd_lastDeliveredAt := t\<rparr>) = feed_filter f"
  by (simp add: feed_filter_def fun_eq_iff)

lemma page_read:
  assumes "readable partner feedId F w" "reads_as read_date sinceIso since"
  shows "runs (consumeFeed rt read_date partner feedId sinceIso requested) w (\<lambda>p w'.
    let rows = window_rows F since (rt_clock rt (db_tick w)) w; limit = feed_limit requested in
    fg_items p = map projectEntry (take limit rows) \<and> fg_count p = length (fg_items p) \<and>
    (fg_hasMore p \<longleftrightarrow> limit < length rows) \<and>
    fg_untilCursor p = to_iso_string (rt_clock rt (db_tick w)) \<and>
    registry_entries w' = registry_entries w \<and> readable partner feedId F w' \<and>
    (\<exists>d. feed_deliveries w' = feed_deliveries w @ [d] \<and> fy_feedId d = feedId \<and>
       fy_itemCount d = length (fg_items p) \<and> fy_requestedByKeyId d = Some (pp_keyId partner)))"
proof -
  obtain feed where feed: "find (\<lambda>f. fd_id f = feedId) (feeds w) = Some feed"
      "fd_tenantId feed = pp_tenantId partner" "fd_status feed = FEED_ACTIVE" "feed_filter feed = F"
    using assms(1) by (auto simp: readable_def)
  have i: "fd_id feed = feedId" using find_SomeD [OF feed(1)] by simp
  have since: "runs (read_since read_date sinceIso) v Q \<longleftrightarrow> Q since v" for v :: "'a feed_db_scheme" and Q
    using assms(2) by (auto simp: reads_as_def read_since_def run_simps split: option.splits)
  have more: "n < length (take (Suc n) rows) \<longleftrightarrow> n < length rows" for n and rows :: "registry_entry list"
    by auto
  have cut: "(if n < length rows then take n (take (Suc n) rows) else take (Suc n) rows) = take n rows"
    for n and rows :: "registry_entry list"
    by simp
  show ?thesis
    using feed(2-4)
    by (simp add: consumeFeed_def run_simps since feed(1) i Let_def find_mapped more cut readable_def
        window_rows_def del: length_take)
qed

section \<open>Reading a feed to its end\<close>

text \<open>
  A client that reads page after page while there is more, taking the cursor of the next page
  from the one it has: at most \<open>n\<close> pages.
\<close>

primrec read_feed ::
    "runtime \<Rightarrow> (string \<Rightarrow> int option) \<Rightarrow> partner_principal \<Rightarrow> string \<Rightarrow> int option \<Rightarrow> (feed_page \<Rightarrow> string) \<Rightarrow>
     nat \<Rightarrow> string option \<Rightarrow> 'a feed_db_scheme \<Rightarrow> feed_item list" where
  "read_feed rt read_date partner feedId requested next_cursor 0 since w = []"
| "read_feed rt read_date partner feedId requested next_cursor (Suc n) since w =
     (case consumeFeed rt read_date partner feedId since requested w of
        (Inl e, w') \<Rightarrow> []
      | (Inr p, w') \<Rightarrow> fg_items p @
          (if fg_hasMore p
           then read_feed rt read_date partner feedId requested next_cursor n (Some (next_cursor p)) w'
           else []))"

text \<open>Two clients: by the time of the last item received, and by the cursor the response offers.\<close>

definition by_last_item :: "feed_page \<Rightarrow> string" where
  "by_last_item p = to_iso_string (fi_updatedAt (last (fg_items p)))"

definition by_until_cursor :: "feed_page \<Rightarrow> string" where
  "by_until_cursor p = fg_untilCursor p"

lemma iso_nonempty: "to_iso_string t \<noteq> []"
  by (simp add: to_iso_string_def Let_def split: prod.split)

lemma reads_as_iso: "read_date (to_iso_string t) = Some t \<Longrightarrow> reads_as read_date (Some (to_iso_string t)) (Some t)"
  by (simp add: reads_as_def truthy_def iso_nonempty)

text \<open>In a strictly ascending list, the elements after the last of a front are the rest.\<close>

lemma after_front:
  fixes key :: "'r \<Rightarrow> int"
  assumes "sorted_wrt (<) (map key rows)" "0 < n" "n \<le> length rows"
  shows "filter (\<lambda>e. key (last (take n rows)) < key e) rows = drop n rows"
proof -
  have last: "last (take n rows) = rows ! (n - 1)"
    using assms(2,3) by (subst last_conv_nth) (auto simp: min_def)
  have less: "i < j \<Longrightarrow> j < length rows \<Longrightarrow> key (rows ! i) < key (rows ! j)" for i j
    using assms(1) by (simp add: sorted_wrt_map sorted_wrt_iff_nth_less)
  have "key x \<le> key (rows ! (n - 1))" if "x \<in> set (take n rows)" for x
  proof -
    obtain i where i: "i < n" "x = rows ! i" using \<open>x \<in> _\<close> assms(3) by (auto simp: in_set_conv_nth)
    then show ?thesis using less [of i "n - 1"] assms(2,3) by (cases "i < n - 1") (auto simp: less_Suc_eq not_less Suc_le_eq dest!: le_antisym intro: less_imp_le)
  qed
  then have "filter (\<lambda>e. key (rows ! (n - 1)) < key e) (take n rows) = []"
    by (auto simp: filter_empty_conv not_less)
  moreover have "filter (\<lambda>e. key (rows ! (n - 1)) < key e) (drop n rows) = drop n rows"
    using less assms(2,3) by (auto simp: filter_id_conv in_set_conv_nth)
  ultimately show ?thesis
    using filter_append [of "\<lambda>e. key (rows ! (n - 1)) < key e" "take n rows" "drop n rows"] by (simp add: last)
qed

text \<open>The matching entries in the order of delivery, and those after a time.\<close>

definition feed_rows :: "(registry_entry \<Rightarrow> bool) \<Rightarrow> 'a feed_db_scheme \<Rightarrow> registry_entry list" where
  "feed_rows F w = order_asc re_updatedAt (filter F (registry_entries w))"

lemma window_after:
  assumes "\<forall>e\<in>set (registry_entries w). re_updatedAt e \<le> until"
  shows "window_rows F since until w =
    filter (\<lambda>e. case since of None \<Rightarrow> True | Some s \<Rightarrow> s < re_updatedAt e) (feed_rows F w)"
  unfolding window_rows_def feed_rows_def order_asc_def filter_sort [symmetric] filter_filter
  by (rule filter_cong) (use assms in \<open>auto simp: in_window_def\<close>)

lemma feed_rows_ascending:
  assumes "distinct (map re_updatedAt (filter F (registry_entries w)))"
  shows "sorted_wrt (<) (map re_updatedAt (feed_rows F w))"
  unfolding feed_rows_def order_asc_def
  using assms by (simp add: strict_sorted_iff distinct_map)

definition after_cursor :: "int option \<Rightarrow> registry_entry \<Rightarrow> bool" where
  "after_cursor t e \<longleftrightarrow> (case t of None \<Rightarrow> True | Some s \<Rightarrow> s < re_updatedAt e)"

text \<open>What the reads rely on: dates are read back, and no entry is from the future.\<close>

definition times_fit ::
    "runtime \<Rightarrow> (string \<Rightarrow> int option) \<Rightarrow> registry_entry list \<Rightarrow> bool" where
  "times_fit rt read_date es \<longleftrightarrow> (\<forall>e\<in>set es.
     read_date (to_iso_string (re_updatedAt e)) = Some (re_updatedAt e) \<and> (\<forall>n. re_updatedAt e \<le> rt_clock rt n))"

lemma page_of_feed:
  assumes "readable partner feedId F w" "reads_as read_date sinceIso t" "times_fit rt read_date (registry_entries w)"
  obtains p w' where "consumeFeed rt read_date partner feedId sinceIso requested w = (Inr p, w')"
    and "fg_items p = map projectEntry (take (feed_limit requested) (filter (after_cursor t) (feed_rows F w)))"
    and "fg_hasMore p \<longleftrightarrow> feed_limit requested < length (filter (after_cursor t) (feed_rows F w))"
    and "registry_entries w' = registry_entries w" "readable partner feedId F w'"
    and "fg_untilCursor p = to_iso_string (rt_clock rt (db_tick w))"
proof -
  have "window_rows F t (rt_clock rt (db_tick w)) w = filter (after_cursor t) (feed_rows F w)"
    using assms(3) by (subst window_after) (auto simp: times_fit_def after_cursor_def [abs_def])
  then show thesis
    using page_read [OF assms(1,2), of rt requested] by (auto simp: runs_iff Let_def intro: that)
qed

lemma read_to_end:
  assumes "distinct (map re_updatedAt (filter F (registry_entries w)))"
    and "times_fit rt read_date (registry_entries w)"
    and "readable partner feedId F w" "reads_as read_date since t"
    and "length (filter (after_cursor t) (feed_rows F w)) \<le> n"
  shows "read_feed rt read_date partner feedId requested by_last_item n since w =
    map projectEntry (filter (after_cursor t) (feed_rows F w))"
  using assms
proof (induction n arbitrary: since t w)
  case (Suc n)
  let ?R = "filter (after_cursor t) (feed_rows F w)"
  let ?l = "feed_limit requested"
  obtain p w' where p: "consumeFeed rt read_date partner feedId since requested w = (Inr p, w')"
    "fg_items p = map projectEntry (take ?l ?R)" "fg_hasMore p \<longleftrightarrow> ?l < length ?R"
    "registry_entries w' = registry_entries w" "readable partner feedId F w'"
    by (rule page_of_feed [OF Suc.prems(3,4,2)])
  show ?case
  proof (cases "?l < length ?R")
    case True
    let ?t = "re_updatedAt (last (take ?l ?R))"
    have ne: "take ?l ?R \<noteq> []" using feed_limit_pos(1) [of requested] True by (cases ?R) auto
    then have at_last: "last (take ?l ?R) \<in> set ?R" using last_in_set in_set_takeD by metis
    then have entry: "last (take ?l ?R) \<in> set (registry_entries w)" "after_cursor t (last (take ?l ?R))"
      by (auto simp: feed_rows_def)
    have next_iso: "by_last_item p = to_iso_string ?t"
      using ne by (simp add: by_last_item_def p(2) last_map projectEntry_def)
    have asc: "sorted_wrt (<) (map re_updatedAt ?R)"
      using feed_rows_ascending [OF Suc.prems(1)] by (simp add: sorted_wrt_map sorted_wrt_filter)
    have rows: "feed_rows F w' = feed_rows F w" by (simp add: feed_rows_def p(4))
    have rest: "filter (after_cursor (Some ?t)) (feed_rows F w') = drop ?l ?R"
    proof -
      have "filter (after_cursor (Some ?t)) (feed_rows F w) = filter (\<lambda>e. ?t < re_updatedAt e) ?R"
        using entry(2) unfolding filter_filter
        by (intro filter_cong) (auto simp: after_cursor_def split: option.splits)
      then show ?thesis using after_front [OF asc, of ?l] feed_limit_pos(1) [of requested] True rows by simp
    qed
    have "read_feed rt read_date partner feedId requested by_last_item n (Some (by_last_item p)) w' =
        map projectEntry (filter (after_cursor (Some ?t)) (feed_rows F w'))"
    proof (rule Suc.IH)
      show "reads_as read_date (Some (by_last_item p)) (Some ?t)"
        unfolding next_iso by (rule reads_as_iso) (use Suc.prems(2) entry(1) in \<open>auto simp: times_fit_def\<close>)
      show "length (filter (after_cursor (Some ?t)) (feed_rows F w')) \<le> n"
        unfolding rest using Suc.prems(5) feed_limit_pos(1) [of requested] by simp
    qed (use Suc.prems p in simp_all)
    then show ?thesis using True by (simp add: p rest flip: map_append)
  qed (simp add: p)
qed simp

text \<open>
  C10. An agency that follows the time of the last item it has received gets the whole feed: if
  no two matching entries were updated at the same millisecond, none of them in the future, and
  the registry does not change while the agency reads, reading page after page (at most as many
  pages as there are entries) ends with every entry the feed selects having been delivered exactly
  once, in the order of their updates, whatever the page size, and nothing else. Of entries updated
  at the same millisecond, those beyond the end of a page are lost to such a reader.
\<close>

theorem feed_delivered_by_item_time:
  assumes "readable partner feedId F w"
    and "distinct (map re_updatedAt (filter F (registry_entries w)))"
    and "times_fit rt read_date (registry_entries w)"
    and "length (filter F (registry_entries w)) \<le> n"
  shows "read_feed rt read_date partner feedId requested by_last_item n None w =
    map projectEntry (feed_rows F w)"
proof -
  have all: "filter (after_cursor None) (feed_rows F w) = feed_rows F w"
    by (simp add: after_cursor_def)
  have "length (feed_rows F w) \<le> n" using assms(4) by (simp add: feed_rows_def)
  then show ?thesis
    using read_to_end [OF assms(2,3,1), of None None n requested]
    by (simp add: all reads_as_def truthy_def)
qed

text \<open>
  C12. The cursor the response offers loses entries: a client that asks for the next page from
  the returned \<open>untilCursor\<close> gets the first page and nothing more, however often it asks and
  however many matching entries \<open>hasMore\<close> announced, because the cursor is the time of the
  request and not that of the last item sent.
\<close>

theorem until_cursor_loses_entries:
  assumes "readable partner feedId F w" "times_fit rt read_date (registry_entries w)"
    and "\<And>m. read_date (to_iso_string (rt_clock rt m)) = Some (rt_clock rt m)"
  shows "read_feed rt read_date partner feedId requested by_until_cursor (Suc n) None w =
    map projectEntry (take (feed_limit requested) (feed_rows F w))"
proof -
  have all: "filter (after_cursor None) (feed_rows F w) = feed_rows F w"
    by (simp add: after_cursor_def)
  have start: "reads_as read_date None None" by (simp add: reads_as_def truthy_def)
  obtain p w' where p: "consumeFeed rt read_date partner feedId None requested w = (Inr p, w')"
    "fg_items p = map projectEntry (take (feed_limit requested) (feed_rows F w))"
    "registry_entries w' = registry_entries w" "readable partner feedId F w'"
    "fg_untilCursor p = to_iso_string (rt_clock rt (db_tick w))"
    by (rule page_of_feed [OF assms(1) start assms(2), of requested]) (simp add: all)
  let ?t = "rt_clock rt (db_tick w)"
  have next_reads: "reads_as read_date (Some (fg_untilCursor p)) (Some ?t)"
    unfolding p(5) by (rule reads_as_iso) (rule assms(3))
  have fit: "times_fit rt read_date (registry_entries w')" using assms(2) p(3) by simp
  have none: "filter (after_cursor (Some ?t)) (feed_rows F w') = []"
    using assms(2) by (auto simp: filter_empty_conv feed_rows_def after_cursor_def times_fit_def p(3) not_less)
  obtain q w'' where q: "consumeFeed rt read_date partner feedId (Some (fg_untilCursor p)) requested w' = (Inr q, w'')"
    "fg_items q = []" "\<not> fg_hasMore q"
    by (rule page_of_feed [OF p(4) next_reads fit, of requested]) (simp add: none)
  show ?thesis by (cases n) (simp_all add: p q [unfolded p(5)] by_until_cursor_def)
qed

text \<open>
  A feed gives nothing to anybody else: whoever is not the tenant of the feed gets the
  answer of a feed that does not exist, a revoked or paused feed is refused, and in both cases
  nothing is delivered or recorded. What the owner gets are published entries only, at most 200
  of them, and the delivery is recorded with their number and the key that asked.
\<close>

lemma feed_read_guarded:
  "ends (consumeFeed rt read_date partner feedId sinceIso requested) w (\<lambda>r w'. case r of
     Inl e \<Rightarrow> w' = w\<lparr>db_tick := db_tick w'\<rparr> \<and>
       ((\<nexists>f. f \<in> set (feeds w) \<and> fd_id f = feedId \<and> fd_tenantId f = pp_tenantId partner) \<longrightarrow>
          e = NotFoundException ''Agency feed not found'')
   | Inr p \<Rightarrow> (\<exists>f\<in>set (feeds w). fd_id f = feedId \<and> fd_tenantId f = pp_tenantId partner \<and>
         fd_status f = FEED_ACTIVE) \<and>
       length (fg_items p) \<le> 200 \<and>
       (\<forall>i\<in>set (fg_items p). \<exists>e\<in>set (registry_entries w). re_status e = EN_PUBLISHED \<and> i = projectEntry e) \<and>
       (\<exists>d. feed_deliveries w' = feed_deliveries w @ [d] \<and> fy_feedId d = feedId \<and>
          fy_itemCount d = length (fg_items p) \<and> fy_requestedByKeyId d = Some (pp_keyId partner)) \<and>
       registry_entries w' = registry_entries w)"
proof (cases "\<exists>F since. readable partner feedId F w \<and> reads_as read_date sinceIso since")
  case True
  then obtain feed since where feed: "find (\<lambda>f. fd_id f = feedId) (feeds w) = Some feed"
      "fd_tenantId feed = pp_tenantId partner" "fd_status feed = FEED_ACTIVE"
      "readable partner feedId (feed_filter feed) w" "reads_as read_date sinceIso since"
    by (auto simp: readable_def)
  show ?thesis
    by (rule ends_runs [OF page_read [OF feed(4,5)]])
       (use find_SomeD [OF feed(1)] feed(2,3) feed_limit_pos(2) [of requested] in
         \<open>auto simp: Let_def window_rows_def feed_filter_def min_le_iff_disj dest!: in_set_takeD\<close>)
next
  case False
  have "raises (consumeFeed rt read_date partner feedId sinceIso requested) w (\<lambda>e w'. w' = w\<lparr>db_tick := db_tick w'\<rparr> \<and>
       ((\<nexists>f. f \<in> set (feeds w) \<and> fd_id f = feedId \<and> fd_tenantId f = pp_tenantId partner) \<longrightarrow>
          e = NotFoundException ''Agency feed not found''))"
  proof (cases "find (\<lambda>f. fd_id f = feedId) (feeds w)")
    case (Some feed)
    show ?thesis
    proof (cases "fd_tenantId feed = pp_tenantId partner \<and> fd_status feed = FEED_ACTIVE")
      case True
      with Some have "readable partner feedId (feed_filter feed) w" by (simp add: readable_def)
      with False have "\<not> reads_as read_date sinceIso None" "\<not> reads_as read_date sinceIso (read_date (or_default sinceIso []))"
        by blast+
      then have bad: "truthy sinceIso" "read_date (or_default sinceIso []) = None"
        by (auto simp: reads_as_def split: option.splits)
      show ?thesis
        using find_SomeD [OF Some] True
        by (simp add: consumeFeed_def read_since_def run_simps Some bad Let_def) blast
    next
      case False
      with Some find_SomeD [OF Some] show ?thesis by (auto simp: consumeFeed_def run_simps)
    qed
  qed (simp add: consumeFeed_def run_simps)
  then show ?thesis by (auto simp: ends_iff)
qed

section \<open>Witnesses\<close>

definition demo_feed :: agency_feed where
  "demo_feed = \<lparr>fd_id = ''f1'', fd_tenantId = ''t1'', fd_name = ''phishing'', fd_region = None,
     fd_categories = [], fd_indicatorTypes = [IT_DOMAIN], fd_status = FEED_ACTIVE,
     fd_createdByUserId = None, fd_lastDeliveredAt = None, fd_revokedAt = None, fd_createdAt = 0\<rparr>"

definition demo_agency :: partner_principal where
  "demo_agency = \<lparr>pp_keyId = ''k1'', pp_tenantId = ''t1'', pp_keyPrefix = ''vsk_1'', pp_scopes = [AGENCY_FEED],
     pp_plan = PLAN_FREE\<rparr>"

text \<open>Two domains and a wallet, which the feed does not select.\<close>

definition demo_published :: "registry_entry list" where
  "demo_published =
     [(demo_entry ''e2'' IT_DOMAIN ''b.test'')\<lparr>re_updatedAt := 2000\<rparr>,
      (demo_entry ''e1'' IT_DOMAIN ''a.test'')\<lparr>re_updatedAt := 1000\<rparr>,
      (demo_entry ''e3'' IT_CRYPTO_WALLET ''x'')\<lparr>re_updatedAt := 1000\<rparr>]"

definition demo_feeds :: feed_db where
  "demo_feeds = registry_db.extend (demo_registry demo_published []) (feed_db.fields [demo_feed] [])"

definition demo_date :: "string \<Rightarrow> int option" where
  "demo_date = map_of [(''1970-01-01T00:00:01.000Z'', 1000), (''1970-01-01T00:00:02.000Z'', 2000),
     (''2023-11-14T22:13:20.000Z'', 1700000000000)]"

lemma demo_dates:
  "to_iso_string 1000 = ''1970-01-01T00:00:01.000Z''" "to_iso_string 2000 = ''1970-01-01T00:00:02.000Z''"
  "to_iso_string 1700000000000 = ''2023-11-14T22:13:20.000Z''"
  by code_simp+

lemma demo_feeds_read:
  "readable demo_agency ''f1'' (feed_filter demo_feed) demo_feeds"
  "registry_entries demo_feeds = demo_published"
  "filter (feed_filter demo_feed) demo_published = take 2 demo_published"
  "times_fit (demo_rt\<lparr>rt_clock := (\<lambda>n. 1700000000000)\<rparr>) demo_date demo_published"
  by (simp_all add: readable_def demo_feeds_def registry_db.extend_def feed_db.fields_def demo_feed_def demo_agency_def
      demo_registry_def demo_published_def feed_filter_def demo_entry_def times_fit_def demo_dates demo_date_def)

text \<open>With pages of one item both domains arrive, the older first.\<close>

theorem feed_delivered_by_item_time_witness:
  "map fi_id (read_feed (demo_rt\<lparr>rt_clock := (\<lambda>n. 1700000000000)\<rparr>) demo_date demo_agency ''f1'' (Some 1)
     by_last_item 2 None demo_feeds) = [''e1'', ''e2'']"
proof -
  have d: "distinct (map re_updatedAt (filter (feed_filter demo_feed) (registry_entries demo_feeds)))"
    "length (filter (feed_filter demo_feed) (registry_entries demo_feeds)) \<le> 2"
    by (simp_all add: demo_feeds_read) (simp_all add: demo_published_def)
  show ?thesis
    by (subst feed_delivered_by_item_time [OF demo_feeds_read(1) d(1) _ d(2)])
       (simp_all add: demo_feeds_read feed_rows_def order_asc_def, simp add: demo_published_def demo_entry_def projectEntry_def)
qed

text \<open>The same client by the returned cursor, however patient, gets the older one only.\<close>

theorem until_cursor_loses_entries_witness:
  "map fi_id (read_feed (demo_rt\<lparr>rt_clock := (\<lambda>n. 1700000000000)\<rparr>) demo_date demo_agency ''f1'' (Some 1)
     by_until_cursor 100 None demo_feeds) = [''e1'']"
proof -
  have c: "demo_date (to_iso_string (rt_clock (demo_rt\<lparr>rt_clock := (\<lambda>n. 1700000000000)\<rparr>) m)) =
      Some (rt_clock (demo_rt\<lparr>rt_clock := (\<lambda>n. 1700000000000)\<rparr>) m)" for m
    by (simp add: demo_dates) (simp add: demo_date_def)
  have "feed_limit (Some 1) = 1" by (simp add: feed_limit_def clamp_def MAX_FEED_ITEMS_def)
  then show ?thesis
    using until_cursor_loses_entries [OF demo_feeds_read(1) _ c, of "Some 1" 99]
    by (simp add: demo_feeds_read feed_rows_def order_asc_def)
       (simp add: demo_published_def demo_entry_def projectEntry_def)
qed

end
