(* ===== verification/InvestigatorCases.thy ===== *)
theory InvestigatorCases
  imports EvidenceVault
begin

text \<open>
  The investigator console (modules/investigator-portal): cases of an investigating tenant with
  links to evidence events and scam clusters, notes, and a closing disposition. The two kinds of
  link have the same columns and the same code; they are one record and one pair of operations
  here, each used for both tables.
\<close>

section \<open>State\<close>

datatype case_status =
  CASE_OPEN | CASE_IN_PROGRESS | CASE_AWAITING_INFORMATION | CASE_ON_HOLD | CASE_CLOSED

fun case_status_text :: "case_status \<Rightarrow> string" where
  "case_status_text CASE_OPEN = ''OPEN''"
| "case_status_text CASE_IN_PROGRESS = ''IN_PROGRESS''"
| "case_status_text CASE_AWAITING_INFORMATION = ''AWAITING_INFORMATION''"
| "case_status_text CASE_ON_HOLD = ''ON_HOLD''"
| "case_status_text CASE_CLOSED = ''CLOSED''"

datatype disposition =
  DS_CONFIRMED_SCAM | DS_UNFOUNDED | DS_REFERRED_TO_AGENCY | DS_REFERRED_TO_PLATFORM
| DS_INSUFFICIENT_EVIDENCE | DS_DUPLICATE | DS_OTHER

fun disposition_text :: "disposition \<Rightarrow> string" where
  "disposition_text DS_CONFIRMED_SCAM = ''CONFIRMED_SCAM''"
| "disposition_text DS_UNFOUNDED = ''UNFOUNDED''"
| "disposition_text DS_REFERRED_TO_AGENCY = ''REFERRED_TO_AGENCY''"
| "disposition_text DS_REFERRED_TO_PLATFORM = ''REFERRED_TO_PLATFORM''"
| "disposition_text DS_INSUFFICIENT_EVIDENCE = ''INSUFFICIENT_EVIDENCE''"
| "disposition_text DS_DUPLICATE = ''DUPLICATE''"
| "disposition_text DS_OTHER = ''OTHER''"

text \<open>The severities are the four values of the risk level.\<close>

record investigator_case =
  ic_id :: string
  ic_tenantId :: string
  ic_title :: string
  ic_summary :: "string option"
  ic_severity :: risk_level
  ic_status :: case_status
  ic_assignedToUserId :: "string option"
  ic_createdByUserId :: string
  ic_closedAt :: "int option"
  ic_disposition :: "disposition option"
  ic_evidenceEventId :: "string option"
  ic_createdAt :: int

record case_link =
  ik_id :: string
  ik_caseId :: string
  ik_entityId :: string
  ik_linkedByUserId :: string
  ik_rationale :: "string option"
  ik_createdAt :: int

record case_note =
  cn_id :: string
  cn_caseId :: string
  cn_authorUserId :: string
  cn_body :: string
  cn_evidenceEventId :: "string option"
  cn_createdAt :: int

record case_db = core_db +
  inv_cases :: "investigator_case list"
  evidence_links :: "case_link list"
  cluster_links :: "case_link list"
  case_notes :: "case_note list"

interpretation inv_cases_tab: table inv_cases inv_cases_update
  by unfold_locales simp

interpretation evidence_links_tab: table evidence_links evidence_links_update
  by unfold_locales simp

interpretation cluster_links_tab: table cluster_links cluster_links_update
  by unfold_locales simp

interpretation case_notes_tab: table case_notes case_notes_update
  by unfold_locales simp

text \<open>An insert under the unique constraints of the table (Prisma's P2002).\<close>

definition insert_new ::
    "('w \<Rightarrow> 'r list) \<Rightarrow> (('r list \<Rightarrow> 'r list) \<Rightarrow> 'w \<Rightarrow> 'w) \<Rightarrow> ('r \<Rightarrow> 'r \<Rightarrow> bool) \<Rightarrow> 'r \<Rightarrow> ('w, 'r) prog" where
  "insert_new get upd clash r =
     bind_p (find_row get (clash r)) (\<lambda>found.
     seq_p (ensure (found = None) (InternalError ''P2002'')) (insert_row upd r))"

definition same_case :: "investigator_case \<Rightarrow> investigator_case \<Rightarrow> bool" where
  "same_case c d \<longleftrightarrow> ic_id d = ic_id c"

definition same_link :: "case_link \<Rightarrow> case_link \<Rightarrow> bool" where
  "same_link l m \<longleftrightarrow> ik_id m = ik_id l \<or> ik_caseId m = ik_caseId l \<and> ik_entityId m = ik_entityId l"

definition same_note :: "case_note \<Rightarrow> case_note \<Rightarrow> bool" where
  "same_note n k \<longleftrightarrow> cn_id k = cn_id n"

section \<open>Cases\<close>

record create_case_dto =
  cc_title :: string
  cc_summary :: "string option"
  cc_severity :: "risk_level option"
  cc_assignedToUserId :: "string option"

record update_case_dto =
  ud_title :: "string option"
  ud_summary :: "string option"
  ud_severity :: "risk_level option"
  ud_status :: "case_status option"
  ud_assignedToUserId :: "string option"

record list_cases_query =
  lq_status :: "case_status option"
  lq_severity :: "risk_level option"
  lq_assignedToUserId :: "string option"
  lq_limit :: "int option"

definition case_event :: "auth_user \<Rightarrow> string \<Rightarrow> string \<Rightarrow> string \<Rightarrow> js \<Rightarrow> append_input" where
  "case_event user caseId evtype descr meta =
     user_event (Some (au_tenantId user)) (au_userId user) ''INVESTIGATOR_CASE'' caseId evtype descr meta"

definition new_case :: "auth_user \<Rightarrow> create_case_dto \<Rightarrow> string \<Rightarrow> int \<Rightarrow> investigator_case" where
  "new_case user dto uid t =
     \<lparr>ic_id = uid, ic_tenantId = au_tenantId user, ic_title = cc_title dto, ic_summary = cc_summary dto,
      ic_severity = or_default (cc_severity dto) MEDIUM, ic_status = CASE_OPEN,
      ic_assignedToUserId = cc_assignedToUserId dto, ic_createdByUserId = au_userId user,
      ic_closedAt = None, ic_disposition = None, ic_evidenceEventId = None, ic_createdAt = t\<rparr>"

definition createCase ::
    "runtime \<Rightarrow> auth_user \<Rightarrow> create_case_dto \<Rightarrow> ('a case_db_scheme, investigator_case) prog" where
  "createCase rt user dto =
     bind_p (new_id rt) (\<lambda>uid. bind_p (now rt) (\<lambda>t.
     bind_p (insert_new inv_cases inv_cases_update same_case (new_case user dto uid t)) (\<lambda>row.
     bind_p (append_evidence rt (case_event user (ic_id row) ''INVESTIGATOR_CASE_CREATED''
       (''Case \"'' @ cc_title dto @ ''\" opened'')
       (JObj [(''severity'', JStr (level_text (ic_severity row))),
              (''assignedToUserId'', opt_str (ic_assignedToUserId row))]))) (\<lambda>e.
     update_row inv_cases inv_cases_update (\<lambda>c. ic_id c = ic_id row)
       (\<lambda>c. c\<lparr>ic_evidenceEventId := Some (ev_id e)\<rparr>)))))"

definition listCases :: "auth_user \<Rightarrow> list_cases_query \<Rightarrow> ('a case_db_scheme, investigator_case list) prog" where
  "listCases user q =
     bind_p (find_rows inv_cases (\<lambda>c. ic_tenantId c = au_tenantId user \<and>
       (lq_status q \<noteq> None \<longrightarrow> lq_status q = Some (ic_status c)) \<and>
       (lq_severity q \<noteq> None \<longrightarrow> lq_severity q = Some (ic_severity c)) \<and>
       (truthy (lq_assignedToUserId q) \<longrightarrow> lq_assignedToUserId q = ic_assignedToUserId c))) (\<lambda>rows.
     ret (take_rows (or_default (lq_limit q) 50) (order_desc ic_createdAt rows)))"

record case_file =
  cf_case :: investigator_case
  cf_evidenceLinks :: "case_link list"
  cf_clusterLinks :: "case_link list"
  cf_notes :: "case_note list"

definition getCase :: "auth_user \<Rightarrow> string \<Rightarrow> ('a case_db_scheme, case_file) prog" where
  "getCase user caseId =
     bind_p (find_row inv_cases (\<lambda>c. ic_id c = caseId)) (\<lambda>found.
     bind_p (require_some found (NotFoundException ''Case not found'')) (\<lambda>c.
     seq_p (ensure (ic_tenantId c = au_tenantId user) (NotFoundException ''Case not found''))
     (bind_p (find_rows evidence_links (\<lambda>l. ik_caseId l = caseId)) (\<lambda>es.
      bind_p (find_rows cluster_links (\<lambda>l. ik_caseId l = caseId)) (\<lambda>cs.
      bind_p (find_rows case_notes (\<lambda>n. cn_caseId n = caseId)) (\<lambda>ns.
      ret \<lparr>cf_case = c, cf_evidenceLinks = order_desc ik_createdAt es,
           cf_clusterLinks = order_desc ik_createdAt cs, cf_notes = order_asc cn_createdAt ns\<rparr>))))))"

text \<open>The exception's text has a dash of the typographical kind.\<close>

definition requireOpen :: "auth_user \<Rightarrow> string \<Rightarrow> ('a case_db_scheme, investigator_case) prog" where
  "requireOpen user caseId =
     bind_p (find_row inv_cases (\<lambda>c. ic_id c = caseId)) (\<lambda>found.
     bind_p (require_some found (NotFoundException ''Case not found'')) (\<lambda>c.
     seq_p (ensure (ic_tenantId c = au_tenantId user) (NotFoundException ''Case not found''))
     (seq_p (ensure (ic_status c \<noteq> CASE_CLOSED)
        (BadRequestException (''Case is closed '' @ em_dash @ '' reopen before mutating'')))
     (ret c))))"

definition apply_update :: "update_case_dto \<Rightarrow> investigator_case \<Rightarrow> investigator_case" where
  "apply_update dto c =
     c\<lparr>ic_title := or_default (ud_title dto) (ic_title c),
       ic_summary := or_else (ud_summary dto) (ic_summary c),
       ic_severity := or_default (ud_severity dto) (ic_severity c),
       ic_status := or_default (ud_status dto) (ic_status c),
       ic_assignedToUserId := or_else (ud_assignedToUserId dto) (ic_assignedToUserId c)\<rparr>"

text \<open>
  The metadata spread the dto. It is an instance of its class, and the classes are compiled with
  define semantics (target ES2023): every declared field is an own property, also one the request
  left out, whose value is \<open>undefined\<close>.
\<close>

definition undef_str :: "string option \<Rightarrow> js" where
  "undef_str v = (case v of None \<Rightarrow> JUndef | Some s \<Rightarrow> JStr s)"

definition changes_of :: "update_case_dto \<Rightarrow> js" where
  "changes_of dto = JObj
     [(''title'', undef_str (ud_title dto)), (''summary'', undef_str (ud_summary dto)),
      (''severity'', undef_str (map_option level_text (ud_severity dto))),
      (''status'', undef_str (map_option case_status_text (ud_status dto))),
      (''assignedToUserId'', undef_str (ud_assignedToUserId dto))]"

definition updateCase ::
    "runtime \<Rightarrow> auth_user \<Rightarrow> string \<Rightarrow> update_case_dto \<Rightarrow> ('a case_db_scheme, investigator_case) prog" where
  "updateCase rt user caseId dto =
     bind_p (requireOpen user caseId) (\<lambda>existing.
     bind_p (update_row inv_cases inv_cases_update (\<lambda>c. ic_id c = caseId) (apply_update dto)) (\<lambda>updated.
     seq_p (append_evidence rt (case_event user caseId ''INVESTIGATOR_CASE_UPDATED'' ''Case updated''
       (JObj [(''changes'', changes_of dto), (''previousStatus'', JStr (case_status_text (ic_status existing)))])))
     (ret updated)))"

section \<open>Links\<close>

record link_dto =
  ld_entityId :: string
  ld_rationale :: "string option"

text \<open>The texts in which the two kinds of link differ.\<close>

record link_kind =
  lk_title :: string
  lk_noun :: string
  lk_event :: string
  lk_key :: string

definition evidence_kind :: link_kind where
  "evidence_kind = \<lparr>lk_title = ''Evidence event'', lk_noun = ''Evidence'', lk_event = ''EVIDENCE'',
     lk_key = ''evidenceEventId''\<rparr>"

definition cluster_kind :: link_kind where
  "cluster_kind = \<lparr>lk_title = ''ScamCluster'', lk_noun = ''Cluster'', lk_event = ''CLUSTER'',
     lk_key = ''clusterId''\<rparr>"

definition link_entity ::
    "('a case_db_scheme \<Rightarrow> case_link list) \<Rightarrow>
     ((case_link list \<Rightarrow> case_link list) \<Rightarrow> 'a case_db_scheme \<Rightarrow> 'a case_db_scheme) \<Rightarrow>
     link_kind \<Rightarrow> runtime \<Rightarrow> auth_user \<Rightarrow> string \<Rightarrow> link_dto \<Rightarrow> ('a case_db_scheme, case_link) prog" where
  "link_entity get upd kind rt user caseId dto =
     seq_p (requireOpen user caseId)
     (catch_p
       (bind_p (new_id rt) (\<lambda>uid. bind_p (now rt) (\<lambda>t.
        bind_p (insert_new get upd same_link
          \<lparr>ik_id = uid, ik_caseId = caseId, ik_entityId = ld_entityId dto,
           ik_linkedByUserId = au_userId user, ik_rationale = ld_rationale dto, ik_createdAt = t\<rparr>) (\<lambda>row.
        seq_p (append_evidence rt (case_event user caseId (''INVESTIGATOR_CASE_'' @ lk_event kind @ ''_LINKED'')
          (lk_title kind @ '' '' @ ld_entityId dto @ '' linked to case'')
          (JObj [(lk_key kind, JStr (ld_entityId dto)), (''rationale'', opt_str (ld_rationale dto))])))
        (ret row)))))
       (\<lambda>err. if err = InternalError ''P2002''
              then throw (BadRequestException (lk_noun kind @ '' already linked to this case''))
              else throw err))"

definition unlink_entity ::
    "('a case_db_scheme \<Rightarrow> case_link list) \<Rightarrow>
     ((case_link list \<Rightarrow> case_link list) \<Rightarrow> 'a case_db_scheme \<Rightarrow> 'a case_db_scheme) \<Rightarrow>
     link_kind \<Rightarrow> runtime \<Rightarrow> auth_user \<Rightarrow> string \<Rightarrow> string \<Rightarrow> ('a case_db_scheme, unit) prog" where
  "unlink_entity get upd kind rt user caseId linkId =
     seq_p (requireOpen user caseId)
     (bind_p (find_row get (\<lambda>l. ik_id l = linkId)) (\<lambda>found.
      bind_p (require_some found (NotFoundException (lk_noun kind @ '' link not found''))) (\<lambda>link.
      seq_p (ensure (ik_caseId link = caseId) (NotFoundException (lk_noun kind @ '' link not found'')))
      (seq_p (delete_rows upd (\<lambda>l. ik_id l = linkId))
      (void_p (append_evidence rt (case_event user caseId (''INVESTIGATOR_CASE_'' @ lk_event kind @ ''_UNLINKED'')
        (lk_title kind @ '' '' @ ik_entityId link @ '' unlinked from case'')
        (JObj [(lk_key kind, JStr (ik_entityId link))]))))))))"

definition linkEvidence ::
    "runtime \<Rightarrow> auth_user \<Rightarrow> string \<Rightarrow> link_dto \<Rightarrow> ('a case_db_scheme, case_link) prog" where
  "linkEvidence = link_entity evidence_links evidence_links_update evidence_kind"

definition unlinkEvidence ::
    "runtime \<Rightarrow> auth_user \<Rightarrow> string \<Rightarrow> string \<Rightarrow> ('a case_db_scheme, unit) prog" where
  "unlinkEvidence = unlink_entity evidence_links evidence_links_update evidence_kind"

definition linkCluster ::
    "runtime \<Rightarrow> auth_user \<Rightarrow> string \<Rightarrow> link_dto \<Rightarrow> ('a case_db_scheme, case_link) prog" where
  "linkCluster = link_entity cluster_links cluster_links_update cluster_kind"

definition unlinkCluster ::
    "runtime \<Rightarrow> auth_user \<Rightarrow> string \<Rightarrow> string \<Rightarrow> ('a case_db_scheme, unit) prog" where
  "unlinkCluster = unlink_entity cluster_links cluster_links_update cluster_kind"

section \<open>Notes and closing\<close>

definition addNote :: "runtime \<Rightarrow> auth_user \<Rightarrow> string \<Rightarrow> string \<Rightarrow> ('a case_db_scheme, case_note) prog" where
  "addNote rt user caseId body =
     seq_p (requireOpen user caseId)
     (bind_p (new_id rt) (\<lambda>uid. bind_p (now rt) (\<lambda>t.
      bind_p (insert_new case_notes case_notes_update same_note
        \<lparr>cn_id = uid, cn_caseId = caseId, cn_authorUserId = au_userId user, cn_body = body,
         cn_evidenceEventId = None, cn_createdAt = t\<rparr>) (\<lambda>row.
      bind_p (append_evidence rt (case_event user caseId ''INVESTIGATOR_CASE_NOTE_ADDED''
        (''Note added to case ('' @ show_nat (length body) @ '' chars)'')
        (JObj [(''noteId'', JStr (cn_id row)), (''length'', JNum (int (length body)))]))) (\<lambda>e.
      update_row case_notes case_notes_update (\<lambda>n. cn_id n = cn_id row)
        (\<lambda>n. n\<lparr>cn_evidenceEventId := Some (ev_id e)\<rparr>))))))"

definition close_case :: "int \<Rightarrow> disposition \<Rightarrow> investigator_case \<Rightarrow> investigator_case" where
  "close_case t d c = c\<lparr>ic_status := CASE_CLOSED, ic_closedAt := Some t, ic_disposition := Some d\<rparr>"

definition closeCase ::
    "runtime \<Rightarrow> auth_user \<Rightarrow> string \<Rightarrow> disposition \<Rightarrow> string option \<Rightarrow> ('a case_db_scheme, investigator_case) prog"
  where
  "closeCase rt user caseId d notes =
     seq_p (requireOpen user caseId)
     (bind_p (now rt) (\<lambda>t.
      bind_p (update_row inv_cases inv_cases_update (\<lambda>c. ic_id c = caseId) (close_case t d)) (\<lambda>updated.
      seq_p (append_evidence rt (case_event user caseId ''INVESTIGATOR_CASE_CLOSED''
        (''Case closed with disposition '' @ disposition_text d)
        (JObj [(''disposition'', JStr (disposition_text d)), (''notes'', opt_str notes)])))
      (ret updated))))"

section \<open>The log is respected\<close>

lemma case_event_storable [simp]: "storable (in_metadata (case_event u c ty d m)) \<longleftrightarrow> storable m"
  by (simp add: case_event_def)

text \<open>An update that gives all five fields; any other has undefined members.\<close>

definition complete_update :: "update_case_dto \<Rightarrow> bool" where
  "complete_update dto \<longleftrightarrow> ud_title dto \<noteq> None \<and> ud_summary dto \<noteq> None \<and> ud_severity dto \<noteq> None \<and>
     ud_status dto \<noteq> None \<and> ud_assignedToUserId dto \<noteq> None"

lemma changes_plain [simp]: "plain (changes_of dto) \<longleftrightarrow> complete_update dto"
  by (auto simp: changes_of_def undef_str_def complete_update_def split: option.splits)

lemma changes_dateless [simp]: "dateless (changes_of dto)"
  by (simp add: changes_of_def undef_str_def split: option.split)

lemma changes_dropped [simp]: "drops_members (changes_of dto) \<longleftrightarrow> \<not> complete_update dto"
  by (auto simp: changes_of_def undef_str_def defined_def complete_update_def split: option.splits)

lemma insert_new_safe: "(\<And>g w. log_safe rt w (upd g w)) \<Longrightarrow> moves (log_safe rt) (insert_new get upd clash r)"
  unfolding insert_new_def by (intro safe_rules) auto

lemma cases_safe:
  "moves (log_safe rt) (createCase rt user cdto)"
  "complete_update udto \<Longrightarrow> moves (log_safe rt) (updateCase rt user caseId udto)"
  "moves (log_safe rt) (linkEvidence rt user caseId ldto)" "moves (log_safe rt) (unlinkEvidence rt user caseId i)"
  "moves (log_safe rt) (linkCluster rt user caseId ldto)" "moves (log_safe rt) (unlinkCluster rt user caseId i)"
  "moves (log_safe rt) (addNote rt user caseId body)" "moves (log_safe rt) (closeCase rt user caseId d notes)"
  unfolding createCase_def updateCase_def linkEvidence_def unlinkEvidence_def linkCluster_def
    unlinkCluster_def link_entity_def unlink_entity_def addNote_def closeCase_def requireOpen_def
  by (auto simp: log_untouched evidence_kind_def cluster_kind_def intro!: safe_rules append_safe insert_new_safe)

text \<open>
  An update that leaves a field out breaks its tenant's chain: the event hashes the missing
  field as null, its row has no such member, and the next verification names the event as
  altered (unless SHA-256 maps the two different texts to one hash).
\<close>

lemma incomplete_update_breaks_chain:
  fixes w :: "'a case_db_scheme"
  assumes "find (\<lambda>c. ic_id c = cid) (inv_cases w) = Some c" "ic_tenantId c = au_tenantId user"
    "ic_status c \<noteq> CASE_CLOSED" "\<not> complete_update dto" "log_ok rt w"
  shows "\<exists>w' e s. updateCase rt user cid dto w = (Inr (apply_update dto c), w') \<and>
    evidence_events w' = evidence_events w @ [e] \<and>
    ev_eventHash e = rt_sha256 rt s \<and> s \<noteq> canonical_text e \<and>
    (rt_sha256 rt (canonical_text e) \<noteq> rt_sha256 rt s \<longrightarrow>
       verifyChain rt (Some (au_tenantId user)) w' = (Inr (altered_result (ev_sequence e) (ev_sequence e)), w'))"
proof -
  let ?input = "case_event user cid ''INVESTIGATOR_CASE_UPDATED'' ''Case updated''
    (JObj [(''changes'', changes_of dto), (''previousStatus'', JStr (case_status_text (ic_status c)))])"
  let ?w = "inv_cases_update (map (\<lambda>c. if ic_id c = cid then apply_update dto c else c)) w"
  obtain e w' where run: "append_evidence rt ?input ?w = (Inr e, w')" using append_returns by blast
  have t: "in_tenantId ?input = Some (au_tenantId user)" "in_metadata ?input =
      JObj [(''changes'', changes_of dto), (''previousStatus'', JStr (case_status_text (ic_status c)))]"
    by (simp_all add: case_event_def)
  have m: "dateless (in_metadata ?input)" "drops_members (in_metadata ?input)"
    using assms(4) by (simp_all add: t)
  have "chain_ok rt (in_tenantId ?input) ?w"
    using assms(5) by (simp add: log_ok_def chain_ok_def tenant_events_def)
  from append_verified [OF run this] have "rt_sha256 rt (canonical_text e) \<noteq> rt_sha256 rt (hashed_text ?input e) \<Longrightarrow>
      verifyChain rt (Some (au_tenantId user)) w' = (Inr (altered_result (ev_sequence e) (ev_sequence e)), w')"
    by (simp add: t)
  moreover have "updateCase rt user cid dto w = (Inr (apply_update dto c), w')"
    using assms(1-3) run by (simp add: updateCase_def requireOpen_def update_row_def prog_core_defs find_row_def)
  ultimately show ?thesis
    using append_run [OF run] append_content(3) [OF run] dropped_member_text [OF run m]
    by (intro exI [of _ w'] exI [of _ e] exI [of _ "hashed_text ?input e"]) auto
qed

section \<open>A closed case\<close>

text \<open>What is stored of a case, and that its keys are keys.\<close>

definition case_view ::
    "string \<Rightarrow> 'a case_db_scheme \<Rightarrow> investigator_case option \<times> case_link list \<times> case_link list \<times> case_note list" where
  "case_view cid w = (find (\<lambda>c. ic_id c = cid) (inv_cases w), filter (\<lambda>l. ik_caseId l = cid) (evidence_links w),
     filter (\<lambda>l. ik_caseId l = cid) (cluster_links w), filter (\<lambda>n. cn_caseId n = cid) (case_notes w))"

definition keys_ok :: "'a case_db_scheme \<Rightarrow> bool" where
  "keys_ok w \<longleftrightarrow> distinct (map ik_id (evidence_links w)) \<and> distinct (map ik_id (cluster_links w)) \<and>
     distinct (map cn_id (case_notes w))"

definition frozen ::
    "investigator_case option \<times> case_link list \<times> case_link list \<times> case_note list \<Rightarrow> string \<Rightarrow> 'a case_db_scheme \<Rightarrow> bool"
  where
  "frozen v cid w \<longleftrightarrow> keys_ok w \<and> case_view cid w = v \<and> (\<exists>c. fst v = Some c \<and> ic_status c = CASE_CLOSED)"

text \<open>Anything that may happen to the cases of all tenants.\<close>

inductive case_step :: "runtime \<Rightarrow> 'a case_db_scheme \<Rightarrow> 'a case_db_scheme \<Rightarrow> bool" for rt where
  opened: "case_step rt w (snd (createCase rt user dto w))"
| changed: "case_step rt w (snd (updateCase rt user caseId dto w))"
| link_evidence: "case_step rt w (snd (linkEvidence rt user caseId dto w))"
| unlink_evidence: "case_step rt w (snd (unlinkEvidence rt user caseId i w))"
| link_cluster: "case_step rt w (snd (linkCluster rt user caseId dto w))"
| unlink_cluster: "case_step rt w (snd (unlinkCluster rt user caseId i w))"
| noted: "case_step rt w (snd (addNote rt user caseId body w))"
| closed: "case_step rt w (snd (closeCase rt user caseId d notes w))"
| elsewhere: "inv_cases w' = inv_cases w \<Longrightarrow> evidence_links w' = evidence_links w \<Longrightarrow>
    cluster_links w' = cluster_links w \<Longrightarrow> case_notes w' = case_notes w \<Longrightarrow> case_step rt w w'"

lemma find_beside:
  assumes "\<And>r. Q r \<Longrightarrow> \<not> P r \<and> \<not> P (f r)"
  shows "find P (map (\<lambda>r. if Q r then f r else r) xs) = find P xs"
  using assms by (induction xs) auto

lemma frozen_ignores [simp]:
  "frozen v cid (db_tick_update f1 w) = frozen v cid w" "frozen v cid (evidence_events_update f2 w) = frozen v cid w"
  by (simp_all add: frozen_def keys_ok_def case_view_def)

abbreviation stays_frozen ::
    "investigator_case option \<times> case_link list \<times> case_link list \<times> case_note list \<Rightarrow> string \<Rightarrow>
     ('a case_db_scheme, 'b) prog \<Rightarrow> bool" where
  "stays_frozen v cid m \<equiv> moves (\<lambda>w w'. frozen v cid w \<longrightarrow> frozen v cid w') m"

lemma frozen_draws: "stays_frozen v cid (now rt)" "stays_frozen v cid (new_id rt)"
  by (simp_all add: moves_def draw_defs)

lemma frozen_append: "stays_frozen v cid (append_evidence rt input)"
  unfolding moves_def
proof (intro allI impI)
  fix w :: "'a case_db_scheme"
  assume "frozen v cid w"
  obtain e w' where a: "append_evidence rt input w = (Inr e, w')" using append_returns [of rt input w] by auto
  then have "w' = evidence_events_update (\<lambda>es. es @ [e]) (w\<lparr>db_tick := db_tick w + 2\<rparr>)"
    by (intro appended_state) (simp add: appended_def)
  with a \<open>frozen v cid w\<close> show "frozen v cid (snd (append_evidence rt input w))" by simp
qed

lemmas frozen_rules = keep.moves_rules keep.find_row_moves frozen_draws frozen_append

text \<open>An operation on the closed case itself does not get past its guard.\<close>

lemma frozen_guard:
  assumes "\<And>c. caseId \<noteq> cid \<Longrightarrow> stays_frozen v cid (rest c)"
  shows "stays_frozen v cid (bind_p (requireOpen user caseId) rest)"
  unfolding moves_def
proof (intro allI impI)
  fix w :: "'a case_db_scheme"
  assume w: "frozen v cid w"
  show "frozen v cid (snd (bind_p (requireOpen user caseId) rest w))"
  proof (cases "find (\<lambda>c. ic_id c = caseId) (inv_cases w)")
    case (Some c)
    show ?thesis
    proof (cases "ic_tenantId c = au_tenantId user \<and> ic_status c \<noteq> CASE_CLOSED")
      case True
      with Some w have "caseId \<noteq> cid" by (auto simp: frozen_def case_view_def)
      then have "frozen v cid (snd (rest c w))" using assms w by (simp add: moves_def)
      then show ?thesis using True Some by (simp add: requireOpen_def prog_defs)
    qed (use Some w in \<open>auto simp: requireOpen_def prog_defs\<close>)
  qed (use w in \<open>simp add: requireOpen_def prog_defs\<close>)
qed

lemma frozen_case_row: "caseId \<noteq> cid \<Longrightarrow> (\<And>c. ic_id (f c) = ic_id c) \<Longrightarrow>
    stays_frozen v cid (update_row inv_cases inv_cases_update (\<lambda>c. ic_id c = caseId) f)"
  unfolding moves_def update_row_def
  by (auto simp: frozen_def keys_ok_def case_view_def find_beside split: option.split)

text \<open>The two tables of links: a change that adds or removes links of other cases only.\<close>

locale link_table = table get upd
  for get :: "'a case_db_scheme \<Rightarrow> case_link list"
    and upd :: "(case_link list \<Rightarrow> case_link list) \<Rightarrow> 'a case_db_scheme \<Rightarrow> 'a case_db_scheme" +
  assumes frozen_ids: "frozen v cid w \<Longrightarrow> distinct (map ik_id (get w))"
    and frozen_upd: "frozen v cid w \<Longrightarrow> distinct (map ik_id (f (get w))) \<Longrightarrow>
      filter (\<lambda>l. ik_caseId l = cid) (f (get w)) = filter (\<lambda>l. ik_caseId l = cid) (get w) \<Longrightarrow>
      frozen v cid (upd f w)"
begin

lemma insert_frozen: "ik_caseId l \<noteq> cid \<Longrightarrow> stays_frozen v cid (insert_new get upd same_link l)"
  unfolding moves_def insert_new_def
  by (auto simp: prog_defs same_link_def find_None_iff frozen_ids intro!: frozen_upd) metis

lemma delete_frozen:
  assumes "frozen v cid w" "find (\<lambda>l. ik_id l = i) (get w) = Some l" "ik_caseId l \<noteq> cid"
  shows "frozen v cid (upd (filter (\<lambda>l. ik_id l \<noteq> i)) w)"
proof -
  have "ik_id m \<noteq> i" if "m \<in> set (get w)" "ik_caseId m = cid" for m
    using same_key [OF frozen_ids [OF assms(1)], of m l] find_SomeD [OF assms(2)] assms(3) that by auto
  then show ?thesis
    using frozen_ids [OF assms(1)]
    by (intro frozen_upd [OF assms(1)]) (auto intro!: filter_cong distinct_map_filter)
qed

lemma link_frozen: "stays_frozen v cid (link_entity get upd kind rt user caseId dto)"
  unfolding link_entity_def seq_p_def [of "requireOpen user caseId"]
  by (rule frozen_guard) (auto intro!: frozen_rules insert_frozen)

lemma unlink_frozen: "stays_frozen v cid (unlink_entity get upd kind rt user caseId i)"
  unfolding unlink_entity_def seq_p_def [of "requireOpen user caseId"]
proof (rule frozen_guard, unfold moves_def, intro allI impI)
  fix w :: "'a case_db_scheme"
  let ?rest = "\<lambda>link. void_p (append_evidence rt (case_event user caseId (''INVESTIGATOR_CASE_'' @ lk_event kind @ ''_UNLINKED'')
        (lk_title kind @ '' '' @ ik_entityId link @ '' unlinked from case'') (JObj [(lk_key kind, JStr (ik_entityId link))])))"
  assume o: "caseId \<noteq> cid" and w: "frozen v cid w"
  have rest: "frozen v cid (snd (?rest l w'))" if "frozen v cid w'" for l w'
    by (rule keep.void_moves [OF frozen_append, unfolded moves_def, rule_format, OF that])
  show "frozen v cid (snd (bind_p (find_row get (\<lambda>l. ik_id l = i)) (\<lambda>found.
      bind_p (require_some found (NotFoundException (lk_noun kind @ '' link not found''))) (\<lambda>link.
      seq_p (ensure (ik_caseId link = caseId) (NotFoundException (lk_noun kind @ '' link not found'')))
      (seq_p (delete_rows upd (\<lambda>l. ik_id l = i)) (?rest link)))) w))"
  proof (cases "find (\<lambda>l. ik_id l = i) (get w)")
    case (Some l)
    show ?thesis
    proof (cases "ik_caseId l = caseId")
      case True
      with delete_frozen [OF w Some] o rest show ?thesis
        by (simp add: Some find_row_def delete_rows_def prog_core_defs)
    qed (use Some w in \<open>simp add: find_row_def prog_core_defs\<close>)
  qed (use w in \<open>simp add: find_row_def prog_core_defs\<close>)
qed

end

interpretation evidence_side: link_table evidence_links evidence_links_update
  by unfold_locales (simp_all add: frozen_def keys_ok_def case_view_def)

interpretation cluster_side: link_table cluster_links cluster_links_update
  by unfold_locales (simp_all add: frozen_def keys_ok_def case_view_def)

text \<open>The other operations. A note or a case that is new has a key that no other has.\<close>

lemma frozen_insert_note: "frozen v cid w \<Longrightarrow> cn_id k \<notin> cn_id ` set (case_notes w) \<Longrightarrow> cn_caseId k \<noteq> cid \<Longrightarrow>
    frozen v cid (case_notes_update (\<lambda>ns. ns @ [k]) w)"
  by (auto simp: frozen_def keys_ok_def case_view_def)

lemma frozen_stamp_note:
  assumes "frozen v cid w" "\<forall>n\<in>set (case_notes w). cn_id n = uid \<longrightarrow> cn_caseId n \<noteq> cid"
  shows "frozen v cid (case_notes_update (map (\<lambda>n. if cn_id n = uid then n\<lparr>cn_evidenceEventId := x\<rparr> else n)) w)"
proof -
  have ids: "map cn_id (map (\<lambda>n. if cn_id n = uid then n\<lparr>cn_evidenceEventId := x\<rparr> else n) ns) = map cn_id ns" for ns
    by (induction ns) auto
  have view: "filter (\<lambda>n. cn_caseId n = cid) (map (\<lambda>n. if cn_id n = uid then n\<lparr>cn_evidenceEventId := x\<rparr> else n) ns) =
      filter (\<lambda>n. cn_caseId n = cid) ns" if "\<forall>n\<in>set ns. cn_id n = uid \<longrightarrow> cn_caseId n \<noteq> cid" for ns
    using that by (induction ns) auto
  show ?thesis
    using assms(1) view [OF assms(2)] by (simp add: frozen_def keys_ok_def case_view_def ids del: map_map)
qed

lemma append_result:
  "append_evidence rt input w = (Inr (stamped rt input w),
     evidence_events_update (\<lambda>es. es @ [stamped rt input w]) (w\<lparr>db_tick := db_tick w + 2\<rparr>))"
  using runs_stamped [of rt input w "\<lambda>a w'. a = stamped rt input w \<and> w' =
     evidence_events_update (\<lambda>es. es @ [stamped rt input w]) (w\<lparr>db_tick := db_tick w + 2\<rparr>)"]
  by (simp add: runs_eq)

lemma note_frozen: "stays_frozen v cid (addNote rt user caseId body)"
  unfolding addNote_def seq_p_def [of "requireOpen user caseId"]
proof (rule frozen_guard, rule keep.bind_moves [OF frozen_draws(2)], rule keep.bind_moves [OF frozen_draws(1)],
    unfold moves_def, intro allI impI, goal_cases)
  case (1 _ uid t w)
  let ?k = "\<lparr>cn_id = uid, cn_caseId = caseId, cn_authorUserId = au_userId user, cn_body = body,
         cn_evidenceEventId = None, cn_createdAt = t\<rparr>"
  show ?case
  proof (cases "find (\<lambda>k. cn_id k = uid) (case_notes w)")
    case None
    then have new: "uid \<notin> cn_id ` set (case_notes w)" by (auto simp: find_None_iff)
    let ?w = "case_notes_update (\<lambda>ns. ns @ [?k]) w"
    have upd: "frozen v cid (snd (update_row case_notes case_notes_update (\<lambda>n. cn_id n = uid)
        (\<lambda>n. n\<lparr>cn_evidenceEventId := x\<rparr>) (evidence_events_update f (?w\<lparr>db_tick := n\<rparr>))))" for x f n
    proof -
      have "frozen v cid (evidence_events_update f (?w\<lparr>db_tick := n\<rparr>))"
        using frozen_insert_note [of v cid w ?k] 1 new by simp
      from frozen_stamp_note [OF this, of uid x] new 1(1)
      show ?thesis by (force simp: update_row_def find_append_eq None)
    qed
    show ?thesis
      using upd frozen_insert_note [of v cid w ?k] 1 new by (simp add: insert_new_def same_note_def [abs_def] None find_row_def insert_row_def
          ensure_def ret_def bind_p_def seq_p_def ask_def append_result)
  next
    case (Some k)
    with 1 show ?thesis by (simp add: insert_new_def same_note_def [abs_def] prog_defs)
  qed
qed

lemma create_frozen: "stays_frozen v cid (createCase rt user dto)"
  unfolding createCase_def
proof (rule keep.bind_moves [OF frozen_draws(2)], rule keep.bind_moves [OF frozen_draws(1)], unfold moves_def, intro allI impI, goal_cases)
  case (1 uid t w)
  let ?c = "new_case user dto uid t"
  have i: "ic_id ?c = uid" by (simp add: new_case_def)
  show ?case
  proof (cases "find (\<lambda>c. ic_id c = uid) (inv_cases w)")
    case None
    then have other: "uid \<noteq> cid" using 1 by (auto simp: frozen_def case_view_def)
    have upd: "frozen v cid w' \<Longrightarrow> frozen v cid (snd (update_row inv_cases inv_cases_update (\<lambda>c. ic_id c = uid)
        (\<lambda>c. c\<lparr>ic_evidenceEventId := x\<rparr>) w'))" for w' :: "'a case_db_scheme" and x
      by (rule frozen_case_row [OF other, unfolded moves_def, rule_format]) simp_all
    have "frozen v cid (inv_cases_update (\<lambda>cs. cs @ [?c]) w)"
      using 1 by (auto simp: frozen_def keys_ok_def case_view_def find_snoc)
    then show ?thesis
      using upd by (simp add: insert_new_def same_case_def [abs_def] i None find_row_def insert_row_def
          ensure_def ret_def bind_p_def seq_p_def ask_def append_result)
  next
    case (Some c)
    with 1 show ?thesis by (simp add: insert_new_def same_case_def [abs_def] i prog_defs)
  qed
qed

lemma update_frozen: "stays_frozen v cid (updateCase rt user caseId dto)"
  unfolding updateCase_def
  by (rule frozen_guard) (auto simp: apply_update_def intro!: frozen_rules frozen_case_row)

lemma close_frozen: "stays_frozen v cid (closeCase rt user caseId d notes)"
  unfolding closeCase_def seq_p_def [of "requireOpen user caseId"]
  by (rule frozen_guard) (auto simp: close_case_def intro!: frozen_rules frozen_case_row)

lemmas cases_frozen = create_frozen update_frozen close_frozen note_frozen
  evidence_side.link_frozen evidence_side.unlink_frozen cluster_side.link_frozen cluster_side.unlink_frozen

lemma step_frozen:
  assumes "case_step rt w w'" "frozen v cid w"
  shows "frozen v cid w'"
  using assms(1)
proof cases
  case elsewhere
  with assms(2) show ?thesis by (simp add: frozen_def keys_ok_def case_view_def)
qed (simp_all add: linkEvidence_def unlinkEvidence_def linkCluster_def unlinkCluster_def
    cases_frozen [unfolded moves_def, rule_format] assms(2))

lemma steps_frozen: "(case_step rt)\<^sup>*\<^sup>* w w' \<Longrightarrow> frozen v cid w \<Longrightarrow> frozen v cid w'"
  by (induction rule: rtranclp_induct) (auto intro: step_frozen)

lemma closed_frozen_view:
  assumes "keys_ok w" "find (\<lambda>c. ic_id c = cid) (inv_cases w) = Some c" "ic_status c = CASE_CLOSED"
    and "(case_step rt)\<^sup>*\<^sup>* w w'"
  shows "case_view cid w' = case_view cid w"
  using steps_frozen [OF assms(4), of "case_view cid w" cid] assms(1-3)
  by (simp add: frozen_def case_view_def)

text \<open>
  C13. A closed case is final: whatever the investigators of any tenant do afterwards, its row,
  its links to evidence and clusters and its notes stay exactly as they were, and it can never be
  opened again.
\<close>

theorem closed_case_frozen:
  assumes "keys_ok w" "find (\<lambda>c. ic_id c = cid) (inv_cases w) = Some c" "ic_status c = CASE_CLOSED"
    and "(case_step rt)\<^sup>*\<^sup>* w w'"
  shows "case_view cid w' = case_view cid w"
  by (rule closed_frozen_view [OF assms])

text \<open>
  C15. Closing a case by an update loses its disposition for good: the update accepts the status
  CLOSED, after which the case has no closing time and no disposition of its own, and no
  operation, the one that closes cases included, can ever supply them.
\<close>

theorem update_closes_without_disposition:
  assumes "keys_ok w" "find (\<lambda>c. ic_id c = cid) (inv_cases w) = Some c"
    and "ic_tenantId c = au_tenantId user" "ic_status c \<noteq> CASE_CLOSED" "ic_disposition c = None" "ic_closedAt c = None"
    and "ud_status dto = Some CASE_CLOSED"
    and "(case_step rt)\<^sup>*\<^sup>* (snd (updateCase rt user cid dto w)) w'"
  shows "\<exists>d. find (\<lambda>c. ic_id c = cid) (inv_cases w') = Some d \<and> ic_status d = CASE_CLOSED \<and>
    ic_disposition d = None \<and> ic_closedAt d = None"
proof -
  have "runs (updateCase rt user cid dto) w (\<lambda>_ w1. keys_ok w1 \<and>
      find (\<lambda>c. ic_id c = cid) (inv_cases w1) = Some (apply_update dto c))"
    using assms(1-4)
    by (simp add: updateCase_def requireOpen_def run_simps runs_stamped find_mapped keys_ok_def apply_update_def)
  then have w1: "keys_ok (snd (updateCase rt user cid dto w))"
    "find (\<lambda>c. ic_id c = cid) (inv_cases (snd (updateCase rt user cid dto w))) = Some (apply_update dto c)"
    by (auto simp: runs_iff)
  have "ic_status (apply_update dto c) = CASE_CLOSED" using assms(7) by (simp add: apply_update_def)
  from closed_frozen_view [OF w1 this assms(8)] w1(2) assms(5-7) show ?thesis
    by (simp add: case_view_def apply_update_def)
qed

section \<open>Witnesses\<close>

definition demo_case :: "case_status \<Rightarrow> investigator_case" where
  "demo_case s = (new_case demo_user \<lparr>cc_title = ''Ring'', cc_summary = None, cc_severity = None,
     cc_assignedToUserId = None\<rparr> ''c1'' 0)\<lparr>ic_status := s\<rparr>"

definition demo_cases :: "case_status \<Rightarrow> case_db" where
  "demo_cases s = \<lparr>db_tick = 0, evidence_events = [], audit_logs = [], jobs = [], ws_events = [],
     inv_cases = [demo_case s], evidence_links = [], cluster_links = [], case_notes = []\<rparr>"

lemma demo_case_found: "find (\<lambda>c. ic_id c = ''c1'') (inv_cases (demo_cases s)) = Some (demo_case s)"
  "keys_ok (demo_cases s)" "ic_tenantId (demo_case s) = au_tenantId demo_user" "ic_status (demo_case s) = s"
  "ic_disposition (demo_case s) = None" "ic_closedAt (demo_case s) = None"
  by (simp_all add: demo_cases_def demo_case_def new_case_def keys_ok_def)

text \<open>A note to a closed case leaves it as it was.\<close>

theorem closed_case_frozen_witness:
  "case_view ''c1'' (snd (addNote demo_rt demo_user ''c1'' ''late'' (demo_cases CASE_CLOSED))) =
     case_view ''c1'' (demo_cases CASE_CLOSED)"
  by (rule closed_case_frozen [OF demo_case_found(2,1) demo_case_found(4), of demo_rt])
     (rule r_into_rtranclp, rule case_step.noted)

text \<open>Closed by an update; the closing with a disposition that follows is refused.\<close>

definition demo_closing :: update_case_dto where
  "demo_closing = \<lparr>ud_title = None, ud_summary = None, ud_severity = None, ud_status = Some CASE_CLOSED,
     ud_assignedToUserId = None\<rparr>"

theorem update_closes_without_disposition_witness:
  "\<exists>d. find (\<lambda>c. ic_id c = ''c1'') (inv_cases (snd (closeCase demo_rt demo_user ''c1'' DS_CONFIRMED_SCAM None
       (snd (updateCase demo_rt demo_user ''c1'' demo_closing (demo_cases CASE_OPEN)))))) = Some d \<and>
     ic_disposition d = None \<and> ic_closedAt d = None"
proof -
  have "(case_step demo_rt)\<^sup>*\<^sup>* (snd (updateCase demo_rt demo_user ''c1'' demo_closing (demo_cases CASE_OPEN)))
      (snd (closeCase demo_rt demo_user ''c1'' DS_CONFIRMED_SCAM None
       (snd (updateCase demo_rt demo_user ''c1'' demo_closing (demo_cases CASE_OPEN)))))"
    by (rule r_into_rtranclp, rule case_step.closed)
  from update_closes_without_disposition [OF demo_case_found(2,1,3) _ demo_case_found(5,6) _ this]
  show ?thesis by (auto simp: demo_case_found demo_closing_def)
qed

end
