(* ===== verification/LiveSessions.thy ===== *)
theory LiveSessions
  imports Families
begin

text \<open>
  Devices (modules/devices), monitored sessions (modules/sessions) and the emergency intervention
  (modules/freezelock), which flags the session it is fired for.
\<close>

section \<open>State\<close>

datatype device_type = DEV_DESKTOP | DEV_MOBILE | DEV_TABLET | DEV_BROWSER_EXTENSION | DEV_OTHER

datatype device_status = DEV_ACTIVE | DEV_INACTIVE | DEV_REVOKED

datatype session_type = ST_LIVE_CALL | ST_VIDEO | ST_REMOTE_DESKTOP | ST_BROWSER | ST_SCREEN_SHARE

fun session_type_text :: "session_type \<Rightarrow> string" where
  "session_type_text ST_LIVE_CALL = ''LIVE_CALL''"
| "session_type_text ST_VIDEO = ''VIDEO''"
| "session_type_text ST_REMOTE_DESKTOP = ''REMOTE_DESKTOP''"
| "session_type_text ST_BROWSER = ''BROWSER''"
| "session_type_text ST_SCREEN_SHARE = ''SCREEN_SHARE''"

datatype session_status = SS_ACTIVE | SS_ENDED | SS_FLAGGED

record device =
  dv_id :: string
  dv_userId :: string
  dv_tenantId :: string
  dv_name :: string
  dv_type :: device_type
  dv_platform :: "string option"
  dv_status :: device_status
  dv_trusted :: bool
  dv_lastSeenAt :: "int option"
  dv_createdAt :: int

record live_session =
  sn_id :: string
  sn_userId :: string
  sn_tenantId :: string
  sn_deviceId :: "string option"
  sn_type :: session_type
  sn_status :: session_status
  sn_riskScore :: int
  sn_startedAt :: int
  sn_endedAt :: "int option"

record session_event =
  sv_id :: string
  sv_sessionId :: string
  sv_type :: string
  sv_detail :: "string option"
  sv_createdAt :: int

record freeze_event =
  fz_id :: string
  fz_tenantId :: string
  fz_userId :: string
  fz_riskEventId :: "string option"
  fz_sessionId :: "string option"
  fz_trigger :: string
  fz_actions :: "string list"
  fz_createdAt :: int

record live_db = guard_db +
  devices :: "device list"
  live_sessions :: "live_session list"
  session_events :: "session_event list"
  freeze_events :: "freeze_event list"

interpretation devices_tab: table devices devices_update
  by unfold_locales simp

interpretation live_sessions_tab: table live_sessions live_sessions_update
  by unfold_locales simp

interpretation session_events_tab: table session_events session_events_update
  by unfold_locales simp

interpretation freeze_events_tab: table freeze_events freeze_events_update
  by unfold_locales simp

section \<open>Devices\<close>

record enroll_dto =
  ed_name :: string
  ed_type :: device_type
  ed_platform :: "string option"

definition enroll :: "runtime \<Rightarrow> auth_user \<Rightarrow> enroll_dto \<Rightarrow> ('a live_db_scheme, device) prog" where
  "enroll rt user dto =
     bind_p (new_id rt) (\<lambda>uid. bind_p (now rt) (\<lambda>t.
     insert_row devices_update
       \<lparr>dv_id = uid, dv_userId = au_userId user, dv_tenantId = au_tenantId user, dv_name = ed_name dto,
        dv_type = ed_type dto, dv_platform = ed_platform dto, dv_status = DEV_ACTIVE, dv_trusted = False,
        dv_lastSeenAt = None, dv_createdAt = t\<rparr>))"

definition listUserDevices :: "auth_user \<Rightarrow> ('a live_db_scheme, device list) prog" where
  "listUserDevices user =
     bind_p (find_rows devices (\<lambda>d. dv_userId d = au_userId user)) (\<lambda>rows. ret (order_desc dv_createdAt rows))"

definition requireOwnedDevice :: "auth_user \<Rightarrow> string \<Rightarrow> ('a live_db_scheme, device) prog" where
  "requireOwnedDevice user deviceId =
     bind_p (find_row devices (\<lambda>d. dv_id d = deviceId)) (\<lambda>found.
     bind_p (require_some found (NotFoundException ''Device not found'')) (\<lambda>d.
     seq_p (ensure (dv_userId d = au_userId user) (NotFoundException ''Device not found'')) (ret d)))"

definition heartbeat :: "runtime \<Rightarrow> auth_user \<Rightarrow> string \<Rightarrow> ('a live_db_scheme, device) prog" where
  "heartbeat rt user deviceId =
     seq_p (requireOwnedDevice user deviceId)
     (bind_p (now rt) (\<lambda>t.
      update_row devices devices_update (\<lambda>d. dv_id d = deviceId)
        (\<lambda>d. d\<lparr>dv_lastSeenAt := Some t, dv_status := DEV_ACTIVE\<rparr>)))"

definition revoke_device :: "auth_user \<Rightarrow> string \<Rightarrow> ('a live_db_scheme, device) prog" where
  "revoke_device user deviceId =
     seq_p (requireOwnedDevice user deviceId)
     (update_row devices devices_update (\<lambda>d. dv_id d = deviceId) (\<lambda>d. d\<lparr>dv_status := DEV_REVOKED\<rparr>))"

section \<open>Sessions\<close>

definition session_record ::
    "auth_user \<Rightarrow> string \<Rightarrow> string \<Rightarrow> string \<Rightarrow> string option \<Rightarrow> append_input" where
  "session_record user i evtype descr device =
     (user_event (Some (au_tenantId user)) (au_userId user) ''SESSION'' i evtype descr JUndef)
       \<lparr>in_deviceId := device\<rparr>"

definition begin_session ::
    "runtime \<Rightarrow> auth_user \<Rightarrow> session_type \<Rightarrow> string option \<Rightarrow> ('a live_db_scheme, live_session) prog" where
  "begin_session rt user type deviceId =
     seq_p (if truthy deviceId
            then bind_p (find_row devices (\<lambda>d. dv_id d = or_default deviceId [])) (\<lambda>found.
              bind_p (require_some found (NotFoundException ''Device not found'')) (\<lambda>d.
              ensure (dv_userId d = au_userId user) (NotFoundException ''Device not found'')))
            else ret ())
     (bind_p (new_id rt) (\<lambda>uid. bind_p (now rt) (\<lambda>t.
      bind_p (insert_row live_sessions_update
        \<lparr>sn_id = uid, sn_userId = au_userId user, sn_tenantId = au_tenantId user, sn_deviceId = deviceId,
         sn_type = type, sn_status = SS_ACTIVE, sn_riskScore = 0, sn_startedAt = t, sn_endedAt = None\<rparr>) (\<lambda>session.
      seq_p (append_evidence rt (session_record user (sn_id session) ''SESSION_STARTED''
        (session_type_text (sn_type session) @ '' session started'') deviceId))
      (ret session)))))"

definition listUserSessions :: "auth_user \<Rightarrow> ('a live_db_scheme, live_session list) prog" where
  "listUserSessions user =
     bind_p (find_rows live_sessions (\<lambda>s. sn_userId s = au_userId user)) (\<lambda>rows.
     ret (take 100 (order_desc sn_startedAt rows)))"

definition requireOwnedSession :: "auth_user \<Rightarrow> string \<Rightarrow> ('a live_db_scheme, live_session) prog" where
  "requireOwnedSession user i =
     bind_p (find_row live_sessions (\<lambda>s. sn_id s = i)) (\<lambda>found.
     bind_p (require_some found (NotFoundException ''Session not found'')) (\<lambda>s.
     seq_p (ensure (sn_userId s = au_userId user) (NotFoundException ''Session not found'')) (ret s)))"

definition session_by_id ::
    "auth_user \<Rightarrow> string \<Rightarrow> ('a live_db_scheme, live_session option \<times> session_event list) prog" where
  "session_by_id user i =
     seq_p (requireOwnedSession user i)
     (bind_p (find_row live_sessions (\<lambda>s. sn_id s = i)) (\<lambda>s.
      bind_p (find_rows session_events (\<lambda>e. sv_sessionId e = i)) (\<lambda>es.
      ret (s, order_asc sv_createdAt es))))"

definition recordEvent ::
    "runtime \<Rightarrow> auth_user \<Rightarrow> string \<Rightarrow> string \<Rightarrow> string option \<Rightarrow> ('a live_db_scheme, session_event) prog" where
  "recordEvent rt user sessionId type detail =
     seq_p (requireOwnedSession user sessionId)
     (bind_p (new_id rt) (\<lambda>uid. bind_p (now rt) (\<lambda>t.
      insert_row session_events_update
        \<lparr>sv_id = uid, sv_sessionId = sessionId, sv_type = type, sv_detail = detail, sv_createdAt = t\<rparr>)))"

definition finish_session :: "runtime \<Rightarrow> auth_user \<Rightarrow> string \<Rightarrow> ('a live_db_scheme, live_session) prog" where
  "finish_session rt user i =
     bind_p (requireOwnedSession user i) (\<lambda>session.
     if sn_status session = SS_ENDED then ret session
     else
       bind_p (now rt) (\<lambda>t.
       bind_p (update_row live_sessions live_sessions_update (\<lambda>s. sn_id s = i)
         (\<lambda>s. s\<lparr>sn_status := SS_ENDED, sn_endedAt := Some t\<rparr>)) (\<lambda>ended.
       seq_p (append_evidence rt (session_record user (sn_id ended) ''SESSION_ENDED''
         (session_type_text (sn_type ended) @ '' session ended'') None))
       (ret ended))))"

section \<open>FreezeLock\<close>

definition DEFAULT_FREEZELOCK_ACTIONS :: "string list" where
  "DEFAULT_FREEZELOCK_ACTIONS = [''DISPLAY_INTERVENTION_WARNING'', ''PAUSE_RISKY_ACTION'',
     ''NOTIFY_TRUSTED_CONTACT'', ''START_EVIDENCE_CAPTURE'']"

record freeze_trigger =
  ft_trigger :: string
  ft_riskEventId :: "string option"
  ft_sessionId :: "string option"
  ft_actions :: "string list option"

definition flag_session :: "auth_user \<Rightarrow> string option \<Rightarrow> ('a live_db_scheme, unit) prog" where
  "flag_session user sessionId =
     when_p (truthy sessionId)
       (update_rows live_sessions_update
         (\<lambda>s. Some (sn_id s) = sessionId \<and> sn_userId s = au_userId user) (\<lambda>s. s\<lparr>sn_status := SS_FLAGGED\<rparr>))"

definition trigger_freeze ::
    "runtime \<Rightarrow> auth_user \<Rightarrow> freeze_trigger \<Rightarrow> string option \<Rightarrow> ('a live_db_scheme, freeze_event) prog" where
  "trigger_freeze rt user input ip =
     (let actions = (if or_default (ft_actions input) [] \<noteq> [] then or_default (ft_actions input) []
                     else DEFAULT_FREEZELOCK_ACTIONS) in
      bind_p (new_id rt) (\<lambda>uid. bind_p (now rt) (\<lambda>t.
      bind_p (insert_row freeze_events_update
        \<lparr>fz_id = uid, fz_tenantId = au_tenantId user, fz_userId = au_userId user,
         fz_riskEventId = ft_riskEventId input, fz_sessionId = ft_sessionId input,
         fz_trigger = ft_trigger input, fz_actions = actions, fz_createdAt = t\<rparr>) (\<lambda>event.
      seq_p (flag_session user (ft_sessionId input))
      (seq_p (append_evidence rt ((user_event (Some (au_tenantId user)) (au_userId user) ''FREEZELOCK'' (fz_id event)
          ''FREEZELOCK_EXECUTED'' (''FreezeLock executed: '' @ ft_trigger input)
          (JObj [(''actions'', JArr (map JStr actions))]))\<lparr>in_ipAddress := ip\<rparr>))
      (seq_p (create_user_alert rt
        \<lparr>ax_tenantId = au_tenantId user, ax_userId = au_userId user, ax_type = ''HUMAN_PAUSE_REQUIRED'',
         ax_severity = ''CRITICAL'', ax_title = ''Emergency intervention triggered'',
         ax_message = ft_trigger input\<rparr>)
      (ret event)))))))"

definition listFreezes :: "auth_user \<Rightarrow> ('a live_db_scheme, freeze_event list) prog" where
  "listFreezes user =
     bind_p (find_rows freeze_events (\<lambda>f. fz_userId f = au_userId user)) (\<lambda>rows.
     ret (take 100 (order_desc fz_createdAt rows)))"

section \<open>The log is respected\<close>

lemma session_record_storable [simp]: "in_metadata (session_record u i t d dev) = JUndef"
  by (simp add: session_record_def)

lemma create_user_alert_safe: "moves (log_safe rt) (create_user_alert rt' input)"
  unfolding create_user_alert_def by (auto simp: log_untouched intro!: safe_rules)

lemma live_safe:
  "moves (log_safe rt) (enroll rt user edto)" "moves (log_safe rt) (heartbeat rt user i)"
  "moves (log_safe rt) (revoke_device user i)" "moves (log_safe rt) (begin_session rt user ty dev)"
  "moves (log_safe rt) (recordEvent rt user i evty detail)" "moves (log_safe rt) (finish_session rt user i)"
  "moves (log_safe rt) (trigger_freeze rt user ft ip)"
  unfolding enroll_def heartbeat_def revoke_device_def requireOwnedDevice_def begin_session_def recordEvent_def
    requireOwnedSession_def finish_session_def trigger_freeze_def flag_session_def Let_def
  by (auto simp: log_untouched intro!: safe_rules append_safe create_user_alert_safe)

section \<open>Devices come back\<close>

text \<open>
  C30. A revoked device is revived by its own heartbeat: after the user has revoked a device,
  the next heartbeat the device sends in the user's name is accepted and makes it active again;
  nothing distinguishes it afterwards from a device that was never revoked.
\<close>

theorem heartbeat_revives_revoked:
  assumes "find (\<lambda>d. dv_id d = i) (devices w) = Some d" "dv_userId d = au_userId user"
  shows "runs (seq_p (revoke_device user i) (heartbeat rt user i)) w (\<lambda>r w'.
    find (\<lambda>d. dv_id d = i) (devices w') = Some r \<and>
    r = d\<lparr>dv_status := DEV_ACTIVE, dv_lastSeenAt := Some (rt_clock rt (db_tick w))\<rparr>)"
proof -
  have twice: "find (\<lambda>d. dv_id d = i) (map ((\<lambda>d. if dv_id d = i then f d else d) \<circ> (\<lambda>d. if dv_id d = i then g d else d)) ds) =
      Some (f (g d))"
    if "find (\<lambda>d. dv_id d = i) ds = Some d" "\<And>d. dv_id (f d) = dv_id d" "\<And>d. dv_id (g d) = dv_id d" for f g ds
    using that by (induction ds) (auto split: if_splits)
  show ?thesis
    using assms
    by (simp add: revoke_device_def heartbeat_def requireOwnedDevice_def run_simps find_mapped twice)
qed

end
