(* ===== verification/RiskHub.thy ===== *)
theory RiskHub
  imports LiveSessions
begin

text \<open>
  The risk hub (modules/risk-fusion/risk.service.ts) and the two detectors that feed it: the
  telemetry of a device (modules/freezeguard) and the language of a conversation
  (modules/a1scamshield). A serious event raises an alert, a critical one fires the intervention.
\<close>

section \<open>Risk events\<close>

record risk_dto =
  rd_eventType :: string
  rd_triggerReason :: string
  rd_signals :: "string list"
  rd_moduleSource :: "risk_module option"
  rd_sessionId :: "string option"

record risk_result =
  rr_riskEvent :: risk_event
  rr_interventionTriggered :: bool
  rr_freezeLockEventId :: "string option"

definition new_risk_event :: "auth_user \<Rightarrow> risk_dto \<Rightarrow> int \<Rightarrow> risk_level \<Rightarrow> string \<Rightarrow> risk_event" where
  "new_risk_event user dto riskScore riskLevel uid =
     \<lparr>re_id = uid, re_tenantId = au_tenantId user, re_userId = au_userId user,
      re_sessionId = rd_sessionId dto, re_moduleSource = or_default (rd_moduleSource dto) RM_RISK_FUSION,
      re_eventType = rd_eventType dto, re_riskScore = riskScore, re_riskLevel = riskLevel,
      re_triggerReason = rd_triggerReason dto, re_recommendedAction = recommendedActionForLevel riskLevel,
      re_detectedSignals = rd_signals dto, re_eventStatus = RE_OPEN, re_metadata = JNull\<rparr>"

definition scored_record :: "auth_user \<Rightarrow> risk_dto \<Rightarrow> risk_event \<Rightarrow> string option \<Rightarrow> append_input" where
  "scored_record user dto event ip =
     (user_event (Some (au_tenantId user)) (au_userId user) ''RISK_EVENT'' (re_id event) ''RISK_SCORE_UPDATED''
       (''Risk event \"'' @ rd_eventType dto @ ''\" scored '' @ show_int (re_riskScore event) @ '' ('' @
        level_text (re_riskLevel event) @ '')'')
       (JObj [(''riskScore'', JNum (re_riskScore event)), (''riskLevel'', JStr (level_text (re_riskLevel event))),
              (''signals'', JArr (map JStr (rd_signals dto)))]))\<lparr>in_ipAddress := ip\<rparr>"

definition high_risk_alert :: "auth_user \<Rightarrow> risk_dto \<Rightarrow> risk_level \<Rightarrow> alert_input" where
  "high_risk_alert user dto riskLevel =
     \<lparr>ax_tenantId = au_tenantId user, ax_userId = au_userId user, ax_type = ''HIGH_RISK_DETECTED'',
      ax_severity = (if riskLevel = CRITICAL then ''CRITICAL'' else ''HIGH''),
      ax_title = ''High-risk activity detected'',
      ax_message = rd_eventType dto @ '': '' @ rd_triggerReason dto\<rparr>"

text \<open>A score that is not a number (\<open>None\<close>) is refused by the database client.\<close>

definition createRiskEvent ::
    "runtime \<Rightarrow> auth_user \<Rightarrow> risk_dto \<Rightarrow> string option \<Rightarrow> ('a live_db_scheme, risk_result) prog" where
  "createRiskEvent rt user dto ip =
     (let riskLevel = levelForSignals (rd_signals dto) in
      bind_p (require_some (scoreSignals (rd_signals dto)) (InternalError ''riskScore: NaN'')) (\<lambda>riskScore.
      bind_p (new_id rt) (\<lambda>uid.
      bind_p (insert_row risk_events_update (new_risk_event user dto riskScore riskLevel uid)) (\<lambda>event.
      seq_p (append_evidence rt (scored_record user dto event ip))
      (seq_p (when_p (riskLevel = HIGH \<or> riskLevel = CRITICAL)
         (void_p (create_user_alert rt (high_risk_alert user dto riskLevel))))
      (if riskLevel = CRITICAL
       then
         bind_p (trigger_freeze rt user
           \<lparr>ft_trigger = ''Critical risk score ('' @ show_int riskScore @ '') '' @ em_dash @ '' '' @ rd_eventType dto,
            ft_riskEventId = Some (re_id event), ft_sessionId = rd_sessionId dto, ft_actions = None\<rparr> ip) (\<lambda>freeze.
         bind_p (update_row risk_events risk_events_update (\<lambda>r. re_id r = re_id event)
           (\<lambda>r. r\<lparr>re_eventStatus := RE_INTERVENING\<rparr>)) (\<lambda>updated.
         ret \<lparr>rr_riskEvent = updated, rr_interventionTriggered = True, rr_freezeLockEventId = Some (fz_id freeze)\<rparr>))
       else ret \<lparr>rr_riskEvent = event, rr_interventionTriggered = False, rr_freezeLockEventId = None\<rparr>))))))"

definition listRisks :: "auth_user \<Rightarrow> ('a live_db_scheme, risk_event list) prog" where
  "listRisks user =
     bind_p (find_rows risk_events (\<lambda>r. re_userId r = au_userId user)) (\<lambda>rows. ret (take 100 (rev rows)))"

definition risk_by_id :: "auth_user \<Rightarrow> string \<Rightarrow> ('a live_db_scheme, risk_event) prog" where
  "risk_by_id user i =
     bind_p (find_row risk_events (\<lambda>r. re_id r = i)) (\<lambda>found.
     bind_p (require_some found (NotFoundException ''Risk event not found'')) (\<lambda>r.
     seq_p (ensure (re_userId r = au_userId user) (NotFoundException ''Risk event not found'')) (ret r)))"

section \<open>FREEZEGUARD: telemetry\<close>

record telemetry =
  tl_sessionId :: "string option"
  tl_remoteAccessTools :: "string list"
  tl_screenSharing :: bool
  tl_remoteInputDetected :: bool
  tl_clipboardHijackDetected :: bool
  tl_suspiciousBrowserActivity :: bool
  tl_bankingSiteOpen :: bool

text \<open>The signals with the observation each stands for, in the order of the source.\<close>

definition when_seen :: "bool \<Rightarrow> string \<Rightarrow> string \<Rightarrow> (string \<times> string) list" where
  "when_seen b signal observation = (if b then [(signal, observation)] else [])"

definition takeover_signals :: "telemetry \<Rightarrow> (string \<times> string) list" where
  "takeover_signals t =
     when_seen (tl_remoteAccessTools t \<noteq> []) ''REMOTE_ACCESS''
       (''remote-access tool(s): '' @ join_with '', '' (tl_remoteAccessTools t)) @
     when_seen (tl_remoteInputDetected t) ''REMOTE_INPUT'' ''remote keyboard/mouse input'' @
     when_seen (tl_clipboardHijackDetected t) ''CLIPBOARD_HIJACK'' ''clipboard hijack'' @
     when_seen (tl_screenSharing t) ''SCREEN_SHARE'' ''screen sharing active'' @
     when_seen (tl_suspiciousBrowserActivity t) ''SUSPICIOUS_BROWSER'' ''suspicious browser activity'' @
     when_seen (tl_bankingSiteOpen t \<and> (tl_screenSharing t \<or> tl_remoteAccessTools t \<noteq> []))
       ''DEVICE_COMPROMISE'' ''banking site open during a remote/shared session''"

record assessment =
  as_detected :: bool
  as_signals :: "string list"
  as_observations :: "string list"
  as_riskEvent :: "risk_event option"
  as_interventionTriggered :: "bool option"

definition ingestTelemetry ::
    "runtime \<Rightarrow> auth_user \<Rightarrow> telemetry \<Rightarrow> string option \<Rightarrow> ('a live_db_scheme, assessment) prog" where
  "ingestTelemetry rt user t ip =
     (let signals = map fst (takeover_signals t); observations = map snd (takeover_signals t) in
      if signals = [] then ret \<lparr>as_detected = False, as_signals = [],
        as_observations = [''No technical-takeover indicators in this telemetry.''],
        as_riskEvent = None, as_interventionTriggered = None\<rparr>
      else
        bind_p (createRiskEvent rt user
          \<lparr>rd_eventType = ''TECHNICAL_TAKEOVER_TELEMETRY'',
           rd_triggerReason = ''FREEZEGUARD telemetry: '' @ join_with ''; '' observations,
           rd_signals = signals, rd_moduleSource = Some RM_FREEZEGUARD, rd_sessionId = tl_sessionId t\<rparr> ip) (\<lambda>result.
        ret \<lparr>as_detected = True, as_signals = signals, as_observations = observations,
             as_riskEvent = Some (rr_riskEvent result),
             as_interventionTriggered = Some (rr_interventionTriggered result)\<rparr>))"

section \<open>A1SCAMSHIELD: language\<close>

definition quote_mark :: string where
  "quote_mark = [CHR 0x27]"

definition SCAM_PHRASE_LIBRARY :: "(string \<times> string \<times> string) list" where
  "SCAM_PHRASE_LIBRARY =
     [(''do not tell anyone'', ''SECRECY'', ''SECRECY''),
      (''don'' @ quote_mark @ ''t tell anyone'', ''SECRECY'', ''SECRECY''),
      (''keep this between us'', ''SECRECY'', ''SECRECY''),
      (''safe account'', ''FAKE_BANK_INSTRUCTION'', ''FAKE_AUTHORITY''),
      (''move your money'', ''FAKE_BANK_INSTRUCTION'', ''FAKE_AUTHORITY''),
      (''you are under investigation'', ''FAKE_AUTHORITY_THREAT'', ''FAKE_AUTHORITY''),
      (''install anydesk'', ''REMOTE_ACCESS_REQUEST'', ''REMOTE_ACCESS''),
      (''anydesk'', ''REMOTE_ACCESS_REQUEST'', ''REMOTE_ACCESS''),
      (''teamviewer'', ''REMOTE_ACCESS_REQUEST'', ''REMOTE_ACCESS''),
      (''gift card'', ''GIFT_CARD_DEMAND'', ''GIFT_CARD_REQUEST''),
      (''read me the code'', ''GIFT_CARD_DEMAND'', ''GIFT_CARD_REQUEST''),
      (''arrest'', ''THREAT'', ''THREAT_LANGUAGE''),
      (''warrant'', ''THREAT'', ''THREAT_LANGUAGE''),
      (''legal action'', ''THREAT'', ''THREAT_LANGUAGE''),
      (''act now'', ''URGENCY'', ''URGENCY''),
      (''right now'', ''URGENCY'', ''URGENCY''),
      (''immediately'', ''URGENCY'', ''URGENCY''),
      (''before it is too late'', ''URGENCY'', ''URGENCY''),
      (''send crypto'', ''CRYPTO_DEMAND'', ''CRYPTO_TRANSFER''),
      (''bitcoin'', ''CRYPTO_DEMAND'', ''CRYPTO_TRANSFER''),
      (''wire transfer'', ''PAYMENT_DEMAND'', ''PAYMENT_PRESSURE''),
      (''do not hang up'', ''ISOLATION'', ''ISOLATION''),
      (''do not call your bank'', ''ISOLATION'', ''ISOLATION''),
      (''do not talk to your family'', ''ISOLATION'', ''ISOLATION'')]"

text \<open>\<open>haystack.includes(pattern)\<close>\<close>

fun has_text :: "string \<Rightarrow> string \<Rightarrow> bool" where
  "has_text p [] = (p = [])"
| "has_text p (c # s) = (starts_with p (c # s) \<or> has_text p s)"

record language_result =
  lr_matches :: "(string \<times> string) list"
  lr_tactics :: "string list"
  lr_signals :: "string list"

text \<open>A JavaScript set keeps the order of first insertion.\<close>

definition distinct_in_order :: "'x list \<Rightarrow> 'x list" where
  "distinct_in_order xs = rev (remdups (rev xs))"

definition detectScamLanguage :: "string \<Rightarrow> language_result" where
  "detectScamLanguage text_in =
     (let hits = filter (\<lambda>(p, _, _). has_text p (to_lower text_in)) SCAM_PHRASE_LIBRARY in
      \<lparr>lr_matches = map (\<lambda>(p, tac, _). (p, tac)) hits,
       lr_tactics = distinct_in_order (map (\<lambda>(_, tac, _). tac) hits),
       lr_signals = distinct_in_order (map (\<lambda>(_, _, s). s) hits)\<rparr>)"

record language_assessment =
  la_scamDetected :: bool
  la_result :: language_result
  la_riskEvent :: "risk_event option"
  la_interventionTriggered :: "bool option"

definition analyze ::
    "runtime \<Rightarrow> auth_user \<Rightarrow> string \<Rightarrow> string option \<Rightarrow> string option \<Rightarrow> ('a live_db_scheme, language_assessment) prog"
  where
  "analyze rt user text_in sessionId ip =
     (let detection = detectScamLanguage text_in in
      if lr_matches detection = [] then
        ret \<lparr>la_scamDetected = False, la_result = \<lparr>lr_matches = [], lr_tactics = [], lr_signals = []\<rparr>,
             la_riskEvent = None, la_interventionTriggered = None\<rparr>
      else
        bind_p (createRiskEvent rt user
          \<lparr>rd_eventType = ''SCAM_LANGUAGE_DETECTED'',
           rd_triggerReason = ''A1SCAMSHIELD matched '' @ show_nat (length (lr_matches detection)) @
             '' scam-language pattern(s): '' @ join_with '', '' (lr_tactics detection),
           rd_signals = lr_signals detection, rd_moduleSource = Some RM_A1SCAMSHIELD, rd_sessionId = sessionId\<rparr> ip)
          (\<lambda>result.
        ret \<lparr>la_scamDetected = True, la_result = detection, la_riskEvent = Some (rr_riskEvent result),
             la_interventionTriggered = Some (rr_interventionTriggered result)\<rparr>))"

section \<open>The log is respected\<close>

lemma scored_record_storable [simp]: "storable (in_metadata (scored_record u d e ip))"
  by (auto simp: scored_record_def)

lemma createRiskEvent_safe: "moves (log_safe rt) (createRiskEvent rt user dto ip)"
  unfolding createRiskEvent_def Let_def
  by (auto simp: log_untouched intro!: safe_rules append_safe create_user_alert_safe live_safe)

lemma hub_safe:
  "moves (log_safe rt) (ingestTelemetry rt user t ip)" "moves (log_safe rt) (analyze rt user txt_in sid ip)"
  unfolding ingestTelemetry_def analyze_def Let_def
  by (auto intro!: safe_rules createRiskEvent_safe)

section \<open>What a risk event sets off\<close>

text \<open>The sessions after the intervention of a user for a session.\<close>

definition flagged_for :: "auth_user \<Rightarrow> string option \<Rightarrow> live_session list \<Rightarrow> live_session list" where
  "flagged_for user sessionId ss =
     (if truthy sessionId
      then map (\<lambda>s. if Some (sn_id s) = sessionId \<and> sn_userId s = au_userId user
                    then s\<lparr>sn_status := SS_FLAGGED\<rparr> else s) ss
      else ss)"

definition alert_summary :: "alert list \<Rightarrow> (string \<times> string \<times> string) list" where
  "alert_summary as = map (\<lambda>a. (at_userId a, at_type a, at_severity a)) as"

lemma runs_flag [run_simps]:
  "runs (flag_session user i) w Q \<longleftrightarrow> Q () (live_sessions_update (flagged_for user i) w)"
  "raises (flag_session user i) w R \<longleftrightarrow> False"
proof -
  show "runs (flag_session user i) w Q \<longleftrightarrow> Q () (live_sessions_update (flagged_for user i) w)"
  proof (cases "truthy i")
    case True
    then have "flagged_for user i = map (\<lambda>s. if Some (sn_id s) = i \<and> sn_userId s = au_userId user
        then s\<lparr>sn_status := SS_FLAGGED\<rparr> else s)"
      by (simp add: flagged_for_def fun_eq_iff)
    with True show ?thesis by (simp add: flag_session_def run_simps)
  next
    case False
    then have "live_sessions_update (flagged_for user i) w = w" by (cases w) (simp add: flagged_for_def)
    with False show ?thesis by (simp add: flag_session_def run_simps)
  qed
qed (simp add: flag_session_def run_simps)

lemma levels:
  "levelForSignals ss = CRITICAL \<longleftrightarrow> (\<exists>n\<ge>86. scoreSignals ss = Some n)"
  "levelForSignals ss = HIGH \<longleftrightarrow> (\<exists>n. 61 \<le> n \<and> n < 86 \<and> scoreSignals ss = Some n)"
  by (auto simp: levelForSignals_def levelForScore_def split: option.splits if_splits)

lemma risk_outcome:
  assumes "\<forall>q\<in>set (risk_events w). re_id q \<noteq> rt_uuid rt (db_tick w)"
  shows "case scoreSignals (rd_signals dto) of
     None \<Rightarrow> createRiskEvent rt user dto ip w = (Inl (InternalError ''riskScore: NaN''), w)
   | Some n \<Rightarrow> runs (createRiskEvent rt user dto ip) w (\<lambda>r w'.
       re_riskScore (rr_riskEvent r) = n \<and> re_riskLevel (rr_riskEvent r) = levelForScore n \<and>
       re_eventStatus (rr_riskEvent r) = (if n \<ge> 86 then RE_INTERVENING else RE_OPEN) \<and>
       rr_interventionTriggered r = (n \<ge> 86) \<and>
       live_sessions w' = (if n \<ge> 86 then flagged_for user (rd_sessionId dto) (live_sessions w) else live_sessions w) \<and>
       (\<exists>as fs es. alerts w' = alerts w @ as \<and> freeze_events w' = freeze_events w @ fs \<and>
          evidence_events w' = evidence_events w @ es \<and>
          alert_summary as =
            (if n \<ge> 61 then [(au_userId user, ''HIGH_RISK_DETECTED'', if n \<ge> 86 then ''CRITICAL'' else ''HIGH'')] else []) @
            (if n \<ge> 86 then [(au_userId user, ''HUMAN_PAUSE_REQUIRED'', ''CRITICAL'')] else []) \<and>
          map fz_riskEventId fs = (if n \<ge> 86 then [Some (re_id (rr_riskEvent r))] else []) \<and>
          map ev_eventType es = ''RISK_SCORE_UPDATED'' # (if n \<ge> 86 then [''FREEZELOCK_EXECUTED''] else [])))"
proof (cases "scoreSignals (rd_signals dto)")
  case None
  then show ?thesis by (simp add: createRiskEvent_def Let_def prog_defs)
next
  case (Some n)
  have lvl: "levelForSignals (rd_signals dto) = (if n \<ge> 86 then CRITICAL else if n \<ge> 61 then HIGH
      else if n \<ge> 31 then MEDIUM else LOW)"
    by (simp add: levelForSignals_def Some levelForScore_def)
  note run = createRiskEvent_def Let_def run_simps runs_stamped lvl create_user_alert_def high_risk_alert_def
    new_risk_event_def alert_summary_def scored_record_def user_event_def
    levelForScore_def
  have fresh: "find (\<lambda>q. re_id q = rt_uuid rt (db_tick w)) (risk_events w) = None"
    using assms by (simp add: find_None_iff)
  consider "n < 61" | "61 \<le> n" "n < 86" | "86 \<le> n" by linarith
  then show ?thesis
  proof cases
    case 1
    then show ?thesis by (simp add: Some run)
  next
    case 2
    then show ?thesis by (simp add: Some run)
  next
    case 3
    then show ?thesis by (simp add: Some run trigger_freeze_def find_append_eq fresh split: option.split)
  qed
qed

text \<open>
  C9. A risk event escalates exactly by its score: below 61 it is only recorded and logged, from
  61 on the user gets one alert, and from 86 on, and only then, the intervention is fired with
  its own alert, its record, and the flag on the session concerned if it is the user's own; the
  event is then marked as intervening. No other session, and nobody else's alerts, are touched.
  A list with a signal that has no numeric weight is refused and nothing is recorded.
\<close>

theorem risk_event_escalates:
  assumes "\<forall>q\<in>set (risk_events w). re_id q \<noteq> rt_uuid rt (db_tick w)"
  shows "case scoreSignals (rd_signals dto) of
     None \<Rightarrow> createRiskEvent rt user dto ip w = (Inl (InternalError ''riskScore: NaN''), w)
   | Some n \<Rightarrow> runs (createRiskEvent rt user dto ip) w (\<lambda>r w'.
       re_riskScore (rr_riskEvent r) = n \<and> re_riskLevel (rr_riskEvent r) = levelForScore n \<and>
       re_eventStatus (rr_riskEvent r) = (if n \<ge> 86 then RE_INTERVENING else RE_OPEN) \<and>
       rr_interventionTriggered r = (n \<ge> 86) \<and>
       live_sessions w' = (if n \<ge> 86 then flagged_for user (rd_sessionId dto) (live_sessions w) else live_sessions w) \<and>
       (\<exists>as fs es. alerts w' = alerts w @ as \<and> freeze_events w' = freeze_events w @ fs \<and>
          evidence_events w' = evidence_events w @ es \<and>
          alert_summary as =
            (if n \<ge> 61 then [(au_userId user, ''HIGH_RISK_DETECTED'', if n \<ge> 86 then ''CRITICAL'' else ''HIGH'')] else []) @
            (if n \<ge> 86 then [(au_userId user, ''HUMAN_PAUSE_REQUIRED'', ''CRITICAL'')] else []) \<and>
          map fz_riskEventId fs = (if n \<ge> 86 then [Some (re_id (rr_riskEvent r))] else []) \<and>
          map ev_eventType es = ''RISK_SCORE_UPDATED'' # (if n \<ge> 86 then [''FREEZELOCK_EXECUTED''] else [])))"
  by (rule risk_outcome [OF assms])

section \<open>Language\<close>

lemma has_text_iff: "has_text p s \<longleftrightarrow> (\<exists>u v. s = u @ p @ v)"
proof (induction s)
  case (Cons c s)
  have "starts_with p (c # s) \<longleftrightarrow> (\<exists>v. c # s = p @ v)"
    unfolding starts_with_def by (metis append_eq_conv_conj append_take_drop_id)
  moreover have "(\<exists>u v. c # s = u @ p @ v) \<longleftrightarrow> (\<exists>v. c # s = p @ v) \<or> (\<exists>u v. s = u @ p @ v)"
    by (metis append_Cons append_Nil list.exhaust list.inject)
  ultimately show ?case using Cons by simp
qed simp

lemma has_text_more: "has_text p s \<Longrightarrow> has_text p (a @ s @ b)"
  unfolding has_text_iff by (metis append.assoc)

lemma set_distinct_in_order [simp]: "set (distinct_in_order xs) = set xs" "distinct (distinct_in_order xs)"
  by (simp_all add: distinct_in_order_def)

lemma signals_iff:
  "s \<in> set (lr_signals (detectScamLanguage x)) \<longleftrightarrow>
     (\<exists>p tac. (p, tac, s) \<in> set SCAM_PHRASE_LIBRARY \<and> has_text p (to_lower x))"
  by (force simp: detectScamLanguage_def Let_def)

lemma more_signals: "set (lr_signals (detectScamLanguage x)) \<subseteq> set (lr_signals (detectScamLanguage (a @ x @ b)))"
  by (simp add: signals_iff to_lower_def subset_iff) (metis has_text_more)

text \<open>Every signal of the library has its weight.\<close>

lemma library_weights:
  "\<forall>(p, tac, s)\<in>set SCAM_PHRASE_LIBRARY. s \<notin> set inherited_properties \<and> (\<exists>n\<ge>10. signal_weight s = Some n)"
proof -
  have "list_all (\<lambda>(p, tac, s). s \<notin> set inherited_properties \<and>
      (case signal_weight s of None \<Rightarrow> False | Some n \<Rightarrow> n \<ge> 10)) SCAM_PHRASE_LIBRARY"
    by code_simp
  then show ?thesis by (fastforce simp: list_all_iff split: option.splits)
qed

definition language_score :: "string \<Rightarrow> int" where
  "language_score x = clamp_score (\<Sum>s\<in>set (lr_signals (detectScamLanguage x)). the (signal_weight s))"

lemma language_scored: "scoreSignals (lr_signals (detectScamLanguage x)) = Some (language_score x)"
proof -
  have "s \<notin> set inherited_properties" if "s \<in> set (lr_signals (detectScamLanguage x))" for s
    using that library_weights by (fastforce simp: signals_iff)
  moreover have "distinct (lr_signals (detectScamLanguage x))" by (simp add: detectScamLanguage_def Let_def)
  ultimately show ?thesis
    by (auto simp: scoreSignals_def sum_signals_eq language_score_def sum_list_distinct_conv_sum_set)
qed

lemma language_score_mono: "language_score x \<le> language_score (a @ x @ b)"
proof -
  have "(\<Sum>s\<in>set (lr_signals (detectScamLanguage x)). the (signal_weight s)) \<le>
      (\<Sum>s\<in>set (lr_signals (detectScamLanguage (a @ x @ b))). the (signal_weight s))"
    using library_weights by (intro sum_mono2 more_signals) (fastforce simp: signals_iff)+
  then show ?thesis by (auto simp: language_score_def clamp_score_def)
qed

lemma analyze_outcome:
  assumes "lr_signals (detectScamLanguage x) \<noteq> []" "\<forall>q\<in>set (risk_events w). re_id q \<noteq> rt_uuid rt (db_tick w)"
  shows "runs (analyze rt user x sid ip) w (\<lambda>r _. la_result r = detectScamLanguage x \<and>
    la_interventionTriggered r = Some (language_score x \<ge> 86) \<and>
    (\<exists>e. la_riskEvent r = Some e \<and> re_riskScore e = language_score x \<and>
       re_riskLevel e = levelForScore (language_score x)))"
proof -
  let ?d = "detectScamLanguage x"
  have hit: "lr_matches ?d \<noteq> []" using assms(1) by (auto simp: detectScamLanguage_def Let_def distinct_in_order_def)
  have event: "runs (createRiskEvent rt user dto ip) w (\<lambda>r _. re_riskScore (rr_riskEvent r) = language_score x \<and>
      re_riskLevel (rr_riskEvent r) = levelForScore (language_score x) \<and>
      rr_interventionTriggered r = (language_score x \<ge> 86))" if "rd_signals dto = lr_signals ?d" for dto
    using risk_outcome [OF assms(2), of user dto ip] by (simp add: that language_scored runs_iff) blast
  show ?thesis
    by (simp add: analyze_def Let_def run_simps hit) (rule runs_mono [OF event], simp_all)
qed

lemma analyze_silent:
  "lr_signals (detectScamLanguage x) = [] \<Longrightarrow>
   runs (analyze rt user x sid ip) w (\<lambda>r w'. la_riskEvent r = None \<and> la_interventionTriggered r = None \<and> w' = w)"
  by (simp add: analyze_def Let_def run_simps detectScamLanguage_def distinct_in_order_def)

text \<open>
  C29. A conversation only escalates: whatever is said before and after a text that was analysed
  with a finding, the analysis of the longer text finds at least the same signals, never scores
  lower and never at a lower level, and fires the intervention if the shorter one did.
\<close>

theorem conversation_only_escalates:
  assumes "analyze rt user x sid ip w = (Inr r, w1)" "la_riskEvent r = Some e"
    and "\<forall>q\<in>set (risk_events w). re_id q \<noteq> rt_uuid rt (db_tick w)"
    and "\<forall>q\<in>set (risk_events w2). re_id q \<noteq> rt_uuid rt (db_tick w2)"
  shows "runs (analyze rt user (a @ x @ b) sid ip) w2 (\<lambda>r' _. \<exists>e'. la_riskEvent r' = Some e' \<and>
    set (lr_signals (la_result r)) \<subseteq> set (lr_signals (la_result r')) \<and>
    re_riskScore e \<le> re_riskScore e' \<and> re_riskLevel e \<le> re_riskLevel e' \<and>
    (la_interventionTriggered r = Some True \<longrightarrow> la_interventionTriggered r' = Some True))"
proof -
  have found: "lr_signals (detectScamLanguage x) \<noteq> []"
    using analyze_silent [of x rt user sid ip w] assms(1,2) by (auto simp: runs_iff)
  then have "lr_signals (detectScamLanguage (a @ x @ b)) \<noteq> []" using more_signals [of x a b] by auto
  from analyze_outcome [OF this assms(4), of user sid ip] analyze_outcome [OF found assms(3), of user sid ip]
  show ?thesis
    using assms(1,2) language_score_mono [of x a b] more_signals [of x a b]
    by (auto simp: runs_iff levelForScore_mono)
qed

section \<open>Witnesses\<close>

definition demo_live :: live_db where
  "demo_live = \<lparr>db_tick = 0, evidence_events = [], audit_logs = [], jobs = [],
     ws_events = [], evidence_files = [], export_bundles = [], deliveries = [], alerts = [],
     users = [], contacts = [], reviews = [], settings = [], profiles = [], risk_events = [],
     devices = [\<lparr>dv_id = ''d1'', dv_userId = ''u1'', dv_tenantId = ''t1'', dv_name = ''laptop'',
       dv_type = DEV_DESKTOP, dv_platform = None, dv_status = DEV_ACTIVE, dv_trusted = False,
       dv_lastSeenAt = None, dv_createdAt = 0\<rparr>],
     live_sessions = [\<lparr>sn_id = ''s1'', sn_userId = ''u1'', sn_tenantId = ''t1'', sn_deviceId = None,
       sn_type = ST_REMOTE_DESKTOP, sn_status = SS_ACTIVE, sn_riskScore = 0, sn_startedAt = 0, sn_endedAt = None\<rparr>,
      \<lparr>sn_id = ''s2'', sn_userId = ''u2'', sn_tenantId = ''t1'', sn_deviceId = None,
       sn_type = ST_BROWSER, sn_status = SS_ACTIVE, sn_riskScore = 0, sn_startedAt = 0, sn_endedAt = None\<rparr>],
     session_events = [], freeze_events = []\<rparr>"

definition demo_takeover :: risk_dto where
  "demo_takeover = \<lparr>rd_eventType = ''TAKEOVER'', rd_triggerReason = ''r'',
     rd_signals = [''REMOTE_ACCESS'', ''GIFT_CARD_REQUEST'', ''CRYPTO_TRANSFER'', ''WALLET_SWITCH''],
     rd_moduleSource = None, rd_sessionId = Some ''s1''\<rparr>"

lemma demo_takeover_score: "scoreSignals (rd_signals demo_takeover) = Some 90"
  by code_simp

text \<open>A score of 90 for the session \<open>s1\<close>: it is flagged, the other user's session is not.\<close>

theorem risk_event_escalates_witness:
  "runs (createRiskEvent demo_rt demo_user demo_takeover None) demo_live (\<lambda>r w'.
     rr_interventionTriggered r \<and> map sn_status (live_sessions w') = [SS_FLAGGED, SS_ACTIVE])"
proof -
  have "\<forall>q\<in>set (risk_events demo_live). re_id q \<noteq> rt_uuid demo_rt (db_tick demo_live)"
    by (simp add: demo_live_def)
  from risk_event_escalates [OF this, of demo_user demo_takeover None] show ?thesis
    by (auto simp: demo_takeover_score elim!: runs_mono)
       (simp add: demo_takeover_def demo_live_def flagged_for_def truthy_def demo_user_def)
qed

text \<open>The threat alone is a finding; with the call for secrecy after it the score is higher.\<close>

theorem conversation_only_escalates_witness:
  "runs (analyze demo_rt demo_user (''Hello, '' @ ''there is a warrant'' @ ''. Do not tell anyone'') None None) demo_live
     (\<lambda>r' _. \<exists>e'. la_riskEvent r' = Some e' \<and> re_riskScore e' \<ge> 20)"
proof -
  have fresh: "\<forall>q\<in>set (risk_events demo_live). re_id q \<noteq> rt_uuid demo_rt (db_tick demo_live)"
    by (simp add: demo_live_def)
  have sig: "lr_signals (detectScamLanguage ''there is a warrant'') = [''THREAT_LANGUAGE'']" by code_simp
  have "language_score ''there is a warrant'' = 20"
    using language_scored [of "''there is a warrant''"] unfolding sig by (simp add: scoreSignals_def signal_weight_def SIGNAL_WEIGHTS_def clamp_score_def)
  then obtain r w1 e where r: "analyze demo_rt demo_user ''there is a warrant'' None None demo_live = (Inr r, w1)"
    "la_riskEvent r = Some e" "re_riskScore e = 20"
    using analyze_outcome [OF _ fresh, of "''there is a warrant''" demo_user None None] by (auto simp: sig runs_iff)
  show ?thesis
    by (rule runs_mono [OF conversation_only_escalates [OF r(1,2) fresh fresh, of "''Hello, ''" "''. Do not tell anyone''"]])
       (auto simp: r(3))
qed

text \<open>The laptop is revoked and is back after its next heartbeat.\<close>

theorem heartbeat_revives_revoked_witness:
  "runs (seq_p (revoke_device demo_user ''d1'') (heartbeat demo_rt demo_user ''d1'')) demo_live
     (\<lambda>r _. dv_status r = DEV_ACTIVE)"
proof -
  have "find (\<lambda>d. dv_id d = ''d1'') (devices demo_live) = Some (hd (devices demo_live))"
    "dv_userId (hd (devices demo_live)) = au_userId demo_user"
    by (simp_all add: demo_live_def demo_user_def)
  from heartbeat_revives_revoked [OF this, of demo_rt] show ?thesis by (auto elim!: runs_mono)
qed

end
