(* ===== verification/Portals.thy ===== *)
theory Portals
  imports ClaimVerify
begin

text \<open>
  The portals of banks (modules/bank-portal) and platforms (modules/platform-portal): the queue of
  risky events of the tenant, the scored assessments of tellers and moderators, and the one
  professional opinion a tenant records on a held payment or a flagged claim.
\<close>

section \<open>State\<close>

datatype bank_decision = BD_ALLOW | BD_BLOCK | BD_NEED_MORE_INFO | BD_ESCALATE_TO_FRAUD | BD_CONTACT_CUSTOMER

fun bank_decision_text :: "bank_decision \<Rightarrow> string" where
  "bank_decision_text BD_ALLOW = ''ALLOW''"
| "bank_decision_text BD_BLOCK = ''BLOCK''"
| "bank_decision_text BD_NEED_MORE_INFO = ''NEED_MORE_INFO''"
| "bank_decision_text BD_ESCALATE_TO_FRAUD = ''ESCALATE_TO_FRAUD''"
| "bank_decision_text BD_CONTACT_CUSTOMER = ''CONTACT_CUSTOMER''"

datatype platform_decision =
  PM_APPROVE_CONTENT | PM_REMOVE_CONTENT | PM_WARN_USER | PM_SUSPEND_USER
| PM_ESCALATE_TO_TRUST_AND_SAFETY | PM_ESCALATE_TO_LAW_ENFORCEMENT

fun platform_decision_text :: "platform_decision \<Rightarrow> string" where
  "platform_decision_text PM_APPROVE_CONTENT = ''APPROVE_CONTENT''"
| "platform_decision_text PM_REMOVE_CONTENT = ''REMOVE_CONTENT''"
| "platform_decision_text PM_WARN_USER = ''WARN_USER''"
| "platform_decision_text PM_SUSPEND_USER = ''SUSPEND_USER''"
| "platform_decision_text PM_ESCALATE_TO_TRUST_AND_SAFETY = ''ESCALATE_TO_TRUST_AND_SAFETY''"
| "platform_decision_text PM_ESCALATE_TO_LAW_ENFORCEMENT = ''ESCALATE_TO_LAW_ENFORCEMENT''"

fun teller_action_text :: "teller_action \<Rightarrow> string" where
  "teller_action_text PROCEED = ''PROCEED''"
| "teller_action_text VERIFY_VERBALLY = ''VERIFY_VERBALLY''"
| "teller_action_text CALL_FAMILY_OR_TRUSTED_CONTACT = ''CALL_FAMILY_OR_TRUSTED_CONTACT''"
| "teller_action_text DELAY_AND_ESCALATE_TO_ANALYST = ''DELAY_AND_ESCALATE_TO_ANALYST''"
| "teller_action_text REFUSE_AND_ESCALATE_TO_FRAUD = ''REFUSE_AND_ESCALATE_TO_FRAUD''"

fun grooming_action_text :: "grooming_action \<Rightarrow> string" where
  "grooming_action_text NO_ACTION = ''NONE''"
| "grooming_action_text MONITOR = ''MONITOR''"
| "grooming_action_text SOFT_INTERVENE = ''SOFT_INTERVENE''"
| "grooming_action_text HARD_INTERVENE = ''HARD_INTERVENE''"
| "grooming_action_text SUSPEND_USER = ''SUSPEND_USER''"
| "grooming_action_text ESCALATE_TO_TRUST_AND_SAFETY = ''ESCALATE_TO_TRUST_AND_SAFETY''"
| "grooming_action_text ESCALATE_TO_LAW_ENFORCEMENT = ''ESCALATE_TO_LAW_ENFORCEMENT''"

text \<open>The scored rows keep the input and the scoring in their columns.\<close>

record teller_score =
  tz_id :: string
  tz_tenantId :: string
  tz_tellerUserId :: string
  tz_customerReference :: "string option"
  tz_currency :: string
  tz_input :: teller_input
  tz_scoring :: teller_scoring
  tz_evidenceEventId :: "string option"
  tz_createdAt :: int

record bank_review =
  bk_id :: string
  bk_tenantId :: string
  bk_scamHoldEventId :: string
  bk_reviewedByUserId :: string
  bk_decision :: bank_decision
  bk_notes :: "string option"
  bk_evidenceEventId :: "string option"
  bk_createdAt :: int

record grooming_score =
  gz_id :: string
  gz_tenantId :: string
  gz_moderatorUserId :: string
  gz_subjectReference :: "string option"
  gz_input :: grooming_input
  gz_scoring :: grooming_scoring
  gz_evidenceEventId :: "string option"
  gz_createdAt :: int

record moderation =
  mo_id :: string
  mo_tenantId :: string
  mo_claimVerificationId :: string
  mo_decidedByUserId :: string
  mo_decision :: platform_decision
  mo_notes :: "string option"
  mo_evidenceEventId :: "string option"
  mo_createdAt :: int

record portal_db = claim_db +
  teller_scores :: "teller_score list"
  bank_reviews :: "bank_review list"
  grooming_scores :: "grooming_score list"
  moderations :: "moderation list"

interpretation teller_scores_tab: table teller_scores teller_scores_update
  by unfold_locales simp

interpretation bank_reviews_tab: table bank_reviews bank_reviews_update
  by unfold_locales simp

interpretation grooming_scores_tab: table grooming_scores grooming_scores_update
  by unfold_locales simp

interpretation moderations_tab: table moderations moderations_update
  by unfold_locales simp

section \<open>Queues\<close>

text \<open>The filter is one of the three upper levels.\<close>

definition riskLevelsAtOrAbove :: "risk_level \<Rightarrow> risk_level list" where
  "riskLevelsAtOrAbove min_level =
     (if min_level = CRITICAL then [CRITICAL]
      else if min_level = HIGH then [HIGH, CRITICAL]
      else [MEDIUM, HIGH, CRITICAL])"

record queue_query =
  qq_minRiskLevel :: "risk_level option"
  qq_limit :: "int option"

record bank_hold_view =
  hv_id :: string
  hv_userId :: string
  hv_transactionType :: transaction_type
  hv_amountMinor :: string
  hv_currency :: string
  hv_recipient :: string
  hv_riskScore :: int
  hv_riskLevel :: risk_level
  hv_status :: hold_status
  hv_createdAt :: int

definition hold_view :: "hold_event \<Rightarrow> bank_hold_view" where
  "hold_view h =
     \<lparr>hv_id = sh_id h, hv_userId = sh_userId h, hv_transactionType = sh_transactionType h,
      hv_amountMinor = show_int (sh_amountMinor h), hv_currency = sh_currency h,
      hv_recipient = sh_recipient h, hv_riskScore = sh_riskScore h, hv_riskLevel = sh_riskLevel h,
      hv_status = sh_status h, hv_createdAt = sh_createdAt h\<rparr>"

record bank_wallet_view =
  wv_id :: string
  wv_userId :: string
  wv_network :: wallet_network
  wv_address :: string
  wv_riskScore :: int
  wv_riskLevel :: risk_level
  wv_decision :: wallet_decision
  wv_createdAt :: int

definition wallet_view :: "wallet_check \<Rightarrow> bank_wallet_view" where
  "wallet_view c =
     \<lparr>wv_id = wc_id c, wv_userId = wc_userId c, wv_network = wc_network c, wv_address = wc_address c,
      wv_riskScore = wc_riskScore c, wv_riskLevel = wc_riskLevel c, wv_decision = wc_decision c,
      wv_createdAt = wc_createdAt c\<rparr>"

record bank_queue =
  bq_generatedAt :: int
  bq_minRiskLevel :: risk_level
  bq_limit :: int
  bq_scamHoldEvents :: "bank_hold_view list"
  bq_walletChecks :: "bank_wallet_view list"

definition getQueue :: "runtime \<Rightarrow> auth_user \<Rightarrow> queue_query \<Rightarrow> ('a portal_db_scheme, bank_queue) prog" where
  "getQueue rt user q =
     (let min_level = or_default (qq_minRiskLevel q) MEDIUM; levels = riskLevelsAtOrAbove min_level;
          limit = or_default (qq_limit q) 50 in
      bind_p (find_rows holds (\<lambda>h. sh_tenantId h = Some (au_tenantId user) \<and> sh_riskLevel h \<in> set levels)) (\<lambda>hs.
      bind_p (find_rows wallets (\<lambda>c. wc_tenantId c = Some (au_tenantId user) \<and> wc_riskLevel c \<in> set levels)) (\<lambda>cs.
      bind_p (now rt) (\<lambda>t.
      ret \<lparr>bq_generatedAt = t, bq_minRiskLevel = min_level, bq_limit = limit,
           bq_scamHoldEvents = map hold_view (take_rows limit (order_desc sh_createdAt hs)),
           bq_walletChecks = map wallet_view (take_rows limit (order_desc wc_createdAt cs))\<rparr>))))"

record claim_view =
  cw_id :: string
  cw_userId :: string
  cw_claimType :: claim_type
  cw_riskScore :: int
  cw_riskLevel :: risk_level
  cw_decision :: claim_decision
  cw_createdAt :: int

definition platform_claim_view :: "claim_check \<Rightarrow> claim_view" where
  "platform_claim_view c =
     \<lparr>cw_id = cv_id c, cw_userId = cv_userId c, cw_claimType = cv_claimType c,
      cw_riskScore = cv_riskScore c, cw_riskLevel = cv_riskLevel c, cw_decision = cv_decision c,
      cw_createdAt = cv_createdAt c\<rparr>"

record grooming_view =
  grv_id :: string
  grv_moderatorUserId :: string
  grv_subjectReference :: "string option"
  grv_ageGapSignal :: age_gap
  grv_minorSuspected :: bool
  grv_riskScore :: int
  grv_riskLevel :: risk_level
  grv_recommendedAction :: grooming_action
  grv_createdAt :: int

definition platform_grooming_view :: "grooming_score \<Rightarrow> grooming_view" where
  "platform_grooming_view g =
     \<lparr>grv_id = gz_id g, grv_moderatorUserId = gz_moderatorUserId g, grv_subjectReference = gz_subjectReference g,
      grv_ageGapSignal = gm_ageGap (gz_input g), grv_minorSuspected = gm_minorSuspected (gz_input g),
      grv_riskScore = gs_riskScore (gz_scoring g), grv_riskLevel = gs_riskLevel (gz_scoring g),
      grv_recommendedAction = gs_action (gz_scoring g), grv_createdAt = gz_createdAt g\<rparr>"

record moderation_queue =
  mq_generatedAt :: int
  mq_minRiskLevel :: risk_level
  mq_limit :: int
  mq_claimVerifications :: "claim_view list"
  mq_groomingChecks :: "grooming_view list"

definition getModerationQueue ::
    "runtime \<Rightarrow> auth_user \<Rightarrow> queue_query \<Rightarrow> ('a portal_db_scheme, moderation_queue) prog" where
  "getModerationQueue rt user q =
     (let min_level = or_default (qq_minRiskLevel q) MEDIUM; levels = riskLevelsAtOrAbove min_level;
          limit = or_default (qq_limit q) 50 in
      bind_p (find_rows claims (\<lambda>c. cv_tenantId c = Some (au_tenantId user) \<and> cv_riskLevel c \<in> set levels)) (\<lambda>cs.
      bind_p (find_rows grooming_scores
        (\<lambda>g. gz_tenantId g = au_tenantId user \<and> gs_riskLevel (gz_scoring g) \<in> set levels)) (\<lambda>gs.
      bind_p (now rt) (\<lambda>t.
      ret \<lparr>mq_generatedAt = t, mq_minRiskLevel = min_level, mq_limit = limit,
           mq_claimVerifications = map platform_claim_view (take_rows limit (order_desc cv_createdAt cs)),
           mq_groomingChecks = map platform_grooming_view (take_rows limit (order_desc gz_createdAt gs))\<rparr>))))"

section \<open>Scored assessments\<close>

record teller_assist_dto =
  tq_input :: teller_input
  tq_currency :: "string option"
  tq_customerReference :: "string option"

definition tellerAssist ::
    "runtime \<Rightarrow> auth_user \<Rightarrow> teller_assist_dto \<Rightarrow> ('a portal_db_scheme, teller_score) prog" where
  "tellerAssist rt user dto =
     (let scoring = scoreTellerAssist (tq_input dto) in
      bind_p (new_id rt) (\<lambda>uid. bind_p (now rt) (\<lambda>t.
      bind_p (insert_row teller_scores_update
        \<lparr>tz_id = uid, tz_tenantId = au_tenantId user, tz_tellerUserId = au_userId user,
         tz_customerReference = tq_customerReference dto, tz_currency = or_default (tq_currency dto) ''USD'',
         tz_input = tq_input dto, tz_scoring = scoring, tz_evidenceEventId = None, tz_createdAt = t\<rparr>) (\<lambda>row.
      bind_p (append_evidence rt (user_event (Some (au_tenantId user)) (au_userId user) ''TELLER_ASSIST_SCORE'' (tz_id row)
        ''BANK_PORTAL_TELLER_SCORED''
        (''Teller scored a '' @ level_text (ts_riskLevel scoring) @ '' transaction ('' @
         teller_action_text (ts_action scoring) @ '')'')
        (JObj [(''riskScore'', JNum (ts_riskScore scoring)), (''riskLevel'', JStr (level_text (ts_riskLevel scoring))),
               (''recommendedAction'', JStr (teller_action_text (ts_action scoring))),
               (''transactionChannel'', JStr (teller_channel_text (ti_channel (tq_input dto)))),
               (''recipientType'', JStr (teller_recipient_text (ti_recipient (tq_input dto))))]))) (\<lambda>e.
      update_row teller_scores teller_scores_update (\<lambda>r. tz_id r = tz_id row)
        (\<lambda>r. r\<lparr>tz_evidenceEventId := Some (ev_id e)\<rparr>))))))"

definition groomingCheck ::
    "runtime \<Rightarrow> auth_user \<Rightarrow> grooming_input \<Rightarrow> string option \<Rightarrow> ('a portal_db_scheme, grooming_score) prog" where
  "groomingCheck rt user input subject =
     (let scoring = scoreGroomingCheck input in
      bind_p (new_id rt) (\<lambda>uid. bind_p (now rt) (\<lambda>t.
      bind_p (insert_row grooming_scores_update
        \<lparr>gz_id = uid, gz_tenantId = au_tenantId user, gz_moderatorUserId = au_userId user,
         gz_subjectReference = subject, gz_input = input, gz_scoring = scoring,
         gz_evidenceEventId = None, gz_createdAt = t\<rparr>) (\<lambda>row.
      bind_p (append_evidence rt (user_event (Some (au_tenantId user)) (au_userId user) ''GROOMING_CHECK'' (gz_id row)
        ''PLATFORM_PORTAL_GROOMING_SCORED''
        (''Grooming check scored '' @ level_text (gs_riskLevel scoring) @ '' ('' @
         grooming_action_text (gs_action scoring) @ '')'')
        (JObj [(''riskScore'', JNum (gs_riskScore scoring)), (''riskLevel'', JStr (level_text (gs_riskLevel scoring))),
               (''recommendedAction'', JStr (grooming_action_text (gs_action scoring))),
               (''minorSuspected'', JBool (gm_minorSuspected input)),
               (''ageGapSignal'', JStr (age_gap_text (gm_ageGap input)))]))) (\<lambda>e.
      update_row grooming_scores grooming_scores_update (\<lambda>r. gz_id r = gz_id row)
        (\<lambda>r. r\<lparr>gz_evidenceEventId := Some (ev_id e)\<rparr>))))))"

section \<open>Opinions\<close>

text \<open>
  The pair of tenant and case is unique, which the lookup before the insert respects; a clash of
  the random primary keys is left out.
\<close>

definition reviewCase ::
    "runtime \<Rightarrow> auth_user \<Rightarrow> string \<Rightarrow> bank_decision \<Rightarrow> string option \<Rightarrow> ('a portal_db_scheme, bank_review) prog"
  where
  "reviewCase rt user holdId decision notes =
     bind_p (find_row holds (\<lambda>h. sh_id h = holdId)) (\<lambda>found.
     bind_p (require_some found (NotFoundException ''ScamHold case not found'')) (\<lambda>h.
     seq_p (ensure (sh_tenantId h = Some (au_tenantId user)) (NotFoundException ''ScamHold case not found''))
     (bind_p (find_row bank_reviews (\<lambda>b. bk_tenantId b = au_tenantId user \<and> bk_scamHoldEventId b = holdId)) (\<lambda>existing.
      seq_p (ensure (existing = None) (BadRequestException ''This case has already been reviewed by your bank''))
      (bind_p (new_id rt) (\<lambda>uid. bind_p (now rt) (\<lambda>t.
       bind_p (insert_row bank_reviews_update
         \<lparr>bk_id = uid, bk_tenantId = au_tenantId user, bk_scamHoldEventId = holdId,
          bk_reviewedByUserId = au_userId user, bk_decision = decision, bk_notes = notes,
          bk_evidenceEventId = None, bk_createdAt = t\<rparr>) (\<lambda>row.
       bind_p (append_evidence rt (user_event (Some (au_tenantId user)) (au_userId user) ''BANK_CASE_REVIEW'' (bk_id row)
         (''BANK_PORTAL_CASE_'' @ bank_decision_text decision)
         (''Bank analyst recorded a '' @ bank_decision_text decision @ '' review on ScamHold '' @ holdId)
         (JObj [(''scamHoldEventId'', JStr holdId), (''decision'', JStr (bank_decision_text decision))]))) (\<lambda>e.
       update_row bank_reviews bank_reviews_update (\<lambda>b. bk_id b = bk_id row)
         (\<lambda>b. b\<lparr>bk_evidenceEventId := Some (ev_id e)\<rparr>))))))))))"

definition decideOnClaim ::
    "runtime \<Rightarrow> auth_user \<Rightarrow> string \<Rightarrow> platform_decision \<Rightarrow> string option \<Rightarrow> ('a portal_db_scheme, moderation) prog"
  where
  "decideOnClaim rt user claimId decision notes =
     bind_p (find_row claims (\<lambda>c. cv_id c = claimId)) (\<lambda>found.
     bind_p (require_some found (NotFoundException ''Claim verification not found'')) (\<lambda>c.
     seq_p (ensure (cv_tenantId c = Some (au_tenantId user)) (NotFoundException ''Claim verification not found''))
     (bind_p (find_row moderations (\<lambda>m. mo_tenantId m = au_tenantId user \<and> mo_claimVerificationId m = claimId)) (\<lambda>existing.
      seq_p (ensure (existing = None) (BadRequestException ''This claim has already been moderated by your platform''))
      (bind_p (new_id rt) (\<lambda>uid. bind_p (now rt) (\<lambda>t.
       bind_p (insert_row moderations_update
         \<lparr>mo_id = uid, mo_tenantId = au_tenantId user, mo_claimVerificationId = claimId,
          mo_decidedByUserId = au_userId user, mo_decision = decision, mo_notes = notes,
          mo_evidenceEventId = None, mo_createdAt = t\<rparr>) (\<lambda>row.
       bind_p (append_evidence rt (user_event (Some (au_tenantId user)) (au_userId user) ''PLATFORM_MODERATION'' (mo_id row)
         (''PLATFORM_PORTAL_MOD_'' @ platform_decision_text decision)
         (''Moderator recorded '' @ platform_decision_text decision @ '' on claim '' @ claimId)
         (JObj [(''claimVerificationId'', JStr claimId), (''decision'', JStr (platform_decision_text decision))]))) (\<lambda>e.
       update_row moderations moderations_update (\<lambda>m. mo_id m = mo_id row)
         (\<lambda>m. m\<lparr>mo_evidenceEventId := Some (ev_id e)\<rparr>))))))))))"

section \<open>The log is respected\<close>

lemma portals_safe:
  "moves (log_safe rt) (tellerAssist rt user tdto)" "moves (log_safe rt) (groomingCheck rt user input subject)"
  "moves (log_safe rt) (reviewCase rt user holdId bd notes)" "moves (log_safe rt) (decideOnClaim rt user claimId pd notes)"
  unfolding tellerAssist_def groomingCheck_def reviewCase_def decideOnClaim_def Let_def
  by (auto simp: log_untouched intro!: safe_rules append_safe)

section \<open>Queues hold the tenant's own risky events\<close>

lemma take_rows_set: "set (take_rows n rs) \<subseteq> set rs"
  by (auto simp: take_rows_def dest: in_set_takeD in_set_dropD)

lemma bank_queue_own:
  "runs (getQueue rt user q) w (\<lambda>r w'. holds w' = holds w \<and> wallets w' = wallets w \<and>
     set (bq_scamHoldEvents r) \<subseteq> hold_view ` {h \<in> set (holds w). sh_tenantId h = Some (au_tenantId user) \<and>
       sh_riskLevel h \<in> set (riskLevelsAtOrAbove (bq_minRiskLevel r))} \<and>
     set (bq_walletChecks r) \<subseteq> wallet_view ` {c \<in> set (wallets w). wc_tenantId c = Some (au_tenantId user) \<and>
       wc_riskLevel c \<in> set (riskLevelsAtOrAbove (bq_minRiskLevel r))})"
  by (auto simp: getQueue_def Let_def run_simps dest!: subsetD [OF take_rows_set])

section \<open>One opinion per case\<close>

text \<open>Each tenant has at most one opinion on a case, and only on its own cases.\<close>

definition bank_key :: "bank_review \<Rightarrow> string \<times> string option" where
  "bank_key b = (bk_scamHoldEventId b, Some (bk_tenantId b))"

definition hold_key :: "hold_event \<Rightarrow> string \<times> string option" where
  "hold_key h = (sh_id h, sh_tenantId h)"

definition moderation_key :: "moderation \<Rightarrow> string \<times> string option" where
  "moderation_key m = (mo_claimVerificationId m, Some (mo_tenantId m))"

definition claim_key :: "claim_check \<Rightarrow> string \<times> string option" where
  "claim_key c = (cv_id c, cv_tenantId c)"

definition opinions_ok :: "'a portal_db_scheme \<Rightarrow> bool" where
  "opinions_ok w \<longleftrightarrow>
     distinct (map bank_key (bank_reviews w)) \<and> set (map bank_key (bank_reviews w)) \<subseteq> set (map hold_key (holds w)) \<and>
     distinct (map moderation_key (moderations w)) \<and>
     set (map moderation_key (moderations w)) \<subseteq> set (map claim_key (claims w))"

text \<open>
  Anything the portals of all tenants do, and anything else that keeps the opinions and does not
  drop a payment or a claim or move it to another tenant.
\<close>

inductive portal_step :: "runtime \<Rightarrow> 'a portal_db_scheme \<Rightarrow> 'a portal_db_scheme \<Rightarrow> bool" for rt where
  bank: "portal_step rt w (snd (reviewCase rt user holdId d notes w))"
| platform: "portal_step rt w (snd (decideOnClaim rt user claimId pd notes w))"
| teller: "portal_step rt w (snd (tellerAssist rt user dto w))"
| grooming: "portal_step rt w (snd (groomingCheck rt user input subject w))"
| customers: "bank_reviews w' = bank_reviews w \<Longrightarrow> moderations w' = moderations w \<Longrightarrow>
    set (map hold_key (holds w)) \<subseteq> set (map hold_key (holds w')) \<Longrightarrow>
    set (map claim_key (claims w)) \<subseteq> set (map claim_key (claims w')) \<Longrightarrow> portal_step rt w w'"

lemma stamped_keys [simp]:
  "bank_key (b\<lparr>bk_evidenceEventId := x\<rparr>) = bank_key b"
  "moderation_key (m\<lparr>mo_evidenceEventId := x\<rparr>) = moderation_key m"
  "bank_key \<lparr>bk_id = i, bk_tenantId = t, bk_scamHoldEventId = h, bk_reviewedByUserId = u, bk_decision = d,
     bk_notes = n, bk_evidenceEventId = e, bk_createdAt = c\<rparr> = (h, Some t)"
  "moderation_key \<lparr>mo_id = i, mo_tenantId = t, mo_claimVerificationId = h, mo_decidedByUserId = u,
     mo_decision = pd, mo_notes = n, mo_evidenceEventId = e, mo_createdAt = c\<rparr> = (h, Some t)"
  by (simp_all add: bank_key_def moderation_key_def)

lemma stamped_key_lists:
  "map (\<lambda>b. bank_key (if P b then b\<lparr>bk_evidenceEventId := x\<rparr> else b)) bs = map bank_key bs"
  "bank_key ` (\<lambda>b. if P b then b\<lparr>bk_evidenceEventId := x\<rparr> else b) ` B = bank_key ` B"
  "map (\<lambda>m. moderation_key (if Q m then m\<lparr>mo_evidenceEventId := x\<rparr> else m)) ms = map moderation_key ms"
  "moderation_key ` (\<lambda>m. if Q m then m\<lparr>mo_evidenceEventId := x\<rparr> else m) ` M = moderation_key ` M"
  by (simp_all add: image_image if_distrib [of bank_key] if_distrib [of moderation_key] del: if_image_distrib cong: if_cong)

lemma fresh_key:
  "find (\<lambda>b. bk_tenantId b = t \<and> bk_scamHoldEventId b = i) bs = None \<longleftrightarrow> (i, Some t) \<notin> bank_key ` set bs"
  "find (\<lambda>m. mo_tenantId m = t \<and> mo_claimVerificationId m = i) ms = None \<longleftrightarrow> (i, Some t) \<notin> moderation_key ` set ms"
  by (auto simp: find_None_iff bank_key_def moderation_key_def)

lemma review_ok:
  assumes "opinions_ok w"
  shows "opinions_ok (snd (reviewCase rt user holdId d notes w))"
proof (cases "find (\<lambda>h. sh_id h = holdId) (holds w)")
  case (Some h)
  show ?thesis
  proof (cases "sh_tenantId h = Some (au_tenantId user) \<and>
      find (\<lambda>b. bk_tenantId b = au_tenantId user \<and> bk_scamHoldEventId b = holdId) (bank_reviews w) = None")
    case True
    then have "(holdId, Some (au_tenantId user)) \<in> hold_key ` set (holds w)"
      using find_SomeD [OF Some] by (force simp: hold_key_def)
    with True have "runs (reviewCase rt user holdId d notes) w (\<lambda>_ w'. opinions_ok w')"
      using assms
      by (simp add: reviewCase_def run_simps runs_stamped Some find_append_eq opinions_ok_def comp_def
          stamped_key_lists fresh_key del: if_image_distrib split: option.split)
    then show ?thesis by (auto simp: runs_iff)
  next
    case False
    with Some assms show ?thesis by (auto simp: reviewCase_def prog_defs split: option.split)
  qed
qed (use assms in \<open>simp add: reviewCase_def prog_defs\<close>)

lemma decide_ok:
  assumes "opinions_ok w"
  shows "opinions_ok (snd (decideOnClaim rt user claimId d notes w))"
proof (cases "find (\<lambda>c. cv_id c = claimId) (claims w)")
  case (Some c)
  show ?thesis
  proof (cases "cv_tenantId c = Some (au_tenantId user) \<and>
      find (\<lambda>m. mo_tenantId m = au_tenantId user \<and> mo_claimVerificationId m = claimId) (moderations w) = None")
    case True
    then have "(claimId, Some (au_tenantId user)) \<in> claim_key ` set (claims w)"
      using find_SomeD [OF Some] by (force simp: claim_key_def)
    with True have "runs (decideOnClaim rt user claimId d notes) w (\<lambda>_ w'. opinions_ok w')"
      using assms
      by (simp add: decideOnClaim_def run_simps runs_stamped Some find_append_eq opinions_ok_def comp_def
          stamped_key_lists fresh_key del: if_image_distrib split: option.split)
    then show ?thesis by (auto simp: runs_iff)
  next
    case False
    with Some assms show ?thesis by (auto simp: decideOnClaim_def prog_defs split: option.split)
  qed
qed (use assms in \<open>simp add: decideOnClaim_def prog_defs\<close>)

lemma scoring_keeps_opinions:
  "moves (\<lambda>w w'. opinions_ok w \<longrightarrow> opinions_ok w') (tellerAssist rt user dto)"
  "moves (\<lambda>w w'. opinions_ok w \<longrightarrow> opinions_ok w') (groomingCheck rt user input subject)"
  unfolding tellerAssist_def groomingCheck_def Let_def
  by (auto simp: opinions_ok_def moves_def append_evidence_def prog_defs Let_def split: option.split)

lemma step_opinions:
  assumes "portal_step rt w w'" "opinions_ok w"
  shows "opinions_ok w'"
  using assms(1)
proof cases
  case customers
  show ?thesis
    using assms(2) subset_trans [OF _ customers(3)] subset_trans [OF _ customers(4)]
    unfolding opinions_ok_def customers(1,2) by blast
qed (simp_all add: review_ok decide_ok scoring_keeps_opinions [unfolded moves_def, rule_format] assms(2))

lemma steps_opinions: "(portal_step rt)\<^sup>*\<^sup>* w w' \<Longrightarrow> opinions_ok w \<Longrightarrow> opinions_ok w'"
  by (induction rule: rtranclp_induct) (auto intro: step_opinions)

text \<open>
  C22. One opinion per case: however the banks, the platforms and their customers act, every bank
  has at most one review of a payment and every platform at most one decision on a claim, and
  only for payments and claims of its own tenant.
\<close>

theorem one_opinion_per_case:
  assumes "bank_reviews w = []" "moderations w = []" "(portal_step rt)\<^sup>*\<^sup>* w w'"
  shows "distinct (map bank_key (bank_reviews w')) \<and> set (map bank_key (bank_reviews w')) \<subseteq> set (map hold_key (holds w')) \<and>
    distinct (map moderation_key (moderations w')) \<and>
    set (map moderation_key (moderations w')) \<subseteq> set (map claim_key (claims w'))"
  using steps_opinions [OF assms(3)] assms(1,2) by (simp add: opinions_ok_def)

section \<open>Witness\<close>

definition demo_portal :: portal_db where
  "demo_portal = claim_db.extend ((demo_claims [])\<lparr>holds := [demo_hold]\<rparr>) (portal_db.fields [] [] [] [])"

text \<open>Two analysts of the tenant review the payment one after the other: one review is kept.\<close>

theorem one_opinion_per_case_witness:
  "distinct (map bank_key (bank_reviews (snd (reviewCase demo_rt demo_user ''h1'' BD_ALLOW None
     (snd (reviewCase demo_rt demo_user ''h1'' BD_BLOCK None demo_portal))))))"
proof -
  have empty: "bank_reviews demo_portal = []" "moderations demo_portal = []"
    by (simp_all add: demo_portal_def claim_db.extend_def portal_db.fields_def)
  have "(portal_step demo_rt)\<^sup>*\<^sup>* demo_portal (snd (reviewCase demo_rt demo_user ''h1'' BD_ALLOW None
     (snd (reviewCase demo_rt demo_user ''h1'' BD_BLOCK None demo_portal))))"
    by (rule rtranclp.rtrancl_into_rtrancl [OF r_into_rtranclp]) (rule portal_step.bank)+
  from one_opinion_per_case [OF empty this] show ?thesis by blast
qed

end
