(* ===== verification/Enterprise.thy ===== *)
theory Enterprise
  imports Billing LiveSessions InvestigatorCases
begin

text \<open>
  The enterprise portal (modules/enterprise-portal): policies of a closed registry with typed
  values, integrations, and read views of devices, log and billing.
\<close>

section \<open>The registry of policies\<close>

definition isBool :: "js \<Rightarrow> bool" where
  "isBool v = (case v of JBool b \<Rightarrow> True | _ \<Rightarrow> False)"

definition isPosInt :: "js \<Rightarrow> bool" where
  "isPosInt v = (case v of JNum n \<Rightarrow> n \<ge> 0 | _ \<Rightarrow> False)"

definition int_between :: "int \<Rightarrow> int \<Rightarrow> js \<Rightarrow> bool" where
  "int_between lo hi v = (case v of JNum n \<Rightarrow> lo \<le> n \<and> n \<le> hi | _ \<Rightarrow> False)"

definition isStringArr :: "js \<Rightarrow> bool" where
  "isStringArr v = (case v of JArr vs \<Rightarrow> list_all (\<lambda>x. case x of JStr s \<Rightarrow> True | _ \<Rightarrow> False) vs | _ \<Rightarrow> False)"

definition strings_of :: "js \<Rightarrow> string list" where
  "strings_of v = (case v of JArr vs \<Rightarrow> concat (map (\<lambda>x. case x of JStr s \<Rightarrow> [s] | _ \<Rightarrow> []) vs) | _ \<Rightarrow> [])"

definition policy_channels :: "string list" where
  "policy_channels = [''EMAIL'', ''SMS'', ''PUSH'', ''IN_APP'', ''WEBSOCKET'']"

definition validate_bool :: "js \<Rightarrow> string option" where
  "validate_bool v = (if isBool v then None else Some ''must be a boolean'')"

definition validate_channels :: "js \<Rightarrow> string option" where
  "validate_channels v =
     (if \<not> isStringArr v then Some ''must be an array of channel names''
      else map_option (\<lambda>x. ''unknown channel \"'' @ x @ ''\"'')
        (find (\<lambda>x. x \<notin> set policy_channels) (strings_of v)))"

record policy_definition =
  df_description :: string
  df_validate :: "js \<Rightarrow> string option"

definition POLICY_REGISTRY :: "(string \<times> policy_definition) list" where
  "POLICY_REGISTRY =
     [(''elder_mode_default'',
       \<lparr>df_description = ''Default Elder Mode setting for new users in this enterprise.'', df_validate = validate_bool\<rparr>),
      (''guardian_pause_default_seconds'',
       \<lparr>df_description = ''Default Guardian Pause countdown duration (seconds).'',
        df_validate = (\<lambda>v. if isPosInt v \<and> int_between 30 3600 v then None
                          else Some ''must be an integer between 30 and 3600 seconds'')\<rparr>),
      (''continue_anyway_disabled'',
       \<lparr>df_description = ''When true, all users in this enterprise have the \"Continue Anyway\" override hidden.'',
        df_validate = validate_bool\<rparr>),
      (''trusted_contact_review_required_at_critical'',
       \<lparr>df_description = ''When true, CRITICAL-risk events must wait for a trusted-contact review even if the user attempts to proceed.'',
        df_validate = validate_bool\<rparr>),
      (''data_retention_days'',
       \<lparr>df_description = ''Default retention for evidence files in this tenant (days).'',
        df_validate = (\<lambda>v. if isPosInt v \<and> int_between 30 3650 v then None
                          else Some ''must be an integer between 30 and 3650 days'')\<rparr>),
      (''evidence_legal_hold_default'',
       \<lparr>df_description = ''When true, every new evidence file is created with legal hold engaged.'',
        df_validate = validate_bool\<rparr>),
      (''notification_channels_enabled'',
       \<lparr>df_description = ''Allow-list of notification channels usable in this enterprise (EMAIL, SMS, PUSH, IN_APP, WEBSOCKET).'',
        df_validate = validate_channels\<rparr>),
      (''audit_export_allowed_roles'',
       \<lparr>df_description = ''Membership roles permitted to export audit logs (defaults to ENTERPRISE_ADMIN).'',
        df_validate = (\<lambda>v. if isStringArr v then None else Some ''must be an array of role names'')\<rparr>)]"

definition KNOWN_POLICY_KEYS :: "string list" where
  "KNOWN_POLICY_KEYS = map fst POLICY_REGISTRY"

text \<open>\<open>k in POLICY_REGISTRY\<close> also holds of the properties every object inherits.\<close>

definition isKnownPolicyKey :: "string \<Rightarrow> bool" where
  "isKnownPolicyKey k \<longleftrightarrow> k \<in> set KNOWN_POLICY_KEYS \<or> k \<in> set inherited_properties"

section \<open>State\<close>

record enterprise_policy =
  ep_id :: string
  ep_tenantId :: string
  ep_key :: string
  ep_value :: js
  ep_updatedByUserId :: string
  ep_evidenceEventId :: "string option"

datatype integration_kind =
  IK_SLACK | IK_EMAIL_DISTRIBUTION | IK_SIEM_WEBHOOK | IK_TICKETING | IK_WEBHOOK | IK_SSO

fun integration_kind_text :: "integration_kind \<Rightarrow> string" where
  "integration_kind_text IK_SLACK = ''SLACK''"
| "integration_kind_text IK_EMAIL_DISTRIBUTION = ''EMAIL_DISTRIBUTION''"
| "integration_kind_text IK_SIEM_WEBHOOK = ''SIEM_WEBHOOK''"
| "integration_kind_text IK_TICKETING = ''TICKETING''"
| "integration_kind_text IK_WEBHOOK = ''WEBHOOK''"
| "integration_kind_text IK_SSO = ''SSO''"

datatype integration_status = IS_ACTIVE | IS_PAUSED | IS_ERROR

fun integration_status_text :: "integration_status \<Rightarrow> string" where
  "integration_status_text IS_ACTIVE = ''ACTIVE''"
| "integration_status_text IS_PAUSED = ''PAUSED''"
| "integration_status_text IS_ERROR = ''ERROR''"

record integration =
  ig_id :: string
  ig_tenantId :: string
  ig_kind :: integration_kind
  ig_name :: string
  ig_config :: js
  ig_status :: integration_status
  ig_createdByUserId :: string
  ig_evidenceEventId :: "string option"
  ig_createdAt :: int

record enterprise_db = billing_db +
  policies :: "enterprise_policy list"
  integrations :: "integration list"

interpretation policies_tab: table policies policies_update
  by unfold_locales simp

interpretation integrations_tab: table integrations integrations_update
  by unfold_locales simp

section \<open>Policies\<close>

definition listPolicyDefinitions :: "(string \<times> string) list" where
  "listPolicyDefinitions = map (\<lambda>k. (k, case map_of POLICY_REGISTRY k of None \<Rightarrow> [] | Some d \<Rightarrow> df_description d))
     KNOWN_POLICY_KEYS"

definition listPolicies :: "auth_user \<Rightarrow> ('a enterprise_db_scheme, enterprise_policy list) prog" where
  "listPolicies user =
     bind_p (find_rows policies (\<lambda>p. ep_tenantId p = au_tenantId user)) (\<lambda>rows. ret (order_asc ep_key rows))"

definition is_policy :: "auth_user \<Rightarrow> string \<Rightarrow> enterprise_policy \<Rightarrow> bool" where
  "is_policy user key p \<longleftrightarrow> ep_tenantId p = au_tenantId user \<and> ep_key p = key"

definition unknown_key :: "string \<Rightarrow> exn" where
  "unknown_key key = BadRequestException (''Unknown policy key \"'' @ key @ ''\"'')"

definition getPolicy :: "auth_user \<Rightarrow> string \<Rightarrow> ('a enterprise_db_scheme, enterprise_policy) prog" where
  "getPolicy user key =
     seq_p (ensure (isKnownPolicyKey key) (unknown_key key))
     (bind_p (find_row policies (is_policy user key)) (\<lambda>row.
      require_some row (NotFoundException ''Policy not set for this tenant'')))"

definition policy_event :: "auth_user \<Rightarrow> string \<Rightarrow> string \<Rightarrow> string \<Rightarrow> js \<Rightarrow> append_input" where
  "policy_event user i evtype descr meta =
     user_event (Some (au_tenantId user)) (au_userId user) ''ENTERPRISE_POLICY'' i evtype descr meta"

text \<open>\<open>upsert\<close> by the unique pair of tenant and key.\<close>

definition upsert_policy ::
    "runtime \<Rightarrow> auth_user \<Rightarrow> string \<Rightarrow> js \<Rightarrow> ('a enterprise_db_scheme, enterprise_policy) prog" where
  "upsert_policy rt user key value =
     bind_p (find_row policies (is_policy user key)) (\<lambda>existing.
     case existing of
       None \<Rightarrow> bind_p (new_id rt) (\<lambda>uid. insert_row policies_update
         \<lparr>ep_id = uid, ep_tenantId = au_tenantId user, ep_key = key, ep_value = stored_json value,
          ep_updatedByUserId = au_userId user, ep_evidenceEventId = None\<rparr>)
     | Some _ \<Rightarrow> update_row policies policies_update (is_policy user key)
         (\<lambda>p. p\<lparr>ep_value := stored_json value, ep_updatedByUserId := au_userId user\<rparr>))"

text \<open>For an inherited property there is no \<open>validate\<close> to call: a type error.\<close>

definition setPolicy ::
    "runtime \<Rightarrow> auth_user \<Rightarrow> string \<Rightarrow> js \<Rightarrow> ('a enterprise_db_scheme, enterprise_policy) prog" where
  "setPolicy rt user key value =
     seq_p (ensure (isKnownPolicyKey key) (unknown_key key))
     (bind_p (require_some (map_of POLICY_REGISTRY key) (InternalError ''validate is not a function'')) (\<lambda>d.
      seq_p (case df_validate d value of
          None \<Rightarrow> ret ()
        | Some err \<Rightarrow> throw (BadRequestException (''Invalid value for \"'' @ key @ ''\": '' @ err)))
      (bind_p (upsert_policy rt user key value) (\<lambda>row.
       bind_p (append_evidence rt (policy_event user (ep_id row) ''ENTERPRISE_POLICY_SET''
         (''Policy \"'' @ key @ ''\" updated'') (JObj [(''key'', JStr key), (''value'', value)]))) (\<lambda>e.
       update_row policies policies_update (\<lambda>p. ep_id p = ep_id row)
         (\<lambda>p. p\<lparr>ep_evidenceEventId := Some (ev_id e)\<rparr>))))))"

definition deletePolicy :: "runtime \<Rightarrow> auth_user \<Rightarrow> string \<Rightarrow> ('a enterprise_db_scheme, unit) prog" where
  "deletePolicy rt user key =
     seq_p (ensure (isKnownPolicyKey key) (unknown_key key))
     (bind_p (find_row policies (is_policy user key)) (\<lambda>found.
      bind_p (require_some found (NotFoundException ''Policy not set for this tenant'')) (\<lambda>row.
      seq_p (delete_rows policies_update (\<lambda>p. ep_id p = ep_id row))
      (void_p (append_evidence rt (policy_event user (ep_id row) ''ENTERPRISE_POLICY_DELETED''
        (''Policy \"'' @ key @ ''\" cleared'') (JObj [(''key'', JStr key)])))))))"

section \<open>Devices, integrations, log and billing\<close>

record devices_query =
  dq_status :: "device_status option"
  dq_userId :: "string option"
  dq_limit :: "int option"

record fleet_device =
  fv_id :: string
  fv_userId :: string
  fv_name :: string
  fv_type :: device_type
  fv_platform :: "string option"
  fv_status :: device_status
  fv_trusted :: bool
  fv_lastSeenAt :: "int option"
  fv_createdAt :: int

definition fleet_view :: "device \<Rightarrow> fleet_device" where
  "fleet_view d = \<lparr>fv_id = dv_id d, fv_userId = dv_userId d, fv_name = dv_name d, fv_type = dv_type d,
     fv_platform = dv_platform d, fv_status = dv_status d, fv_trusted = dv_trusted d,
     fv_lastSeenAt = dv_lastSeenAt d, fv_createdAt = dv_createdAt d\<rparr>"

text \<open>PostgreSQL puts the devices that were never seen first in a descending order.\<close>

definition listFleet :: "auth_user \<Rightarrow> devices_query \<Rightarrow> ('a live_db_scheme, fleet_device list) prog" where
  "listFleet user q =
     bind_p (find_rows devices (\<lambda>d. dv_tenantId d = au_tenantId user \<and>
       (dq_status q \<noteq> None \<longrightarrow> dq_status q = Some (dv_status d)) \<and>
       (truthy (dq_userId q) \<longrightarrow> dq_userId q = Some (dv_userId d)))) (\<lambda>rows.
     ret (map fleet_view (take_rows (or_default (dq_limit q) 100)
       (filter (\<lambda>d. dv_lastSeenAt d = None) rows @
        order_desc (\<lambda>d. or_default (dv_lastSeenAt d) 0) (filter (\<lambda>d. dv_lastSeenAt d \<noteq> None) rows)))))"

record integration_dto =
  it_kind :: integration_kind
  it_name :: string
  it_config :: js
  it_status :: "integration_status option"

definition integration_event :: "auth_user \<Rightarrow> string \<Rightarrow> string \<Rightarrow> string \<Rightarrow> js \<Rightarrow> append_input" where
  "integration_event user i evtype descr meta =
     user_event (Some (au_tenantId user)) (au_userId user) ''ENTERPRISE_INTEGRATION'' i evtype descr meta"

definition listIntegrations :: "auth_user \<Rightarrow> ('a enterprise_db_scheme, integration list) prog" where
  "listIntegrations user =
     bind_p (find_rows integrations (\<lambda>g. ig_tenantId g = au_tenantId user)) (\<lambda>rows. ret (order_desc ig_createdAt rows))"

definition createIntegration ::
    "runtime \<Rightarrow> auth_user \<Rightarrow> integration_dto \<Rightarrow> ('a enterprise_db_scheme, integration) prog" where
  "createIntegration rt user dto =
     bind_p (new_id rt) (\<lambda>uid. bind_p (now rt) (\<lambda>t.
     bind_p (insert_row integrations_update
       \<lparr>ig_id = uid, ig_tenantId = au_tenantId user, ig_kind = it_kind dto, ig_name = it_name dto,
        ig_config = stored_json (it_config dto), ig_status = or_default (it_status dto) IS_ACTIVE,
        ig_createdByUserId = au_userId user, ig_evidenceEventId = None, ig_createdAt = t\<rparr>) (\<lambda>row.
     bind_p (append_evidence rt (integration_event user (ig_id row) ''ENTERPRISE_INTEGRATION_CREATED''
       (integration_kind_text (it_kind dto) @ '' integration \"'' @ it_name dto @ ''\" created'')
       (JObj [(''kind'', JStr (integration_kind_text (it_kind dto))), (''name'', JStr (it_name dto)),
              (''status'', JStr (integration_status_text (ig_status row)))]))) (\<lambda>e.
     update_row integrations integrations_update (\<lambda>g. ig_id g = ig_id row)
       (\<lambda>g. g\<lparr>ig_evidenceEventId := Some (ev_id e)\<rparr>)))))"

definition deleteIntegration :: "runtime \<Rightarrow> auth_user \<Rightarrow> string \<Rightarrow> ('a enterprise_db_scheme, unit) prog" where
  "deleteIntegration rt user i =
     bind_p (find_row integrations (\<lambda>g. ig_id g = i)) (\<lambda>found.
     bind_p (require_some found (NotFoundException ''Integration not found'')) (\<lambda>row.
     seq_p (ensure (ig_tenantId row = au_tenantId user) (NotFoundException ''Integration not found''))
     (seq_p (delete_rows integrations_update (\<lambda>g. ig_id g = i))
     (void_p (append_evidence rt (integration_event user i ''ENTERPRISE_INTEGRATION_DELETED''
       (''Integration \"'' @ ig_name row @ ''\" deleted'')
       (JObj [(''kind'', JStr (integration_kind_text (ig_kind row))), (''name'', JStr (ig_name row))])))))))"

definition auditLog ::
    "auth_user \<Rightarrow> string option \<Rightarrow> string option \<Rightarrow> int option \<Rightarrow> ('a core_db_scheme, evidence_event list) prog" where
  "auditLog user entityType entityId limit = getTimeline (Some (au_tenantId user)) entityType entityId limit"

record billing_summary =
  bs_provider :: string
  bs_providerActive :: bool
  bs_plan :: billing_plan
  bs_status :: plan_status
  bs_manualInvoice :: bool
  bs_currentPeriodEnd :: "int option"
  bs_cancelAtPeriodEnd :: bool
  bs_manageVia :: string

definition billingSummary ::
    "billing_env \<Rightarrow> auth_user \<Rightarrow> ('a billing_db_scheme, billing_summary) prog" where
  "billingSummary env user =
     bind_p (getSubscription env (au_tenantId user)) (\<lambda>sub.
     ret \<lparr>bs_provider = ''STRIPE'', bs_providerActive = vs_stripeConfigured sub, bs_plan = vs_plan sub,
          bs_status = vs_status sub, bs_manualInvoice = vs_manualInvoice sub,
          bs_currentPeriodEnd = vs_currentPeriodEnd sub, bs_cancelAtPeriodEnd = vs_cancelAtPeriodEnd sub,
          bs_manageVia = ''POST /api/v1/billing/portal''\<rparr>)"

section \<open>The log is respected\<close>

lemma enterprise_events [simp]:
  "in_metadata (policy_event u i ty d m) = m" "in_metadata (integration_event u i ty d m) = m"
  by (simp_all add: policy_event_def integration_event_def)

lemma enterprise_safe:
  "plain value \<Longrightarrow> moves (log_safe rt) (setPolicy rt user key value)"
  "moves (log_safe rt) (deletePolicy rt user key)"
  "moves (log_safe rt) (createIntegration rt user dto)" "moves (log_safe rt) (deleteIntegration rt user i)"
  unfolding setPolicy_def upsert_policy_def deletePolicy_def createIntegration_def deleteIntegration_def
  by (auto simp: log_untouched intro!: safe_rules append_safe split: option.split)

section \<open>Stored policies are well typed\<close>

definition policy_key :: "enterprise_policy \<Rightarrow> string \<times> string" where
  "policy_key p = (ep_tenantId p, ep_key p)"

text \<open>What the registry accepts under a key.\<close>

definition accepted :: "string \<Rightarrow> js \<Rightarrow> bool" where
  "accepted key v \<longleftrightarrow> (\<exists>d. map_of POLICY_REGISTRY key = Some d \<and> df_validate d v = None)"

definition policies_ok :: "'a enterprise_db_scheme \<Rightarrow> bool" where
  "policies_ok w \<longleftrightarrow> distinct (map policy_key (policies w)) \<and>
     (\<forall>p\<in>set (policies w). accepted (ep_key p) (ep_value p))"

lemma string_array_plain: "isStringArr v \<Longrightarrow> plain v"
proof -
  have "plain x" if "case x of JStr s \<Rightarrow> True | _ \<Rightarrow> False" for x using that by (cases x) auto
  then show "isStringArr v \<Longrightarrow> plain v" by (cases v) (auto simp: isStringArr_def list_all_iff plain_JArr)
qed

text \<open>Every value a validator lets through is stored as it was sent.\<close>

lemma accepted_plain: "accepted key v \<Longrightarrow> plain v"
  by (auto simp: accepted_def POLICY_REGISTRY_def validate_bool_def validate_channels_def isBool_def
      isPosInt_def int_between_def intro: string_array_plain split: if_splits js.splits)

inductive policy_step :: "runtime \<Rightarrow> 'a enterprise_db_scheme \<Rightarrow> 'a enterprise_db_scheme \<Rightarrow> bool" for rt where
  set: "policy_step rt w (snd (setPolicy rt user key value w))"
| cleared: "policy_step rt w (snd (deletePolicy rt user key w))"
| integrated: "policy_step rt w (snd (createIntegration rt user dto w))"
| disintegrated: "policy_step rt w (snd (deleteIntegration rt user i w))"
| elsewhere: "policies w' = policies w \<Longrightarrow> policy_step rt w w'"

abbreviation keeps_policies :: "('a enterprise_db_scheme, 'b) prog \<Rightarrow> bool" where
  "keeps_policies m \<equiv> moves (\<lambda>w w'. policies_ok w \<longrightarrow> policies_ok w') m"

lemma policies_draws: "keeps_policies (now rt)" "keeps_policies (new_id rt)" "keeps_policies (append_evidence rt input)"
  by (simp_all add: moves_def draw_defs append_result policies_ok_def)

lemma policies_integrations:
  "keeps_policies (insert_row integrations_update g)" "keeps_policies (delete_rows integrations_update I)"
  "keeps_policies (update_row integrations integrations_update I f)"
  by (auto simp: moves_def insert_row_def delete_rows_def modify_p_def update_row_def policies_ok_def split: option.split)

text \<open>An update that keeps keys, and leaves each value or replaces it by an accepted one.\<close>

lemma update_policies:
  assumes "\<And>p. policy_key (f p) = policy_key p"
    and "\<And>p. P p \<Longrightarrow> accepted (ep_key p) (ep_value p) \<Longrightarrow> accepted (ep_key p) (ep_value (f p))"
  shows "keeps_policies (update_row policies policies_update P f)"
proof -
  have keys: "map (policy_key \<circ> (\<lambda>p. if P p then f p else p)) ps = map policy_key ps" for ps
    using assms(1) by (induction ps) auto
  have key: "ep_key (f p) = ep_key p" for p using assms(1) [of p] by (simp add: policy_key_def)
  show ?thesis
    using assms(2) by (auto simp: moves_def update_row_def policies_ok_def keys key split: option.split)
qed

lemma delete_policies: "keeps_policies (delete_rows policies_update P)"
  by (auto simp: moves_def delete_rows_def modify_p_def policies_ok_def distinct_map_filter)

lemma insert_policy:
  assumes "policies_ok w" "find (is_policy user key) (policies w) = None"
    and "accepted key v" "ep_tenantId p = au_tenantId user" "ep_key p = key" "ep_value p = v"
  shows "policies_ok (policies_update (\<lambda>ps. ps @ [p]) w)"
  using assms by (auto simp: policies_ok_def policy_key_def find_None_iff is_policy_def)

lemma upsert_policies:
  assumes "accepted key v"
  shows "keeps_policies (upsert_policy rt user key v)"
  unfolding moves_def
proof (intro allI impI)
  fix w :: "'a enterprise_db_scheme"
  assume w: "policies_ok w"
  have v: "stored_json v = v" by (rule stored_plain) (rule accepted_plain [OF assms])
  have upd: "keeps_policies (update_row policies policies_update (is_policy user key)
      (\<lambda>p. p\<lparr>ep_value := v, ep_updatedByUserId := au_userId user\<rparr>) :: ('a enterprise_db_scheme, enterprise_policy) prog)"
    by (rule update_policies) (simp_all add: policy_key_def is_policy_def assms)
  show "policies_ok (snd (upsert_policy rt user key v w))"
  proof (cases "find (is_policy user key) (policies w)")
    case None
    have "policies_ok (w\<lparr>db_tick := t\<rparr>)" for t using w by (simp add: policies_ok_def)
    from insert_policy [OF this _ assms, of user] None show ?thesis
      by (simp add: upsert_policy_def find_row_def insert_row_def new_id_def draw_def prog_core_defs v)
  next
    case (Some p)
    with upd w show ?thesis
      by (simp add: upsert_policy_def find_row_def bind_p_def ask_def v moves_def)
  qed
qed

lemmas policies_rules = keep.moves_rules keep.find_row_moves policies_draws policies_integrations
  delete_policies

lemma set_policies: "keeps_policies (setPolicy rt user key value)"
proof (cases "accepted key value")
  case True
  then obtain d where d: "map_of POLICY_REGISTRY key = Some d" "df_validate d value = None"
    by (auto simp: accepted_def)
  show ?thesis
    unfolding setPolicy_def d(1)
    by (auto simp: require_some_def d(2) policy_key_def intro!: policies_rules upsert_policies update_policies True)
next
  case False
  then show ?thesis
    unfolding setPolicy_def
    by (auto simp: require_some_def seq_p_def accepted_def intro!: policies_rules split: option.split)
qed

lemma step_policies:
  assumes "policy_step rt w w'" "policies_ok w"
  shows "policies_ok w'"
proof -
  have others: "keeps_policies (deletePolicy rt user key)" "keeps_policies (createIntegration rt user dto)"
    "keeps_policies (deleteIntegration rt user i)" for user key dto i
    unfolding deletePolicy_def createIntegration_def deleteIntegration_def by (auto intro!: policies_rules)
  from assms(1) show ?thesis
    by cases (simp_all add: assms(2) [unfolded policies_ok_def] policies_ok_def
        set_policies [unfolded moves_def, rule_format, OF assms(2), unfolded policies_ok_def]
        others [unfolded moves_def, rule_format, OF assms(2), unfolded policies_ok_def])
qed

text \<open>
  C18. The stored policies are well typed: whatever the administrators of all enterprises send, a
  tenant has at most one value per policy, its key is one of the registry, and the stored value
  is one that the validator of that key accepts.
\<close>

theorem stored_policies_valid:
  assumes "policies w = []" "(policy_step rt)\<^sup>*\<^sup>* w w'"
  shows "distinct (map policy_key (policies w')) \<and>
    (\<forall>p\<in>set (policies w'). \<exists>d. map_of POLICY_REGISTRY (ep_key p) = Some d \<and> df_validate d (ep_value p) = None)"
proof -
  have "policies_ok w'"
    using assms(2) by (induction rule: rtranclp_induct) (simp add: policies_ok_def assms(1), rule step_policies)
  then show ?thesis by (simp add: policies_ok_def accepted_def)
qed

text \<open>
  C34. A key that names an inherited property of objects, such as \<open>constructor\<close>, passes the check
  of known keys, so instead of the refusal of an unknown key the request ends in an internal
  error; nothing is written.
\<close>

theorem inherited_key_crashes:
  assumes "key \<in> set inherited_properties"
  shows "setPolicy rt user key value w = (Inl (InternalError ''validate is not a function''), w) \<and>
    isKnownPolicyKey key \<and> key \<notin> set KNOWN_POLICY_KEYS"
proof -
  have "list_all (\<lambda>k. k \<notin> set KNOWN_POLICY_KEYS) inherited_properties"
    unfolding KNOWN_POLICY_KEYS_def POLICY_REGISTRY_def inherited_properties_def by simp
  with assms have new: "key \<notin> set KNOWN_POLICY_KEYS" by (auto simp: list_all_iff)
  then have "map_of POLICY_REGISTRY key = None" by (simp add: KNOWN_POLICY_KEYS_def map_of_eq_None_iff)
  with assms new show ?thesis by (simp add: setPolicy_def isKnownPolicyKey_def prog_core_defs)
qed

section \<open>Witnesses\<close>

definition demo_enterprise :: enterprise_db where
  "demo_enterprise = billing_db.extend (demo_billing []) (enterprise_db.fields [] [])"

text \<open>A retention of a year is stored, one of a day afterwards is refused.\<close>

definition demo_stored :: enterprise_db where
  "demo_stored = snd (setPolicy demo_rt demo_user ''data_retention_days'' (JNum 365) demo_enterprise)"

definition demo_refused :: enterprise_db where
  "demo_refused = snd (setPolicy demo_rt demo_user ''data_retention_days'' (JNum 1) demo_stored)"

lemma demo_policies: "policies demo_enterprise = []"
  "\<exists>p. policies demo_refused = [p] \<and> ep_key p = ''data_retention_days'' \<and> ep_value p = JNum 365"
proof -
  show empty: "policies demo_enterprise = []"
    by (simp add: demo_enterprise_def billing_db.extend_def enterprise_db.fields_def)
  obtain d where d: "map_of POLICY_REGISTRY ''data_retention_days'' = Some d"
    "df_validate d (JNum 365) = None" "df_validate d (JNum 1) \<noteq> None"
    by (auto simp: POLICY_REGISTRY_def isPosInt_def int_between_def)
  have known: "isKnownPolicyKey ''data_retention_days''"
    by (simp add: isKnownPolicyKey_def KNOWN_POLICY_KEYS_def POLICY_REGISTRY_def)
  have "demo_refused = demo_stored"
    using d(3) by (auto simp: demo_refused_def setPolicy_def known d(1) prog_core_defs)
  moreover have "runs (setPolicy demo_rt demo_user ''data_retention_days'' (JNum 365)) demo_enterprise
      (\<lambda>_ w'. \<exists>p. policies w' = [p] \<and> ep_key p = ''data_retention_days'' \<and> ep_value p = JNum 365)"
    by (simp add: setPolicy_def upsert_policy_def known d(1,2) empty run_simps runs_stamped)
  ultimately show "\<exists>p. policies demo_refused = [p] \<and> ep_key p = ''data_retention_days'' \<and> ep_value p = JNum 365"
    by (auto simp: demo_stored_def runs_iff)
qed

theorem stored_policies_valid_witness:
  "\<exists>p d. p \<in> set (policies demo_refused) \<and> ep_value p = JNum 365 \<and>
     map_of POLICY_REGISTRY (ep_key p) = Some d \<and> df_validate d (ep_value p) = None"
proof -
  have "(policy_step demo_rt)\<^sup>*\<^sup>* demo_enterprise demo_refused"
    unfolding demo_refused_def demo_stored_def
    by (rule rtranclp.rtrancl_into_rtrancl [OF r_into_rtranclp]) (rule policy_step.set)+
  from stored_policies_valid [OF demo_policies(1) this] demo_policies(2) show ?thesis by fastforce
qed

theorem inherited_key_crashes_witness:
  "fst (setPolicy demo_rt demo_user ''constructor'' (JBool True) demo_enterprise) =
     Inl (InternalError ''validate is not a function'')"
  using inherited_key_crashes [of "''constructor''" demo_rt demo_user "JBool True" demo_enterprise]
  by (simp add: inherited_properties_def)

end
