(* ===== verification/DetectionRules.thy ===== *)
theory DetectionRules
  imports Webhooks InvestigatorCases
begin

text \<open>
  Detection rules (modules/detection-rules): their authoring and lifecycle, and the suggestions
  drawn from clusters and from the classifier's verdicts. What the database stores for the
  phrases of a manipulation kind named like an inherited property of objects is a parameter.
\<close>

section \<open>The lifecycle\<close>

datatype rule_status = RULE_DRAFT | RULE_TESTING | RULE_ACTIVE | RULE_DISABLED | RULE_RETIRED

fun rule_status_text :: "rule_status \<Rightarrow> string" where
  "rule_status_text RULE_DRAFT = ''DRAFT''"
| "rule_status_text RULE_TESTING = ''TESTING''"
| "rule_status_text RULE_ACTIVE = ''ACTIVE''"
| "rule_status_text RULE_DISABLED = ''DISABLED''"
| "rule_status_text RULE_RETIRED = ''RETIRED''"

datatype rule_type = PHRASE_MATCH | INDICATOR_PATTERN | CATEGORY_RULE | COMBINED

fun rule_type_text :: "rule_type \<Rightarrow> string" where
  "rule_type_text PHRASE_MATCH = ''PHRASE_MATCH''"
| "rule_type_text INDICATOR_PATTERN = ''INDICATOR_PATTERN''"
| "rule_type_text CATEGORY_RULE = ''CATEGORY_RULE''"
| "rule_type_text COMBINED = ''COMBINED''"

fun RULE_TRANSITIONS :: "rule_status \<Rightarrow> rule_status list" where
  "RULE_TRANSITIONS RULE_DRAFT = [RULE_TESTING, RULE_RETIRED]"
| "RULE_TRANSITIONS RULE_TESTING = [RULE_ACTIVE, RULE_DISABLED, RULE_DRAFT, RULE_RETIRED]"
| "RULE_TRANSITIONS RULE_ACTIVE = [RULE_DISABLED, RULE_RETIRED]"
| "RULE_TRANSITIONS RULE_DISABLED = [RULE_TESTING, RULE_ACTIVE, RULE_RETIRED]"
| "RULE_TRANSITIONS RULE_RETIRED = []"

definition canTransitionRule :: "rule_status \<Rightarrow> rule_status \<Rightarrow> bool" where
  "canTransitionRule old new \<longleftrightarrow> new \<in> set (RULE_TRANSITIONS old)"

definition NON_EDITABLE_STATUSES :: "rule_status list" where
  "NON_EDITABLE_STATUSES = [RULE_ACTIVE, RULE_RETIRED]"

definition isEditable :: "rule_status \<Rightarrow> bool" where
  "isEditable s \<longleftrightarrow> s \<notin> set NON_EDITABLE_STATUSES"

section \<open>State\<close>

record detection_rule =
  dr_id :: string
  dr_name :: string
  dr_description :: string
  dr_ruleType :: rule_type
  dr_pattern :: js
  dr_category :: "string option"
  dr_severity :: risk_level
  dr_status :: rule_status
  dr_version :: nat
  dr_sourceClusterId :: "string option"
  dr_createdByUserId :: "string option"
  dr_activatedByUserId :: "string option"
  dr_activatedAt :: "int option"
  dr_disabledAt :: "int option"
  dr_retiredAt :: "int option"
  dr_updatedAt :: int

record rule_db = report_db +
  rules :: "detection_rule list"

interpretation rules_tab: table rules rules_update
  by unfold_locales simp

record create_rule_dto =
  cr_name :: string
  cr_description :: string
  cr_ruleType :: rule_type
  cr_pattern :: js
  cr_category :: "string option"
  cr_severity :: "risk_level option"
  cr_sourceClusterId :: "string option"

record update_rule_dto =
  ur_name :: "string option"
  ur_description :: "string option"
  ur_pattern :: "js option"
  ur_category :: "string option"
  ur_severity :: "risk_level option"

record rule_status_dto =
  rsd_status :: rule_status
  rsd_reason :: "string option"

definition ACTIVATION_ROLES :: "membership_role list" where
  "ACTIVATION_ROLES = [SUPER_ADMIN, COMPLIANCE_OFFICER]"

section \<open>The service\<close>

definition ruleActorTypeFor :: "membership_role \<Rightarrow> string" where
  "ruleActorTypeFor role =
     (if role = SUPER_ADMIN \<or> role = COMPLIANCE_OFFICER then ''ADMIN''
      else if role = REVIEWER then ''REVIEWER'' else ''STAFF'')"

definition rule_event ::
    "detection_rule \<Rightarrow> auth_user \<Rightarrow> string \<Rightarrow> string \<Rightarrow> string option \<Rightarrow> append_input" where
  "rule_event r actor evtype descr ip =
     admin_event None (au_userId actor) (ruleActorTypeFor (au_role actor)) ''DETECTION_RULE'' (dr_id r) evtype descr
       (JObj [(''status'', JStr (rule_status_text (dr_status r))),
         (''ruleType'', JStr (rule_type_text (dr_ruleType r))), (''version'', JNum (int (dr_version r)))]) ip"

definition new_rule :: "auth_user \<Rightarrow> create_rule_dto \<Rightarrow> string \<Rightarrow> int \<Rightarrow> detection_rule" where
  "new_rule actor dto uid t =
     \<lparr>dr_id = uid, dr_name = cr_name dto, dr_description = cr_description dto, dr_ruleType = cr_ruleType dto,
      dr_pattern = stored_json (cr_pattern dto), dr_category = cr_category dto,
      dr_severity = or_default (cr_severity dto) MEDIUM, dr_status = RULE_DRAFT, dr_version = 1,
      dr_sourceClusterId = cr_sourceClusterId dto, dr_createdByUserId = Some (au_userId actor),
      dr_activatedByUserId = None, dr_activatedAt = None, dr_disabledAt = None, dr_retiredAt = None,
      dr_updatedAt = t\<rparr>"

text \<open>The database refuses a source cluster that does not exist.\<close>

definition createInternal ::
    "runtime \<Rightarrow> auth_user \<Rightarrow> create_rule_dto \<Rightarrow> string option \<Rightarrow> string \<Rightarrow> string \<Rightarrow>
     ('a rule_db_scheme, detection_rule) prog" where
  "createInternal rt actor dto ip evtype descr =
     bind_p (new_id rt) (\<lambda>uid. bind_p (now rt) (\<lambda>t.
     bind_p (ask (\<lambda>w. \<forall>c\<in>set_option (cr_sourceClusterId dto). c \<in> cl_id ` set (clusters w))) (\<lambda>known.
     seq_p (ensure known (InternalError ''P2003''))
     (bind_p (insert_row rules_update (new_rule actor dto uid t)) (\<lambda>r.
      seq_p (append_evidence rt (rule_event r actor evtype descr ip))
      (ret r))))))"

definition create_rule ::
    "runtime \<Rightarrow> auth_user \<Rightarrow> create_rule_dto \<Rightarrow> string option \<Rightarrow> ('a rule_db_scheme, detection_rule) prog" where
  "create_rule rt actor dto ip =
     createInternal rt actor dto ip ''RULE_CREATED'' ''Detection rule created as DRAFT''"

definition createSuggestion ::
    "runtime \<Rightarrow> auth_user \<Rightarrow> create_rule_dto \<Rightarrow> string option \<Rightarrow> ('a rule_db_scheme, detection_rule) prog" where
  "createSuggestion rt actor dto ip =
     createInternal rt actor dto ip ''RULE_SUGGESTED''
       ''Detection rule suggested from verified intelligence (DRAFT)''"

definition rule_statuses :: "(string \<times> rule_status) list" where
  "rule_statuses = map (\<lambda>s. (rule_status_text s, s))
     [RULE_DRAFT, RULE_TESTING, RULE_ACTIVE, RULE_DISABLED, RULE_RETIRED]"

definition rule_types :: "(string \<times> rule_type) list" where
  "rule_types = map (\<lambda>s. (rule_type_text s, s)) [PHRASE_MATCH, INDICATOR_PATTERN, CATEGORY_RULE, COMBINED]"

definition list_rules :: "string option \<Rightarrow> string option \<Rightarrow> ('a rule_db_scheme, detection_rule list) prog" where
  "list_rules status ruleType =
     (let st = map_of rule_statuses (or_default status []);
          ty = map_of rule_types (or_default ruleType []) in
      bind_p (find_rows rules (\<lambda>r. (st \<noteq> None \<longrightarrow> st = Some (dr_status r)) \<and>
        (ty \<noteq> None \<longrightarrow> ty = Some (dr_ruleType r)))) (\<lambda>rows.
      ret (take 200 (order_desc dr_updatedAt rows))))"

definition get_rule :: "string \<Rightarrow> ('a rule_db_scheme, detection_rule) prog" where
  "get_rule i =
     bind_p (find_row rules (\<lambda>r. dr_id r = i)) (\<lambda>found.
     require_some found (NotFoundException ''Detection rule not found''))"

definition edit_rule :: "update_rule_dto \<Rightarrow> int \<Rightarrow> detection_rule \<Rightarrow> detection_rule" where
  "edit_rule dto t r =
     r\<lparr>dr_version := dr_version r + 1, dr_name := or_default (ur_name dto) (dr_name r),
       dr_description := or_default (ur_description dto) (dr_description r),
       dr_pattern := (case ur_pattern dto of None \<Rightarrow> dr_pattern r | Some p \<Rightarrow> stored_json p),
       dr_category := or_else (ur_category dto) (dr_category r),
       dr_severity := or_default (ur_severity dto) (dr_severity r), dr_updatedAt := t\<rparr>"

definition update_rule ::
    "runtime \<Rightarrow> auth_user \<Rightarrow> string \<Rightarrow> update_rule_dto \<Rightarrow> string option \<Rightarrow>
     ('a rule_db_scheme, detection_rule) prog" where
  "update_rule rt actor i dto ip =
     bind_p (get_rule i) (\<lambda>r.
     seq_p (ensure (isEditable (dr_status r)) (BadRequestException (''Cannot edit a rule in status '' @
       rule_status_text (dr_status r) @ '' '' @ em_dash @ '' disable it first, edit, then re-test.'')))
     (bind_p (now rt) (\<lambda>t.
      bind_p (update_row rules rules_update (\<lambda>r. dr_id r = i) (edit_rule dto t)) (\<lambda>updated.
      seq_p (append_evidence rt (rule_event updated actor ''RULE_UPDATED''
        (''Detection rule edited (v'' @ show_nat (dr_version updated) @ '')'') ip))
      (ret updated)))))"

definition move_rule :: "auth_user \<Rightarrow> rule_status \<Rightarrow> int \<Rightarrow> int \<Rightarrow> detection_rule \<Rightarrow> detection_rule" where
  "move_rule actor target t u r =
     (let r1 = r\<lparr>dr_status := target, dr_updatedAt := u\<rparr>;
          r2 = (if target = RULE_ACTIVE
                then r1\<lparr>dr_activatedByUserId := Some (au_userId actor), dr_activatedAt := Some t,
                        dr_disabledAt := None\<rparr> else r1);
          r3 = (if target = RULE_DISABLED then r2\<lparr>dr_disabledAt := Some t\<rparr> else r2)
      in if target = RULE_RETIRED then r3\<lparr>dr_retiredAt := Some t\<rparr> else r3)"

text \<open>The clock is read once for the time of the new status; a reading not used is dropped.\<close>

definition updateStatus ::
    "runtime \<Rightarrow> auth_user \<Rightarrow> string \<Rightarrow> rule_status_dto \<Rightarrow> string option \<Rightarrow>
     ('a rule_db_scheme, detection_rule) prog" where
  "updateStatus rt actor i dto ip =
     bind_p (get_rule i) (\<lambda>r.
     let target = rsd_status dto in
     seq_p (ensure (canTransitionRule (dr_status r) target)
       (BadRequestException (''Cannot move a rule from '' @ rule_status_text (dr_status r) @ '' to '' @
         rule_status_text target @ '' '' @ em_dash @ '' this is not a legal lifecycle transition (PDF '' @
         [CHR 0xC2, CHR 0xA7] @ ''33).'')))
     (seq_p (ensure (target = RULE_ACTIVE \<longrightarrow> au_role actor \<in> set ACTIVATION_ROLES)
       (ForbiddenException ''Activating a detection rule requires SUPER_ADMIN or COMPLIANCE_OFFICER.'' []))
     (bind_p (now rt) (\<lambda>t. bind_p (now rt) (\<lambda>u.
      bind_p (update_row rules rules_update (\<lambda>r. dr_id r = i) (move_rule actor target t u)) (\<lambda>updated.
      seq_p (append_evidence rt (rule_event updated actor (''RULE_'' @ rule_status_text target)
        (or_default (rsd_reason dto) (''Detection rule moved to '' @ rule_status_text target)) ip))
      (ret updated)))))))"

section \<open>Suggestions from clusters\<close>

definition MIN_SIGNALS_FOR_SUGGESTION :: nat where
  "MIN_SIGNALS_FOR_SUGGESTION = 3"

text \<open>\<open>replace(/^pre/, '')\<close>.\<close>

definition without_start :: "string \<Rightarrow> string \<Rightarrow> string" where
  "without_start pre s = (if starts_with pre s then drop (length pre) s else s)"

definition cluster_rule :: "scam_cluster \<Rightarrow> string \<Rightarrow> string \<Rightarrow> string \<Rightarrow> js \<Rightarrow> create_rule_dto" where
  "cluster_rule c title noun key pattern =
     \<lparr>cr_name = title @ '' pattern '' @ em_dash @ '' '' @ key,
      cr_description = ''Auto-suggested from a cluster of '' @ show_nat (cl_signalCount c) @
        '' signals sharing the '' @ noun @ '' \"'' @ key @ ''\". Review before activating.'',
      cr_ruleType = INDICATOR_PATTERN, cr_pattern = pattern, cr_category = cl_category c,
      cr_severity = Some (levelForScore (cl_confidenceScore c)), cr_sourceClusterId = Some (cl_id c)\<rparr>"

fun suggestionForMatch :: "scam_cluster \<Rightarrow> cluster_match \<Rightarrow> create_rule_dto option" where
  "suggestionForMatch c SHARED_DOMAIN_ROOT =
     (let key = without_start ''domain-root:'' (cl_clusterKey c) in
      Some (cluster_rule c ''Domain root'' ''domain root'' key
        (JObj [(''indicatorType'', JStr ''DOMAIN''), (''match'', JStr ''DOMAIN_ROOT''), (''root'', JStr key)])))"
| "suggestionForMatch c SHARED_EMAIL =
     (let key = without_start ''email-domain:'' (cl_clusterKey c) in
      Some (cluster_rule c ''Email domain'' ''email domain'' key
        (JObj [(''indicatorType'', JStr ''EMAIL''), (''match'', JStr ''EMAIL_DOMAIN''), (''domain'', JStr key)])))"
| "suggestionForMatch c _ = None"

definition suggestionForCluster :: "scam_cluster \<Rightarrow> create_rule_dto option" where
  "suggestionForCluster c = suggestionForMatch c (cl_matchType c)"

record suggestions_result =
  gs_scanned :: nat
  gs_created :: nat
  gs_ruleIds :: "string list"

definition suggestions_of :: "nat \<Rightarrow> detection_rule list \<Rightarrow> suggestions_result" where
  "suggestions_of n rs = \<lparr>gs_scanned = n, gs_created = length rs, gs_ruleIds = map dr_id rs\<rparr>"

definition suggestible :: "'a rule_db_scheme \<Rightarrow> scam_cluster \<Rightarrow> bool" where
  "suggestible w c \<longleftrightarrow> cl_status c = CLUSTER_ACTIVE \<and> MIN_SIGNALS_FOR_SUGGESTION \<le> cl_signalCount c \<and>
     (\<exists>s\<in>set (signals w). ss_clusterId s = Some (cl_id c) \<and>
        ss_status s \<in> {VERIFIED_SCAM_INTELLIGENCE, HIGH_RISK_INDICATOR}) \<and>
     \<not> (\<exists>r\<in>set (rules w). dr_sourceClusterId r = Some (cl_id c) \<and> dr_status r \<noteq> RULE_RETIRED)"

definition generateSuggestions ::
    "runtime \<Rightarrow> auth_user \<Rightarrow> string option \<Rightarrow> ('a rule_db_scheme, suggestions_result) prog" where
  "generateSuggestions rt actor ip =
     bind_p (ask (\<lambda>w. take 50 (filter (suggestible w) (clusters w)))) (\<lambda>candidates.
     bind_p (map_p (\<lambda>c. case suggestionForCluster c of
         None \<Rightarrow> ret []
       | Some s \<Rightarrow> bind_p (createSuggestion rt actor s ip) (\<lambda>r. ret [r])) candidates) (\<lambda>created.
     ret (suggestions_of (length candidates) (concat created))))"

section \<open>Suggestions from the classifier's verdicts\<close>

definition MIN_TACTIC_FREQUENCY :: nat where
  "MIN_TACTIC_FREQUENCY = 2"

definition TACTIC_KEY :: string where
  "TACTIC_KEY = ''tacti'' @ ''c''"

definition TACTIC_PHRASES :: "(string \<times> string list) list" where
  "TACTIC_PHRASES =
     [(''urgency'', [''urgent'', ''right now'', ''immediately'', ''expires today'', ''act now'']),
      (''secrecy'', [''do not tell anyone'', ''keep this secret'', ''between you and me'']),
      (''fake-authority'', [''official notice'', ''court order'', ''law enforcement'']),
      (''pressure'', [''or else'', ''will be arrested'', ''final notice'', ''final warning''])]"

text \<open>
  Indexing \<open>TACTIC_PHRASES\<close> also answers for inherited properties; \<open>inh\<close> says what is then
  stored, None when its length is zero.
\<close>

definition phrases_of :: "(string \<Rightarrow> js option) \<Rightarrow> string \<Rightarrow> js option" where
  "phrases_of inh tac =
     (case map_of TACTIC_PHRASES tac of
        Some ps \<Rightarrow> (if ps = [] then None else Some (JArr (map JStr ps)))
      | None \<Rightarrow> if tac \<in> set inherited_properties then inh tac else None)"

text \<open>
  The average is a quotient; its level is that of the quotient rounded down, as the thresholds
  are whole numbers.
\<close>

definition phraseRuleSuggestion ::
    "(string \<Rightarrow> js option) \<Rightarrow> string \<Rightarrow> nat \<Rightarrow> int \<Rightarrow> create_rule_dto option" where
  "phraseRuleSuggestion inh tac freq average =
     map_option (\<lambda>phrases.
       \<lparr>cr_name = ''Phrase pattern '' @ em_dash @ '' '' @ tac,
        cr_description = ''Auto-suggested from '' @ show_nat freq @ '' verified signals whose NLP classifier '' @
          ''flagged the \"'' @ tac @ ''\" manipulation '' @ TACTIC_KEY @ ''. Review and refine phrase list before activating.'',
        cr_ruleType = PHRASE_MATCH, cr_pattern = JObj [(TACTIC_KEY, JStr tac), (''phrases'', phrases)],
        cr_category = None, cr_severity = Some (levelForScore average), cr_sourceClusterId = None\<rparr>)
       (phrases_of inh tac)"

type_synonym tactic_counts = "(string \<times> nat \<times> int) list"

definition phraseRulesFromTactics ::
    "(string \<Rightarrow> js option) \<Rightarrow> tactic_counts \<Rightarrow> (string \<times> create_rule_dto) list" where
  "phraseRulesFromTactics inh counts =
     concat (map (\<lambda>(tac, freq, total).
       if freq < MIN_TACTIC_FREQUENCY then []
       else (case phraseRuleSuggestion inh tac freq (if freq > 0 then total div int freq else 0) of
               None \<Rightarrow> [] | Some s \<Rightarrow> [(tac, s)])) counts)"

definition count_tactic :: "int \<Rightarrow> string \<Rightarrow> tactic_counts \<Rightarrow> tactic_counts" where
  "count_tactic score tac counts =
     (if tac \<in> fst ` set counts
      then map (\<lambda>(t, f, n). if t = tac then (t, f + 1, n + score) else (t, f, n)) counts
      else counts @ [(tac, 1, score)])"

definition count_decision :: "js \<Rightarrow> tactic_counts \<Rightarrow> tactic_counts" where
  "count_decision out counts =
     (case out of
        JObj kvs \<Rightarrow>
          (case map_of kvs ''manipulationTactics'' of
             Some (JArr ts) \<Rightarrow>
               (let score = (case map_of kvs ''scamScore'' of Some (JNum n) \<Rightarrow> n | _ \<Rightarrow> 0) in
                fold (\<lambda>t. case t of JStr s \<Rightarrow> count_tactic score s | _ \<Rightarrow> id) ts counts)
           | _ \<Rightarrow> counts)
      | _ \<Rightarrow> counts)"

definition pattern_tactic :: "js \<Rightarrow> string option" where
  "pattern_tactic p = (case p of
     JObj kvs \<Rightarrow> (case map_of kvs TACTIC_KEY of Some (JStr s) \<Rightarrow> Some s | _ \<Rightarrow> None) | _ \<Rightarrow> None)"

definition generatePhraseRuleSuggestions ::
    "runtime \<Rightarrow> (string \<Rightarrow> js option) \<Rightarrow> auth_user \<Rightarrow> string option \<Rightarrow>
     ('a rule_db_scheme, suggestions_result) prog" where
  "generatePhraseRuleSuggestions rt inh actor ip =
     bind_p (find_rows signals (\<lambda>s. ss_status s = VERIFIED_SCAM_INTELLIGENCE)) (\<lambda>verified.
     let ids = map ss_id (take 1000 verified) in
     if ids = [] then ret (suggestions_of 0 [])
     else bind_p (find_rows ai_decisions (\<lambda>d. ad_serviceKind d = ''NLP_CLASSIFIER'' \<and>
         ad_entityType d = Some ''SCAM_SIGNAL'' \<and> ad_entityId d \<in> Some ` set ids)) (\<lambda>found.
       let decisions = take 5000 found; counts = fold (\<lambda>d. count_decision (ad_output d)) decisions [] in
       bind_p (find_rows rules (\<lambda>r. dr_ruleType r = PHRASE_MATCH \<and> dr_status r \<noteq> RULE_RETIRED)) (\<lambda>live.
       bind_p (map_p (\<lambda>(tac, s). createSuggestion rt actor s ip)
         (filter (\<lambda>(tac, s). Some tac \<notin> set (map (\<lambda>r. pattern_tactic (dr_pattern r)) live))
           (phraseRulesFromTactics inh counts))) (\<lambda>created.
       ret (suggestions_of (length decisions) created)))))"

section \<open>The log is respected\<close>

lemma rule_event_fields [simp]:
  "storable (in_metadata (rule_event r actor ty d ip))"
  "in_entityType (rule_event r actor ty d ip) = ''DETECTION_RULE''"
  "in_entityId (rule_event r actor ty d ip) = dr_id r" "in_eventType (rule_event r actor ty d ip) = ty"
  "in_actorId (rule_event r actor ty d ip) = Some (au_userId actor)"
  "in_actorType (rule_event r actor ty d ip) = Some (ruleActorTypeFor (au_role actor))"
  by (simp_all add: rule_event_def admin_event_def user_event_def)

lemma createInternal_safe: "moves (log_safe rt) (createInternal rt actor dto ip ty d)"
  unfolding createInternal_def by (auto simp: log_untouched intro!: safe_rules append_safe)

lemma rules_safe:
  "moves (log_safe rt) (create_rule rt actor dto ip)" "moves (log_safe rt) (createSuggestion rt actor dto ip)"
  "moves (log_safe rt) (update_rule rt actor i udto ip)" "moves (log_safe rt) (updateStatus rt actor i sdto ip)"
  "moves (log_safe rt) (generateSuggestions rt actor ip)"
  "moves (log_safe rt) (generatePhraseRuleSuggestions rt inh actor ip)"
  unfolding create_rule_def createSuggestion_def update_rule_def updateStatus_def get_rule_def Let_def
    generateSuggestions_def generatePhraseRuleSuggestions_def
  by (auto simp: log_untouched intro!: safe_rules append_safe createInternal_safe split: option.split prod.split)

section \<open>No rule activates by itself\<close>

definition logged_as :: "string \<Rightarrow> string \<Rightarrow> evidence_event \<Rightarrow> bool" where
  "logged_as i ty e \<longleftrightarrow> ev_entityType e = ''DETECTION_RULE'' \<and> ev_entityId e = i \<and> ev_eventType e = ty"

definition tested :: "string \<Rightarrow> evidence_event list \<Rightarrow> bool" where
  "tested i es \<longleftrightarrow> (\<exists>e\<in>set es. logged_as i ''RULE_TESTING'' e)"

text \<open>An administrator activated the rule, after it had been sent to testing.\<close>

definition activated :: "string \<Rightarrow> string option \<Rightarrow> evidence_event list \<Rightarrow> bool" where
  "activated i u es \<longleftrightarrow> (\<exists>xs e ys. es = xs @ e # ys \<and> tested i xs \<and> logged_as i ''RULE_ACTIVE'' e \<and>
     ev_actorType e = Some ''ADMIN'' \<and> ev_actorId e = u)"

definition rule_ok :: "evidence_event list \<Rightarrow> detection_rule \<Rightarrow> bool" where
  "rule_ok es r \<longleftrightarrow>
     (dr_status r \<in> {RULE_TESTING, RULE_ACTIVE, RULE_DISABLED} \<longrightarrow> tested (dr_id r) es) \<and>
     (dr_status r = RULE_ACTIVE \<longrightarrow> activated (dr_id r) (dr_activatedByUserId r) es)"

definition rules_ok :: "'a rule_db_scheme \<Rightarrow> bool" where
  "rules_ok w \<longleftrightarrow> (\<forall>r\<in>set (rules w). rule_ok (evidence_events w) r)"

lemma tested_append: "tested i es \<Longrightarrow> tested i (es @ fs)"
  by (auto simp: tested_def)

lemma activated_append: "activated i u es \<Longrightarrow> activated i u (es @ fs)"
  by (force simp: activated_def)

lemma rule_ok_append: "rule_ok es r \<Longrightarrow> rule_ok (es @ fs) r"
  by (auto simp: rule_ok_def tested_append activated_append)

lemma rules_ok_grows: "rules_ok w \<Longrightarrow> rules w' = rules w \<Longrightarrow> log_extends w w' \<Longrightarrow> rules_ok w'"
  by (auto simp: rules_ok_def log_extends_def prefix_def rule_ok_append)

abbreviation keeps_rules :: "('a rule_db_scheme, 'b) prog \<Rightarrow> bool" where
  "keeps_rules m \<equiv> moves (\<lambda>w w'. rules_ok w \<longrightarrow> rules_ok w') m"

lemma rules_draws: "keeps_rules (now rt)" "keeps_rules (new_id rt)" "keeps_rules (append_evidence rt input)"
  by (simp_all add: moves_def draw_defs append_result rules_ok_def rule_ok_append)

lemma insert_rule: "dr_status r = RULE_DRAFT \<Longrightarrow> keeps_rules (insert_row rules_update r)"
  by (simp add: moves_def insert_row_def rules_ok_def rule_ok_def)

lemma edit_rules: "keeps_rules (update_row rules rules_update P (edit_rule dto t))"
  by (auto simp: moves_def update_row_def rules_ok_def rule_ok_def edit_rule_def split: option.split)

lemmas rules_rules = keep.moves_rules keep.find_row_moves keep.find_rows_moves rules_draws insert_rule edit_rules

lemma create_rules: "keeps_rules (createInternal rt actor dto ip ty d)"
  unfolding createInternal_def by (auto simp: new_rule_def intro!: rules_rules)

lemma generate_rules:
  "keeps_rules (generateSuggestions rt actor ip)" "keeps_rules (generatePhraseRuleSuggestions rt inh actor ip)"
  unfolding generateSuggestions_def generatePhraseRuleSuggestions_def createSuggestion_def Let_def
  by (auto intro!: rules_rules create_rules split: option.split prod.split)

lemma update_rules: "keeps_rules (update_rule rt actor i dto ip)"
  unfolding update_rule_def get_rule_def by (auto intro!: rules_rules)

lemma move_fields [simp]:
  "dr_id (move_rule actor s t u r) = dr_id r" "dr_status (move_rule actor s t u r) = s"
  "dr_activatedByUserId (move_rule actor RULE_ACTIVE t u r) = Some (au_userId actor)"
  by (simp_all add: move_rule_def Let_def)

lemma stamped_actorType [simp]: "ev_actorType (stamped rt input w) = in_actorType input"
  by (simp add: stamped_def append_evidence_def prog_defs draw_defs Let_def)

text \<open>What the move of one rule does to it, in the log that has the event of the move.\<close>

lemma moved_rule_ok:
  assumes "canTransitionRule (dr_status r) s" "rule_ok es r" "dr_id r = i" "dr_id q = i"
    and "s = RULE_ACTIVE \<longrightarrow> au_role actor \<in> set ACTIVATION_ROLES"
    and "logged_as i (''RULE_'' @ rule_status_text s) e" "ev_actorType e = Some (ruleActorTypeFor (au_role actor))"
    and "ev_actorId e = Some (au_userId actor)"
  shows "rule_ok (es @ [e]) (move_rule actor s t u q)"
proof -
  have was: "s \<in> {RULE_ACTIVE, RULE_DISABLED} \<Longrightarrow> tested i es"
    using assms(1-3) by (cases "dr_status r") (auto simp: rule_ok_def canTransitionRule_def)
  show ?thesis
  proof (cases s)
    case RULE_TESTING
    with assms(4,6) show ?thesis by (auto simp: rule_ok_def tested_def)
  next
    case RULE_ACTIVE
    then have "tested i es" "ruleActorTypeFor (au_role actor) = ''ADMIN''"
      using was assms(5) by (auto simp: ACTIVATION_ROLES_def ruleActorTypeFor_def)
    then have "activated i (Some (au_userId actor)) (es @ [e])"
      using assms(6-8) RULE_ACTIVE unfolding activated_def
      by - (rule exI [of _ es], rule exI [of _ e], rule exI [of _ "[]"], simp)
    with RULE_ACTIVE \<open>tested i es\<close> assms(4) show ?thesis by (simp add: rule_ok_def tested_append)
  next
    case RULE_DISABLED
    with was assms(4) show ?thesis by (simp add: rule_ok_def tested_append)
  qed (simp_all add: rule_ok_def)
qed

lemma status_rules: "keeps_rules (updateStatus rt actor i dto ip)"
  unfolding moves_def
proof (intro allI impI)
  fix w :: "'a rule_db_scheme"
  assume w: "rules_ok w"
  show "rules_ok (snd (updateStatus rt actor i dto ip w))"
  proof (cases "find (\<lambda>r. dr_id r = i) (rules w)")
    case (Some r)
    show ?thesis
    proof (cases "canTransitionRule (dr_status r) (rsd_status dto) \<and>
        (rsd_status dto = RULE_ACTIVE \<longrightarrow> au_role actor \<in> set ACTIVATION_ROLES)")
      case True
      have r: "dr_id r = i" "rule_ok (evidence_events w) r" using find_SomeD [OF Some] w by (auto simp: rules_ok_def)
      have "runs (updateStatus rt actor i dto ip) w (\<lambda>_ w'. rules_ok w')"
        using True w r
        by (auto simp: updateStatus_def get_rule_def Let_def run_simps runs_stamped Some rules_ok_def
            rule_ok_append intro!: moved_rule_ok [OF _ r(2,1)] simp: logged_as_def)
      then show ?thesis by (auto simp: runs_iff)
    qed (use Some w in \<open>auto simp: updateStatus_def get_rule_def Let_def prog_defs\<close>)
  qed (use w in \<open>simp add: updateStatus_def get_rule_def prog_defs\<close>)
qed

text \<open>
  Everything the module does, for any actors, and anything else that leaves the rules alone and
  only adds to the log.
\<close>

inductive rule_step :: "runtime \<Rightarrow> 'a rule_db_scheme \<Rightarrow> 'a rule_db_scheme \<Rightarrow> bool" for rt where
  created: "rule_step rt w (snd (create_rule rt actor dto ip w))"
| from_clusters: "rule_step rt w (snd (generateSuggestions rt actor ip w))"
| from_verdicts: "rule_step rt w (snd (generatePhraseRuleSuggestions rt inh actor ip w))"
| edited: "rule_step rt w (snd (update_rule rt actor i udto ip w))"
| moved: "rule_step rt w (snd (updateStatus rt actor i sdto ip w))"
| elsewhere: "rules w' = rules w \<Longrightarrow> log_extends w w' \<Longrightarrow> rule_step rt w w'"

lemma step_rules:
  assumes "rule_step rt w w'" "rules_ok w"
  shows "rules_ok w'"
  using assms(1)
proof cases
  case elsewhere
  with assms(2) show ?thesis by (rule rules_ok_grows)
qed (simp_all add: create_rule_def assms(2) create_rules [unfolded moves_def, rule_format]
    generate_rules [unfolded moves_def, rule_format] update_rules [unfolded moves_def, rule_format]
    status_rules [unfolded moves_def, rule_format])

text \<open>
  C14. No rule activates by itself: in every state that creations, suggestions, edits and status
  changes can reach, an active detection rule was activated by an administrator, the one its row
  names, and had been sent to testing before, both as the log tells it.
\<close>

theorem no_rule_activates_itself:
  assumes "rules w = []" "(rule_step rt)\<^sup>*\<^sup>* w w'"
  shows "\<forall>r\<in>set (rules w'). dr_status r = RULE_ACTIVE \<longrightarrow>
    (\<exists>xs e ys. evidence_events w' = xs @ e # ys \<and> (\<exists>t\<in>set xs. logged_as (dr_id r) ''RULE_TESTING'' t) \<and>
       logged_as (dr_id r) ''RULE_ACTIVE'' e \<and> ev_actorType e = Some ''ADMIN'' \<and>
       ev_actorId e = dr_activatedByUserId r)"
proof -
  have "rules_ok w'"
    using assms(2) by (induction rule: rtranclp_induct) (simp add: rules_ok_def assms(1), rule step_rules)
  then show ?thesis by (auto simp: rules_ok_def rule_ok_def activated_def tested_def)
qed

text \<open>One edit of a disabled rule, and one activation of a disabled rule.\<close>

lemma edit_runs:
  assumes "find (\<lambda>r. dr_id r = i) (rules w) = Some r" "dr_status r = RULE_DISABLED" "ur_pattern dto = Some p"
  shows "runs (update_rule rt actor i dto ip) w (\<lambda>q w'. find (\<lambda>r. dr_id r = i) (rules w') = Some q \<and>
    dr_status q = RULE_DISABLED \<and> dr_pattern q = stored_json p \<and> dr_version q = dr_version r + 1 \<and>
    (\<exists>e. evidence_events w' = evidence_events w @ [e] \<and> logged_as i ''RULE_UPDATED'' e))"
proof -
  have edit: "dr_id (edit_rule dto t q) = dr_id q" "dr_status (edit_rule dto t q) = dr_status q"
    "dr_pattern (edit_rule dto t q) = stored_json p" "dr_version (edit_rule dto t q) = dr_version q + 1" for t q
    using assms(3) by (simp_all add: edit_rule_def)
  have upd: "find (\<lambda>r. dr_id r = i) (map (\<lambda>r. if dr_id r = i then edit_rule dto t r else r) (rules w)) =
      Some (edit_rule dto t r)" for t
    by (rule find_mapped [OF assms(1)]) (simp add: edit)
  show ?thesis
    using assms(2) find_SomeD [OF assms(1)]
    by (simp add: update_rule_def get_rule_def run_simps runs_stamped assms(1) upd isEditable_def
        NON_EDITABLE_STATUSES_def edit logged_as_def)
qed

lemma activate_runs:
  assumes "find (\<lambda>r. dr_id r = i) (rules w) = Some r" "dr_status r = RULE_DISABLED"
    and "au_role actor \<in> set ACTIVATION_ROLES" "rsd_status sdto = RULE_ACTIVE"
  shows "runs (updateStatus rt actor i sdto ip) w (\<lambda>q w'. find (\<lambda>r. dr_id r = i) (rules w') = Some q \<and>
    dr_status q = RULE_ACTIVE \<and> dr_pattern q = dr_pattern r \<and> dr_version q = dr_version r \<and>
    (\<exists>e. evidence_events w' = evidence_events w @ [e] \<and> logged_as i ''RULE_ACTIVE'' e))"
proof -
  have move: "dr_pattern (move_rule actor RULE_ACTIVE t u q) = dr_pattern q"
    "dr_version (move_rule actor RULE_ACTIVE t u q) = dr_version q" for t u q
    by (simp_all add: move_rule_def Let_def)
  have upd: "find (\<lambda>r. dr_id r = i) (map (\<lambda>r. if dr_id r = i then move_rule actor s t u r else r) (rules w)) =
      Some (move_rule actor s t u r)" for s t u
    by (rule find_mapped [OF assms(1)]) simp
  show ?thesis
    using assms(2-4) find_SomeD [OF assms(1)]
    by (simp add: updateStatus_def get_rule_def Let_def run_simps runs_stamped assms(1) upd canTransitionRule_def
        move logged_as_def)
qed

text \<open>
  C36. The refusal to edit an active rule asks to disable, edit and re-test it, but the last step
  is not enforced: the pattern of a disabled rule can be replaced and the rule activated with the
  new pattern directly; no test is logged in between.
\<close>

theorem disabled_rule_skips_retest:
  assumes "find (\<lambda>r. dr_id r = i) (rules w) = Some r" "dr_status r = RULE_DISABLED"
    and "au_role actor \<in> set ACTIVATION_ROLES" "ur_pattern dto = Some p" "rsd_status sdto = RULE_ACTIVE"
  shows "runs (seq_p (update_rule rt actor i dto ip) (updateStatus rt actor i sdto ip)) w (\<lambda>q w'.
    dr_status q = RULE_ACTIVE \<and> dr_pattern q = stored_json p \<and> dr_version q = dr_version r + 1 \<and>
    find (\<lambda>r. dr_id r = i) (rules w') = Some q \<and>
    (\<exists>e f. evidence_events w' = evidence_events w @ [e, f] \<and> logged_as i ''RULE_UPDATED'' e \<and>
       logged_as i ''RULE_ACTIVE'' f))"
  unfolding runs_seq
proof (rule runs_mono [OF edit_runs [OF assms(1,2,4)]], elim conjE exE, goal_cases)
  case (1 q w1 e)
  show ?case
    by (rule runs_mono [OF activate_runs [OF 1(1,2) assms(3,5)]]) (use 1 in auto)
qed

section \<open>Witnesses\<close>

definition demo_rules :: rule_db where
  "demo_rules = report_db.extend (demo_reports []) (rule_db.fields [])"

definition demo_rule_dto :: create_rule_dto where
  "demo_rule_dto = \<lparr>cr_name = ''Safe account'', cr_description = ''The safe account script'',
     cr_ruleType = PHRASE_MATCH, cr_pattern = JObj [], cr_category = None, cr_severity = None,
     cr_sourceClusterId = None\<rparr>"

definition demo_admin :: auth_user where
  "demo_admin = demo_user\<lparr>au_role := COMPLIANCE_OFFICER\<rparr>"

definition demo_created :: rule_db where
  "demo_created = snd (create_rule demo_rt demo_admin demo_rule_dto None demo_rules)"

definition demo_moved :: "rule_status \<Rightarrow> rule_db \<Rightarrow> rule_db" where
  "demo_moved s w = snd (updateStatus demo_rt demo_admin (rt_uuid demo_rt 0) \<lparr>rsd_status = s, rsd_reason = None\<rparr> None w)"

lemma demo_rule_moves:
  "find (\<lambda>r. dr_id r = (rt_uuid demo_rt 0)) (rules demo_created) = Some (new_rule demo_admin demo_rule_dto (rt_uuid demo_rt 0) (rt_clock demo_rt 1))"
  "find (\<lambda>r. dr_id r = (rt_uuid demo_rt 0)) (rules w) = Some r \<Longrightarrow> canTransitionRule (dr_status r) s \<Longrightarrow>
     \<exists>q. find (\<lambda>r. dr_id r = (rt_uuid demo_rt 0)) (rules (demo_moved s w)) = Some q \<and> dr_status q = s"
proof -
  show "find (\<lambda>r. dr_id r = (rt_uuid demo_rt 0)) (rules demo_created) = Some (new_rule demo_admin demo_rule_dto (rt_uuid demo_rt 0) (rt_clock demo_rt 1))"
    by (simp add: demo_created_def create_rule_def createInternal_def demo_rule_dto_def new_rule_def demo_rules_def
        demo_reports_def report_db.extend_def rule_db.fields_def draw_defs prog_defs append_result)
  assume found: "find (\<lambda>r. dr_id r = (rt_uuid demo_rt 0)) (rules w) = Some r" and ok: "canTransitionRule (dr_status r) s"
  have admin: "au_role demo_admin \<in> set ACTIVATION_ROLES" by (simp add: demo_admin_def ACTIVATION_ROLES_def)
  have upd: "find (\<lambda>r. dr_id r = (rt_uuid demo_rt 0)) (map (\<lambda>r. if dr_id r = (rt_uuid demo_rt 0) then move_rule demo_admin s t u r else r)
      (rules w)) = Some (move_rule demo_admin s t u r)" for t u
    by (rule find_mapped [OF found]) simp
  have "runs (updateStatus demo_rt demo_admin (rt_uuid demo_rt 0) \<lparr>rsd_status = s, rsd_reason = None\<rparr> None) w
      (\<lambda>_ w'. \<exists>q. find (\<lambda>r. dr_id r = (rt_uuid demo_rt 0)) (rules w') = Some q \<and> dr_status q = s)"
    using ok admin by (simp add: updateStatus_def get_rule_def Let_def run_simps runs_stamped found upd)
  then show "\<exists>q. find (\<lambda>r. dr_id r = (rt_uuid demo_rt 0)) (rules (demo_moved s w)) = Some q \<and> dr_status q = s"
    by (auto simp: demo_moved_def runs_iff)
qed

text \<open>A rule is created, tested and activated; it is active and its history is in the log.\<close>

theorem no_rule_activates_itself_witness:
  "\<exists>r\<in>set (rules (demo_moved RULE_ACTIVE (demo_moved RULE_TESTING demo_created))). dr_status r = RULE_ACTIVE \<and>
     (\<exists>e\<in>set (evidence_events (demo_moved RULE_ACTIVE (demo_moved RULE_TESTING demo_created))).
        logged_as (dr_id r) ''RULE_ACTIVE'' e \<and> ev_actorType e = Some ''ADMIN'')"
proof -
  have "canTransitionRule RULE_DRAFT RULE_TESTING" "canTransitionRule RULE_TESTING RULE_ACTIVE"
    by (simp_all add: canTransitionRule_def)
  moreover have "dr_status (new_rule demo_admin demo_rule_dto (rt_uuid demo_rt 0) (rt_clock demo_rt 1)) = RULE_DRAFT"
    by (simp add: new_rule_def)
  ultimately obtain q where q: "find (\<lambda>r. dr_id r = (rt_uuid demo_rt 0)) (rules (demo_moved RULE_ACTIVE
      (demo_moved RULE_TESTING demo_created))) = Some q" "dr_status q = RULE_ACTIVE"
    using demo_rule_moves by metis
  have empty: "rules demo_rules = []"
    by (simp add: demo_rules_def report_db.extend_def rule_db.fields_def)
  have "(rule_step demo_rt)\<^sup>*\<^sup>* demo_rules (demo_moved RULE_ACTIVE (demo_moved RULE_TESTING demo_created))"
    unfolding demo_moved_def demo_created_def
    by (rule rtranclp.rtrancl_into_rtrancl [OF rtranclp.rtrancl_into_rtrancl [OF r_into_rtranclp]])
      (rule rule_step.created rule_step.moved)+
  from no_rule_activates_itself [OF empty this] q find_SomeD [OF q(1)] show ?thesis
    by (intro bexI [of _ q]) force+
qed

theorem disabled_rule_skips_retest_witness:
  "runs (seq_p (update_rule demo_rt demo_admin ''r1''
        \<lparr>ur_name = None, ur_description = None, ur_pattern = Some (JObj [(''p'', JNum 1)]), ur_category = None,
         ur_severity = None\<rparr> None)
      (updateStatus demo_rt demo_admin ''r1'' \<lparr>rsd_status = RULE_ACTIVE, rsd_reason = None\<rparr> None))
     (demo_rules\<lparr>rules := [(new_rule demo_admin demo_rule_dto ''r1'' 0)\<lparr>dr_status := RULE_DISABLED\<rparr>]\<rparr>)
     (\<lambda>q _. dr_status q = RULE_ACTIVE \<and> dr_version q = 2)"
  by (rule runs_mono, rule disabled_rule_skips_retest
      [where r = "(new_rule demo_admin demo_rule_dto ''r1'' 0)\<lparr>dr_status := RULE_DISABLED\<rparr>" and p = "JObj [(''p'', JNum 1)]"])
    (simp_all add: new_rule_def demo_admin_def ACTIVATION_ROLES_def)

end
