(* ===== verification/IdentityCollision.thy ===== *)
theory IdentityCollision
  imports FraudGraph RiskHub
begin

text \<open>
  The two searches of the identity graph (modules/identity-graph): the masked list for reviewers
  and the consumer's collision report. The database's containment test that ignores case is a
  parameter; the dates of the report are kept as numbers.
\<close>

section \<open>The reviewers' search\<close>

record search_graph_dto =
  gq_q :: string
  gq_nodeTypes :: "node_type list"
  gq_indicatorType :: "indicator_type option"
  gq_limit :: "int option"

text \<open>\<open>like text q\<close>: the text contains the query, whatever the case of either.\<close>

type_synonym containment = "string \<Rightarrow> string \<Rightarrow> bool"

definition mentions :: "containment \<Rightarrow> string \<Rightarrow> graph_node \<Rightarrow> bool" where
  "mentions like q n \<longleftrightarrow> like (gn_label n) q \<or>
     (case gn_normalizedIndicator n of None \<Rightarrow> False | Some v \<Rightarrow> like v q)"

definition searchGraph ::
    "containment \<Rightarrow> search_graph_dto \<Rightarrow> ('a graph_db_scheme, masked_node list) prog" where
  "searchGraph like dto =
     (let limit = min (max (or_default (gq_limit dto) 50) 1) 200; q = to_lower (gq_q dto) in
      bind_p (find_rows graph_nodes (\<lambda>n. mentions like q n \<and>
        (gq_nodeTypes dto \<noteq> [] \<longrightarrow> gn_nodeType n \<in> set (gq_nodeTypes dto)) \<and>
        (gq_indicatorType dto \<noteq> None \<longrightarrow> gn_indicatorType n = gq_indicatorType dto))) (\<lambda>rows.
      ret (map toMaskedSearchResult
        (take (nat limit) (order_desc gn_riskScore (order_desc gn_signalCount rows))))))"

section \<open>The consumer's search\<close>

datatype collision_type =
    BY_NAME | BY_PHONE | BY_EMAIL | BY_WALLET | BY_DOMAIN | BY_HANDLE | BY_IMAGE | BY_VOICE | BY_PHRASE

record collision_dto =
  cqd_query :: string
  cqd_searchType :: collision_type

fun HUMAN_LABEL :: "collision_type \<Rightarrow> string" where
  "HUMAN_LABEL BY_NAME = ''Name''"
| "HUMAN_LABEL BY_PHONE = ''Phone Number''"
| "HUMAN_LABEL BY_EMAIL = ''Email Address''"
| "HUMAN_LABEL BY_WALLET = ''Crypto Wallet''"
| "HUMAN_LABEL BY_DOMAIN = ''Website / Domain''"
| "HUMAN_LABEL BY_HANDLE = ''Social Media Handle''"
| "HUMAN_LABEL BY_IMAGE = ''Profile Image''"
| "HUMAN_LABEL BY_VOICE = ''Voice Sample''"
| "HUMAN_LABEL BY_PHRASE = ''Script Phrase''"

definition ROLE_BY_TYPE :: "(string \<times> string) list" where
  "ROLE_BY_TYPE =
     [(''handle'', ''Linked identity''), (''phone'', ''Contact number''), (''wallet'', ''Payment destination''),
      (''domain'', ''Linked domain / site''), (''email'', ''Email used''), (''image'', ''Profile photo reuse''),
      (''voice'', ''Voice sample match''), (''phrase'', ''Script phrase match'')]"

fun TYPE_FILTER :: "collision_type \<Rightarrow> graph_node \<Rightarrow> bool" where
  "TYPE_FILTER BY_NAME n = True"
| "TYPE_FILTER BY_PHONE n = (gn_indicatorType n = Some IT_PHONE)"
| "TYPE_FILTER BY_EMAIL n = (gn_indicatorType n = Some IT_EMAIL)"
| "TYPE_FILTER BY_WALLET n = (gn_indicatorType n = Some IT_CRYPTO_WALLET)"
| "TYPE_FILTER BY_DOMAIN n = (gn_indicatorType n \<in> {Some IT_DOMAIN, Some IT_URL})"
| "TYPE_FILTER BY_HANDLE n = (gn_nodeType n = NT_PROFILE \<or> gn_indicatorType n = Some IT_SOCIAL_PROFILE)"
| "TYPE_FILTER BY_IMAGE n = (gn_nodeType n = NT_FACE_SIGNAL)"
| "TYPE_FILTER BY_VOICE n = (gn_nodeType n = NT_VOICE_SIGNAL)"
| "TYPE_FILTER BY_PHRASE n = (gn_nodeType n = NT_SCRIPT_PATTERN \<or> gn_indicatorType n = Some IT_SCAM_PHRASE)"

fun indicatorToFrontendType :: "indicator_type option \<Rightarrow> string" where
  "indicatorToFrontendType (Some IT_PHONE) = ''phone''"
| "indicatorToFrontendType (Some IT_EMAIL) = ''email''"
| "indicatorToFrontendType (Some IT_DOMAIN) = ''domain''"
| "indicatorToFrontendType (Some IT_URL) = ''domain''"
| "indicatorToFrontendType (Some IT_CRYPTO_WALLET) = ''wallet''"
| "indicatorToFrontendType (Some IT_SCAM_PHRASE) = ''phrase''"
| "indicatorToFrontendType _ = ''handle''"

fun frontend_of :: "node_type \<Rightarrow> indicator_type option \<Rightarrow> string" where
  "frontend_of NT_PROFILE i = ''handle''"
| "frontend_of NT_ACTOR i = ''handle''"
| "frontend_of NT_FACE_SIGNAL i = ''image''"
| "frontend_of NT_VOICE_SIGNAL i = ''voice''"
| "frontend_of NT_SCRIPT_PATTERN i = ''phrase''"
| "frontend_of NT_PAYMENT_REQUEST i = ''wallet''"
| "frontend_of NT_GIFT_CARD_REQUEST i = ''wallet''"
| "frontend_of NT_IP_RANGE i = ''domain''"
| "frontend_of NT_INDICATOR i = indicatorToFrontendType i"
| "frontend_of _ i = ''handle''"

definition frontendNodeType :: "graph_node \<Rightarrow> string" where
  "frontendNodeType n = frontend_of (gn_nodeType n) (gn_indicatorType n)"

datatype risk_band = BAND_CRITICAL | BAND_HIGH | BAND_MEDIUM | BAND_LOW

definition riskBand :: "int \<Rightarrow> risk_band" where
  "riskBand score = (if score \<ge> 80 then BAND_CRITICAL else if score \<ge> 60 then BAND_HIGH
     else if score \<ge> 40 then BAND_MEDIUM else BAND_LOW)"

record collision_node =
  cnd_type :: string
  cnd_value :: string
  cnd_role :: string
  cnd_risk :: risk_band

definition node_mask :: "graph_node \<Rightarrow> string" where
  "node_mask n = mask_node (gn_nodeType n) (gn_normalizedIndicator n) (gn_displayMask n) (gn_label n)"

definition toCollisionNode :: "string option \<Rightarrow> graph_node \<Rightarrow> collision_node" where
  "toCollisionNode role n =
     (let ty = frontendNodeType n in
      \<lparr>cnd_type = ty, cnd_value = node_mask n,
       cnd_role = or_default role (or_default (map_of ROLE_BY_TYPE ty) []), cnd_risk = riskBand (gn_riskScore n)\<rparr>)"

record collision_result =
  co_found :: bool
  co_query :: string
  co_queryType :: string
  co_matchCount :: nat
  co_clusterName :: "string option"
  co_riskScore :: int
  co_nodes :: "collision_node list"
  co_victimReports :: int
  co_linkedClusters :: "string list"
  co_firstSeen :: "int option"
  co_lastActive :: "int option"

definition SEED_CANDIDATES :: nat where "SEED_CANDIDATES = 5"

definition MAX_NODES :: nat where "MAX_NODES = 24"

definition buildWhere :: "containment \<Rightarrow> string \<Rightarrow> collision_type \<Rightarrow> graph_node \<Rightarrow> bool" where
  "buildWhere like q ty n \<longleftrightarrow> mentions like q n \<and> TYPE_FILTER ty n"

text \<open>The ends of the edges at the frontier that are not yet known, in order, each once.\<close>

definition next_ids :: "string list \<Rightarrow> string list \<Rightarrow> graph_edge list \<Rightarrow> string list" where
  "next_ids frontier known es =
     distinct_in_order (filter (\<lambda>i. i \<notin> set known) (concat (map (\<lambda>e. [ge_source e, ge_target e])
       (filter (\<lambda>e. ge_source e \<in> set frontier \<or> ge_target e \<in> set frontier) es))))"

text \<open>The collected nodes have different identifiers, so the map of the source is a list here.\<close>

fun walk :: "nat \<Rightarrow> graph_node list \<Rightarrow> string list \<Rightarrow> ('a graph_db_scheme, graph_node list) prog" where
  "walk 0 byId frontier = ret byId"
| "walk (Suc hops) byId frontier =
     (if length byId \<ge> MAX_NODES then ret byId
      else bind_p (ask (\<lambda>w. next_ids frontier (map gn_id byId) (graph_edges w))) (\<lambda>nextIds.
        let fetchIds = take (MAX_NODES - length byId) nextIds in
        if nextIds = [] then ret byId
        else if fetchIds = [] then ret byId
        else bind_p (find_rows graph_nodes (\<lambda>n. gn_id n \<in> set fetchIds)) (\<lambda>fetched.
          walk hops (byId @ fetched) (map gn_id fetched))))"

definition collectNeighbourhood :: "graph_node \<Rightarrow> ('a graph_db_scheme, graph_node list) prog" where
  "collectNeighbourhood seed = walk 2 [seed] [gn_id seed]"

definition no_collision :: "string \<Rightarrow> collision_type \<Rightarrow> collision_result" where
  "no_collision q ty = \<lparr>co_found = False, co_query = q, co_queryType = HUMAN_LABEL ty, co_matchCount = 0,
     co_clusterName = None, co_riskScore = 0, co_nodes = [], co_victimReports = 0, co_linkedClusters = [],
     co_firstSeen = None, co_lastActive = None\<rparr>"

definition is_campaign :: "graph_node \<Rightarrow> bool" where
  "is_campaign n \<longleftrightarrow> gn_nodeType n = NT_CAMPAIGN"

definition collision_report ::
    "string \<Rightarrow> collision_type \<Rightarrow> graph_node \<Rightarrow> graph_node list \<Rightarrow> collision_result" where
  "collision_report q ty seed collected =
     (let campaigns = filter is_campaign collected;
          members = filter (\<lambda>n. \<not> is_campaign n \<and> gn_id n \<noteq> gn_id seed) collected;
          linked = distinct_in_order (filter (\<lambda>l. l \<noteq> []) (map gn_label (order_desc gn_riskScore campaigns)));
          nodes = toCollisionNode (Some ''Primary identifier'') seed # map (toCollisionNode None) members;
          all_nodes = seed # members @ campaigns
      in \<lparr>co_found = True, co_query = q, co_queryType = HUMAN_LABEL ty, co_matchCount = length nodes,
          co_clusterName = first_of linked,
          co_riskScore = fold max (map gn_riskScore campaigns @ [0]) (gn_riskScore seed),
          co_nodes = nodes,
          co_victimReports = gn_signalCount seed + sum_list (map gn_signalCount members),
          co_linkedClusters = linked,
          co_firstSeen = Some (Min (set (map gn_firstSeen all_nodes))),
          co_lastActive = Some (Max (set (map gn_lastSeen all_nodes)))\<rparr>)"

text \<open>The first of the candidates: highest risk, then most signals.\<close>

definition best_seed :: "graph_node list \<Rightarrow> graph_node option" where
  "best_seed rows = first_of (take SEED_CANDIDATES (order_desc gn_riskScore (order_desc gn_signalCount rows)))"

definition collisionSearch ::
    "containment \<Rightarrow> collision_dto \<Rightarrow> ('a graph_db_scheme, collision_result) prog" where
  "collisionSearch like dto =
     (let q = trim (cqd_query dto) in
      bind_p (find_rows graph_nodes (buildWhere like q (cqd_searchType dto))) (\<lambda>rows.
      case best_seed rows of
        None \<Rightarrow> ret (no_collision q (cqd_searchType dto))
      | Some seed \<Rightarrow>
          bind_p (collectNeighbourhood seed) (\<lambda>collected.
          ret (collision_report q (cqd_searchType dto) seed collected))))"

section \<open>The consumer sees masks only\<close>

text \<open>All that the report may depend on, apart from which nodes match the query.\<close>

definition public_view ::
    "graph_node \<Rightarrow> string \<times> node_type \<times> string \<times> string \<times> string \<times> int \<times> int \<times> int \<times> int" where
  "public_view n = (gn_id n, gn_nodeType n, frontendNodeType n, node_mask n,
     if is_campaign n then gn_label n else [], gn_riskScore n, gn_signalCount n, gn_firstSeen n, gn_lastSeen n)"

lemma order_desc_map:
  assumes "\<And>x. key (g x) = key x"
  shows "order_desc key (map g xs) = map g (order_desc key xs)"
proof -
  have insort: "insort_key (\<lambda>x. - key x) (g x) (map g ys) = map g (insort_key (\<lambda>x. - key x) x ys)" for x ys
    by (induction ys) (simp_all add: assms)
  show ?thesis unfolding order_desc_def by (induction xs) (simp_all add: insort)
qed

lemma filter_through: "(\<And>x. P (g x) = P x) \<Longrightarrow> filter P (map g xs) = map g (filter P xs)"
  by (induction xs) auto

locale same_views =
  fixes g :: "graph_node \<Rightarrow> graph_node"
  assumes view: "public_view (g n) = public_view n"
begin

lemma fields: "gn_id (g n) = gn_id n" "is_campaign (g n) = is_campaign n" "gn_riskScore (g n) = gn_riskScore n"
  "gn_signalCount (g n) = gn_signalCount n" "gn_firstSeen (g n) = gn_firstSeen n" "gn_lastSeen (g n) = gn_lastSeen n"
  "is_campaign n \<Longrightarrow> gn_label (g n) = gn_label n" "toCollisionNode role (g n) = toCollisionNode role n"
  using view [of n] by (auto simp: public_view_def is_campaign_def toCollisionNode_def Let_def split: if_splits)

lemma ids: "map gn_id (map g ns) = map gn_id ns"
  by (simp add: fields comp_def)

lemma walk_same:
  "\<exists>xs. walk hops b frontier w = (Inr xs, w) \<and>
     walk hops (map g b) frontier (graph_nodes_update (map g) w) = (Inr (map g xs), graph_nodes_update (map g) w)"
proof (induction hops arbitrary: b frontier)
  case 0
  show ?case by (simp add: ret_def)
next
  case (Suc hops)
  let ?next = "next_ids frontier (map gn_id b) (graph_edges w)"
  let ?fetch = "take (MAX_NODES - length b) ?next"
  let ?found = "filter (\<lambda>n. gn_id n \<in> set ?fetch) (graph_nodes w)"
  have found: "filter (\<lambda>n. gn_id n \<in> set ?fetch) (map g (graph_nodes w)) = map g ?found"
    by (rule filter_through) (simp add: fields)
  from Suc [of "b @ ?found" "map gn_id ?found"] found show ?case
    by (auto simp: Let_def bind_p_def ask_def ret_def find_rows_def ids simp del: map_map)
qed

lemma labels: "\<forall>n\<in>set ns. is_campaign n \<Longrightarrow> map gn_label (map g ns) = map gn_label ns"
  by (induction ns) (simp_all add: fields)

lemma report_same: "collision_report q ty (g seed) (map g ns) = collision_report q ty seed ns"
proof -
  have c: "filter is_campaign (map g ns) = map g (filter is_campaign ns)"
    by (rule filter_through) (simp add: fields)
  have m: "filter (\<lambda>n. \<not> is_campaign n \<and> gn_id n \<noteq> gn_id (g seed)) (map g ns) =
      map g (filter (\<lambda>n. \<not> is_campaign n \<and> gn_id n \<noteq> gn_id seed) ns)"
    by (simp add: fields filter_through)
  have l: "map gn_label (order_desc gn_riskScore (map g (filter is_campaign ns))) =
      map gn_label (order_desc gn_riskScore (filter is_campaign ns))"
    by (simp only: order_desc_map [of gn_riskScore, OF fields(3)], rule labels) simp
  show ?thesis
    unfolding collision_report_def Let_def c m l
    by (simp add: fields comp_def image_image image_Un)
qed

lemma search_same:
  assumes "\<And>n. n \<in> set (graph_nodes w) \<Longrightarrow>
      buildWhere like (trim (cqd_query dto)) (cqd_searchType dto) (g n) =
      buildWhere like (trim (cqd_query dto)) (cqd_searchType dto) n"
  shows "fst (collisionSearch like dto (graph_nodes_update (map g) w)) = fst (collisionSearch like dto w)"
proof -
  let ?P = "buildWhere like (trim (cqd_query dto)) (cqd_searchType dto)"
  have rows: "filter ?P (map g ns) = map g (filter ?P ns)" if "set ns \<subseteq> set (graph_nodes w)" for ns
    using that assms by (induction ns) auto
  have seed: "best_seed (map g ns) = map_option g (best_seed ns)" for ns
    by (simp add: best_seed_def order_desc_map fields take_map first_of_def split: list.split)
  show ?thesis
  proof (cases "best_seed (filter ?P (graph_nodes w))")
    case None
    then show ?thesis
      by (simp add: collisionSearch_def Let_def bind_p_def find_rows_def ask_def ret_def rows seed)
  next
    case (Some n)
    from walk_same [of 2 "[n]" "[gn_id n]" w] obtain xs where
      "collectNeighbourhood n w = (Inr xs, w)"
      "collectNeighbourhood (g n) (graph_nodes_update (map g) w) = (Inr (map g xs), graph_nodes_update (map g) w)"
      by (auto simp: collectNeighbourhood_def fields)
    with Some show ?thesis
      by (simp add: collisionSearch_def Let_def bind_p_def find_rows_def ask_def ret_def report_same rows seed)
  qed
qed

end

text \<open>The graph with every raw value replaced by its mask looks the same.\<close>

definition redact :: "graph_node \<Rightarrow> graph_node" where
  "redact n = n\<lparr>gn_normalizedIndicator := None, gn_displayMask := Some (node_mask n),
     gn_label := (if is_campaign n then gn_label n else [])\<rparr>"

lemma campaign_mask: "is_campaign n \<Longrightarrow> node_mask n = [] \<Longrightarrow> gn_label n = []"
  by (simp add: node_mask_def mask_node_def is_campaign_def SENSITIVE_TYPES_def indicator_mask_def
      split: option.splits list.splits)

lemma redact_mask: "node_mask (redact n) = node_mask n"
proof -
  have "node_mask (redact n) = (case node_mask n of [] \<Rightarrow> gn_label (redact n) | c # cs \<Rightarrow> c # cs)"
    unfolding node_mask_def [of "redact n"]
    by (simp add: mask_node_def redact_def split: list.split del: if_image_distrib)
  then show ?thesis
    using campaign_mask [of n] by (simp add: redact_def split: list.split)
qed

interpretation redacted: same_views redact
  by unfold_locales (simp add: public_view_def redact_mask, simp add: redact_def is_campaign_def frontendNodeType_def)

text \<open>
  C20. The consumer's collision report reads nothing of the graph but the masks: take two graphs
  whose nodes have the same masks, kinds, scores, counts, dates and campaign labels and match the
  query alike, while their raw values differ in any way; the reports are the same.
\<close>

theorem collision_reads_only_masks:
  assumes "\<And>n. public_view (g n) = public_view n"
    and "\<And>n. n \<in> set (graph_nodes w) \<Longrightarrow> buildWhere like (trim (cqd_query dto)) (cqd_searchType dto) (g n) =
      buildWhere like (trim (cqd_query dto)) (cqd_searchType dto) n"
  shows "fst (collisionSearch like dto (graph_nodes_update (map g) w)) = fst (collisionSearch like dto w)"
  by (rule same_views.search_same [OF same_views.intro [OF assms(1)] assms(2)])

section \<open>Witness\<close>

text \<open>A campaign, found by its name, and a phone number linked to it.\<close>

definition demo_node :: "string \<Rightarrow> node_type \<Rightarrow> string option \<Rightarrow> string \<Rightarrow> graph_node" where
  "demo_node i t v l = \<lparr>gn_id = i, gn_nodeType = t, gn_indicatorType = None, gn_normalizedIndicator = v,
     gn_label = l, gn_displayMask = None, gn_category = None, gn_signalCount = 1, gn_riskScore = 90,
     gn_firstSeen = 0, gn_lastSeen = 9, gn_updatedAt = 9\<rparr>"

definition demo_ring :: graph_db where
  "demo_ring = demo_graph [demo_node ''n1'' NT_CAMPAIGN None ''Ring'',
       demo_node ''n2'' NT_INDICATOR (Some ''+15551230199'') ''+15551230199'']
     [\<lparr>ge_id = ''e1'', ge_source = ''n1'', ge_target = ''n2'', ge_edgeType = CAMPAIGN_MEMBERSHIP,
       ge_weight = 1, ge_evidenceCount = 1, ge_firstSeen = 0, ge_lastSeen = 9\<rparr>]"

theorem collision_reads_only_masks_witness:
  "fst (collisionSearch (=) \<lparr>cqd_query = ''Ring'', cqd_searchType = BY_NAME\<rparr>
       (graph_nodes_update (map redact) demo_ring)) =
     fst (collisionSearch (=) \<lparr>cqd_query = ''Ring'', cqd_searchType = BY_NAME\<rparr> demo_ring)"
proof (rule collision_reads_only_masks)
  show "public_view (redact n) = public_view n" for n by (rule redacted.view)
  have "trim ''Ring'' = ''Ring''" by (simp add: trim_def is_space_def code_def)
  then show "buildWhere (=) (trim (cqd_query \<lparr>cqd_query = ''Ring'', cqd_searchType = BY_NAME\<rparr>))
      (cqd_searchType \<lparr>cqd_query = ''Ring'', cqd_searchType = BY_NAME\<rparr>) (redact n) =
    buildWhere (=) (trim (cqd_query \<lparr>cqd_query = ''Ring'', cqd_searchType = BY_NAME\<rparr>))
      (cqd_searchType \<lparr>cqd_query = ''Ring'', cqd_searchType = BY_NAME\<rparr>) n"
    if "n \<in> set (graph_nodes demo_ring)" for n
    using that by (auto simp: demo_ring_def demo_node_def buildWhere_def mentions_def redact_def is_campaign_def)
qed

end
