(* ===== verification/InternalAdmin.thy ===== *)
theory InternalAdmin
  imports Auth InvestigatorCases Webhooks
begin

text \<open>
  The roles of the internal staff (modules/internal-admin/internal-admin.service.ts): granting,
  changing and revoking them, with the guard that keeps a last super administrator.
\<close>

section \<open>Names\<close>

definition INTERNAL_TENANT_ID :: string where
  "INTERNAL_TENANT_ID = ''11111111-1111-4111-8111-111111111111''"

fun role_text :: "membership_role \<Rightarrow> string" where
  "role_text INDIVIDUAL = ''INDIVIDUAL''"
| "role_text FAMILY_GUARDIAN = ''FAMILY_GUARDIAN''"
| "role_text PROTECTED_USER = ''PROTECTED_USER''"
| "role_text BANK_ADMIN = ''BANK_ADMIN''"
| "role_text BANK_ANALYST = ''BANK_ANALYST''"
| "role_text PLATFORM_ADMIN = ''PLATFORM_ADMIN''"
| "role_text PLATFORM_MODERATOR = ''PLATFORM_MODERATOR''"
| "role_text ROLE_INVESTIGATOR = ''INVESTIGATOR''"
| "role_text AGENCY_ANALYST = ''AGENCY_ANALYST''"
| "role_text ENTERPRISE_ADMIN = ''ENTERPRISE_ADMIN''"
| "role_text SUPER_ADMIN = ''SUPER_ADMIN''"
| "role_text REVIEWER = ''REVIEWER''"
| "role_text COMPLIANCE_OFFICER = ''COMPLIANCE_OFFICER''"
| "role_text SUPPORT = ''SUPPORT''"

record grant_role_dto =
  gi_email :: string
  gi_role :: membership_role

definition internal :: "membership \<Rightarrow> bool" where
  "internal m \<longleftrightarrow> mb_tenantId m = INTERNAL_TENANT_ID"

text \<open>A transaction: what it wrote is undone when it throws.\<close>

definition atomically :: "('w, 'a) prog \<Rightarrow> ('w, 'a) prog" where
  "atomically m = (\<lambda>w. case m w of (Inl e, _) \<Rightarrow> (Inl e, w) | (Inr a, w') \<Rightarrow> (Inr a, w'))"

section \<open>The service\<close>

text \<open>Memberships are listed by their creation, the newest first.\<close>

definition listStaff :: "('a auth_db_scheme, (membership \<times> account option) list) prog" where
  "listStaff =
     bind_p (find_rows memberships internal) (\<lambda>rows. bind_p (ask accounts) (\<lambda>us.
     ret (map (\<lambda>m. (m, find (\<lambda>u. ac_id u = mb_userId m) us)) (rev rows))))"

definition staff_event ::
    "auth_user \<Rightarrow> string \<Rightarrow> string \<Rightarrow> string \<Rightarrow> membership_role \<Rightarrow> string option \<Rightarrow> append_input" where
  "staff_event admin target evtype descr role ip =
     admin_event (Some INTERNAL_TENANT_ID) (au_userId admin) ''ADMIN'' ''USER'' target evtype descr
       (JObj [(''role'', JStr (role_text role))]) ip"

text \<open>The keys of a membership: its identifier, and the pair of account and tenant.\<close>

definition same_membership :: "membership \<Rightarrow> membership \<Rightarrow> bool" where
  "same_membership m q \<longleftrightarrow> mb_id q = mb_id m \<or> mb_userId q = mb_userId m \<and> mb_tenantId q = mb_tenantId m"

definition staff_row :: "string \<Rightarrow> membership_role \<Rightarrow> string \<Rightarrow> membership" where
  "staff_row userId role uid = \<lparr>mb_id = uid, mb_userId = userId, mb_tenantId = INTERNAL_TENANT_ID,
     mb_role = role, mb_status = MB_ACTIVE, mb_isPrimary = True\<rparr>"

definition give_role ::
    "runtime \<Rightarrow> string \<Rightarrow> membership option \<Rightarrow> membership_role \<Rightarrow> ('a auth_db_scheme, membership) prog" where
  "give_role rt userId existing role =
     seq_p (update_rows memberships_update (\<lambda>m. mb_userId m = userId) (\<lambda>m. m\<lparr>mb_isPrimary := False\<rparr>))
     (case existing of
        Some old \<Rightarrow> update_row memberships memberships_update (\<lambda>m. mb_id m = mb_id old)
          (\<lambda>m. m\<lparr>mb_role := role, mb_status := MB_ACTIVE, mb_isPrimary := True\<rparr>)
      | None \<Rightarrow> bind_p (new_id rt) (\<lambda>uid.
          insert_new memberships memberships_update same_membership (staff_row userId role uid)))"

definition grantRole ::
    "runtime \<Rightarrow> auth_user \<Rightarrow> grant_role_dto \<Rightarrow> string option \<Rightarrow> ('a auth_db_scheme, membership) prog" where
  "grantRole rt admin dto ip =
     (let email = trim (to_lower (gi_email dto)) in
      bind_p (find_row accounts (\<lambda>u. ac_email u = email)) (\<lambda>found.
      bind_p (require_some found (NotFoundException
        (''No VIGISCAM account with that email '' @ em_dash @ '' the person must register an account first''))) (\<lambda>user.
      bind_p (find_row memberships (\<lambda>m. mb_userId m = ac_id user \<and> internal m)) (\<lambda>existing.
      seq_p (ensure (case existing of None \<Rightarrow> True | Some m \<Rightarrow> mb_status m \<noteq> MB_ACTIVE) (ConflictException
        (''This account already holds an internal role '' @ em_dash @ '' change the role instead'')))
      (bind_p (atomically (give_role rt (ac_id user) existing (gi_role dto))) (\<lambda>m.
       seq_p (append_evidence rt (staff_event admin (ac_id user) ''INTERNAL_ROLE_GRANTED''
         (''Internal role '' @ role_text (gi_role dto) @ '' granted to '' @ email) (gi_role dto) ip))
       (ret m)))))))"

definition requireInternalMembership :: "string \<Rightarrow> ('a auth_db_scheme, membership) prog" where
  "requireInternalMembership i =
     bind_p (find_row memberships (\<lambda>m. mb_id m = i)) (\<lambda>found.
     bind_p (require_some found (NotFoundException ''Internal staff membership not found'')) (\<lambda>m.
     seq_p (ensure (internal m) (NotFoundException ''Internal staff membership not found''))
     (ret m)))"

definition active_super :: "membership \<Rightarrow> bool" where
  "active_super m \<longleftrightarrow> internal m \<and> mb_role m = SUPER_ADMIN \<and> mb_status m = MB_ACTIVE"

definition assertNotLastSuperAdmin :: "string \<Rightarrow> ('a auth_db_scheme, unit) prog" where
  "assertNotLastSuperAdmin exclude =
     bind_p (count_rows memberships (\<lambda>m. active_super m \<and> mb_id m \<noteq> exclude)) (\<lambda>remaining.
     ensure (remaining \<noteq> 0) (BadRequestException ''Cannot remove or demote the last active SUPER_ADMIN''))"

definition changeRole ::
    "runtime \<Rightarrow> auth_user \<Rightarrow> string \<Rightarrow> membership_role \<Rightarrow> string option \<Rightarrow> ('a auth_db_scheme, membership) prog" where
  "changeRole rt admin membershipId newRole ip =
     bind_p (requireInternalMembership membershipId) (\<lambda>m.
     seq_p (ensure (mb_role m \<noteq> newRole)
       (BadRequestException (''This membership already holds the '' @ role_text newRole @ '' role'')))
     (seq_p (ensure (mb_userId m = au_userId admin \<longrightarrow> newRole = SUPER_ADMIN)
       (BadRequestException ''You cannot demote your own SUPER_ADMIN role''))
     (seq_p (when_p (mb_role m = SUPER_ADMIN \<and> newRole \<noteq> SUPER_ADMIN) (assertNotLastSuperAdmin (mb_id m)))
     (bind_p (update_row memberships memberships_update (\<lambda>q. mb_id q = mb_id m) (\<lambda>q. q\<lparr>mb_role := newRole\<rparr>)) (\<lambda>updated.
      seq_p (append_evidence rt (staff_event admin (mb_userId m) ''INTERNAL_ROLE_CHANGED''
        (''Internal role changed from '' @ role_text (mb_role m) @ '' to '' @ role_text newRole) newRole ip))
      (ret updated))))))"

definition revokeRole ::
    "runtime \<Rightarrow> auth_user \<Rightarrow> string \<Rightarrow> string option \<Rightarrow> ('a auth_db_scheme, membership) prog" where
  "revokeRole rt admin membershipId ip =
     bind_p (requireInternalMembership membershipId) (\<lambda>m.
     seq_p (ensure (mb_userId m \<noteq> au_userId admin) (BadRequestException ''You cannot revoke your own internal role''))
     (seq_p (ensure (mb_status m = MB_ACTIVE) (BadRequestException ''This internal membership is not active''))
     (seq_p (when_p (mb_role m = SUPER_ADMIN) (assertNotLastSuperAdmin (mb_id m)))
     (bind_p (update_row memberships memberships_update (\<lambda>q. mb_id q = mb_id m)
        (\<lambda>q. q\<lparr>mb_status := MB_REMOVED, mb_isPrimary := False\<rparr>)) (\<lambda>updated.
      seq_p (append_evidence rt (staff_event admin (mb_userId m) ''INTERNAL_ROLE_REVOKED''
        (''Internal role '' @ role_text (mb_role m) @ '' revoked'') (mb_role m) ip))
      (ret updated))))))"

section \<open>The log is respected\<close>

lemma staff_event_storable [simp]: "storable (in_metadata (staff_event a t ty d r ip))"
  by (simp add: staff_event_def admin_event_def)

lemma atomically_safe: "moves (log_safe rt) m \<Longrightarrow> moves (log_safe rt) (atomically m)"
  by (auto simp: moves_def atomically_def intro: safe.refl split: prod.split sum.split dest: spec)
    (metis snd_conv)

lemma staff_safe:
  "moves (log_safe rt) (grantRole rt admin dto ip)" "moves (log_safe rt) (changeRole rt admin i role ip)"
  "moves (log_safe rt) (revokeRole rt admin i ip)"
  unfolding grantRole_def give_role_def changeRole_def revokeRole_def requireInternalMembership_def
    assertNotLastSuperAdmin_def Let_def
  by (auto simp: log_untouched intro!: safe_rules append_safe atomically_safe insert_new_safe split: option.split)

section \<open>A super administrator remains\<close>

definition staff_ok :: "'a auth_db_scheme \<Rightarrow> bool" where
  "staff_ok w \<longleftrightarrow> distinct (map mb_id (filter internal (memberships w))) \<and> (\<exists>m\<in>set (memberships w). active_super m)"

text \<open>
  Whatever the administrators do, and whatever else happens that leaves the memberships of the
  internal tenant alone, but for which of them is primary.
\<close>

inductive staff_step :: "runtime \<Rightarrow> 'a auth_db_scheme \<Rightarrow> 'a auth_db_scheme \<Rightarrow> bool" for rt where
  granted: "staff_step rt w (snd (grantRole rt admin dto ip w))"
| changed: "staff_step rt w (snd (changeRole rt admin i role ip w))"
| revoked: "staff_step rt w (snd (revokeRole rt admin i ip w))"
| elsewhere: "map (mb_isPrimary_update (\<lambda>_. False)) (filter internal (memberships w')) =
      map (mb_isPrimary_update (\<lambda>_. False)) (filter internal (memberships w)) \<Longrightarrow> staff_step rt w w'"

text \<open>The invariant as a property of the list of memberships.\<close>

definition staff_list :: "membership list \<Rightarrow> bool" where
  "staff_list ms \<longleftrightarrow> distinct (map mb_id (filter internal ms)) \<and> (\<exists>m\<in>set ms. active_super m)"

lemma staff_ok_list: "staff_ok w \<longleftrightarrow> staff_list (memberships w)"
  by (simp add: staff_ok_def staff_list_def)

lemma staff_keys:
  assumes "\<And>m. mb_id (f m) = mb_id m" "\<And>m. internal (f m) = internal m"
  shows "map mb_id (filter internal (map f ms)) = map mb_id (filter internal ms)"
  using assms by (induction ms) auto

lemma ex_map: "(\<exists>y\<in>set (map g xs). A y) \<longleftrightarrow> (\<exists>x\<in>set xs. A (g x))"
  by auto

lemma staff_unprimary:
  "staff_list (map (\<lambda>m. if P m then m\<lparr>mb_isPrimary := x\<rparr> else m) ms) \<longleftrightarrow> staff_list ms"
proof -
  have "active_super (if P m then m\<lparr>mb_isPrimary := x\<rparr> else m) \<longleftrightarrow> active_super m" for m
    by (simp add: active_super_def internal_def)
  moreover have "map mb_id (filter internal (map (\<lambda>m. if P m then m\<lparr>mb_isPrimary := x\<rparr> else m) ms)) =
      map mb_id (filter internal ms)"
    by (rule staff_keys) (simp_all add: internal_def)
  ultimately show ?thesis unfolding staff_list_def ex_map by simp
qed

text \<open>An update of one membership, when a super administrator is left beside it or in it.\<close>

lemma staff_update:
  assumes "staff_list ms" "\<And>m. mb_id (f m) = mb_id m" "\<And>m. mb_tenantId (f m) = mb_tenantId m"
    and "(\<exists>m\<in>set ms. active_super m \<and> mb_id m \<noteq> i) \<or> (\<forall>m\<in>set ms. mb_id m = i \<longrightarrow> active_super m \<longrightarrow> active_super (f m))"
  shows "staff_list (map (\<lambda>m. if mb_id m = i then f m else m) ms)"
proof -
  have "\<exists>m\<in>set ms. active_super (if mb_id m = i then f m else m)"
    using assms(1,4) unfolding staff_list_def by metis
  moreover have "map mb_id (filter internal (map (\<lambda>m. if mb_id m = i then f m else m) ms)) = map mb_id (filter internal ms)"
    by (rule staff_keys) (simp_all add: internal_def assms(2,3))
  ultimately show ?thesis using assms(1) unfolding staff_list_def ex_map by simp
qed

text \<open>The membership under an identifier, when it is one of the staff, is the only such one.\<close>

lemma staff_row_unique:
  assumes "staff_list ms" "find (\<lambda>m. mb_id m = i) ms = Some m" "internal m" "q \<in> set ms" "internal q" "mb_id q = i"
  shows "q = m"
  using assms find_SomeD [OF assms(2)] same_key [of mb_id "filter internal ms" q m] by (simp add: staff_list_def)

abbreviation keeps_staff :: "('a auth_db_scheme, 'b) prog \<Rightarrow> bool" where
  "keeps_staff m \<equiv> moves (\<lambda>w w'. staff_ok w \<longrightarrow> staff_ok w') m"

lemma staff_draws: "keeps_staff (new_id rt)" "keeps_staff (append_evidence rt input)"
  by (simp_all add: moves_def draw_defs append_result staff_ok_def)

lemma change_staff: "keeps_staff (changeRole rt admin i role ip)"
  unfolding moves_def
proof (intro allI impI)
  fix w :: "'a auth_db_scheme"
  assume w: "staff_ok w"
  show "staff_ok (snd (changeRole rt admin i role ip w))"
  proof (cases "find (\<lambda>m. mb_id m = i) (memberships w)")
    case (Some m)
    let ?left = "\<exists>q\<in>set (memberships w). active_super q \<and> mb_id q \<noteq> i"
    have id: "mb_id m = i" using find_SomeD [OF Some] by simp
    have left: "filter (\<lambda>m. active_super m \<and> mb_id m \<noteq> i) (memberships w) = [] \<longleftrightarrow> \<not> ?left"
      by (auto simp: filter_empty_conv)
    show ?thesis
    proof (cases "internal m \<and> mb_role m \<noteq> role \<and> (mb_userId m = au_userId admin \<longrightarrow> role = SUPER_ADMIN) \<and>
        (mb_role m = SUPER_ADMIN \<and> role \<noteq> SUPER_ADMIN \<longrightarrow> ?left)")
      case True
      have alone: "?left" if "q \<in> set (memberships w)" "mb_id q = i" "active_super q" for q
      proof -
        have "q = m"
          using w True that by (intro staff_row_unique [OF _ Some]) (simp_all add: staff_ok_list active_super_def)
        with that(3) have "mb_role m = SUPER_ADMIN" by (simp add: active_super_def)
        with True show ?thesis by auto
      qed
      then have "?left \<or> (\<forall>q\<in>set (memberships w). mb_id q = i \<longrightarrow> active_super q \<longrightarrow>
          active_super (q\<lparr>mb_role := role\<rparr>))" by blast
      then have "staff_list (map (\<lambda>q. if mb_id q = i then q\<lparr>mb_role := role\<rparr> else q) (memberships w))"
        using w by (intro staff_update) (simp_all add: staff_ok_list)
      then have "runs (changeRole rt admin i role ip) w (\<lambda>_ w'. staff_ok w')"
        using True by (simp add: changeRole_def requireInternalMembership_def assertNotLastSuperAdmin_def run_simps
            runs_stamped Some id left staff_ok_list)
      then show ?thesis by (auto simp: runs_iff)
    next
      case False
      then have "raises (changeRole rt admin i role ip) w (\<lambda>_ w'. w' = w)"
        using left by (auto simp: changeRole_def requireInternalMembership_def assertNotLastSuperAdmin_def run_simps Some id)
      then show ?thesis using w by (auto simp: raises_iff)
    qed
  qed (use w in \<open>simp add: changeRole_def requireInternalMembership_def prog_defs\<close>)
qed

lemma revoke_staff: "keeps_staff (revokeRole rt admin i ip)"
  unfolding moves_def
proof (intro allI impI)
  fix w :: "'a auth_db_scheme"
  assume w: "staff_ok w"
  show "staff_ok (snd (revokeRole rt admin i ip w))"
  proof (cases "find (\<lambda>m. mb_id m = i) (memberships w)")
    case (Some m)
    let ?left = "\<exists>q\<in>set (memberships w). active_super q \<and> mb_id q \<noteq> i"
    have id: "mb_id m = i" using find_SomeD [OF Some] by simp
    have left: "filter (\<lambda>m. active_super m \<and> mb_id m \<noteq> i) (memberships w) = [] \<longleftrightarrow> \<not> ?left"
      by (auto simp: filter_empty_conv)
    show ?thesis
    proof (cases "internal m \<and> mb_userId m \<noteq> au_userId admin \<and> mb_status m = MB_ACTIVE \<and>
        (mb_role m = SUPER_ADMIN \<longrightarrow> ?left)")
      case True
      have alone: "?left" if "q \<in> set (memberships w)" "mb_id q = i" "active_super q" for q
      proof -
        have "q = m"
          using w True that by (intro staff_row_unique [OF _ Some]) (simp_all add: staff_ok_list active_super_def)
        with that(3) have "mb_role m = SUPER_ADMIN" by (simp add: active_super_def)
        with True show ?thesis by auto
      qed
      then have "?left \<or> (\<forall>q\<in>set (memberships w). mb_id q = i \<longrightarrow> active_super q \<longrightarrow>
          active_super (q\<lparr>mb_status := MB_REMOVED, mb_isPrimary := False\<rparr>))" by blast
      then have "staff_list (map (\<lambda>q. if mb_id q = i then q\<lparr>mb_status := MB_REMOVED, mb_isPrimary := False\<rparr> else q)
          (memberships w))"
        using w by (intro staff_update) (simp_all add: staff_ok_list)
      then have "runs (revokeRole rt admin i ip) w (\<lambda>_ w'. staff_ok w')"
        using True by (simp add: revokeRole_def requireInternalMembership_def assertNotLastSuperAdmin_def run_simps
            runs_stamped Some id left staff_ok_list)
      then show ?thesis by (auto simp: runs_iff)
    next
      case False
      then have "raises (revokeRole rt admin i ip) w (\<lambda>_ w'. w' = w)"
        using left by (auto simp: revokeRole_def requireInternalMembership_def assertNotLastSuperAdmin_def run_simps Some id)
      then show ?thesis using w by (auto simp: raises_iff)
    qed
  qed (use w in \<open>simp add: revokeRole_def requireInternalMembership_def prog_defs\<close>)
qed

lemma give_staff:
  assumes "staff_ok w"
    and "\<And>old. existing = Some old \<Longrightarrow> old \<in> set (memberships w) \<and> internal old \<and> mb_status old \<noteq> MB_ACTIVE"
  shows "staff_ok (snd (atomically (give_role rt u existing role) w))"
proof -
  let ?ms = "map (\<lambda>m. if mb_userId m = u then m\<lparr>mb_isPrimary := False\<rparr> else m) (memberships w)"
  have ms: "staff_list ?ms" using assms(1) by (simp add: staff_unprimary staff_ok_list)
  show ?thesis
  proof (cases existing)
    case None
    have new: "staff_list (?ms @ [staff_row u role uid])" if "find (same_membership (staff_row u role uid)) ?ms = None" for uid
    proof -
      have "mb_id m \<noteq> uid" if "m \<in> set ?ms" for m
        using \<open>find (same_membership (staff_row u role uid)) ?ms = None\<close> that
        by (auto simp only: find_None_iff same_membership_def staff_row_def membership.simps)
      then have "uid \<notin> mb_id ` set (filter internal ?ms)" by (auto simp del: if_image_distrib)
      then show ?thesis using ms by (simp add: staff_list_def staff_row_def internal_def del: if_image_distrib)
    qed
    show ?thesis
      using assms(1) new
      by (auto simp: atomically_def give_role_def None update_rows_def insert_new_def new_id_def draw_def find_row_def
          insert_row_def ensure_def prog_core_defs staff_ok_list split: option.split)
  next
    case (Some old)
    have "staff_list (map (\<lambda>m. if mb_id m = mb_id old then m\<lparr>mb_role := role, mb_status := MB_ACTIVE, mb_isPrimary := True\<rparr> else m) ?ms)"
    proof (rule staff_update [OF ms], simp, simp, rule disjI2, intro ballI impI)
      fix m
      assume m: "m \<in> set ?ms" "mb_id m = mb_id old" "active_super m"
      then obtain q where q: "q \<in> set (memberships w)" "mb_id q = mb_id old" "active_super q"
        by (auto simp: active_super_def internal_def split: if_splits)
      then have "q = old"
        using assms same_key [of mb_id "filter internal (memberships w)" q old] Some
        by (auto simp: staff_ok_def active_super_def)
      with q(3) assms(2) [OF Some] show "active_super (m\<lparr>mb_role := role, mb_status := MB_ACTIVE, mb_isPrimary := True\<rparr>)"
        by (simp add: active_super_def)
    qed
    from this [unfolded map_map] show ?thesis
      using assms(1)
      by (auto simp: atomically_def give_role_def Some update_rows_def update_row_def prog_core_defs staff_ok_list
          split: option.split)
  qed
qed

lemma grant_staff: "keeps_staff (grantRole rt admin dto ip)"
  unfolding moves_def
proof (intro allI impI)
  fix w :: "'a auth_db_scheme"
  assume w: "staff_ok w"
  let ?user = "find (\<lambda>u. ac_email u = trim (to_lower (gi_email dto))) (accounts w)"
  show "staff_ok (snd (grantRole rt admin dto ip w))"
  proof (cases ?user)
    case (Some user)
    let ?existing = "find (\<lambda>m. mb_userId m = ac_id user \<and> internal m) (memberships w)"
    show ?thesis
    proof (cases "\<exists>m. ?existing = Some m \<and> mb_status m = MB_ACTIVE")
      case False
      have "staff_ok (snd (atomically (give_role rt (ac_id user) ?existing (gi_role dto)) w))"
        using False find_SomeD [of _ "memberships w"] by (intro give_staff [OF w]) blast
      then show ?thesis
        using False w
        by (auto simp: grantRole_def Let_def find_row_def Some ensure_def prog_core_defs append_result staff_ok_list
            split: option.split prod.split sum.split)
    qed (use Some w in \<open>auto simp: grantRole_def Let_def prog_defs\<close>)
  qed (use w in \<open>simp add: grantRole_def Let_def prog_defs\<close>)
qed

lemma staff_unchanged:
  assumes "map (mb_isPrimary_update (\<lambda>_. False)) (filter internal ms') =
    map (mb_isPrimary_update (\<lambda>_. False)) (filter internal ms)"
  shows "staff_list ms' \<longleftrightarrow> staff_list ms"
proof -
  have "staff_list ns \<longleftrightarrow> distinct (map mb_id (map (mb_isPrimary_update (\<lambda>_. False)) (filter internal ns))) \<and>
      (\<exists>m\<in>set (map (mb_isPrimary_update (\<lambda>_. False)) (filter internal ns)). active_super m)" for ns
    by (auto simp: staff_list_def comp_def active_super_def internal_def)
  then show ?thesis using assms by metis
qed

lemma step_staff:
  assumes "staff_step rt w w'" "staff_ok w"
  shows "staff_ok w'"
  using assms(1)
proof cases
  case elsewhere
  from assms(2) show ?thesis unfolding staff_ok_list staff_unchanged [OF elsewhere] .
qed (simp_all add: assms(2) grant_staff [unfolded moves_def, rule_format] change_staff [unfolded moves_def, rule_format]
    revoke_staff [unfolded moves_def, rule_format])

text \<open>
  C11. A super administrator remains: when there is an active one among the staff, then there is
  one after any sequence of grants, changes of roles and revocations, whoever asks for them and
  in whatever order they run.
\<close>

theorem super_admin_remains:
  assumes "distinct (map mb_id (filter internal (memberships w)))" "\<exists>m\<in>set (memberships w). active_super m"
    and "(staff_step rt)\<^sup>*\<^sup>* w w'"
  shows "\<exists>m\<in>set (memberships w'). internal m \<and> mb_role m = SUPER_ADMIN \<and> mb_status m = MB_ACTIVE"
proof -
  have "staff_ok w'"
    using assms(3) by (induction rule: rtranclp_induct) (simp add: staff_ok_def assms(1,2), rule step_staff)
  then show ?thesis by (auto simp: staff_ok_def active_super_def)
qed

section \<open>Witness\<close>

definition demo_staff :: auth_db where
  "demo_staff = demo_accounts [] [staff_row ''u1'' SUPER_ADMIN ''m1'', staff_row ''u2'' SUPER_ADMIN ''m2''] []"

text \<open>Two administrators, each of whom revokes the other: one is left.\<close>

theorem super_admin_remains_witness:
  "\<exists>m\<in>set (memberships (snd (revokeRole demo_rt (demo_user\<lparr>au_userId := ''u2''\<rparr>) ''m1'' None
      (snd (revokeRole demo_rt demo_user ''m2'' None demo_staff))))).
     internal m \<and> mb_role m = SUPER_ADMIN \<and> mb_status m = MB_ACTIVE"
proof (rule super_admin_remains)
  show "distinct (map mb_id (filter internal (memberships demo_staff)))" "\<exists>m\<in>set (memberships demo_staff). active_super m"
    by (simp_all add: demo_staff_def demo_accounts_def staff_row_def internal_def active_super_def)
  show "(staff_step demo_rt)\<^sup>*\<^sup>* demo_staff (snd (revokeRole demo_rt (demo_user\<lparr>au_userId := ''u2''\<rparr>) ''m1'' None
      (snd (revokeRole demo_rt demo_user ''m2'' None demo_staff))))"
    by (rule rtranclp.rtrancl_into_rtrancl [OF r_into_rtranclp]) (rule staff_step.revoked)+
qed

end
