(* ===== verification/ScamCheck.thy ===== *)
theory ScamCheck
  imports Takedown RiskHub
begin

text \<open>
  The public scam check (modules/scam-check): an indicator is looked up in the registry and among
  the signals, a text is scanned for the language of scams, and the three are scored together.
\<close>

section \<open>Scoring\<close>

fun STATUS_WEIGHT :: "signal_status \<Rightarrow> int" where
  "STATUS_WEIGHT VERIFIED_SCAM_INTELLIGENCE = 75"
| "STATUS_WEIGHT PUBLIC_SAFE_ALERT = 75"
| "STATUS_WEIGHT HIGH_RISK_INDICATOR = 65"
| "STATUS_WEIGHT PATTERN_MATCH = 45"
| "STATUS_WEIGHT UNDER_REVIEW = 35"
| "STATUS_WEIGHT SUSPICIOUS_SIGNAL = 30"
| "STATUS_WEIGHT UNVERIFIED_REPORT = 15"
| "STATUS_WEIGHT ARCHIVED = 5"
| "STATUS_WEIGHT REJECTED = 0"

record signal_match =
  sm_status :: signal_status
  sm_confidenceScore :: int
  sm_reportCount :: int

record check_score_input =
  ki_registryListed :: bool
  ki_registryConfidence :: "int option"
  ki_signals :: "signal_match list"
  ki_languageSignalCount :: nat

text \<open>The first match of the highest weight.\<close>

definition stronger :: "signal_match \<Rightarrow> signal_match \<Rightarrow> signal_match" where
  "stronger best s = (if STATUS_WEIGHT (sm_status s) > STATUS_WEIGHT (sm_status best) then s else best)"

definition scoreScamCheck :: "check_score_input \<Rightarrow> int \<times> risk_level" where
  "scoreScamCheck i =
     (let s1 = (if ki_registryListed i then max 0 (max 80 (or_default (ki_registryConfidence i) 0)) else 0);
          s2 = (case ki_signals i of
                  [] \<Rightarrow> s1
                | m # ms \<Rightarrow> max s1 (STATUS_WEIGHT (sm_status (foldl stronger m ms))) +
                    min 15 (sum_list (map sm_reportCount (m # ms)) * 2));
          s3 = s2 + min 20 (int (ki_languageSignalCount i) * 8);
          score = min 100 (max 0 s3)
      in (score, levelForScore score))"

section \<open>The check\<close>

record scam_check_result =
  sk_id :: string
  sk_inputType :: indicator_type
  sk_inputValue :: string
  sk_normalizedInput :: string
  sk_riskScore :: int
  sk_riskLevel :: risk_level
  sk_category :: "string option"
  sk_matchedRegistry :: js
  sk_matchedSignals :: js
  sk_suggestedAction :: string
  sk_savedToEvidence :: bool
  sk_createdAt :: int

record check_db = registry_db +
  check_results :: "scam_check_result list"

interpretation check_results_tab: table check_results check_results_update
  by unfold_locales simp

record scam_check_dto =
  kd_indicatorType :: indicator_type
  kd_indicatorValue :: string
  kd_rawText :: "string option"
  kd_createReport :: bool

record scam_check_response =
  kr_checkId :: string
  kr_inputType :: indicator_type
  kr_inputValue :: string
  kr_riskScore :: int
  kr_riskLevel :: risk_level
  kr_category :: "string option"
  kr_assessment :: string
  kr_inPublicRegistry :: bool
  kr_reportsOnRecord :: nat
  kr_scamLanguageDetected :: "string list"
  kr_recommendedAction :: string
  kr_safeNextSteps :: "string list"
  kr_reportSubmitted :: bool

fun checkAction :: "risk_level \<Rightarrow> string" where
  "checkAction CRITICAL = ''STOP_DO_NOT_SEND_MONEY_OR_INFORMATION''"
| "checkAction HIGH = ''DO_NOT_PROCEED_VERIFY_INDEPENDENTLY''"
| "checkAction MEDIUM = ''VERIFY_BEFORE_PROCEEDING''"
| "checkAction LOW = ''PROCEED_WITH_NORMAL_CAUTION''"

fun checkAssessment :: "risk_level \<Rightarrow> string" where
  "checkAssessment CRITICAL = ''This indicator matches verified scam intelligence or strong high-risk signals. Do not send money or share information.''"
| "checkAssessment HIGH = ''This is a high-risk indicator and is very likely connected to a scam.''"
| "checkAssessment MEDIUM = ''This indicator shows suspicious signals. Treat it with caution and verify independently.''"
| "checkAssessment LOW = ''No verified scam intelligence matched this indicator. No strong scam signals were found '' @ em_dash @ '' always stay cautious.''"

definition safeNextSteps :: "risk_level \<Rightarrow> string list" where
  "safeNextSteps level =
     [''Do not send money, gift cards, or cryptocurrency based on this contact.'',
      ''Never share passwords, one-time codes, or banking details.'',
      ''Verify any request through an official channel you find yourself '' @ em_dash @ '' not a number or link they gave you.'',
      ''If you feel rushed or pressured, pause '' @ em_dash @ '' urgency is itself a common scam '' @ ''tacti'' @ ''c.''] @
     (if level = HIGH \<or> level = CRITICAL
      then [''If money may already have been sent, contact your bank immediately.'',
            ''Report this to VIGISCAM and to your local authorities.''] else [])"

definition listed_as :: "indicator_type \<Rightarrow> string \<Rightarrow> registry_entry \<Rightarrow> bool" where
  "listed_as ty normalized e \<longleftrightarrow> re_normalizedIndicator e = normalized \<and> re_indicatorType e = ty \<and>
     re_status e = EN_PUBLISHED"

definition to_match :: "scam_signal \<Rightarrow> signal_match" where
  "to_match s = \<lparr>sm_status = ss_status s, sm_confidenceScore = ss_confidenceScore s,
     sm_reportCount = ss_reportCount s\<rparr>"

definition check_language :: "scam_check_dto \<Rightarrow> language_result" where
  "check_language dto = detectScamLanguage (or_default (kd_rawText dto)
     (if kd_indicatorType dto = IT_SCAM_PHRASE then kd_indicatorValue dto else []))"

definition check_score :: "scam_check_dto \<Rightarrow> registry_entry option \<Rightarrow> scam_signal list \<Rightarrow> int \<times> risk_level" where
  "check_score dto entry ss = scoreScamCheck
     \<lparr>ki_registryListed = (entry \<noteq> None), ki_registryConfidence = map_option re_confidenceScore entry,
      ki_signals = map to_match ss, ki_languageSignalCount = length (lr_signals (check_language dto))\<rparr>"

definition check_category :: "registry_entry option \<Rightarrow> scam_signal list \<Rightarrow> string option" where
  "check_category entry ss = or_else (map_option re_category entry)
     (case find (\<lambda>s. truthy (ss_category s)) ss of None \<Rightarrow> None | Some s \<Rightarrow> ss_category s)"

definition check_row ::
    "scam_check_dto \<Rightarrow> registry_entry option \<Rightarrow> scam_signal list \<Rightarrow> string \<Rightarrow> int \<Rightarrow> scam_check_result" where
  "check_row dto entry ss uid t =
     (let (score, level) = check_score dto entry ss in
      \<lparr>sk_id = uid, sk_inputType = kd_indicatorType dto, sk_inputValue = trim (kd_indicatorValue dto),
       sk_normalizedInput = normalizeIndicator (kd_indicatorType dto) (kd_indicatorValue dto),
       sk_riskScore = score, sk_riskLevel = level, sk_category = check_category entry ss,
       sk_matchedRegistry = (case entry of None \<Rightarrow> JNull | Some e \<Rightarrow>
         JObj [(''id'', JStr (re_id e)), (''status'', JStr (entry_status_text (re_status e))),
           (''category'', JStr (re_category e))]),
       sk_matchedSignals = JObj [(''count'', JNum (int (length ss))),
         (''totalReports'', JNum (sum_list (map ss_reportCount ss)))],
       sk_suggestedAction = checkAction level, sk_savedToEvidence = True, sk_createdAt = t\<rparr>)"

definition check_event ::
    "scam_check_dto \<Rightarrow> scam_check_result \<Rightarrow> bool \<Rightarrow> string option \<Rightarrow> append_input" where
  "check_event dto r listed ip =
     \<lparr>in_tenantId = None, in_actorId = None, in_actorType = Some ''PUBLIC'', in_entityType = ''SCAM_CHECK'',
      in_entityId = sk_id r, in_eventType = ''SCAM_CHECK_COMPLETED'',
      in_eventDescription = ''Public scam check on a '' @ indicator_text (kd_indicatorType dto) @ '' scored '' @
        show_int (sk_riskScore r) @ '' ('' @ level_text (sk_riskLevel r) @ '')'',
      in_metadata = JObj [(''riskScore'', JNum (sk_riskScore r)), (''riskLevel'', JStr (level_text (sk_riskLevel r))),
        (''inPublicRegistry'', JBool listed)],
      in_ipAddress = ip, in_deviceId = None\<rparr>"

definition check_report :: "scam_check_dto \<Rightarrow> string option \<Rightarrow> report_dto" where
  "check_report dto category =
     \<lparr>rd_indicatorType = kd_indicatorType dto, rd_indicatorValue = kd_indicatorValue dto, rd_category = category,
      rd_description = None, rd_rawText = kd_rawText dto, rd_geography = None\<rparr>"

definition check_response ::
    "scam_check_dto \<Rightarrow> registry_entry option \<Rightarrow> scam_signal list \<Rightarrow> scam_check_result \<Rightarrow> scam_check_response" where
  "check_response dto entry ss r =
     \<lparr>kr_checkId = sk_id r, kr_inputType = kd_indicatorType dto, kr_inputValue = kd_indicatorValue dto,
      kr_riskScore = sk_riskScore r, kr_riskLevel = sk_riskLevel r, kr_category = sk_category r,
      kr_assessment = checkAssessment (sk_riskLevel r), kr_inPublicRegistry = (entry \<noteq> None),
      kr_reportsOnRecord = length ss, kr_scamLanguageDetected = lr_tactics (check_language dto),
      kr_recommendedAction = checkAction (sk_riskLevel r), kr_safeNextSteps = safeNextSteps (sk_riskLevel r),
      kr_reportSubmitted = kd_createReport dto\<rparr>"

definition scam_check ::
    "runtime \<Rightarrow> ai_services \<Rightarrow> scam_check_dto \<Rightarrow> string option \<Rightarrow> ('a check_db_scheme, scam_check_response) prog" where
  "scam_check rt ai dto ip =
     (let normalized = normalizeIndicator (kd_indicatorType dto) (kd_indicatorValue dto) in
      bind_p (find_row registry_entries (listed_as (kd_indicatorType dto) normalized)) (\<lambda>entry.
      bind_p (find_rows signals (same_indicator (kd_indicatorType dto) normalized)) (\<lambda>found.
      let ss = take 50 found in
      bind_p (new_id rt) (\<lambda>uid. bind_p (now rt) (\<lambda>t.
      bind_p (insert_row check_results_update (check_row dto entry ss uid t)) (\<lambda>r.
      seq_p (append_evidence rt (check_event dto r (entry \<noteq> None) ip))
      (seq_p (when_p (kd_createReport dto)
         (void_p (submitReport rt ai (check_report dto (check_category entry ss)) ip)))
       (ret (check_response dto entry ss r)))))))))"

section \<open>The log is respected\<close>

lemma scam_check_safe: "moves (log_safe rt) (scam_check rt ai dto ip)"
  unfolding scam_check_def Let_def
  by (auto simp: log_untouched check_event_def intro!: safe_rules append_safe submitReport_safe)

section \<open>What a check answers\<close>

lemma sum_list_nonneg_counts: "\<forall>m\<in>set ms. 0 \<le> sm_reportCount m \<Longrightarrow> 0 \<le> sum_list (map sm_reportCount ms)"
  by (induction ms) auto

text \<open>Scores stay within bounds, and a listing alone is worth 80 points.\<close>

lemma check_score_bounds:
  "scoreScamCheck i = (n, l) \<Longrightarrow> 0 \<le> n \<and> n \<le> 100 \<and> l = levelForScore n"
proof -
  assume "scoreScamCheck i = (n, l)"
  then obtain x where "n = min 100 (max 0 x)" "l = levelForScore n"
    unfolding scoreScamCheck_def Let_def prod.inject by blast
  then show ?thesis by simp
qed

lemma listed_score:
  assumes "scoreScamCheck i = (n, l)" "ki_registryListed i" "\<forall>m\<in>set (ki_signals i). 0 \<le> sm_reportCount m"
  shows "80 \<le> n"
proof -
  let ?s1 = "max 80 (or_default (ki_registryConfidence i) 0)"
  let ?s2 = "case ki_signals i of [] \<Rightarrow> ?s1
    | m # ms \<Rightarrow> max ?s1 (STATUS_WEIGHT (sm_status (foldl stronger m ms))) + min 15 (sum_list (map sm_reportCount (m # ms)) * 2)"
  have s2: "80 \<le> ?s2"
    using sum_list_nonneg_counts [OF assms(3)] by (auto split: list.split)
  have "n = min 100 (max 0 (?s2 + min 20 (int (ki_languageSignalCount i) * 8)))"
    using assms(1,2) by (auto simp: scoreScamCheck_def Let_def)
  moreover have "80 + 0 \<le> ?s2 + min 20 (int (ki_languageSignalCount i) * 8)"
    by (rule add_mono [OF s2]) simp
  ultimately show ?thesis by simp
qed

text \<open>The run of a check that files no report.\<close>

lemma scam_check_runs:
  assumes "\<not> kd_createReport dto"
    and "entry = find (listed_as (kd_indicatorType dto) (normalizeIndicator (kd_indicatorType dto) (kd_indicatorValue dto)))
      (registry_entries w)"
    and "ss = take 50 (filter (same_indicator (kd_indicatorType dto)
      (normalizeIndicator (kd_indicatorType dto) (kd_indicatorValue dto))) (signals w))"
  shows "runs (scam_check rt ai dto ip) w (\<lambda>r w'. \<exists>row. r = check_response dto entry ss row \<and>
    row = check_row dto entry ss (sk_id row) (sk_createdAt row) \<and> check_results w' = check_results w @ [row] \<and>
    (\<exists>e. evidence_events w' = evidence_events w @ [e] \<and> ev_eventType e = ''SCAM_CHECK_COMPLETED'' \<and>
       ev_entityId e = sk_id row))"
proof -
  have row: "sk_id (check_row dto entry ss uid t) = uid" "sk_createdAt (check_row dto entry ss uid t) = t" for uid t
    by (simp_all add: check_row_def split: prod.split)
  show ?thesis
    using assms(1) unfolding assms(2,3)
    by (simp add: scam_check_def Let_def run_simps runs_stamped row [unfolded assms(2,3)] check_event_def)
qed

text \<open>
  A check of a published indicator is never answered lightly: the score is at least 80, the level
  high or critical, the answer says that the indicator is in the registry, and the check is
  stored and logged.
\<close>

lemma listed_indicator_warned:
  assumes "\<not> kd_createReport dto" "\<forall>s\<in>set (signals w). 0 \<le> ss_reportCount s"
    and "\<exists>e\<in>set (registry_entries w). listed_as (kd_indicatorType dto)
      (normalizeIndicator (kd_indicatorType dto) (kd_indicatorValue dto)) e"
  shows "runs (scam_check rt ai dto ip) w (\<lambda>r w'. 80 \<le> kr_riskScore r \<and> kr_riskScore r \<le> 100 \<and>
    kr_riskLevel r \<in> {HIGH, CRITICAL} \<and> kr_inPublicRegistry r \<and>
    (\<exists>row. check_results w' = check_results w @ [row] \<and> sk_riskScore row = kr_riskScore r))"
proof -
  let ?n = "normalizeIndicator (kd_indicatorType dto) (kd_indicatorValue dto)"
  let ?entry = "find (listed_as (kd_indicatorType dto) ?n) (registry_entries w)"
  let ?ss = "take 50 (filter (same_indicator (kd_indicatorType dto) ?n) (signals w))"
  have listed: "?entry \<noteq> None" using assms(3) by (auto simp: find_None_iff)
  obtain n l where score: "check_score dto ?entry ?ss = (n, l)" by force
  have counts: "\<forall>m\<in>set (map to_match ?ss). 0 \<le> sm_reportCount m"
    using assms(2) by (auto simp: to_match_def dest!: in_set_takeD)
  have n: "80 \<le> n" "n \<le> 100" "l = levelForScore n"
    using listed_score [OF score [unfolded check_score_def]] check_score_bounds [OF score [unfolded check_score_def]]
      listed counts by auto
  have row: "sk_riskScore (check_row dto ?entry ?ss uid t) = n" "sk_riskLevel (check_row dto ?entry ?ss uid t) = l" for uid t
    by (simp_all add: check_row_def score)
  show ?thesis
  proof (rule runs_mono [OF scam_check_runs [OF assms(1) refl refl]], elim exE conjE, goal_cases)
    case (1 r w' r1 e)
    from 1(2) row have "sk_riskScore r1 = n" "sk_riskLevel r1 = l" by metis+
    with 1 n listed show ?case by (auto simp: check_response_def levelForScore_def)
  qed
qed

text \<open>
  C33. The check hands out text of unverified reports: for an indicator that no published entry
  names, the category in the answer is the one some reporter wrote for it, of any status and
  whatever the text says; neither a reviewer nor the public-safe language gate stands between.
\<close>

theorem check_echoes_reports:
  assumes "\<not> kd_createReport dto"
    and "find (listed_as (kd_indicatorType dto) (normalizeIndicator (kd_indicatorType dto) (kd_indicatorValue dto)))
      (registry_entries w) = None"
    and "find (\<lambda>s. truthy (ss_category s)) (take 50 (filter (same_indicator (kd_indicatorType dto)
      (normalizeIndicator (kd_indicatorType dto) (kd_indicatorValue dto))) (signals w))) = Some s"
  shows "runs (scam_check rt ai dto ip) w (\<lambda>r w'. kr_category r = ss_category s \<and> \<not> kr_inPublicRegistry r)"
proof (rule runs_mono [OF scam_check_runs [OF assms(1) refl refl]], elim exE conjE, goal_cases)
  case (1 r w' row e)
  have "sk_category (check_row dto None ss uid t) = check_category None ss" for ss uid t
    by (simp add: check_row_def split: prod.split)
  with 1(2) have "sk_category row = ss_category s"
    unfolding assms(2) by (metis assms(3) check_category_def option.map(1) option.simps(5) or_else_simps(1))
  with 1(1) show ?case by (simp add: check_response_def assms(2))
qed

section \<open>Witness\<close>

definition demo_accused :: scam_signal where
  "demo_accused = (demo_signal ''s1'' ''evil.io'')\<lparr>ss_status := UNVERIFIED_REPORT,
     ss_category := Some ''He is a con artist''\<rparr>"

definition demo_public_check :: check_db where
  "demo_public_check = registry_db.extend ((demo_registry [] [])\<lparr>signals := [demo_accused]\<rparr>) (check_db.fields [])"

text \<open>An accusation that the gate of the registry refuses comes back from the public check.\<close>

theorem check_echoes_reports_witness:
  "findUnsafeLanguage ''He is a con artist'' \<noteq> None \<and>
   runs (scam_check demo_rt demo_ai \<lparr>kd_indicatorType = IT_DOMAIN, kd_indicatorValue = ''evil.io'', kd_rawText = None,
       kd_createReport = False\<rparr> None) demo_public_check (\<lambda>r _. kr_category r = Some ''He is a con artist'')"
proof
  have normal: "normalizeDomain ''evil.io'' = ''evil.io''" by (simp add: normal_eval)
  show "runs (scam_check demo_rt demo_ai \<lparr>kd_indicatorType = IT_DOMAIN, kd_indicatorValue = ''evil.io'', kd_rawText = None,
       kd_createReport = False\<rparr> None) demo_public_check (\<lambda>r _. kr_category r = Some ''He is a con artist'')"
    by (rule runs_mono [OF check_echoes_reports [where s = demo_accused]])
      (simp_all add: demo_public_check_def demo_registry_def demo_accused_def demo_signal_def same_indicator_def normal
        truthy_def registry_db.extend_def check_db.fields_def)
qed (rule unsafe_example)

end
