(* ===== verification/Spec2Isabelle.thy ===== *)
theory Spec2Isabelle
  imports EvidenceVault EvidenceFiles Notifications RiskScoring TrustedReview Protection
    GuardianPause ScamHold GiftCardGuard Indicators FraudGraph ClaimVerify Serving Families
    Billing PartnerKeys ScamMirror Auth AgencyFeeds InvestigatorCases RiskHub Portals
    Enterprise DetectionRules IdentityCollision
    InternalAdmin ScamCheck
begin

text \<open>
  A model of the VIGISCAM backend, a NestJS service in TypeScript over Prisma and PostgreSQL
  (src/src), with the theorems that make it correct.

  \<^bold>\<open>The system.\<close> Reports of scam indicators come in from the public, from partners and from the
  protection modules (scam-signals); they are merged by the normal form of the indicator, scored,
  clustered, classified and enriched (clustering, ai, osint, fraud-graph), and queued for review.
  A reviewer's verdict (review-queue) may verify a signal; an administrator makes it a registry
  candidate, approves and publishes it (registry); the public searches the registry through a
  cache, appeals against entries, and reads regional alerts (public-alerts); publication drafts
  takedown requests (takedown) and tells the tenants' webhooks (webhooks). Beside this line the
  protection modules screen what a user is about to do (scamhold, giftcardguard, walletguard,
  claimverify), open pauses (guardian-pause) and ask a trusted contact (trusted-contact-review)
  under a policy (protection-settings). Everything that happens is written to a hash-chained log
  (evidence-vault), and people are told through notifications. Around both lines stand the accounts
  and tokens (auth, families, devices, sessions), the subscriptions (billing), and the portals of
  banks, platforms, enterprises, investigators, agencies and partners (bank-portal,
  platform-portal, enterprise-portal, investigator-portal, agency-feeds, partner-keys).

  \<^bold>\<open>How it is modelled.\<close> A service method is a program: a function from the state of the database
  to an exception or a value, and the state after it (Prelude). What was written before a throw
  stays written, as in the source, which uses few transactions. The database is a record of
  tables, each a list of rows, in layers that follow the imports of the modules: \<open>core_db\<close>
  (Database: log, jobs, clock), then the files, notifications, reviews, settings, pauses, holds,
  graph, wallets, clusters, intelligence, reports, claims, webhooks and registry, each record
  extending the one before, so that an operation of an early layer runs unchanged in every later
  one. An operation that cannot see a later table cannot change it, and the laws \<open>moves R m\<close> of
  Prelude give this for whole services. The runtime record holds what is outside: clock, uuids,
  random tokens, SHA-256, the providers; a draw takes the number of draws before it.

  \<^bold>\<open>The theories.\<close> Names are those of the source.
  \<^item> Prelude, Json, JsonRead, Database: exceptions, programs and their weakest conditions \<open>runs\<close>
    and \<open>raises\<close>, tables, JavaScript's strings, dates and JSON (write and read), the enums of
    prisma/schema.prisma, the first layer of the state.
  \<^item> EvidenceVault, EvidenceFiles (modules/evidence-vault, common/blob): the hash chain, its
    verification, files, bundles and share links. Every later theory shows that its operations
    respect the log (\<open>moves (log_safe rt)\<close>), so the invariant of the chain holds throughout, with
    one exception: the update of an investigator's case writes metadata with undefined members
    whenever a field is left out, and breaks the chain (\<open>incomplete_update_breaks_chain\<close>).
  \<^item> Notifications, RiskScoring, TrustedReview, Protection, GuardianPause, HeldAction, ScamHold,
    GiftCardGuard, WalletGuard, ClaimVerify: the protection modules, with the policy and its gate,
    the one-shot decisions and the scorers.
  \<^item> Indicators, FraudGraph, Clustering, NlpStub, EmbeddingStub, OsintStub, Enrichment,
    ScamSignals: normal forms and masks, the graph and its invariant, the local stubs of the AI
    services with the fallback to them, the intake of reports.
  \<^item> Webhooks, ReviewQueue, SafeLanguage, Cache, RegistryData, Takedown, CachedReads, Registry,
    RegistryAppeal, PublicSearch, PublicAlerts: the way to the public and back.
  \<^item> Pipeline: the reachable states of the operations of all of these together. Serving: the same
    operations interleaved with searches and listings in two steps, query and write to the cache.
  \<^item> Families (on the reviews), LiveSessions and RiskHub (on the pauses): guardianship by consent,
    devices and sessions, FreezeLock, the risk hub and the A1SCAMSHIELD phrases.
  \<^item> ScamMirror, IdentityCollision (on the graph): the transcripts without credentials, and the two
    searches of the identity graph.
  \<^item> Auth and InternalAdmin, Billing, PartnerKeys, DetectionRules (on the reports): accounts and
    refresh tokens, the roles of the staff, the subscriptions fed by Stripe's webhooks, keys and
    quotas, the rules and their suggestions.
  \<^item> ScamCheck and AgencyFeeds (on the registry), InvestigatorCases (on the log), Portals (on the claims),
    Enterprise (on the subscriptions): the public check and the portals. These layers do not extend each other; a
    property of one of them speaks of the operations of its own layer and of anything else that
    leaves its tables alone.

  \<^bold>\<open>What the lemmas show.\<close> For the log: an append extends the chain and keeps it intact exactly when its
  metadata survive the JSON column, the last hash commits to the whole log, an edit that leaves
  the hash alone is located, tenants are isolated. For the protection line: the gate lets
  through exactly what the policy allows, decisions are made once and by the right person,
  scorers are monotone and bounded. For the graph, the clusters and the links: their invariants
  under every operation. For the registry: the governance operations refine an abstract
  lifecycle, takedowns always move towards an end, appeals are decided once, and, over all
  components, each item the public can see is traced in the log to a reviewer, an approval and a
  publication. For the accounts and portals: refresh tokens work once, a guardian sees only what
  was consented to, a revoked key stays out, quotas leak by no more than the counts in flight
  or lost, redelivered billing events change nothing, feeds whose times differ deliver every entry
  once, closed cases are frozen, there is one opinion
  per case, stored policies are well typed, no detection rule activates itself, a super
  administrator always remains, and the consumer report depends on masks alone. Properties of
  kind \<open>error\<close> pin down where the code does not do what its comments say. The interfaces between
  components are locales: \<open>table\<close>, \<open>step_preorder\<close>, \<open>prefix_cache\<close>, \<open>cached_answers\<close>, and the readings of the state that a component leaves alone
  (\<open>unenriched\<close>, \<open>unreported\<close>, \<open>unhooked\<close>, \<open>published_view\<close>), the two tables of links of a case
  (\<open>link_table\<close>) and the ways to alter a graph unseen (\<open>same_views\<close>), each interpreted on the model.

  \<^bold>\<open>Bounds.\<close> All operations are total functions; recursion is structural, or has a measure
  (\<open>replace_all\<close>, the JSON reader). No fuel is used. The sizes in the code (pages, cache entries,
  histories) are constants of the model under their names.

  \<^bold>\<open>What is not modelled, and why.\<close> Strings are lists of 8-bit characters, which covers ASCII and
  Latin-1 text; numbers are unbounded integers, and the rationals where the source computes with
  floating point, with the square root a parameter. The database is taken at the level of
  Prisma's calls: each call is atomic, foreign keys (but for the source of a detection rule) and
  the order of rows that an \<open>orderBy\<close> leaves open are not modelled (ties keep the order of
  insertion), and two requests interleave only where a theorem says so: the reads through the
  cache (Serving, and the races of PublicSearch and PublicAlerts) and the counting of partner
  requests (PartnerKeys). Prisma's containment test
  without case is a parameter. What the source starts without awaiting (deliveries, enrichment)
  runs at once, but for the counts of the partner keys. External services, HTTP, HMAC, regular expressions given as data, Redis and the websocket transport are parameters or are left out. Controllers, guards, modules
  and DTO decorators are framework glue: a DTO is the record of its fields, and validation by
  decorators happens before the modelled methods. Not modelled at all are: risk fusion
  v2 and the authenticity checks, which combine or store scores that no other part reads back
  except for display; metrics, the administration console, oversight, model governance and the
  partner queries, which list and count over modelled tables; the generated API types; and configuration, health,
  websockets, queues and workers, which are transport.
\<close>

end
